(* ===== verification/Prelude.thy ===== *)
theory Prelude
  imports Complex_Main "HOL-Library.Multiset" "HOL-Library.AList"
    "HOL-Library.Char_ord" "HOL-Library.List_Lexorder" "HOL-Library.Product_Lexorder"
begin

text \<open>
  What every component shares:

  \<^item> Go's 64-bit signed integers, written as \<open>int\<close> with the wrap-around of \<open>int64\<close>
    spelled out (\<open>wrap64\<close>), and sums of them;
  \<^item> Go's maps, written as association lists with distinct keys: the order of the list is
    the order in which one \<open>range\<close> statement happens to visit the map, so a result that
    does not depend on that order is a theorem and not a convention;
  \<^item> \<open>sort.Slice\<close> and \<open>sort.SliceStable\<close>, written as a stable insertion sort over the
    \<open>less\<close> function of the call, with the laws of strict weak orders as a locale;
  \<^item> loops that return the first error they meet, and \<open>strings.TrimSpace\<close> on bytes.
\<close>

named_theorems go_arith \<open>rewrite rules for wrapping 64-bit arithmetic\<close>
named_theorems go_map \<open>rewrite rules for maps kept as association lists\<close>

type_synonym ('e, 'a) result = "'e + 'a"

section \<open>64-bit signed integers\<close>

definition wrap64 :: "int \<Rightarrow> int" where
  "wrap64 x = (x + 2 ^ 63) mod 2 ^ 64 - 2 ^ 63"

definition in_int64 :: "int \<Rightarrow> bool" where
  "in_int64 x \<longleftrightarrow> - (2 ^ 63) \<le> x \<and> x < 2 ^ 63"

definition i64add :: "int \<Rightarrow> int \<Rightarrow> int" where
  "i64add a b = wrap64 (a + b)"

definition i64sum :: "int list \<Rightarrow> int" where
  "i64sum xs = foldl i64add 0 xs"

lemma wrap64_in_int64 [simp]: "in_int64 (wrap64 x)"
  by (simp add: wrap64_def in_int64_def)

lemma wrap64_id [go_arith]: "in_int64 x \<Longrightarrow> wrap64 x = x"
  by (simp add: wrap64_def in_int64_def)

lemma wrap64_wrap64 [simp]: "wrap64 (wrap64 x) = wrap64 x"
  by (rule wrap64_id) simp

lemma wrap64_eq_iff: "wrap64 a = wrap64 b \<longleftrightarrow> a mod 2 ^ 64 = b mod 2 ^ 64"
proof -
  have "wrap64 a = wrap64 b \<longleftrightarrow> (a + 2 ^ 63) mod 2 ^ 64 = (b + 2 ^ 63) mod 2 ^ 64"
    by (simp add: wrap64_def)
  also have "\<dots> \<longleftrightarrow> a mod 2 ^ 64 = b mod 2 ^ 64"
    by (simp only: mod_eq_dvd_iff) simp
  finally show ?thesis .
qed

lemma wrap64_mod [simp]: "wrap64 x mod 2 ^ 64 = x mod 2 ^ 64"
proof -
  have "wrap64 x mod 2 ^ 64 = ((x + 2 ^ 63) mod 2 ^ 64 - 2 ^ 63) mod 2 ^ 64"
    by (simp add: wrap64_def)
  also have "\<dots> = x mod 2 ^ 64"
    by (simp only: mod_diff_left_eq) simp
  finally show ?thesis .
qed

lemma wrap64_add_left [go_arith]: "wrap64 (wrap64 a + b) = wrap64 (a + b)"
  by (metis mod_add_left_eq wrap64_eq_iff wrap64_mod)

lemma wrap64_add_right [go_arith]: "wrap64 (a + wrap64 b) = wrap64 (a + b)"
  by (metis add.commute wrap64_add_left)

lemma i64add_commute: "i64add a b = i64add b a"
  by (simp add: i64add_def add.commute)

lemma i64add_assoc: "i64add (i64add a b) c = i64add a (i64add b c)"
  by (simp add: i64add_def wrap64_add_left wrap64_add_right add.assoc)

lemma i64add_exact: "in_int64 (a + b) \<Longrightarrow> i64add a b = a + b"
  by (simp add: i64add_def wrap64_id)

lemma in_int64_i64add [simp]: "in_int64 (i64add a b)"
  by (simp add: i64add_def)

text \<open>A running sum that wraps at every step is the exact sum wrapped once.\<close>

lemma foldl_i64add: "foldl i64add (wrap64 a) xs = wrap64 (a + sum_list xs)"
  by (induction xs arbitrary: a) (simp_all add: i64add_def wrap64_add_left add.assoc)

lemma wrap64_0 [simp]: "wrap64 0 = 0"
  by (simp add: wrap64_def)

lemma i64sum_wrap: "i64sum xs = wrap64 (sum_list xs)"
  using foldl_i64add [of 0 xs] by (simp add: i64sum_def)

lemma i64sum_perm: "mset xs = mset ys \<Longrightarrow> i64sum xs = i64sum ys"
  by (metis i64sum_wrap sum_mset_sum_list)

lemma in_int64_i64sum [simp]: "in_int64 (i64sum xs)"
  by (simp add: i64sum_wrap)

lemma i64sum_exact: "in_int64 (sum_list xs) \<Longrightarrow> i64sum xs = sum_list xs"
  by (simp add: i64sum_wrap wrap64_id)

section \<open>Maps as association lists\<close>

type_synonym ('k, 'v) gomap = "('k \<times> 'v) list"

definition go_get :: "'v \<Rightarrow> ('k, 'v) gomap \<Rightarrow> 'k \<Rightarrow> 'v" where
  \<comment> \<open>\<open>m[k]\<close>: the zero value where the key is missing\<close>
  "go_get d m k = (case map_of m k of None \<Rightarrow> d | Some v \<Rightarrow> v)"

definition go_has :: "('k, 'v) gomap \<Rightarrow> 'k \<Rightarrow> bool" where
  "go_has m k \<longleftrightarrow> map_of m k \<noteq> None"

definition go_map_ok :: "('k, 'v) gomap \<Rightarrow> bool" where
  "go_map_ok m \<longleftrightarrow> distinct (map fst m)"

lemma go_get_update [go_map]:
  "go_get d (AList.update k v m) k' = (if k' = k then v else go_get d m k')"
  by (simp add: go_get_def update_conv)

lemma go_has_update [go_map]: "go_has (AList.update k v m) k' \<longleftrightarrow> k' = k \<or> go_has m k'"
  by (simp add: go_has_def update_conv)

lemma go_map_ok_update [go_map]: "go_map_ok m \<Longrightarrow> go_map_ok (AList.update k v m)"
  by (simp add: go_map_ok_def distinct_update)

lemma go_map_ok_Nil [simp]: "go_map_ok []"
  by (simp add: go_map_ok_def)

lemma go_get_Nil [simp]: "go_get d [] k = d"
  by (simp add: go_get_def)

lemma go_has_Nil [simp]: "\<not> go_has [] k"
  by (simp add: go_has_def)

lemma go_has_iff: "go_has m k \<longleftrightarrow> k \<in> fst ` set m"
  by (simp add: go_has_def map_of_eq_None_iff)

lemma go_map_of_perm:
  assumes "go_map_ok m" and "mset m = mset m'"
  shows "map_of m = map_of m'"
proof -
  have d: "distinct (map fst m')"
    using assms by (metis go_map_ok_def mset_eq_imp_distinct_iff mset_map)
  have "set m = set m'"
    using assms(2) by (rule mset_eq_setD)
  then show ?thesis
    using assms(1) d by (simp add: go_map_ok_def map_of_inject_set)
qed

section \<open>Loops that may return an error\<close>

text \<open>\<open>for _, x := range xs { if err := body; err != nil { return err } }\<close>: the first
  error ends the loop.\<close>

primrec fold_res :: "('s \<Rightarrow> 'a \<Rightarrow> ('e, 's) result) \<Rightarrow> 's \<Rightarrow> 'a list \<Rightarrow> ('e, 's) result" where
  "fold_res f s [] = Inr s"
| "fold_res f s (x # xs) = (case f s x of Inl e \<Rightarrow> Inl e | Inr s' \<Rightarrow> fold_res f s' xs)"

primrec first_error :: "('a \<Rightarrow> 'e option) \<Rightarrow> 'a list \<Rightarrow> 'e option" where
  "first_error f [] = None"
| "first_error f (x # xs) = (case f x of Some e \<Rightarrow> Some e | None \<Rightarrow> first_error f xs)"

lemma first_error_None [simp]: "first_error f xs = None \<longleftrightarrow> (\<forall>x \<in> set xs. f x = None)"
  by (induction xs) (auto split: option.split)

lemma fold_res_inv:
  assumes "fold_res f s xs = Inr t" and "P s"
    and step: "\<And>s x s'. P s \<Longrightarrow> f s x = Inr s' \<Longrightarrow> P s'"
  shows "P t"
  using assms(1,2)
proof (induction xs arbitrary: s)
  case (Cons x xs)
  obtain s' where s': "f s x = Inr s'" "fold_res f s' xs = Inr t"
    using Cons.prems(1) by (auto split: sum.splits)
  have "P s'" using step [OF Cons.prems(2) s'(1)] .
  then show ?case using Cons.IH [OF s'(2)] by blast
qed simp

lemma fold_res_append:
  "fold_res f s (xs @ ys) = (case fold_res f s xs of Inl e \<Rightarrow> Inl e | Inr s' \<Rightarrow> fold_res f s' ys)"
  by (induction xs arbitrary: s) (auto split: sum.split)

lemma fold_res_cong:
  assumes "\<And>s x. x \<in> set xs \<Longrightarrow> f s x = g s (h x)"
  shows "fold_res f s xs = fold_res g s (map h xs)"
  using assms
proof (induction xs arbitrary: s)
  case (Cons x xs)
  have "f s x = g s (h x)" by (rule Cons.prems) simp
  moreover have "fold_res f s' xs = fold_res g s' (map h xs)" for s'
    by (rule Cons.IH) (simp add: Cons.prems)
  ultimately show ?case by (simp split: sum.split)
qed simp

section \<open>Strings\<close>

text \<open>
  A Go string is its bytes.  \<open>strings.TrimSpace\<close> removes the code points with the Unicode
  property White Space, here by their UTF-8 encodings: no encoding is a prefix or a suffix
  of another, so the longest run is removed from either end.
\<close>

definition space_runes :: "string list" where
  "space_runes =
    [[CHR 0x20], [CHR 0x09], [CHR 0x0A], [CHR 0x0B], [CHR 0x0C], [CHR 0x0D],
     [CHR 0xC2, CHR 0x85], [CHR 0xC2, CHR 0xA0], [CHR 0xE1, CHR 0x9A, CHR 0x80],
     [CHR 0xE2, CHR 0x80, CHR 0x80], [CHR 0xE2, CHR 0x80, CHR 0x81],
     [CHR 0xE2, CHR 0x80, CHR 0x82], [CHR 0xE2, CHR 0x80, CHR 0x83],
     [CHR 0xE2, CHR 0x80, CHR 0x84], [CHR 0xE2, CHR 0x80, CHR 0x85],
     [CHR 0xE2, CHR 0x80, CHR 0x86], [CHR 0xE2, CHR 0x80, CHR 0x87],
     [CHR 0xE2, CHR 0x80, CHR 0x88], [CHR 0xE2, CHR 0x80, CHR 0x89],
     [CHR 0xE2, CHR 0x80, CHR 0x8A], [CHR 0xE2, CHR 0x80, CHR 0xA8],
     [CHR 0xE2, CHR 0x80, CHR 0xA9], [CHR 0xE2, CHR 0x80, CHR 0xAF],
     [CHR 0xE2, CHR 0x81, CHR 0x9F], [CHR 0xE3, CHR 0x80, CHR 0x80]]"

fun strip_runes :: "string list \<Rightarrow> nat \<Rightarrow> string \<Rightarrow> string" where
  \<comment> \<open>the fuel is the length: every round removes at least one byte\<close>
  "strip_runes rs 0 s = s"
| "strip_runes rs (Suc n) s =
     (case find (\<lambda>r. take (length r) s = r) rs of
        None \<Rightarrow> s
      | Some r \<Rightarrow> strip_runes rs n (drop (length r) s))"

definition trim_space :: "string \<Rightarrow> string" where
  "trim_space s = (let l = strip_runes space_runes (length s) s in
     rev (strip_runes (map rev space_runes) (length l) (rev l)))"

definition blank :: "string \<Rightarrow> bool" where
  "blank s \<longleftrightarrow> trim_space s = []"

lemma strip_runes_not_found:
  "find (\<lambda>r. take (length r) s = r) rs = None \<Longrightarrow> strip_runes rs n s = s"
  by (cases n) simp_all

section \<open>Sorting by a comparison function\<close>

text \<open>
  \<open>sort.SliceStable\<close> returns the input rearranged, sorted under the comparison and with
  ties in input order: that is \<open>sort_less\<close>.  \<open>sort.Slice\<close> promises the first two only,
  so a property that does not fix the order of ties is stated for every \<open>go_sorted\<close> result,
  and \<open>sort_less\<close> is the only one when no two elements tie (\<open>go_sorted_unique\<close>).
\<close>

primrec insort_less :: "('a \<Rightarrow> 'a \<Rightarrow> bool) \<Rightarrow> 'a \<Rightarrow> 'a list \<Rightarrow> 'a list" where
  "insort_less lt x [] = [x]"
| "insort_less lt x (y # ys) = (if lt x y then x # y # ys else y # insort_less lt x ys)"

definition sort_less :: "('a \<Rightarrow> 'a \<Rightarrow> bool) \<Rightarrow> 'a list \<Rightarrow> 'a list" where
  "sort_less lt xs = foldl (\<lambda>acc x. insort_less lt x acc) [] xs"

definition go_sorted :: "('a \<Rightarrow> 'a \<Rightarrow> bool) \<Rightarrow> 'a list \<Rightarrow> 'a list \<Rightarrow> bool" where
  "go_sorted lt xs ys \<longleftrightarrow> mset ys = mset xs \<and> sorted_wrt (\<lambda>a b. \<not> lt b a) ys"

lemma mset_insort_less [simp]: "mset (insort_less lt x xs) = add_mset x (mset xs)"
  by (induction xs) auto

lemma mset_foldl_insort:
  "mset (foldl (\<lambda>acc x. insort_less lt x acc) acc xs) = mset acc + mset xs"
  by (induction xs arbitrary: acc) simp_all

lemma mset_sort_less [simp]: "mset (sort_less lt xs) = mset xs"
  by (simp add: sort_less_def mset_foldl_insort)

lemma set_sort_less [simp]: "set (sort_less lt xs) = set xs"
  by (metis mset_sort_less set_mset_mset)

lemma length_sort_less [simp]: "length (sort_less lt xs) = length xs"
  by (metis mset_sort_less size_mset)

lemma distinct_map_sort_less [simp]: "distinct (map f (sort_less lt xs)) = distinct (map f xs)"
proof -
  have "mset (map f (sort_less lt xs)) = mset (map f xs)" by simp
  then show ?thesis by (rule mset_eq_imp_distinct_iff)
qed

lemma set_insort_less [simp]: "set (insort_less lt x xs) = insert x (set xs)"
  by (induction xs) auto

lemma sort_less_Nil [simp]: "sort_less lt [] = []"
  by (simp add: sort_less_def)

text \<open>A comparison whose incomparability is transitive: what Go's sort asks of its caller.\<close>

locale go_order =
  fixes lt :: "'a \<Rightarrow> 'a \<Rightarrow> bool"
  assumes less_asym: "lt a b \<Longrightarrow> \<not> lt b a"
    and nless_trans: "\<not> lt b a \<Longrightarrow> \<not> lt c b \<Longrightarrow> \<not> lt c a"
begin

lemma sorted_insort:
  "sorted_wrt (\<lambda>a b. \<not> lt b a) xs \<Longrightarrow> sorted_wrt (\<lambda>a b. \<not> lt b a) (insort_less lt x xs)"
proof (induction xs)
  case (Cons y ys)
  show ?case
  proof (cases "lt x y")
    case True
    then have "\<not> lt z x" if "z \<in> set (y # ys)" for z
      using that Cons.prems less_asym [OF True] nless_trans [of y x z] by auto
    then show ?thesis using Cons.prems True by auto
  qed (use Cons in auto)
qed simp

lemma sorted_foldl_insort:
  "sorted_wrt (\<lambda>a b. \<not> lt b a) acc \<Longrightarrow>
   sorted_wrt (\<lambda>a b. \<not> lt b a) (foldl (\<lambda>acc x. insort_less lt x acc) acc xs)"
  by (induction xs arbitrary: acc) (simp_all add: sorted_insort)

lemma sorted_sort: "sorted_wrt (\<lambda>a b. \<not> lt b a) (sort_less lt xs)"
  by (simp add: sort_less_def sorted_foldl_insort)

lemma go_sorted_sort: "go_sorted lt xs (sort_less lt xs)"
  by (simp add: go_sorted_def sorted_sort)

lemma sort_less_neq_Nil: "xs \<noteq> [] \<Longrightarrow> sort_less lt xs \<noteq> []"
  by (metis length_0_conv length_sort_less)

lemma hd_sort_least: "x \<in> set xs \<Longrightarrow> \<not> lt x (hd (sort_less lt xs))"
proof -
  assume x: "x \<in> set xs"
  then obtain y ys where s: "sort_less lt xs = y # ys"
    by (metis list.exhaust list.set(1) empty_iff set_sort_less)
  have "x \<in> set (y # ys)" using x s by (metis set_sort_less)
  moreover have "\<not> lt y y" using less_asym by blast
  ultimately show ?thesis
    using sorted_sort [of xs] s by auto
qed

end

text \<open>The comparison most callers write: by a key with a linear order.\<close>

locale keyed_order =
  fixes lt :: "'a \<Rightarrow> 'a \<Rightarrow> bool" and key :: "'a \<Rightarrow> 'k::linorder"
  assumes less_key: "lt a b \<longleftrightarrow> key a < key b"
begin

lemma sorted_key_iff: "sorted_wrt (\<lambda>a b. \<not> lt b a) xs \<longleftrightarrow> sorted (map key xs)"
  by (simp add: less_key sorted_wrt_map not_less)

lemma go_sorted_key: "go_sorted lt xs ys \<Longrightarrow> sorted (map key ys)"
  by (simp add: go_sorted_def sorted_key_iff)

lemma go_sorted_keys: "go_sorted lt xs ys \<Longrightarrow> map key ys = sort (map key xs)"
  by (metis go_sorted_def mset_map properties_for_sort sorted_key_iff)

lemma go_sorted_unique:
  assumes "go_sorted lt xs ys" and "go_sorted lt xs zs" and "inj_on key (set xs)"
  shows "ys = zs"
proof (rule map_inj_on)
  show "map key ys = map key zs"
    using assms by (metis go_sorted_keys)
  show "inj_on key (set ys \<union> set zs)"
    using assms by (metis go_sorted_def set_mset_mset sup.idem)
qed

end

sublocale keyed_order \<subseteq> go_order lt
proof
  show "lt a b \<Longrightarrow> \<not> lt b a" for a b
    by (simp add: less_key)
  show "\<not> lt b a \<Longrightarrow> \<not> lt c b \<Longrightarrow> \<not> lt c a" for a b c
    by (simp add: less_key)
qed

context keyed_order
begin

lemma sort_less_unique:
  assumes "go_sorted lt xs ys" and "inj_on key (set xs)"
  shows "ys = sort_less lt xs"
  using go_sorted_unique [OF assms(1) go_sorted_sort assms(2)] .

lemma sort_less_perm:
  assumes "mset xs = mset ys" and "inj_on key (set xs)"
  shows "sort_less lt xs = sort_less lt ys"
proof -
  have "go_sorted lt xs (sort_less lt ys)"
    using assms(1) go_sorted_sort [of ys] by (simp add: go_sorted_def)
  then show ?thesis using assms(2) sort_less_unique by metis
qed

end

end
