(* ===== verification/Binary64.thy ===== *)
theory Binary64
  imports Prelude "HOL-Library.Log_Nat"
begin

text \<open>
  Go's \<open>float64\<close>: IEEE 754 binary64 with round to nearest, ties to even.  A finite double
  is the rational it denotes (\<open>Fin\<close>), so the two zeros are one value: no operation
  modelled here tells them apart.  Every arithmetic operation is the exact rational result
  followed by \<open>rnd64\<close>, which is what the standard prescribes.  All definitions compute.

  The lemmas bound the rounding error relative to the exact value, show that integers up to
  \<open>2 ^ 53\<close> are exact, and that rounding is monotone.
\<close>

datatype f64 = NaN | Inf bool | Fin rat   \<comment> \<open>\<open>Inf True\<close> is minus infinity\<close>

section \<open>Rounding\<close>

definition ilog2r :: "rat \<Rightarrow> int" where
  \<comment> \<open>the binary exponent of a positive rational\<close>
  "ilog2r x = (case quotient_of x of (a, b) \<Rightarrow>
     let e = bitlen a - bitlen b in if 2 powi e \<le> x then e else e - 1)"

definition round_even :: "rat \<Rightarrow> int" where
  "round_even y = (let f = \<lfloor>y\<rfloor>; r = y - of_int f in
     if r < 1 / 2 then f else if 1 / 2 < r then f + 1 else if even f then f else f + 1)"

definition ulp_exp :: "rat \<Rightarrow> int" where
  "ulp_exp x = max (-1022) (ilog2r \<bar>x\<bar>) - 52"

definition rnd_rat :: "rat \<Rightarrow> rat" where
  \<comment> \<open>the nearest multiple of the unit in the last place\<close>
  "rnd_rat x = (if x = 0 then 0
     else let u = 2 powi ulp_exp x in of_int (round_even (x / u)) * u)"

definition rnd64 :: "rat \<Rightarrow> f64" where
  "rnd64 x = (let v = rnd_rat x in if \<bar>v\<bar> < 2 ^ 1024 then Fin v else Inf (v < 0))"

lemma powi2_less_exp: "(2::rat) powi m < 2 powi n \<Longrightarrow> m < n"
  by (meson linorder_not_less one_le_numeral power_int_increasing zero_neq_numeral)

lemma ilog2r_bounds:
  assumes "0 < x"
  shows "2 powi ilog2r x \<le> x" and "x < 2 powi (ilog2r x + 1)"
proof -
  obtain a b where ab: "quotient_of x = (a, b)" by (cases "quotient_of x")
  have b: "0 < b" using quotient_of_denom_pos [OF ab] .
  have x: "x = of_int a / of_int b" using quotient_of_div [OF ab] .
  have a: "0 < a" using assms b x by (simp add: zero_less_divide_iff)
  have pos: "1 \<le> bitlen n" if "0 < n" for n :: int
    using that bitlen_eq_zero_iff [of n] bitlen_nonneg [of n] by linarith
  have lo: "(2::rat) powi (bitlen n - 1) \<le> of_int n" and hi: "of_int n < (2::rat) powi bitlen n"
    if "0 < n" for n :: int
  proof -
    have "of_int (2 ^ nat (bitlen n - 1)) \<le> (of_int n :: rat)"
      using bitlen_bounds [OF that] by (simp only: of_int_le_iff)
    then show "(2::rat) powi (bitlen n - 1) \<le> of_int n"
      using pos [OF that] by (simp add: power_int_nonneg_exp)
    have "(of_int n :: rat) < of_int (2 ^ nat (bitlen n))"
      using bitlen_bounds [OF that] by (simp only: of_int_less_iff)
    then show "of_int n < (2::rat) powi bitlen n"
      using pos [OF that] by (simp add: power_int_nonneg_exp)
  qed
  let ?e = "bitlen a - bitlen b"
  have "x < 2 powi bitlen a / 2 powi (bitlen b - 1)"
    unfolding x using hi [OF a] lo [OF b] a b
    by (intro frac_less) (auto intro: less_imp_le)
  also have "\<dots> = 2 powi (?e + 1)"
    by (simp add: power_int_diff [symmetric] algebra_simps)
  finally have up: "x < 2 powi (?e + 1)" .
  have "2 powi (bitlen a - 1) / 2 powi bitlen b \<le> x"
    unfolding x using lo [OF a] hi [OF b] a b
    by (intro frac_le) (auto intro: less_imp_le)
  moreover have "2 powi (bitlen a - 1) / 2 powi bitlen b = (2::rat) powi (?e - 1)"
    by (simp add: power_int_diff [symmetric] algebra_simps)
  ultimately have down: "2 powi (?e - 1) \<le> x" by simp
  show "2 powi ilog2r x \<le> x" and "x < 2 powi (ilog2r x + 1)"
    using up down by (auto simp: ilog2r_def ab Let_def)
qed

text \<open>The range test by exponents, which is how it is evaluated.\<close>

lemma rnd64_code [code]:
  "rnd64 x = (let v = rnd_rat x in
     if v = 0 \<or> ilog2r \<bar>v\<bar> < 1024 then Fin v else Inf (v < 0))"
proof (cases "rnd_rat x = 0")
  case False
  then have v: "0 < \<bar>rnd_rat x\<bar>" by simp
  have eq: "(2::rat) ^ 1024 = 2 powi 1024" by (simp add: power_int_numeral)
  have "\<bar>rnd_rat x\<bar> < 2 ^ 1024 \<longleftrightarrow> ilog2r \<bar>rnd_rat x\<bar> < 1024"
  proof
    assume "\<bar>rnd_rat x\<bar> < 2 ^ 1024"
    then have "(2::rat) powi ilog2r \<bar>rnd_rat x\<bar> < 2 powi 1024"
      using ilog2r_bounds(1) [OF v] unfolding eq by linarith
    then show "ilog2r \<bar>rnd_rat x\<bar> < 1024" by (rule powi2_less_exp)
  next
    assume "ilog2r \<bar>rnd_rat x\<bar> < 1024"
    then have "(2::rat) powi (ilog2r \<bar>rnd_rat x\<bar> + 1) \<le> 2 powi 1024"
      by (intro power_int_increasing) auto
    then show "\<bar>rnd_rat x\<bar> < 2 ^ 1024"
      using ilog2r_bounds(2) [OF v] unfolding eq by linarith
  qed
  then show ?thesis using False by (simp add: rnd64_def Let_def)
qed (simp add: rnd64_def)

lemma round_even_error: "\<bar>of_int (round_even y) - y\<bar> \<le> 1 / 2"
proof -
  have "of_int \<lfloor>y\<rfloor> \<le> y" and "y < of_int \<lfloor>y\<rfloor> + 1" by linarith+
  then show ?thesis by (auto simp: round_even_def Let_def abs_le_iff)
qed

lemma round_even_of_int [simp]: "round_even (of_int n) = n"
  by (simp add: round_even_def)

lemma round_even_mono: assumes "x \<le> y" shows "round_even x \<le> round_even y"
proof (cases "\<lfloor>x\<rfloor> = \<lfloor>y\<rfloor>")
  case True
  then show ?thesis using assms by (auto simp: round_even_def Let_def)
next
  case False
  moreover have "\<lfloor>x\<rfloor> \<le> \<lfloor>y\<rfloor>" using assms by (rule floor_mono)
  ultimately have "\<lfloor>x\<rfloor> + 1 \<le> \<lfloor>y\<rfloor>" by simp
  moreover have "round_even x \<le> \<lfloor>x\<rfloor> + 1" and "\<lfloor>y\<rfloor> \<le> round_even y"
    by (auto simp: round_even_def Let_def)
  ultimately show ?thesis by linarith
qed

lemma round_even_minus: "round_even (- y) = - round_even y"
proof (cases "y = of_int \<lfloor>y\<rfloor>")
  case True
  then obtain n where "y = of_int n" by blast
  then have "- y = of_int (- n)" by simp
  with \<open>y = of_int n\<close> show ?thesis by (metis round_even_of_int)
next
  case False
  then have fl: "\<lfloor>- y\<rfloor> = - \<lfloor>y\<rfloor> - 1"
    by linarith
  show ?thesis
    unfolding round_even_def Let_def fl by (auto split: if_splits)
qed

lemma rnd_rat_0 [simp]: "rnd_rat 0 = 0"
  by (simp add: rnd_rat_def)

lemma rnd_rat_error: "\<bar>rnd_rat x - x\<bar> \<le> 2 powi ulp_exp x / 2"
proof (cases "x = 0")
  case False
  let ?u = "2 powi ulp_exp x :: rat"
  have u: "0 < ?u" by simp
  have "\<bar>rnd_rat x - x\<bar> = \<bar>(of_int (round_even (x / ?u)) - x / ?u) * ?u\<bar>"
    using False by (simp add: rnd_rat_def Let_def left_diff_distrib)
  also have "\<dots> = \<bar>of_int (round_even (x / ?u)) - x / ?u\<bar> * ?u"
    using u by (simp add: abs_mult)
  also have "\<dots> \<le> 1 / 2 * ?u"
    using round_even_error u by (intro mult_right_mono) (auto intro: less_imp_le)
  finally show ?thesis by simp
qed simp

lemma rnd_rat_rel_error:
  assumes "2 powi (-1022) \<le> \<bar>x\<bar>"
  shows "\<bar>rnd_rat x - x\<bar> \<le> \<bar>x\<bar> / 2 ^ 53"
proof -
  have x: "0 < \<bar>x\<bar>" using assms zero_less_power_int [of "2::rat" "-1022"] by linarith
  have "(2::rat) powi (-1022) < 2 powi (ilog2r \<bar>x\<bar> + 1)"
    using assms ilog2r_bounds(2) [OF x] by linarith
  then have "-1022 < ilog2r \<bar>x\<bar> + 1"
    by (rule powi2_less_exp)
  then have "ulp_exp x = ilog2r \<bar>x\<bar> - 52" by (simp add: ulp_exp_def)
  then have "2 powi ulp_exp x = 2 powi ilog2r \<bar>x\<bar> / (2::rat) ^ 52"
    by (simp add: power_int_diff)
  also have "\<dots> \<le> \<bar>x\<bar> / 2 ^ 52"
    using ilog2r_bounds(1) [OF x] by (intro divide_right_mono) auto
  finally show ?thesis using rnd_rat_error [of x] by simp
qed

lemma rnd_rat_minus: "rnd_rat (- x) = - rnd_rat x"
  by (simp add: rnd_rat_def ulp_exp_def Let_def round_even_minus)

lemma rnd_rat_nonneg: "0 \<le> x \<Longrightarrow> 0 \<le> rnd_rat x"
  using round_even_mono [of 0 "x / 2 powi ulp_exp x"] round_even_of_int [of 0]
  by (simp add: rnd_rat_def Let_def)

lemma rnd_rat_exact:
  assumes "x = of_int m * 2 powi e" and "\<bar>m\<bar> < 2 ^ 53" and "-1074 \<le> e"
  shows "rnd_rat x = x"
proof (cases "x = 0")
  case False
  then have x: "0 < \<bar>x\<bar>" by simp
  have "2 powi ilog2r \<bar>x\<bar> \<le> \<bar>x\<bar>" by (rule ilog2r_bounds(1) [OF x])
  also have "\<bar>x\<bar> = of_int \<bar>m\<bar> * 2 powi e" by (simp add: assms(1) abs_mult)
  also have "\<dots> < of_int (2 ^ 53) * 2 powi e"
    using assms(2) by (intro mult_strict_right_mono) (simp_all only: of_int_less_iff, simp)
  also have "\<dots> = 2 powi (53 + e)" by (simp add: power_int_add)
  finally have "ilog2r \<bar>x\<bar> < 53 + e"
    by (rule powi2_less_exp)
  then have le: "ulp_exp x \<le> e" using assms(3) by (simp add: ulp_exp_def)
  define k where "k = nat (e - ulp_exp x)"
  have "x / 2 powi ulp_exp x = of_int m * 2 powi (e - ulp_exp x)"
    by (simp add: assms(1) power_int_diff)
  also have "\<dots> = of_int (m * 2 ^ k)"
    using le by (simp add: k_def power_int_nonneg_exp)
  finally have "x / 2 powi ulp_exp x = of_int (m * 2 ^ k)" .
  then have "of_int (round_even (x / 2 powi ulp_exp x)) = x / 2 powi ulp_exp x"
    by (simp only: round_even_of_int)
  with False show ?thesis by (simp add: rnd_rat_def Let_def)
qed simp

lemma rnd_rat_of_int: "\<bar>n\<bar> \<le> 2 ^ 53 \<Longrightarrow> rnd_rat (of_int n) = of_int n"
proof -
  assume n: "\<bar>n\<bar> \<le> 2 ^ 53"
  consider "\<bar>n\<bar> < 2 ^ 53" | "n = 2 ^ 53" | "n = - (2 ^ 53)" using n by linarith
  then show ?thesis
  proof cases
    case 1
    then show ?thesis by (intro rnd_rat_exact [where m = n and e = 0]) auto
  next
    case 2
    then show ?thesis by (intro rnd_rat_exact [where m = "2 ^ 52" and e = 1]) auto
  next
    case 3
    then show ?thesis by (intro rnd_rat_exact [where m = "- (2 ^ 52)" and e = 1]) auto
  qed
qed

lemma rnd64_of_int: "\<bar>n\<bar> \<le> 2 ^ 53 \<Longrightarrow> rnd64 (of_int n) = Fin (of_int n)"
proof -
  assume n: "\<bar>n\<bar> \<le> 2 ^ 53"
  have "\<bar>of_int n :: rat\<bar> \<le> 2 ^ 53"
    using n by (metis of_int_abs of_int_le_iff of_int_numeral of_int_power)
  also have "\<dots> < 2 ^ 1024" by (rule power_strict_increasing) auto
  finally show ?thesis using n by (simp add: rnd64_def Let_def rnd_rat_of_int)
qed

lemma rnd_rat_mono_pos:
  assumes "0 < x" and "x \<le> y"
  shows "rnd_rat x \<le> rnd_rat y"
proof (cases "ulp_exp x = ulp_exp y")
  case True
  have "round_even (x / 2 powi ulp_exp y) \<le> round_even (y / 2 powi ulp_exp y)"
    using assms by (intro round_even_mono divide_right_mono) auto
  then show ?thesis
    using assms True by (simp add: rnd_rat_def Let_def)
next
  case False
  let ?kx = "ulp_exp x + 52" and ?iy = "ilog2r y"
  have y: "0 < y" using assms by simp
  have "(2::rat) powi ilog2r x < 2 powi (?iy + 1)"
    using ilog2r_bounds(1) [OF assms(1)] ilog2r_bounds(2) [OF y] assms(2) by linarith
  then have "ilog2r x < ?iy + 1" by (rule powi2_less_exp)
  with False assms(1) y have uy: "ulp_exp y = ?iy - 52" and kx: "?kx + 1 \<le> ?iy"
    and ix: "ilog2r x + 1 \<le> ?kx + 1"
    by (auto simp: ulp_exp_def)
  have "x < 2 powi (ilog2r x + 1)" by (rule ilog2r_bounds(2) [OF assms(1)])
  also have "\<dots> \<le> 2 powi (?kx + 1)" using ix by (intro power_int_increasing) auto
  also have "\<dots> = of_int (2 ^ 53) * 2 powi ulp_exp x" by (simp add: power_int_add)
  finally have "x / 2 powi ulp_exp x \<le> of_int (2 ^ 53)"
    by (simp only: pos_divide_le_eq zero_less_power_int zero_less_numeral less_imp_le)
  from round_even_mono [OF this] have "round_even (x / 2 powi ulp_exp x) \<le> 2 ^ 53"
    by (simp only: round_even_of_int)
  then have "of_int (round_even (x / 2 powi ulp_exp x)) \<le> (2 ^ 53 :: rat)"
    by (metis of_int_le_iff of_int_numeral of_int_power)
  then have "rnd_rat x \<le> 2 ^ 53 * 2 powi ulp_exp x"
    using assms(1) by (simp add: rnd_rat_def Let_def mult_right_mono)
  also have "\<dots> = 2 powi (?kx + 1)" by (simp add: power_int_add)
  also have "\<dots> \<le> 2 powi ?iy" using kx by (intro power_int_increasing) auto
  also have "\<dots> = of_int (2 ^ 52) * 2 powi ulp_exp y" by (simp add: uy power_int_diff)
  also have "\<dots> \<le> rnd_rat y"
  proof -
    have "of_int (2 ^ 52) * 2 powi ulp_exp y \<le> y"
      using ilog2r_bounds(1) [OF y] by (simp add: uy power_int_diff)
    then have "of_int (2 ^ 52) \<le> y / 2 powi ulp_exp y"
      by (simp only: pos_le_divide_eq zero_less_power_int zero_less_numeral)
    from round_even_mono [OF this] have "2 ^ 52 \<le> round_even (y / 2 powi ulp_exp y)"
      by (simp only: round_even_of_int)
    then have "of_int (2 ^ 52) \<le> (of_int (round_even (y / 2 powi ulp_exp y)) :: rat)"
      by (simp only: of_int_le_iff)
    then have "of_int (2 ^ 52) * 2 powi ulp_exp y
        \<le> (of_int (round_even (y / 2 powi ulp_exp y)) :: rat) * 2 powi ulp_exp y"
      by (rule mult_right_mono) simp
    then show ?thesis using y by (simp add: rnd_rat_def Let_def)
  qed
  finally show ?thesis .
qed

lemma rnd_rat_mono: assumes "x \<le> y" shows "rnd_rat x \<le> rnd_rat y"
proof -
  consider "0 < x" | "y < 0" | "x \<le> 0" "0 \<le> y" using assms by linarith
  then show ?thesis
  proof cases
    case 1
    then show ?thesis using assms by (rule rnd_rat_mono_pos)
  next
    case 2
    then have "rnd_rat (- y) \<le> rnd_rat (- x)" using assms by (intro rnd_rat_mono_pos) auto
    then show ?thesis by (simp add: rnd_rat_minus)
  next
    case 3
    then show ?thesis using rnd_rat_nonneg [of "- x"] rnd_rat_nonneg [of y]
      by (simp add: rnd_rat_minus)
  qed
qed

section \<open>Operations\<close>

fun fadd :: "f64 \<Rightarrow> f64 \<Rightarrow> f64" where
  "fadd (Fin x) (Fin y) = rnd64 (x + y)"
| "fadd NaN _ = NaN"
| "fadd _ NaN = NaN"
| "fadd (Inf s) (Inf t) = (if s = t then Inf s else NaN)"
| "fadd (Inf s) (Fin _) = Inf s"
| "fadd (Fin _) (Inf t) = Inf t"

fun fneg :: "f64 \<Rightarrow> f64" where
  "fneg NaN = NaN"
| "fneg (Inf s) = Inf (\<not> s)"
| "fneg (Fin x) = Fin (- x)"

definition fsub :: "f64 \<Rightarrow> f64 \<Rightarrow> f64" where
  "fsub x y = fadd x (fneg y)"

fun fmul :: "f64 \<Rightarrow> f64 \<Rightarrow> f64" where
  "fmul (Fin x) (Fin y) = rnd64 (x * y)"
| "fmul NaN _ = NaN"
| "fmul _ NaN = NaN"
| "fmul (Inf s) (Inf t) = Inf (s \<noteq> t)"
| "fmul (Inf s) (Fin y) = (if y = 0 then NaN else Inf (s \<noteq> (y < 0)))"
| "fmul (Fin x) (Inf t) = (if x = 0 then NaN else Inf (t \<noteq> (x < 0)))"

fun fdiv :: "f64 \<Rightarrow> f64 \<Rightarrow> f64" where
  \<comment> \<open>the divisors of the code are positive constants and counts, and negative unit scores\<close>
  "fdiv (Fin x) (Fin y) =
     (if y = 0 then (if x = 0 then NaN else Inf (x < 0)) else rnd64 (x / y))"
| "fdiv NaN _ = NaN"
| "fdiv _ NaN = NaN"
| "fdiv (Inf s) (Inf t) = NaN"
| "fdiv (Inf s) (Fin y) = Inf (s \<noteq> (y < 0))"
| "fdiv (Fin x) (Inf t) = Fin 0"

fun fabs :: "f64 \<Rightarrow> f64" where
  "fabs NaN = NaN"
| "fabs (Inf s) = Inf False"
| "fabs (Fin x) = Fin \<bar>x\<bar>"

fun flt :: "f64 \<Rightarrow> f64 \<Rightarrow> bool" where
  "flt (Fin x) (Fin y) = (x < y)"
| "flt NaN _ = False"
| "flt _ NaN = False"
| "flt (Inf s) (Inf t) = (s \<and> \<not> t)"
| "flt (Inf s) (Fin _) = s"
| "flt (Fin _) (Inf t) = (\<not> t)"

fun feq :: "f64 \<Rightarrow> f64 \<Rightarrow> bool" where
  "feq NaN _ = False"
| "feq x y = (x = y)"

definition fle :: "f64 \<Rightarrow> f64 \<Rightarrow> bool" where
  "fle x y \<longleftrightarrow> flt x y \<or> feq x y"

fun finite64 :: "f64 \<Rightarrow> bool" where
  \<comment> \<open>the code's \<open>finite\<close>: neither NaN nor an infinity\<close>
  "finite64 (Fin _) = True"
| "finite64 _ = False"

definition round_away :: "rat \<Rightarrow> int" where
  \<comment> \<open>half away from zero\<close>
  "round_away y = (if y < 0 then - \<lfloor>1 / 2 - y\<rfloor> else \<lfloor>y + 1 / 2\<rfloor>)"

fun math_round :: "f64 \<Rightarrow> f64" where
  "math_round (Fin x) = Fin (of_int (round_away x))"
| "math_round x = x"

definition truncate_rat :: "rat \<Rightarrow> int" where
  "truncate_rat x = (if x < 0 then \<lceil>x\<rceil> else \<lfloor>x\<rfloor>)"

fun int64_of_f64 :: "f64 \<Rightarrow> int" where
  \<comment> \<open>Go leaves a conversion that does not fit to the implementation; this is what
     amd64 produces\<close>
  "int64_of_f64 (Fin x) =
     (if in_int64 (truncate_rat x) then truncate_rat x else - (2 ^ 63))"
| "int64_of_f64 _ = - (2 ^ 63)"

definition f64_of_int :: "int \<Rightarrow> f64" where
  "f64_of_int n = rnd64 (of_int n)"

lemma round_away_of_int [simp]: "round_away (of_int n) = n"
  by (simp add: round_away_def) linarith

lemma round_away_mono: assumes "x \<le> y" shows "round_away x \<le> round_away y"
proof -
  have neg: "\<lfloor>1 / 2 - y\<rfloor> \<le> \<lfloor>1 / 2 - x\<rfloor>" and pos: "\<lfloor>x + 1 / 2\<rfloor> \<le> \<lfloor>y + 1 / 2\<rfloor>"
    using assms by (auto intro: floor_mono)
  show ?thesis
  proof (cases "x < 0 \<and> 0 \<le> y")
    case True
    then have "0 \<le> \<lfloor>1 / 2 - x\<rfloor>" and "0 \<le> \<lfloor>y + 1 / 2\<rfloor>" by simp_all
    then have "- \<lfloor>1 / 2 - x\<rfloor> \<le> \<lfloor>y + 1 / 2\<rfloor>" by linarith
    with True show ?thesis by (simp add: round_away_def)
  next
    case False
    then show ?thesis using assms neg pos by (auto simp: round_away_def)
  qed
qed

lemma round_away_near:
  assumes "\<bar>x - of_int n\<bar> < 1 / 2" shows "round_away x = n"
proof -
  have "x - of_int n < 1 / 2" and "- (1 / 2) < x - of_int n"
    using assms by (simp_all only: abs_less_iff) linarith+
  then have "\<lfloor>1 / 2 - x\<rfloor> = - n" and "\<lfloor>x + 1 / 2\<rfloor> = n"
    by (auto intro!: floor_unique)
  then show ?thesis by (simp add: round_away_def)
qed

lemma truncate_rat_of_int [simp]: "truncate_rat (of_int n) = n"
  by (simp add: truncate_rat_def)

lemma finite64_iff: "finite64 x \<longleftrightarrow> (\<exists>r. x = Fin r)"
  by (cases x) auto

lemma feq_Fin [simp]: "feq (Fin x) (Fin y) \<longleftrightarrow> x = y"
  by simp

lemma fle_Fin [simp]: "fle (Fin x) (Fin y) \<longleftrightarrow> x \<le> y"
  by (auto simp: fle_def)

end
