(* ===== verification/Scheme.thy ===== *)
theory Scheme
  imports Binary64
begin

text \<open>
  The scoring tree and its arithmetic: \<open>internal/scheme/types.go\<close>, \<open>score.go\<close> and
  \<open>claim_error.go\<close>.  A Go struct is a record with the fields of the struct, a pointer field
  is an \<open>option\<close>, a string is a list of bytes.  JSON tags are not modelled.  An instant
  (\<open>time.Time\<close>) is the number of nanoseconds since Go's zero time, so \<open>IsZero\<close> is
  equality with 0.
\<close>

section \<open>Data (types.go)\<close>

type_synonym time = int
type_synonym points = int   \<comment> \<open>an \<open>int64\<close> of thousandths of a point\<close>

record publicity_window =
  pw_open :: time
  pw_close :: time

record window =
  w_open :: time
  w_close :: time
  w_lockdown :: "time option"
  w_publicity :: "publicity_window option"

record export_capability =
  ec_on :: bool
  ec_gate :: string

record capabilities =
  cap_submit :: bool
  cap_edit :: bool
  cap_appeal :: bool
  cap_review :: bool
  cap_arbitrate :: bool
  cap_student_report :: bool
  cap_export :: export_capability

record award =
  aw_name :: string
  aw_top_percent :: int

record honor_roll =
  hr_top_percent :: int
  hr_awards :: "award list"

record evidence_rule =
  ev_required :: bool
  ev_types :: "string list"
  ev_max_mb :: int

record formula =
  fo_lhs :: string
  fo_numerator :: string
  fo_denominator :: string

record base_student_claim =
  bc_minimum :: f64
  bc_unit :: string
  bc_evidence :: "evidence_rule option"

record base_item =
  bi_key :: string
  bi_name :: string
  bi_full :: f64
  bi_student_claim :: "base_student_claim option"
  bi_note :: string

record penalty_item =
  pi_key :: string
  pi_name :: string
  pi_per :: f64

record activity =
  ac_name :: string
  ac_date :: string
  ac_level :: string
  ac_org :: string
  ac_score :: string

record enum_option =
  eo_label :: string
  eo_score :: f64
  eo_path :: "string list"

record score_rule =
  sr_type :: string
  sr_unit :: string
  sr_per :: f64
  sr_cap :: "f64 option"
  sr_min :: "f64 option"
  sr_max :: "f64 option"
  sr_options :: "enum_option list"
  sr_levels :: "string list"
  sr_minimum :: "f64 option"
  sr_award :: "f64 option"

record cap_group =
  cg_key :: string
  cg_cap :: f64

record item =
  it_key :: string
  it_name :: string
  it_score_rule :: score_rule
  it_exclusive_group :: string
  it_cap_group :: "cap_group option"
  it_evidence :: "evidence_rule option"
  it_note :: string
  it_activities :: "activity list"

record category =
  ca_key :: string
  ca_name :: string
  ca_max_total :: f64
  ca_formula :: "formula option"
  ca_note :: string
  ca_base_items :: "base_item list"
  ca_penalty_items :: "penalty_item list"
  ca_items :: "item list"

record config =
  cf_scheme_name :: string
  cf_version :: string
  cf_window :: window
  cf_capabilities :: capabilities
  cf_weights :: "(string, f64) gomap"
  cf_honor_roll :: honor_roll
  cf_categories :: "category list"

record claim =
  cl_quantity :: "f64 option"
  cl_option :: string
  cl_score :: "f64 option"

definition max_awards :: int where
  "max_awards = 8"

definition max_activities_per_item :: int where
  "max_activities_per_item = 200"

definition imported_category_key :: string where
  "imported_category_key = ''major''"

definition accepts_submissions :: "category \<Rightarrow> bool" where
  "accepts_submissions c \<longleftrightarrow> ca_key c \<noteq> imported_category_key"

definition publicity_open :: "window \<Rightarrow> time \<Rightarrow> bool" where
  "publicity_open w now = (case w_publicity w of
     None \<Rightarrow> False
   | Some p \<Rightarrow> \<not> now < pw_open p \<and> now < pw_close p)"

definition locked_at :: "window \<Rightarrow> time \<Rightarrow> bool" where
  "locked_at w now = (case w_lockdown w of None \<Rightarrow> False | Some l \<Rightarrow> \<not> now < l)"

section \<open>Fixed-point scores (score.go)\<close>

definition points_scale :: f64 where
  "points_scale = Fin 1000"

definition new_points :: "f64 \<Rightarrow> points" where
  "new_points v = int64_of_f64 (math_round (fmul v points_scale))"

definition points_float :: "points \<Rightarrow> f64" where
  \<comment> \<open>the method \<open>Points.Float64\<close>\<close>
  "points_float p = fdiv (f64_of_int p) points_scale"

definition min_points :: "points \<Rightarrow> points \<Rightarrow> points" where
  "min_points a b = (if a < b then a else b)"

datatype claim_error =
    ClaimQuantityRequired
  | ClaimQuantityInvalid
  | ClaimOptionInvalid
  | ClaimScoreInvalid
  | ClaimScoreOutOfRange points
  | ClaimScoreRequired
  | ClaimScoreBelowMinimum f64
  | ClaimScoreAboveMaximum f64
  | ClaimRuleInvalid

definition max_option_points :: "enum_option list \<Rightarrow> points" where
  "max_option_points os = foldl (\<lambda>m o'. max m (new_points (eo_score o'))) 0 os"

definition score_claim :: "score_rule \<Rightarrow> claim \<Rightarrow> (claim_error, points) result" where
  "score_claim rule c =
    (if sr_type rule = ''per_unit'' then
       (case cl_quantity c of
          None \<Rightarrow> Inl ClaimQuantityRequired
        | Some q \<Rightarrow>
            if \<not> finite64 q \<or> flt q (Fin 0) then Inl ClaimQuantityInvalid
            else let score = new_points (fmul q (sr_per rule)) in
              Inr (case sr_cap rule of None \<Rightarrow> score | Some k \<Rightarrow> min_points score (new_points k)))
     else if sr_type rule = ''enum'' then
       (case find (\<lambda>o'. eo_label o' = cl_option c) (sr_options rule) of
          None \<Rightarrow> Inl ClaimOptionInvalid
        | Some selected \<Rightarrow>
            (case cl_score c of
               None \<Rightarrow> Inr (new_points (eo_score selected))
             | Some s \<Rightarrow>
                 if \<not> finite64 s then Inl ClaimScoreInvalid
                 else let max_score = max_option_points (sr_options rule); score = new_points s in
                   if score < 0 \<or> max_score < score then Inl (ClaimScoreOutOfRange max_score)
                   else Inr score))
     else if sr_type rule = ''free'' then
       (case cl_score c of
          None \<Rightarrow> Inl ClaimScoreRequired
        | Some s \<Rightarrow>
            if \<not> finite64 s then Inl ClaimScoreInvalid
            else let score = new_points s in
              (case sr_min rule of
                 Some lo \<Rightarrow> if score < new_points lo then Inl (ClaimScoreBelowMinimum lo)
                   else (case sr_max rule of
                     Some hi \<Rightarrow> if new_points hi < score then Inl (ClaimScoreAboveMaximum hi)
                       else Inr score
                   | None \<Rightarrow> Inr score)
               | None \<Rightarrow> (case sr_max rule of
                     Some hi \<Rightarrow> if new_points hi < score then Inl (ClaimScoreAboveMaximum hi)
                       else Inr score
                   | None \<Rightarrow> Inr score)))
     else if sr_type rule = ''threshold'' then
       (case cl_quantity c of
          None \<Rightarrow> Inl ClaimQuantityRequired
        | Some q \<Rightarrow>
            (case (sr_minimum rule, sr_award rule) of
               (Some minimum, Some award) \<Rightarrow>
                 if \<not> finite64 q \<or> flt q (Fin 0) then Inl ClaimQuantityInvalid
                 else if flt q minimum then Inr 0
                 else Inr (new_points award)
             | _ \<Rightarrow> Inl ClaimQuantityInvalid))
     else Inl ClaimRuleInvalid)"

section \<open>Category totals (score.go)\<close>

record scored_item =
  si_id :: int
  si_item_key :: string
  si_score :: points
  si_item_cap :: "points option"
  si_exclusive_group :: string
  si_cap_group_key :: string
  si_cap_group_cap :: points

record recorded_base =
  rb_item_key :: string
  rb_kind :: string
  rb_score :: points

record category_breakdown =
  cb_item_total :: points
  cb_base_total :: points
  cb_penalty_total :: points
  cb_before_cap :: points
  cb_total :: points

definition cap_item :: "scored_item \<Rightarrow> scored_item" where
  "cap_item it = (case si_item_cap it of
     None \<Rightarrow> it
   | Some k \<Rightarrow> it\<lparr>si_score := min_points (si_score it) k\<rparr>)"

definition beats :: "scored_item \<Rightarrow> scored_item \<Rightarrow> bool" where
  \<comment> \<open>the new item replaces the prior choice of its exclusive group\<close>
  "beats it prior \<longleftrightarrow> si_score prior < si_score it
     \<or> (si_score it = si_score prior \<and> si_id it < si_id prior)"

type_synonym chosen = "(string, scored_item) gomap"

fun collect_item :: "scored_item list \<times> chosen \<Rightarrow> scored_item \<Rightarrow> scored_item list \<times> chosen" where
  "collect_item (plain, chosen) it0 = (let it = cap_item it0; g = si_exclusive_group it in
     if g = [] then (plain @ [it], chosen)
     else (case map_of chosen g of
             None \<Rightarrow> (plain, AList.update g it chosen)
           | Some prior \<Rightarrow> if beats it prior then (plain, AList.update g it chosen)
                           else (plain, chosen)))"

fun tally_item ::
  "points \<times> (string, points) gomap \<times> (string, points) gomap \<Rightarrow> scored_item
   \<Rightarrow> points \<times> (string, points) gomap \<times> (string, points) gomap" where
  "tally_item (tot, gs, caps) it =
    (if si_cap_group_key it = [] then (i64add tot (si_score it), gs, caps)
     else let k = si_cap_group_key it in
       (tot, AList.update k (i64add (go_get 0 gs k) (si_score it)) gs,
        AList.update k (si_cap_group_cap it) caps))"

fun tally_base :: "points \<times> points \<Rightarrow> recorded_base \<Rightarrow> points \<times> points" where
  "tally_base (b, p) r =
    (if rb_kind r = ''base'' then (i64add b (rb_score r), p)
     else if rb_kind r = ''penalty'' then (b, i64add p (rb_score r))
     else (b, p))"

text \<open>
  Go visits a map in an order of its own choosing, a new one for every \<open>range\<close>.  The two
  arguments \<open>visit1\<close> and \<open>visit2\<close> are those orders: functions that rearrange the
  entries (\<open>visit_order\<close>).
\<close>

definition visit_order :: "('a list \<Rightarrow> 'a list) \<Rightarrow> bool" where
  "visit_order f \<longleftrightarrow> (\<forall>xs. mset (f xs) = mset xs)"

definition compute_category_score ::
  "((string \<times> scored_item) list \<Rightarrow> (string \<times> scored_item) list)
   \<Rightarrow> ((string \<times> points) list \<Rightarrow> (string \<times> points) list)
   \<Rightarrow> scored_item list \<Rightarrow> recorded_base list \<Rightarrow> points \<Rightarrow> category_breakdown" where
  "compute_category_score visit1 visit2 items base max_total =
    (let (plain0, chosen) = foldl collect_item ([], []) items;
         plain = plain0 @ map snd (visit1 chosen);
         (tot0, gs, caps) = foldl tally_item (0, [], []) plain;
         item_total = foldl (\<lambda>t (k, s). i64add t (min_points s (go_get 0 caps k))) tot0
                        (visit2 gs);
         (base_total, penalty_total) = foldl tally_base (0, 0) base;
         before_cap = i64add (i64add item_total base_total) penalty_total
     in \<lparr>cb_item_total = item_total, cb_base_total = base_total,
         cb_penalty_total = penalty_total, cb_before_cap = before_cap,
         cb_total = min_points before_cap max_total\<rparr>)"

section \<open>What a category total is\<close>

text \<open>
  The specification of the item part of a category total, over the submissions as a set: an
  item is worth its score, at most its cap; of each exclusive group only the best item counts
  (the highest worth, the smallest id among equals); the counted items outside shared cap groups
  count in full and each shared cap group counts at most its cap.  It is written without the code's
  own functions, and nothing in it depends on the order of the submissions or of a map.
\<close>

definition worth :: "scored_item \<Rightarrow> points" where
  "worth it = (case si_item_cap it of None \<Rightarrow> si_score it | Some k \<Rightarrow> min (si_score it) k)"

definition counted :: "scored_item list \<Rightarrow> scored_item list" where
  "counted items = filter (\<lambda>it. si_exclusive_group it = []
     \<or> (\<forall>r \<in> set items. si_exclusive_group r = si_exclusive_group it
          \<longrightarrow> worth r < worth it \<or> worth r = worth it \<and> si_id it \<le> si_id r)) items"

definition specified_item_total :: "scored_item list \<Rightarrow> points" where
  "specified_item_total items = (let its = counted items;
       sum_of = (\<lambda>k. wrap64 (\<Sum>it \<leftarrow> filter (\<lambda>it. si_cap_group_key it = k) its. worth it));
       cap_of = (\<lambda>k. si_cap_group_cap (hd (filter (\<lambda>it. si_cap_group_key it = k) its)))
     in wrap64 (sum_of [] + (\<Sum>k \<in> si_cap_group_key ` set its - {[]}. min (sum_of k) (cap_of k))))"

definition specified_score :: "scored_item list \<Rightarrow> recorded_base list \<Rightarrow> points \<Rightarrow> category_breakdown" where
  "specified_score items base mx =
    (let it = specified_item_total items;
         b = wrap64 (\<Sum>r \<leftarrow> filter (\<lambda>r. rb_kind r = ''base'') base. rb_score r);
         p = wrap64 (\<Sum>r \<leftarrow> filter (\<lambda>r. rb_kind r = ''penalty'') base. rb_score r);
         before = wrap64 (it + b + p)
     in \<lparr>cb_item_total = it, cb_base_total = b, cb_penalty_total = p,
         cb_before_cap = before, cb_total = min before mx\<rparr>)"

text \<open>The same, as the loops compute it: over the capped items.\<close>

definition survivors :: "scored_item list \<Rightarrow> scored_item list" where
  "survivors items = (let cs = map cap_item items in
     filter (\<lambda>it. si_exclusive_group it = []
       \<or> (\<forall>r \<in> set cs. si_exclusive_group r = si_exclusive_group it \<longrightarrow> \<not> beats r it)) cs)"

definition group_sum :: "string \<Rightarrow> scored_item list \<Rightarrow> points" where
  "group_sum k ps = i64sum (map si_score (filter (\<lambda>it. si_cap_group_key it = k) ps))"

definition group_cap :: "string \<Rightarrow> scored_item list \<Rightarrow> points" where
  "group_cap k ps = (case find (\<lambda>it. si_cap_group_key it = k) ps of
     None \<Rightarrow> 0 | Some it \<Rightarrow> si_cap_group_cap it)"

definition category_item_total :: "scored_item list \<Rightarrow> points" where
  "category_item_total items = (let ps = survivors items in
     wrap64 (group_sum [] ps
       + (\<Sum>k \<in> si_cap_group_key ` set ps - {[]}. min_points (group_sum k ps) (group_cap k ps))))"

definition caps_agree :: "scored_item list \<Rightarrow> bool" where
  \<comment> \<open>items of one shared cap group carry one cap\<close>
  "caps_agree items \<longleftrightarrow> (\<forall>a \<in> set items. \<forall>b \<in> set items.
     si_cap_group_key a \<noteq> [] \<and> si_cap_group_key a = si_cap_group_key b
       \<longrightarrow> si_cap_group_cap a = si_cap_group_cap b)"

definition distinct_ids :: "scored_item list \<Rightarrow> bool" where
  "distinct_ids items \<longleftrightarrow> distinct (map si_id items)"

interpretation winner: keyed_order beats "\<lambda>it. (- si_score it, si_id it)"
  by unfold_locales (auto simp: beats_def less_prod_def)

subsection \<open>Choosing one item of each exclusive group\<close>

lemma cap_item_simps [simp]:
  "si_id (cap_item it) = si_id it"
  "si_exclusive_group (cap_item it) = si_exclusive_group it"
  "si_cap_group_key (cap_item it) = si_cap_group_key it"
  "si_cap_group_cap (cap_item it) = si_cap_group_cap it"
  by (simp_all add: cap_item_def split: option.split)

lemma fst_collect_item:
  "fst (collect_item st it) =
     (if si_exclusive_group it = [] then fst st @ [cap_item it] else fst st)"
  by (cases st) (simp add: Let_def split: option.split)

lemma snd_collect_item:
  "snd (collect_item st it) =
     (if si_exclusive_group it \<noteq> [] \<and> (case map_of (snd st) (si_exclusive_group it) of
        None \<Rightarrow> True | Some prior \<Rightarrow> beats (cap_item it) prior)
      then AList.update (si_exclusive_group it) (cap_item it) (snd st) else snd st)"
  by (cases st) (simp add: Let_def split: option.split)

lemma collect_plain:
  "fst (foldl collect_item st items) =
     fst st @ filter (\<lambda>it. si_exclusive_group it = []) (map cap_item items)"
  by (induction items arbitrary: st) (simp_all add: fst_collect_item)

definition chosen_ok :: "scored_item set \<Rightarrow> chosen \<Rightarrow> bool" where
  \<comment> \<open>the map holds an unbeaten item of every exclusive group seen\<close>
  "chosen_ok S m \<longleftrightarrow> go_map_ok m
     \<and> (\<forall>g it. map_of m g = Some it \<longrightarrow> g \<noteq> [] \<and> it \<in> S \<and> si_exclusive_group it = g
          \<and> (\<forall>r \<in> S. si_exclusive_group r = g \<longrightarrow> \<not> beats r it))
     \<and> (\<forall>it \<in> S. si_exclusive_group it \<noteq> [] \<longrightarrow> map_of m (si_exclusive_group it) \<noteq> None)"

lemma beats_irrefl [simp]: "\<not> beats it it"
  by (simp add: beats_def)

lemma chosen_okI:
  assumes "go_map_ok m"
    and "\<And>g it. map_of m g = Some it \<Longrightarrow> g \<noteq> [] \<and> it \<in> S \<and> si_exclusive_group it = g"
    and "\<And>g it r. map_of m g = Some it \<Longrightarrow> r \<in> S \<Longrightarrow> si_exclusive_group r = g \<Longrightarrow> \<not> beats r it"
    and "\<And>it. it \<in> S \<Longrightarrow> si_exclusive_group it \<noteq> [] \<Longrightarrow> map_of m (si_exclusive_group it) \<noteq> None"
  shows "chosen_ok S m"
  using assms unfolding chosen_ok_def by blast

lemma chosen_okD:
  assumes "chosen_ok S m"
  shows "go_map_ok m"
    and "map_of m g = Some it \<Longrightarrow> g \<noteq> [] \<and> it \<in> S \<and> si_exclusive_group it = g"
    and "map_of m g = Some it \<Longrightarrow> r \<in> S \<Longrightarrow> si_exclusive_group r = g \<Longrightarrow> \<not> beats r it"
    and "it \<in> S \<Longrightarrow> si_exclusive_group it \<noteq> [] \<Longrightarrow> map_of m (si_exclusive_group it) \<noteq> None"
  using assms unfolding chosen_ok_def by blast+

lemma chosen_ok_take:
  assumes ok: "chosen_ok S m" and x: "si_exclusive_group x = g" and g: "g \<noteq> []"
    and best: "\<And>r. r \<in> S \<Longrightarrow> si_exclusive_group r = g \<Longrightarrow> \<not> beats r x"
  shows "chosen_ok (insert x S) (AList.update g x m)"
proof (rule chosen_okI)
  show "go_map_ok (AList.update g x m)"
    using chosen_okD(1) [OF ok] by (rule go_map_ok_update)
  fix h it
  assume m: "map_of (AList.update g x m) h = Some it"
  then have new: "h = g \<and> it = x \<or> h \<noteq> g \<and> map_of m h = Some it"
    by (cases "h = g") (simp_all add: update_conv)
  then show "h \<noteq> [] \<and> it \<in> insert x S \<and> si_exclusive_group it = h"
    using g x chosen_okD(2) [OF ok] by blast
  show "\<not> beats r it" if "r \<in> insert x S" "si_exclusive_group r = h" for r
    using new that x best chosen_okD(3) [OF ok] beats_irrefl by blast
next
  show "map_of (AList.update g x m) (si_exclusive_group it) \<noteq> None"
    if "it \<in> insert x S" "si_exclusive_group it \<noteq> []" for it
    using that x chosen_okD(4) [OF ok, of it]
    by (cases "si_exclusive_group it = g") (auto simp: update_conv)
qed

lemma chosen_ok_skip:
  assumes ok: "chosen_ok S m"
    and skip: "si_exclusive_group x \<noteq> [] \<Longrightarrow>
      \<exists>p. map_of m (si_exclusive_group x) = Some p \<and> \<not> beats x p"
  shows "chosen_ok (insert x S) m"
proof (rule chosen_okI)
  show "go_map_ok m" by (rule chosen_okD(1) [OF ok])
  show "g \<noteq> [] \<and> it \<in> insert x S \<and> si_exclusive_group it = g" if "map_of m g = Some it" for g it
    using chosen_okD(2) [OF ok that] by blast
  show "\<not> beats r it"
    if m: "map_of m g = Some it" and "r \<in> insert x S" and "si_exclusive_group r = g" for g it r
  proof (cases "r = x")
    case True
    then show ?thesis using skip that chosen_okD(2) [OF ok m] by auto
  qed (use that chosen_okD(3) [OF ok] in blast)
  show "map_of m (si_exclusive_group it) \<noteq> None"
    if "it \<in> insert x S" and "si_exclusive_group it \<noteq> []" for it
    using that skip chosen_okD(4) [OF ok] by (cases "it = x") auto
qed

lemma chosen_ok_step:
  assumes ok: "chosen_ok S (snd st)"
  shows "chosen_ok (insert (cap_item it) S) (snd (collect_item st it))"
proof (cases "si_exclusive_group it \<noteq> [] \<and> (case map_of (snd st) (si_exclusive_group it) of
    None \<Rightarrow> True | Some prior \<Rightarrow> beats (cap_item it) prior)")
  case True
  have "\<not> beats r (cap_item it)" if r: "r \<in> S" "si_exclusive_group r = si_exclusive_group it" for r
  proof (cases "map_of (snd st) (si_exclusive_group it)")
    case None
    then show ?thesis using ok r True unfolding chosen_ok_def by metis
  next
    case (Some prior)
    then have "\<not> beats r prior" using ok r unfolding chosen_ok_def by metis
    moreover have "\<not> beats prior (cap_item it)" using True Some winner.less_asym by simp
    ultimately show ?thesis using winner.nless_trans by blast
  qed
  then have "chosen_ok (insert (cap_item it) S)
      (AList.update (si_exclusive_group it) (cap_item it) (snd st))"
    using ok True by (intro chosen_ok_take) simp_all
  then show ?thesis by (simp only: snd_collect_item True simp_thms if_True)
next
  case False
  have "chosen_ok (insert (cap_item it) S) (snd st)"
    using ok False by (intro chosen_ok_skip) (auto split: option.splits)
  then show ?thesis by (simp only: snd_collect_item False if_False)
qed

lemma chosen_ok_foldl:
  "chosen_ok S (snd st) \<Longrightarrow>
   chosen_ok (S \<union> cap_item ` set items) (snd (foldl collect_item st items))"
proof (induction items arbitrary: st S)
  case (Cons it items)
  then show ?case
    using Cons.IH [OF chosen_ok_step [OF Cons.prems, of it]] by simp
qed simp

lemma chosen_ok_start: "chosen_ok {} (snd ([], []))"
  by (simp add: chosen_ok_def)

lemma distinct_ids_cap: "distinct_ids items \<Longrightarrow> distinct_ids (map cap_item items)"
  by (simp add: distinct_ids_def comp_def)

lemma distinct_ids_eq:
  "distinct_ids items \<Longrightarrow> a \<in> set items \<Longrightarrow> b \<in> set items \<Longrightarrow> si_id a = si_id b \<Longrightarrow> a = b"
  by (auto simp: distinct_ids_def distinct_map inj_on_def)

lemma mset_survivors:
  assumes "distinct_ids items" and "foldl collect_item ([], []) items = (plain, chosen)"
  shows "mset (plain @ map snd chosen) = mset (survivors items)"
proof -
  let ?cs = "map cap_item items"
  have cs: "distinct_ids ?cs" using assms(1) by (rule distinct_ids_cap)
  then have dcs: "distinct ?cs" unfolding distinct_ids_def by (rule distinct_map [THEN iffD1, THEN conjunct1])
  have plain: "plain = filter (\<lambda>it. si_exclusive_group it = []) ?cs"
    using collect_plain [of "([], [])" items] assms(2) by simp
  have ok: "chosen_ok (set ?cs) chosen"
    using chosen_ok_foldl [OF chosen_ok_start, of items] assms(2) by simp
  have m: "map_of chosen g = Some it \<longleftrightarrow> (g, it) \<in> set chosen" for g it
    using ok by (simp add: chosen_ok_def go_map_ok_def)
  have grp: "si_exclusive_group it = g" "g \<noteq> []" if "(g, it) \<in> set chosen" for g it
    using that ok m by (auto simp: chosen_ok_def)
  have inj: "inj_on snd (set chosen)"
  proof (rule inj_onI)
    fix p q assume "p \<in> set chosen" and "q \<in> set chosen" and "snd p = snd q"
    then have "si_exclusive_group (snd p) = fst p" and "si_exclusive_group (snd q) = fst q"
      using grp(1) by (metis prod.collapse)+
    then show "p = q" using \<open>snd p = snd q\<close> by (simp add: prod_eq_iff)
  qed
  have dch: "distinct (map snd chosen)"
    using ok inj by (simp add: chosen_ok_def go_map_ok_def distinct_map)
  have set_eq: "set (plain @ map snd chosen) = set (survivors items)"
  proof (intro equalityI subsetI)
    fix it assume "it \<in> set (plain @ map snd chosen)"
    then show "it \<in> set (survivors items)"
      using ok m by (auto simp: plain survivors_def Let_def chosen_ok_def)
  next
    fix it assume it: "it \<in> set (survivors items)"
    show "it \<in> set (plain @ map snd chosen)"
    proof (cases "si_exclusive_group it = []")
      case True
      then show ?thesis using it by (simp add: plain survivors_def Let_def)
    next
      case False
      have itc: "it \<in> set ?cs" using it by (auto simp: survivors_def Let_def)
      then obtain w where w: "map_of chosen (si_exclusive_group it) = Some w"
        using ok False by (auto simp: chosen_ok_def)
      then have wc: "w \<in> set ?cs" and "\<not> beats it w" and "si_exclusive_group w = si_exclusive_group it"
        using ok itc by (auto simp: chosen_ok_def)
      moreover have "\<not> beats w it"
        using it False wc calculation(3) by (auto simp: survivors_def Let_def)
      ultimately have "si_id w = si_id it" by (auto simp: beats_def)
      then have "w = it" using distinct_ids_eq [OF cs wc itc] by simp
      then show ?thesis using w m by force
    qed
  qed
  have "distinct (plain @ map snd chosen)"
    using dcs dch grp by (auto simp: plain)
  moreover have "distinct (survivors items)"
    using dcs by (simp add: survivors_def Let_def)
  ultimately show ?thesis
    using set_eq set_eq_iff_mset_eq_distinct by blast
qed

subsection \<open>Adding up\<close>

lemma i64sum_Nil [simp]: "i64sum [] = 0"
  by (simp add: i64sum_def)

lemma i64sum_snoc [simp]: "i64sum (xs @ [x]) = i64add (i64sum xs) x"
  by (simp add: i64sum_def)

lemma group_sum_Nil [simp]: "group_sum k [] = 0"
  by (simp add: group_sum_def)

lemma group_sum_snoc:
  "group_sum k (ps @ [it]) =
     (if si_cap_group_key it = k then i64add (group_sum k ps) (si_score it) else group_sum k ps)"
  by (simp add: group_sum_def)

lemma group_sum_perm: "mset ps = mset qs \<Longrightarrow> group_sum k ps = group_sum k qs"
  unfolding group_sum_def by (rule i64sum_perm) simp

definition tally :: "scored_item list \<Rightarrow> points \<times> (string, points) gomap \<times> (string, points) gomap" where
  "tally ps = foldl tally_item (0, [], []) ps"

lemma tally_snoc: "tally (ps @ [it]) = tally_item (tally ps) it"
  by (simp add: tally_def)

lemma tally_facts:
  "fst (tally ps) = group_sum [] ps"
  "go_map_ok (fst (snd (tally ps)))"
  "fst ` set (fst (snd (tally ps))) = si_cap_group_key ` set ps - {[]}"
  "k \<noteq> [] \<Longrightarrow> go_get 0 (fst (snd (tally ps))) k = group_sum k ps"
proof (induction ps rule: rev_induct)
  case (snoc it ps)
  obtain t g c where st: "tally ps = (t, g, c)" by (cases "tally ps")
  note snoc' = snoc [unfolded st, simplified]
  {
    case 1 show ?case using snoc'(1) by (simp add: tally_snoc st Let_def group_sum_snoc)
  next
    case 2 show ?case using snoc'(2) by (simp add: tally_snoc st Let_def go_map)
  next
    case 3 show ?case using snoc'(3) by (auto simp: tally_snoc st Let_def dom_update)
  next
    case 4 then show ?case using snoc'(4)
      by (auto simp: tally_snoc st Let_def group_sum_snoc go_map)
  }
qed (simp_all add: tally_def)

lemma caps_agreeD:
  "caps_agree items \<Longrightarrow> a \<in> set items \<Longrightarrow> b \<in> set items \<Longrightarrow>
   si_cap_group_key a = si_cap_group_key b \<Longrightarrow> si_cap_group_key b \<noteq> [] \<Longrightarrow>
   si_cap_group_cap a = si_cap_group_cap b"
  unfolding caps_agree_def by metis

lemma caps_agree_subset: "caps_agree items \<Longrightarrow> set ps \<subseteq> set items \<Longrightarrow> caps_agree ps"
  unfolding caps_agree_def by blast

lemma caps_agree_cap: "caps_agree items \<Longrightarrow> caps_agree (map cap_item items)"
  unfolding caps_agree_def set_map ball_simps cap_item_simps .

lemma tally_caps:
  assumes "caps_agree ps" and "it \<in> set ps" and "si_cap_group_key it \<noteq> []"
  shows "go_get 0 (snd (snd (tally ps))) (si_cap_group_key it) = si_cap_group_cap it"
  using assms
proof (induction ps rule: rev_induct)
  case (snoc x ps)
  obtain t g c where st: "tally ps = (t, g, c)" by (cases "tally ps")
  have agree: "caps_agree ps" using snoc.prems(1) by (rule caps_agree_subset) auto
  show ?case
  proof (cases "si_cap_group_key x = si_cap_group_key it")
    case True
    moreover have "si_cap_group_cap x = si_cap_group_cap it"
      using True snoc.prems(3) by (intro caps_agreeD [OF snoc.prems(1) _ snoc.prems(2)]) simp_all
    ultimately show ?thesis
      using snoc.prems(3) by (simp add: tally_snoc st Let_def go_get_update)
  next
    case False
    then have "it \<in> set ps" using snoc.prems(2) by auto
    then show ?thesis
      using snoc.IH [OF agree _ snoc.prems(3)] False
      by (simp add: tally_snoc st Let_def go_get_update)
  qed
qed simp

lemma caps_agree_group_cap:
  assumes "caps_agree ps" and "it \<in> set ps" and "si_cap_group_key it \<noteq> []"
  shows "group_cap (si_cap_group_key it) ps = si_cap_group_cap it"
proof -
  obtain x where x: "find (\<lambda>y. si_cap_group_key y = si_cap_group_key it) ps = Some x"
    using assms(2) by (metis (mono_tags, lifting) find_None_iff not_Some_eq)
  have "x \<in> set ps" and "si_cap_group_key x = si_cap_group_key it"
    using x by (auto simp: find_Some_iff)
  then have "si_cap_group_cap x = si_cap_group_cap it"
    using caps_agreeD [OF assms(1) _ assms(2) _ assms(3)] by blast
  then show ?thesis
    using x by (simp add: group_cap_def)
qed

lemma foldl_wrap:
  "foldl (\<lambda>t (k, s). i64add t (f k s)) (wrap64 a) xs
     = wrap64 (a + sum_list (map (\<lambda>(k, s). f k s) xs))"
proof (induction xs arbitrary: a)
  case (Cons p xs)
  obtain k s where p: "p = (k, s)" by (cases p)
  show ?case
    using Cons.IH [of "a + f k s"] by (simp add: p i64add_def wrap64_add_left add.assoc)
qed simp

lemma sum_list_gomap:
  assumes "go_map_ok m"
  shows "sum_list (map (\<lambda>(k, s). f k s) m) = (\<Sum>k \<in> fst ` set m. f k (go_get d m k))"
proof -
  have "distinct m" using assms by (metis distinct_zipI1 go_map_ok_def zip_map_fst_snd)
  have inj: "inj_on fst (set m)" using assms by (simp add: go_map_ok_def distinct_map)
  have "sum_list (map (\<lambda>(k, s). f k s) m) = (\<Sum>(k, s) \<in> set m. f k s)"
    using \<open>distinct m\<close> by (simp add: sum_list_distinct_conv_sum_set)
  also have "\<dots> = (\<Sum>p \<in> set m. f (fst p) (go_get d m (fst p)))"
    using assms by (intro sum.cong) (auto simp: go_get_def go_map_ok_def)
  also have "\<dots> = (\<Sum>k \<in> fst ` set m. f k (go_get d m k))"
    using inj by (simp add: sum.reindex)
  finally show ?thesis .
qed

lemma wrap64_group_sum [simp]: "wrap64 (group_sum k ps) = group_sum k ps"
  by (rule wrap64_id) (simp add: group_sum_def)

lemma visit_orderD: "visit_order visit \<Longrightarrow> mset (visit xs) = mset xs"
  by (simp add: visit_order_def)

lemma sum_list_visit:
  fixes h :: "'a \<Rightarrow> int"
  assumes "visit_order visit"
  shows "sum_list (map h (visit g)) = sum_list (map h g)"
  unfolding sum_mset_sum_list [symmetric] mset_map visit_orderD [OF assms] ..

lemma item_total_tally:
  assumes "visit_order visit" and "caps_agree ps" and "tally ps = (t, g, c)"
  shows "foldl (\<lambda>t (k, s). i64add t (min_points s (go_get 0 c k))) t (visit g)
    = wrap64 (group_sum [] ps
        + (\<Sum>k \<in> si_cap_group_key ` set ps - {[]}. min_points (group_sum k ps) (group_cap k ps)))"
proof -
  note facts = tally_facts [where ps = ps, unfolded assms(3) fst_conv snd_conv]
  have t: "t = wrap64 (group_sum [] ps)" using facts(1) by simp
  have "sum_list (map (\<lambda>(k, s). min_points s (go_get 0 c k)) (visit g))
      = sum_list (map (\<lambda>(k, s). min_points s (go_get 0 c k)) g)"
    by (rule sum_list_visit [OF assms(1)])
  also have "\<dots> = (\<Sum>k \<in> fst ` set g. min_points (go_get 0 g k) (go_get 0 c k))"
    by (rule sum_list_gomap [OF facts(2)])
  also have "\<dots> = (\<Sum>k \<in> si_cap_group_key ` set ps - {[]}. min_points (group_sum k ps) (group_cap k ps))"
  proof (rule sum.cong)
    show "fst ` set g = si_cap_group_key ` set ps - {[]}" by (rule facts(3))
    fix k assume k: "k \<in> si_cap_group_key ` set ps - {[]}"
    then obtain it where it: "it \<in> set ps" "k = si_cap_group_key it" "k \<noteq> []" by auto
    then have "go_get 0 c k = group_cap k ps"
      using tally_caps [OF assms(2), of it] caps_agree_group_cap [OF assms(2), of it] assms(3) by simp
    then show "min_points (go_get 0 g k) (go_get 0 c k) = min_points (group_sum k ps) (group_cap k ps)"
      using facts(4) [OF it(3)] by simp
  qed
  finally show ?thesis unfolding t by (subst foldl_wrap) simp
qed

lemma survivors_fields:
  assumes "caps_agree items"
  shows "caps_agree (survivors items)"
  using caps_agree_cap [OF assms] by (rule caps_agree_subset) (auto simp: survivors_def Let_def)

lemma item_total_perm:
  assumes "mset ps = mset qs" and "caps_agree ps"
  shows "wrap64 (group_sum [] ps
      + (\<Sum>k \<in> si_cap_group_key ` set ps - {[]}. min_points (group_sum k ps) (group_cap k ps)))
    = wrap64 (group_sum [] qs
      + (\<Sum>k \<in> si_cap_group_key ` set qs - {[]}. min_points (group_sum k qs) (group_cap k qs)))"
proof -
  have set: "set ps = set qs" using assms(1) by (rule mset_eq_setD)
  have agree: "caps_agree qs" using assms(2) set by (simp add: caps_agree_subset)
  have "(\<Sum>k \<in> si_cap_group_key ` set ps - {[]}. min_points (group_sum k ps) (group_cap k ps))
      = (\<Sum>k \<in> si_cap_group_key ` set qs - {[]}. min_points (group_sum k qs) (group_cap k qs))"
  proof (rule sum.cong)
    fix k assume "k \<in> si_cap_group_key ` set qs - {[]}"
    then obtain it where it: "it \<in> set qs" and k: "k = si_cap_group_key it"
      and ne: "si_cap_group_key it \<noteq> []" by auto
    have "group_cap k ps = group_cap k qs"
      using caps_agree_group_cap [OF agree it ne] caps_agree_group_cap [OF assms(2) _ ne] it set k
      by simp
    then show "min_points (group_sum k ps) (group_cap k ps)
        = min_points (group_sum k qs) (group_cap k qs)"
      by (simp add: group_sum_perm [OF assms(1)])
  qed (simp add: set)
  then show ?thesis by (simp add: group_sum_perm [OF assms(1)])
qed

lemma tally_base_foldl:
  "foldl tally_base (b, p) rs =
     (foldl i64add b (map rb_score (filter (\<lambda>r. rb_kind r = ''base'') rs)),
      foldl i64add p (map rb_score (filter (\<lambda>r. rb_kind r = ''penalty'') rs)))"
  by (induction rs arbitrary: b p) auto

lemma compute_category_score_total:
  assumes "distinct_ids items" and "caps_agree items"
    and "visit_order visit1" and "visit_order visit2"
  shows "compute_category_score visit1 visit2 items base mx =
    (let it = category_item_total items;
         b = i64sum (map rb_score (filter (\<lambda>r. rb_kind r = ''base'') base));
         p = i64sum (map rb_score (filter (\<lambda>r. rb_kind r = ''penalty'') base));
         before = wrap64 (it + b + p)
     in \<lparr>cb_item_total = it, cb_base_total = b, cb_penalty_total = p,
         cb_before_cap = before, cb_total = min before mx\<rparr>)"
proof -
  obtain plain chosen where ch: "foldl collect_item ([], []) items = (plain, chosen)"
    by (cases "foldl collect_item ([], []) items")
  let ?ps = "plain @ map snd (visit1 chosen)"
  obtain t g c where ta: "tally ?ps = (t, g, c)" by (cases "tally ?ps")
  have ps: "mset ?ps = mset (survivors items)"
    using mset_survivors [OF assms(1) ch] visit_orderD [OF assms(3)] by simp
  have agree: "caps_agree ?ps"
    using survivors_fields [OF assms(2)] mset_eq_setD [OF ps] by (simp add: caps_agree_subset)
  have "foldl (\<lambda>t (k, s). i64add t (min_points s (go_get 0 c k))) t (visit2 g)
      = category_item_total items"
    unfolding item_total_tally [OF assms(4) agree ta] category_item_total_def Let_def
    by (rule item_total_perm [OF ps agree])
  then show ?thesis
    using ta by (simp add: compute_category_score_def ch tally_def tally_base_foldl i64sum_def
      Let_def i64add_def wrap64_add_left min_points_def min_def)
qed

lemma score_cap_item: "si_score (cap_item it) = worth it"
  by (simp add: cap_item_def worth_def min_points_def min_def split: option.split)

lemma survivors_counted: "survivors items = map cap_item (counted items)"
proof -
  have "\<not> beats (cap_item r) (cap_item it)
      \<longleftrightarrow> worth r < worth it \<or> worth r = worth it \<and> si_id it \<le> si_id r" for r it
    by (auto simp: beats_def score_cap_item)
  then show ?thesis
    by (simp add: survivors_def counted_def Let_def filter_map comp_def)
qed

lemma group_sum_counted:
  "group_sum k (map cap_item its) = wrap64 (\<Sum>it \<leftarrow> filter (\<lambda>it. si_cap_group_key it = k) its. worth it)"
  by (simp add: group_sum_def i64sum_wrap filter_map comp_def score_cap_item)

lemma group_cap_counted:
  "k \<in> si_cap_group_key ` set its
    \<Longrightarrow> group_cap k (map cap_item its) = si_cap_group_cap (hd (filter (\<lambda>it. si_cap_group_key it = k) its))"
  by (induction its) (auto simp: group_cap_def)

lemma category_item_total_specified: "category_item_total items = specified_item_total items"
  unfolding category_item_total_def specified_item_total_def Let_def survivors_counted
  by (intro arg_cong [of _ _ wrap64] arg_cong2 [of _ _ _ _ plus] sum.cong)
    (auto simp: group_sum_counted group_cap_counted image_image min_points_def min_def)

text \<open>
  C4. The Go loop over maps computes the specification: when submission ids are distinct
  and the items of a shared cap group carry one cap, \<open>ComputeCategoryScore\<close> returns, for
  every order in which the two maps are visited, what \<open>specified_score\<close> says: the worth of the
  counted items, each shared group limited by its cap, plus base and penalty records, limited
  by the category's maximum.
\<close>

theorem compute_category_score_refines:
  assumes "distinct_ids items" and "caps_agree items"
    and "visit_order visit1" and "visit_order visit2"
  shows "compute_category_score visit1 visit2 items base mx = specified_score items base mx"
  by (simp add: compute_category_score_total [OF assms] specified_score_def Let_def i64sum_wrap
    category_item_total_specified)

definition demo_items :: "scored_item list" where
  "demo_items =
    [\<lparr>si_id = 1, si_item_key = ''a'', si_score = 3000, si_item_cap = Some 2500,
       si_exclusive_group = ''g'', si_cap_group_key = ''c'', si_cap_group_cap = 4000\<rparr>,
     \<lparr>si_id = 2, si_item_key = ''b'', si_score = 2500, si_item_cap = None,
       si_exclusive_group = ''g'', si_cap_group_key = ''c'', si_cap_group_cap = 4000\<rparr>,
     \<lparr>si_id = 3, si_item_key = ''d'', si_score = 2000, si_item_cap = None,
       si_exclusive_group = [], si_cap_group_key = ''c'', si_cap_group_cap = 4000\<rparr>,
     \<lparr>si_id = 4, si_item_key = ''e'', si_score = 700, si_item_cap = None,
       si_exclusive_group = [], si_cap_group_key = [], si_cap_group_cap = 0\<rparr>]"

lemma demo_items_ok: "distinct_ids demo_items" "caps_agree demo_items"
  by (simp_all add: demo_items_def distinct_ids_def caps_agree_def)

lemma visit_order_id: "visit_order id" "visit_order rev"
  by (simp_all add: visit_order_def)

theorem compute_category_score_refines_witness:
  "compute_category_score rev id demo_items
      [\<lparr>rb_item_key = ''x'', rb_kind = ''base'', rb_score = 1000\<rparr>,
       \<lparr>rb_item_key = ''y'', rb_kind = ''penalty'', rb_score = -300\<rparr>] 5000 =
    \<lparr>cb_item_total = 4700, cb_base_total = 1000, cb_penalty_total = -300,
      cb_before_cap = 5400, cb_total = 5000\<rparr>"
  unfolding compute_category_score_refines
    [OF demo_items_ok visit_order_id(2) visit_order_id(1)]
  by code_simp

lemma category_item_total_perm:
  assumes "mset items = mset items'" and "caps_agree items"
  shows "category_item_total items = category_item_total items'"
proof -
  have "set items = set items'" using assms(1) by (rule mset_eq_setD)
  then have "mset (survivors items) = mset (survivors items')"
    using assms(1) by (simp add: survivors_def Let_def mset_filter)
  then show ?thesis
    unfolding category_item_total_def Let_def
    by (rule item_total_perm) (rule survivors_fields [OF assms(2)])
qed

text \<open>
  C28. When submission ids are distinct and the items of a shared cap group carry one cap, a
  category total does not depend on the order in which the database returns the
  submissions and the base records, nor on the order in which Go visits its maps.
\<close>

theorem compute_category_score_order_free:
  assumes "mset items = mset items'" and "mset base = mset base'"
    and "distinct_ids items" and "caps_agree items"
    and "visit_order v1" and "visit_order v2" and "visit_order w1" and "visit_order w2"
  shows "compute_category_score v1 v2 items base mx = compute_category_score w1 w2 items' base' mx"
proof -
  have sets: "set items = set items'" using assms(1) by (rule mset_eq_setD)
  have d: "distinct_ids items'"
    using assms(1,3) unfolding distinct_ids_def by (metis mset_eq_imp_distinct_iff mset_map)
  have a: "caps_agree items'" using assms(4) sets by (simp add: caps_agree_subset)
  have r: "i64sum (map rb_score (filter P base)) = i64sum (map rb_score (filter P base'))" for P
    using assms(2) by (intro i64sum_perm) simp
  show ?thesis
    using category_item_total_perm [OF assms(1,4)]
    by (simp add: compute_category_score_total [OF assms(3-6)] r
      compute_category_score_total [OF d a assms(7,8)])
qed

theorem compute_category_score_order_free_witness:
  "compute_category_score id id demo_items [] 5000
     = compute_category_score rev rev (rev demo_items) [] 5000"
  by (rule compute_category_score_order_free)
    (simp_all add: demo_items_ok visit_order_id)

definition mixed_cap_items :: "scored_item list" where
  "mixed_cap_items =
    [\<lparr>si_id = 1, si_item_key = ''a'', si_score = 3000, si_item_cap = None,
       si_exclusive_group = ''g'', si_cap_group_key = ''c'', si_cap_group_cap = 2000\<rparr>,
     \<lparr>si_id = 2, si_item_key = ''b'', si_score = 3000, si_item_cap = None,
       si_exclusive_group = ''h'', si_cap_group_key = ''c'', si_cap_group_cap = 5000\<rparr>]"

text \<open>
  The hypothesis on the caps is needed.  The cap of a shared group is the one of the
  item visited last, and the chosen items of exclusive groups are visited in map order, so
  two snapshots of one group that disagree on the cap (they were filed under two versions of
  the scheme) can give the same submissions two totals: here is an example.
\<close>

lemma compute_category_score_mixed_caps:
  "visit_order id \<and> visit_order rev \<and> distinct_ids mixed_cap_items
   \<and> cb_total (compute_category_score id id mixed_cap_items [] 100000) = 5000
   \<and> cb_total (compute_category_score rev id mixed_cap_items [] 100000) = 2000"
proof (intro conjI)
  show "cb_total (compute_category_score id id mixed_cap_items [] 100000) = 5000"
    by code_simp
  show "cb_total (compute_category_score rev id mixed_cap_items [] 100000) = 2000"
    by code_simp
qed (simp_all add: visit_order_id mixed_cap_items_def distinct_ids_def)

section \<open>Scores and claims\<close>

lemma rnd64_Fin: "\<bar>rnd_rat x\<bar> < 2 ^ 1024 \<Longrightarrow> rnd64 x = Fin (rnd_rat x)"
  by (simp add: rnd64_def)

lemma floor_half: "\<lfloor>1 / 2 :: rat\<rfloor> = 0"
  by (simp add: floor_eq_iff)

lemma double_range: "x \<le> 2 ^ 1000 \<Longrightarrow> x < (2::rat) ^ 1024"
  by (rule le_less_trans [of _ "2 ^ 1000"]) (auto intro: power_strict_increasing)

lemma tiny_le: "1 / 2 \<le> (x::rat) \<Longrightarrow> 2 powi (-1022) \<le> x"
proof -
  assume "1 / 2 \<le> x"
  moreover have "(2::rat) powi (-1022) \<le> 2 powi (-1)" by (intro power_int_increasing) auto
  ultimately show ?thesis by (simp add: power_int_minus)
qed

text \<open>The two roundings of the round trip together move an integer by less than a half.\<close>

lemma thousandth_roundtrip:
  assumes "p \<noteq> 0" and "\<bar>p\<bar> \<le> 2 ^ 50"
  defines "y \<equiv> rnd_rat (of_int p / 1000)"
  shows "\<bar>rnd_rat (y * 1000) - of_int p\<bar> < 1 / 2" and "\<bar>y * 1000 - of_int p\<bar> \<le> 1 / 8"
proof -
  let ?p = "of_int p :: rat"
  have p1: "1 \<le> \<bar>?p\<bar>" using assms(1) by (simp add: abs_le_iff)
  have p2: "\<bar>?p\<bar> \<le> 2 ^ 50"
    using assms(2) by (metis of_int_abs of_int_le_iff of_int_numeral of_int_power)
  have "2 powi (-1022) \<le> \<bar>?p / 1000\<bar>"
  proof -
    have "(2::rat) powi (-1022) \<le> 2 powi (-10)" by (intro power_int_increasing) auto
    also have "\<dots> = 1 / 1024" by (simp add: power_int_minus)
    also have "\<dots> \<le> \<bar>?p / 1000\<bar>" using p1 by simp
    finally show ?thesis .
  qed
  from rnd_rat_rel_error [OF this] have "\<bar>y - ?p / 1000\<bar> \<le> \<bar>?p / 1000\<bar> / 2 ^ 53"
    by (simp only: y_def)
  then have e1: "\<bar>y * 1000 - ?p\<bar> \<le> \<bar>?p\<bar> / 2 ^ 53"
    by (auto simp: abs_le_iff abs_if field_simps split: if_splits)
  also have "\<dots> \<le> 2 ^ 50 / 2 ^ 53" using p2 by (intro divide_right_mono) auto
  finally show e8: "\<bar>y * 1000 - ?p\<bar> \<le> 1 / 8" by simp
  have "1 / 2 \<le> \<bar>y * 1000\<bar>" using e8 p1 by linarith
  from rnd_rat_rel_error [OF tiny_le [OF this]]
  have "\<bar>rnd_rat (y * 1000) - y * 1000\<bar> \<le> \<bar>y * 1000\<bar> / 2 ^ 53" .
  also have "\<dots> \<le> (2 ^ 50 + 1) / 2 ^ 53"
  proof (rule divide_right_mono)
    show "\<bar>y * 1000\<bar> \<le> 2 ^ 50 + 1" using e8 p2 by linarith
  qed simp
  finally have "\<bar>rnd_rat (y * 1000) - y * 1000\<bar> \<le> 1 / 4" by simp
  then show "\<bar>rnd_rat (y * 1000) - ?p\<bar> < 1 / 2" using e8 by linarith
qed

lemma points_roundtrip_aux:
  assumes "\<bar>p\<bar> \<le> 2 ^ 50"
  shows "new_points (points_float p) = p"
proof (cases "p = 0")
  case True
  then show ?thesis
    by (simp add: new_points_def points_float_def points_scale_def f64_of_int_def rnd64_def
      round_away_def truncate_rat_def floor_half in_int64_def)
next
  case False
  let ?y = "rnd_rat (of_int p / 1000)"
  note near = thousandth_roundtrip [OF False assms]
  have p2: "\<bar>of_int p :: rat\<bar> \<le> 2 ^ 50"
    using assms by (metis of_int_abs of_int_le_iff of_int_numeral of_int_power)
  have "\<bar>?y * 1000\<bar> \<le> 2 ^ 50 + 1" using near(2) p2 by linarith
  then have y: "\<bar>?y\<bar> < 2 ^ 1024" by (intro double_range) (simp add: abs_mult)
  have z: "\<bar>rnd_rat (?y * 1000)\<bar> < 2 ^ 1024"
  proof (rule double_range)
    have "\<bar>rnd_rat (?y * 1000)\<bar> \<le> 2 ^ 50 + 1" using near(1) p2 by linarith
    then show "\<bar>rnd_rat (?y * 1000)\<bar> \<le> 2 ^ 1000" by simp
  qed
  have "f64_of_int p = Fin (of_int p)"
    using assms by (simp add: f64_of_int_def rnd64_of_int)
  then have "new_points (points_float p) = int64_of_f64 (math_round (Fin (rnd_rat (?y * 1000))))"
    by (simp add: new_points_def points_float_def points_scale_def rnd64_Fin [OF y] rnd64_Fin [OF z])
  also have "\<dots> = p"
  proof -
    have "in_int64 p" using assms by (simp add: in_int64_def abs_le_iff)
    then show ?thesis by (simp add: round_away_near [OF near(1)])
  qed
  finally show ?thesis .
qed

text \<open>
  C29. Storing a score and reading it back is exact: for every number of thousandths up to
  \<open>2 ^ 50\<close>, \<open>NewPoints(p.Float64()) == p\<close>, although the double in between is rounded.
\<close>

theorem points_roundtrip:
  assumes "\<bar>p\<bar> \<le> 2 ^ 50"
  shows "new_points (points_float p) = p"
  using assms by (rule points_roundtrip_aux)

theorem points_roundtrip_witness: "new_points (points_float 12345) = 12345"
  by (rule points_roundtrip) simp

lemma new_points_mono:
  assumes "finite64 (fmul x points_scale)" and "finite64 (fmul y points_scale)"
    and "in_int64 (new_points x)" and "x = Fin a" and "y = Fin b" and "a \<le> b"
    and "new_points y \<noteq> - (2 ^ 63)"
  shows "new_points x \<le> new_points y"
proof -
  have x: "fmul x points_scale = Fin (rnd_rat (a * 1000))"
    and y: "fmul y points_scale = Fin (rnd_rat (b * 1000))"
    using assms(1,2) by (auto simp: assms(4,5) points_scale_def rnd64_def Let_def split: if_splits)
  have "round_away (rnd_rat (a * 1000)) \<le> round_away (rnd_rat (b * 1000))"
    using assms(6) by (intro round_away_mono rnd_rat_mono) simp
  then show ?thesis
    using assms(7) by (auto simp: new_points_def x y in_int64_def split: if_splits)
qed

lemma max_option_points_ge:
  "m \<le> foldl (\<lambda>m o'. max m (new_points (eo_score o'))) m os"
  by (induction os arbitrary: m) (auto intro: order_trans [OF max.cobounded1])

lemma max_option_points_upper:
  "o' \<in> set os \<Longrightarrow>
   new_points (eo_score o') \<le> foldl (\<lambda>m o'. max m (new_points (eo_score o'))) m os"
proof (induction os arbitrary: m)
  case (Cons x os)
  then show ?case
    using max_option_points_ge [of "max m (new_points (eo_score x))" os] by auto
qed simp

lemma new_points_0 [simp]: "new_points (Fin 0) = 0"
  by (simp add: new_points_def points_scale_def rnd64_def round_away_def truncate_rat_def
    floor_half in_int64_def)

text \<open>
  C26. Every score \<open>ScoreClaim\<close> returns respects the rule it was computed under: a
  quantity rule never exceeds its cap, a graded rule stays at or below the best grade (and a
  score the student chose is not negative), a self-reported rule stays between its bounds,
  and a threshold rule gives the award or nothing.  A rule of another type gives an error.
\<close>

theorem score_claim_bounds:
  assumes "score_claim rule c = Inr s"
  shows "sr_type rule = ''per_unit'' \<and> (\<forall>k. sr_cap rule = Some k \<longrightarrow> s \<le> new_points k)
    \<or> sr_type rule = ''enum'' \<and> s \<le> max_option_points (sr_options rule)
        \<and> (cl_score c \<noteq> None \<longrightarrow> 0 \<le> s)
    \<or> sr_type rule = ''free'' \<and> (\<forall>lo. sr_min rule = Some lo \<longrightarrow> new_points lo \<le> s)
        \<and> (\<forall>hi. sr_max rule = Some hi \<longrightarrow> s \<le> new_points hi)
    \<or> sr_type rule = ''threshold'' \<and> (\<exists>a. sr_award rule = Some a \<and> s \<in> {0, new_points a})"
proof -
  consider (unit) "sr_type rule = ''per_unit''" | (enum) "sr_type rule = ''enum''"
    | (free) "sr_type rule = ''free''" | (threshold) "sr_type rule = ''threshold''"
    using assms by (auto simp: score_claim_def split: if_splits)
  then show ?thesis
  proof cases
    case unit
    then show ?thesis using assms
      by (auto simp: score_claim_def Let_def min_points_def split: option.splits if_splits)
  next
    case enum
    have best: "new_points (eo_score o') \<le> max_option_points (sr_options rule)"
      if "find (\<lambda>o'. eo_label o' = cl_option c) (sr_options rule) = Some o'" for o'
      unfolding max_option_points_def
      using that by (intro max_option_points_upper) (auto simp: find_Some_iff)
    show ?thesis using assms enum best
      by (auto simp: score_claim_def Let_def split: option.splits if_splits)
  next
    case free
    then show ?thesis using assms
      by (auto simp: score_claim_def Let_def split: option.splits if_splits)
  next
    case threshold
    then show ?thesis using assms
      by (auto simp: score_claim_def Let_def split: option.splits if_splits)
  qed
qed

definition demo_unit_rule :: score_rule where
  "demo_unit_rule = \<lparr>sr_type = ''per_unit'', sr_unit = ''h'', sr_per = Fin (1 / 4),
     sr_cap = Some (Fin 2), sr_min = None, sr_max = None, sr_options = [], sr_levels = [],
     sr_minimum = None, sr_award = None\<rparr>"

definition demo_claim :: "rat \<Rightarrow> claim" where
  "demo_claim q = \<lparr>cl_quantity = Some (Fin q), cl_option = [], cl_score = None\<rparr>"

lemma demo_unit_score: "score_claim demo_unit_rule (demo_claim 10) = Inr 2000"
  by code_simp

theorem score_claim_bounds_witness: "(2000::points) \<le> new_points (Fin 2)"
  using score_claim_bounds [OF demo_unit_score] by (simp add: demo_unit_rule_def)

text \<open>
  The conversion to thousandths is not guarded.  An example: a finite quantity whose score does not
  fit an \<open>int64\<close> is accepted, and a capped rule turns it into the most negative score there
  is instead of the cap (amd64; the language leaves the value open).
\<close>

lemma score_claim_overflow:
  "score_claim demo_unit_rule (demo_claim (10 ^ 17)) = Inr (- (2 ^ 63))"
  by code_simp

end
