(* ===== verification/SchemeRules.thy ===== *)
theory SchemeRules
  imports Scheme
begin

text \<open>
  What a scheme must satisfy before it is published and how schemes become templates:
  \<open>internal/scheme/validate.go\<close>, \<open>fallback.go\<close>, \<open>template.go\<close> and \<open>evidence.go\<close>.
  An error is the constructor of the return statement that produces it, with the keys and
  numbers its message quotes; the wording is not modelled.
\<close>

section \<open>Validation (validate.go)\<close>

datatype (plugins only: code) scheme_error =
    WindowOrder | LockdownBeforeClose | PublicityIncomplete | ExportGate
  | TopPercentRange | TooManyAwards | AwardUnnamed nat | AwardDuplicate string
  | AwardPercentRange nat | AwardsExceedClass int
  | SchemeUnnamed | WeightUnknown string | WeightRange string | WeightSum f64
  | CategoryUnknown string | CategoryDuplicate string | CategoryIncomplete string
  | FormulaWithoutLhs string | FormulaHalf string | FormulaTooLong string | NoteTooLong string
  | BaseFullInvalid string | BaseClaimIncomplete string | BaseEvidenceIncomplete string
  | PenaltyNotNegative string | CapGroupInvalid string | CapGroupConflict string
  | EvidenceIncomplete string | TooManyActivities string | ActivityUnnamed string nat
  | ActivityTooLong string nat | WeightWithoutCategory string
  | KeyMissing string | KeyDuplicate string
  | UnitIncomplete string | UnitCapInvalid string | EnumEmpty string | EnumLevelBlank string
  | EnumOptionInvalid string | EnumOptionDuplicate string string | EnumPathBlank string string
  | FreeBoundsInvalid string | ThresholdInvalid string | RuleTypeUnknown string string

definition allowed_categories :: "string list" where
  "allowed_categories = [''major'', ''moral'', ''practice'', ''health'']"

fun validate_award :: "nat \<times> string set \<times> int \<Rightarrow> award
    \<Rightarrow> (scheme_error, nat \<times> string set \<times> int) result" where
  "validate_award (index, seen, cumulative) a = (let name = trim_space (aw_name a) in
     if name = [] then Inl (AwardUnnamed (index + 1))
     else if name \<in> seen then Inl (AwardDuplicate name)
     else if aw_top_percent a < 0 \<or> 100 < aw_top_percent a then Inl (AwardPercentRange (index + 1))
     else Inr (index + 1, insert name seen, cumulative + aw_top_percent a))"

definition validate_timeline :: "window \<Rightarrow> capabilities \<Rightarrow> honor_roll \<Rightarrow> scheme_error option" where
  "validate_timeline w c h =
    (if \<not> w_open w < w_close w then Some WindowOrder
     else if (case w_lockdown w of None \<Rightarrow> False | Some l \<Rightarrow> l < w_close w)
       then Some LockdownBeforeClose
     else if (case w_publicity w of None \<Rightarrow> False
              | Some p \<Rightarrow> pw_open p = 0 \<or> pw_close p = 0 \<or> \<not> pw_open p < pw_close p)
       then Some PublicityIncomplete
     else if ec_gate (cap_export c) \<noteq> ''settlement'' then Some ExportGate
     else if hr_top_percent h < 0 \<or> 100 < hr_top_percent h then Some TopPercentRange
     else if max_awards < int (length (hr_awards h)) then Some TooManyAwards
     else (case fold_res validate_award (0, {}, 0) (hr_awards h) of
         Inl e \<Rightarrow> Some e
       | Inr (_, _, cumulative) \<Rightarrow>
           if 100 < cumulative then Some (AwardsExceedClass cumulative) else None))"

definition validate_tree_key :: "string \<Rightarrow> string \<Rightarrow> string \<Rightarrow> string set \<Rightarrow> string set
    \<Rightarrow> (scheme_error, string set \<times> string set) result" where
  "validate_tree_key category key name local glob =
    (if blank key \<or> blank name then Inl (KeyMissing category)
     else if key \<in> local \<or> key \<in> glob then Inl (KeyDuplicate key)
     else Inr (insert key local, insert key glob))"

fun validate_option :: "string \<Rightarrow> string set \<Rightarrow> enum_option \<Rightarrow> (scheme_error, string set) result" where
  "validate_option item_key seen o' =
    (if blank (eo_label o') \<or> \<not> finite64 (eo_score o') then Inl (EnumOptionInvalid item_key)
     else if eo_label o' \<in> seen then Inl (EnumOptionDuplicate item_key (eo_label o'))
     else if list_ex blank (eo_path o') then Inl (EnumPathBlank item_key (eo_label o'))
     else Inr (insert (eo_label o') seen))"

definition validate_score_rule :: "string \<Rightarrow> score_rule \<Rightarrow> scheme_error option" where
  "validate_score_rule item_key r =
    (if sr_type r = ''per_unit'' then
       (if blank (sr_unit r) \<or> \<not> finite64 (sr_per r) \<or> feq (sr_per r) (Fin 0)
          then Some (UnitIncomplete item_key)
        else (case sr_cap r of
            Some k \<Rightarrow> if \<not> finite64 k \<or> flt k (Fin 0) then Some (UnitCapInvalid item_key) else None
          | None \<Rightarrow> None))
     else if sr_type r = ''enum'' then
       (if sr_options r = [] then Some (EnumEmpty item_key)
        else if list_ex blank (sr_levels r) then Some (EnumLevelBlank item_key)
        else (case fold_res (validate_option item_key) {} (sr_options r) of
            Inl e \<Rightarrow> Some e | Inr _ \<Rightarrow> None))
     else if sr_type r = ''free'' then
       (case (sr_min r, sr_max r) of
          (Some lo, Some hi) \<Rightarrow>
            if \<not> finite64 lo \<or> \<not> finite64 hi \<or> flt hi lo then Some (FreeBoundsInvalid item_key)
            else None
        | _ \<Rightarrow> Some (FreeBoundsInvalid item_key))
     else if sr_type r = ''threshold'' then
       (case (sr_minimum r, sr_award r) of
          (Some m, Some a) \<Rightarrow>
            if blank (sr_unit r) \<or> \<not> finite64 m \<or> \<not> finite64 a \<or> fle m (Fin 0) \<or> flt a (Fin 0)
            then Some (ThresholdInvalid item_key) else None
        | _ \<Rightarrow> Some (ThresholdInvalid item_key))
     else Some (RuleTypeUnknown item_key (sr_type r)))"

definition evidence_incomplete :: "evidence_rule option \<Rightarrow> bool" where
  "evidence_incomplete e = (case e of None \<Rightarrow> False
     | Some r \<Rightarrow> ev_max_mb r \<le> 0 \<or> ev_types r = [])"

fun validate_weight :: "f64 \<Rightarrow> string \<times> f64 \<Rightarrow> (scheme_error, f64) result" where
  "validate_weight s (key, weight) =
    (if key \<notin> set allowed_categories then Inl (WeightUnknown key)
     else if \<not> finite64 weight \<or> flt weight (Fin 0) \<or> flt (Fin 1) weight then Inl (WeightRange key)
     else Inr (fadd s weight))"

definition validate_formula :: "string \<Rightarrow> formula option \<Rightarrow> scheme_error option" where
  "validate_formula key f = (case f of None \<Rightarrow> None
     | Some fo \<Rightarrow>
         if blank (fo_lhs fo) then Some (FormulaWithoutLhs key)
         else if blank (fo_numerator fo) \<noteq> blank (fo_denominator fo) then Some (FormulaHalf key)
         else if list_ex (\<lambda>part. 500 < length part) [fo_lhs fo, fo_numerator fo, fo_denominator fo]
           then Some (FormulaTooLong key)
         else None)"

fun validate_base :: "string \<Rightarrow> string set \<times> string set \<Rightarrow> base_item
    \<Rightarrow> (scheme_error, string set \<times> string set) result" where
  "validate_base category (local, glob) b =
    (case validate_tree_key category (bi_key b) (bi_name b) local glob of
       Inl e \<Rightarrow> Inl e
     | Inr st \<Rightarrow>
         if \<not> finite64 (bi_full b) \<or> flt (bi_full b) (Fin 0) then Inl (BaseFullInvalid (bi_key b))
         else (case bi_student_claim b of
             None \<Rightarrow> Inr st
           | Some sc \<Rightarrow>
               if fle (bi_full b) (Fin 0) \<or> \<not> finite64 (bc_minimum sc)
                  \<or> fle (bc_minimum sc) (Fin 0) \<or> blank (bc_unit sc)
               then Inl (BaseClaimIncomplete (bi_key b))
               else if evidence_incomplete (bc_evidence sc)
               then Inl (BaseEvidenceIncomplete (bi_key b))
               else Inr st))"

fun validate_penalty :: "string \<Rightarrow> string set \<times> string set \<Rightarrow> penalty_item
    \<Rightarrow> (scheme_error, string set \<times> string set) result" where
  "validate_penalty category (local, glob) p =
    (case validate_tree_key category (pi_key p) (pi_name p) local glob of
       Inl e \<Rightarrow> Inl e
     | Inr st \<Rightarrow>
         if \<not> finite64 (pi_per p) \<or> fle (Fin 0) (pi_per p) then Inl (PenaltyNotNegative (pi_key p))
         else Inr st)"

fun validate_activity :: "string \<Rightarrow> nat \<Rightarrow> activity \<Rightarrow> (scheme_error, nat) result" where
  "validate_activity item_key index a =
    (if blank (ac_name a) then Inl (ActivityUnnamed item_key (index + 1))
     else if list_ex (\<lambda>field. 200 < length field)
        [ac_name a, ac_date a, ac_level a, ac_org a, ac_score a]
       then Inl (ActivityTooLong item_key (index + 1))
     else Inr (index + 1))"

type_synonym cap_groups = "(string, f64) gomap"

definition validate_cap_group :: "string \<Rightarrow> cap_groups \<Rightarrow> cap_group option
    \<Rightarrow> (scheme_error, cap_groups) result" where
  "validate_cap_group item_key groups g = (case g of None \<Rightarrow> Inr groups
     | Some cg \<Rightarrow>
         if blank (cg_key cg) \<or> \<not> finite64 (cg_cap cg) \<or> flt (cg_cap cg) (Fin 0)
           then Inl (CapGroupInvalid item_key)
         else if (case map_of groups (cg_key cg) of None \<Rightarrow> False
                  | Some prior \<Rightarrow> \<not> feq prior (cg_cap cg))
           then Inl (CapGroupConflict (cg_key cg))
         else Inr (AList.update (cg_key cg) (cg_cap cg) groups))"

fun validate_item :: "string \<Rightarrow> (string set \<times> string set) \<times> cap_groups \<Rightarrow> item
    \<Rightarrow> (scheme_error, (string set \<times> string set) \<times> cap_groups) result" where
  "validate_item category ((local, glob), groups) it =
    (case validate_tree_key category (it_key it) (it_name it) local glob of
       Inl e \<Rightarrow> Inl e
     | Inr st \<Rightarrow>
       (case validate_score_rule (it_key it) (it_score_rule it) of
          Some e \<Rightarrow> Inl e
        | None \<Rightarrow>
          (case validate_cap_group (it_key it) groups (it_cap_group it) of
             Inl e \<Rightarrow> Inl e
           | Inr groups' \<Rightarrow>
               if evidence_incomplete (it_evidence it) then Inl (EvidenceIncomplete (it_key it))
               else if max_activities_per_item < int (length (it_activities it))
                 then Inl (TooManyActivities (it_key it))
               else (case fold_res (validate_activity (it_key it)) 0 (it_activities it) of
                   Inl e \<Rightarrow> Inl e
                 | Inr _ \<Rightarrow> Inr (st, groups')))))"

record tree_state =
  ts_categories :: "string set"
  ts_items :: "string set"
  ts_groups :: cap_groups

definition validate_category :: "tree_state \<Rightarrow> category \<Rightarrow> (scheme_error, tree_state) result" where
  "validate_category ts ca =
    (if ca_key ca \<notin> set allowed_categories then Inl (CategoryUnknown (ca_key ca))
     else if ca_key ca \<in> ts_categories ts then Inl (CategoryDuplicate (ca_key ca))
     else if blank (ca_name ca) \<or> \<not> finite64 (ca_max_total ca) \<or> fle (ca_max_total ca) (Fin 0)
       then Inl (CategoryIncomplete (ca_key ca))
     else (case validate_formula (ca_key ca) (ca_formula ca) of Some e \<Rightarrow> Inl e | None \<Rightarrow>
       if 20000 < length (ca_note ca) then Inl (NoteTooLong (ca_key ca))
       else (case fold_res (validate_base (ca_key ca)) ({}, ts_items ts) (ca_base_items ca) of
         Inl e \<Rightarrow> Inl e | Inr st1 \<Rightarrow>
       (case fold_res (validate_penalty (ca_key ca)) st1 (ca_penalty_items ca) of
         Inl e \<Rightarrow> Inl e | Inr st2 \<Rightarrow>
       (case fold_res (validate_item (ca_key ca)) (st2, ts_groups ts) (ca_items ca) of
         Inl e \<Rightarrow> Inl e
       | Inr ((_, glob), groups) \<Rightarrow>
           Inr \<lparr>ts_categories = insert (ca_key ca) (ts_categories ts), ts_items = glob,
                ts_groups = groups\<rparr>)))))"

text \<open>\<open>visit1\<close> and \<open>visit2\<close> are the orders in which Go visits the weights, twice.\<close>

definition validate ::
  "((string \<times> f64) list \<Rightarrow> (string \<times> f64) list) \<Rightarrow> ((string \<times> f64) list \<Rightarrow> (string \<times> f64) list)
   \<Rightarrow> config \<Rightarrow> scheme_error option" where
  "validate visit1 visit2 c =
    (if blank (cf_scheme_name c) then Some SchemeUnnamed
     else (case validate_timeline (cf_window c) (cf_capabilities c) (cf_honor_roll c) of
         Some e \<Rightarrow> Some e
       | None \<Rightarrow>
       (case fold_res validate_weight (Fin 0) (visit1 (cf_weights c)) of
         Inl e \<Rightarrow> Some e
       | Inr weight_sum \<Rightarrow>
         if flt (rnd64 (1 / 1000000)) (fabs (fsub weight_sum (Fin 1))) then Some (WeightSum weight_sum)
         else
       (case fold_res validate_category
          \<lparr>ts_categories = {}, ts_items = {}, ts_groups = []\<rparr> (cf_categories c) of
         Inl e \<Rightarrow> Some e
       | Inr ts \<Rightarrow>
           first_error (\<lambda>(key, weight). if flt (Fin 0) weight \<and> key \<notin> ts_categories ts
             then Some (WeightWithoutCategory key) else None) (visit2 (cf_weights c))))))"

section \<open>Evidence types (evidence.go)\<close>

definition default_evidence_max_mb :: int where
  "default_evidence_max_mb = 50"

definition common_evidence_types :: "string list" where
  "common_evidence_types =
    [''pdf'', ''jpg'', ''jpeg'', ''png'', ''gif'', ''webp'', ''heic'', ''doc'', ''docx'',
     ''xls'', ''xlsx'', ''ppt'', ''pptx'', ''txt'', ''csv'', ''wps'', ''et'', ''dps'',
     ''zip'', ''rar'', ''7z'', ''mp4'']"

text \<open>\<open>to_lower\<close> stands for the case table behind \<open>strings.ToLower\<close>.\<close>

definition trim_prefix :: "string \<Rightarrow> string \<Rightarrow> string" where
  "trim_prefix p s = (if take (length p) s = p then drop (length p) s else s)"

fun normalize_evidence_types :: "(string \<Rightarrow> string) \<Rightarrow> string set \<Rightarrow> string list \<Rightarrow> string list" where
  "normalize_evidence_types to_lower seen [] = []"
| "normalize_evidence_types to_lower seen (v # vs) =
    (let value = trim_prefix ''.'' (to_lower (trim_space v)) in
     if value = [] \<or> value \<in> seen then normalize_evidence_types to_lower seen vs
     else value # normalize_evidence_types to_lower (insert value seen) vs)"

definition effective_evidence_types :: "(string \<Rightarrow> string) \<Rightarrow> evidence_rule option \<Rightarrow> string list" where
  "effective_evidence_types to_lower rule = (case rule of None \<Rightarrow> common_evidence_types
     | Some r \<Rightarrow> normalize_evidence_types to_lower {} (ev_types r))"

section \<open>Generated items and the default scheme (fallback.go)\<close>

definition free_rule :: "f64 \<Rightarrow> f64 \<Rightarrow> score_rule" where
  "free_rule lo hi = \<lparr>sr_type = ''free'', sr_unit = [], sr_per = Fin 0, sr_cap = None,
     sr_min = Some lo, sr_max = Some hi, sr_options = [], sr_levels = [],
     sr_minimum = None, sr_award = None\<rparr>"

definition other_self_report_key :: "string \<Rightarrow> string" where
  "other_self_report_key category = ''__other_self_report_'' @ category"

definition common_evidence :: evidence_rule where
  "common_evidence = \<lparr>ev_required = True, ev_types = common_evidence_types,
     ev_max_mb = default_evidence_max_mb\<rparr>"

definition other_self_report_item :: "category \<Rightarrow> item" where
  "other_self_report_item ca =
    \<lparr>it_key = other_self_report_key (ca_key ca),
      it_name = [CHR 0xE5, CHR 0x85, CHR 0xB6, CHR 0xE4, CHR 0xBB, CHR 0x96, CHR 0xE9, CHR 0xA1, CHR
         0xB9, CHR 0xE7, CHR 0x9B, CHR 0xAE, CHR 0xE8, CHR 0x87, CHR 0xAA, CHR 0xE6, CHR
         0x8A, CHR 0xA5],
      it_score_rule = free_rule (Fin 0) (ca_max_total ca),
      it_exclusive_group = [], it_cap_group = None,
      it_evidence = Some common_evidence,
      it_note = [CHR 0x2D, CHR 0x20, CHR 0xE4, CHR 0xBB, CHR 0x85, CHR 0xE5, CHR 0x9C, CHR 0xA8, CHR
         0xE7, CHR 0x8E, CHR 0xB0, CHR 0xE6, CHR 0x9C, CHR 0x89, CHR 0xE5, CHR 0xB0, CHR
         0x8F, CHR 0xE9, CHR 0xA1, CHR 0xB9, CHR 0xE5, CHR 0x9D, CHR 0x87, CHR 0xE4, CHR
         0xB8, CHR 0x8D, CHR 0xE9, CHR 0x80, CHR 0x82, CHR 0xE7, CHR 0x94, CHR 0xA8, CHR
         0xE6, CHR 0x97, CHR 0xB6, CHR 0xE4, CHR 0xBD, CHR 0xBF, CHR 0xE7, CHR 0x94, CHR
         0xA8, CHR 0xE3, CHR 0x80, CHR 0x82, CHR 0x0A, CHR 0x2D, CHR 0x20, CHR 0xE8, CHR
         0xAF, CHR 0xB7, CHR 0xE5, CHR 0x86, CHR 0x99, CHR 0xE6, CHR 0x98, CHR 0x8E, CHR
         0xE9, CHR 0xA1, CHR 0xB9, CHR 0xE7, CHR 0x9B, CHR 0xAE, CHR 0xE7, CHR 0xB1, CHR
         0xBB, CHR 0xE5, CHR 0x88, CHR 0xAB, CHR 0xE3, CHR 0x80, CHR 0x81, CHR 0xE7, CHR
         0xBA, CHR 0xA7, CHR 0xE5, CHR 0x88, CHR 0xAB, CHR 0xE3, CHR 0x80, CHR 0x81, CHR
         0xE6, CHR 0x97, CHR 0xB6, CHR 0xE9, CHR 0x97, CHR 0xB4, CHR 0xE3, CHR 0x80, CHR
         0x81, CHR 0xE4, CHR 0xB8, CHR 0xBB, CHR 0xE5, CHR 0x8A, CHR 0x9E, CHR 0xE6, CHR
         0x96, CHR 0xB9, CHR 0xE5, CHR 0x8F, CHR 0x8A, CHR 0xE8, CHR 0x87, CHR 0xAA, CHR
         0xE6, CHR 0x8A, CHR 0xA5, CHR 0xE4, CHR 0xBE, CHR 0x9D, CHR 0xE6, CHR 0x8D, CHR
         0xAE, CHR 0xEF, CHR 0xBC, CHR 0x8C, CHR 0xE6, CHR 0x9C, CHR 0x80, CHR 0xE7, CHR
         0xBB, CHR 0x88, CHR 0xE5, CHR 0x88, CHR 0x86, CHR 0xE5, CHR 0x80, CHR 0xBC, CHR
         0xE7, CHR 0x94, CHR 0xB1, CHR 0xE5, CHR 0xAE, CHR 0xA1, CHR 0xE6, CHR 0xA0, CHR
         0xB8, CHR 0xE4, CHR 0xBA, CHR 0xBA, CHR 0xE8, CHR 0xAE, CHR 0xA4, CHR 0xE5, CHR
         0xAE, CHR 0x9A, CHR 0xE3, CHR 0x80, CHR 0x82],
      it_activities = []\<rparr>"

text \<open>Instants are nanoseconds since the first of January of year 1, UTC.\<close>

definition unix_day :: "int \<Rightarrow> int" where
  "unix_day d = d * 86400 * 1000000000"

definition default_window :: window where
  "default_window = \<lparr>w_open = unix_day 730119,
     w_close = unix_day 3652058 + (23 * 3600 + 59 * 60 + 59) * 1000000000,
     w_lockdown = None, w_publicity = None\<rparr>"

definition default_capabilities :: capabilities where
  "default_capabilities = \<lparr>cap_submit = True, cap_edit = True, cap_appeal = True,
     cap_review = True, cap_arbitrate = True, cap_student_report = False,
     cap_export = \<lparr>ec_on = False, ec_gate = ''settlement''\<rparr>\<rparr>"

definition default_awards :: "award list" where
  "default_awards =
    [\<lparr>aw_name = [CHR 0xE4, CHR 0xB8, CHR 0x80, CHR 0xE7, CHR 0xAD, CHR 0x89, CHR 0xE7, CHR 0xBB, CHR
         0xBC, CHR 0xE5, CHR 0x90, CHR 0x88, CHR 0xE7, CHR 0xB4, CHR 0xA0, CHR 0xE8, CHR
         0xB4, CHR 0xA8, CHR 0xE5, CHR 0xA5, CHR 0x96, CHR 0xE5, CHR 0xAD, CHR 0xA6, CHR
         0xE9, CHR 0x87, CHR 0x91], aw_top_percent = 5\<rparr>,
     \<lparr>aw_name = [CHR 0xE4, CHR 0xBA, CHR 0x8C, CHR 0xE7, CHR 0xAD, CHR 0x89, CHR 0xE7, CHR 0xBB, CHR
         0xBC, CHR 0xE5, CHR 0x90, CHR 0x88, CHR 0xE7, CHR 0xB4, CHR 0xA0, CHR 0xE8, CHR
         0xB4, CHR 0xA8, CHR 0xE5, CHR 0xA5, CHR 0x96, CHR 0xE5, CHR 0xAD, CHR 0xA6, CHR
         0xE9, CHR 0x87, CHR 0x91], aw_top_percent = 10\<rparr>,
     \<lparr>aw_name = [CHR 0xE4, CHR 0xB8, CHR 0x89, CHR 0xE7, CHR 0xAD, CHR 0x89, CHR 0xE7, CHR 0xBB, CHR
         0xBC, CHR 0xE5, CHR 0x90, CHR 0x88, CHR 0xE7, CHR 0xB4, CHR 0xA0, CHR 0xE8, CHR
         0xB4, CHR 0xA8, CHR 0xE5, CHR 0xA5, CHR 0x96, CHR 0xE5, CHR 0xAD, CHR 0xA6, CHR
         0xE9, CHR 0x87, CHR 0x91], aw_top_percent = 15\<rparr>]"

definition default_honor_roll :: honor_roll where
  "default_honor_roll = \<lparr>hr_top_percent = 30, hr_awards = default_awards\<rparr>"

definition default_self_report_category ::
  "string \<Rightarrow> string \<Rightarrow> base_item list \<Rightarrow> penalty_item list \<Rightarrow> category" where
  "default_self_report_category key name base penalties =
    \<lparr>ca_key = key, ca_name = name, ca_max_total = Fin 100, ca_formula = None, ca_note = [],
      ca_base_items = base, ca_penalty_items = penalties, ca_items = []\<rparr>"

definition default_moral_base_items :: "base_item list" where
  "default_moral_base_items =
    [\<lparr>bi_key = ''moral_base'', bi_name = [CHR 0xE6, CHR 0x97, CHR 0xA5, CHR 0xE5, CHR 0xB8, CHR 0xB8, CHR 0xE8, CHR 0xA1, CHR
         0xA8, CHR 0xE7, CHR 0x8E, CHR 0xB0, CHR 0xE5, CHR 0x9F, CHR 0xBA, CHR 0xE7, CHR
         0xA1, CHR 0x80, CHR 0xE5, CHR 0x88, CHR 0x86, CHR 0xEF, CHR 0xBC, CHR 0x88, CHR
         0xE7, CHR 0xA4, CHR 0xBA, CHR 0xE4, CHR 0xBE, CHR 0x8B, CHR 0xEF, CHR 0xBC, CHR
         0x89],
       bi_full = Fin 70, bi_student_claim = None,
       bi_note = [CHR 0xE8, CHR 0xAF, CHR 0xB7, CHR 0xE6, CHR 0x8C, CHR 0x89, CHR 0xE6, CHR 0x9C, CHR
         0xAC, CHR 0xE7, CHR 0x8F, CHR 0xAD, CHR 0xE5, CHR 0x85, CHR 0xAC, CHR 0xE5, CHR
         0xBC, CHR 0x80, CHR 0xE8, CHR 0xA7, CHR 0x84, CHR 0xE5, CHR 0x88, CHR 0x99, CHR
         0xE8, CHR 0xB0, CHR 0x83, CHR 0xE6, CHR 0x95, CHR 0xB4, CHR 0xE5, CHR 0x9F, CHR
         0xBA, CHR 0xE7, CHR 0xA1, CHR 0x80, CHR 0xE5, CHR 0x88, CHR 0x86, CHR 0xE5, CHR
         0x8F, CHR 0x8A, CHR 0xE8, CHR 0xAE, CHR 0xA4, CHR 0xE5, CHR 0xAE, CHR 0x9A, CHR
         0xE6, CHR 0x9D, CHR 0xA1, CHR 0xE4, CHR 0xBB, CHR 0xB6, CHR 0xE3, CHR 0x80, CHR
         0x82]\<rparr>]"

definition default_moral_penalty_items :: "penalty_item list" where
  "default_moral_penalty_items =
    [\<lparr>pi_key = ''moral_penalty'', pi_name = [CHR 0xE5, CHR 0xB7, CHR 0xB2, CHR 0xE8, CHR 0xAE, CHR 0xA4, CHR 0xE5, CHR 0xAE, CHR
         0x9A, CHR 0xE8, CHR 0xBF, CHR 0x9D, CHR 0xE8, CHR 0xA7, CHR 0x84, CHR 0xE8, CHR
         0xAE, CHR 0xB0, CHR 0xE5, CHR 0xBD, CHR 0x95, CHR 0xEF, CHR 0xBC, CHR 0x88, CHR
         0xE7, CHR 0xA4, CHR 0xBA, CHR 0xE4, CHR 0xBE, CHR 0x8B, CHR 0xEF, CHR 0xBC, CHR
         0x89],
       pi_per = Fin (-5)\<rparr>]"

definition default_practice_base_items :: "base_item list" where
  "default_practice_base_items =
    [\<lparr>bi_key = ''practice_base'', bi_name = [CHR 0xE5, CHR 0xAE, CHR 0x9E, CHR 0xE8, CHR 0xB7, CHR 0xB5, CHR 0xE5, CHR 0x8F, CHR
         0x82, CHR 0xE4, CHR 0xB8, CHR 0x8E, CHR 0xE5, CHR 0x9F, CHR 0xBA, CHR 0xE7, CHR
         0xA1, CHR 0x80, CHR 0xE5, CHR 0x88, CHR 0x86, CHR 0xEF, CHR 0xBC, CHR 0x88, CHR
         0xE9, CHR 0xA1, CHR 0xBB, CHR 0xE7, CHR 0x94, CHR 0xB3, CHR 0xE6, CHR 0x8A, CHR
         0xA5, CHR 0xEF, CHR 0xBC, CHR 0x89],
       bi_full = Fin 40,
       bi_student_claim = Some \<lparr>bc_minimum = Fin 2, bc_unit = [CHR 0xE9, CHR 0xA1, CHR 0xB9],
         bc_evidence = Some common_evidence\<rparr>,
       bi_note = [CHR 0x2D, CHR 0x20, CHR 0xE7, CHR 0xA4, CHR 0xBA, CHR 0xE4, CHR 0xBE, CHR 0x8B, CHR
         0xE6, CHR 0x9D, CHR 0xA1, CHR 0xE4, CHR 0xBB, CHR 0xB6, CHR 0xEF, CHR 0xBC, CHR
         0x9A, CHR 0xE5, CHR 0xAE, CHR 0x8C, CHR 0xE6, CHR 0x88, CHR 0x90, CHR 0xE4, CHR
         0xB8, CHR 0xA4, CHR 0xE9, CHR 0xA1, CHR 0xB9, CHR 0xE5, CHR 0xAE, CHR 0x9E, CHR
         0xE8, CHR 0xB7, CHR 0xB5, CHR 0xE6, CHR 0xB4, CHR 0xBB, CHR 0xE5, CHR 0x8A, CHR
         0xA8, CHR 0xE3, CHR 0x80, CHR 0x82, CHR 0xE8, CHR 0xAF, CHR 0xB7, CHR 0xE7, CHR
         0x94, CHR 0xB1, CHR 0xE7, CHR 0x8F, CHR 0xAD, CHR 0xE7, CHR 0xAE, CHR 0xA1, CHR
         0xE8, CHR 0xB0, CHR 0x83, CHR 0xE6, CHR 0x95, CHR 0xB4, CHR 0xE6, CHR 0xB4, CHR
         0xBB, CHR 0xE5, CHR 0x8A, CHR 0xA8, CHR 0xE8, CHR 0x8C, CHR 0x83, CHR 0xE5, CHR
         0x9B, CHR 0xB4, CHR 0xE3, CHR 0x80, CHR 0x81, CHR 0xE6, CHR 0x95, CHR 0xB0, CHR
         0xE9, CHR 0x87, CHR 0x8F, CHR 0xE4, CHR 0xB8, CHR 0x8E, CHR 0xE5, CHR 0x88, CHR
         0x86, CHR 0xE5, CHR 0x80, CHR 0xBC, CHR 0xE3, CHR 0x80, CHR 0x82, CHR 0x0A, CHR
         0x2D, CHR 0x20, CHR 0xE5, CHR 0xAD, CHR 0xA6, CHR 0xE7, CHR 0x94, CHR 0x9F, CHR
         0xE6, CHR 0x8F, CHR 0x90, CHR 0xE4, CHR 0xBA, CHR 0xA4, CHR 0xE6, CHR 0x9D, CHR
         0x90, CHR 0xE6, CHR 0x96, CHR 0x99, CHR 0xE5, CHR 0x90, CHR 0x8E, CHR 0xE7, CHR
         0x94, CHR 0xB1, CHR 0xE5, CHR 0xAE, CHR 0xA1, CHR 0xE6, CHR 0xA0, CHR 0xB8, CHR
         0xE4, CHR 0xBA, CHR 0xBA, CHR 0xE8, CHR 0xAE, CHR 0xA4, CHR 0xE5, CHR 0xAE, CHR
         0x9A, CHR 0xEF, CHR 0xBC, CHR 0x8C, CHR 0xE6, CHR 0x9C, CHR 0xAA, CHR 0xE7, CHR
         0x94, CHR 0xB3, CHR 0xE6, CHR 0x8A, CHR 0xA5, CHR 0xE4, CHR 0xB8, CHR 0x8D, CHR
         0xE8, CHR 0xAE, CHR 0xA1, CHR 0xE5, CHR 0x88, CHR 0x86, CHR 0xE3, CHR 0x80, CHR
         0x82]\<rparr>]"

definition default_health_base_items :: "base_item list" where
  "default_health_base_items =
    [\<lparr>bi_key = ''health_base'', bi_name = [CHR 0xE6, CHR 0x96, CHR 0x87, CHR 0xE4, CHR 0xBD, CHR 0x93, CHR 0xE5, CHR 0x8F, CHR
         0x82, CHR 0xE4, CHR 0xB8, CHR 0x8E, CHR 0xE5, CHR 0x9F, CHR 0xBA, CHR 0xE7, CHR
         0xA1, CHR 0x80, CHR 0xE5, CHR 0x88, CHR 0x86, CHR 0xEF, CHR 0xBC, CHR 0x88, CHR
         0xE7, CHR 0xA4, CHR 0xBA, CHR 0xE4, CHR 0xBE, CHR 0x8B, CHR 0xEF, CHR 0xBC, CHR
         0x89],
       bi_full = Fin 70, bi_student_claim = None,
       bi_note = [CHR 0xE8, CHR 0xAF, CHR 0xB7, CHR 0xE6, CHR 0x8C, CHR 0x89, CHR 0xE6, CHR 0x9C, CHR
         0xAC, CHR 0xE7, CHR 0x8F, CHR 0xAD, CHR 0xE5, CHR 0x85, CHR 0xAC, CHR 0xE5, CHR
         0xBC, CHR 0x80, CHR 0xE8, CHR 0xA7, CHR 0x84, CHR 0xE5, CHR 0x88, CHR 0x99, CHR
         0xE8, CHR 0xB0, CHR 0x83, CHR 0xE6, CHR 0x95, CHR 0xB4, CHR 0xE5, CHR 0x9F, CHR
         0xBA, CHR 0xE7, CHR 0xA1, CHR 0x80, CHR 0xE5, CHR 0x88, CHR 0x86, CHR 0xE5, CHR
         0x8F, CHR 0x8A, CHR 0xE8, CHR 0xAE, CHR 0xA4, CHR 0xE5, CHR 0xAE, CHR 0x9A, CHR
         0xE6, CHR 0x9D, CHR 0xA1, CHR 0xE4, CHR 0xBB, CHR 0xB6, CHR 0xE3, CHR 0x80, CHR
         0x82]\<rparr>]"

definition default_self_report_config :: "string \<Rightarrow> config" where
  "default_self_report_config version =
    \<lparr>cf_scheme_name = [CHR 0xE7, CHR 0xB3, CHR 0xBB, CHR 0xE7, CHR 0xBB, CHR 0x9F, CHR 0xE9, CHR 0xBB, CHR
         0x98, CHR 0xE8, CHR 0xAE, CHR 0xA4, CHR 0xE7, CHR 0xBB, CHR 0xBC, CHR 0xE5, CHR
         0x90, CHR 0x88, CHR 0xE6, CHR 0xB5, CHR 0x8B, CHR 0xE8, CHR 0xAF, CHR 0x84, CHR
         0xE6, CHR 0x96, CHR 0xB9, CHR 0xE6, CHR 0xA1, CHR 0x88],
      cf_version = version, cf_window = default_window, cf_capabilities = default_capabilities,
      cf_weights = [(''major'', rnd64 (6 / 10)), (''moral'', rnd64 (15 / 100)),
        (''practice'', rnd64 (15 / 100)), (''health'', rnd64 (1 / 10))],
      cf_honor_roll = default_honor_roll,
      cf_categories =
        [default_self_report_category ''major'' ([CHR 0xE4, CHR 0xB8, CHR 0x93, CHR 0xE4, CHR 0xB8, CHR 0x9A, CHR 0xE7, CHR 0xB4, CHR
         0xA0, CHR 0xE8, CHR 0xB4, CHR 0xA8]) [] [],
         default_self_report_category ''moral'' ([CHR 0xE6, CHR 0x80, CHR 0x9D, CHR 0xE6, CHR 0x83, CHR 0xB3, CHR 0xE9, CHR 0x81, CHR
         0x93, CHR 0xE5, CHR 0xBE, CHR 0xB7, CHR 0xE7, CHR 0xB4, CHR 0xA0, CHR 0xE8, CHR
         0xB4, CHR 0xA8])
           default_moral_base_items default_moral_penalty_items,
         default_self_report_category ''practice'' ([CHR 0xE5, CHR 0xAE, CHR 0x9E, CHR 0xE8, CHR 0xB7, CHR 0xB5, CHR 0xE5, CHR 0x88, CHR
         0x9B, CHR 0xE6, CHR 0x96, CHR 0xB0, CHR 0xE7, CHR 0xB4, CHR 0xA0, CHR 0xE8, CHR
         0xB4, CHR 0xA8])
           default_practice_base_items [],
         default_self_report_category ''health'' ([CHR 0xE8, CHR 0xBA, CHR 0xAB, CHR 0xE4, CHR 0xBD, CHR 0x93, CHR 0xE5, CHR 0xBF, CHR
         0x83, CHR 0xE7, CHR 0x90, CHR 0x86, CHR 0xE7, CHR 0xB4, CHR 0xA0, CHR 0xE8, CHR
         0xB4, CHR 0xA8])
           default_health_base_items []]\<rparr>"

section \<open>Templates (template.go)\<close>

record scheme_template =
  te_scheme_name :: string
  te_weights :: "(string, f64) gomap"
  te_categories :: "category list"

definition strip_activities :: "category list \<Rightarrow> category list" where
  "strip_activities cs =
     map (\<lambda>c. c\<lparr>ca_items := map (\<lambda>it. it\<lparr>it_activities := []\<rparr>) (ca_items c)\<rparr>) cs"

definition template_from_config :: "config \<Rightarrow> scheme_template" where
  "template_from_config c = \<lparr>te_scheme_name = cf_scheme_name c, te_weights = cf_weights c,
     te_categories = strip_activities (cf_categories c)\<rparr>"

definition apply_template :: "config \<Rightarrow> scheme_template \<Rightarrow> config" where
  "apply_template runtime t = runtime\<lparr>cf_scheme_name := te_scheme_name t,
     cf_weights := te_weights t, cf_categories := te_categories t\<rparr>"

definition validate_template ::
  "((string \<times> f64) list \<Rightarrow> (string \<times> f64) list) \<Rightarrow> ((string \<times> f64) list \<Rightarrow> (string \<times> f64) list)
   \<Rightarrow> scheme_template \<Rightarrow> scheme_error option" where
  "validate_template visit1 visit2 t =
     validate visit1 visit2 (apply_template (default_self_report_config ''template'') t)"

end
