(* ===== verification/SchemeWellformed.thy ===== *)
theory SchemeWellformed
  imports SchemeRules
begin

text \<open>
  What \<open>Validate\<close> guarantees about a published scheme, what \<open>ValidateTimeline\<close>
  guarantees about the honour roll, and why a published scheme can always be exported as a
  template and imported again.

  Every loop of \<open>validate.go\<close> that keeps a set of the names it has met is an instance of
  one locale, \<open>unique_loop\<close>; its three facts give all the uniqueness results.
\<close>

section \<open>Loops that refuse a repeated name\<close>

locale unique_loop =
  fixes step :: "'s \<Rightarrow> 'a \<Rightarrow> ('e, 's) result" and seen :: "'s \<Rightarrow> 'k set" and key :: "'a \<Rightarrow> 'k"
  assumes step_fresh: "step s x = Inr s' \<Longrightarrow> key x \<notin> seen s \<and> seen s' = insert (key x) (seen s)"
begin

lemma loop_keys:
  assumes "fold_res step s xs = Inr t"
  shows "distinct (map key xs) \<and> key ` set xs \<inter> seen s = {} \<and> seen t = seen s \<union> key ` set xs"
  using assms
proof (induction xs arbitrary: s)
  case (Cons x xs)
  obtain s' where s': "step s x = Inr s'" "fold_res step s' xs = Inr t"
    using Cons.prems by (auto split: sum.splits)
  show ?case using Cons.IH [OF s'(2)] step_fresh [OF s'(1)] by auto
qed simp

end

interpretation awards: unique_loop validate_award "\<lambda>s. fst (snd s)" "\<lambda>a. trim_space (aw_name a)"
  by unfold_locales (auto simp: Let_def split: if_splits)

interpretation options: unique_loop "validate_option k" id eo_label for k
  by unfold_locales (auto split: if_splits)

interpretation bases: unique_loop "validate_base c" snd bi_key for c
  by unfold_locales (auto simp: validate_tree_key_def split: if_splits sum.splits option.splits)

interpretation penalties: unique_loop "validate_penalty c" snd pi_key for c
  by unfold_locales (auto simp: validate_tree_key_def split: if_splits sum.splits)

interpretation tree_items: unique_loop "validate_item c" "\<lambda>s. snd (fst s)" it_key for c
  by unfold_locales
    (auto simp: validate_tree_key_def split: if_splits sum.splits option.splits prod.splits)

lemma validate_categoryE:
  assumes "validate_category ts ca = Inr ts'"
  obtains st1 st2 l where
    "ca_key ca \<notin> ts_categories ts" and "ca_key ca \<in> set allowed_categories"
    and "finite64 (ca_max_total ca)" and "\<not> fle (ca_max_total ca) (Fin 0)"
    and "fold_res (validate_base (ca_key ca)) ({}, ts_items ts) (ca_base_items ca) = Inr st1"
    and "fold_res (validate_penalty (ca_key ca)) st1 (ca_penalty_items ca) = Inr st2"
    and "fold_res (validate_item (ca_key ca)) (st2, ts_groups ts) (ca_items ca)
      = Inr ((l, ts_items ts'), ts_groups ts')"
    and "ts_categories ts' = insert (ca_key ca) (ts_categories ts)"
  using assms by (auto simp: validate_category_def split: if_splits sum.splits option.splits)

interpretation categories: unique_loop validate_category ts_categories ca_key
  by unfold_locales (auto elim!: validate_categoryE)

section \<open>Unique keys\<close>

definition category_keys :: "category \<Rightarrow> string list" where
  "category_keys ca = map bi_key (ca_base_items ca) @ map pi_key (ca_penalty_items ca)
     @ map it_key (ca_items ca)"

lemma category_keys_step:
  assumes "validate_category ts ca = Inr ts'"
  shows "distinct (category_keys ca) \<and> set (category_keys ca) \<inter> ts_items ts = {}
    \<and> ts_items ts' = ts_items ts \<union> set (category_keys ca)"
  using assms
proof (rule validate_categoryE)
  fix st1 st2 l
  assume b: "fold_res (validate_base (ca_key ca)) ({}, ts_items ts) (ca_base_items ca) = Inr st1"
    and p: "fold_res (validate_penalty (ca_key ca)) st1 (ca_penalty_items ca) = Inr st2"
    and i: "fold_res (validate_item (ca_key ca)) (st2, ts_groups ts) (ca_items ca)
      = Inr ((l, ts_items ts'), ts_groups ts')"
  show ?thesis
    using bases.loop_keys [OF b] penalties.loop_keys [OF p] tree_items.loop_keys [OF i]
    by (auto simp: category_keys_def)
qed

lemma tree_keys:
  assumes "fold_res validate_category ts cs = Inr ts'"
  shows "distinct (concat (map category_keys cs))
    \<and> set (concat (map category_keys cs)) \<inter> ts_items ts = {}
    \<and> ts_items ts' = ts_items ts \<union> set (concat (map category_keys cs))"
  using assms
proof (induction cs arbitrary: ts)
  case (Cons ca cs)
  obtain s where s: "validate_category ts ca = Inr s" "fold_res validate_category s cs = Inr ts'"
    using Cons.prems by (auto split: sum.splits)
  note a = category_keys_step [OF s(1)] and b = Cons.IH [OF s(2)]
  have "set (category_keys ca) \<inter> set (concat (map category_keys cs)) = {}"
    using a b by blast
  moreover have "set (concat (map category_keys cs)) \<inter> ts_items ts = {}"
    using a b by blast
  ultimately show ?case
    using a b by (simp only: list.map concat.simps distinct_append set_append) blast
qed simp

section \<open>Shared cap groups\<close>

definition groups_cover :: "item set \<Rightarrow> cap_groups \<Rightarrow> bool" where
  "groups_cover S m \<longleftrightarrow> (\<forall>it \<in> S. \<forall>g. it_cap_group it = Some g
     \<longrightarrow> map_of m (cg_key g) = Some (cg_cap g))"

lemma feq_imp_eq: "feq x y \<Longrightarrow> x = y"
  by (cases x) simp_all

lemma validate_cap_group_le:
  assumes "validate_cap_group k m g = Inr m'"
  shows "map_of m \<subseteq>\<^sub>m map_of m'"
    and "g = Some cg \<Longrightarrow> map_of m' (cg_key cg) = Some (cg_cap cg)"
  using assms
  by (auto simp: validate_cap_group_def map_le_def update_conv
      split: option.splits if_splits dest!: feq_imp_eq)

lemma validate_itemD:
  assumes "validate_item c s it = Inr s'"
  shows "validate_cap_group (it_key it) (snd s) (it_cap_group it) = Inr (snd s')"
    and "validate_score_rule (it_key it) (it_score_rule it) = None"
  using assms by (cases s; auto split: sum.splits option.splits if_splits)+

lemma groups_cover_le: "groups_cover S m \<Longrightarrow> map_of m \<subseteq>\<^sub>m map_of m' \<Longrightarrow> groups_cover S m'"
  unfolding groups_cover_def map_le_def by (metis domI)

lemma groups_cover_items:
  assumes "fold_res (validate_item c) s its = Inr s'" and "groups_cover S (snd s)"
  shows "groups_cover (S \<union> set its) (snd s') \<and> map_of (snd s) \<subseteq>\<^sub>m map_of (snd s')"
  using assms
proof (induction its arbitrary: s S)
  case (Cons it its)
  obtain t where t: "validate_item c s it = Inr t" "fold_res (validate_item c) t its = Inr s'"
    using Cons.prems(1) by (auto split: sum.splits)
  note g = validate_itemD(1) [OF t(1)]
  note le = validate_cap_group_le(1) [OF g]
  have "groups_cover (insert it S) (snd t)"
    using groups_cover_le [OF Cons.prems(2) le] validate_cap_group_le(2) [OF g]
    unfolding groups_cover_def by blast
  then show ?case
    using Cons.IH [OF t(2), of "insert it S"] le by (auto intro: map_le_trans)
qed simp

lemma groups_cover_tree:
  assumes "fold_res validate_category ts cs = Inr ts'" and "groups_cover S (ts_groups ts)"
  shows "groups_cover (S \<union> (\<Union>ca \<in> set cs. set (ca_items ca))) (ts_groups ts')"
  using assms
proof (induction cs arbitrary: ts S)
  case (Cons ca cs)
  obtain s where s: "validate_category ts ca = Inr s" "fold_res validate_category s cs = Inr ts'"
    using Cons.prems(1) by (auto split: sum.splits)
  from s(1) have "groups_cover (S \<union> set (ca_items ca)) (ts_groups s)"
  proof (rule validate_categoryE)
    fix st1 st2 l
    assume "fold_res (validate_item (ca_key ca)) (st2, ts_groups ts) (ca_items ca)
      = Inr ((l, ts_items s), ts_groups s)"
    then show ?thesis using Cons.prems(2) groups_cover_items by fastforce
  qed
  from Cons.IH [OF s(2) this] show ?case by (simp add: Un_assoc)
qed simp

section \<open>Rules and weights\<close>

lemma fold_res_all:
  assumes "fold_res f s xs = Inr t" and "x \<in> set xs"
  shows "\<exists>s s'. f s x = Inr s'"
  using assms by (induction xs arbitrary: s) (auto split: sum.splits)

lemma tree_rules:
  assumes "fold_res validate_category ts cs = Inr ts'" and "ca \<in> set cs" and "it \<in> set (ca_items ca)"
  shows "validate_score_rule (it_key it) (it_score_rule it) = None"
proof -
  obtain s s' where "validate_category s ca = Inr s'"
    using fold_res_all [OF assms(1,2)] by blast
  then show ?thesis
  proof (rule validate_categoryE)
    fix st1 st2 l
    assume "fold_res (validate_item (ca_key ca)) (st2, ts_groups s) (ca_items ca)
      = Inr ((l, ts_items s'), ts_groups s')"
    from fold_res_all [OF this assms(3)] show ?thesis using validate_itemD(2) by blast
  qed
qed

definition scheme_wf :: "config \<Rightarrow> bool" where
  "scheme_wf c \<longleftrightarrow>
     distinct (map ca_key (cf_categories c))
   \<and> distinct (concat (map category_keys (cf_categories c)))
   \<and> (\<forall>ca \<in> set (cf_categories c). ca_key ca \<in> set allowed_categories
        \<and> (\<exists>m. ca_max_total ca = Fin m \<and> 0 < m)
        \<and> (\<forall>it \<in> set (ca_items ca). validate_score_rule (it_key it) (it_score_rule it) = None))
   \<and> (\<forall>ca \<in> set (cf_categories c). \<forall>cb \<in> set (cf_categories c).
        \<forall>a \<in> set (ca_items ca). \<forall>b \<in> set (ca_items cb). \<forall>g h.
          it_cap_group a = Some g \<and> it_cap_group b = Some h \<and> cg_key g = cg_key h
          \<longrightarrow> cg_cap g = cg_cap h)
   \<and> (\<forall>(k, w) \<in> set (cf_weights c). k \<in> set allowed_categories
        \<and> (\<exists>r. w = Fin r \<and> 0 \<le> r \<and> r \<le> 1
            \<and> (0 < r \<longrightarrow> k \<in> ca_key ` set (cf_categories c))))"

lemma validate_weight_ok:
  assumes "validate_weight s (k, w) = Inr s'"
  shows "k \<in> set allowed_categories" and "\<exists>r. w = Fin r \<and> 0 \<le> r \<and> r \<le> 1"
  using assms by (auto simp: finite64_iff not_less split: if_splits)

lemma validateE:
  assumes "validate v1 v2 c = None"
  obtains ws ts where
    "validate_timeline (cf_window c) (cf_capabilities c) (cf_honor_roll c) = None"
    and "fold_res validate_weight (Fin 0) (v1 (cf_weights c)) = Inr ws"
    and "\<not> flt (rnd64 (1 / 1000000)) (fabs (fsub ws (Fin 1)))"
    and "fold_res validate_category \<lparr>ts_categories = {}, ts_items = {}, ts_groups = []\<rparr>
      (cf_categories c) = Inr ts"
    and "\<forall>(k, w) \<in> set (v2 (cf_weights c)). \<not> (flt (Fin 0) w \<and> k \<notin> ts_categories ts)"
  using assms
  by (fastforce simp: validate_def split: if_splits option.splits sum.splits)

text \<open>
  C25. What publication guarantees.  A configuration that \<open>Validate\<close> accepts, whatever
  order Go visits the weights in, is well formed: category keys are distinct, and so are the
  keys of all base, penalty and claimable items of the whole tree; a shared cap group has one
  cap everywhere; every rule is well formed; every category has a positive finite maximum;
  weights lie between 0 and 1 and a positive weight belongs to a category of the tree.
\<close>

theorem validate_scheme_wf:
  assumes "validate v1 v2 c = None" and "visit_order v1" and "visit_order v2"
  shows "scheme_wf c"
  using assms(1)
proof (rule validateE)
  fix ws ts
  assume w: "fold_res validate_weight (Fin 0) (v1 (cf_weights c)) = Inr ws"
    and t: "fold_res validate_category \<lparr>ts_categories = {}, ts_items = {}, ts_groups = []\<rparr>
      (cf_categories c) = Inr ts"
    and last: "\<forall>(k, w) \<in> set (v2 (cf_weights c)). \<not> (flt (Fin 0) w \<and> k \<notin> ts_categories ts)"
  note cats = categories.loop_keys [OF t]
  have sets: "set (v1 (cf_weights c)) = set (cf_weights c)" "set (v2 (cf_weights c)) = set (cf_weights c)"
    using assms(2,3) visit_orderD mset_eq_setD by blast+
  have cover: "groups_cover (\<Union>ca \<in> set (cf_categories c). set (ca_items ca)) (ts_groups ts)"
    using groups_cover_tree [OF t, of "{}"] by (simp add: groups_cover_def)
  have caps: "cg_cap g = cg_cap h"
    if "ca \<in> set (cf_categories c)" "cb \<in> set (cf_categories c)" "a \<in> set (ca_items ca)"
      "b \<in> set (ca_items cb)" "it_cap_group a = Some g" "it_cap_group b = Some h"
      "cg_key g = cg_key h" for ca cb a b g h
  proof -
    have "map_of (ts_groups ts) (cg_key g) = Some (cg_cap g)"
      and "map_of (ts_groups ts) (cg_key h) = Some (cg_cap h)"
      using cover that unfolding groups_cover_def by blast+
    then show ?thesis using that(7) by simp
  qed
  have cat: "ca_key ca \<in> set allowed_categories \<and> (\<exists>m. ca_max_total ca = Fin m \<and> 0 < m)"
    if ca: "ca \<in> set (cf_categories c)" for ca
  proof -
    obtain s s' where "validate_category s ca = Inr s'" using fold_res_all [OF t ca] by blast
    then show ?thesis by (rule validate_categoryE) (auto simp: finite64_iff not_le)
  qed
  have weights: "k \<in> set allowed_categories \<and> (\<exists>r. w = Fin r \<and> 0 \<le> r \<and> r \<le> 1
      \<and> (0 < r \<longrightarrow> k \<in> ca_key ` set (cf_categories c)))"
    if "(k, w) \<in> set (cf_weights c)" for k w
  proof -
    have "(k, w) \<in> set (v1 (cf_weights c))" using that sets by simp
    then obtain s s' where s: "validate_weight s (k, w) = Inr s'"
      using fold_res_all [OF w] by blast
    have pos: "\<not> (flt (Fin 0) w \<and> k \<notin> ts_categories ts)" using last that sets by blast
    obtain r where r: "w = Fin r" "0 \<le> r" "r \<le> 1" using validate_weight_ok(2) [OF s] by blast
    have "ts_categories ts = ca_key ` set (cf_categories c)" using cats by simp
    then have "0 < r \<longrightarrow> k \<in> ca_key ` set (cf_categories c)" using pos r(1) by simp
    then show ?thesis using validate_weight_ok(1) [OF s] r by blast
  qed
  have "distinct (map ca_key (cf_categories c))" using cats by simp
  moreover have "distinct (concat (map category_keys (cf_categories c)))"
    using tree_keys [OF t] by simp
  moreover have "\<forall>ca \<in> set (cf_categories c). ca_key ca \<in> set allowed_categories
      \<and> (\<exists>m. ca_max_total ca = Fin m \<and> 0 < m)
      \<and> (\<forall>it \<in> set (ca_items ca). validate_score_rule (it_key it) (it_score_rule it) = None)"
    using cat tree_rules [OF t] by blast
  ultimately show ?thesis
    unfolding scheme_wf_def using caps weights by (simp only: simp_thms) fast
qed

section \<open>Templates\<close>

lemma fold_res_map_mono:
  assumes "fold_res f s xs = Inr t" and "\<forall>s x t. f s x = Inr t \<longrightarrow> g s (h x) = Inr t"
  shows "fold_res g s (map h xs) = Inr t"
  using assms(1) by (induction xs arbitrary: s) (auto split: sum.splits simp: assms(2))

lemma validate_item_strip:
  "validate_item c s it = Inr s' \<Longrightarrow> validate_item c s (it\<lparr>it_activities := []\<rparr>) = Inr s'"
  by (cases s) (auto simp: max_activities_per_item_def split: sum.splits option.splits if_splits)

lemma validate_category_strip:
  assumes "validate_category ts ca = Inr ts'"
  shows "validate_category ts
    (ca\<lparr>ca_items := map (\<lambda>it. it\<lparr>it_activities := []\<rparr>) (ca_items ca)\<rparr>) = Inr ts'"
proof -
  have items: "fold_res (validate_item k) s its = Inr t \<Longrightarrow>
      fold_res (validate_item k) s (map (\<lambda>it. it\<lparr>it_activities := []\<rparr>) its) = Inr t" for k s its t
    by (rule fold_res_map_mono [where h = "\<lambda>it. it\<lparr>it_activities := []\<rparr>"])
      (use validate_item_strip in blast)+
  show ?thesis
    using assms items
    by (auto simp: validate_category_def split: if_splits option.splits sum.splits)
qed

lemma timeline_default_ok:
  "validate_timeline default_window default_capabilities default_honor_roll = None"
  by code_simp

lemma apply_template_simps [simp]:
  "cf_scheme_name (apply_template r t) = te_scheme_name t"
  "cf_weights (apply_template r t) = te_weights t"
  "cf_categories (apply_template r t) = te_categories t"
  "cf_window (apply_template r t) = cf_window r"
  "cf_capabilities (apply_template r t) = cf_capabilities r"
  "cf_honor_roll (apply_template r t) = cf_honor_roll r"
  by (simp_all add: apply_template_def)

lemma template_from_config_simps [simp]:
  "te_scheme_name (template_from_config c) = cf_scheme_name c"
  "te_weights (template_from_config c) = cf_weights c"
  "te_categories (template_from_config c) = strip_activities (cf_categories c)"
  by (simp_all add: template_from_config_def)

lemma validateI:
  assumes "\<not> blank (cf_scheme_name c)"
    and "validate_timeline (cf_window c) (cf_capabilities c) (cf_honor_roll c) = None"
    and "fold_res validate_weight (Fin 0) (v1 (cf_weights c)) = Inr ws"
    and "\<not> flt (rnd64 (1 / 1000000)) (fabs (fsub ws (Fin 1)))"
    and "fold_res validate_category \<lparr>ts_categories = {}, ts_items = {}, ts_groups = []\<rparr>
      (cf_categories c) = Inr ts"
    and "\<forall>(k, w) \<in> set (v2 (cf_weights c)). \<not> (flt (Fin 0) w \<and> k \<notin> ts_categories ts)"
  shows "validate v1 v2 c = None"
  unfolding validate_def using assms by (auto simp del: validate_weight.simps)

lemma validate_apply_template:
  assumes "validate_timeline (cf_window r) (cf_capabilities r) (cf_honor_roll r) = None"
    and "validate_timeline (cf_window r') (cf_capabilities r') (cf_honor_roll r') = None"
  shows "validate v1 v2 (apply_template r t) = validate v1 v2 (apply_template r' t)"
  unfolding validate_def apply_template_simps assms ..

lemma validate_template_runtime_aux:
  assumes "validate_timeline (cf_window r) (cf_capabilities r) (cf_honor_roll r) = None"
  shows "validate v1 v2 (apply_template r t) = validate_template v1 v2 t"
  unfolding validate_template_def
  by (rule validate_apply_template [OF assms])
    (simp add: default_self_report_config_def timeline_default_ok)

text \<open>
   A template is accepted or refused for its scoring rules alone: validating it over the
  default runtime is validating it over any class runtime that is itself valid.
\<close>

theorem validate_template_runtime_free:
  assumes "validate_timeline (cf_window r) (cf_capabilities r) (cf_honor_roll r) = None"
  shows "validate v1 v2 (apply_template r t) = validate_template v1 v2 t"
  using assms by (rule validate_template_runtime_aux)

text \<open>
  C30. What was published can be exported and imported: the template of an accepted
  configuration is an accepted template, and applying it to the class it came from changes
  nothing but the activity rosters, which it empties.
\<close>

theorem template_export_import:
  assumes "validate v1 v2 c = None"
  shows "validate_template v1 v2 (template_from_config c) = None
    \<and> apply_template c (template_from_config c) = c\<lparr>cf_categories := strip_activities (cf_categories c)\<rparr>"
proof
  show "apply_template c (template_from_config c) = c\<lparr>cf_categories := strip_activities (cf_categories c)\<rparr>"
    by (simp add: apply_template_def template_from_config_def)
  have "validate v1 v2 (apply_template c (template_from_config c)) = None"
    using assms
  proof (rule validateE)
    fix ws ts
    assume tl: "validate_timeline (cf_window c) (cf_capabilities c) (cf_honor_roll c) = None"
      and w: "fold_res validate_weight (Fin 0) (v1 (cf_weights c)) = Inr ws"
        "\<not> flt (rnd64 (1 / 1000000)) (fabs (fsub ws (Fin 1)))"
      and t: "fold_res validate_category \<lparr>ts_categories = {}, ts_items = {}, ts_groups = []\<rparr>
        (cf_categories c) = Inr ts"
      and last: "\<forall>(k, w) \<in> set (v2 (cf_weights c)). \<not> (flt (Fin 0) w \<and> k \<notin> ts_categories ts)"
    have "\<not> blank (cf_scheme_name c)" using assms by (auto simp: validate_def)
    moreover have "fold_res validate_category \<lparr>ts_categories = {}, ts_items = {}, ts_groups = []\<rparr>
        (strip_activities (cf_categories c)) = Inr ts"
      unfolding strip_activities_def by (rule fold_res_map_mono [OF t]) (use validate_category_strip in blast)
    ultimately show ?thesis
      using tl w last by (intro validateI [where ws = ws and ts = ts]) simp_all
  qed
  moreover have "validate_timeline (cf_window c) (cf_capabilities c) (cf_honor_roll c) = None"
    using assms by (rule validateE)
  ultimately show "validate_template v1 v2 (template_from_config c) = None"
    using validate_template_runtime_aux by metis
qed

section \<open>The default scheme\<close>

text \<open>
  Adding weights in any order: while the sums stay below 2, an addition of doubles errs by
  at most \<open>2 ^ -52\<close>, so \<open>n\<close> additions are within \<open>n\<close> times that of the exact sum.
\<close>

lemma rnd_rat_error_2:
  assumes "0 \<le> x" and "x \<le> 2"
  shows "\<bar>rnd_rat x - x\<bar> \<le> 1 / 2 ^ 52"
proof (cases "x = 0")
  case False
  have "(2::rat) powi ilog2r \<bar>x\<bar> < 2 powi 2"
    using ilog2r_bounds(1) [of "\<bar>x\<bar>"] False assms by simp
  then have "ilog2r \<bar>x\<bar> < 2" by (rule powi2_less_exp)
  then have "ulp_exp x \<le> -51" by (simp add: ulp_exp_def)
  then have "(2::rat) powi ulp_exp x \<le> 2 powi (-51)" by (intro power_int_increasing) auto
  then show ?thesis using rnd_rat_error [of x] by (simp add: power_int_minus)
qed simp

lemma fadd_error_2:
  assumes "0 \<le> x" and "0 \<le> y" and "x + y \<le> 2"
  shows "\<exists>z. fadd (Fin x) (Fin y) = Fin z \<and> 0 \<le> z \<and> \<bar>z - (x + y)\<bar> \<le> 1 / 2 ^ 52"
proof -
  have e: "\<bar>rnd_rat (x + y) - (x + y)\<bar> \<le> 1 / 2 ^ 52"
    using assms by (intro rnd_rat_error_2) auto
  have "(1::rat) / 2 ^ 52 \<le> 1" by simp
  then have "\<bar>rnd_rat (x + y)\<bar> \<le> 3" using e assms by linarith
  then have "\<bar>rnd_rat (x + y)\<bar> < 2 ^ 1024" by (intro double_range) simp
  then show ?thesis using e assms rnd_rat_nonneg [of "x + y"] by (simp add: rnd64_Fin)
qed

definition exact_total :: "(string \<times> f64) list \<Rightarrow> rat" where
  "exact_total ws = sum_list (map (\<lambda>(k, w). case w of Fin r \<Rightarrow> r | _ \<Rightarrow> 0) ws)"

lemma exact_total_perm: "mset ws = mset ws' \<Longrightarrow> exact_total ws = exact_total ws'"
  unfolding exact_total_def sum_mset_sum_list [symmetric] mset_map by simp

lemma fold_validate_weight_error:
  assumes "\<forall>(k, w) \<in> set ws. k \<in> set allowed_categories \<and> (case w of Fin r \<Rightarrow> 0 \<le> r \<and> r \<le> 1 | _ \<Rightarrow> False)"
    and "0 \<le> x" and "x + exact_total ws + of_nat (length ws) / 2 ^ 52 \<le> 2"
  shows "\<exists>y. fold_res validate_weight (Fin x) ws = Inr (Fin y)
    \<and> \<bar>y - (x + exact_total ws)\<bar> \<le> of_nat (length ws) / 2 ^ 52"
  using assms
proof (induction ws arbitrary: x)
  case (Cons p ws)
  let ?S = exact_total
  obtain k r where p: "p = (k, Fin r)" "k \<in> set allowed_categories" "0 \<le> r" "r \<le> 1"
    using Cons.prems(1) by (cases p; cases "snd p") auto
  have S: "?S (p # ws) = r + ?S ws" by (simp add: p(1) exact_total_def)
  have nn: "0 \<le> ?S ws"
    using Cons.prems(1) unfolding exact_total_def by (intro sum_list_nonneg) (auto split: f64.splits)
  have le2: "x + r \<le> 2"
    using Cons.prems(3) nn unfolding S by (simp add: field_simps)
  obtain z where z: "fadd (Fin x) (Fin r) = Fin z" "0 \<le> z" "\<bar>z - (x + r)\<bar> \<le> 1 / 2 ^ 52"
    using fadd_error_2 [OF Cons.prems(2) p(3) le2] by blast
  have step: "validate_weight (Fin x) p = Inr (Fin z)"
    using p z(1) by simp
  have len: "(of_nat (length (p # ws)) :: rat) / 2 ^ 52 = 1 / 2 ^ 52 + of_nat (length ws) / 2 ^ 52"
    by (simp add: field_simps)
  have "z + ?S ws + of_nat (length ws) / 2 ^ 52 \<le> 2"
    using Cons.prems(3) z(3) unfolding S len by linarith
  then obtain y where y: "fold_res validate_weight (Fin z) ws = Inr (Fin y)"
    "\<bar>y - (z + ?S ws)\<bar> \<le> of_nat (length ws) / 2 ^ 52"
    using Cons.IH [OF _ z(2)] Cons.prems(1) by auto
  have "\<bar>y - (x + ?S (p # ws))\<bar> \<le> of_nat (length (p # ws)) / 2 ^ 52"
    using y(2) z(3) unfolding S len by linarith
  then show ?case using step y(1) by (simp del: validate_weight.simps)
qed (simp add: exact_total_def)

lemma default_weights:
  "cf_weights (default_self_report_config v) =
    [(''major'', Fin (5404319552844595 / 9007199254740992)),
     (''moral'', Fin (5404319552844595 / 36028797018963968)),
     (''practice'', Fin (5404319552844595 / 36028797018963968)),
     (''health'', Fin (3602879701896397 / 36028797018963968))]"
proof -
  have "rnd64 (6 / 10) = Fin (5404319552844595 / 9007199254740992)" by code_simp
  moreover have "rnd64 (15 / 100) = Fin (5404319552844595 / 36028797018963968)" by code_simp
  moreover have "rnd64 (1 / 10) = Fin (3602879701896397 / 36028797018963968)" by code_simp
  ultimately show ?thesis by (simp only: default_self_report_config_def config.simps)
qed

lemma tolerance: "\<bar>y - 1\<bar> \<le> 1 / 10000000 \<Longrightarrow> \<not> flt (rnd64 (1 / 1000000)) (fabs (fsub (Fin y) (Fin 1)))"
proof -
  assume y: "\<bar>y - 1\<bar> \<le> 1 / 10000000"
  have t: "rnd64 (1 / 1000000) = Fin (4722366482869645 / 4722366482869645213696)" by code_simp
  have ub: "rnd_rat (1 / 10000000) \<le> 1 / 5000000" by code_simp
  have "\<bar>rnd_rat (y - 1)\<bar> \<le> rnd_rat (1 / 10000000)"
  proof (rule abs_leI)
    show "rnd_rat (y - 1) \<le> rnd_rat (1 / 10000000)"
      using y by (intro rnd_rat_mono) linarith
    have "rnd_rat (- (y - 1)) \<le> rnd_rat (1 / 10000000)"
      using y by (intro rnd_rat_mono) linarith
    then show "- rnd_rat (y - 1) \<le> rnd_rat (1 / 10000000)"
      by (simp only: rnd_rat_minus)
  qed
  then have le: "\<bar>rnd_rat (y - 1)\<bar> \<le> 1 / 5000000" using ub by linarith
  then have "\<bar>rnd_rat (y - 1)\<bar> < 2 ^ 1024"
  proof -
    have "\<bar>rnd_rat (y - 1)\<bar> \<le> 1" using le by linarith
    then show ?thesis by (intro double_range) simp
  qed
  then show ?thesis using le t by (simp add: fsub_def rnd64_Fin)
qed

lemma default_weights_ok:
  assumes "mset ws = mset (cf_weights (default_self_report_config v))"
  shows "\<exists>y. fold_res validate_weight (Fin 0) ws = Inr (Fin y) \<and> \<bar>y - 1\<bar> \<le> 1 / 10000000"
proof -
  let ?S = "exact_total ws"
  have len: "length ws = 4"
    unfolding mset_eq_length [OF assms] default_weights by simp
  have S: "?S = 36028797018963967 / 36028797018963968"
    unfolding exact_total_perm [OF assms] unfolding default_weights exact_total_def by simp
  have "\<forall>(k, w) \<in> set ws. k \<in> set allowed_categories \<and> (case w of Fin r \<Rightarrow> 0 \<le> r \<and> r \<le> 1 | _ \<Rightarrow> False)"
    unfolding mset_eq_setD [OF assms] by (simp add: default_weights allowed_categories_def)
  moreover have "0 + ?S + of_nat (length ws) / 2 ^ 52 \<le> 2" unfolding S len by simp
  ultimately obtain y where y: "fold_res validate_weight (Fin 0) ws = Inr (Fin y)"
    and e: "\<bar>y - (0 + ?S)\<bar> \<le> of_nat (length ws) / 2 ^ 52"
    using fold_validate_weight_error [of ws 0] by blast
  have "\<bar>y - 36028797018963967 / 36028797018963968\<bar> \<le> 4 / 2 ^ 52"
    using e unfolding S len by simp
  moreover have "(4::rat) / 2 ^ 52 + (1 - 36028797018963967 / 36028797018963968) \<le> 1 / 10000000"
    by simp
  ultimately have "\<bar>y - 1\<bar> \<le> 1 / 10000000" by linarith
  then show ?thesis using y by blast
qed

lemma default_category_0:
  "validate_category \<lparr>ts_categories = set [],
     ts_items = set [], ts_groups = []\<rparr> (hd (cf_categories (default_self_report_config v)))
   = Inr \<lparr>ts_categories = set [''major''],
     ts_items = set [], ts_groups = []\<rparr>"
  unfolding default_self_report_config_def config.simps list.sel by code_simp

lemma default_category_1:
  "validate_category \<lparr>ts_categories = set [''major''],
     ts_items = set [], ts_groups = []\<rparr> (hd (tl (cf_categories (default_self_report_config v))))
   = Inr \<lparr>ts_categories = set [''moral'', ''major''],
     ts_items = set [''moral_penalty'', ''moral_base''], ts_groups = []\<rparr>"
  unfolding default_self_report_config_def config.simps list.sel by code_simp

lemma default_category_2:
  "validate_category \<lparr>ts_categories = set [''moral'', ''major''],
     ts_items = set [''moral_penalty'', ''moral_base''], ts_groups = []\<rparr> (hd (tl (tl (cf_categories (default_self_report_config v)))))
   = Inr \<lparr>ts_categories = set [''practice'', ''moral'', ''major''],
     ts_items = set [''practice_base'', ''moral_penalty'', ''moral_base''], ts_groups = []\<rparr>"
  unfolding default_self_report_config_def config.simps list.sel by code_simp

lemma default_category_3:
  "validate_category \<lparr>ts_categories = set [''practice'', ''moral'', ''major''],
     ts_items = set [''practice_base'', ''moral_penalty'', ''moral_base''], ts_groups = []\<rparr> (hd (tl (tl (tl (cf_categories (default_self_report_config v))))))
   = Inr \<lparr>ts_categories = set [''health'', ''practice'', ''moral'', ''major''],
     ts_items = set [''health_base'', ''practice_base'', ''moral_penalty'', ''moral_base''], ts_groups = []\<rparr>"
  unfolding default_self_report_config_def config.simps list.sel by code_simp

lemma default_config_valid:
  assumes "visit_order v1" and "visit_order v2"
  shows "validate v1 v2 (default_self_report_config ver) = None"
proof -
  let ?c = "default_self_report_config ver"
  obtain y where y: "fold_res validate_weight (Fin 0) (v1 (cf_weights ?c)) = Inr (Fin y)"
    "\<bar>y - 1\<bar> \<le> 1 / 10000000"
    using default_weights_ok [OF visit_orderD [OF assms(1)]] by blast
  have cs: "cf_categories ?c = [hd (cf_categories ?c), hd (tl (cf_categories ?c)),
      hd (tl (tl (cf_categories ?c))), hd (tl (tl (tl (cf_categories ?c))))]"
    by (simp add: default_self_report_config_def)
  have tree: "fold_res validate_category \<lparr>ts_categories = {}, ts_items = {}, ts_groups = []\<rparr>
      (cf_categories ?c) = Inr \<lparr>ts_categories = set [''health'', ''practice'', ''moral'', ''major''],
       ts_items = set [''health_base'', ''practice_base'', ''moral_penalty'', ''moral_base''], ts_groups = []\<rparr>"
    by (subst cs) (simp only: fold_res.simps default_category_0 [unfolded list.set(1)]
      default_category_1 [unfolded list.set(1)] default_category_2 default_category_3 sum.case)
  have name: "\<not> blank (cf_scheme_name ?c)"
    unfolding default_self_report_config_def config.simps by code_simp
  have keys: "\<forall>(k, w) \<in> set (v2 (cf_weights ?c)). k \<in> {''health'', ''practice'', ''moral'', ''major''}"
    unfolding mset_eq_setD [OF visit_orderD [OF assms(2)]] by (simp add: default_weights)
  show ?thesis
  proof (rule validateI)
    show "validate_timeline (cf_window ?c) (cf_capabilities ?c) (cf_honor_roll ?c) = None"
      by (simp add: default_self_report_config_def timeline_default_ok)
    show "\<forall>(k, w) \<in> set (v2 (cf_weights ?c)). \<not> (flt (Fin 0) w \<and> k \<notin> ts_categories
        \<lparr>ts_categories = set [''health'', ''practice'', ''moral'', ''major''],
          ts_items = set [''health_base'', ''practice_base'', ''moral_penalty'', ''moral_base''],
          ts_groups = []\<rparr>)"
      using keys by auto
  qed (rule name y(1) tolerance [OF y(2)] tree)+
qed

theorem validate_scheme_wf_witness: "scheme_wf (default_self_report_config ''2024'')"
  by (rule validate_scheme_wf [OF default_config_valid [OF visit_order_id]]) (rule visit_order_id)+

theorem validate_template_runtime_free_witness:
  "validate rev id (apply_template (default_self_report_config ''2024'')
      (template_from_config (default_self_report_config []))) =
   validate_template rev id (template_from_config (default_self_report_config []))"
  by (rule validate_template_runtime_free)
    (simp add: default_self_report_config_def timeline_default_ok)

theorem template_export_import_witness:
  "validate_template id rev (template_from_config (default_self_report_config ''2024'')) = None"
  using template_export_import [OF default_config_valid [OF visit_order_id]] by blast

text \<open>
  C31. A class that has configured nothing has a publishable scheme: the generated default
  passes \<open>Validate\<close> with every version label, and although its weights are rounded doubles
  their sum stays within the tolerance in each of the orders Go may add them.
\<close>

theorem default_scheme_publishable:
  "\<forall>ver. \<forall>v1 v2. visit_order v1 \<and> visit_order v2
     \<longrightarrow> validate v1 v2 (default_self_report_config ver) = None"
  using default_config_valid by blast

theorem default_scheme_publishable_witness:
  "validate rev rev (default_self_report_config ''x'') = None"
  using default_scheme_publishable visit_order_id by blast

section \<open>Claims under a valid rule\<close>

definition claim_acceptable :: "score_rule \<Rightarrow> claim \<Rightarrow> bool" where
  \<comment> \<open>what a student must enter, by type of rule\<close>
  "claim_acceptable r c \<longleftrightarrow>
     (let nonneg = (\<lambda>q. case q of Some (Fin x) \<Rightarrow> 0 \<le> x | _ \<Rightarrow> False);
          between = (\<lambda>lo s hi. finite64 s \<and> lo \<le> new_points s \<and> new_points s \<le> hi)
      in if sr_type r = ''free'' then
           (case (sr_min r, cl_score c, sr_max r) of
              (Some lo, Some s, Some hi) \<Rightarrow> between (new_points lo) s (new_points hi) | _ \<Rightarrow> False)
         else if sr_type r = ''enum'' then
           cl_option c \<in> eo_label ` set (sr_options r)
           \<and> (case cl_score c of None \<Rightarrow> True
              | Some s \<Rightarrow> between 0 s (max_option_points (sr_options r)))
         else nonneg (cl_quantity c))"

text \<open>
  C32. Under a rule that \<open>Validate\<close> accepts, \<open>ScoreClaim\<close> computes a score exactly for
  the acceptable claims: a finite non-negative quantity, an existing grade with a score in
  range or none, a self-reported score between the bounds.
\<close>

theorem score_claim_complete:
  assumes "validate_score_rule k r = None"
  shows "(\<exists>s. score_claim r c = Inr s) \<longleftrightarrow> claim_acceptable r c"
proof -
  have quantity: "(finite64 q \<and> \<not> flt q (Fin 0)) \<longleftrightarrow> (case q of Fin x \<Rightarrow> 0 \<le> x | _ \<Rightarrow> False)" for q
    by (cases q) auto
  have found: "(find (\<lambda>o'. eo_label o' = l) os = None) \<longleftrightarrow> l \<notin> eo_label ` set os" for l os
    by (auto simp: find_None_iff)
  consider (unit) "sr_type r = ''per_unit''" | (enum) "sr_type r = ''enum''"
    | (free) "sr_type r = ''free''" | (threshold) "sr_type r = ''threshold''"
    using assms by (auto simp: validate_score_rule_def split: if_splits)
  then show ?thesis
  proof cases
    case unit
    then show ?thesis
      using quantity by (auto simp: score_claim_def claim_acceptable_def Let_def
        split: option.splits f64.splits)
  next
    case enum
    then show ?thesis
      using found [of "cl_option c" "sr_options r"]
      by (cases "find (\<lambda>o'. eo_label o' = cl_option c) (sr_options r)")
        (auto simp: score_claim_def claim_acceptable_def Let_def not_less split: option.splits)
  next
    case free
    then show ?thesis
      using assms by (auto simp: score_claim_def claim_acceptable_def validate_score_rule_def Let_def
        not_less split: option.splits if_splits)
  next
    case threshold
    then show ?thesis
      using assms quantity
      by (auto simp: score_claim_def claim_acceptable_def validate_score_rule_def Let_def
        split: option.splits if_splits f64.splits)
  qed
qed

lemma demo_unit_rule_valid: "validate_score_rule ''k'' demo_unit_rule = None"
  by code_simp

theorem score_claim_complete_witness:
  "\<exists>s. score_claim demo_unit_rule (demo_claim 10) = Inr s"
  unfolding score_claim_complete [OF demo_unit_rule_valid]
  by (simp add: claim_acceptable_def demo_unit_rule_def demo_claim_def)

text \<open>
   What \<open>ValidateTimeline\<close> guarantees of the runtime envelope: the window opens before
  it closes and freezes no earlier, award quotas lie between 0 and 100 and together never
  exceed the class, there are at most eight awards and their trimmed names are distinct and
  not empty.
\<close>

theorem validate_timeline_guarantees:
  assumes "validate_timeline w c h = None"
  shows "w_open w < w_close w
    \<and> (\<forall>l. w_lockdown w = Some l \<longrightarrow> w_close w \<le> l)
    \<and> (\<forall>p. w_publicity w = Some p \<longrightarrow> pw_open p < pw_close p)
    \<and> 0 \<le> hr_top_percent h \<and> hr_top_percent h \<le> 100
    \<and> length (hr_awards h) \<le> 8
    \<and> (\<forall>a \<in> set (hr_awards h). 0 \<le> aw_top_percent a \<and> \<not> blank (aw_name a))
    \<and> distinct (map (\<lambda>a. trim_space (aw_name a)) (hr_awards h))
    \<and> sum_list (map aw_top_percent (hr_awards h)) \<le> 100"
proof -
  obtain n seen total' where loop: "fold_res validate_award (0, {}, 0) (hr_awards h) = Inr (n, seen, total')"
    and le: "total' \<le> 100"
    using assms by (auto simp: validate_timeline_def split: if_splits sum.splits option.splits)
  have each: "0 \<le> aw_top_percent a \<and> \<not> blank (aw_name a)" if a: "a \<in> set (hr_awards h)" for a
  proof -
    obtain s s' where "validate_award s a = Inr s'" using fold_res_all [OF loop a] by blast
    then show ?thesis by (cases s) (auto simp: Let_def blank_def split: if_splits)
  qed
  have "total' = i + sum_list (map aw_top_percent xs)"
    if "fold_res validate_award (j, S, i) xs = Inr (n, seen, total')" for i j S xs
    using that
  proof (induction xs arbitrary: i j S)
    case (Cons a xs)
    then have "fold_res validate_award (j + 1, insert (trim_space (aw_name a)) S,
        i + aw_top_percent a) xs = Inr (n, seen, total')"
      by (auto simp: Let_def split: if_splits sum.splits)
    from Cons.IH [OF this] show ?case by simp
  qed simp
  from this [OF loop] have "sum_list (map aw_top_percent (hr_awards h)) \<le> 100" using le by simp
  then show ?thesis
    using assms each awards.loop_keys [OF loop]
    by (auto simp: validate_timeline_def max_awards_def split: if_splits option.splits)
qed

theorem validate_timeline_guarantees_witness:
  "sum_list (map aw_top_percent default_awards) \<le> 100"
  using validate_timeline_guarantees [OF timeline_default_ok] by (simp add: default_honor_roll_def)

end
