(* ===== verification/Dispatch.thy ===== *)
theory Dispatch
  imports SchemeWellformed
begin

text \<open>
  Which two reviewers judge a submission: \<open>internal/dispatch/dispatch.go\<close>, and the seed and
  lock key of \<open>worker.go\<close>.  The digest \<open>sha256\<close> is a parameter, from bytes to bytes:
  nothing below depends on what it computes.
\<close>

section \<open>Data\<close>

record reviewer =
  re_user :: int
  re_sid :: string
  re_name :: string
  re_role :: string
  re_paused :: bool
  re_assigned :: int
  re_pending :: int
  re_done :: int

record dispatch_submission =
  ds_id :: int
  ds_student :: int
  ds_title :: string
  ds_student_name :: string
  ds_submitted_at :: time
  ds_reviewed_by :: "int set"
  ds_assigned :: "int set"
  ds_replaced :: "int list"

record load =
  lo_assigned :: int
  lo_pending :: int

type_synonym loads = "(int, load) gomap"

datatype block_reason = TooFewReviewers | OnlyOthersLeft int | AllConcluded

record plan_row =
  pr_reviewer :: int
  pr_name :: string
  pr_sid :: string
  pr_before :: int
  pr_after :: int
  pr_delta :: int

record plan =
  pl_policy :: string
  pl_seed :: int
  pl_avoid_self :: bool
  pl_targets :: int
  pl_rows :: "plan_row list"
  pl_spread_before :: int
  pl_spread_after :: int
  pl_blocked :: "(dispatch_submission \<times> block_reason) list"
  pl_assignments :: "(int \<times> int \<times> int) list"

datatype dispatch_error = ErrInvalidPool | IdsNotPositive

definition no_load :: load where
  "no_load = \<lparr>lo_assigned = 0, lo_pending = 0\<rparr>"

section \<open>Tie breaking\<close>

type_synonym bytes = "int list"

definition be64 :: "int \<Rightarrow> bytes" where
  \<comment> \<open>\<open>binary.BigEndian.PutUint64\<close> of the two's complement\<close>
  "be64 n = map (\<lambda>i. (n div 256 ^ (7 - i)) mod 256) [0..<8]"

definition be_uint64 :: "bytes \<Rightarrow> int" where
  "be_uint64 bs = foldl (\<lambda>a b. a * 256 + b) 0 (take 8 bs)"

definition tie_hash :: "(bytes \<Rightarrow> bytes) \<Rightarrow> int \<Rightarrow> int \<Rightarrow> int \<Rightarrow> int" where
  "tie_hash sha256 seed submission user = be_uint64 (sha256 (be64 seed @ be64 submission @ be64 user))"

definition bytes_of :: "string \<Rightarrow> bytes" where
  "bytes_of s = map of_char s"

definition event_seed :: "(bytes \<Rightarrow> bytes) \<Rightarrow> string \<Rightarrow> int" where
  "event_seed sha256 eid = (let v = be_uint64 (sha256 (bytes_of eid)) mod 2 ^ 63 in
     if v = 0 then 1 else v)"

definition class_lock_key :: "(bytes \<Rightarrow> bytes) \<Rightarrow> int \<Rightarrow> int" where
  "class_lock_key sha256 class =
     wrap64 (be_uint64 (sha256 (bytes_of ''easygpa.dispatch.class'' @ [0] @ be64 class)))"

section \<open>Candidates and order\<close>

definition may_review :: "dispatch_submission \<Rightarrow> bool \<Rightarrow> reviewer \<Rightarrow> bool" where
  "may_review s avoid_self r \<longleftrightarrow> \<not> (avoid_self \<and> re_user r = ds_student s)
     \<and> re_user r \<notin> ds_reviewed_by s \<and> re_user r \<notin> ds_assigned s"

definition dispatch_candidates :: "dispatch_submission \<Rightarrow> reviewer list \<Rightarrow> bool
    \<Rightarrow> (block_reason, reviewer list) result" where
  "dispatch_candidates s active avoid_self =
    (if length active < 2 then Inl TooFewReviewers
     else let without_self = length (filter (\<lambda>r. \<not> (avoid_self \<and> re_user r = ds_student s)) active);
              candidates = filter (may_review s avoid_self) active
       in if without_self < 2 then Inl (OnlyOthersLeft (int without_self))
          else if length candidates < 2 then Inl AllConcluded
          else Inr candidates)"

definition candidate_key :: "(bytes \<Rightarrow> bytes) \<Rightarrow> loads \<Rightarrow> int \<Rightarrow> int \<Rightarrow> reviewer \<Rightarrow> int \<times> int \<times> int \<times> int" where
  "candidate_key sha256 loads seed submission r = (let l = go_get no_load loads (re_user r) in
     (lo_assigned l, lo_pending l, tie_hash sha256 seed submission (re_user r), re_user r))"

definition candidate_before :: "(bytes \<Rightarrow> bytes) \<Rightarrow> loads \<Rightarrow> int \<Rightarrow> int \<Rightarrow> reviewer \<Rightarrow> reviewer \<Rightarrow> bool" where
  "candidate_before sha256 loads seed submission a b =
    (let left = go_get no_load loads (re_user a); right = go_get no_load loads (re_user b) in
     if lo_assigned left \<noteq> lo_assigned right then lo_assigned left < lo_assigned right
     else if lo_pending left \<noteq> lo_pending right then lo_pending left < lo_pending right
     else let lh = tie_hash sha256 seed submission (re_user a);
              rh = tie_hash sha256 seed submission (re_user b)
       in if lh \<noteq> rh then lh < rh else re_user a < re_user b)"

definition submitted_before :: "dispatch_submission \<Rightarrow> dispatch_submission \<Rightarrow> bool" where
  "submitted_before a b \<longleftrightarrow>
     (if ds_submitted_at a = ds_submitted_at b then ds_id a < ds_id b
      else ds_submitted_at a < ds_submitted_at b)"

definition user_before :: "reviewer \<Rightarrow> reviewer \<Rightarrow> bool" where
  "user_before a b \<longleftrightarrow> re_user a < re_user b"

definition spread :: "reviewer list \<Rightarrow> loads \<Rightarrow> int" where
  "spread pool loads = (case pool of [] \<Rightarrow> 0
     | r # rs \<Rightarrow> (let v = (\<lambda>r. lo_assigned (go_get no_load loads (re_user r)))
         in foldl (\<lambda>m r. if m < v r then v r else m) (v r) rs
            - foldl (\<lambda>m r. if v r < m then v r else m) (v r) rs))"

section \<open>Balance\<close>

fun check_reviewer :: "int set \<Rightarrow> reviewer \<Rightarrow> (dispatch_error, int set) result" where
  "check_reviewer seen r =
     (if re_user r \<le> 0 \<or> re_user r \<in> seen then Inl ErrInvalidPool else Inr (insert (re_user r) seen))"

definition change_load :: "int \<Rightarrow> int \<Rightarrow> loads \<Rightarrow> loads" where
  "change_load n user loads = (let l = go_get no_load loads user in
     AList.update user \<lparr>lo_assigned = lo_assigned l + n, lo_pending = lo_pending l + n\<rparr> loads)"

definition retire_one :: "loads \<Rightarrow> int \<Rightarrow> loads" where
  "retire_one loads user = (if go_has loads user then change_load (-1) user loads else loads)"

definition retire :: "reviewer list \<Rightarrow> bool \<Rightarrow> loads \<Rightarrow> dispatch_submission \<Rightarrow> loads" where
  "retire active avoid_self loads s =
     (case dispatch_candidates s active avoid_self of
        Inl _ \<Rightarrow> loads
      | Inr _ \<Rightarrow> foldl retire_one loads (ds_replaced s))"

type_synonym assign_state =
  "loads \<times> (dispatch_submission \<times> block_reason) list \<times> (int \<times> int \<times> int) list"

fun assign_one :: "(bytes \<Rightarrow> bytes) \<Rightarrow> int \<Rightarrow> reviewer list \<Rightarrow> bool \<Rightarrow> assign_state
    \<Rightarrow> dispatch_submission \<Rightarrow> (dispatch_error, assign_state) result" where
  "assign_one sha256 seed active avoid_self (loads, blocked, assignments) s =
    (if ds_id s \<le> 0 \<or> ds_student s \<le> 0 then Inl IdsNotPositive
     else (case dispatch_candidates s active avoid_self of
         Inl reason \<Rightarrow> Inr (loads, blocked @ [(s, reason)], assignments)
       | Inr candidates \<Rightarrow>
           (let sorted = sort_less (candidate_before sha256 loads seed (ds_id s)) candidates;
                u1 = re_user (sorted ! 0); u2 = re_user (sorted ! 1)
            in Inr (change_load 1 u2 (change_load 1 u1 loads), blocked,
                 assignments @ [(ds_id s, u1, u2)]))))"

definition initial_loads :: "reviewer list \<Rightarrow> loads \<Rightarrow> loads" where
  "initial_loads pool existing =
     foldl (\<lambda>m r. AList.update (re_user r) (go_get no_load existing (re_user r)) m) [] pool"

definition balance :: "(bytes \<Rightarrow> bytes) \<Rightarrow> dispatch_submission list \<Rightarrow> reviewer list \<Rightarrow> loads
    \<Rightarrow> int \<Rightarrow> bool \<Rightarrow> (dispatch_error, plan) result" where
  "balance sha256 submissions pool existing seed avoid_self =
    (case fold_res check_reviewer {} pool of
       Inl e \<Rightarrow> Inl e
     | Inr _ \<Rightarrow>
       (let active = sort_less user_before (filter (\<lambda>r. \<not> re_paused r) pool);
            everyone = sort_less user_before pool;
            loads0 = initial_loads everyone existing;
            ordered = sort_less submitted_before submissions;
            loads1 = foldl (retire active avoid_self) loads0 ordered
        in (case fold_res (assign_one sha256 seed active avoid_self) (loads1, [], []) ordered of
              Inl e \<Rightarrow> Inl e
            | Inr (loads, blocked, assignments) \<Rightarrow>
                Inr \<lparr>pl_policy = ''balanced_per_submission'', pl_seed = seed,
                  pl_avoid_self = avoid_self, pl_targets = int (length ordered),
                  pl_rows = map (\<lambda>r.
                    (let b = lo_assigned (go_get no_load existing (re_user r));
                         a = lo_assigned (go_get no_load loads (re_user r))
                     in \<lparr>pr_reviewer = re_user r, pr_name = re_name r, pr_sid = re_sid r,
                         pr_before = b, pr_after = a, pr_delta = a - b\<rparr>)) everyone,
                  pl_spread_before = spread active loads0, pl_spread_after = spread active loads,
                  pl_blocked = blocked, pl_assignments = assignments\<rparr>)))"

definition pick_one :: "(bytes \<Rightarrow> bytes) \<Rightarrow> dispatch_submission \<Rightarrow> reviewer list \<Rightarrow> loads \<Rightarrow> int \<Rightarrow> bool
    \<Rightarrow> (dispatch_error, int option) result" where
  "pick_one sha256 s pool existing seed avoid_self =
    (case fold_res check_reviewer {} pool of
       Inl e \<Rightarrow> Inl e
     | Inr _ \<Rightarrow>
       (let candidates = filter (\<lambda>r. \<not> re_paused r \<and> may_review s avoid_self r) pool in
        if candidates = [] then Inr None
        else Inr (Some (re_user (sort_less (candidate_before sha256 existing seed (ds_id s)) candidates ! 0)))))"

section \<open>Orders\<close>

interpretation candidate_order:
  keyed_order "candidate_before sha256 loads seed submission" "candidate_key sha256 loads seed submission"
  for sha256 loads seed submission
  by unfold_locales (auto simp: candidate_before_def candidate_key_def Let_def less_prod_def)

interpretation user_order: keyed_order user_before re_user
  by unfold_locales (simp add: user_before_def)

interpretation submission_order: keyed_order submitted_before "\<lambda>s. (ds_submitted_at s, ds_id s)"
  by unfold_locales (auto simp: submitted_before_def less_prod_def)

interpretation pool_users: unique_loop check_reviewer id re_user
  by unfold_locales (auto split: if_splits)

declare check_reviewer.simps [simp del]

lemma check_pool:
  "fold_res check_reviewer seen pool =
    (if (\<forall>r \<in> set pool. 0 < re_user r) \<and> distinct (map re_user pool)
        \<and> re_user ` set pool \<inter> seen = {}
     then Inr (seen \<union> re_user ` set pool) else Inl ErrInvalidPool)"
proof (induction pool arbitrary: seen)
  case (Cons r pool)
  show ?case
  proof (cases "re_user r \<le> 0 \<or> re_user r \<in> seen")
    case True
    then show ?thesis by (auto simp: check_reviewer.simps)
  next
    case False
    then have "fold_res check_reviewer seen (r # pool)
        = fold_res check_reviewer (insert (re_user r) seen) pool"
      by (simp add: check_reviewer.simps)
    also note Cons.IH
    finally show ?thesis using False by (auto simp: not_le)
  qed
qed simp

definition pool_ok :: "reviewer list \<Rightarrow> bool" where
  "pool_ok pool \<longleftrightarrow> (\<forall>r \<in> set pool. 0 < re_user r) \<and> distinct (map re_user pool)"

lemma check_pool_start:
  "fold_res check_reviewer {} pool =
    (if pool_ok pool then Inr (re_user ` set pool) else Inl ErrInvalidPool)"
  unfolding check_pool by (simp add: pool_ok_def)

section \<open>Who is assigned\<close>

definition active_of :: "reviewer list \<Rightarrow> reviewer list" where
  "active_of pool = sort_less user_before (filter (\<lambda>r. \<not> re_paused r) pool)"

lemma active_of_facts:
  assumes "pool_ok pool"
  shows "set (active_of pool) = {r \<in> set pool. \<not> re_paused r}" and "distinct (map re_user (active_of pool))"
proof -
  show "set (active_of pool) = {r \<in> set pool. \<not> re_paused r}" by (simp add: active_of_def)
  have "distinct (map re_user (filter (\<lambda>r. \<not> re_paused r) pool))"
    using assms by (simp add: pool_ok_def distinct_map_filter)
  then show "distinct (map re_user (active_of pool))"
    unfolding active_of_def by (metis mset_eq_imp_distinct_iff mset_map mset_sort_less)
qed

definition first_two :: "(bytes \<Rightarrow> bytes) \<Rightarrow> loads \<Rightarrow> int \<Rightarrow> dispatch_submission \<Rightarrow> reviewer list \<Rightarrow> reviewer \<times> reviewer" where
  "first_two sha256 loads seed s candidates =
     (let sorted = sort_less (candidate_before sha256 loads seed (ds_id s)) candidates
      in (sorted ! 0, sorted ! 1))"

lemma dispatch_candidatesD:
  assumes "dispatch_candidates s active avoid_self = Inr candidates"
  shows "candidates = filter (may_review s avoid_self) active" and "2 \<le> length candidates"
  using assms by (auto simp: dispatch_candidates_def Let_def split: if_splits)

lemma first_two_facts:
  assumes "first_two sha256 loads seed s candidates = (r1, r2)" and "2 \<le> length candidates"
    and "distinct (map re_user candidates)"
  shows "r1 \<in> set candidates" and "r2 \<in> set candidates" and "re_user r1 \<noteq> re_user r2"
    and "q \<in> set candidates \<Longrightarrow> q = r1 \<or> q = r2
      \<or> lo_assigned (go_get no_load loads (re_user r1)) \<le> lo_assigned (go_get no_load loads (re_user q))
        \<and> lo_assigned (go_get no_load loads (re_user r2)) \<le> lo_assigned (go_get no_load loads (re_user q))"
proof -
  let ?lt = "candidate_before sha256 loads seed (ds_id s)"
  let ?v = "\<lambda>r. lo_assigned (go_get no_load loads (re_user r))"
  obtain a b rest where sorted: "sort_less ?lt candidates = a # b # rest"
  proof -
    have "2 \<le> length (sort_less ?lt candidates)" using assms(2) by simp
    then show thesis using that by (cases "sort_less ?lt candidates"; cases "tl (sort_less ?lt candidates)") auto
  qed
  then have r: "r1 = a" "r2 = b" using assms(1) by (auto simp: first_two_def Let_def)
  have set: "set candidates = {a, b} \<union> set rest" by (metis set_sort_less sorted list.simps(15) insert_is_Un sup_assoc)
  show "r1 \<in> set candidates" "r2 \<in> set candidates" using set r by auto
  have "distinct (map re_user (a # b # rest))"
    using assms(3) sorted by (metis mset_eq_imp_distinct_iff mset_map mset_sort_less)
  then show "re_user r1 \<noteq> re_user r2" using r by simp
  have w: "sorted_wrt (\<lambda>a b. \<not> ?lt b a) (a # b # rest)"
    using candidate_order.sorted_sort [of sha256 loads seed "ds_id s" candidates] by (simp only: sorted)
  have le: "\<not> ?lt y x \<Longrightarrow> ?v x \<le> ?v y" for x y
    by (auto simp: candidate_before_def Let_def split: if_splits)
  assume "q \<in> set candidates"
  then consider "q = a" | "q = b" | "q \<in> set rest" using set by auto
  then show "q = r1 \<or> q = r2 \<or> ?v r1 \<le> ?v q \<and> ?v r2 \<le> ?v q"
    using w le r by cases auto
qed

definition assignment_ok :: "dispatch_submission list \<Rightarrow> reviewer list \<Rightarrow> bool \<Rightarrow> int \<times> int \<times> int \<Rightarrow> bool" where
  "assignment_ok submissions active avoid_self a \<longleftrightarrow>
     (case a of (sid, u1, u2) \<Rightarrow> \<exists>s \<in> set submissions. ds_id s = sid \<and> u1 \<noteq> u2
        \<and> (\<exists>r \<in> set active. re_user r = u1 \<and> may_review s avoid_self r)
        \<and> (\<exists>r \<in> set active. re_user r = u2 \<and> may_review s avoid_self r))"

lemma assign_oneE:
  assumes "assign_one sha256 seed active avoid_self (loads, bl, as) s = Inr st"
  obtains (blocked) reason where "dispatch_candidates s active avoid_self = Inl reason"
      and "st = (loads, bl @ [(s, reason)], as)"
    | (assigned) candidates r1 r2 where "dispatch_candidates s active avoid_self = Inr candidates"
      and "first_two sha256 loads seed s candidates = (r1, r2)"
      and "st = (change_load 1 (re_user r2) (change_load 1 (re_user r1) loads), bl,
            as @ [(ds_id s, re_user r1, re_user r2)])"
  using assms by (auto simp: first_two_def Let_def split: if_splits sum.splits)

lemma assign_all:
  assumes "fold_res (assign_one sha256 seed active avoid_self) (loads, bl, as) ss = Inr (loads', bl', as')"
    and "distinct (map re_user active)"
  shows "\<exists>bn an. bl' = bl @ bn \<and> as' = as @ an
    \<and> mset (map (ds_id \<circ> fst) bn) + mset (map fst an) = mset (map ds_id ss)
    \<and> (\<forall>a \<in> set an. assignment_ok ss active avoid_self a)"
  using assms(1)
proof (induction ss arbitrary: loads bl as)
  case (Cons s ss)
  obtain st where st: "assign_one sha256 seed active avoid_self (loads, bl, as) s = Inr st"
    and rest: "fold_res (assign_one sha256 seed active avoid_self) st ss = Inr (loads', bl', as')"
    using Cons.prems by (auto simp del: assign_one.simps split: sum.splits)
  have mono: "assignment_ok ss active avoid_self a \<Longrightarrow> assignment_ok (s # ss) active avoid_self a" for a
    by (auto simp: assignment_ok_def)
  from st show ?case
  proof (cases rule: assign_oneE)
    case (blocked reason)
    from Cons.IH [OF rest [unfolded blocked(2)]] obtain bn an where
      "bl' = (bl @ [(s, reason)]) @ bn" "as' = as @ an"
      "mset (map (ds_id \<circ> fst) bn) + mset (map fst an) = mset (map ds_id ss)"
      "\<forall>a \<in> set an. assignment_ok ss active avoid_self a"
      by blast
    then show ?thesis
      using mono by (intro exI [of _ "(s, reason) # bn"] exI [of _ an]) (auto simp: comp_def)
  next
    case (assigned candidates r1 r2)
    note c = dispatch_candidatesD [OF assigned(1)]
    have d: "distinct (map re_user candidates)"
      unfolding c(1) using assms(2) by (simp add: distinct_map_filter)
    note f = first_two_facts(1-3) [OF assigned(2) c(2) d]
    have ok: "assignment_ok (s # ss) active avoid_self (ds_id s, re_user r1, re_user r2)"
      using f unfolding c(1) assignment_ok_def by auto
    from Cons.IH [OF rest [unfolded assigned(3)]] obtain bn an where
      "bl' = bl @ bn" "as' = (as @ [(ds_id s, re_user r1, re_user r2)]) @ an"
      "mset (map (ds_id \<circ> fst) bn) + mset (map fst an) = mset (map ds_id ss)"
      "\<forall>a \<in> set an. assignment_ok ss active avoid_self a"
      by blast
    then show ?thesis
      using mono ok by (intro exI [of _ bn] exI [of _ "(ds_id s, re_user r1, re_user r2) # an"])
        (auto simp: comp_def)
  qed
qed simp

lemma balanceE:
  assumes "balance sha256 submissions pool existing seed avoid_self = Inr plan"
  obtains loads bl as where "pool_ok pool"
    and "fold_res (assign_one sha256 seed (active_of pool) avoid_self)
      (foldl (retire (active_of pool) avoid_self) (initial_loads (sort_less user_before pool) existing)
        (sort_less submitted_before submissions), [], []) (sort_less submitted_before submissions)
      = Inr (loads, bl, as)"
    and "pl_assignments plan = as" and "pl_blocked plan = bl"
    and "pl_spread_after plan = spread (active_of pool) loads"
    and "pl_spread_before plan
      = spread (active_of pool) (initial_loads (sort_less user_before pool) existing)"
  using assms
  unfolding balance_def check_pool_start active_of_def [symmetric] Let_def
  by (auto split: if_splits sum.splits)

text \<open>
  C27. A plan treats every submission once and gives work only to those who may do it: each
  submission is either assigned or blocked, an assignment names two different reviewers of
  the pool who are not paused, have not reviewed or been given the submission, and, when
  asked to avoid it, are not the student who filed it.
\<close>

theorem balance_assigns_eligible:
  assumes "balance sha256 submissions pool existing seed avoid_self = Inr plan"
  shows "mset (map (ds_id \<circ> fst) (pl_blocked plan)) + mset (map fst (pl_assignments plan))
      = mset (map ds_id submissions)
    \<and> (\<forall>(sid, u1, u2) \<in> set (pl_assignments plan). u1 \<noteq> u2
        \<and> (\<exists>s \<in> set submissions. ds_id s = sid \<and> (\<forall>u \<in> {u1, u2}.
             u \<notin> ds_reviewed_by s \<and> u \<notin> ds_assigned s \<and> (avoid_self \<longrightarrow> u \<noteq> ds_student s)
             \<and> (\<exists>r \<in> set pool. re_user r = u \<and> \<not> re_paused r))))"
  using assms
proof (rule balanceE)
  fix loads bl as
  assume ok: "pool_ok pool" and as: "pl_assignments plan = as" "pl_blocked plan = bl"
    and run: "fold_res (assign_one sha256 seed (active_of pool) avoid_self)
      (foldl (retire (active_of pool) avoid_self) (initial_loads (sort_less user_before pool) existing)
        (sort_less submitted_before submissions), [], []) (sort_less submitted_before submissions)
      = Inr (loads, bl, as)"
  note act = active_of_facts [OF ok]
  have fin: "mset (map (ds_id \<circ> fst) bl) + mset (map fst as)
      = mset (map ds_id (sort_less submitted_before submissions))"
    and good: "\<forall>a \<in> set as. assignment_ok (sort_less submitted_before submissions) (active_of pool) avoid_self a"
    using assign_all [OF run act(2)] by auto
  have "mset (map ds_id (sort_less submitted_before submissions)) = mset (map ds_id submissions)"
    by simp
  then show ?thesis
    using fin good act(1) unfolding as
    by (fastforce simp: assignment_ok_def may_review_def)
qed

section \<open>Fairness\<close>

definition assigned_in :: "loads \<Rightarrow> reviewer \<Rightarrow> int" where
  "assigned_in loads r = lo_assigned (go_get no_load loads (re_user r))"

definition gap_at_most :: "int \<Rightarrow> reviewer list \<Rightarrow> loads \<Rightarrow> bool" where
  "gap_at_most g pool loads \<longleftrightarrow>
     (\<forall>x \<in> set pool. \<forall>y \<in> set pool. assigned_in loads x - assigned_in loads y \<le> g)"

lemma foldl_extreme:
  fixes v :: "'a \<Rightarrow> int"
  shows "foldl (\<lambda>m r. if m < v r then v r else m) a rs = Max (insert a (v ` set rs))"
    and "foldl (\<lambda>m r. if v r < m then v r else m) a rs = Min (insert a (v ` set rs))"
proof (induction rs arbitrary: a)
  case (Cons r rs)
  {
    case 1
    have "foldl (\<lambda>m r. if m < v r then v r else m) a (r # rs)
        = Max (insert (max a (v r)) (v ` set rs))"
      using Cons(1) by (simp add: max_def)
    also have "\<dots> = Max (insert a (v ` set (r # rs)))"
      by (cases "rs = []") (simp_all add: Max_insert max.assoc)
    finally show ?case .
  next
    case 2
    have "foldl (\<lambda>m r. if v r < m then v r else m) a (r # rs)
        = Min (insert (min a (v r)) (v ` set rs))"
      using Cons(2) by (simp add: min_def)
    also have "\<dots> = Min (insert a (v ` set (r # rs)))"
      by (cases "rs = []") (simp_all add: Min_insert min.assoc)
    finally show ?case .
  }
qed simp_all

lemma spread_le_iff:
  assumes "pool \<noteq> []"
  shows "spread pool loads \<le> g \<longleftrightarrow> gap_at_most g pool loads"
proof -
  let ?A = "assigned_in loads ` set pool"
  have fin: "finite ?A" and ne: "?A \<noteq> {}" using assms by auto
  obtain r rs where pool: "pool = r # rs" using assms by (cases pool) auto
  have sp: "spread pool loads = Max ?A - Min ?A"
    unfolding pool spread_def Let_def assigned_in_def [symmetric] list.case foldl_extreme by simp
  show ?thesis
  proof
    assume g: "spread pool loads \<le> g"
    show "gap_at_most g pool loads"
      unfolding gap_at_most_def
    proof (intro ballI)
      fix x y assume "x \<in> set pool" "y \<in> set pool"
      then have "assigned_in loads x \<le> Max ?A" and "Min ?A \<le> assigned_in loads y"
        using fin by simp_all
      then show "assigned_in loads x - assigned_in loads y \<le> g" using g sp by linarith
    qed
  next
    assume gap: "gap_at_most g pool loads"
    obtain x y where "x \<in> set pool" "Max ?A = assigned_in loads x" "y \<in> set pool" "Min ?A = assigned_in loads y"
      using Max_in [OF fin ne] Min_in [OF fin ne] by auto
    then show "spread pool loads \<le> g" using gap sp unfolding gap_at_most_def by simp
  qed
qed

lemma assigned_in_change:
  "assigned_in (change_load n u loads) r = assigned_in loads r + (if re_user r = u then n else 0)"
  by (simp add: assigned_in_def change_load_def Let_def go_get_update)

lemma gap_step:
  assumes "gap_at_most g active loads" and "1 \<le> g"
    and "first_two sha256 loads seed s active = (r1, r2)" and "2 \<le> length active"
    and "distinct (map re_user active)"
  shows "gap_at_most g active (change_load 1 (re_user r2) (change_load 1 (re_user r1) loads))"
  unfolding gap_at_most_def
proof (intro ballI)
  fix x y assume xy: "x \<in> set active" "y \<in> set active"
  note f = first_two_facts [OF assms(3-5)]
  have inj: "re_user p = re_user q \<Longrightarrow> p \<in> set active \<Longrightarrow> q \<in> set active \<Longrightarrow> p = q" for p q
    using assms(5) by (auto simp: distinct_map inj_on_def)
  have ne: "r1 \<noteq> r2" using f(3) by auto
  have new: "assigned_in (change_load 1 (re_user r2) (change_load 1 (re_user r1) loads)) z
      = assigned_in loads z + (if z = r1 \<or> z = r2 then 1 else 0)" if "z \<in> set active" for z
    using that f(1-3) inj ne by (auto simp: assigned_in_change)
  have old: "assigned_in loads x - assigned_in loads y \<le> g"
    using assms(1) xy by (simp add: gap_at_most_def)
  have least: "assigned_in loads x \<le> assigned_in loads y" if "x = r1 \<or> x = r2" "y \<noteq> r1" "y \<noteq> r2"
    using f(4) [OF xy(2)] that by (auto simp: assigned_in_def)
  show "assigned_in (change_load 1 (re_user r2) (change_load 1 (re_user r1) loads)) x
      - assigned_in (change_load 1 (re_user r2) (change_load 1 (re_user r1) loads)) y \<le> g"
    unfolding new [OF xy(1)] new [OF xy(2)] using old least assms(2) by auto
qed

definition open_to_all :: "dispatch_submission \<Rightarrow> reviewer list \<Rightarrow> bool \<Rightarrow> bool" where
  "open_to_all s pool avoid_self \<longleftrightarrow> list_all (may_review s avoid_self) pool"

lemma gap_assign_all:
  assumes "fold_res (assign_one sha256 seed active avoid_self) (loads, bl, as) ss = Inr (loads', bl', as')"
    and "gap_at_most g active loads" and "1 \<le> g" and "distinct (map re_user active)"
    and "\<forall>s \<in> set ss. open_to_all s active avoid_self"
  shows "gap_at_most g active loads'"
  using assms(1,2,5)
proof (induction ss arbitrary: loads bl as)
  case (Cons s ss)
  obtain st where st: "assign_one sha256 seed active avoid_self (loads, bl, as) s = Inr st"
    and rest: "fold_res (assign_one sha256 seed active avoid_self) st ss = Inr (loads', bl', as')"
    using Cons.prems(1) by (auto simp del: assign_one.simps split: sum.splits)
  from st show ?case
  proof (cases rule: assign_oneE)
    case (blocked reason)
    then show ?thesis using Cons.IH [OF rest [unfolded blocked(2)]] Cons.prems by simp
  next
    case (assigned candidates r1 r2)
    have "candidates = active"
      using dispatch_candidatesD(1) [OF assigned(1)] Cons.prems(3)
      by (simp add: open_to_all_def list_all_iff filter_id_conv)
    then have "gap_at_most g active (change_load 1 (re_user r2) (change_load 1 (re_user r1) loads))"
      using gap_step [OF Cons.prems(2) assms(3) _ _ assms(4)] assigned(2)
        dispatch_candidatesD(2) [OF assigned(1)] by simp
    then show ?thesis using Cons.IH [OF rest [unfolded assigned(3)]] Cons.prems(3) by simp
  qed
qed simp

lemma retire_nothing:
  "\<forall>s \<in> set ss. ds_replaced s = [] \<Longrightarrow> foldl (retire active avoid_self) loads ss = loads"
  by (induction ss arbitrary: loads) (auto simp: retire_def split: sum.split)

text \<open>
  C36. Dispatch is fair: when every reviewer who is not paused may take every submission and
  nothing is being replaced, a run never widens the gap between the most and the least
  loaded reviewer beyond one, or beyond what it was before, whatever the digest.
\<close>

theorem balance_fair:
  assumes "balance sha256 submissions pool existing seed avoid_self = Inr plan"
    and "\<forall>s \<in> set submissions. open_to_all s (filter (\<lambda>r. \<not> re_paused r) pool) avoid_self
      \<and> ds_replaced s = []"
  shows "pl_spread_after plan \<le> max 1 (pl_spread_before plan)"
  using assms(1)
proof (rule balanceE)
  fix loads bl as
  let ?act = "active_of pool" and ?ss = "sort_less submitted_before submissions"
  let ?l0 = "initial_loads (sort_less user_before pool) existing"
  assume ok: "pool_ok pool"
    and run: "fold_res (assign_one sha256 seed ?act avoid_self)
      (foldl (retire ?act avoid_self) ?l0 ?ss, [], []) ?ss = Inr (loads, bl, as)"
    and sa: "pl_spread_after plan = spread ?act loads"
    and sb: "pl_spread_before plan = spread ?act ?l0"
  note act = active_of_facts [OF ok]
  have l0: "foldl (retire ?act avoid_self) ?l0 ?ss = ?l0"
    using assms(2) by (intro retire_nothing) simp
  show ?thesis
  proof (cases "?act = []")
    case True
    then show ?thesis using sa by (simp add: spread_def)
  next
    case False
    let ?g = "max 1 (spread ?act ?l0)"
    have "gap_at_most ?g ?act ?l0" using spread_le_iff [OF False, of ?l0 ?g] by simp
    moreover have "\<forall>s \<in> set ?ss. open_to_all s ?act avoid_self"
      using assms(2) act(1) by (simp add: open_to_all_def list_all_iff)
    ultimately have "gap_at_most ?g ?act loads"
      using gap_assign_all [OF run [unfolded l0] _ _ act(2)] by simp
    then show ?thesis unfolding sa sb using spread_le_iff [OF False] by blast
  qed
qed

section \<open>Reproducibility\<close>

lemma sort_users_perm:
  assumes "mset xs = mset ys" and "distinct (map re_user xs)"
  shows "sort_less user_before xs = sort_less user_before ys"
  using assms by (intro user_order.sort_less_perm) (simp_all add: distinct_map)

lemma sort_submissions_perm:
  assumes "mset xs = mset ys" and "distinct (map ds_id xs)"
  shows "sort_less submitted_before xs = sort_less submitted_before ys"
proof (rule submission_order.sort_less_perm [OF assms(1)])
  show "inj_on (\<lambda>s. (ds_submitted_at s, ds_id s)) (set xs)"
    using assms(2) by (auto simp: distinct_map inj_on_def)
qed

text \<open>
   A plan is a function of the stored seed and of the sets it was computed from: the
  order in which submissions and reviewers are listed changes nothing, so a run can be
  replayed from its seed.
\<close>

theorem balance_order_free:
  assumes "mset submissions = mset submissions'" and "mset pool = mset pool'"
    and "distinct (map ds_id submissions)"
  shows "balance sha256 submissions pool existing seed avoid_self
    = balance sha256 submissions' pool' existing seed avoid_self"
proof (cases "pool_ok pool")
  case True
  have d: "distinct (map re_user pool)" using True by (simp add: pool_ok_def)
  have ok': "pool_ok pool'"
    using True assms(2) unfolding pool_ok_def by (metis mset_eq_imp_distinct_iff mset_eq_setD mset_map)
  have act: "sort_less user_before (filter (\<lambda>r. \<not> re_paused r) pool)
      = sort_less user_before (filter (\<lambda>r. \<not> re_paused r) pool')"
    using assms(2) d by (intro sort_users_perm) (simp_all add: distinct_map_filter)
  show ?thesis
    unfolding balance_def check_pool_start act sort_users_perm [OF assms(2) d]
      sort_submissions_perm [OF assms(1,3)]
    using True ok' mset_eq_length [OF assms(1)] by simp
next
  case False
  moreover have "\<not> pool_ok pool'"
    using False assms(2) unfolding pool_ok_def by (metis mset_eq_imp_distinct_iff mset_eq_setD mset_map)
  ultimately show ?thesis by (simp add: balance_def check_pool_start)
qed

text \<open>
   A handover picks the right replacement: the chosen reviewer is in the pool, not
  paused, has not reviewed or been given the submission and is not its author when that is to
  be avoided; no such reviewer has fewer assignments; and no one is picked exactly when there
  is no such reviewer.
\<close>

theorem pick_one_least_loaded:
  assumes "pick_one sha256 s pool existing seed avoid_self = Inr result"
  shows "(\<forall>u. result = Some u \<longrightarrow>
      (\<exists>r \<in> set pool. re_user r = u \<and> \<not> re_paused r \<and> may_review s avoid_self r
        \<and> (\<forall>q \<in> set pool. \<not> re_paused q \<and> may_review s avoid_self q
             \<longrightarrow> lo_assigned (go_get no_load existing u) \<le> lo_assigned (go_get no_load existing (re_user q)))))
    \<and> (result = None \<longleftrightarrow> (\<forall>q \<in> set pool. re_paused q \<or> \<not> may_review s avoid_self q))"
proof -
  let ?c = "filter (\<lambda>r. \<not> re_paused r \<and> may_review s avoid_self r) pool"
  let ?s = "sort_less (candidate_before sha256 existing seed (ds_id s)) ?c"
  show ?thesis
  proof (cases "?c = []")
    case True
    then show ?thesis using assms
      by (auto simp: pick_one_def check_pool_start filter_empty_conv split: if_splits)
  next
    case False
    then have r: "result = Some (re_user (?s ! 0))" using assms
      by (auto simp: pick_one_def check_pool_start split: if_splits)
    have ne: "?s \<noteq> []" using False by (rule candidate_order.sort_less_neq_Nil)
    then have hd: "?s ! 0 = hd ?s" by (simp add: hd_conv_nth)
    have mem: "hd ?s \<in> set ?c" using ne hd_in_set [of ?s] by simp
    have least: "lo_assigned (go_get no_load existing (re_user (hd ?s)))
        \<le> lo_assigned (go_get no_load existing (re_user q))" if "q \<in> set ?c" for q
      using candidate_order.hd_sort_least [OF that, of sha256 existing seed "ds_id s"]
      by (auto simp: candidate_before_def Let_def split: if_splits)
    have "\<not> (\<forall>q \<in> set pool. re_paused q \<or> \<not> may_review s avoid_self q)"
      using False by (auto simp: filter_empty_conv)
    then show ?thesis unfolding r hd using mem least by auto
  qed
qed

definition demo_reviewer :: "int \<Rightarrow> reviewer" where
  "demo_reviewer u = \<lparr>re_user = u, re_sid = ''r'', re_name = ''n'', re_role = ''group'',
     re_paused = False, re_assigned = 0, re_pending = 0, re_done = 0\<rparr>"

definition demo_submission :: "int \<Rightarrow> dispatch_submission" where
  "demo_submission i = \<lparr>ds_id = i, ds_student = 9, ds_title = ''t'', ds_student_name = ''n'',
     ds_submitted_at = 0, ds_reviewed_by = {}, ds_assigned = {}, ds_replaced = []\<rparr>"

definition demo_pool :: "reviewer list" where
  "demo_pool = [demo_reviewer 3, demo_reviewer 1, demo_reviewer 2]"

lemma demo_balance:
  "\<exists>plan. balance (\<lambda>b. b) [demo_submission 5, demo_submission 4] demo_pool [] 1 True = Inr plan"
proof -
  have "\<not> isl (balance (\<lambda>b. b) [demo_submission 5, demo_submission 4] demo_pool [] 1 True)"
    by code_simp
  then show ?thesis
    by (cases "balance (\<lambda>b. b) [demo_submission 5, demo_submission 4] demo_pool [] 1 True") auto
qed

theorem balance_assigns_eligible_witness:
  "\<exists>plan. balance (\<lambda>b. b) [demo_submission 5, demo_submission 4] demo_pool [] 1 True = Inr plan
     \<and> mset (map (ds_id \<circ> fst) (pl_blocked plan)) + mset (map fst (pl_assignments plan)) = {#5, 4#}"
proof -
  obtain plan where p: "balance (\<lambda>b. b) [demo_submission 5, demo_submission 4] demo_pool [] 1 True = Inr plan"
    using demo_balance by blast
  have "mset (map ds_id [demo_submission 5, demo_submission 4]) = {#5, 4#}"
    by (simp add: demo_submission_def)
  then show ?thesis using balance_assigns_eligible [OF p] p by (intro exI [of _ plan]) simp
qed

theorem balance_fair_witness:
  "\<exists>plan. balance (\<lambda>b. b) [demo_submission 5, demo_submission 4] demo_pool [] 1 True = Inr plan
     \<and> pl_spread_after plan \<le> max 1 (pl_spread_before plan)"
proof -
  obtain plan where p: "balance (\<lambda>b. b) [demo_submission 5, demo_submission 4] demo_pool [] 1 True = Inr plan"
    using demo_balance by blast
  have "\<forall>s \<in> set [demo_submission 5, demo_submission 4]. open_to_all s (filter (\<lambda>r. \<not> re_paused r) demo_pool) True \<and> ds_replaced s = []"
    by (simp add: open_to_all_def may_review_def demo_submission_def demo_pool_def demo_reviewer_def)
  from balance_fair [OF p this] p show ?thesis by blast
qed

theorem balance_order_free_witness:
  "balance (\<lambda>b. b) [demo_submission 5, demo_submission 4] demo_pool [] 1 True
     = balance (\<lambda>b. b) [demo_submission 4, demo_submission 5] (rev demo_pool) [] 1 True"
  by (rule balance_order_free) (simp_all add: demo_submission_def)

lemma demo_pick: "pick_one (\<lambda>b. b) (demo_submission 5) demo_pool [] 1 True = Inr (Some 1)"
  by code_simp

theorem pick_one_least_loaded_witness:
  "\<exists>r \<in> set demo_pool. re_user r = 1 \<and> \<not> re_paused r"
  using pick_one_least_loaded [OF demo_pick] by blast

end
