(* ===== verification/Governance.thy ===== *)
theory Governance
  imports Dispatch
begin

text \<open>
  Collective governance: \<open>internal/governance/policy.go\<close>.  Who may vote, how many votes a
  decision needs, how review panels are drawn and how their opinions become a decision.
  Durations are nanoseconds.
\<close>

section \<open>Members and electorate\<close>

definition hour :: int where
  "hour = 3600 * 1000000000"

definition enrollment_notice :: int where "enrollment_notice = 7 * 24 * hour"
definition membership_cooling :: int where "membership_cooling = 24 * hour"
definition review_timeout :: int where "review_timeout = 48 * hour"

record gov_member =
  gm_id :: int
  gm_registered :: bool
  gm_active :: bool
  gm_joined_at :: "time option"
  gm_left_at :: "time option"
  gm_reviewer :: bool
  gm_submitted :: bool
  gm_load :: int

definition eligible :: "gov_member \<Rightarrow> time \<Rightarrow> bool" where
  "eligible m now \<longleftrightarrow> 0 < gm_id m \<and> gm_active m \<and> gm_registered m
     \<and> (case gm_joined_at m of None \<Rightarrow> False | Some j \<Rightarrow> \<not> now < j + membership_cooling)
     \<and> (case gm_left_at m of None \<Rightarrow> True | Some l \<Rightarrow> now < l)"

fun pick_members :: "(gov_member \<Rightarrow> bool) \<Rightarrow> int set \<Rightarrow> gov_member list \<Rightarrow> gov_member list" where
  \<comment> \<open>the loop both callers share: the first entry of each id that qualifies\<close>
  "pick_members ok seen [] = []"
| "pick_members ok seen (m # ms) =
     (if ok m \<and> gm_id m \<notin> seen then m # pick_members ok (insert (gm_id m) seen) ms
      else pick_members ok seen ms)"

definition int_before :: "int \<Rightarrow> int \<Rightarrow> bool" where
  "int_before a b \<longleftrightarrow> a < b"

definition electorate :: "gov_member list \<Rightarrow> time \<Rightarrow> int set \<Rightarrow> int list" where
  "electorate members now excluded = sort_less int_before
     (map gm_id (pick_members (\<lambda>m. eligible m now \<and> gm_id m \<notin> excluded) {} members))"

section \<open>Thresholds and profiles\<close>

datatype governance_error =
    RosterIncomplete | VoteKindUnknown | TooFewReviewersForProfile | DrawInvalid
  | TooFewIndependent | SeatsInvalid | OpinionInvalid

definition quotient :: "int \<Rightarrow> int \<Rightarrow> int" where
  \<comment> \<open>Go's division by a positive number, which rounds towards zero\<close>
  "quotient a b = (if a < 0 then - ((- a) div b) else a div b)"

definition threshold :: "string \<Rightarrow> int \<Rightarrow> int \<Rightarrow> (governance_error, int) result" where
  "threshold kind voters roster =
    (let two_thirds = quotient (i64add (wrap64 (2 * voters)) 2) 3 in
     if voters < 1 \<or> roster < voters then Inl RosterIncomplete
     else if kind = ''ordinary'' \<or> kind = ''bonus'' then Inr (max 3 (i64add (quotient voters 2) 1))
     else if kind = ''activate'' then Inr (max 3 two_thirds)
     else if kind = ''protected'' then
       Inr (max (max 5 two_thirds) (quotient (i64add roster 2) 3))
     else Inl VoteKindUnknown)"

record gov_profile =
  gp_name :: string
  gp_maximum :: int
  gp_appeal :: int
  gp_minimum :: int

definition review_profile :: "int \<Rightarrow> (governance_error, gov_profile) result" where
  "review_profile reviewers =
    (if 11 \<le> reviewers then
       Inr \<lparr>gp_name = ''standard'', gp_maximum = 5, gp_appeal = 5, gp_minimum = 11\<rparr>
     else if 7 \<le> reviewers then
       Inr \<lparr>gp_name = ''compact'', gp_maximum = 3, gp_appeal = 3, gp_minimum = 7\<rparr>
     else Inl TooFewReviewersForProfile)"

section \<open>Drawing a panel\<close>

definition digit :: "nat \<Rightarrow> char" where
  "digit d = char_of (48 + d)"

fun dec_nat :: "nat \<Rightarrow> string" where
  "dec_nat n = (if n < 10 then [digit n] else dec_nat (n div 10) @ [digit (n mod 10)])"

definition dec_int :: "int \<Rightarrow> string" where
  \<comment> \<open>the verb \<open>%d\<close>\<close>
  "dec_int i = (if i < 0 then ''-'' @ dec_nat (nat (- i)) else dec_nat (nat i))"

definition draw_hash :: "(bytes \<Rightarrow> bytes) \<Rightarrow> string \<Rightarrow> int \<Rightarrow> bytes" where
  \<comment> \<open>the code compares lower-case hexadecimal digests, which order like the bytes\<close>
  "draw_hash sha256 seed mid = sha256 (bytes_of (seed @ '':'' @ dec_int mid))"

definition draw_before :: "(bytes \<Rightarrow> bytes) \<Rightarrow> string \<Rightarrow> gov_member \<Rightarrow> gov_member \<Rightarrow> bool" where
  "draw_before sha256 seed a b =
    (if gm_load a \<noteq> gm_load b then gm_load a < gm_load b
     else draw_hash sha256 seed (gm_id a) < draw_hash sha256 seed (gm_id b))"

definition draw_panel :: "(bytes \<Rightarrow> bytes) \<Rightarrow> gov_member list \<Rightarrow> time \<Rightarrow> int set \<Rightarrow> int \<Rightarrow> string
    \<Rightarrow> (governance_error, int list) result" where
  "draw_panel sha256 members now excluded n seed =
    (if n < 1 \<or> length seed < 32 then Inl DrawInvalid
     else let pool = pick_members
            (\<lambda>m. eligible m now \<and> gm_reviewer m \<and> gm_id m \<notin> excluded) {} members in
       if int (length pool) < n then Inl TooFewIndependent
       else Inr (map gm_id (take (nat n) (sort_less (draw_before sha256 seed) pool))))"

section \<open>Reconciling opinions\<close>

record opinion =
  op_reviewer :: int
  op_decision :: string
  op_score :: int
  op_category :: string
  op_item :: string

record gov_outcome =
  go_state :: string
  go_opinion :: "opinion option"
  go_seats :: int

fun check_opinion :: "int set \<Rightarrow> opinion \<Rightarrow> (governance_error, int set) result" where
  "check_opinion seen o' =
    (if op_reviewer o' \<le> 0 \<or> op_reviewer o' \<in> seen
        \<or> (op_decision o' \<noteq> ''accepted'' \<and> op_decision o' \<noteq> ''rejected'')
        \<or> (op_decision o' = ''rejected'' \<and> op_score o' \<noteq> 0)
     then Inl OpinionInvalid else Inr (insert (op_reviewer o') seen))"

definition opinion_key :: "opinion \<Rightarrow> string" where
  "opinion_key o' = op_decision o' @ '':'' @ dec_int (op_score o') @ '':'' @ op_category o' @ '':''
     @ op_item o'"

fun find_majority :: "int \<Rightarrow> (string, int) gomap \<Rightarrow> opinion list \<Rightarrow> opinion option" where
  "find_majority seats counts [] = None"
| "find_majority seats counts (o' # os) =
    (let c = go_get 0 counts (opinion_key o') + 1 in
     if seats div 2 + 1 \<le> c then Some o'
     else find_majority seats (AList.update (opinion_key o') c counts) os)"

definition reconcile_opinions :: "opinion list \<Rightarrow> int \<Rightarrow> int \<Rightarrow> (governance_error, gov_outcome) result" where
  "reconcile_opinions opinions seats maximum =
    (if (maximum \<noteq> 3 \<and> maximum \<noteq> 5) \<or> (seats \<noteq> 2 \<and> seats \<noteq> 3 \<and> seats \<noteq> 5) \<or> maximum < seats
        \<or> seats < int (length opinions) then Inl SeatsInvalid
     else (case fold_res check_opinion {} opinions of
         Inl e \<Rightarrow> Inl e
       | Inr _ \<Rightarrow>
         if int (length opinions) < seats then
           Inr \<lparr>go_state = ''waiting'', go_opinion = None, go_seats = seats\<rparr>
         else (case find_majority seats [] opinions of
             Some o' \<Rightarrow> Inr \<lparr>go_state = ''decided'', go_opinion = Some o', go_seats = seats\<rparr>
           | None \<Rightarrow>
               if seats = 2 then Inr \<lparr>go_state = ''expand'', go_opinion = None, go_seats = 3\<rparr>
               else if seats < maximum then
                 Inr \<lparr>go_state = ''expand'', go_opinion = None, go_seats = 5\<rparr>
               else Inr \<lparr>go_state = ''deliberating'', go_opinion = None, go_seats = seats\<rparr>)))"

section \<open>Thresholds protect the minority\<close>

text \<open>
  C37. For every roster below \<open>2 ^ 62 - 1\<close> members (above, \<open>2*electorate+2\<close> may wrap to a negative number)
  a threshold is never below a strict majority of the electorate nor below three; an
  activation needs two thirds of the electorate, and a protected decision two thirds of the
  electorate, a third of the whole roster and five votes.
\<close>

theorem threshold_bounds:
  assumes "threshold kind voters roster = Inr t" and "roster < 2 ^ 62 - 1"
  shows "voters < 2 * t \<and> 3 \<le> t
    \<and> (kind = ''activate'' \<or> kind = ''protected'' \<longrightarrow> 2 * voters \<le> 3 * t)
    \<and> (kind = ''protected'' \<longrightarrow> roster \<le> 3 * t \<and> 5 \<le> t)"
proof -
  define a b c where abc: "a = voters div 2 + 1" "b = (2 * voters + 2) div 3" "c = (roster + 2) div 3"
  have facts: "voters < 2 * a" "2 * voters \<le> 3 * b" "roster \<le> 3 * c"
    unfolding abc by presburger+
  have v: "1 \<le> voters" "voters \<le> roster" using assms(1) by (auto simp: threshold_def Let_def split: if_splits)
  then have exact: "i64add (wrap64 (2 * voters)) 2 = 2 * voters + 2" "i64add roster 2 = roster + 2"
    "i64add (quotient voters 2) 1 = voters div 2 + 1"
    using assms(2) by (simp_all add: i64add_def wrap64_id in_int64_def quotient_def)
  then have parts: "quotient (i64add (wrap64 (2 * voters)) 2) 3 = b" "quotient (i64add roster 2) 3 = c"
    "i64add (quotient voters 2) 1 = a"
    using v by (simp_all add: quotient_def abc)
  consider "kind = ''ordinary'' \<or> kind = ''bonus''" "t = max 3 a"
    | "kind = ''activate''" "t = max 3 b" | "kind = ''protected''" "t = max (max 5 b) c"
    using assms(1) unfolding threshold_def parts Let_def by (auto split: if_splits)
  then show ?thesis
  proof cases
    case 1
    then show ?thesis using facts v by auto
  next
    case 2
    then show ?thesis using facts v by auto
  next
    case 3
    then show ?thesis using facts v by auto
  qed
qed

theorem threshold_bounds_witness: "threshold ''protected'' 30 40 = Inr 20 \<and> (30::int) < 2 * 20"
proof -
  have t: "threshold ''protected'' 30 40 = Inr 20" by code_simp
  then show ?thesis using threshold_bounds [OF t] by simp
qed

text \<open>
  A review profile leaves room for independence: its smallest class of reviewers can seat a
  full panel and a full, disjoint appeal panel beside the person concerned.
\<close>

lemma review_profile_independent:
  assumes "review_profile n = Inr p"
  shows "gp_maximum p + gp_appeal p + 1 \<le> gp_minimum p" and "gp_minimum p \<le> n"
    and "gp_maximum p \<in> {3, 5}"
  using assms by (auto simp: review_profile_def split: if_splits)

section \<open>Panels\<close>

interpretation draw_order: keyed_order "draw_before sha256 seed"
  "\<lambda>m. (gm_load m, draw_hash sha256 seed (gm_id m))" for sha256 seed
  by unfold_locales (auto simp: draw_before_def less_prod_def)

interpretation int_order: keyed_order int_before id
  by unfold_locales (simp add: int_before_def)

lemma pick_members_facts:
  "set (pick_members ok seen ms) \<subseteq> {m \<in> set ms. ok m \<and> gm_id m \<notin> seen}"
  "distinct (map gm_id (pick_members ok seen ms))"
  "gm_id ` set (pick_members ok seen ms) = gm_id ` {m \<in> set ms. ok m} - seen"
  by (induction ms arbitrary: seen) auto

text \<open>
  C38. A panel is drawn fairly: it has the requested number of different members, each
  eligible, a reviewer and not excluded, and no qualified member left out (ids being unique)
  has a lighter load than a member drawn.
\<close>

theorem draw_panel_fair:
  assumes "draw_panel sha256 members now excluded n seed = Inr ids"
    and "distinct (map gm_id members)"
  shows "int (length ids) = n \<and> distinct ids
    \<and> (\<forall>i \<in> set ids. \<exists>m \<in> set members. gm_id m = i \<and> eligible m now \<and> gm_reviewer m
        \<and> i \<notin> excluded
        \<and> (\<forall>q \<in> set members. eligible q now \<and> gm_reviewer q \<and> gm_id q \<notin> excluded
             \<and> gm_id q \<notin> set ids \<longrightarrow> gm_load m \<le> gm_load q))"
proof -
  let ?ok = "\<lambda>m. eligible m now \<and> gm_reviewer m \<and> gm_id m \<notin> excluded"
  let ?pool = "pick_members ?ok {} members"
  let ?sorted = "sort_less (draw_before sha256 seed) ?pool"
  have n: "1 \<le> n" and enough: "n \<le> int (length ?pool)"
    and ids: "ids = map gm_id (take (nat n) ?sorted)"
    using assms(1) by (auto simp: draw_panel_def Let_def split: if_splits)
  note facts = pick_members_facts [of ?ok "{}" members]
  have d: "distinct (map gm_id ?sorted)"
  proof -
    have "mset (map gm_id ?sorted) = mset (map gm_id ?pool)" by simp
    from mset_eq_imp_distinct_iff [OF this] show ?thesis using facts(2) by blast
  qed
  have pool: "q \<in> set ?pool" if "q \<in> set members" "?ok q" for q
  proof -
    have "gm_id q \<in> gm_id ` set ?pool" using facts(3) that by auto
    then obtain p where p: "p \<in> set ?pool" "gm_id p = gm_id q" by auto
    then have "p \<in> set members" using facts(1) by auto
    then have "p = q" using p(2) that(1) assms(2) by (auto simp: distinct_map inj_on_def)
    then show ?thesis using p(1) by simp
  qed
  have len: "int (length ids) = n" using n enough by (simp add: ids)
  moreover have "distinct ids" unfolding ids take_map [symmetric] using d by (rule distinct_take)
  moreover have "\<exists>m \<in> set members. gm_id m = i \<and> ?ok m
      \<and> (\<forall>q \<in> set members. ?ok q \<and> gm_id q \<notin> set ids \<longrightarrow> gm_load m \<le> gm_load q)"
    if i: "i \<in> set ids" for i
  proof -
    obtain m where m: "m \<in> set (take (nat n) ?sorted)" "gm_id m = i"
      using i unfolding ids set_map by blast
    then have "m \<in> set ?pool" by (metis in_set_takeD set_sort_less)
    then have mm: "m \<in> set members" "?ok m" using facts(1) by auto
    have "gm_load m \<le> gm_load q" if q: "q \<in> set members" "?ok q" "gm_id q \<notin> set ids" for q
    proof -
      have "q \<in> set ?sorted" using pool [OF q(1,2)] by simp
      moreover have "q \<notin> set (take (nat n) ?sorted)" using q(3) ids by auto
      ultimately have "q \<in> set (drop (nat n) ?sorted)"
        by (metis Un_iff append_take_drop_id set_append)
      moreover have "sorted_wrt (\<lambda>a b. \<not> draw_before sha256 seed b a) (take (nat n) ?sorted @ drop (nat n) ?sorted)"
        using draw_order.sorted_sort [of sha256 seed ?pool] by simp
      ultimately have "\<not> draw_before sha256 seed q m"
        using m(1) by (auto simp only: sorted_wrt_append)
      then show ?thesis by (auto simp: draw_before_def split: if_splits)
    qed
    then show ?thesis using m(2) mm by blast
  qed
  ultimately show ?thesis by blast
qed

definition demo_member :: "int \<Rightarrow> int \<Rightarrow> gov_member" where
  "demo_member i l = \<lparr>gm_id = i, gm_registered = True, gm_active = True, gm_joined_at = Some 0,
     gm_left_at = None, gm_reviewer = True, gm_submitted = False, gm_load = l\<rparr>"

lemma demo_draw:
  "draw_panel (\<lambda>b. b) [demo_member 1 4, demo_member 2 0, demo_member 3 1] (10 ^ 20) {2} 1
     (replicate 32 CHR ''s'') = Inr [3]"
  by code_simp

theorem draw_panel_fair_witness:
  "\<exists>m \<in> set [demo_member 1 4, demo_member 2 0, demo_member 3 1]. gm_id m = 3 \<and> gm_reviewer m"
proof -
  have d: "distinct (map gm_id [demo_member 1 4, demo_member 2 0, demo_member 3 1])"
    by (simp add: demo_member_def)
  show ?thesis using draw_panel_fair [OF demo_draw d] by fastforce
qed

section \<open>Opinions\<close>

lemma digit_inj: "a < 10 \<Longrightarrow> b < 10 \<Longrightarrow> digit a = digit b \<Longrightarrow> a = b"
proof -
  assume "a < 10" "b < 10" "digit a = digit b"
  then have "(of_char (digit a) :: nat) = of_char (digit b)" by simp
  then show "a = b" using \<open>a < 10\<close> \<open>b < 10\<close> by (simp add: digit_def)
qed

lemma digit_other: "d < 10 \<Longrightarrow> digit d \<noteq> CHR '':'' \<and> digit d \<noteq> CHR ''-''"
proof -
  assume "d < 10"
  then have "(of_char (digit d) :: nat) \<in> {48..57}" by (simp add: digit_def)
  then show ?thesis by (auto simp: of_char_def)
qed

declare dec_nat.simps [simp del]

lemma dec_nat_chars: "c \<in> set (dec_nat n) \<Longrightarrow> c \<noteq> CHR '':'' \<and> c \<noteq> CHR ''-''"
  by (induction n rule: dec_nat.induct) (subst (asm) dec_nat.simps, auto simp: digit_other split: if_splits)

lemma dec_nat_nonempty: "dec_nat n \<noteq> []"
  by (subst dec_nat.simps) simp

lemma dec_nat_inj: "dec_nat a = dec_nat b \<Longrightarrow> a = b"
proof (induction a arbitrary: b rule: dec_nat.induct)
  case (1 a)
  have small: "dec_nat n = [digit n]" if "n < 10" for n using that by (subst dec_nat.simps) simp
  have big: "dec_nat n = dec_nat (n div 10) @ [digit (n mod 10)]" if "\<not> n < 10" for n
    using that by (subst dec_nat.simps) simp
  show ?case
  proof (cases "a < 10")
    case True
    show ?thesis
    proof (cases "b < 10")
      case True
      then show ?thesis using 1(2) \<open>a < 10\<close> small digit_inj by simp
    next
      case False
      then have "dec_nat (b div 10) = []" using 1(2) \<open>a < 10\<close> small big by simp
      then show ?thesis using dec_nat_nonempty by blast
    qed
  next
    case False
    show ?thesis
    proof (cases "b < 10")
      case True
      then have "dec_nat (a div 10) @ [digit (a mod 10)] = [digit b]"
        using 1(2) big [OF False] small [OF True] by simp
      then have "dec_nat (a div 10) = []" by (simp add: append_eq_Cons_conv)
      then show ?thesis using dec_nat_nonempty by blast
    next
      case nb: False
      have "dec_nat (a div 10) @ [digit (a mod 10)] = dec_nat (b div 10) @ [digit (b mod 10)]"
        using 1(2) unfolding big [OF False] big [OF nb] .
      then have eq: "dec_nat (a div 10) = dec_nat (b div 10)" "digit (a mod 10) = digit (b mod 10)"
        by simp_all
      have "a div 10 = b div 10" using 1(1) [OF False eq(1)] .
      moreover have "a mod 10 = b mod 10" using eq(2) by (intro digit_inj) simp_all
      ultimately show ?thesis by (metis div_mult_mod_eq)
    qed
  qed
qed

lemma dec_int_chars: "c \<in> set (dec_int i) \<Longrightarrow> c \<noteq> CHR '':''"
  by (auto simp: dec_int_def dest: dec_nat_chars split: if_splits)

lemma dec_int_inj: "dec_int i = dec_int j \<Longrightarrow> i = j"
proof -
  assume eq: "dec_int i = dec_int j"
  have minus: "''-'' @ xs \<noteq> dec_nat n" for xs n
  proof
    assume "''-'' @ xs = dec_nat n"
    then have "CHR ''-'' \<in> set (dec_nat n)" by (metis append_Cons list.set_intros(1))
    then show False using dec_nat_chars by blast
  qed
  consider "i < 0" "j < 0" | "0 \<le> i" "0 \<le> j" | "i < 0" "0 \<le> j" | "0 \<le> i" "j < 0" by linarith
  then show "i = j"
  proof cases
    case 1
    then have "nat (- i) = nat (- j)" using eq dec_nat_inj by (simp add: dec_int_def)
    then show ?thesis using 1 by simp
  next
    case 2
    then have "nat i = nat j" using eq dec_nat_inj by (simp add: dec_int_def)
    then show ?thesis using 2 by simp
  next
    case 3
    then show ?thesis using eq minus [of "dec_nat (nat (- i))" "nat j"] by (simp add: dec_int_def)
  next
    case 4
    then show ?thesis using eq minus [of "dec_nat (nat (- j))" "nat i"] by (simp add: dec_int_def)
  qed
qed

lemma separator_inj:
  "c \<notin> set a \<Longrightarrow> c \<notin> set b \<Longrightarrow> a @ c # x = b @ c # y \<Longrightarrow> a = b \<and> x = y"
  by (induction a arbitrary: b; case_tac b) auto

definition verdict :: "opinion \<Rightarrow> string \<times> int \<times> string \<times> string" where
  "verdict o' = (op_decision o', op_score o', op_category o', op_item o')"

lemma opinion_key_inj:
  assumes "opinion_key a = opinion_key b"
    and "op_decision a \<in> {''accepted'', ''rejected''}" and "op_decision b \<in> {''accepted'', ''rejected''}"
    and "CHR '':'' \<notin> set (op_category a)" and "CHR '':'' \<notin> set (op_category b)"
  shows "verdict a = verdict b"
proof -
  let ?c = "CHR '':''"
  have d: "?c \<notin> set (op_decision o')" if "op_decision o' \<in> {''accepted'', ''rejected''}" for o'
    using that by auto
  have key: "opinion_key o' = op_decision o' @ ?c # dec_int (op_score o') @ ?c # op_category o' @ ?c # op_item o'" for o'
    by (simp add: opinion_key_def)
  have 1: "op_decision a = op_decision b"
    and r1: "dec_int (op_score a) @ ?c # op_category a @ ?c # op_item a
      = dec_int (op_score b) @ ?c # op_category b @ ?c # op_item b"
    using separator_inj [OF d [OF assms(2)] d [OF assms(3)]] assms(1) unfolding key by blast+
  have n: "?c \<notin> set (dec_int i)" for i using dec_int_chars by blast
  have 2: "dec_int (op_score a) = dec_int (op_score b)"
    and r2: "op_category a @ ?c # op_item a = op_category b @ ?c # op_item b"
    using separator_inj [OF n n r1] by blast+
  have "op_category a = op_category b" and "op_item a = op_item b"
    using separator_inj [OF assms(4,5) r2] by blast+
  then show ?thesis using 1 dec_int_inj [OF 2] by (simp add: verdict_def)
qed

definition votes_for :: "string \<Rightarrow> opinion list \<Rightarrow> int" where
  "votes_for k os = int (length (filter (\<lambda>o'. opinion_key o' = k) os))"

lemma find_majority_sound:
  "find_majority seats counts os = Some o' \<Longrightarrow>
   o' \<in> set os \<and> seats div 2 + 1 \<le> go_get 0 counts (opinion_key o') + votes_for (opinion_key o') os"
proof (induction os arbitrary: counts)
  case (Cons p os)
  show ?case
  proof (cases "seats div 2 + 1 \<le> go_get 0 counts (opinion_key p) + 1")
    case True
    then show ?thesis using Cons.prems by (auto simp: Let_def votes_for_def)
  next
    case False
    then have "find_majority seats (AList.update (opinion_key p) (go_get 0 counts (opinion_key p) + 1) counts) os = Some o'"
      using Cons.prems by (simp add: Let_def)
    from Cons.IH [OF this] show ?thesis
      by (auto simp: go_get_update votes_for_def split: if_splits)
  qed
qed simp

lemma find_majority_complete:
  "find_majority seats counts os = None \<Longrightarrow> o' \<in> set os \<Longrightarrow>
   go_get 0 counts (opinion_key o') + votes_for (opinion_key o') os < seats div 2 + 1"
proof (induction os arbitrary: counts o')
  case (Cons p os)
  have less: "\<not> seats div 2 + 1 \<le> go_get 0 counts (opinion_key p) + 1"
    and rest: "find_majority seats (AList.update (opinion_key p) (go_get 0 counts (opinion_key p) + 1) counts) os = None"
    using Cons.prems(1) by (auto simp: Let_def split: if_splits)
  show ?case
  proof (cases "\<exists>q \<in> set os. opinion_key q = opinion_key o'")
    case True
    then obtain q where q: "q \<in> set os" "opinion_key q = opinion_key o'" by blast
    from Cons.IH [OF rest q(1)] show ?thesis
      using q(2) by (auto simp: go_get_update votes_for_def split: if_splits)
  next
    case False
    then have "o' = p" using Cons.prems(2) by auto
    moreover have "filter (\<lambda>r. opinion_key r = opinion_key o') os = []"
      using False by (simp add: filter_empty_conv)
    ultimately show ?thesis using less by (simp add: votes_for_def)
  qed
qed simp

lemma check_opinions:
  assumes "fold_res check_opinion seen os = Inr seen'" and "o' \<in> set os"
  shows "op_decision o' \<in> {''accepted'', ''rejected''}"
proof -
  obtain s s' where "check_opinion s o' = Inr s'" using fold_res_all [OF assms] by blast
  then show ?thesis by (auto split: if_splits)
qed

definition same_verdicts :: "opinion \<Rightarrow> opinion list \<Rightarrow> int" where
  "same_verdicts o' os = int (length (filter (\<lambda>p. verdict p = verdict o') os))"

lemma votes_same:
  assumes "\<forall>p \<in> set os. op_decision p \<in> {''accepted'', ''rejected''} \<and> CHR '':'' \<notin> set (op_category p)"
    and "o' \<in> set os"
  shows "votes_for (opinion_key o') os = same_verdicts o' os"
proof -
  have eq: "opinion_key p = opinion_key o' \<longleftrightarrow> verdict p = verdict o'" if p: "p \<in> set os" for p
  proof
    assume "opinion_key p = opinion_key o'"
    then show "verdict p = verdict o'" by (rule opinion_key_inj) (use assms p in auto)
  next
    assume "verdict p = verdict o'"
    then show "opinion_key p = opinion_key o'" by (simp add: verdict_def opinion_key_def)
  qed
  have "filter (\<lambda>p. opinion_key p = opinion_key o') os = filter (\<lambda>p. verdict p = verdict o') os"
    using eq by (rule filter_cong [OF refl])
  then show ?thesis by (simp add: votes_for_def same_verdicts_def)
qed

text \<open>
  C39. A panel decides by strict majority of identical verdicts: with every seat filled and
  no colon in a category key, the outcome is \<open>decided\<close> exactly when some verdict (decision,
  score, category and item) was given by more than half of the seats, and then the opinion
  returned carries such a verdict.
\<close>

theorem reconcile_opinions_majority:
  assumes "reconcile_opinions os seats maximum = Inr out" and "int (length os) = seats"
    and "\<forall>p \<in> set os. CHR '':'' \<notin> set (op_category p)"
  shows "(go_state out = ''decided'' \<longleftrightarrow> (\<exists>p \<in> set os. seats < 2 * same_verdicts p os))
    \<and> (\<forall>p. go_opinion out = Some p \<longrightarrow> p \<in> set os \<and> seats < 2 * same_verdicts p os)"
proof -
  obtain seen where chk: "fold_res check_opinion {} os = Inr seen"
    using assms(1) by (auto simp: reconcile_opinions_def split: if_splits sum.splits)
  have votes: "votes_for (opinion_key p) os = same_verdicts p os" if "p \<in> set os" for p
    using assms(3) check_opinions [OF chk] that by (intro votes_same) blast+
  have half: "seats div 2 + 1 \<le> v \<longleftrightarrow> seats < 2 * v" for v by presburger
  show ?thesis
  proof (cases "find_majority seats [] os")
    case None
    have no: "\<not> seats < 2 * same_verdicts p os" if "p \<in> set os" for p
      using find_majority_complete [OF None that] votes [OF that] half [of "same_verdicts p os"] by simp
    have "go_state out \<noteq> ''decided'' \<and> go_opinion out = None"
      using assms(1,2) None chk by (auto simp: reconcile_opinions_def split: if_splits)
    then show ?thesis using no by auto
  next
    case (Some p)
    have p: "p \<in> set os" "seats < 2 * same_verdicts p os"
      using find_majority_sound [OF Some] votes half by auto
    have "go_state out = ''decided'' \<and> go_opinion out = Some p"
      using assms(1,2) Some chk by (auto simp: reconcile_opinions_def split: if_splits)
    then show ?thesis using p by auto
  qed
qed

definition demo_opinion :: "int \<Rightarrow> int \<Rightarrow> opinion" where
  "demo_opinion r s = \<lparr>op_reviewer = r, op_decision = ''accepted'', op_score = s,
     op_category = ''moral'', op_item = ''i''\<rparr>"

theorem reconcile_opinions_majority_witness:
  "\<exists>out. reconcile_opinions [demo_opinion 1 2000, demo_opinion 2 1000, demo_opinion 3 2000] 3 5 = Inr out
     \<and> go_state out = ''decided''"
proof -
  let ?os = "[demo_opinion 1 2000, demo_opinion 2 1000, demo_opinion 3 2000]"
  have "\<not> isl (reconcile_opinions ?os 3 5)" by code_simp
  then obtain out where out: "reconcile_opinions ?os 3 5 = Inr out"
    by (cases "reconcile_opinions ?os 3 5") auto
  have "\<exists>p \<in> set ?os. 3 < 2 * same_verdicts p ?os"
    by (simp add: same_verdicts_def verdict_def demo_opinion_def)
  then have "go_state out = ''decided''"
    using reconcile_opinions_majority [OF out] by (simp add: demo_opinion_def)
  then show ?thesis using out by blast
qed

text \<open>
  C40. A case cannot go round in circles: an expansion always asks for strictly more seats,
  never for more than the maximum, and a full panel at its maximum either decides or goes to
  deliberation.
\<close>

theorem reconcile_opinions_progress:
  assumes "reconcile_opinions os seats maximum = Inr out"
  shows "go_state out \<in> {''waiting'', ''decided'', ''expand'', ''deliberating''}
    \<and> (go_state out = ''expand'' \<longrightarrow> seats < go_seats out \<and> go_seats out \<le> maximum)
    \<and> (go_state out \<noteq> ''expand'' \<longrightarrow> go_seats out = seats)
    \<and> (int (length os) = seats \<and> seats = maximum \<longrightarrow> go_state out \<in> {''decided'', ''deliberating''})"
  using assms by (auto simp: reconcile_opinions_def split: if_splits sum.splits option.splits)

theorem reconcile_opinions_progress_witness:
  "\<exists>out. reconcile_opinions [demo_opinion 1 2000, demo_opinion 2 1000] 2 3 = Inr out
     \<and> (go_state out = ''expand'' \<longrightarrow> 2 < go_seats out \<and> go_seats out \<le> 3)"
proof -
  let ?os = "[demo_opinion 1 2000, demo_opinion 2 1000]"
  have "\<not> isl (reconcile_opinions ?os 2 3)" by code_simp
  then obtain out where out: "reconcile_opinions ?os 2 3 = Inr out"
    by (cases "reconcile_opinions ?os 2 3") auto
  then show ?thesis using reconcile_opinions_progress [OF out] by blast
qed

end
