(* ===== verification/Store.thy ===== *)
theory Store
  imports Governance
begin

text \<open>
  The class database the request handlers work on: \<open>db/migrations\<close> and the row types the
  handlers scan.  A table is the list of its rows in insertion order.  Every statement of a
  handler runs inside one transaction bound to one class, so the model holds the rows of one
  class; a handler is a function from a database to an error or to a new database with its
  answer, and an error leaves the database as it was, which is what the rollback does.

  \<open>NUMERIC(10,3)\<close> columns hold thousandths (\<open>points\<close>), read back as a double by
  \<open>points_float\<close> and written by \<open>column_of\<close>; every value the code writes to them is the
  \<open>Float64()\<close> of a \<open>Points\<close>.  \<open>now\<close> is the time of the request.  Row locks, advisory
  locks and the range of numeric columns are not modelled: requests run one after another.

  The lemmas are the laws of filtering, updating and looking up rows, stated as a locale of
  keyed tables that every table of the database instantiates.
\<close>

section \<open>Rows\<close>

datatype sub_status = Draft | Pending | Consensus | Scored | Appealing | Arbitrating | Locked

record rule_snapshot =
  rs_scheme_id :: int
  rs_version :: string
  rs_category_key :: string
  rs_category_name :: string
  rs_item :: item
  rs_captured_at :: time

record force_rejection =
  fr_reason :: string
  fr_previous_score :: "f64 option"
  fr_rejected_at :: time
  fr_actor_name :: string
  fr_self_rejected :: bool
  fr_score :: "f64 option"

record submission =
  sb_id :: int
  sb_student :: int
  sb_scheme_id :: int
  sb_scheme_version :: int
  sb_category :: string
  sb_item :: string
  sb_filed_category :: string
  sb_filed_item :: string
  sb_title :: string
  sb_claim :: claim
  sb_requested :: "points option"
  sb_final :: "points option"
  sb_status :: sub_status
  sb_source :: string
  sb_snapshot :: rule_snapshot
  sb_filed_snapshot :: rule_snapshot
  sb_note :: string
  sb_force_rejection :: "force_rejection option"
  sb_forced_score :: "force_rejection option"
  sb_lock_version :: int
  sb_submitted_at :: "time option"
  sb_scored_at :: "time option"
  sb_locked_at :: "time option"
  sb_updated_at :: time

record app_user =
  us_id :: int
  us_sid :: string
  us_name :: string
  us_role :: string
  us_status :: string
  us_deputy :: bool
  us_registered :: bool     \<comment> \<open>\<open>password_hash IS NOT NULL\<close>\<close>
  us_paused :: bool         \<comment> \<open>\<open>dispatch_paused\<close>\<close>
  us_whitelist :: int
  us_version :: int         \<comment> \<open>\<open>token_version\<close>\<close>

record whitelist_row =
  wl_id :: int
  wl_sid :: string
  wl_name :: string
  wl_role :: string
  wl_active :: bool
  wl_registered_at :: "time option"
  wl_gender :: "string option"

record scheme_row =
  sc_id :: int
  sc_version :: int
  sc_name :: string
  sc_status :: string
  sc_config :: config
  sc_created_by :: int
  sc_published_at :: "time option"

record timeline_row =
  tl_open :: time
  tl_close :: time
  tl_lockdown :: "time option"
  tl_capabilities :: capabilities
  tl_honor_roll :: honor_roll
  tl_college :: "string option"
  tl_enrollment :: "string option"
  tl_year :: string
  tl_publicity_open :: "time option"
  tl_publicity_close :: "time option"

record seal_row =
  se_id :: int
  se_student :: int
  se_source :: string
  se_sealed_at :: time
  se_unsealed_at :: "time option"
  se_unsealed_by :: "int option"
  se_reason :: "string option"

record evidence_row =
  ed_submission :: "int option"
  ed_appeal :: "int option"
  ed_objection :: "int option"
  ed_report :: "int option"
  ed_object :: string
  ed_status :: string
  ed_kind :: string

record submission_reviewer =
  sv_id :: int
  sv_submission :: int
  sv_reviewer :: int
  sv_position :: int
  sv_run :: "int option"
  sv_active :: bool
  sv_assigned_at :: time

record dispatch_run =
  dr_id :: int
  dr_scheme :: int
  dr_seed :: int
  dr_trigger :: string
  dr_assigned :: int
  dr_blocked :: int
  dr_by :: "int option"
  dr_created_at :: time

record review_row =
  rv_id :: int
  rv_submission :: int
  rv_reviewer :: int
  rv_assignment :: int
  rv_decision :: string
  rv_score :: points
  rv_reason :: string
  rv_spent :: int
  rv_superseded_at :: "time option"

record suggestion =
  sg_id :: int
  sg_scheme :: int
  sg_submission :: int
  sg_by :: int
  sg_source :: string
  sg_review :: "int option"
  sg_blind :: "int option"
  sg_from_category :: string
  sg_from_item :: string
  sg_to_category :: string
  sg_to_item :: string
  sg_to_snapshot :: rule_snapshot
  sg_scope :: string
  sg_reason :: string
  sg_status :: string
  sg_submitted_at :: "time option"
  sg_resolved_by :: "int option"
  sg_resolution_reason :: "string option"
  sg_resolved_at :: "time option"

record resolution =
  rl_id :: int
  rl_scheme :: int
  rl_submission :: int
  rl_suggestion :: "int option"
  rl_appeal :: "int option"
  rl_origin :: "string option"
  rl_by :: int
  rl_before :: "string \<times> string \<times> rule_snapshot \<times> points option"
  rl_after :: "string \<times> string \<times> rule_snapshot \<times> points"
  rl_reason :: string

record base_row =
  bs_id :: int
  bs_student :: int
  bs_scheme :: int
  bs_category :: string
  bs_item :: string
  bs_kind :: string
  bs_full :: "points option"
  bs_score :: points
  bs_basis :: string
  bs_recorder :: int

record objection_row =
  ob_id :: int
  ob_kind :: string
  ob_target :: "int option"
  ob_student :: int
  ob_scheme :: int
  ob_category :: string
  ob_item :: string
  ob_current :: "points option"
  ob_proposed :: points
  ob_quantity :: "points option"
  ob_basis :: string
  ob_proposer :: int
  ob_status :: string
  ob_batch :: "string option"
  ob_submitted_at :: "time option"
  ob_origin :: "string option"
  ob_decided_by :: "int option"
  ob_decided_score :: "points option"
  ob_decision_reason :: "string option"
  ob_decided_at :: "time option"

record report_row =
  rp_id :: int
  rp_kind :: string
  rp_student :: int
  rp_scheme :: int
  rp_category :: string
  rp_item :: string
  rp_target :: "int option"
  rp_current :: "points option"
  rp_quantity :: "points option"
  rp_proposed :: points
  rp_basis :: string
  rp_status :: string
  rp_decided_by :: "int option"
  rp_final :: "points option"
  rp_reason :: "string option"
  rp_decided_at :: "time option"

record report_reviewer =
  rw_report :: int
  rw_reviewer :: int
  rw_decision :: "string option"
  rw_score :: "points option"
  rw_reason :: "string option"
  rw_spent :: "int option"
  rw_decided_at :: "time option"

record report_reporter =
  ry_report :: int
  ry_reporter :: int
  ry_created_at :: time

record audit_flag =
  af_submission :: "int option"
  af_status :: string
  af_resolved_by :: "int option"
  af_reason :: "string option"
  af_resolved_at :: "time option"

record audit_batch =
  ab_id :: string
  ab_scheme :: int
  ab_student :: int
  ab_status :: string
  ab_reason :: "string option"
  ab_stale_at :: "time option"

record appeal_row =
  ap_id :: int
  ap_kind :: string
  ap_round :: int
  ap_target_type :: string
  ap_target :: int
  ap_student :: int
  ap_filed_by :: int
  ap_reason :: string
  ap_status :: string
  ap_handler :: "int option"
  ap_original_score :: "points option"
  ap_proposed_score :: "points option"
  ap_resolution_score :: "points option"
  ap_resolution_reason :: "string option"
  ap_previous :: "int option"
  ap_original_category :: "string option"
  ap_original_item :: "string option"
  ap_original_snapshot :: "rule_snapshot option"
  ap_proposed_category :: "string option"
  ap_proposed_item :: "string option"
  ap_resolution_category :: "string option"
  ap_resolution_item :: "string option"
  ap_resolution_snapshot :: "rule_snapshot option"
  ap_origin :: "string option"
  ap_resolved_at :: "time option"

record appeal_reviewer =
  ar_appeal :: int
  ar_reviewer :: int
  ar_position :: int
  ar_decision :: "string option"
  ar_score :: "points option"
  ar_category :: "string option"
  ar_item :: "string option"
  ar_snapshot :: "rule_snapshot option"
  ar_reason :: "string option"
  ar_spent :: "int option"
  ar_decided_at :: "time option"

record governance_row =
  gv_mode :: string
  gv_version :: int
  gv_open :: "time option"
  gv_close :: "time option"
  gv_profile :: "string option"

record member_row =
  mb_user :: int
  mb_joined :: time
  mb_left :: "time option"
  mb_reviewer :: bool

record case_input =                      \<comment> \<open>\<open>governanceCaseInput\<close>\<close>
  gc_version :: string
  gc_target :: int
  gc_score :: "f64 option"
  gc_category :: string
  gc_item :: string
  gc_reason :: string
  gc_decision :: string
  gc_action :: string

record submission_input =
  in_category :: string
  in_item :: string
  in_title :: string
  in_claim :: "claim option"
  in_note :: string

record timeline_input =
  tn_open :: time
  tn_close :: time
  tn_lockdown :: "time option"
  tn_publicity :: "publicity_window option option"   \<comment> \<open>absent, null or a window\<close>
  tn_top :: "int option"
  tn_awards :: "award list option"
  tn_college :: "string option"
  tn_enrollment :: "string option"
  tn_year :: "string option"

record bonus_input =                     \<comment> \<open>\<open>bonusGrantInput\<close> without a shared upload\<close>
  bg_claim :: submission_input
  bg_request :: "string option"          \<comment> \<open>the identifier, when it is a UUID and not the nil one\<close>
  bg_version :: string
  bg_students :: "int list"

record window_input =                    \<comment> \<open>the payload of a timeline proposal\<close>
  wi_open :: "time option"               \<comment> \<open>absent or the zero time\<close>
  wi_close :: "time option"
  wi_lockdown :: "time option option"    \<comment> \<open>absent, null or a time\<close>
  wi_publicity :: "publicity_window option option"
  wi_other :: bool                       \<comment> \<open>it has another key\<close>

datatype action_input =
    MotionAction | ActivateAction | TimelineAction window_input | BonusAction bonus_input

record proposal_input =
  np_request :: "string option"
  np_kind :: string
  np_title :: string
  np_body :: string
  np_action :: action_input

datatype payload =                       \<comment> \<open>the JSON a proposal executes\<close>
    CasePayload case_input | ProfilePayload gov_profile | MotionPayload
  | TimelinePayload timeline_input | BonusPayload bonus_input

record proposal_row =
  pr_id :: int
  pr_author :: int
  pr_created :: "proposal_input option"  \<comment> \<open>the request and the event \<open>proposal.created\<close>\<close>
  pr_kind :: string
  pr_title :: string
  pr_action :: string
  pr_payload :: payload
  pr_target :: "int option"
  pr_subject :: "int option"
  pr_version :: int
  pr_hash :: string
  pr_roster_hash :: string
  pr_roster :: int
  pr_electorate :: int
  pr_required :: int
  pr_status :: string
  pr_opens :: time
  pr_closes :: time
  pr_decided_at :: "time option"
  pr_result :: "string option"
  pr_round :: int

record voter_row =
  vo_proposal :: int
  vo_user :: int
  vo_choice :: "string option"
  vo_opinion :: "case_input option"
  vo_candidate :: "string option"
  vo_cast_at :: "time option"
  vo_locked :: bool
  vo_active :: bool
  vo_replacement :: int

record case_event =                      \<comment> \<open>the event \<open>case.assigned\<close>\<close>
  ce_proposal :: int
  ce_excluded :: "int list"
  ce_seed :: string

record comment_row =
  co_proposal :: int
  co_actor :: int
  co_created_at :: time
  co_kind :: string
  co_body :: string

text \<open>
  What the fingerprint of a case covers (\<open>governanceCaseState\<close>): the row the case is about, its
  files, the published schemes, the submission or the base rows below it, and the evidence
  members added to it.
\<close>

datatype case_target =
    SubmissionCase submission | AppealCase appeal_row | ReportCase report_row
  | ObjectionCase objection_row

record case_facts =
  cx_target :: case_target
  cx_files :: "evidence_row list"
  cx_schemes :: "(int \<times> config) list"
  cx_submission :: "submission option"
  cx_base :: "base_row list"
  cx_supplement :: "string list"

datatype action_facts =
    CaseFacts case_facts
  | TimelineFacts "(int \<times> int \<times> config) list" "timeline_row option" payload
  | GrantFacts "(int \<times> int \<times> config) list" payload
  | MotionFacts payload

record grant_row =                       \<comment> \<open>\<open>bonus_grant_batch\<close>\<close>
  gg_id :: string
  gg_by :: int
  gg_request :: bonus_input
  gg_score :: points

record gpa_row =
  gp_student :: int
  gp_scheme :: int
  gp_score :: points

record override_row =
  ov_id :: int
  ov_scheme :: int
  ov_reason :: string
  ov_created_at :: time
  ov_by :: int

record run_row =
  rn_id :: int
  rn_scheme :: int
  rn_status :: string
  rn_trigger :: string
  rn_by :: int
  rn_config :: config
  rn_created_at :: time
  rn_completed_at :: "time option"

record settlement_row =
  sl_run :: int
  sl_student :: int
  sl_scores :: "(string, f64) gomap"
  sl_total :: points
  sl_class_rank :: int
  sl_major_rank :: int
  sl_honor :: bool
  sl_award :: "string option"

record invalidation =
  iv_run :: int
  iv_reason :: string

record audit_entry =
  au_actor :: "int option"
  au_action :: string
  au_resource :: string
  au_id :: string

datatype outbox_event = OutboxEvent string int   \<comment> \<open>type and the id it is about\<close>

record db =
  db_users :: "app_user list"
  db_schemes :: "scheme_row list"
  db_timeline :: "timeline_row option"
  db_submissions :: "submission list"
  db_evidence :: "evidence_row list"
  db_seals :: "seal_row list"
  db_assigned :: "submission_reviewer list"
  db_reviews :: "review_row list"
  db_suggestions :: "suggestion list"
  db_resolutions :: "resolution list"
  db_base :: "base_row list"
  db_objections :: "objection_row list"
  db_reports :: "report_row list"
  db_report_reviewers :: "report_reviewer list"
  db_reporters :: "report_reporter list"
  db_flags :: "audit_flag list"
  db_batches :: "audit_batch list"
  db_appeals :: "appeal_row list"
  db_appeal_reviewers :: "appeal_reviewer list"
  db_governance :: "governance_row option"  \<comment> \<open>\<open>class_governance\<close>\<close>
  db_members :: "member_row list"
  db_proposals :: "proposal_row list"
  db_voters :: "voter_row list"
  db_cases :: "case_event list"
  db_comments :: "comment_row list"
  db_grants :: "grant_row list"
  db_gpa :: "gpa_row list"
  db_overrides :: "override_row list"
  db_runs :: "run_row list"
  db_settlement :: "settlement_row list"
  db_invalidations :: "invalidation list"
  db_whitelist :: "whitelist_row list"
  db_dispatch_runs :: "dispatch_run list"
  db_auto :: bool                           \<comment> \<open>\<open>class.dispatch_auto\<close>\<close>
  db_archived :: bool                       \<comment> \<open>\<open>class.archived\<close>\<close>
  db_next :: int                            \<comment> \<open>the next identity value\<close>
  db_audit :: "audit_entry list"
  db_outbox :: "outbox_event list"

record actor =
  ac_user :: int
  ac_role :: string
  ac_deputy :: bool
  ac_version :: int          \<comment> \<open>the token's \<open>token_version\<close>\<close>
  ac_grant :: "int option"   \<comment> \<open>the subject a collective decision is executed for\<close>

section \<open>Errors (response.go)\<close>

datatype http_error = HttpError nat string

definition not_found :: http_error where "not_found = HttpError 404 ''not_found''"
definition internal_error :: http_error where "internal_error = HttpError 500 ''internal_error''"
definition force_rejected_error :: http_error where
  "force_rejected_error = HttpError 409 ''submission_force_rejected''"
definition force_scored_error :: http_error where
  "force_scored_error = HttpError 409 ''submission_force_scored''"

type_synonym 'a handler = "(http_error, db \<times> 'a) result"

section \<open>Statements\<close>

definition column_of :: "f64 \<Rightarrow> points" where
  "column_of x = new_points x"

definition where_set :: "('r \<Rightarrow> bool) \<Rightarrow> ('r \<Rightarrow> 'r) \<Rightarrow> 'r list \<Rightarrow> 'r list" where
  \<comment> \<open>\<open>UPDATE t SET f WHERE p\<close>\<close>
  "where_set p f = map (\<lambda>r. if p r then f r else r)"

definition delete_where :: "('r \<Rightarrow> bool) \<Rightarrow> 'r list \<Rightarrow> 'r list" where
  "delete_where p = filter (\<lambda>r. \<not> p r)"

definition count_where :: "('r \<Rightarrow> bool) \<Rightarrow> 'r list \<Rightarrow> nat" where
  "count_where p rows = length (filter p rows)"

definition latest_by :: "('r \<Rightarrow> int) \<Rightarrow> 'r list \<Rightarrow> 'r option" where
  \<comment> \<open>\<open>ORDER BY k DESC LIMIT 1\<close>, the last inserted of equal keys first\<close>
  "latest_by k rows = foldl (\<lambda>b r. case b of None \<Rightarrow> Some r
     | Some x \<Rightarrow> if k r < k x then b else Some r) None rows"

definition append_audit :: "actor \<Rightarrow> string \<Rightarrow> string \<Rightarrow> string \<Rightarrow> db \<Rightarrow> db" where
  "append_audit a action resource rid d =
     d\<lparr>db_audit := db_audit d @ [\<lparr>au_actor = Some (ac_user a), au_action = action,
       au_resource = resource, au_id = rid\<rparr>]\<rparr>"

definition enqueue_event :: "string \<Rightarrow> int \<Rightarrow> db \<Rightarrow> db" where
  "enqueue_event kind i d = d\<lparr>db_outbox := db_outbox d @ [OutboxEvent kind i]\<rparr>"

subsection \<open>The constraints and triggers of the submission tables\<close>

definition sub_row_check :: "submission \<Rightarrow> http_error option" where
  \<comment> \<open>\<open>submission_force_rejection_score_check\<close> and \<open>submission_forced_score_check\<close>\<close>
  "sub_row_check s =
     (if sb_force_rejection s \<noteq> None
         \<and> \<not> (sb_final s = Some 0 \<and> sb_status s \<in> {Scored, Locked})
      then Some force_rejected_error
      else (case sb_forced_score s of
          None \<Rightarrow> None
        | Some f \<Rightarrow>
            if fr_score f \<noteq> None \<and> sb_final s \<noteq> None \<and> sb_status s \<in> {Scored, Locked}
               \<and> (sb_force_rejection s \<noteq> None
                  \<or> map_option column_of (fr_score f) = sb_final s)
            then None else Some force_scored_error))"

definition sub_frozen :: "submission \<Rightarrow> submission \<Rightarrow> bool" where
  \<comment> \<open>the columns both \<open>BEFORE UPDATE\<close> triggers protect\<close>
  "sub_frozen old s \<longleftrightarrow> sb_category s = sb_category old \<and> sb_item s = sb_item old
     \<and> sb_snapshot s = sb_snapshot old \<and> sb_student s = sb_student old
     \<and> sb_scheme_id s = sb_scheme_id old"

definition sub_update_check :: "submission \<Rightarrow> submission \<Rightarrow> http_error option" where
  "sub_update_check old s =
     (if sb_force_rejection old \<noteq> None
         \<and> \<not> (sb_force_rejection s = sb_force_rejection old \<and> sub_frozen old s)
      then Some force_rejected_error
      else if sb_forced_score old \<noteq> None \<and> \<not> (sb_forced_score s \<noteq> None \<and> sub_frozen old s)
      then Some force_scored_error
      else sub_row_check s)"

definition update_submissions ::
    "(submission \<Rightarrow> bool) \<Rightarrow> (submission \<Rightarrow> submission) \<Rightarrow> db \<Rightarrow> (http_error, db) result" where
  \<comment> \<open>an \<open>UPDATE\<close> fails as a whole when one row breaks a constraint\<close>
  "update_submissions p f d =
    (case first_error (\<lambda>s. if p s then sub_update_check s (f s) else None) (db_submissions d) of
       Some e \<Rightarrow> Inl e
     | None \<Rightarrow> Inr (d\<lparr>db_submissions := where_set p f (db_submissions d)\<rparr>))"

definition find_submission :: "db \<Rightarrow> int \<Rightarrow> submission option" where
  "find_submission d i = find (\<lambda>s. sb_id s = i) (db_submissions d)"

definition workflow_check :: "db \<Rightarrow> int \<Rightarrow> http_error option" where
  \<comment> \<open>\<open>prevent_force_rejected_workflow\<close> for a row that opens work on a submission\<close>
  "workflow_check d i = (case find_submission d i of
      None \<Rightarrow> None
    | Some s \<Rightarrow> if sb_force_rejection s \<noteq> None then Some force_rejected_error
               else if sb_forced_score s \<noteq> None then Some force_scored_error else None)"

subsection \<open>The mode of the class (governance_handlers.go)\<close>

definition governance_mode :: "db \<Rightarrow> string" where
  \<comment> \<open>\<open>loadGovernance\<close>: a class without a row is centralized\<close>
  "governance_mode d = (case db_governance d of None \<Rightarrow> ''centralized'' | Some g \<Rightarrow> gv_mode g)"

definition governance_profile :: "db \<Rightarrow> string option" where
  "governance_profile d = Option.bind (db_governance d) gv_profile"

section \<open>Laws of tables\<close>

named_theorems table_simps \<open>how statements act on the rows of a table\<close>

lemma length_where_set [table_simps]: "length (where_set p f rows) = length rows"
  by (simp add: where_set_def)

lemma set_where_set: "set (where_set p f rows) = (\<lambda>r. if p r then f r else r) ` set rows"
  by (simp add: where_set_def)

lemma where_set_keys:
  assumes "\<And>r. k (f r) = k r"
  shows "map k (where_set p f rows) = map k rows"
  using assms by (simp add: where_set_def)

lemma where_set_none: "\<forall>r \<in> set rows. \<not> p r \<Longrightarrow> where_set p f rows = rows"
  by (simp add: where_set_def map_idI)

lemma find_where_set:
  assumes "\<And>r. k (f r) = k r"
  shows "find (\<lambda>r. k r = i) (where_set p f rows)
    = map_option (\<lambda>r. if p r then f r else r) (find (\<lambda>r. k r = i) rows)"
  by (induction rows) (auto simp: where_set_def assms)

lemma set_delete_where [table_simps]: "set (delete_where p rows) = {r \<in> set rows. \<not> p r}"
  by (auto simp: delete_where_def)

lemma find_append_fresh:
  "i \<notin> k ` set rows \<Longrightarrow> find (\<lambda>r. k r = i) (rows @ [x]) = (if k x = i then Some x else None)"
  by (induction rows) auto

lemma find_Some_D:
  assumes "find p rows = Some r"
  shows "r \<in> set rows" and "p r"
  using assms by (induction rows) (auto split: if_splits)

lemma find_None_D: "find p rows = None \<Longrightarrow> r \<in> set rows \<Longrightarrow> \<not> p r"
  by (auto simp: find_None_iff)

lemma find_key:
  assumes "distinct (map k rows)" and "r \<in> set rows"
  shows "find (\<lambda>x. k x = k r) rows = Some r"
  using assms by (induction rows) force+

text \<open>A table with an identity column, and the statements that keep the column.\<close>

locale keyed_table =
  fixes key :: "'r \<Rightarrow> int" and set_row :: "'r \<Rightarrow> 'r"
  assumes keeps_key: "key (set_row r) = key r"
begin

lemma keys_update: "map key (where_set p set_row rows) = map key rows"
  by (rule where_set_keys) (rule keeps_key)

lemma find_update:
  "find (\<lambda>r. key r = i) (where_set p set_row rows)
    = map_option (\<lambda>r. if p r then set_row r else r) (find (\<lambda>r. key r = i) rows)"
  by (rule find_where_set) (rule keeps_key)

lemma distinct_update:
  "distinct (map key rows) \<Longrightarrow> distinct (map key (where_set p set_row rows))"
  by (simp add: keys_update)

lemma update_one:
  assumes "distinct (map key rows)" and "r \<in> set rows"
  shows "find (\<lambda>x. key x = key r) (where_set (\<lambda>x. key x = key r) set_row rows) = Some (set_row r)"
  using assms by (simp add: find_update find_key)

lemma update_other:
  assumes "i \<noteq> j"
  shows "find (\<lambda>x. key x = j) (where_set (\<lambda>x. key x = i) set_row rows) = find (\<lambda>x. key x = j) rows"
proof -
  have "key r \<noteq> i" if "find (\<lambda>x. key x = j) rows = Some r" for r
    using find_Some_D(2) [OF that] assms by simp
  then show ?thesis by (cases "find (\<lambda>x. key x = j) rows") (auto simp: find_update)
qed

lemma the_row:
  "r \<in> set (where_set (\<lambda>x. key x = i) set_row rows) \<Longrightarrow> key r = i \<Longrightarrow> \<exists>q \<in> set rows. key q = i \<and> r = set_row q"
  by (auto simp: where_set_def keeps_key)

lemma other_rows:
  "filter (\<lambda>x. key x \<noteq> i) (where_set (\<lambda>x. key x = i) set_row rows) = filter (\<lambda>x. key x \<noteq> i) rows"
  by (induction rows) (auto simp: where_set_def keeps_key)

end

lemma update_submissions_Inr:
  assumes "update_submissions p f d = Inr d'"
  shows "d' = d\<lparr>db_submissions := where_set p f (db_submissions d)\<rparr>"
    and "s \<in> set (db_submissions d) \<Longrightarrow> p s \<Longrightarrow> sub_update_check s (f s) = None"
  using assms by (auto simp: update_submissions_def split: option.splits if_splits)

section \<open>What holds of every submission row\<close>

definition sub_ok :: "submission \<Rightarrow> bool" where
  \<comment> \<open>the score goes with the status, and the corrections are consistent\<close>
  "sub_ok s \<longleftrightarrow> sub_row_check s = None
     \<and> (sb_status s \<in> {Scored, Locked, Appealing} \<longrightarrow> sb_final s \<noteq> None)
     \<and> (sb_status s \<in> {Draft, Pending, Consensus} \<longrightarrow> sb_final s = None)
     \<and> (sb_status s = Draft \<longrightarrow> sb_submitted_at s = None)"

definition submissions_ok :: "db \<Rightarrow> bool" where
  "submissions_ok d \<longleftrightarrow> list_all sub_ok (db_submissions d) \<and> distinct (map sb_id (db_submissions d))
     \<and> list_all (\<lambda>s. sb_id s < db_next d) (db_submissions d)"

lemma submissions_okD:
  assumes "submissions_ok d"
  shows "s \<in> set (db_submissions d) \<Longrightarrow> sub_ok s"
    and "distinct (map sb_id (db_submissions d))"
    and "s \<in> set (db_submissions d) \<Longrightarrow> sb_id s < db_next d"
  using assms by (auto simp: submissions_ok_def list_all_iff)

lemma update_keeps_submissions_ok:
  assumes "submissions_ok d" and "update_submissions p f d = Inr d'"
    and ok: "\<And>s. sub_ok s \<Longrightarrow> p s \<Longrightarrow> sub_row_check (f s) = None \<Longrightarrow> sub_ok (f s)"
    and id: "\<And>s. sb_id (f s) = sb_id s"
  shows "submissions_ok d'"
proof -
  note d' = update_submissions_Inr(1) [OF assms(2)]
  have "sub_ok (if p s then f s else s)" if s: "s \<in> set (db_submissions d)" for s
  proof (cases "p s")
    case True
    have "sub_row_check (f s) = None"
      using update_submissions_Inr(2) [OF assms(2) s True]
      by (simp add: sub_update_check_def split: if_splits)
    then show ?thesis using ok submissions_okD(1) [OF assms(1) s] True by simp
  qed (simp add: submissions_okD(1) [OF assms(1) s])
  then have "list_all sub_ok (db_submissions d')"
    by (auto simp: d' list_all_iff set_where_set simp del: if_image_distrib split: if_splits)
  moreover have "map sb_id (db_submissions d') = map sb_id (db_submissions d)"
    unfolding d' by (simp add: where_set_keys [where k = sb_id, OF id])
  moreover have "list_all (\<lambda>s. sb_id s < db_next d') (db_submissions d')"
    using submissions_okD(3) [OF assms(1)]
    by (auto simp: d' list_all_iff set_where_set id)
  ultimately show ?thesis using submissions_okD(2) [OF assms(1)]
    by (simp add: submissions_ok_def)
qed

end
