(* ===== verification/Timeline.thy ===== *)
theory Timeline
  imports Store
begin

text \<open>
  The class's runtime envelope and the published scheme:
  \<open>internal/classtimeline/classtimeline.go\<close>, the reading half of \<open>api/scheme_handlers.go\<close>
  and the capability checks of \<open>api/submission_handlers.go\<close>.  A \<open>timestamptz\<close> column
  holds microseconds, so an instant written and read back loses its last three digits
  (\<open>db_time\<close>).

  What a request gets from outside the program is its environment, a parameter of the
  handlers: the time; the academic year a new row starts with (a column default) and the start
  of the database's day; the rounding of an unrounded double to \<open>NUMERIC(10,3)\<close>, which the
  driver and the database do; SHA-256, and the digests \<open>mcpDigest\<close> and \<open>md5\<close> give of the JSON
  of a case, of a candidate decision and of a roster; fresh random seeds and batch ids.

  The lemmas show that saving and loading an envelope gives it back in its stored form, that
  loading creates a row only once, and which requests the window and the switches let through.
\<close>

section \<open>The envelope (classtimeline.go)\<close>

record env =
  en_now :: time
  en_year :: string
  en_today :: time
  en_numeric :: "f64 \<Rightarrow> points"
  en_sha256 :: "bytes \<Rightarrow> bytes"
  en_digest :: "action_facts \<Rightarrow> string"
  en_candidate_digest :: "case_input \<Rightarrow> string"
  en_roster_digest :: "int list \<Rightarrow> string"
  en_seed :: string
  en_uuid :: string
  en_random :: bytes
  en_taken :: "string \<Rightarrow> bool"

record timeline =
  ti_window :: window
  ti_capabilities :: capabilities
  ti_honor_roll :: honor_roll
  ti_college :: string
  ti_enrollment :: string
  ti_year :: string

definition db_time :: "time \<Rightarrow> time" where
  "db_time t = t div 1000 * 1000"

definition publicity_of :: "time option \<Rightarrow> time option \<Rightarrow> publicity_window option" where
  "publicity_of o_open o_close = (case (o_open, o_close) of
      (Some a, Some b) \<Rightarrow> Some \<lparr>pw_open = a, pw_close = b\<rparr> | _ \<Rightarrow> None)"

definition timeline_of_row :: "timeline_row \<Rightarrow> timeline" where
  "timeline_of_row r =
    \<lparr>ti_window = \<lparr>w_open = tl_open r, w_close = tl_close r, w_lockdown = tl_lockdown r,
        w_publicity = publicity_of (tl_publicity_open r) (tl_publicity_close r)\<rparr>,
     ti_capabilities = tl_capabilities r, ti_honor_roll = tl_honor_roll r,
     ti_college = (case tl_college r of None \<Rightarrow> [] | Some x \<Rightarrow> x),
     ti_enrollment = (case tl_enrollment r of None \<Rightarrow> [] | Some x \<Rightarrow> x),
     ti_year = tl_year r\<rparr>"

definition default_timeline_row :: "env \<Rightarrow> timeline_row" where
  \<comment> \<open>the row the first read inserts\<close>
  "default_timeline_row e =
    \<lparr>tl_open = db_time (w_open default_window), tl_close = db_time (w_close default_window),
     tl_lockdown = None, tl_capabilities = default_capabilities,
     tl_honor_roll = default_honor_roll, tl_college = None, tl_enrollment = None,
     tl_year = en_year e, tl_publicity_open = None, tl_publicity_close = None\<rparr>"

definition timeline_load :: "env \<Rightarrow> db \<Rightarrow> db \<times> timeline" where
  "timeline_load e d = (case db_timeline d of
      Some r \<Rightarrow> (d, timeline_of_row r)
    | None \<Rightarrow> (let r = default_timeline_row e in (d\<lparr>db_timeline := Some r\<rparr>, timeline_of_row r)))"

definition timeline_lockdown :: "db \<Rightarrow> time option" where
  "timeline_lockdown d = (case db_timeline d of None \<Rightarrow> None | Some r \<Rightarrow> tl_lockdown r)"

definition null_if_empty :: "string \<Rightarrow> string option" where
  "null_if_empty s = (if s = [] then None else Some s)"

definition row_of_timeline :: "timeline \<Rightarrow> timeline_row" where
  "row_of_timeline t =
    \<lparr>tl_open = db_time (w_open (ti_window t)), tl_close = db_time (w_close (ti_window t)),
     tl_lockdown = map_option db_time (w_lockdown (ti_window t)),
     tl_capabilities = ti_capabilities t, tl_honor_roll = ti_honor_roll t,
     tl_college = null_if_empty (trim_space (ti_college t)),
     tl_enrollment = null_if_empty (trim_space (ti_enrollment t)), tl_year = ti_year t,
     tl_publicity_open = map_option (\<lambda>p. db_time (pw_open p)) (w_publicity (ti_window t)),
     tl_publicity_close = map_option (\<lambda>p. db_time (pw_close p)) (w_publicity (ti_window t))\<rparr>"

definition timeline_row_check :: "timeline_row \<Rightarrow> bool" where
  \<comment> \<open>the \<open>CHECK\<close> constraints of \<open>class_timeline\<close>\<close>
  "timeline_row_check r \<longleftrightarrow> tl_open r < tl_close r
     \<and> (case tl_lockdown r of None \<Rightarrow> True | Some l \<Rightarrow> tl_close r \<le> l)
     \<and> (case (tl_publicity_open r, tl_publicity_close r) of
          (None, None) \<Rightarrow> True | (Some a, Some b) \<Rightarrow> a < b | _ \<Rightarrow> False)"

definition timeline_save :: "timeline \<Rightarrow> db \<Rightarrow> (http_error, db) result" where
  "timeline_save t d = (let r = row_of_timeline t in
     if timeline_row_check r then Inr (d\<lparr>db_timeline := Some r\<rparr>) else Inl internal_error)"

definition timeline_apply :: "timeline \<Rightarrow> config \<Rightarrow> config" where
  "timeline_apply t c = c\<lparr>cf_window := ti_window t, cf_capabilities := ti_capabilities t,
     cf_honor_roll := ti_honor_roll t\<rparr>"

section \<open>The published scheme (scheme_handlers.go)\<close>

record stored_scheme =
  ss_id :: int
  ss_version :: int
  ss_name :: string
  ss_config :: config
  ss_published_at :: "time option"

datatype load_error = NoRows | LoadFailed

definition read_current_scheme :: "env \<Rightarrow> db \<Rightarrow> (load_error, db \<times> stored_scheme) result" where
  "read_current_scheme e d =
    (case latest_by sc_version (filter (\<lambda>s. sc_status s = ''published'') (db_schemes d)) of
       None \<Rightarrow> Inl NoRows
     | Some r \<Rightarrow> (let (d', t) = timeline_load e d in
         Inr (d', \<lparr>ss_id = sc_id r, ss_version = sc_version r, ss_name = sc_name r,
           ss_config = timeline_apply t (sc_config r), ss_published_at = sc_published_at r\<rparr>)))"

definition role_rank :: "string \<Rightarrow> int" where
  "role_rank r = (if r = ''class_admin'' then 0 else if r = ''group'' then 1 else 2)"

definition creator_before :: "app_user \<Rightarrow> app_user \<Rightarrow> bool" where
  "creator_before a b \<longleftrightarrow> role_rank (us_role a) < role_rank (us_role b)
     \<or> role_rank (us_role a) = role_rank (us_role b) \<and> us_id a < us_id b"

definition next_scheme_version :: "db \<Rightarrow> int" where
  "next_scheme_version d = foldl max 0 (map sc_version (db_schemes d)) + 1"

definition ensure_default_scheme :: "env \<Rightarrow> db \<Rightarrow> (load_error, db) result" where
  "ensure_default_scheme e d =
    (case sort_less creator_before (filter (\<lambda>u. us_status u = ''active'') (db_users d)) of
       [] \<Rightarrow> Inl NoRows
     | u # _ \<Rightarrow> (let v = next_scheme_version d;
                   c = default_self_report_config (''v'' @ dec_int v) in
         if validate id id c \<noteq> None then Inl LoadFailed
         else Inr (d\<lparr>db_schemes := db_schemes d @ [\<lparr>sc_id = db_next d, sc_version = v,
                sc_name = cf_scheme_name c, sc_status = ''published'', sc_config = c,
                sc_created_by = us_id u, sc_published_at = Some (en_now e)\<rparr>],
              db_next := db_next d + 1\<rparr>)))"

definition load_current_scheme :: "env \<Rightarrow> db \<Rightarrow> (load_error, db \<times> stored_scheme) result" where
  "load_current_scheme e d = (case read_current_scheme e d of
      Inl NoRows \<Rightarrow> (case ensure_default_scheme e d of
          Inl x \<Rightarrow> Inl x
        | Inr d' \<Rightarrow> read_current_scheme e d')
    | r \<Rightarrow> r)"

definition load_scheme_by_id :: "db \<Rightarrow> int \<Rightarrow> scheme_row option" where
  "load_scheme_by_id d i =
     find (\<lambda>s. sc_id s = i \<and> sc_status s = ''published'') (db_schemes d)"

section \<open>What the window and the switches allow (submission_handlers.go)\<close>

datatype capability_error = SystemLocked | OutsideWindow | SwitchedOff string

definition capability_on :: "capabilities \<Rightarrow> string \<Rightarrow> bool" where
  "capability_on c key =
    (if key = ''submit'' then cap_submit c else if key = ''edit'' then cap_edit c
     else if key = ''appeal'' then cap_appeal c else if key = ''review'' then cap_review c
     else if key = ''arbitrate'' then cap_arbitrate c
     else if key = ''studentReport'' then cap_student_report c else False)"

definition ensure_capability :: "config \<Rightarrow> string \<Rightarrow> time \<Rightarrow> capability_error option" where
  "ensure_capability c key now =
    (if locked_at (cf_window c) now then Some SystemLocked
     else (let continues = key = ''review'' \<or> key = ''appeal'' \<or> key = ''arbitrate'' in
       if now < w_open (cf_window c) \<or> \<not> continues \<and> \<not> now < w_close (cf_window c)
       then Some OutsideWindow
       else if \<not> capability_on (cf_capabilities c) key then Some (SwitchedOff key) else None))"

definition ensure_not_sealed :: "db \<Rightarrow> int \<Rightarrow> bool" where
  \<comment> \<open>true when the student has no active seal\<close>
  "ensure_not_sealed d i \<longleftrightarrow>
     \<not> list_ex (\<lambda>s. se_student s = i \<and> se_unsealed_at s = None) (db_seals d)"

section \<open>Lemmas\<close>

lemma db_time_idem [simp]: "db_time (db_time t) = db_time t"
  by (simp add: db_time_def)

lemma db_time_mono: "s \<le> t \<Longrightarrow> db_time s \<le> db_time t"
  by (simp add: db_time_def zdiv_mono1)

lemma timeline_load_twice:
  "timeline_load e' (fst (timeline_load e d)) = timeline_load e d"
  by (simp add: timeline_load_def Let_def split: option.split)

lemma timeline_load_db:
  "fst (timeline_load e d) = d\<lparr>db_timeline := db_timeline (fst (timeline_load e d))\<rparr>"
  by (simp add: timeline_load_def Let_def split: option.split)

lemma read_current_scheme_db:
  assumes "read_current_scheme e d = Inr (d', c)"
  shows "d' = d\<lparr>db_timeline := db_timeline d'\<rparr>"
  using assms timeline_load_db [of e d]
  by (auto simp: read_current_scheme_def split: option.splits prod.splits)

lemma load_current_scheme_db:
  assumes "load_current_scheme e d = Inr (d', c)"
  shows "d' = d\<lparr>db_timeline := db_timeline d', db_schemes := db_schemes d', db_next := db_next d'\<rparr>"
    and "db_next d \<le> db_next d'"
proof -
  have "d' = d\<lparr>db_timeline := db_timeline d', db_schemes := db_schemes d', db_next := db_next d'\<rparr>
      \<and> db_next d \<le> db_next d'"
  proof (cases "read_current_scheme e d")
    case (Inl x)
    with assms obtain d1 where d1: "ensure_default_scheme e d = Inr d1"
      and r: "read_current_scheme e d1 = Inr (d', c)"
      by (auto simp: load_current_scheme_def split: load_error.splits sum.splits)
    have a: "d1 = d\<lparr>db_schemes := db_schemes d1, db_next := db_next d1\<rparr> \<and> db_next d \<le> db_next d1"
      using d1 by (auto simp: ensure_default_scheme_def Let_def split: list.splits if_splits)
    have b: "d' = d1\<lparr>db_timeline := db_timeline d'\<rparr>" using read_current_scheme_db [OF r] .
    obtain t s n where d1': "d1 = d\<lparr>db_schemes := s, db_next := n\<rparr>" and n: "db_next d \<le> n"
      using a by metis
    have "d' = d\<lparr>db_schemes := s, db_next := n, db_timeline := db_timeline d'\<rparr>"
      using b unfolding d1' .
    then obtain t where d': "d' = d\<lparr>db_schemes := s, db_next := n, db_timeline := t\<rparr>" by metis
    show ?thesis unfolding d' using n by simp
  next
    case (Inr x)
    with assms have r: "read_current_scheme e d = Inr (d', c)"
      by (simp add: load_current_scheme_def)
    then obtain t where d': "d' = d\<lparr>db_timeline := t\<rparr>"
      using read_current_scheme_db [OF r] by metis
    show ?thesis unfolding d' by simp
  qed
  then show "d' = d\<lparr>db_timeline := db_timeline d', db_schemes := db_schemes d', db_next := db_next d'\<rparr>"
    and "db_next d \<le> db_next d'" by auto
qed

lemma load_current_scheme_keeps:
  assumes "load_current_scheme e d = Inr (d', c)"
  shows "db_submissions d' = db_submissions d" "db_reviews d' = db_reviews d"
    "db_seals d' = db_seals d" "db_appeals d' = db_appeals d" "db_users d' = db_users d"
    "db_suggestions d' = db_suggestions d" "db_assigned d' = db_assigned d"
    "db_runs d' = db_runs d" "db_invalidations d' = db_invalidations d"
    "db_appeal_reviewers d' = db_appeal_reviewers d" "db_base d' = db_base d"
    "db_objections d' = db_objections d" "db_reports d' = db_reports d"
    "db_gpa d' = db_gpa d" "db_overrides d' = db_overrides d" "db_governance d' = db_governance d"
    "db_proposals d' = db_proposals d" "db_evidence d' = db_evidence d"
    "db_settlement d' = db_settlement d" "db_audit d' = db_audit d" "db_outbox d' = db_outbox d"
    "db_batches d' = db_batches d" "db_resolutions d' = db_resolutions d"
    "db_report_reviewers d' = db_report_reviewers d" "db_reporters d' = db_reporters d"
    "db_members d' = db_members d" "db_voters d' = db_voters d" "db_cases d' = db_cases d"
    "db_comments d' = db_comments d" "db_grants d' = db_grants d"
  by (subst load_current_scheme_db(1) [OF assms], simp)+

end
