(* ===== verification/BaseClaims.thy ===== *)
theory BaseClaims
  imports Governance
begin

text \<open>
  Base items a student claims with material: \<open>StudentClaimBaseItem\<close> and
  \<open>StudentClaimBaseNote\<close> of \<open>internal/scheme/fallback.go\<close>.  The note prints its numbers
  with \<open>%.3g\<close> of Go's \<open>fmt\<close>: three significant digits, half to even, no trailing zeros,
  an exponent below \<open>1e-4\<close> and from the precision on.
\<close>

section \<open>Three significant digits\<close>

primrec shift_up :: "nat \<Rightarrow> int \<Rightarrow> rat \<Rightarrow> int" where
  "shift_up 0 e x = e"
| "shift_up (Suc n) e x = (if 1 \<le> x then e else shift_up n (e - 1) (x * 10))"

definition decimal_exponent :: "rat \<Rightarrow> int" where
  \<comment> \<open>the \<open>e\<close> with \<open>10 ^ e \<le> x < 10 ^ (e + 1)\<close>; the smallest double is above \<open>10 ^ -324\<close>\<close>
  "decimal_exponent x = (if 1 \<le> x then int (length (dec_nat (nat \<lfloor>x\<rfloor>))) - 1 else shift_up 400 0 x)"

definition drop_zeros :: "string \<Rightarrow> string" where
  "drop_zeros s = rev (dropWhile (\<lambda>c. c = CHR ''0'') (rev s))"

definition three_digits :: "rat \<Rightarrow> string \<times> int" where
  \<comment> \<open>the digits and the position of the decimal point\<close>
  "three_digits x = (let e = decimal_exponent x; n = round_even (x / 10 powi (e - 2)) in
     if n = 1000 then (''1'', e + 2) else (drop_zeros (dec_nat (nat n)), e + 1))"

definition two_digit :: "nat \<Rightarrow> string" where
  "two_digit n = (if n < 10 then CHR ''0'' # dec_nat n else dec_nat n)"

definition fixed_form :: "string \<Rightarrow> int \<Rightarrow> string" where
  "fixed_form ds p =
    (let whole = (if 0 < p then take (nat p) ds @ replicate (nat p - length ds) (CHR ''0'')
                  else ''0'');
         part = (if p < 0 then replicate (nat (- p)) (CHR ''0'') else []) @ drop (nat p) ds in
     if int (length ds) - p \<le> 0 then whole else whole @ ''.'' @ part)"

definition exp_form :: "string \<Rightarrow> int \<Rightarrow> string" where
  "exp_form ds e = take 1 ds @ (if length ds < 2 then [] else ''.'' @ drop 1 ds) @ ''e''
     @ (if e < 0 then ''-'' else ''+'') @ two_digit (nat \<bar>e\<bar>)"

definition fmt_pos :: "rat \<Rightarrow> string" where
  "fmt_pos x = (let (ds, p) = three_digits x;
       eprec = (if length ds < 3 \<and> p \<le> int (length ds) then int (length ds) else 3) in
     if p - 1 < - 4 \<or> eprec \<le> p - 1 then exp_form ds (p - 1) else fixed_form ds p)"

fun fmt_g3 :: "f64 \<Rightarrow> string" where
  "fmt_g3 NaN = ''NaN''"
| "fmt_g3 (Inf neg) = (if neg then ''-Inf'' else ''+Inf'')"
| "fmt_g3 (Fin q) = (if q = 0 then ''0'' else if q < 0 then CHR ''-'' # fmt_pos (- q) else fmt_pos q)"

section \<open>Items generated from base items\<close>

definition student_claim_base_note :: "base_item \<Rightarrow> string" where
  "student_claim_base_note b = (case bi_student_claim b of
      None \<Rightarrow> trim_space (bi_note b)
    | Some c \<Rightarrow>
       (let generated =
          [CHR 0x2D, CHR 0x20, CHR 0xE5, CHR 0xAE, CHR 0x8C, CHR 0xE6, CHR 0x95, CHR 0xB4,
           CHR 0xE8, CHR 0xBE, CHR 0xBE, CHR 0xE6, CHR 0xA0, CHR 0x87, CHR 0xEF,
           CHR 0xBC, CHR 0x9A, CHR 0xE8, CHR 0x87, CHR 0xB3, CHR 0xE5, CHR 0xB0,
           CHR 0x91, CHR 0x20] @ fmt_g3 (bc_minimum c) @ '' '' @ bc_unit c @
          [CHR 0xE5, CHR 0x8F, CHR 0xAF, CHR 0xE5, CHR 0xBE, CHR 0x97, CHR 0x20] @ fmt_g3 (bi_full b) @
          [CHR 0x20, CHR 0xE5, CHR 0x88, CHR 0x86, CHR 0xE3, CHR 0x80, CHR 0x82, CHR 0x0A,
           CHR 0x2D, CHR 0x20, CHR 0xE6, CHR 0x9C, CHR 0xAA, CHR 0xE5, CHR 0xAE,
           CHR 0x8C, CHR 0xE5, CHR 0x85, CHR 0xA8, CHR 0xE8, CHR 0xBE, CHR 0xBE,
           CHR 0xE6, CHR 0xA0, CHR 0x87, CHR 0xE6, CHR 0x97, CHR 0xB6, CHR 0xEF,
           CHR 0xBC, CHR 0x8C, CHR 0xE4, CHR 0xBB, CHR 0x8D, CHR 0xE5, CHR 0x8F,
           CHR 0xAF, CHR 0xE4, CHR 0xBE, CHR 0x9D, CHR 0xE6, CHR 0x8D, CHR 0xAE,
           CHR 0xE5, CHR 0xB7, CHR 0xB2, CHR 0xE6, CHR 0x9C, CHR 0x89, CHR 0xE6,
           CHR 0x9D, CHR 0x90, CHR 0xE6, CHR 0x96, CHR 0x99, CHR 0xE5, CHR 0x9C,
           CHR 0xA8, CHR 0x20, CHR 0x30, CHR 0xE2, CHR 0x80, CHR 0x94] @
          fmt_g3 (bi_full b) @
          [CHR 0x20, CHR 0xE5, CHR 0x88, CHR 0x86, CHR 0xE5, CHR 0x86, CHR 0x85, CHR 0xE8,
           CHR 0x87, CHR 0xAA, CHR 0xE6, CHR 0x8A, CHR 0xA5, CHR 0xEF, CHR 0xBC,
           CHR 0x8C, CHR 0xE6, CHR 0x9C, CHR 0x80, CHR 0xE7, CHR 0xBB, CHR 0x88,
           CHR 0xE7, CHR 0x94, CHR 0xB1, CHR 0xE5, CHR 0xAE, CHR 0xA1, CHR 0xE6,
           CHR 0xA0, CHR 0xB8, CHR 0xE4, CHR 0xBA, CHR 0xBA, CHR 0xE8, CHR 0xAE,
           CHR 0xA4, CHR 0xE5, CHR 0xAE, CHR 0x9A, CHR 0xE3, CHR 0x80, CHR 0x82];
          extra = trim_space (bi_note b) in
        if extra = [] then generated else generated @ [CHR 0x0A, CHR 0x0A] @ extra))"

definition student_claim_base_item :: "base_item \<Rightarrow> item option" where
  "student_claim_base_item b = (case bi_student_claim b of
      None \<Rightarrow> None
    | Some c \<Rightarrow> Some \<lparr>it_key = bi_key b, it_name = bi_name b,
        it_score_rule = free_rule (Fin 0) (bi_full b), it_exclusive_group = [],
        it_cap_group = None, it_evidence = bc_evidence c,
        it_note = student_claim_base_note b, it_activities = []\<rparr>)"

lemma fmt_g3_samples:
  "fmt_g3 (Fin 2) = ''2''" "fmt_g3 (Fin 40) = ''40''" "fmt_g3 (Fin (5 / 2)) = ''2.5''"
  "fmt_g3 (Fin 100) = ''100''" "fmt_g3 (Fin 1234) = ''1.23e+03''"
  "fmt_g3 (Fin (1 / 8)) = ''0.125''" "fmt_g3 (Fin (1 / 16)) = ''0.0625''"
  "fmt_g3 (Fin (9999 / 1000)) = ''10''"
  by code_simp+

lemma student_claim_base_item_Some:
  "student_claim_base_item b \<noteq> None \<longleftrightarrow> bi_student_claim b \<noteq> None"
  by (simp add: student_claim_base_item_def split: option.split)

lemma student_claim_base_item_rule:
  "student_claim_base_item b = Some it \<Longrightarrow> it_score_rule it = free_rule (Fin 0) (bi_full b)"
  by (auto simp: student_claim_base_item_def split: option.splits)

end
