(* ===== verification/Reviews.thy ===== *)
theory Reviews
  imports Timeline BaseClaims
begin

text \<open>
  Reviewing a submission: \<open>internal/review/state.go\<close>, the deciding half of
  \<open>api/review_handlers.go\<close> and \<open>api/classification_handlers.go\<close>.  \<open>save_review_task\<close>
  and \<open>resolve_classification\<close> are the handlers, in the stages their code has; a message of
  an error is left out, its HTTP status and code are kept.

  The lemmas show when two back-to-back reviews settle on a score, that the score of a
  decision stays within the rule the submission was filed under, and what a handler keeps of
  the submissions table.
\<close>

section \<open>The state machine (state.go)\<close>

definition can_transition :: "sub_status \<Rightarrow> sub_status \<Rightarrow> bool" where
  "can_transition s t \<longleftrightarrow> (case s of
      Draft \<Rightarrow> t = Pending
    | Pending \<Rightarrow> t \<in> {Draft, Consensus, Scored, Arbitrating}
    | Consensus \<Rightarrow> t \<in> {Scored, Arbitrating}
    | Scored \<Rightarrow> t \<in> {Appealing, Arbitrating, Locked}
    | Appealing \<Rightarrow> t \<in> {Scored, Arbitrating, Locked}
    | Arbitrating \<Rightarrow> t \<in> {Scored, Appealing, Locked}
    | Locked \<Rightarrow> False)"

definition transition :: "sub_status \<Rightarrow> sub_status \<Rightarrow> (sub_status \<times> sub_status) option" where
  \<comment> \<open>the error names the two states\<close>
  "transition s t = (if can_transition s t then None else Some (s, t))"

record review_result =
  rr_reviewer :: int
  rr_decision :: string
  rr_score :: points
  rr_reason :: string

record review_outcome =
  ro_status :: sub_status
  ro_final :: "points option"
  ro_conflict :: bool

datatype review_error =
    ExpectedOneOrTwo | ReviewersNotDistinct | UnknownDecision string | RejectedNotZero | TooManyResults

definition decisions :: "string list" where
  "decisions = [''accepted'', ''adjusted'', ''rejected'']"

definition check_result :: "int set \<Rightarrow> review_result \<Rightarrow> (review_error, int set) result" where
  "check_result seen r =
    (if rr_reviewer r = 0 \<or> rr_reviewer r \<in> seen then Inl ReviewersNotDistinct
     else if rr_decision r \<notin> set decisions then Inl (UnknownDecision (rr_decision r))
     else if rr_decision r = ''rejected'' \<and> rr_score r \<noteq> 0 then Inl RejectedNotZero
     else Inr (insert (rr_reviewer r) seen))"

definition scored_outcome :: "points \<Rightarrow> review_outcome" where
  "scored_outcome p = \<lparr>ro_status = Scored, ro_final = Some p, ro_conflict = False\<rparr>"

definition reconcile :: "int \<Rightarrow> review_result list \<Rightarrow> (review_error, review_outcome) result" where
  "reconcile expected results =
    (if expected \<noteq> 1 \<and> expected \<noteq> 2 then Inl ExpectedOneOrTwo
     else (case fold_res check_result {} results of
        Inl e \<Rightarrow> Inl e
      | Inr _ \<Rightarrow>
          if int (length results) < expected
          then Inr \<lparr>ro_status = Consensus, ro_final = None, ro_conflict = False\<rparr>
          else if expected < int (length results) then Inl TooManyResults
          else if expected = 1 then Inr (scored_outcome (rr_score (results ! 0)))
          else if rr_decision (results ! 0) = rr_decision (results ! 1)
                  \<and> rr_score (results ! 0) = rr_score (results ! 1)
          then Inr (scored_outcome (rr_score (results ! 0)))
          else Inr \<lparr>ro_status = Arbitrating, ro_final = None, ro_conflict = True\<rparr>))"

section \<open>Decisions (review_handlers.go)\<close>

record reviewer_task =
  tk_submission :: int
  tk_assignment :: int
  tk_student :: int
  tk_expected :: int
  tk_status :: sub_status
  tk_requested :: "f64 option"
  tk_snapshot :: rule_snapshot

record suggestion_input =
  cs_category :: string
  cs_item :: string
  cs_reason :: string

record decision_input =
  di_review :: string
  di_decision :: string
  di_score :: "f64 option"
  di_reason :: string
  di_spent :: int
  di_suggestion :: "suggestion_input option"

definition score_within_rule :: "score_rule \<Rightarrow> f64 \<Rightarrow> bool" where
  \<comment> \<open>true when \<open>scoreWithinRule\<close> returns no error\<close>
  "score_within_rule r score = (let p = new_points score in
     if sr_type r = ''free'' then
       (case (sr_min r, sr_max r) of
          (Some lo, Some hi) \<Rightarrow> \<not> p < new_points lo \<and> \<not> new_points hi < p
        | _ \<Rightarrow> False)
     else if sr_type r = ''per_unit'' then
       \<not> p < 0 \<and> (case sr_cap r of None \<Rightarrow> True | Some k \<Rightarrow> \<not> new_points k < p)
     else if sr_type r = ''enum'' then \<not> p < 0 \<and> \<not> max_option_points (sr_options r) < p
     else if sr_type r = ''threshold'' then
       (case sr_award r of None \<Rightarrow> False | Some a \<Rightarrow> \<not> p < 0 \<and> \<not> new_points a < p)
     else False)"

definition accepted_reason :: string where
  "accepted_reason = [CHR 0xE6, CHR 0x9D, CHR 0x90, CHR 0xE6, CHR 0x96, CHR 0x99, CHR 0xE4, CHR 0xB8,
     CHR 0x8E, CHR 0xE8, CHR 0xA7, CHR 0x84, CHR 0xE5, CHR 0x88, CHR 0x99, CHR 0xE4,
     CHR 0xB8, CHR 0x80, CHR 0xE8, CHR 0x87, CHR 0xB4]"

definition validate_decision ::
    "reviewer_task \<Rightarrow> decision_input \<Rightarrow> (string \<times> points \<times> string) option" where
  "validate_decision t x = (let decision = di_decision x; reason = trim_space (di_reason x) in
     if decision \<notin> set decisions then None
     else if 5000 < length reason then None
     else if decision \<noteq> ''accepted'' \<and> length reason < 4 then None
     else (case (if decision = ''rejected'' then Some (Fin 0, reason)
                 else if decision = ''accepted'' then
                   map_option (\<lambda>score. (score, if reason = [] then accepted_reason else reason))
                     (case tk_requested t of Some r \<Rightarrow> Some r | None \<Rightarrow> di_score x)
                 else map_option (\<lambda>score. (score, reason)) (di_score x)) of
         None \<Rightarrow> None
       | Some (score, reason') \<Rightarrow>
           if score_within_rule (it_score_rule (rs_item (tk_snapshot t))) score
           then Some (decision, new_points score, reason') else None))"

definition load_reviewer_task :: "db \<Rightarrow> actor \<Rightarrow> int \<Rightarrow> reviewer_task option" where
  "load_reviewer_task d a i = (case find_submission d i of
      None \<Rightarrow> None
    | Some s \<Rightarrow> if sb_student s = ac_user a then None
        else (case find (\<lambda>v. sv_submission v = i \<and> sv_reviewer v = ac_user a \<and> sv_active v)
                     (db_assigned d) of
            None \<Rightarrow> None
          | Some v \<Rightarrow> Some \<lparr>tk_submission = i, tk_assignment = sv_id v, tk_student = sb_student s,
              tk_expected = int (count_where (\<lambda>w. sv_submission w = i \<and> sv_active w) (db_assigned d)),
              tk_status = sb_status s, tk_requested = map_option points_float (sb_requested s),
              tk_snapshot = sb_snapshot s\<rparr>))"

definition review_editable :: "db \<Rightarrow> actor \<Rightarrow> review_row \<Rightarrow> submission \<Rightarrow> bool" where
  "review_editable d a r s \<longleftrightarrow> rv_superseded_at r = None \<and> sb_status s \<in> {Pending, Consensus}
     \<and> sb_final s = None \<and> sb_student s \<noteq> ac_user a
     \<and> list_ex (\<lambda>v. sv_id v = rv_assignment r \<and> sv_submission v = sb_id s
          \<and> sv_reviewer v = ac_user a \<and> sv_active v) (db_assigned d)
     \<and> \<not> list_ex (\<lambda>p. rv_submission p = sb_id s \<and> rv_reviewer p \<noteq> ac_user a
          \<and> rv_superseded_at p = None) (db_reviews d)"

section \<open>Reclassification (classification_handlers.go)\<close>

record classification_target =
  ct_scheme :: int
  ct_category :: category
  ct_item :: item
  ct_snapshot :: rule_snapshot

definition claimable_in :: "category \<Rightarrow> string \<Rightarrow> item option" where
  "claimable_in ca key = (case find (\<lambda>it. it_key it = key) (ca_items ca) of
      Some it \<Rightarrow> Some it
    | None \<Rightarrow> (case find (\<lambda>b. bi_key b = key \<and> bi_student_claim b \<noteq> None) (ca_base_items ca) of
        Some b \<Rightarrow> student_claim_base_item b
      | None \<Rightarrow> if key = other_self_report_key (ca_key ca) \<and> accepts_submissions ca
                then Some (other_self_report_item ca) else None))"

definition claimable_scheme_item :: "config \<Rightarrow> string \<Rightarrow> string \<Rightarrow> (category \<times> item) option" where
  "claimable_scheme_item c category key =
    (case find (\<lambda>ca. ca_key ca = category) (cf_categories c) of
       None \<Rightarrow> None
     | Some ca \<Rightarrow> map_option (Pair ca) (claimable_in ca key))"

definition load_classification_target ::
    "env \<Rightarrow> db \<Rightarrow> int \<Rightarrow> string \<Rightarrow> string \<Rightarrow> classification_target option" where
  "load_classification_target e d i category key = (case find_submission d i of
      None \<Rightarrow> None
    | Some s \<Rightarrow> (case load_scheme_by_id d (sb_scheme_id s) of
        None \<Rightarrow> None
      | Some r \<Rightarrow>
          (case claimable_scheme_item (sc_config r) (trim_space category) (trim_space key) of
             None \<Rightarrow> None
           | Some (ca, it) \<Rightarrow> Some \<lparr>ct_scheme = sc_id r, ct_category = ca, ct_item = it,
               ct_snapshot = \<lparr>rs_scheme_id = sc_id r, rs_version = cf_version (sc_config r),
                 rs_category_key = ca_key ca, rs_category_name = ca_name ca, rs_item = it,
                 rs_captured_at = en_now e\<rparr>\<rparr>)))"

definition validate_suggestion ::
    "env \<Rightarrow> db \<Rightarrow> int \<Rightarrow> suggestion_input \<Rightarrow> (classification_target \<times> string \<times> string) option" where
  "validate_suggestion e d i x =
    (let category = trim_space (cs_category x); key = trim_space (cs_item x);
         reason = trim_space (cs_reason x) in
     if length reason < 4 \<or> 5000 < length reason then None
     else (case find_submission d i of
         None \<Rightarrow> None
       | Some s \<Rightarrow>
           if category = sb_category s \<and> key = sb_item s then None
           else map_option (\<lambda>t. (t, sb_category s, sb_item s))
                  (load_classification_target e d i category key)))"

definition suggestion_scope :: "string \<Rightarrow> classification_target \<Rightarrow> string" where
  "suggestion_scope from_category t =
     (if from_category \<noteq> ca_key (ct_category t) then ''cross_category'' else ''within_category'')"

definition insert_suggestion ::
    "env \<Rightarrow> actor \<Rightarrow> db \<Rightarrow> int \<Rightarrow> string \<Rightarrow> int option \<Rightarrow> int option \<Rightarrow> string \<Rightarrow> suggestion_input
     \<Rightarrow> (db \<times> int \<times> string) option" where
  "insert_suggestion e a d i source review blind status x = (case validate_suggestion e d i x of
      None \<Rightarrow> None
    | Some (t, from_category, from_item) \<Rightarrow>
        if status = ''pending'' \<and> workflow_check d i \<noteq> None then None
        else (let scope = suggestion_scope from_category t; n = db_next d in
          Some (d\<lparr>db_suggestions := db_suggestions d @
              [\<lparr>sg_id = n, sg_scheme = ct_scheme t, sg_submission = i, sg_by = ac_user a,
                sg_source = source, sg_review = review, sg_blind = blind,
                sg_from_category = from_category, sg_from_item = from_item,
                sg_to_category = ca_key (ct_category t), sg_to_item = it_key (ct_item t),
                sg_to_snapshot = ct_snapshot t, sg_scope = scope,
                sg_reason = trim_space (cs_reason x), sg_status = status,
                sg_submitted_at = (if status = ''pending'' then Some (en_now e) else None),
                sg_resolved_by = None, sg_resolution_reason = None, sg_resolved_at = None\<rparr>],
              db_next := n + 1\<rparr>, n, scope)))"

definition invalidate_latest_settlement :: "string \<Rightarrow> db \<Rightarrow> db" where
  "invalidate_latest_settlement reason d =
    (case latest_by rn_created_at (filter (\<lambda>r. rn_status r = ''complete''
            \<and> \<not> list_ex (\<lambda>v. iv_run v = rn_id r) (db_invalidations d)) (db_runs d)) of
       None \<Rightarrow> d
     | Some r \<Rightarrow> d\<lparr>db_invalidations := db_invalidations d @ [\<lparr>iv_run = rn_id r, iv_reason = reason\<rparr>]\<rparr>)"

definition audit_live :: "audit_batch \<Rightarrow> bool" where
  "audit_live b \<longleftrightarrow>
     ab_status b \<in> {''generating'', ''blocked'', ''open'', ''resolving'', ''complete''}"

definition invalidate_student_blind_audit ::
    "env \<Rightarrow> int \<Rightarrow> string \<Rightarrow> string \<Rightarrow> db \<Rightarrow> db" where
  \<comment> \<open>the batches of a student other than the originating one go stale\<close>
  "invalidate_student_blind_audit e student origin reason d =
    (let o' = trim_space origin;
         hit = (\<lambda>b. ab_student b = student \<and> audit_live b \<and> (o' = [] \<or> ab_id b \<noteq> o'));
         stale = filter hit (db_batches d) in
     d\<lparr>db_batches := where_set hit (\<lambda>b. b\<lparr>ab_status := ''stale'', ab_reason := Some reason,
            ab_stale_at := Some (en_now e)\<rparr>) (db_batches d),
       db_outbox := db_outbox d @ map (\<lambda>b. OutboxEvent ''scorecard_audit.stale'' student) stale\<rparr>)"

section \<open>Saving a decision (saveReviewTask)\<close>

definition path_id :: "int \<Rightarrow> http_error option" where
  "path_id i = (if i \<le> 0 then Some (HttpError 400 ''invalid_id'') else None)"

definition review_guard ::
    "env \<Rightarrow> actor \<Rightarrow> int \<Rightarrow> decision_input \<Rightarrow> db
     \<Rightarrow> (http_error, db \<times> reviewer_task \<times> string \<times> points \<times> string) result" where
  \<comment> \<open>everything before the first write\<close>
  "review_guard e a i x d =
    (case path_id i of Some err \<Rightarrow> Inl err | None \<Rightarrow>
     if di_spent x < 0 \<or> 24 * 60 * 60 < di_spent x then Inl (HttpError 400 ''invalid_request'')
     else (case load_reviewer_task d a i of
       None \<Rightarrow> Inl not_found
     | Some t \<Rightarrow>
        if tk_status t \<noteq> Pending \<and> tk_status t \<noteq> Consensus
        then Inl (HttpError 409 ''not_reviewable'')
        else (case load_current_scheme e d of
          Inl err \<Rightarrow> Inl internal_error
        | Inr (d1, current) \<Rightarrow>
           if ensure_capability (ss_config current) ''review'' (en_now e) \<noteq> None
           then Inl (HttpError 409 ''review_closed'')
           else (case validate_decision t x of
             None \<Rightarrow> Inl (HttpError 422 ''review_invalid'')
           | Some (decision, score, reason) \<Rightarrow>
              if (case di_suggestion x of None \<Rightarrow> False
                  | Some sg \<Rightarrow> validate_suggestion e d1 i sg = None)
              then Inl (HttpError 422 ''classification_invalid'')
              else Inr (d1, t, decision, score, reason)))))"

definition supersede_review ::
    "env \<Rightarrow> actor \<Rightarrow> int \<Rightarrow> decision_input \<Rightarrow> db \<Rightarrow> (http_error, db \<times> int) result" where
  \<comment> \<open>the revision branch; the number is what is added to the seconds spent\<close>
  "supersede_review e a i x d =
    (case find (\<lambda>r. rv_submission r = i \<and> rv_reviewer r = ac_user a \<and> rv_superseded_at r = None)
            (db_reviews d) of
       None \<Rightarrow> Inl (HttpError 409 ''not_reviewed'')
     | Some r \<Rightarrow>
        if (case find_submission d i of None \<Rightarrow> True | Some s \<Rightarrow> \<not> review_editable d a r s)
        then Inl (HttpError 409 ''review_not_editable'')
        else if di_review x \<noteq> dec_int (rv_id r) then Inl (HttpError 409 ''review_changed'')
        else Inr (d\<lparr>db_reviews := where_set (\<lambda>q. rv_id q = rv_id r)
                      (\<lambda>q. q\<lparr>rv_superseded_at := Some (en_now e)\<rparr>) (db_reviews d),
               db_suggestions := where_set (\<lambda>g. sg_review g = Some (rv_id r) \<and> sg_status g = ''pending'')
                      (\<lambda>g. g\<lparr>sg_status := ''withdrawn''\<rparr>) (db_suggestions d)\<rparr>, rv_spent r))"

definition record_review ::
    "env \<Rightarrow> actor \<Rightarrow> int \<Rightarrow> decision_input \<Rightarrow> reviewer_task \<Rightarrow> string \<Rightarrow> points \<Rightarrow> string \<Rightarrow> int \<Rightarrow> db
     \<Rightarrow> (http_error, db \<times> int \<times> (int \<times> string) option) result" where
  \<comment> \<open>the inserted review and its classification suggestion\<close>
  "record_review e a i x t decision score reason spent d =
    (if list_ex (\<lambda>r. rv_submission r = i \<and> rv_reviewer r = ac_user a \<and> rv_superseded_at r = None)
          (db_reviews d)
     then Inl (HttpError 409 ''already_reviewed'')
     else (let n = db_next d;
               d1 = d\<lparr>db_reviews := db_reviews d @ [\<lparr>rv_id = n, rv_submission = i,
                   rv_reviewer = ac_user a, rv_assignment = tk_assignment t, rv_decision = decision,
                   rv_score = column_of (points_float score), rv_reason = reason,
                   rv_spent = spent, rv_superseded_at = None\<rparr>], db_next := n + 1\<rparr> in
       (case di_suggestion x of
          None \<Rightarrow> Inr (d1, n, None)
        | Some sg \<Rightarrow> (case insert_suggestion e a d1 i ''item_review'' (Some n) None ''pending'' sg of
             None \<Rightarrow> Inl (HttpError 422 ''classification_invalid'')
           | Some (d2, m, scope) \<Rightarrow> Inr (d2, n, Some (m, scope))))))"

definition review_before :: "review_row \<Rightarrow> review_row \<Rightarrow> bool" where
  "review_before p q \<longleftrightarrow> rv_reviewer p < rv_reviewer q"

definition current_results :: "db \<Rightarrow> int \<Rightarrow> review_result list" where
  "current_results d i =
     map (\<lambda>r. \<lparr>rr_reviewer = rv_reviewer r, rr_decision = rv_decision r,
         rr_score = new_points (points_float (rv_score r)), rr_reason = rv_reason r\<rparr>)
       (sort_less review_before
         (filter (\<lambda>r. rv_submission r = i \<and> rv_superseded_at r = None) (db_reviews d)))"

definition cross_category_pending :: "db \<Rightarrow> int \<Rightarrow> bool" where
  "cross_category_pending d i \<longleftrightarrow> list_ex (\<lambda>g. sg_submission g = i \<and> sg_status g = ''pending''
     \<and> sg_scope g = ''cross_category'') (db_suggestions d)"

definition review_verdict ::
    "db \<Rightarrow> int \<Rightarrow> reviewer_task \<Rightarrow> (review_error, review_outcome \<times> bool) result" where
  \<comment> \<open>the outcome, and whether a cross-category suggestion sends it to arbitration\<close>
  "review_verdict d i t = (let results = current_results d i in
     (case reconcile (tk_expected t) results of
        Inl err \<Rightarrow> Inl err
      | Inr out \<Rightarrow>
         if tk_expected t \<le> int (length results) \<and> cross_category_pending d i
         then Inr (out\<lparr>ro_status := Arbitrating, ro_final := None, ro_conflict := True\<rparr>, True)
         else Inr (out, False)))"

definition set_verdict :: "env \<Rightarrow> review_outcome \<Rightarrow> submission \<Rightarrow> submission" where
  "set_verdict e out s = s\<lparr>sb_status := ro_status out,
     sb_final := map_option (\<lambda>p. column_of (points_float p)) (ro_final out),
     sb_scored_at := (if ro_status out = Scored then Some (en_now e) else sb_scored_at s),
     sb_updated_at := en_now e, sb_lock_version := sb_lock_version s + 1\<rparr>"

definition settle_review ::
    "env \<Rightarrow> actor \<Rightarrow> bool \<Rightarrow> int \<Rightarrow> int \<Rightarrow> (int \<times> string) option \<Rightarrow> review_outcome \<Rightarrow> db
     \<Rightarrow> (http_error, db) result" where
  "settle_review e a revision i n sg out d =
    (case update_submissions (\<lambda>s. sb_id s = i) (set_verdict e out) d of
       Inl err \<Rightarrow> Inl err
     | Inr d1 \<Rightarrow>
        (let d2 = append_audit a (if revision then ''review.revised'' else ''review.decided'')
                    ''submission'' (dec_int i) d1;
             d3 = enqueue_event (if ro_conflict out then ''conflict.raised'' else ''review.decided'') i d2;
             d4 = (case sg of None \<Rightarrow> d3
                   | Some (m, _) \<Rightarrow> enqueue_event ''classification.suggested'' m d3) in
         Inr (if ro_final out = None then d4
              else invalidate_latest_settlement ''review decision changed a final score'' d4)))"

record review_answer =
  ra_review :: int
  ra_status :: sub_status
  ra_final :: "f64 option"
  ra_conflict :: bool
  ra_classification :: bool

definition save_review_task ::
    "env \<Rightarrow> actor \<Rightarrow> bool \<Rightarrow> int \<Rightarrow> decision_input \<Rightarrow> db \<Rightarrow> review_answer handler" where
  "save_review_task e a revision i x d =
    (case review_guard e a i x d of
       Inl err \<Rightarrow> Inl err
     | Inr (d1, t, decision, score, reason) \<Rightarrow>
        (case (if revision then supersede_review e a i x d1 else Inr (d1, 0)) of
           Inl err \<Rightarrow> Inl err
         | Inr (d2, previous) \<Rightarrow>
            (case record_review e a i x t decision score reason (di_spent x + previous) d2 of
               Inl err \<Rightarrow> Inl err
             | Inr (d3, n, sg) \<Rightarrow>
                (case review_verdict d3 i t of
                   Inl err \<Rightarrow> Inl internal_error
                 | Inr (out, arbitration) \<Rightarrow>
                    (case settle_review e a revision i n sg out d3 of
                       Inl err \<Rightarrow> Inl err
                     | Inr d4 \<Rightarrow> Inr (d4, \<lparr>ra_review = n, ra_status = ro_status out,
                         ra_final = map_option points_float (ro_final out),
                         ra_conflict = ro_conflict out, ra_classification = arbitration\<rparr>))))))"

section \<open>Who may adjudicate (deputy_adjudication.go)\<close>

definition authorize_adjudication :: "db \<Rightarrow> actor \<Rightarrow> int \<Rightarrow> http_error option" where
  "authorize_adjudication d a student =
    (if ac_grant a = Some student then None
     else if ac_user a = student then Some (HttpError 403 ''avoid_self'')
     else if ac_role a = ''class_admin'' then None
     else if ac_role a \<noteq> ''group'' \<or> \<not> ac_deputy a then Some (HttpError 403 ''forbidden'')
     else (case find (\<lambda>u. us_id u = student) (db_users d) of
         None \<Rightarrow> Some (HttpError 403 ''deputy_scope'')
       | Some u \<Rightarrow> if us_role u \<noteq> ''class_admin'' then Some (HttpError 403 ''deputy_scope'') else None))"

section \<open>Suggesting and resolving a classification\<close>

definition admin_suggest_classification ::
    "env \<Rightarrow> actor \<Rightarrow> int \<Rightarrow> suggestion_input \<Rightarrow> db \<Rightarrow> (int \<times> string) handler" where
  "admin_suggest_classification e a i x d =
    (case path_id i of Some err \<Rightarrow> Inl err | None \<Rightarrow>
    (case find_submission d i of
       None \<Rightarrow> Inl not_found
     | Some s \<Rightarrow>
        if sb_status s \<noteq> Scored \<and> sb_status s \<noteq> Arbitrating \<and> sb_status s \<noteq> Locked
        then Inl (HttpError 409 ''not_classifiable'')
        else (case authorize_adjudication d a (sb_student s) of Some err \<Rightarrow> Inl err | None \<Rightarrow>
        (case insert_suggestion e a d i ''admin'' None None ''pending'' x of
           None \<Rightarrow> Inl (HttpError 422 ''classification_invalid'')
         | Some (d1, n, scope) \<Rightarrow>
            (case (if scope = ''cross_category'' \<and> sb_status s \<noteq> Locked
                   then update_submissions (\<lambda>q. sb_id q = i) (\<lambda>q. q\<lparr>sb_status := Arbitrating,
                          sb_final := None, sb_updated_at := en_now e,
                          sb_lock_version := sb_lock_version q + 1\<rparr>) d1
                   else Inr d1) of
               Inl err \<Rightarrow> Inl err
             | Inr d2 \<Rightarrow> Inr (invalidate_student_blind_audit e (sb_student s) []
                  ''classification suggestion filed after scorecard review''
                  (enqueue_event ''classification.suggested'' n
                    (append_audit a ''classification.suggested'' ''classification_suggestion''
                      (dec_int n) d2)), n, scope))))))"

record resolution_input =
  ri_suggestion :: "int option"
  ri_category :: string
  ri_item :: string
  ri_score :: "f64 option"
  ri_reason :: string
  ri_origin :: string

definition requires_arbitration :: "string \<Rightarrow> string \<Rightarrow> string \<Rightarrow> bool" where
  "requires_arbitration before target scope \<longleftrightarrow> scope = ''cross_category'' \<or> before \<noteq> target"

definition named_suggestion ::
    "db \<Rightarrow> int \<Rightarrow> (int \<Rightarrow> string option) \<Rightarrow> int option \<Rightarrow> (http_error, string \<times> string) result" where
  \<comment> \<open>the scope and the originating batch of the suggestion the request names;
     \<open>origin\<close> joins a blind assignment to its batch\<close>
  "named_suggestion d i origin m = (case m of
      None \<Rightarrow> Inr ([], [])
    | Some k \<Rightarrow> (case find (\<lambda>g. sg_id g = k) (db_suggestions d) of
        None \<Rightarrow> Inl (HttpError 404 ''suggestion_not_found'')
      | Some g \<Rightarrow> if sg_submission g \<noteq> i \<or> sg_status g \<noteq> ''pending''
          then Inl (HttpError 409 ''suggestion_unavailable'')
          else Inr (sg_scope g, (case sg_blind g of None \<Rightarrow> []
                      | Some b \<Rightarrow> (case origin b of None \<Rightarrow> [] | Some o' \<Rightarrow> o')))))"

definition close_suggestions :: "env \<Rightarrow> actor \<Rightarrow> int \<Rightarrow> string \<Rightarrow> string \<Rightarrow> string \<Rightarrow> db \<Rightarrow> db" where
  "close_suggestions e a i category key reason d =
     d\<lparr>db_suggestions := where_set (\<lambda>g. sg_submission g = i \<and> sg_status g = ''pending'')
        (\<lambda>g. g\<lparr>sg_status := (if sg_to_category g = category \<and> sg_to_item g = key
                 then ''accepted'' else ''rejected''),
              sg_resolved_by := Some (ac_user a), sg_resolution_reason := Some reason,
              sg_resolved_at := Some (en_now e)\<rparr>) (db_suggestions d)\<rparr>"

definition resolution_guard ::
    "env \<Rightarrow> actor \<Rightarrow> int \<Rightarrow> (int \<Rightarrow> string option) \<Rightarrow> resolution_input \<Rightarrow> db
     \<Rightarrow> (http_error, submission \<times> classification_target \<times> f64 \<times> string) result" where
  "resolution_guard e a i origin x d = (let reason = trim_space (ri_reason x) in
    (case path_id i of Some err \<Rightarrow> Inl err | None \<Rightarrow>
     if length reason < 4 \<or> 5000 < length reason then Inl (HttpError 422 ''reason_required'')
     else (case find_submission d i of
       None \<Rightarrow> Inl not_found
     | Some s \<Rightarrow> (case authorize_adjudication d a (sb_student s) of Some err \<Rightarrow> Inl err | None \<Rightarrow>
        (case load_classification_target e d i (trim_space (ri_category x)) (trim_space (ri_item x)) of
          None \<Rightarrow> Inl (HttpError 422 ''classification_invalid'')
        | Some t \<Rightarrow>
          (case (case ri_score x of Some v \<Rightarrow> Some (points_float (new_points v))
                 | None \<Rightarrow> map_option points_float (sb_final s)) of
             None \<Rightarrow> Inl (HttpError 422 ''score_required'')
           | Some score \<Rightarrow>
              if \<not> score_within_rule (it_score_rule (ct_item t)) score
              then Inl (HttpError 422 ''score_invalid'')
              else (case named_suggestion d i origin (ri_suggestion x) of
                Inl err \<Rightarrow> Inl err
              | Inr (scope, batch) \<Rightarrow>
                 if requires_arbitration (sb_category s) (ca_key (ct_category t)) scope
                 then Inl (HttpError 409 ''classification_arbitration_required'')
                 else if trim_space (ri_origin x) \<noteq> [] \<and> trim_space (ri_origin x) \<noteq> batch
                 then Inl (HttpError 422 ''origin_batch_invalid'')
                 else Inr (s, t, score, batch))))))))"

definition resolve_classification ::
    "env \<Rightarrow> actor \<Rightarrow> int \<Rightarrow> (int \<Rightarrow> string option) \<Rightarrow> resolution_input \<Rightarrow> db \<Rightarrow> (int \<times> f64) handler" where
  "resolve_classification e a i origin x d = (case resolution_guard e a i origin x d of
      Inl err \<Rightarrow> Inl err
    | Inr (s, t, score, batch) \<Rightarrow>
       (let reason = trim_space (ri_reason x); n = db_next d;
            category = ca_key (ct_category t); key = it_key (ct_item t);
            d1 = d\<lparr>db_resolutions := db_resolutions d @ [\<lparr>rl_id = n, rl_scheme = sb_scheme_id s,
                rl_submission = i, rl_suggestion = ri_suggestion x, rl_appeal = None,
                rl_origin = (if batch = [] then None else Some batch), rl_by = ac_user a,
                rl_before = (sb_category s, sb_item s, sb_snapshot s, sb_final s),
                rl_after = (category, key, ct_snapshot t, column_of score), rl_reason = reason\<rparr>],
              db_next := n + 1\<rparr> in
        (case update_submissions (\<lambda>q. sb_id q = i) (\<lambda>q. q\<lparr>sb_category := category, sb_item := key,
                sb_snapshot := ct_snapshot t, sb_final := Some (column_of score),
                sb_status := Scored,
                sb_scored_at := (case sb_scored_at q of None \<Rightarrow> Some (en_now e) | Some u \<Rightarrow> Some u),
                sb_updated_at := en_now e, sb_lock_version := sb_lock_version q + 1\<rparr>) d1 of
           Inl err \<Rightarrow> Inl err
         | Inr d2 \<Rightarrow> Inr (enqueue_event ''classification.resolved'' n
              (append_audit a ''classification.resolved'' ''classification_resolution'' (dec_int n)
                (invalidate_student_blind_audit e (sb_student s) batch
                   ''effective classification changed outside the active blind audit''
                   (invalidate_latest_settlement ''effective classification or score changed''
                     (close_suggestions e a i category key reason d2)))), n, score))))"

end
