(* ===== verification/Submissions.thy ===== *)
theory Submissions
  imports Reviews
begin

text \<open>
  A student's own handlers on a submission, \<open>api/submission_handlers.go\<close>: creating and
  updating a draft, sending it to review, taking it back and deleting it.  A claim that is
  not valid JSON is \<open>None\<close>; the rule snapshot is kept as the record it encodes.

  The lemmas show what a prepared submission contains and what each handler does to the
  table.
\<close>

section \<open>Preparing a submission (prepareSubmission)\<close>

record prepared =
  pp_scheme_id :: int
  pp_scheme_version :: int
  pp_category :: category
  pp_item :: item
  pp_claim :: claim
  pp_requested :: "f64 option"
  pp_snapshot :: rule_snapshot

datatype prepare_error =
    TitleRequired | TitleTooLong | NoteOver | ItemNotInScheme | CategoryImported | ClaimMalformed
  | ClaimRejected claim_error

definition prepare_error_http :: "prepare_error \<Rightarrow> http_error" where
  \<comment> \<open>\<open>writeClaimError\<close>\<close>
  "prepare_error_http x = HttpError 422 ''submission_invalid''"

definition item_for_submission :: "category \<Rightarrow> string \<Rightarrow> item option" where
  \<comment> \<open>the regular item, else the base item of that key when it can be claimed, else the
     catch-all of the category\<close>
  "item_for_submission ca key = (case find (\<lambda>it. it_key it = key) (ca_items ca) of
      Some it \<Rightarrow> Some it
    | None \<Rightarrow>
       (case (case find (\<lambda>b. bi_key b = key) (ca_base_items ca) of
                None \<Rightarrow> None | Some b \<Rightarrow> student_claim_base_item b) of
          Some it \<Rightarrow> Some it
        | None \<Rightarrow> if key = other_self_report_key (ca_key ca)
                  then Some (other_self_report_item ca) else None))"

definition reviewer_determines :: "score_rule \<Rightarrow> claim_error \<Rightarrow> bool" where
  "reviewer_determines r err \<longleftrightarrow> sr_type r = ''per_unit'' \<and> err = ClaimQuantityRequired
     \<or> sr_type r = ''free'' \<and> err = ClaimScoreRequired"

definition draft_blank :: "bool \<Rightarrow> claim \<Rightarrow> bool" where
  "draft_blank require_title c \<longleftrightarrow> \<not> require_title \<and> cl_quantity c = None \<and> cl_score c = None
     \<and> blank (cl_option c)"

definition requested_score :: "bool \<Rightarrow> score_rule \<Rightarrow> claim \<Rightarrow> (claim_error, f64 option) result" where
  "requested_score require_title r c = (case score_claim r c of
      Inr p \<Rightarrow> Inr (Some (points_float p))
    | Inl err \<Rightarrow> if reviewer_determines r err \<or> draft_blank require_title c then Inr None else Inl err)"

definition prepare_submission ::
    "stored_scheme \<Rightarrow> submission_input \<Rightarrow> time \<Rightarrow> bool \<Rightarrow> (prepare_error, prepared) result" where
  "prepare_submission current x captured require_title =
    (let category = trim_space (in_category x); key = trim_space (in_item x);
         title = trim_space (in_title x) in
     if require_title \<and> title = [] then Inl TitleRequired
     else if 300 < length title then Inl TitleTooLong
     else if 20000 < length (in_note x) then Inl NoteOver
     else (case find (\<lambda>ca. ca_key ca = category) (cf_categories (ss_config current)) of
        None \<Rightarrow> Inl ItemNotInScheme
      | Some ca \<Rightarrow> (case item_for_submission ca key of
          None \<Rightarrow> Inl ItemNotInScheme
        | Some it \<Rightarrow>
           if \<not> accepts_submissions ca then Inl CategoryImported
           else (case in_claim x of
             None \<Rightarrow> Inl ClaimMalformed
           | Some c \<Rightarrow> (case requested_score require_title (it_score_rule it) c of
               Inl err \<Rightarrow> Inl (ClaimRejected err)
             | Inr requested \<Rightarrow> Inr \<lparr>pp_scheme_id = ss_id current,
                 pp_scheme_version = ss_version current, pp_category = ca, pp_item = it,
                 pp_claim = c, pp_requested = requested,
                 pp_snapshot = \<lparr>rs_scheme_id = ss_id current,
                   rs_version = cf_version (ss_config current), rs_category_key = ca_key ca,
                   rs_category_name = ca_name ca, rs_item = it, rs_captured_at = captured\<rparr>\<rparr>)))))"

section \<open>Creating and updating\<close>

definition load_for_create :: "load_error \<Rightarrow> http_error" where
  "load_for_create x = (if x = NoRows then not_found else internal_error)"

definition create_submission ::
    "env \<Rightarrow> actor \<Rightarrow> submission_input \<Rightarrow> db \<Rightarrow> (int \<times> f64 option) handler" where
  "create_submission e a x d = (case load_current_scheme e d of
      Inl err \<Rightarrow> Inl (load_for_create err)
    | Inr (d1, current) \<Rightarrow>
       if ensure_capability (ss_config current) ''submit'' (en_now e) \<noteq> None
       then Inl (HttpError 409 ''submission_closed'')
       else if \<not> ensure_not_sealed d1 (ac_user a) then Inl (HttpError 409 ''sealed'')
       else (case prepare_submission current x (en_now e) False of
          Inl err \<Rightarrow> Inl (prepare_error_http err)
        | Inr p \<Rightarrow> (let n = db_next d1 in
            Inr (append_audit a ''submission.draft_created'' ''submission'' (dec_int n)
              (d1\<lparr>db_submissions := db_submissions d1 @
                 [\<lparr>sb_id = n, sb_student = ac_user a, sb_scheme_id = pp_scheme_id p,
                   sb_scheme_version = pp_scheme_version p, sb_category = ca_key (pp_category p),
                   sb_item = it_key (pp_item p), sb_filed_category = ca_key (pp_category p),
                   sb_filed_item = it_key (pp_item p), sb_title = trim_space (in_title x),
                   sb_claim = pp_claim p, sb_requested = map_option column_of (pp_requested p),
                   sb_final = None, sb_status = Draft, sb_source = ''manual'',
                   sb_snapshot = pp_snapshot p, sb_filed_snapshot = pp_snapshot p,
                   sb_note = in_note x, sb_force_rejection = None, sb_forced_score = None,
                   sb_lock_version = 1, sb_submitted_at = None, sb_scored_at = None,
                   sb_locked_at = None, sb_updated_at = en_now e\<rparr>],
                 db_next := n + 1\<rparr>), n, pp_requested p))))"

definition load_owned :: "db \<Rightarrow> int \<Rightarrow> int \<Rightarrow> submission option" where
  "load_owned d i user =
     find (\<lambda>s. sb_id s = i \<and> sb_student s = user) (db_submissions d)"

definition review_count :: "db \<Rightarrow> int \<Rightarrow> nat" where
  "review_count d i = count_where (\<lambda>r. rv_submission r = i) (db_reviews d)"

definition refile :: "env \<Rightarrow> prepared \<Rightarrow> string \<Rightarrow> string \<Rightarrow> submission \<Rightarrow> submission" where
  \<comment> \<open>the \<open>UPDATE\<close> of \<open>updateSubmission\<close>\<close>
  "refile e p title note s = s\<lparr>sb_scheme_id := pp_scheme_id p,
     sb_scheme_version := pp_scheme_version p, sb_category := ca_key (pp_category p),
     sb_item := it_key (pp_item p),
     sb_filed_category := (if sb_status s = Draft then ca_key (pp_category p) else sb_filed_category s),
     sb_filed_item := (if sb_status s = Draft then it_key (pp_item p) else sb_filed_item s),
     sb_filed_snapshot := (if sb_status s = Draft then pp_snapshot p else sb_filed_snapshot s),
     sb_title := title, sb_claim := pp_claim p,
     sb_requested := map_option column_of (pp_requested p), sb_snapshot := pp_snapshot p,
     sb_note := note, sb_lock_version := sb_lock_version s + 1, sb_updated_at := en_now e\<rparr>"

definition update_submission ::
    "env \<Rightarrow> actor \<Rightarrow> int \<Rightarrow> submission_input \<Rightarrow> db \<Rightarrow> (sub_status \<times> f64 option) handler" where
  "update_submission e a i x d = (case path_id i of Some err \<Rightarrow> Inl err | None \<Rightarrow>
    (case load_owned d i (ac_user a) of
       None \<Rightarrow> Inl not_found
     | Some before \<Rightarrow>
        if sb_status before \<noteq> Draft \<and> sb_status before \<noteq> Pending
        then Inl (HttpError 409 ''not_editable'')
        else if 0 < review_count d i then Inl (HttpError 409 ''not_editable'')
        else (case load_current_scheme e d of
          Inl err \<Rightarrow> Inl internal_error
        | Inr (d1, current) \<Rightarrow>
           if ensure_capability (ss_config current) ''edit'' (en_now e) \<noteq> None
           then Inl (HttpError 409 ''edit_closed'')
           else if \<not> ensure_not_sealed d1 (ac_user a) then Inl (HttpError 409 ''sealed'')
           else (case prepare_submission current x (en_now e) (sb_status before \<noteq> Draft) of
             Inl err \<Rightarrow> Inl (prepare_error_http err)
           | Inr p \<Rightarrow>
              (case update_submissions (\<lambda>s. sb_id s = i)
                      (refile e p (trim_space (in_title x)) (in_note x)) d1 of
                 Inl err \<Rightarrow> Inl err
               | Inr d2 \<Rightarrow> Inr (append_audit a ''submission.updated'' ''submission'' (dec_int i) d2,
                   sb_status before, pp_requested p))))))"

section \<open>Deleting, withdrawing and submitting\<close>

definition delete_submission :: "actor \<Rightarrow> int \<Rightarrow> db \<Rightarrow> string list handler" where
  \<comment> \<open>the answer lists the objects removed once the transaction commits; the foreign keys
     of evidence, assignments and classifications cascade, that of audit flags does not\<close>
  "delete_submission a i d = (case path_id i of Some err \<Rightarrow> Inl err | None \<Rightarrow>
    (case load_owned d i (ac_user a) of
       None \<Rightarrow> Inl not_found
     | Some s \<Rightarrow>
        if sb_status s \<noteq> Draft \<and> sb_status s \<noteq> Pending
        then Inl (HttpError 409 ''not_deletable'')
        else if \<not> ensure_not_sealed d (ac_user a) then Inl (HttpError 409 ''sealed'')
        else if 0 < review_count d i then Inl (HttpError 409 ''not_deletable'')
        else if list_ex (\<lambda>f. af_submission f = Some i) (db_flags d) then Inl internal_error
        else (let objects = map ed_object (filter (\<lambda>f. ed_submission f = Some i) (db_evidence d));
                  d1 = append_audit a ''submission.deleted'' ''submission'' (dec_int i) d in
          Inr (d1\<lparr>db_submissions := delete_where (\<lambda>q. sb_id q = i) (db_submissions d1),
                 db_evidence := delete_where (\<lambda>f. ed_submission f = Some i) (db_evidence d1),
                 db_assigned := delete_where (\<lambda>v. sv_submission v = i) (db_assigned d1),
                 db_suggestions := delete_where (\<lambda>g. sg_submission g = i) (db_suggestions d1),
                 db_resolutions := delete_where (\<lambda>r. rl_submission r = i) (db_resolutions d1)\<rparr>,
               objects))))"

definition withdraw_submission :: "env \<Rightarrow> actor \<Rightarrow> int \<Rightarrow> db \<Rightarrow> sub_status handler" where
  "withdraw_submission e a i d = (case path_id i of Some err \<Rightarrow> Inl err | None \<Rightarrow>
    (case load_owned d i (ac_user a) of
       None \<Rightarrow> Inl not_found
     | Some s \<Rightarrow>
        if sb_status s = Draft then Inr (d, Draft)
        else if sb_status s \<noteq> Pending then Inl (HttpError 409 ''not_withdrawable'')
        else if \<not> ensure_not_sealed d (ac_user a) then Inl (HttpError 409 ''sealed'')
        else if 0 < review_count d i then Inl (HttpError 409 ''not_withdrawable'')
        else (case update_submissions (\<lambda>q. sb_id q = i \<and> sb_status q = Pending)
                (\<lambda>q. q\<lparr>sb_status := Draft, sb_submitted_at := None, sb_updated_at := en_now e,
                   sb_lock_version := sb_lock_version q + 1\<rparr>) d of
           Inl err \<Rightarrow> Inl err
         | Inr d1 \<Rightarrow> Inr (append_audit a ''submission.withdrawn'' ''submission'' (dec_int i) d1, Draft))))"

definition own_input :: "submission \<Rightarrow> submission_input" where
  "own_input s = \<lparr>in_category = sb_category s, in_item = sb_item s, in_title = sb_title s,
     in_claim = Some (sb_claim s), in_note = sb_note s\<rparr>"

definition evidence_ready :: "db \<Rightarrow> int \<Rightarrow> nat" where
  "evidence_ready d i = count_where
     (\<lambda>f. ed_submission f = Some i \<and> ed_status f = ''ready'' \<and> ed_kind f = ''claim'') (db_evidence d)"

definition file_for_review :: "env \<Rightarrow> prepared \<Rightarrow> submission \<Rightarrow> submission" where
  "file_for_review e p s = s\<lparr>sb_scheme_id := pp_scheme_id p,
     sb_scheme_version := pp_scheme_version p, sb_category := ca_key (pp_category p),
     sb_item := it_key (pp_item p), sb_filed_category := ca_key (pp_category p),
     sb_filed_item := it_key (pp_item p), sb_filed_snapshot := pp_snapshot p,
     sb_requested := map_option column_of (pp_requested p), sb_snapshot := pp_snapshot p,
     sb_status := Pending, sb_submitted_at := Some (en_now e), sb_updated_at := en_now e,
     sb_lock_version := sb_lock_version s + 1\<rparr>"

definition submit_submission :: "env \<Rightarrow> actor \<Rightarrow> int \<Rightarrow> db \<Rightarrow> sub_status handler" where
  "submit_submission e a i d = (case path_id i of Some err \<Rightarrow> Inl err | None \<Rightarrow>
    (case load_owned d i (ac_user a) of
       None \<Rightarrow> Inl not_found
     | Some s \<Rightarrow>
        if sb_status s = Pending \<or> sb_status s = Consensus then Inr (d, sb_status s)
        else if sb_status s \<noteq> Draft then Inl (HttpError 409 ''not_submittable'')
        else (case load_current_scheme e d of
          Inl err \<Rightarrow> Inl internal_error
        | Inr (d1, current) \<Rightarrow>
           if ensure_capability (ss_config current) ''submit'' (en_now e) \<noteq> None
           then Inl (HttpError 409 ''submission_closed'')
           else if \<not> ensure_not_sealed d1 (ac_user a) then Inl (HttpError 409 ''sealed'')
           else (case prepare_submission current (own_input s) (en_now e) True of
             Inl err \<Rightarrow> Inl (prepare_error_http err)
           | Inr p \<Rightarrow>
              if (case it_evidence (pp_item p) of None \<Rightarrow> False | Some v \<Rightarrow> ev_required v)
                 \<and> evidence_ready d1 i = 0
              then Inl (HttpError 422 ''evidence_required'')
              else (case update_submissions (\<lambda>q. sb_id q = i \<and> sb_status q = Draft)
                           (file_for_review e p) d1 of
                 Inl err \<Rightarrow> Inl err
               | Inr d2 \<Rightarrow> Inr (enqueue_event ''submission.created'' i
                   (append_audit a ''submission.submitted'' ''submission'' (dec_int i) d2), Pending))))))"

end
