(* ===== verification/Appeals.thy ===== *)
theory Appeals
  imports Corrections
begin

text \<open>
  Student appeals, \<open>api/appeal_handlers.go\<close>: a draft for one scored target, filing it to
  the original reviewers or to arbitration, withdrawing it, the back-to-back reconsideration
  of the first round and the final decision.  A target is a submission or a recorded base or
  penalty score.

  The lemmas show that a target has at most two rounds, that two reconsiderations settle only
  when they agree on category, item and score, and that a decision closes the appeal and
  rescores its target together.
\<close>

section \<open>Targets\<close>

record appeal_target =
  at_type :: string
  at_id :: int
  at_student :: int
  at_scheme :: int
  at_title :: string
  at_category :: string
  at_item :: string
  at_status :: sub_status
  at_current :: "f64 option"
  at_full :: "f64 option"
  at_snapshot :: "rule_snapshot option"
  at_recorder :: int

datatype load_target = Target appeal_target | TargetMissing | TargetTypeUnknown

definition load_appeal_target :: "db \<Rightarrow> string \<Rightarrow> int \<Rightarrow> int \<Rightarrow> load_target" where
  "load_appeal_target d kind i student =
    (if kind = ''submission'' then
       (case load_owned d i student of
          None \<Rightarrow> TargetMissing
        | Some s \<Rightarrow> Target \<lparr>at_type = kind, at_id = i, at_student = sb_student s,
            at_scheme = sb_scheme_id s, at_title = sb_title s, at_category = sb_category s,
            at_item = sb_item s, at_status = sb_status s,
            at_current = map_option points_float (sb_final s), at_full = None,
            at_snapshot = Some (sb_snapshot s), at_recorder = 0\<rparr>)
     else if kind = ''base_score'' \<or> kind = ''penalty_score'' then
       (case find (\<lambda>b. bs_id b = i \<and> bs_student b = student) (db_base d) of
          None \<Rightarrow> TargetMissing
        | Some b \<Rightarrow>
           if kind = ''base_score'' \<and> bs_kind b \<noteq> ''base''
              \<or> kind = ''penalty_score'' \<and> bs_kind b \<noteq> ''penalty'' then TargetMissing
           else Target \<lparr>at_type = kind, at_id = i, at_student = bs_student b,
             at_scheme = bs_scheme b, at_title = bs_item b, at_category = bs_category b,
             at_item = bs_item b, at_status = Scored, at_current = Some (points_float (bs_score b)),
             at_full = map_option points_float (bs_full b), at_snapshot = None,
             at_recorder = bs_recorder b\<rparr>)
     else TargetTypeUnknown)"

definition open_status :: "string \<Rightarrow> bool" where
  "open_status s \<longleftrightarrow> s \<in> {''filed'', ''reviewing'', ''escalated''}"

definition objection_kind :: "string \<Rightarrow> string" where
  "objection_kind t = (if t = ''submission'' then ''submission''
     else if t = ''base_score'' then ''base'' else ''penalty'')"

definition objection_pending :: "db \<Rightarrow> int \<Rightarrow> appeal_target \<Rightarrow> bool" where
  "objection_pending d student t \<longleftrightarrow> list_ex (\<lambda>o'. ob_student o' = student
     \<and> ob_kind o' = objection_kind (at_type t)
     \<and> (at_type t = ''submission'' \<and> ob_target o' = Some (at_id t)
        \<or> at_type t \<noteq> ''submission'' \<and> ob_scheme o' = at_scheme t
          \<and> ob_category o' = at_category t \<and> ob_item o' = at_item t)
     \<and> ob_status o' = ''submitted'') (db_objections d)"

section \<open>Rounds\<close>

datatype round_error = RoundFinal | RoundOpen | RoundExhausted

definition next_student_appeal_round :: "appeal_row option \<Rightarrow> (round_error, int) result" where
  "next_student_appeal_round previous = (case previous of
      None \<Rightarrow> Inr 1
    | Some p \<Rightarrow> if ap_status p = ''final'' then Inl RoundFinal
               else if ap_status p \<noteq> ''resolved'' then Inl RoundOpen
               else if ap_round p = 1 then Inr 2 else Inl RoundExhausted)"

definition round_error_http :: "appeal_row option \<Rightarrow> http_error" where
  "round_error_http previous = HttpError 409 (case previous of
      None \<Rightarrow> ''appeal_exhausted''
    | Some p \<Rightarrow> if ap_status p = ''final'' then ''appeal_finalized''
               else if ap_status p \<noteq> ''resolved'' then ''appeal_in_progress'' else ''appeal_exhausted'')"

definition appeal_order :: "appeal_row \<Rightarrow> appeal_row \<Rightarrow> bool" where
  \<comment> \<open>\<open>ORDER BY round DESC, id DESC\<close>\<close>
  "appeal_order p q \<longleftrightarrow> ap_round q < ap_round p \<or> ap_round p = ap_round q \<and> ap_id q < ap_id p"

definition student_appeals :: "db \<Rightarrow> string \<Rightarrow> int \<Rightarrow> int \<Rightarrow> appeal_row list" where
  "student_appeals d kind i student = filter (\<lambda>p. ap_kind p = ''student_appeal''
     \<and> ap_target_type p = kind \<and> ap_target p = i \<and> ap_student p = student) (db_appeals d)"

definition previous_appeal :: "db \<Rightarrow> string \<Rightarrow> int \<Rightarrow> int \<Rightarrow> appeal_row option" where
  "previous_appeal d kind i student =
     (case sort_less appeal_order (filter (\<lambda>p. ap_status p \<noteq> ''draft'') (student_appeals d kind i student)) of
        [] \<Rightarrow> None | p # _ \<Rightarrow> Some p)"

section \<open>Drafts\<close>

definition reopen_check :: "db \<Rightarrow> appeal_target \<Rightarrow> http_error option" where
  \<comment> \<open>the trigger on an appeal that is opened or stays open\<close>
  "reopen_check d t = (if at_type t = ''submission'' then workflow_check d (at_id t) else None)"

definition target_in_appeal :: "db \<Rightarrow> appeal_target \<Rightarrow> int \<Rightarrow> bool" where
  \<comment> \<open>another open appeal on the same target\<close>
  "target_in_appeal d t me \<longleftrightarrow> list_ex (\<lambda>p. ap_kind p = ''student_appeal''
     \<and> ap_target_type p = at_type t \<and> ap_target p = at_id t \<and> ap_id p \<noteq> me
     \<and> open_status (ap_status p)) (db_appeals d)"

definition prepare_appeal_draft ::
    "env \<Rightarrow> actor \<Rightarrow> string \<Rightarrow> int \<Rightarrow> db
     \<Rightarrow> (http_error, db \<times> appeal_target \<times> appeal_row option \<times> int) result" where
  "prepare_appeal_draft e a kind i d = (case load_current_scheme e d of
      Inl err \<Rightarrow> Inl internal_error
    | Inr (d1, current) \<Rightarrow>
       if ensure_capability (ss_config current) ''appeal'' (en_now e) \<noteq> None
       then Inl (HttpError 409 ''appeal_closed'')
       else (case load_appeal_target d1 kind i (ac_user a) of
          TargetMissing \<Rightarrow> Inl not_found
        | TargetTypeUnknown \<Rightarrow> Inl internal_error
        | Target t \<Rightarrow>
           if at_type t = ''submission'' \<and> at_status t \<noteq> Scored \<and> at_status t \<noteq> Locked
           then Inl (HttpError 409 ''not_appealable'')
           else if at_current t = None then Inl (HttpError 409 ''not_appealable'')
           else if list_ex (\<lambda>p. ap_kind p = ''student_appeal'' \<and> ap_target_type p = kind
                  \<and> ap_target p = i \<and> open_status (ap_status p)) (db_appeals d1)
           then Inl (HttpError 409 ''appeal_in_progress'')
           else if objection_pending d1 (ac_user a) t then Inl (HttpError 409 ''objection_pending'')
           else (let previous = previous_appeal d1 kind i (ac_user a) in
             (case next_student_appeal_round previous of
                Inl _ \<Rightarrow> Inl (round_error_http previous)
              | Inr n \<Rightarrow> Inr (d1, t, previous, n)))))"

definition ensure_appeal_draft ::
    "env \<Rightarrow> actor \<Rightarrow> (db \<Rightarrow> appeal_target \<Rightarrow> string option) \<Rightarrow> string \<Rightarrow> int \<Rightarrow> db \<Rightarrow> (int \<times> bool) handler" where
  \<comment> \<open>\<open>batch\<close> is the originating audit batch found through resolutions and objections\<close>
  "ensure_appeal_draft e a batch kind i d =
    (case latest_by ap_id (filter (\<lambda>p. ap_status p = ''draft'') (student_appeals d kind i (ac_user a))) of
       Some p \<Rightarrow> Inr (d, ap_id p, False)
     | None \<Rightarrow> (case prepare_appeal_draft e a kind i d of
         Inl err \<Rightarrow> Inl err
       | Inr (d1, t, previous, rnd) \<Rightarrow>
          if list_ex (\<lambda>p. ap_round p = rnd) (student_appeals d1 kind i (ac_user a))
          then Inl internal_error
          else (case reopen_check d1 t of Some err \<Rightarrow> Inl err | None \<Rightarrow> (let n = db_next d1 in Inr (d1\<lparr>db_appeals := db_appeals d1 @
             [\<lparr>ap_id = n, ap_kind = ''student_appeal'', ap_round = rnd, ap_target_type = kind,
               ap_target = i, ap_student = ac_user a, ap_filed_by = ac_user a, ap_reason = [],
               ap_status = ''draft'', ap_handler = None,
               ap_original_score = map_option column_of (at_current t), ap_proposed_score = None,
               ap_resolution_score = None, ap_resolution_reason = None,
               ap_previous = map_option ap_id previous,
               ap_original_category = Some (at_category t), ap_original_item = Some (at_item t),
               ap_original_snapshot = at_snapshot t, ap_proposed_category = None,
               ap_proposed_item = None, ap_resolution_category = None, ap_resolution_item = None,
               ap_resolution_snapshot = None,
               ap_origin = (case previous of None \<Rightarrow> batch d1 t
                   | Some p \<Rightarrow> (case ap_origin p of Some o' \<Rightarrow> Some o' | None \<Rightarrow> batch d1 t)),
               ap_resolved_at = None\<rparr>], db_next := n + 1\<rparr>, n, True)))))"

section \<open>Filing\<close>

definition find_appeal :: "db \<Rightarrow> int \<Rightarrow> appeal_row option" where
  \<comment> \<open>\<open>loadAppealRecord\<close>\<close>
  "find_appeal d i = find (\<lambda>p. ap_id p = i) (db_appeals d)"

definition may_handle :: "db \<Rightarrow> int \<Rightarrow> int \<Rightarrow> bool" where
  "may_handle d student r \<longleftrightarrow> r \<noteq> student \<and> list_ex (\<lambda>u. us_id u = r \<and> us_status u = ''active''
     \<and> us_role u \<in> {''group'', ''class_admin''}) (db_users d)"

definition settled_objection :: "appeal_target \<Rightarrow> objection_row \<Rightarrow> bool" where
  "settled_objection t o' \<longleftrightarrow> ob_student o' = at_student t \<and> ob_scheme o' = at_scheme t
     \<and> ob_category o' = at_category t \<and> ob_item o' = at_item t
     \<and> ob_status o' \<in> {''applied'', ''adjusted''}"

definition decided_time :: "objection_row \<Rightarrow> int" where
  "decided_time o' = (case ob_decided_at o' of None \<Rightarrow> 0 | Some t \<Rightarrow> t)"

definition load_original_reviewers :: "db \<Rightarrow> appeal_target \<Rightarrow> (int \<times> int) list" where
  \<comment> \<open>the reviewers an appeal goes back to, with their positions\<close>
  "load_original_reviewers d t =
    (if at_type t = ''submission'' then
       (let ids = remdups (sort_less (\<lambda>p q. p < q) (map rv_reviewer
              (filter (\<lambda>r. rv_submission r = at_id t \<and> rv_superseded_at r = None
                 \<and> may_handle d (at_student t) (rv_reviewer r)) (db_reviews d)))) in
        take 2 (zip ids (map int [1..<Suc (length ids)])))
     else (case latest_by decided_time (filter (settled_objection t) (db_objections d)) of
         Some o' \<Rightarrow> if may_handle d (at_student t) (ob_proposer o') then [(ob_proposer o', 1)] else []
       | None \<Rightarrow> if may_handle d (at_student t) (at_recorder t) then [(at_recorder t, 1)] else []))"

record appeal_claim =
  ay_reason :: string
  ay_category :: string
  ay_item :: string
  ay_score :: "f64 option"

definition validate_appeal_resolution :: "appeal_target \<Rightarrow> f64 \<Rightarrow> bool" where
  "validate_appeal_resolution t score = (let p = new_points score in
     if at_type t = ''submission'' then
       (case at_snapshot t of None \<Rightarrow> False
        | Some r \<Rightarrow> score_within_rule (it_score_rule (rs_item r)) score)
     else if at_type t = ''base_score'' then
       (case at_full t of None \<Rightarrow> False | Some full \<Rightarrow> \<not> p < 0 \<and> \<not> new_points full < p)
     else if at_type t = ''penalty_score'' then \<not> 0 < p
     else False)"

definition proposed_outcome ::
    "env \<Rightarrow> db \<Rightarrow> appeal_target \<Rightarrow> appeal_claim \<Rightarrow> (http_error, string \<times> string \<times> f64 option) result" where
  \<comment> \<open>the classification and the score the student asks for\<close>
  "proposed_outcome e d t x =
    (let score = (case ay_score x of Some v \<Rightarrow> Some (points_float (new_points v)) | None \<Rightarrow> at_current t);
         category = trim_space (ay_category x); key = trim_space (ay_item x) in
     if at_type t = ''submission'' then
       (case (if category = [] \<and> key = [] then Some (at_category t, at_item t)
              else if category = [] \<or> key = [] then None
              else map_option (\<lambda>c. (ca_key (ct_category c), it_key (ct_item c)))
                     (load_classification_target e d (at_id t) (ay_category x) (ay_item x))) of
          None \<Rightarrow> Inl (HttpError 422 ''classification_invalid'')
        | Some (cat, item) \<Rightarrow>
           (case load_classification_target e d (at_id t) cat item of
              None \<Rightarrow> Inl (HttpError 422 ''classification_invalid'')
            | Some c \<Rightarrow> (case score of
                None \<Rightarrow> Inl (HttpError 422 ''score_invalid'')
              | Some v \<Rightarrow> if score_within_rule (it_score_rule (ct_item c)) v
                  then Inr (cat, item, Some v) else Inl (HttpError 422 ''score_invalid''))))
     else (case ay_score x of
         None \<Rightarrow> Inr (at_category t, at_item t, at_current t)
       | Some v \<Rightarrow> if validate_appeal_resolution t (points_float (new_points v))
           then Inr (at_category t, at_item t, score) else Inl (HttpError 422 ''score_invalid'')))"

definition filing_guard ::
    "env \<Rightarrow> actor \<Rightarrow> int \<Rightarrow> appeal_claim \<Rightarrow> db
     \<Rightarrow> (http_error, db \<times> appeal_row \<times> appeal_target \<times> string \<times> string \<times> f64 option) result" where
  "filing_guard e a i x d = (case find_appeal d i of
      None \<Rightarrow> Inl not_found
    | Some row \<Rightarrow>
       if ap_kind row \<noteq> ''student_appeal'' \<or> ap_student row \<noteq> ac_user a \<or> ap_filed_by row \<noteq> ac_user a
       then Inl (HttpError 403 ''forbidden'')
       else if ap_status row \<noteq> ''draft'' then Inl (HttpError 409 ''appeal_not_draft'')
       else (case load_current_scheme e d of
          Inl err \<Rightarrow> Inl internal_error
        | Inr (d1, current) \<Rightarrow>
           if ensure_capability (ss_config current) ''appeal'' (en_now e) \<noteq> None
           then Inl (HttpError 409 ''appeal_closed'')
           else (case load_appeal_target d1 (ap_target_type row) (ap_target row) (ac_user a) of
              TargetMissing \<Rightarrow> Inl not_found
            | TargetTypeUnknown \<Rightarrow> Inl internal_error
            | Target t \<Rightarrow>
               if at_type t = ''submission'' \<and> at_status t \<noteq> Scored \<and> at_status t \<noteq> Locked
               then Inl (HttpError 409 ''not_appealable'')
               else if at_current t = None then Inl (HttpError 409 ''not_appealable'')
               else (case proposed_outcome e d1 t x of
                  Inl err \<Rightarrow> Inl err
                | Inr (category, item, score) \<Rightarrow>
                   if target_in_appeal d1 t (ap_id row) then Inl (HttpError 409 ''appeal_in_progress'')
                   else (case (if ap_round row \<noteq> 2 then None
                          else (case ap_previous row of
                            None \<Rightarrow> Some (HttpError 409 ''appeal_round_invalid'')
                          | Some k \<Rightarrow> (case find_appeal d1 k of
                              None \<Rightarrow> Some internal_error
                            | Some p \<Rightarrow> if ap_status p \<noteq> ''resolved''
                                then Some (HttpError 409 ''appeal_in_progress'') else None))) of
                      Some err \<Rightarrow> Inl err
                    | None \<Rightarrow> if objection_pending d1 (ac_user a) t
                        then Inl (HttpError 409 ''objection_pending'')
                        else Inr (d1, row, t, category, item, score))))))"

definition route_appeal :: "db \<Rightarrow> appeal_row \<Rightarrow> appeal_target \<Rightarrow> string \<times> (int \<times> int) list" where
  \<comment> \<open>the first round goes to the original reviewers, unless there are none or the class
     decides collectively; the second to the class administrator\<close>
  "route_appeal d row t =
    (if governance_mode d = ''collective'' then (''escalated'', [])
     else if ap_round row = 1 then
       (let rs = load_original_reviewers d t in
        if rs = [] then (''escalated'', []) else (''reviewing'', rs))
     else (''escalated'', []))"

definition new_appeal_reviewer :: "int \<Rightarrow> int \<times> int \<Rightarrow> appeal_reviewer" where
  "new_appeal_reviewer i r = \<lparr>ar_appeal = i, ar_reviewer = fst r, ar_position = snd r,
     ar_decision = None, ar_score = None, ar_category = None, ar_item = None, ar_snapshot = None,
     ar_reason = None, ar_spent = None, ar_decided_at = None\<rparr>"

definition set_status :: "env \<Rightarrow> sub_status \<Rightarrow> submission \<Rightarrow> submission" where
  "set_status e st s = s\<lparr>sb_status := st, sb_updated_at := en_now e,
     sb_lock_version := sb_lock_version s + 1\<rparr>"

definition file_appeal_draft ::
    "env \<Rightarrow> actor \<Rightarrow> int \<Rightarrow> appeal_claim \<Rightarrow> db \<Rightarrow> (string \<times> int) handler" where
  "file_appeal_draft e a i x d = (case filing_guard e a i x d of
      Inl err \<Rightarrow> Inl err
    | Inr (d1, row, t, category, item, score) \<Rightarrow>
       (let (status, reviewers) = route_appeal d1 row t in
        (case reopen_check d1 t of Some err \<Rightarrow> Inl err | None \<Rightarrow>
        (let d2 = d1\<lparr>db_appeals := where_set (\<lambda>p. ap_id p = ap_id row \<and> ap_status p = ''draft'')
                 (\<lambda>p. p\<lparr>ap_reason := trim_space (ay_reason x), ap_status := status,
                    ap_original_score := map_option column_of (at_current t),
                    ap_proposed_score := map_option column_of score,
                    ap_proposed_category := Some category, ap_proposed_item := Some item\<rparr>)
                 (db_appeals d1),
               db_appeal_reviewers := db_appeal_reviewers d1 @
                 map (new_appeal_reviewer (ap_id row)) reviewers\<rparr> in
        (case (if at_type t = ''submission''
               then update_submissions (\<lambda>s. sb_id s = at_id t)
                      (set_status e (if status = ''escalated'' then Arbitrating else Appealing)) d2
               else Inr d2) of
           Inl err \<Rightarrow> Inl err
         | Inr d3 \<Rightarrow>
            (let d4 = enqueue_event ''appeal.filed'' (ap_id row)
                   (append_audit a ''appeal.filed'' ''appeal'' (dec_int (ap_id row)) d3);
                 d5 = invalidate_latest_settlement ''appeal filed''
                   (foldl (\<lambda>q r. enqueue_event ''appeal.assigned'' (ap_id row) q) d4 reviewers);
                 d6 = (if ap_origin row = None
                   then invalidate_student_blind_audit e (at_student t) []
                          ''student appeal filed after scorecard review'' d5 else d5) in
             Inr (d6, status, int (length reviewers))))))))"

section \<open>Deleting and withdrawing\<close>

definition delete_appeal_draft :: "actor \<Rightarrow> int \<Rightarrow> db \<Rightarrow> string list handler" where
  "delete_appeal_draft a i d = (case path_id i of Some err \<Rightarrow> Inl err | None \<Rightarrow>
    (case find_appeal d i of
       None \<Rightarrow> Inl not_found
     | Some row \<Rightarrow>
        if ap_filed_by row \<noteq> ac_user a \<or> ap_student row \<noteq> ac_user a
        then Inl (HttpError 403 ''forbidden'')
        else if ap_status row \<noteq> ''draft'' then Inl (HttpError 409 ''appeal_not_draft'')
        else (let d1 = append_audit a ''appeal.draft_deleted'' ''appeal'' (dec_int i) d in
          Inr (d1\<lparr>db_appeals := delete_where (\<lambda>p. ap_id p = i \<and> ap_status p = ''draft'') (db_appeals d1),
                 db_evidence := delete_where (\<lambda>f. ed_appeal f = Some i) (db_evidence d1),
                 db_appeal_reviewers := delete_where (\<lambda>r. ar_appeal r = i) (db_appeal_reviewers d1)\<rparr>,
               map ed_object (filter (\<lambda>f. ed_appeal f = Some i) (db_evidence d))))))"

definition appeal_withdrawable :: "appeal_row \<Rightarrow> nat \<Rightarrow> bool" where
  "appeal_withdrawable row decided \<longleftrightarrow> ap_kind row = ''student_appeal''
     \<and> (ap_status row = ''filed'' \<or> ap_status row = ''reviewing'') \<and> decided = 0"

definition decided_reviewers :: "db \<Rightarrow> int \<Rightarrow> nat" where
  "decided_reviewers d i =
     count_where (\<lambda>r. ar_appeal r = i \<and> ar_decided_at r \<noteq> None) (db_appeal_reviewers d)"

definition withdraw_target_check :: "db \<Rightarrow> actor \<Rightarrow> appeal_row \<Rightarrow> http_error option" where
  "withdraw_target_check d a row =
    (if ap_target_type row \<noteq> ''submission'' then None
     else (case load_owned d (ap_target row) (ac_user a) of
         None \<Rightarrow> Some not_found
       | Some s \<Rightarrow> if sb_status s \<noteq> Appealing then Some (HttpError 409 ''appeal_target_changed'')
                  else None))"

definition withdraw_appeal :: "env \<Rightarrow> actor \<Rightarrow> int \<Rightarrow> db \<Rightarrow> unit handler" where
  "withdraw_appeal e a i d = (case path_id i of Some err \<Rightarrow> Inl err | None \<Rightarrow>
    (case find_appeal d i of
       None \<Rightarrow> Inl not_found
     | Some row \<Rightarrow>
        if ap_filed_by row \<noteq> ac_user a \<or> ap_student row \<noteq> ac_user a
        then Inl (HttpError 403 ''forbidden'')
        else if list_ex (\<lambda>p. pr_action p = ''appeal'' \<and> pr_target p = Some i) (db_proposals d)
        then Inl (HttpError 409 ''collective_panel_frozen'')
        else if \<not> appeal_withdrawable row (decided_reviewers d i)
        then Inl (HttpError 409 ''appeal_not_withdrawable'')
        else (case withdraw_target_check d a row of Some err \<Rightarrow> Inl err | None \<Rightarrow>
        (case (if ap_target_type row = ''submission'' then workflow_check d (ap_target row) else None) of
           Some err \<Rightarrow> Inl err
         | None \<Rightarrow> (let d1 = d\<lparr>db_appeal_reviewers := delete_where (\<lambda>r. ar_appeal r = i) (db_appeal_reviewers d),
                    db_appeals := where_set (\<lambda>p. ap_id p = i \<and> ap_status p \<in> {''filed'', ''reviewing''})
                      (\<lambda>p. p\<lparr>ap_status := ''draft''\<rparr>) (db_appeals d)\<rparr> in
         (case (if ap_target_type row = ''submission''
                then update_submissions (\<lambda>s. sb_id s = ap_target row \<and> sb_status s = Appealing)
                       (set_status e Scored) d1
                else Inr d1) of
            Inl err \<Rightarrow> Inl err
          | Inr d2 \<Rightarrow> Inr (invalidate_latest_settlement ''student appeal withdrawn to draft''
              (append_audit a ''appeal.withdrawn'' ''appeal'' (dec_int i) d2), ())))))))"

section \<open>Outcomes\<close>

record appeal_outcome =
  ao_category :: string
  ao_item :: string
  ao_snapshot :: "rule_snapshot option"
  ao_score :: f64

datatype reconcile_error = AppealExpected | AppealTooMany

definition reconcile_appeal_outcomes ::
    "int \<Rightarrow> appeal_outcome list \<Rightarrow> (reconcile_error, string \<times> appeal_outcome option \<times> bool) result" where
  "reconcile_appeal_outcomes expected outcomes =
    (if expected < 1 \<or> 2 < expected then Inl AppealExpected
     else if expected < int (length outcomes) then Inl AppealTooMany
     else if int (length outcomes) < expected then Inr (''reviewing'', None, False)
     else (let first = outcomes ! 0 in
       if list_ex (\<lambda>o'. ao_category o' \<noteq> ao_category first \<or> ao_item o' \<noteq> ao_item first
            \<or> new_points (ao_score o') \<noteq> new_points (ao_score first)) (tl outcomes)
       then Inr (''escalated'', None, True) else Inr (''resolved'', Some first, False)))"

definition reconcile_appeal_scores ::
    "int \<Rightarrow> f64 list \<Rightarrow> (reconcile_error, string \<times> f64 option \<times> bool) result" where
  "reconcile_appeal_scores expected scores =
    (if expected < 1 \<or> 2 < expected then Inl AppealExpected
     else if expected < int (length scores) then Inl AppealTooMany
     else if int (length scores) < expected then Inr (''reviewing'', None, False)
     else if list_ex (\<lambda>s. new_points s \<noteq> new_points (scores ! 0)) (tl scores)
     then Inr (''escalated'', None, True) else Inr (''resolved'', Some (scores ! 0), False))"

record resolution_request =
  rq_decision :: string
  rq_category :: string
  rq_item :: string
  rq_score :: "f64 option"
  rq_reason :: string
  rq_spent :: int

definition resolve_appeal_outcome ::
    "env \<Rightarrow> db \<Rightarrow> appeal_row \<Rightarrow> appeal_target \<Rightarrow> resolution_request \<Rightarrow> appeal_outcome option" where
  "resolve_appeal_outcome e d row t x = (case rq_score x of
      None \<Rightarrow> None
    | Some v \<Rightarrow>
       (let score = points_float (new_points v);
            category = trim_space (rq_category x); key = trim_space (rq_item x) in
        if at_type t \<noteq> ''submission'' then
          (if validate_appeal_resolution t score
           then Some \<lparr>ao_category = at_category t, ao_item = at_item t, ao_snapshot = at_snapshot t,
                  ao_score = score\<rparr> else None)
        else (case (if category = [] \<and> key = [] then
                  (case (ap_proposed_category row, ap_proposed_item row) of
                     (Some c, Some k) \<Rightarrow> Some (c, k) | _ \<Rightarrow> Some (at_category t, at_item t))
                else if category = [] \<or> key = [] then None else Some (category, key)) of
            None \<Rightarrow> None
          | Some (c, k) \<Rightarrow> (case load_classification_target e d (at_id t) c k of
              None \<Rightarrow> None
            | Some ct \<Rightarrow> if score_within_rule (it_score_rule (ct_item ct)) score
                then Some \<lparr>ao_category = ca_key (ct_category ct), ao_item = it_key (ct_item ct),
                       ao_snapshot = Some (ct_snapshot ct), ao_score = score\<rparr> else None))))"

definition uphold_outcome_matches :: "string \<Rightarrow> appeal_outcome \<Rightarrow> appeal_row \<Rightarrow> bool" where
  "uphold_outcome_matches decision out row \<longleftrightarrow> decision \<noteq> ''uphold''
     \<or> (case (ap_original_score row, ap_original_category row, ap_original_item row) of
          (Some p, Some c, Some k) \<Rightarrow> new_points (ao_score out) = new_points (points_float p)
             \<and> ao_category out = c \<and> ao_item out = k
        | _ \<Rightarrow> False)"

definition apply_appeal_score :: "appeal_target \<Rightarrow> f64 \<Rightarrow> string \<Rightarrow> db \<Rightarrow> db" where
  \<comment> \<open>for base and penalty scores; submissions go through \<open>apply_appeal_outcome\<close>\<close>
  "apply_appeal_score t score basis d = d\<lparr>db_base := where_set (\<lambda>b. bs_id b = at_id t)
     (\<lambda>b. if (case at_current t of None \<Rightarrow> False | Some c \<Rightarrow> new_points c = new_points score)
          then b\<lparr>bs_score := column_of score\<rparr>
          else b\<lparr>bs_score := column_of score, bs_basis := basis\<rparr>) (db_base d)\<rparr>"

definition text_of :: "string option \<Rightarrow> string" where
  "text_of s = (case s of None \<Rightarrow> [] | Some x \<Rightarrow> x)"

definition apply_appeal_outcome ::
    "env \<Rightarrow> actor \<Rightarrow> appeal_row \<Rightarrow> appeal_target \<Rightarrow> appeal_outcome \<Rightarrow> string \<Rightarrow> db
     \<Rightarrow> (http_error, db) result" where
  "apply_appeal_outcome e a row t out basis d =
    (if at_type t \<noteq> ''submission'' then
       Inr (invalidate_student_blind_audit e (at_student t) (text_of (ap_origin row))
         ''appeal changed a base or penalty score outside the active blind audit''
         (apply_appeal_score t (ao_score out) basis d))
     else (case (at_snapshot t, ao_snapshot out) of
        (Some before, Some after) \<Rightarrow>
          (let n = db_next d; origin = trim_space (text_of (ap_origin row));
               d1 = d\<lparr>db_resolutions := db_resolutions d @ [\<lparr>rl_id = n, rl_scheme = at_scheme t,
                   rl_submission = at_id t, rl_suggestion = None, rl_appeal = Some (ap_id row),
                   rl_origin = (if origin = [] then None else Some origin), rl_by = ac_user a,
                   rl_before = (at_category t, at_item t, before, map_option column_of (at_current t)),
                   rl_after = (ao_category out, ao_item out, after, column_of (ao_score out)),
                   rl_reason = basis\<rparr>], db_next := n + 1\<rparr> in
           (case update_submissions (\<lambda>s. sb_id s = at_id t)
                   (\<lambda>s. s\<lparr>sb_category := ao_category out, sb_item := ao_item out,
                      sb_snapshot := after, sb_final := Some (column_of (ao_score out)),
                      sb_status := Scored, sb_scored_at := Some (en_now e),
                      sb_updated_at := en_now e, sb_lock_version := sb_lock_version s + 1\<rparr>) d1 of
              Inl err \<Rightarrow> Inl err
            | Inr d2 \<Rightarrow> Inr (invalidate_student_blind_audit e (at_student t) (text_of (ap_origin row))
                ''appeal changed an effective classification or score outside the active blind audit''
                (close_suggestions e a (at_id t) (ao_category out) (ao_item out) basis d2))))
      | _ \<Rightarrow> Inl internal_error))"

section \<open>The first round (decideFirstAppeal)\<close>

definition resolve_request_check :: "resolution_request \<Rightarrow> http_error option" where
  \<comment> \<open>the checks of \<open>resolveAppeal\<close>\<close>
  "resolve_request_check x = (let n = length (trim_space (rq_reason x)) in
     if rq_score x = None \<or> rq_decision x \<noteq> ''uphold'' \<and> rq_decision x \<noteq> ''adjust''
        \<or> n < 4 \<or> 5000 < n \<or> rq_spent x < 0 \<or> 24 * 60 * 60 < rq_spent x
     then Some (HttpError 422 ''resolution_invalid'') else None)"

definition final_request_check :: "resolution_request \<Rightarrow> http_error option" where
  \<comment> \<open>the checks of \<open>finalizeAppealRequest\<close>\<close>
  "final_request_check x = (let n = length (trim_space (rq_reason x)) in
     if rq_score x = None
        \<or> rq_decision x \<noteq> [] \<and> rq_decision x \<noteq> ''uphold'' \<and> rq_decision x \<noteq> ''adjust''
        \<or> n < 6 \<or> 5000 < n
     then Some (HttpError 422 ''resolution_invalid'') else None)"

definition rereview_guard ::
    "env \<Rightarrow> actor \<Rightarrow> int \<Rightarrow> resolution_request \<Rightarrow> db
     \<Rightarrow> (http_error, db \<times> appeal_row \<times> appeal_target \<times> appeal_outcome) result" where
  "rereview_guard e a i x d = (case find_appeal d i of
      None \<Rightarrow> Inl not_found
    | Some row \<Rightarrow>
       if ac_user a = ap_student row then Inl (HttpError 403 ''avoid_self'')
       else if ap_kind row \<noteq> ''student_appeal'' \<or> ap_round row \<noteq> 1 \<or> ap_status row \<noteq> ''reviewing''
       then Inl (HttpError 409 ''not_reconsiderable'')
       else (case find (\<lambda>r. ar_appeal r = i \<and> ar_reviewer r = ac_user a) (db_appeal_reviewers d) of
          None \<Rightarrow> Inl (HttpError 403 ''not_handler'')
        | Some r \<Rightarrow>
           if ar_score r \<noteq> None then Inl (HttpError 409 ''already_reviewed'')
           else (case load_current_scheme e d of
              Inl err \<Rightarrow> Inl internal_error
            | Inr (d1, current) \<Rightarrow>
               if ensure_capability (ss_config current) ''review'' (en_now e) \<noteq> None
               then Inl (HttpError 409 ''resolution_closed'')
               else (case load_appeal_target d1 (ap_target_type row) (ap_target row) (ap_student row) of
                  Target t \<Rightarrow> (case resolve_appeal_outcome e d1 row t x of
                      None \<Rightarrow> Inl (HttpError 422 ''appeal_outcome_invalid'')
                    | Some out \<Rightarrow> if \<not> uphold_outcome_matches (rq_decision x) out row
                        then Inl (HttpError 422 ''uphold_outcome_mismatch'')
                        else Inr (d1, row, t, out))
                | _ \<Rightarrow> Inl internal_error))))"

definition record_rereview ::
    "env \<Rightarrow> actor \<Rightarrow> int \<Rightarrow> resolution_request \<Rightarrow> appeal_outcome \<Rightarrow> db \<Rightarrow> db" where
  "record_rereview e a i x out d = d\<lparr>db_appeal_reviewers := where_set
     (\<lambda>r. ar_appeal r = i \<and> ar_reviewer r = ac_user a)
     (\<lambda>r. r\<lparr>ar_decision := Some (rq_decision x), ar_score := Some (column_of (ao_score out)),
        ar_category := Some (ao_category out), ar_item := Some (ao_item out),
        ar_snapshot := ao_snapshot out, ar_reason := Some (trim_space (rq_reason x)),
        ar_spent := Some (rq_spent x), ar_decided_at := Some (en_now e)\<rparr>) (db_appeal_reviewers d)\<rparr>"

definition position_before :: "appeal_reviewer \<Rightarrow> appeal_reviewer \<Rightarrow> bool" where
  "position_before p q \<longleftrightarrow> ar_position p < ar_position q"

definition panel_of :: "db \<Rightarrow> int \<Rightarrow> appeal_reviewer list" where
  "panel_of d i = sort_less position_before (filter (\<lambda>r. ar_appeal r = i) (db_appeal_reviewers d))"

definition outcome_of :: "appeal_reviewer \<Rightarrow> appeal_outcome option" where
  "outcome_of r = (case (ar_score r, ar_category r, ar_item r) of
      (Some p, Some c, Some k) \<Rightarrow> Some \<lparr>ao_category = c, ao_item = k, ao_snapshot = ar_snapshot r,
         ao_score = points_float p\<rparr>
    | _ \<Rightarrow> None)"

definition join_reasons :: "string list \<Rightarrow> string" where
  "join_reasons rs = (case rs of [] \<Rightarrow> []
     | r # rest \<Rightarrow> foldl (\<lambda>acc s. acc @ [CHR 0x0A, CHR 0x0A] @ s) r rest)"

definition agreed_basis :: string where
  "agreed_basis = [CHR 0xE7, CHR 0xAC, CHR 0xAC, CHR 0xE4, CHR 0xB8, CHR 0x80, CHR 0xE6, CHR 0xAC,
     CHR 0xA1, CHR 0xE7, CHR 0x94, CHR 0xB3, CHR 0xE8, CHR 0xAF, CHR 0x89, CHR 0xE7,
     CHR 0xBB, CHR 0x8F, CHR 0xE5, CHR 0x8E, CHR 0x9F, CHR 0xE5, CHR 0xAE, CHR 0xA1,
     CHR 0xE6, CHR 0xA0, CHR 0xB8, CHR 0xE4, CHR 0xBA, CHR 0xBA, CHR 0xE5, CHR 0xA4,
     CHR 0x8D, CHR 0xE6, CHR 0xA0, CHR 0xB8, CHR 0xE4, CHR 0xB8, CHR 0x80, CHR 0xE8,
     CHR 0x87, CHR 0xB4]"

definition escalated_reason :: string where
  "escalated_reason = [CHR 0xE5, CHR 0x8E, CHR 0x9F, CHR 0xE5, CHR 0xAE, CHR 0xA1, CHR 0xE6, CHR 0xA0,
     CHR 0xB8, CHR 0xE4, CHR 0xBA, CHR 0xBA, CHR 0xE5, CHR 0xA4, CHR 0x8D, CHR 0xE6,
     CHR 0xA0, CHR 0xB8, CHR 0xE5, CHR 0x88, CHR 0x86, CHR 0xE6, CHR 0x95, CHR 0xB0,
     CHR 0xE4, CHR 0xB8, CHR 0x8D, CHR 0xE4, CHR 0xB8, CHR 0x80, CHR 0xE8, CHR 0x87,
     CHR 0xB4, CHR 0xEF, CHR 0xBC, CHR 0x8C, CHR 0xE8, CHR 0xBD, CHR 0xAC, CHR 0xE7,
     CHR 0x8F, CHR 0xAD, CHR 0xE7, CHR 0xBA, CHR 0xA7, CHR 0xE7, CHR 0xAE, CHR 0xA1,
     CHR 0xE7, CHR 0x90, CHR 0x86, CHR 0xE5, CHR 0x91, CHR 0x98, CHR 0xE4, CHR 0xBB,
     CHR 0xB2, CHR 0xE8, CHR 0xA3, CHR 0x81]"

definition settle_rereview ::
    "env \<Rightarrow> actor \<Rightarrow> int \<Rightarrow> appeal_row \<Rightarrow> appeal_target \<Rightarrow> appeal_outcome option \<Rightarrow> bool \<Rightarrow> db
     \<Rightarrow> (http_error, db) result" where
  "settle_rereview e a i row t final conflict d = (case final of
      Some out \<Rightarrow>
        (let reason = join_reasons (map (\<lambda>r. text_of (ar_reason r))
                 (filter (\<lambda>r. ar_reason r \<noteq> None) (panel_of d i)));
             d1 = d\<lparr>db_appeals := where_set (\<lambda>p. ap_id p = i) (\<lambda>p. p\<lparr>ap_status := ''resolved'',
                 ap_resolution_score := Some (column_of (ao_score out)),
                 ap_resolution_category := Some (ao_category out),
                 ap_resolution_item := Some (ao_item out),
                 ap_resolution_snapshot := ao_snapshot out,
                 ap_resolution_reason := Some reason, ap_resolved_at := Some (en_now e)\<rparr>)
               (db_appeals d)\<rparr> in
         (case apply_appeal_outcome e a row t out agreed_basis d1 of
            Inl err \<Rightarrow> Inl err
          | Inr d2 \<Rightarrow> Inr (invalidate_latest_settlement
              ''first appeal reconsideration changed a score'' d2)))
    | None \<Rightarrow>
        if \<not> conflict then Inr d
        else (let d1 = d\<lparr>db_appeals := where_set (\<lambda>p. ap_id p = i) (\<lambda>p. p\<lparr>ap_status := ''escalated'',
                 ap_resolution_score := None, ap_resolution_reason := Some escalated_reason\<rparr>)
               (db_appeals d)\<rparr> in
          (case reopen_check d t of Some err \<Rightarrow> Inl err | None \<Rightarrow>
           if at_type t = ''submission''
           then update_submissions (\<lambda>s. sb_id s = at_id t) (set_status e Arbitrating) d1 else Inr d1)))"

definition decide_first_appeal ::
    "env \<Rightarrow> actor \<Rightarrow> int \<Rightarrow> resolution_request \<Rightarrow> db \<Rightarrow> (string \<times> bool) handler" where
  "decide_first_appeal e a i x d =
    (case path_id i of Some err \<Rightarrow> Inl err | None \<Rightarrow>
    (case resolve_request_check x of Some err \<Rightarrow> Inl err | None \<Rightarrow>
    (case rereview_guard e a i x d of
       Inl err \<Rightarrow> Inl err
     | Inr (d1, row, t, out) \<Rightarrow>
        (let d2 = record_rereview e a i x out d1; panel = panel_of d2 i in
         (case reconcile_appeal_outcomes (int (length panel)) (List.map_filter outcome_of panel) of
            Inl err \<Rightarrow> Inl internal_error
          | Inr (status, final, conflict) \<Rightarrow>
             (case settle_rereview e a i row t final conflict d2 of
                Inl err \<Rightarrow> Inl err
              | Inr d3 \<Rightarrow>
                 (let d4 = enqueue_event ''appeal.rereviewed'' i
                        (append_audit a ''appeal.rereviewed'' ''appeal'' (dec_int i) d3) in
                  Inr (if status = ''reviewing'' then d4
                       else if conflict then enqueue_event ''appeal.escalated'' i d4
                       else enqueue_event ''appeal.resolved'' i d4, status, conflict))))))))"

section \<open>The final decision (finalizeAppeal)\<close>

definition finalize_appeal :: "env \<Rightarrow> actor \<Rightarrow> int \<Rightarrow> resolution_request \<Rightarrow> db \<Rightarrow> f64 handler" where
  "finalize_appeal e a i x d =
    (case path_id i of Some err \<Rightarrow> Inl err | None \<Rightarrow>
    (case final_request_check x of Some err \<Rightarrow> Inl err | None \<Rightarrow>
    (case find_appeal d i of
       None \<Rightarrow> Inl not_found
     | Some row \<Rightarrow>
        if ap_kind row \<noteq> ''student_appeal'' \<or> \<not> open_status (ap_status row)
        then Inl (HttpError 409 ''not_finalizable'')
        else (case load_current_scheme e d of
           Inl err \<Rightarrow> Inl internal_error
         | Inr (d1, current) \<Rightarrow>
            if ensure_capability (ss_config current) ''arbitrate'' (en_now e) \<noteq> None
            then Inl (HttpError 409 ''resolution_closed'')
            else (case authorize_adjudication d1 a (ap_student row) of Some err \<Rightarrow> Inl err | None \<Rightarrow>
            (case load_appeal_target d1 (ap_target_type row) (ap_target row) (ap_student row) of
               Target t \<Rightarrow> (case resolve_appeal_outcome e d1 row t x of
                   None \<Rightarrow> Inl (HttpError 422 ''appeal_outcome_invalid'')
                 | Some out \<Rightarrow>
                    if \<not> uphold_outcome_matches (rq_decision x) out row
                    then Inl (HttpError 422 ''uphold_outcome_mismatch'')
                    else (case apply_appeal_outcome e a row t out (trim_space (rq_reason x)) d1 of
                       Inl err \<Rightarrow> Inl err
                     | Inr d2 \<Rightarrow>
                        (let d3 = d2\<lparr>db_appeals := where_set (\<lambda>p. ap_id p = i) (\<lambda>p. p\<lparr>
                               ap_status := ''final'', ap_handler := Some (ac_user a),
                               ap_resolution_score := Some (column_of (ao_score out)),
                               ap_resolution_category := Some (ao_category out),
                               ap_resolution_item := Some (ao_item out),
                               ap_resolution_snapshot := ao_snapshot out,
                               ap_resolution_reason := Some (trim_space (rq_reason x)),
                               ap_resolved_at := Some (en_now e)\<rparr>) (db_appeals d2)\<rparr> in
                         Inr (invalidate_latest_settlement
                                ''appeal or objection finalization changed a score''
                                (enqueue_event ''arbitration.resolved'' i
                                  (enqueue_event ''appeal.resolved'' i
                                    (append_audit a ''appeal.final'' ''appeal'' (dec_int i) d3))),
                              ao_score out))))
             | _ \<Rightarrow> Inl internal_error))))))"

end
