(* ===== verification/Settle.thy ===== *)
theory Settle
  imports SchemeWellformed
begin

text \<open>
  Settlement: \<open>internal/settle/settle.go\<close> and \<open>gate.go\<close>.  From every student's category
  points, weights and the honour roll to the frozen ranking, and the gate that decides
  whether a settlement may run.
\<close>

section \<open>Data (settle.go)\<close>

record student_input =
  st_user :: int
  st_sid :: string
  st_name :: string
  st_scores :: "(string, points) gomap"

record snapshot =
  sn_user :: int
  sn_sid :: string
  sn_name :: string
  sn_category_scores :: "(string, f64) gomap"
  sn_category_ranks :: "(string, int) gomap"
  sn_total_score :: f64
  sn_class_rank :: int
  sn_major_rank :: int
  sn_honor :: bool
  sn_award_tier :: string
  sn_total :: points
  sn_major :: points

record ranked =
  rk_user :: int
  rk_scores :: "(string, f64) gomap"

datatype settle_error =
    TopPercentInvalid | WeightInvalid | WeightsNotOne | StudentsInvalid

section \<open>Ranks, quotas and tiers\<close>

definition quota :: "int \<Rightarrow> int \<Rightarrow> int" where
  "quota n percent =
     int64_of_f64 (math_round (fdiv (fmul (f64_of_int n) (f64_of_int percent)) (Fin 100)))"

primrec fill_tier :: "nat \<Rightarrow> string \<Rightarrow> string list \<times> nat \<Rightarrow> string list \<times> nat" where
  \<comment> \<open>the inner loop of \<open>awardTiers\<close>: that many places from \<open>next\<close> on\<close>
  "fill_tier 0 name st = st"
| "fill_tier (Suc k) name st =
     (if snd st < length (fst st)
      then fill_tier k name ((fst st)[snd st := name], Suc (snd st)) else st)"

definition award_tiers :: "nat \<Rightarrow> award list \<Rightarrow> string list" where
  "award_tiers n awards =
     fst (foldl (\<lambda>st a. fill_tier (nat (quota (int n) (aw_top_percent a))) (aw_name a) st)
       (replicate n [], 0) awards)"

fun competition_rank :: "('a \<Rightarrow> points) \<Rightarrow> 'a list \<Rightarrow> nat \<Rightarrow> int" where
  "competition_rank score rows 0 = 1"
| "competition_rank score rows (Suc i) =
     (if score (rows ! Suc i) = score (rows ! i) then competition_rank score rows i
      else int (Suc i) + 1)"

definition ranked_score :: "string \<Rightarrow> ranked \<Rightarrow> points" where
  "ranked_score key r = new_points (go_get (Fin 0) (rk_scores r) key)"

definition category_before :: "string \<Rightarrow> ranked \<Rightarrow> ranked \<Rightarrow> bool" where
  "category_before key a b \<longleftrightarrow>
     (if ranked_score key a \<noteq> ranked_score key b then ranked_score key b < ranked_score key a
      else rk_user a < rk_user b)"

fun assign_ranks :: "('a \<Rightarrow> points) \<Rightarrow> nat \<Rightarrow> int \<Rightarrow> points \<Rightarrow> 'a list \<Rightarrow> ('a \<times> int) list" where
  \<comment> \<open>the loop over the ordered rows with \<open>index\<close>, \<open>rank\<close> and \<open>previous\<close>\<close>
  "assign_ranks score index rank previous [] = []"
| "assign_ranks score index rank previous (r # rs) =
     (let s = score r;
          rank' = (if index = 0 \<or> s \<noteq> previous then int index + 1 else rank)
      in (r, rank') # assign_ranks score (Suc index) rank' s rs)"

type_synonym rank_table = "(int, (string, int) gomap) gomap"

definition set_rank :: "string \<Rightarrow> rank_table \<Rightarrow> ranked \<times> int \<Rightarrow> rank_table" where
  "set_rank key m p = AList.update (rk_user (fst p))
     (AList.update key (snd p) (go_get [] m (rk_user (fst p)))) m"

definition rank_category :: "ranked list \<Rightarrow> rank_table \<Rightarrow> string \<Rightarrow> rank_table" where
  "rank_category rows m key = foldl (set_rank key) m
     (assign_ranks (ranked_score key) 0 0 0 (sort_less (category_before key) rows))"

definition category_ranks :: "(string list \<Rightarrow> string list) \<Rightarrow> ranked list \<Rightarrow> rank_table" where
  \<comment> \<open>\<open>visit\<close> is the order in which Go ranges over the set of keys\<close>
  "category_ranks visit rows =
     (let keys = remdups (concat (map (\<lambda>r. map fst (rk_scores r)) rows));
          start = foldl (\<lambda>m r. AList.update (rk_user r) [] m) [] rows
      in foldl (rank_category rows) start (visit keys))"

definition honored :: "(string, int) gomap \<Rightarrow> (string, f64) gomap \<Rightarrow> int \<Rightarrow> bool" where
  "honored ranks weights line \<longleftrightarrow> \<not> line \<le> 0
     \<and> list_all (\<lambda>(key, weight). fle weight (Fin 0)
          \<or> (case map_of ranks key of None \<Rightarrow> False | Some rank \<Rightarrow> rank \<le> line)) weights"

section \<open>The settlement (Compute)\<close>

fun add_settle_weight :: "f64 \<Rightarrow> string \<times> f64 \<Rightarrow> (settle_error, f64) result" where
  "add_settle_weight s (key, weight) =
     (if flt weight (Fin 0) \<or> \<not> finite64 weight then Inl WeightInvalid else Inr (fadd s weight))"

definition weighted_points :: "(string, f64) gomap \<Rightarrow> string \<times> points \<Rightarrow> points" where
  "weighted_points weights p =
     new_points (fmul (points_float (snd p)) (go_get (Fin 0) weights (fst p)))"

definition snapshot_row :: "(string, f64) gomap \<Rightarrow> student_input \<Rightarrow> snapshot" where
  "snapshot_row weights s = (let t = i64sum (map (weighted_points weights) (st_scores s)) in
     \<lparr>sn_user = st_user s, sn_sid = st_sid s, sn_name = st_name s,
      sn_category_scores = map (\<lambda>(k, p). (k, points_float p)) (st_scores s),
      sn_category_ranks = [], sn_total_score = points_float t, sn_class_rank = 0,
      sn_major_rank = 0, sn_honor = False, sn_award_tier = [],
      sn_total = t, sn_major = go_get 0 (st_scores s) ''major''\<rparr>)"

fun add_student :: "(string, f64) gomap \<Rightarrow> string set \<times> snapshot list \<Rightarrow> student_input
    \<Rightarrow> (settle_error, string set \<times> snapshot list) result" where
  "add_student weights (seen, rows) s =
     (if st_user s = 0 \<or> st_sid s = [] \<or> st_sid s \<in> seen then Inl StudentsInvalid
      else Inr (insert (st_sid s) seen, rows @ [snapshot_row weights s]))"

definition award_before :: "snapshot \<Rightarrow> snapshot \<Rightarrow> bool" where
  "award_before a b \<longleftrightarrow>
     (if sn_total a \<noteq> sn_total b then sn_total b < sn_total a
      else if sn_major a \<noteq> sn_major b then sn_major b < sn_major a
      else sn_sid a < sn_sid b)"

definition finish_row :: "rank_table \<Rightarrow> (string, f64) gomap \<Rightarrow> int \<Rightarrow> snapshot list \<Rightarrow> string list
    \<Rightarrow> nat \<Rightarrow> snapshot" where
  "finish_row ranks weights line rows tiers i =
     (let r = rows ! i; mine = go_get [] ranks (sn_user r) in
      r\<lparr>sn_class_rank := competition_rank sn_total rows i, sn_category_ranks := mine,
        sn_major_rank := go_get 0 mine ''major'', sn_honor := honored mine weights line,
        sn_award_tier := tiers ! i\<rparr>)"

definition ranked_of :: "snapshot \<Rightarrow> ranked" where
  "ranked_of r = \<lparr>rk_user = sn_user r, rk_scores = sn_category_scores r\<rparr>"

definition compute ::
  "((string \<times> f64) list \<Rightarrow> (string \<times> f64) list) \<Rightarrow> (string list \<Rightarrow> string list)
   \<Rightarrow> student_input list \<Rightarrow> (string, f64) gomap \<Rightarrow> honor_roll
   \<Rightarrow> (settle_error, snapshot list) result" where
  "compute visit_weights visit_keys students weights roll =
    (if hr_top_percent roll < 0 \<or> 100 < hr_top_percent roll then Inl TopPercentInvalid
     else (case fold_res add_settle_weight (Fin 0) (visit_weights weights) of
         Inl e \<Rightarrow> Inl e
       | Inr s \<Rightarrow>
           if flt (rnd64 (1 / 1000000)) (fabs (fsub s (Fin 1))) then Inl WeightsNotOne
           else (case fold_res (add_student weights) ({}, []) students of
               Inl e \<Rightarrow> Inl e
             | Inr (_, result) \<Rightarrow>
                 (let rows = sort_less award_before result;
                      ranks = category_ranks visit_keys (map ranked_of rows);
                      line = quota (int (length rows)) (hr_top_percent roll);
                      tiers = award_tiers (length rows) (hr_awards roll)
                  in Inr (map (finish_row ranks weights line rows tiers) [0..<length rows])))))"

section \<open>The gate (gate.go)\<close>

record gate_input =
  gi_students :: int
  gi_sealed :: int
  gi_window_close :: time
  gi_now :: time
  gi_unfinalized :: int
  gi_classifications :: int
  gi_blind_complete :: bool
  gi_confirmed :: int
  gi_conflicts :: int
  gi_gpa :: int
  gi_forced :: bool

record gate =
  ga_open :: bool
  ga_forced :: bool
  ga_conditions :: "(string \<times> bool) list"

definition evaluate_gate_input :: "gate_input \<Rightarrow> gate" where
  \<comment> \<open>\<open>EvaluateGate\<close>; a condition is its key and its verdict\<close>
  "evaluate_gate_input g =
    (let sealed = 0 < gi_students g \<and> gi_students g \<le> gi_sealed g;
         closed = \<not> gi_now g < gi_window_close g;
         conditions =
           [(''sealed'', sealed \<or> closed),
            (''allReviewsFinal'', gi_unfinalized g = 0),
            (''classificationResolved'', gi_classifications g = 0),
            (''noConflict'', gi_conflicts g = 0),
            (''gpaImported'', 0 < gi_students g \<and> gi_students g \<le> gi_gpa g)]
     in \<lparr>ga_open = list_all snd conditions \<or> gi_forced g, ga_forced = gi_forced g,
         ga_conditions = conditions\<rparr>)"

section \<open>Competition ranks\<close>

text \<open>In a list sorted by falling score, a competition rank counts the better rows.\<close>

definition better :: "('a \<Rightarrow> points) \<Rightarrow> 'a list \<Rightarrow> points \<Rightarrow> int" where
  "better score rows p = int (length (filter (\<lambda>r. p < score r) rows))"

lemma better_perm: "mset xs = mset ys \<Longrightarrow> better f xs p = better f ys p"
  unfolding better_def by (metis mset_filter size_mset)

definition falling :: "('a \<Rightarrow> points) \<Rightarrow> 'a list \<Rightarrow> bool" where
  "falling score rows \<longleftrightarrow> sorted_wrt (\<lambda>a b. score b \<le> score a) rows"

lemma falling_split:
  assumes "falling f (xs @ y # ys)" and "\<forall>x \<in> set xs. f y < f x"
  shows "better f (xs @ y # ys) (f y) = int (length xs)"
proof -
  have "filter (\<lambda>r. f y < f r) (y # ys) = []"
    using assms(1) by (auto simp: falling_def sorted_wrt_append filter_empty_conv not_less)
  moreover have "filter (\<lambda>r. f y < f r) xs = xs"
    using assms(2) by (simp add: filter_id_conv)
  ultimately show ?thesis by (simp add: better_def)
qed

lemma competition_rank_better:
  assumes "falling f rows" and "i < length rows"
  shows "competition_rank f rows i = 1 + better f rows (f (rows ! i))"
  using assms(2)
proof (induction i)
  case 0
  then obtain r rs where rows: "rows = r # rs" by (cases rows) auto
  have "better f ([] @ r # rs) (f r) = int (length ([]::'a list))"
    using assms(1) by (intro falling_split) (simp_all add: rows)
  then show ?case by (simp add: rows)
next
  case (Suc i)
  show ?case
  proof (cases "f (rows ! Suc i) = f (rows ! i)")
    case True
    then show ?thesis using Suc by simp
  next
    case False
    have rows: "rows = take (Suc i) rows @ rows ! Suc i # drop (Suc (Suc i)) rows"
      using Suc.prems by (rule id_take_nth_drop)
    have "f (rows ! Suc i) < f r" if "r \<in> set (take (Suc i) rows)" for r
    proof -
      from that [unfolded in_set_conv_nth]
      obtain j where a: "j < length (take (Suc i) rows)" and b: "take (Suc i) rows ! j = r"
        by (elim exE conjE)
      have lt: "j < Suc i" using a by (simp only: length_take min_less_iff_conj)
      have j: "j < Suc i" "r = rows ! j" using lt b [symmetric] nth_take [OF lt, of rows] by simp_all
      have w: "sorted_wrt (\<lambda>a b. f b \<le> f a) rows" using assms(1) by (simp add: falling_def)
      have "f (rows ! i) \<le> f (rows ! j)"
        using sorted_wrt_nth_less [OF w, of j i] j Suc.prems by (cases "j = i") auto
      moreover have "f (rows ! Suc i) \<le> f (rows ! i)"
        using sorted_wrt_nth_less [OF w, of i "Suc i"] Suc.prems by simp
      ultimately have "f (rows ! Suc i) < f (rows ! j)" using False by linarith
      then show ?thesis using j(2) by simp
    qed
    then have "better f rows (f (rows ! Suc i)) = int (length (take (Suc i) rows))"
      using falling_split [of f "take (Suc i) rows" "rows ! Suc i" "drop (Suc (Suc i)) rows"] assms(1)
      unfolding rows [symmetric] by blast
    then show ?thesis using False Suc.prems by simp
  qed
qed

lemma assign_ranks_step:
  assumes "falling f (xs @ y # ys)" and "xs = [] \<or> previous = f (last xs) \<and> rank = 1 + better f (xs @ y # ys) previous"
  shows "(if length xs = 0 \<or> f y \<noteq> previous then int (length xs) + 1 else rank)
    = 1 + better f (xs @ y # ys) (f y)"
proof (cases "xs = [] \<or> f y \<noteq> previous")
  case True
  have "\<forall>x \<in> set xs. f y < f x"
  proof
    fix x assume x: "x \<in> set xs"
    then obtain zs z where xs: "xs = zs @ [z]" by (metis append_butlast_last_id empty_iff list.set(1))
    have "f y \<le> f z" and "x \<in> set zs \<Longrightarrow> f z \<le> f x"
      using assms(1) by (auto simp: falling_def xs sorted_wrt_append)
    moreover have "f y \<noteq> f z" using True assms(2) x xs by auto
    ultimately show "f y < f x" using x xs by auto
  qed
  then show ?thesis using falling_split [OF assms(1)] True by auto
next
  case False
  then show ?thesis using assms(2) by auto
qed

lemma assign_ranks_better:
  assumes "falling f (xs @ ys)" and "index = length xs"
    and "xs = [] \<or> previous = f (last xs) \<and> rank = 1 + better f (xs @ ys) previous"
  shows "assign_ranks f index rank previous ys = map (\<lambda>r. (r, 1 + better f (xs @ ys) (f r))) ys"
  using assms
proof (induction ys arbitrary: xs index rank previous)
  case (Cons y ys)
  have step: "(if index = 0 \<or> f y \<noteq> previous then int index + 1 else rank)
      = 1 + better f (xs @ y # ys) (f y)"
    unfolding Cons.prems(2) by (rule assign_ranks_step [OF Cons.prems(1) Cons.prems(3)])
  have "assign_ranks f (Suc index) (1 + better f (xs @ y # ys) (f y)) (f y) ys
      = map (\<lambda>r. (r, 1 + better f ((xs @ [y]) @ ys) (f r))) ys"
    using Cons.prems by (intro Cons.IH) auto
  then show ?case by (simp add: Let_def step)
qed simp

section \<open>Category ranks\<close>

interpretation category_order: keyed_order "category_before key" "\<lambda>r. (- ranked_score key r, rk_user r)" for key
  by unfold_locales (auto simp: category_before_def less_prod_def)

interpretation award_order: keyed_order award_before "\<lambda>r. (- sn_total r, - sn_major r, sn_sid r)"
  by unfold_locales (auto simp: award_before_def less_prod_def)

lemma falling_category_sort: "falling (ranked_score key) (sort_less (category_before key) rows)"
  unfolding falling_def
  by (rule sorted_wrt_mono_rel [OF _ category_order.sorted_sort])
    (auto simp: category_before_def not_less split: if_splits)

lemma falling_award_sort: "falling sn_total (sort_less award_before rows)"
  unfolding falling_def
  by (rule sorted_wrt_mono_rel [OF _ award_order.sorted_sort])
    (auto simp: award_before_def not_less split: if_splits)

lemma rank_category_ranks:
  "assign_ranks (ranked_score key) 0 0 0 (sort_less (category_before key) rows)
   = map (\<lambda>r. (r, 1 + better (ranked_score key) rows (ranked_score key r)))
       (sort_less (category_before key) rows)"
proof -
  have "better (ranked_score key) (sort_less (category_before key) rows)
      = better (ranked_score key) rows"
    by (rule ext, rule better_perm) simp
  then show ?thesis
    using assign_ranks_better [of "ranked_score key" "[]" "sort_less (category_before key) rows" 0 0 0]
      falling_category_sort by simp
qed

definition rank_of :: "rank_table \<Rightarrow> int \<Rightarrow> string \<Rightarrow> int option" where
  "rank_of m u k = map_of (go_get [] m u) k"

lemma rank_of_set_rank:
  "rank_of (set_rank key m (r, n)) u k =
     (if u = rk_user r \<and> k = key then Some n else rank_of m u k)"
  by (simp add: rank_of_def set_rank_def go_get_update update_conv)

lemma rank_of_foldl_set_rank:
  assumes "distinct (map rk_user rs)" and "r \<in> set rs"
  shows "rank_of (foldl (set_rank key) m (map (\<lambda>r. (r, g r)) rs)) (rk_user r) k
    = (if k = key then Some (g r) else rank_of m (rk_user r) k)"
  using assms
proof (induction rs arbitrary: m)
  case (Cons x rs)
  show ?case
  proof (cases "r = x")
    case True
    have other: "rank_of (foldl (set_rank key) m' (map (\<lambda>r. (r, g r)) rs)) (rk_user x) k
        = rank_of m' (rk_user x) k" if "rk_user x \<notin> rk_user ` set rs" for m' rs
      using that by (induction rs arbitrary: m') (auto simp: rank_of_set_rank)
    show ?thesis using Cons.prems(1) True by (simp add: other rank_of_set_rank)
  next
    case False
    then have "r \<in> set rs" using Cons.prems by auto
    moreover from this have "rk_user r \<noteq> rk_user x"
      using Cons.prems(1) by (metis distinct.simps(2) imageI list.set_map list.simps(9))
    ultimately have "r \<in> set rs" and "rk_user r \<noteq> rk_user x" .
    then show ?thesis using Cons by (simp add: rank_of_set_rank)
  qed
qed simp

lemma rank_of_rank_category:
  assumes "distinct (map rk_user rows)" and "r \<in> set rows"
  shows "rank_of (rank_category rows m key) (rk_user r) k
    = (if k = key then Some (1 + better (ranked_score key) rows (ranked_score key r))
       else rank_of m (rk_user r) k)"
proof -
  have "distinct (map rk_user (sort_less (category_before key) rows))"
    using assms(1) by (metis mset_eq_imp_distinct_iff mset_map mset_sort_less)
  then show ?thesis
    unfolding rank_category_def rank_category_ranks
    using rank_of_foldl_set_rank assms(2) by (metis set_sort_less)
qed

lemma rank_of_category_ranks:
  assumes "distinct (map rk_user rows)" and "r \<in> set rows" and "visit_order visit"
  shows "rank_of (category_ranks visit rows) (rk_user r) k =
    (if \<exists>q \<in> set rows. k \<in> fst ` set (rk_scores q)
     then Some (1 + better (ranked_score k) rows (ranked_score k r)) else None)"
proof -
  have fold: "rank_of (foldl (rank_category rows) m keys) (rk_user r) k =
      (if k \<in> set keys then Some (1 + better (ranked_score k) rows (ranked_score k r))
       else rank_of m (rk_user r) k)" for m keys
    using assms(1,2) by (induction keys arbitrary: m) (auto simp: rank_of_rank_category)
  have start: "rank_of (foldl (\<lambda>m r. AList.update (rk_user r) [] m) m rs) u k = rank_of m u k"
    if "rank_of m u k = None" for m rs u
    using that
  proof (induction rs arbitrary: m)
    case (Cons x rs)
    have "rank_of (AList.update (rk_user x) [] m) u k = None"
      using Cons.prems by (simp add: rank_of_def go_get_update)
    from Cons.IH [OF this] this Cons.prems show ?case by simp
  qed simp
  let ?keys = "remdups (concat (map (\<lambda>r. map fst (rk_scores r)) rows))"
  have "set (visit ?keys) = set ?keys" using visit_orderD [OF assms(3)] by (rule mset_eq_setD)
  moreover have "k \<in> set ?keys \<longleftrightarrow> (\<exists>q \<in> set rows. k \<in> fst ` set (rk_scores q))" by auto
  moreover have "rank_of (foldl (\<lambda>m r. AList.update (rk_user r) [] m) [] rows) (rk_user r) k = None"
    using start [of "[]"] by (simp add: rank_of_def)
  ultimately show ?thesis unfolding category_ranks_def Let_def by (simp add: fold)
qed

section \<open>Tiers\<close>

lemma fill_tier_take:
  assumes "st = (take n (filled @ replicate n []), length filled)" and "length filled \<le> n"
  shows "fill_tier k name st =
    (take n (take n (filled @ replicate k name) @ replicate n []), min n (length filled + k))"
  using assms
proof (induction k arbitrary: st filled)
  case (Suc k)
  show ?case
  proof (cases "length filled < n")
    case True
    have "(take n (filled @ replicate n []))[length filled := name]
        = take n ((filled @ [name]) @ replicate n [])"
    proof (rule nth_equalityI)
      fix i assume "i < length ((take n (filled @ replicate n []))[length filled := name])"
      then have i: "i < n" by simp
      consider "i < length filled" | "i = length filled" | "length filled < i" by linarith
      then show "(take n (filled @ replicate n []))[length filled := name] ! i
          = take n ((filled @ [name]) @ replicate n []) ! i"
        using i True by cases (auto simp: nth_append nth_list_update nth_Cons')
    qed (use True in simp)
    then have "fill_tier (Suc k) name st
        = fill_tier k name (take n ((filled @ [name]) @ replicate n []), length (filled @ [name]))"
      using Suc.prems True by simp
    also have "\<dots> = (take n (take n ((filled @ [name]) @ replicate k name) @ replicate n []),
        min n (length (filled @ [name]) + k))"
      using True by (intro Suc.IH) auto
    finally show ?thesis by simp
  next
    case False
    then show ?thesis using Suc.prems by simp
  qed
qed simp

lemma foldl_fill_tier:
  assumes "st = (take n (filled @ replicate n []), length filled)" and "length filled \<le> n"
  shows "fst (foldl (\<lambda>st a. fill_tier (q a) (nm a) st) st as)
    = take n (filled @ concat (map (\<lambda>a. replicate (q a) (nm a)) as) @ replicate n [])"
  using assms
proof (induction as arbitrary: st filled)
  case (Cons a as)
  let ?f = "take n (filled @ replicate (q a) (nm a))"
  have "fill_tier (q a) (nm a) st = (take n (?f @ replicate n []), length ?f)"
    using fill_tier_take [OF Cons.prems] Cons.prems(2) by simp
  from Cons.IH [OF this]
  have "fst (foldl (\<lambda>st a. fill_tier (q a) (nm a) st) st (a # as))
      = take n (?f @ concat (map (\<lambda>a. replicate (q a) (nm a)) as) @ replicate n [])"
    by simp
  also have "\<dots> = take n (filled @ concat (map (\<lambda>a. replicate (q a) (nm a)) (a # as)) @ replicate n [])"
    by (cases "length (filled @ replicate (q a) (nm a)) \<le> n") simp_all
  finally show ?case .
qed simp

lemma award_tiers_layout_aux: "length (award_tiers n awards) = n"
  unfolding award_tiers_def
  using foldl_fill_tier [of "(replicate n [], 0)" n "[]"
      "\<lambda>a. nat (quota (int n) (aw_top_percent a))" aw_name awards] by simp

text \<open>
  C33. Award tiers are laid along the ranking, each tier's own head count after the one
  before, the rest of the class without a tier, and never more places than students.
\<close>

theorem award_tiers_layout:
  "award_tiers n awards = take n
     (concat (map (\<lambda>a. replicate (nat (quota (int n) (aw_top_percent a))) (aw_name a)) awards)
      @ replicate n [])"
  unfolding award_tiers_def
  using foldl_fill_tier [of "(replicate n [], 0)" n "[]"
      "\<lambda>a. nat (quota (int n) (aw_top_percent a))" aw_name awards] by simp

text \<open>
  A quota is the percentage of the class rounded half up, exactly: the products and
  quotients of doubles in between do not move a half.
\<close>

lemma hundredth_floor:
  fixes m :: int
  assumes "(m + 50) mod 100 \<noteq> 0" and "\<bar>x - of_int m / 100\<bar> < (1 / 200 :: rat)"
  shows "\<lfloor>x + 1 / 2\<rfloor> = (m + 50) div 100"
proof (rule floor_unique)
  define q r where qr: "q = (m + 50) div 100" "r = (m + 50) mod 100"
  have "m = 100 * q + r - 50" by (simp add: qr)
  then have m: "(of_int m :: rat) / 100 = of_int q + of_int r / 100 - 1 / 2"
    by (simp add: field_simps)
  have "0 \<le> r" "r < 100" "r \<noteq> 0" using assms(1) by (simp_all add: qr)
  then have "1 \<le> r" "r \<le> 99" by auto
  then have "(of_int 1 :: rat) \<le> of_int r" and "of_int r \<le> (of_int 99 :: rat)"
    by (simp_all only: of_int_le_iff)
  then have rr: "1 \<le> (of_int r :: rat)" "(of_int r :: rat) \<le> 99" by simp_all
  have "x < of_int m / 100 + 1 / 200" and "of_int m / 100 - 1 / 200 < x"
    using assms(2) by (simp_all only: abs_less_iff) linarith+
  then show "of_int ((m + 50) div 100) \<le> x + 1 / 2" and "x + 1 / 2 < of_int ((m + 50) div 100) + 1"
    using rr unfolding m qr(1) [symmetric] by linarith+
qed

lemma hundredth_half:
  fixes m :: int
  assumes "(m + 50) mod 100 = 0" and "0 \<le> m" and "m \<le> 10 ^ 12"
  shows "rnd_rat (of_int m / 100) = of_int m / 100" and "\<lfloor>of_int m / 100 + 1 / 2 :: rat\<rfloor> = (m + 50) div 100"
proof -
  define q where q: "q = (m + 50) div 100"
  have m: "m = 100 * q - 50" using assms(1) by (simp add: q) (metis add_diff_cancel mult_div_mod_eq add.right_neutral)
  have eq: "(of_int m :: rat) / 100 = of_int (2 * q - 1) * 2 powi (-1)"
    unfolding m by (simp add: power_int_minus field_simps)
  have "\<bar>2 * q - 1\<bar> < 2 ^ 53" using assms(2,3) m by simp
  then show "rnd_rat (of_int m / 100) = of_int m / 100"
    by (intro rnd_rat_exact [OF eq]) auto
  have "(of_int m :: rat) / 100 + 1 / 2 = of_int q" unfolding m by (simp add: field_simps)
  then show "\<lfloor>of_int m / 100 + 1 / 2 :: rat\<rfloor> = (m + 50) div 100" by (simp add: q)
qed

text \<open>
  C34. A quota is the percentage of the class rounded half up, exactly: although it is
  computed with doubles, for every class of up to \<open>10 ^ 9\<close> students and every percentage it
  is the integer \<open>(n * p + 50) div 100\<close>.
\<close>

theorem quota_half_up:
  assumes "0 \<le> n" and "n \<le> 10 ^ 9" and "0 \<le> p" and "p \<le> 100"
  shows "quota n p = (n * p + 50) div 100"
proof -
  define m where "m = n * p"
  have m0: "0 \<le> m" using assms by (simp add: m_def)
  have "m \<le> 10 ^ 9 * 100" unfolding m_def using assms by (intro mult_mono) auto
  then have m1: "m \<le> 10 ^ 11" by simp
  let ?x = "rnd_rat (of_int m / 100)"
  have mul: "fmul (f64_of_int n) (f64_of_int p) = Fin (of_int m)"
    using assms m0 m1 by (simp add: f64_of_int_def rnd64_of_int m_def flip: of_int_mult)
  have x0: "0 \<le> ?x" using m0 by (intro rnd_rat_nonneg) simp
  have "(of_int m :: rat) \<le> of_int (10 ^ 11)" using m1 by (simp only: of_int_le_iff)
  then have mq: "(of_int m :: rat) \<le> 10 ^ 11" by simp
  have mq0: "0 \<le> (of_int m :: rat)" using m0 by simp
  have "?x \<le> rnd_rat (of_int (10 ^ 11))"
    using mq mq0 by (intro rnd_rat_mono) simp
  also have "\<dots> = 10 ^ 11" by (subst rnd_rat_of_int) simp_all
  finally have x1: "?x \<le> 10 ^ 11" .
  have "\<bar>?x\<bar> < 2 ^ 1024"
    using x0 x1 by (intro double_range) simp
  then have q: "quota n p = int64_of_f64 (Fin (of_int (round_away ?x)))"
    unfolding quota_def mul by (simp add: rnd64_Fin)
  have "\<lfloor>?x + 1 / 2\<rfloor> = (m + 50) div 100"
  proof (cases "(m + 50) mod 100 = 0")
    case True
    have m12: "m \<le> 10 ^ 12" using m1 by simp
    show ?thesis
      unfolding hundredth_half(1) [OF True m0 m12] by (rule hundredth_half(2) [OF True m0 m12])
  next
    case False
    show ?thesis
    proof (cases "m = 0")
      case True
      then show ?thesis by (simp add: floor_half)
    next
      case nz: False
    then have "1 \<le> m" using m0 by simp
    then have "(of_int 1 :: rat) \<le> of_int m" by (simp only: of_int_le_iff)
    then have ge: "1 / 100 \<le> \<bar>of_int m / 100 :: rat\<bar>" by simp
    have "(2::rat) powi (-1022) \<le> 2 powi (-10)" by (intro power_int_increasing) auto
    then have "2 powi (-1022) \<le> \<bar>of_int m / 100 :: rat\<bar>" using ge by (simp add: power_int_minus)
    from rnd_rat_rel_error [OF this]
    have "\<bar>?x - of_int m / 100\<bar> \<le> of_int m / 100 / 2 ^ 53" using m0 by simp
    also have "\<dots> < 1 / 200"
      using mq by simp
    finally show ?thesis by (rule hundredth_floor [OF False])
    qed
  qed
  then have r: "round_away ?x = (m + 50) div 100" using x0 by (simp add: round_away_def)
  have "0 \<le> (m + 50) div 100" and "(m + 50) div 100 \<le> (10 ^ 11 + 50) div 100"
    using m0 m1 by (auto intro: zdiv_mono1 simp: pos_imp_zdiv_nonneg_iff)
  then have "in_int64 ((m + 50) div 100)" by (simp add: in_int64_def)
  then show ?thesis unfolding q r m_def [symmetric] by simp
qed

theorem quota_half_up_witness: "quota 44 5 = 2 \<and> quota 50 15 = 8"
  using quota_half_up [of 44 5] quota_half_up [of 50 15] by simp

section \<open>The ranking\<close>

definition students_ok :: "student_input list \<Rightarrow> bool" where
  "students_ok ss \<longleftrightarrow> (\<forall>s \<in> set ss. st_user s \<noteq> 0 \<and> st_sid s \<noteq> []) \<and> distinct (map st_sid ss)"

interpretation sids: unique_loop "add_student w" fst st_sid for w
  by unfold_locales (auto split: if_splits)

lemma add_students_from:
  "fold_res (add_student w) (seen, rows) ss =
    (if (\<forall>s \<in> set ss. st_user s \<noteq> 0 \<and> st_sid s \<noteq> []) \<and> distinct (map st_sid ss)
        \<and> st_sid ` set ss \<inter> seen = {}
     then Inr (seen \<union> st_sid ` set ss, rows @ map (snapshot_row w) ss) else Inl StudentsInvalid)"
proof (induction ss arbitrary: seen rows)
  case (Cons s ss)
  show ?case
  proof (cases "st_user s = 0 \<or> st_sid s = [] \<or> st_sid s \<in> seen")
    case True
    then show ?thesis by auto
  next
    case False
    then have "fold_res (add_student w) (seen, rows) (s # ss)
        = fold_res (add_student w) (insert (st_sid s) seen, rows @ [snapshot_row w s]) ss"
      by simp
    also note Cons.IH
    finally show ?thesis using False by auto
  qed
qed simp

lemma add_students:
  "fold_res (add_student w) ({}, []) ss =
    (if students_ok ss then Inr (st_sid ` set ss, map (snapshot_row w) ss) else Inl StudentsInvalid)"
  unfolding add_students_from by (simp add: students_ok_def)

definition award_rows :: "(string, f64) gomap \<Rightarrow> student_input list \<Rightarrow> snapshot list" where
  "award_rows weights students = sort_less award_before (map (snapshot_row weights) students)"

lemma computeE:
  assumes "compute vw vk students weights roll = Inr out"
  obtains "students_ok students"
    and "out = map (finish_row (category_ranks vk (map ranked_of (award_rows weights students))) weights
        (quota (int (length students)) (hr_top_percent roll)) (award_rows weights students)
        (award_tiers (length students) (hr_awards roll))) [0..<length students]"
  using assms unfolding compute_def add_students
  by (auto simp: award_rows_def Let_def split: if_splits sum.splits)

lemma finish_row_simps [simp]:
  "sn_user (finish_row t w l rows ts i) = sn_user (rows ! i)"
  "sn_sid (finish_row t w l rows ts i) = sn_sid (rows ! i)"
  "sn_total (finish_row t w l rows ts i) = sn_total (rows ! i)"
  "sn_major (finish_row t w l rows ts i) = sn_major (rows ! i)"
  "sn_class_rank (finish_row t w l rows ts i) = competition_rank sn_total rows i"
  "sn_award_tier (finish_row t w l rows ts i) = ts ! i"
  "sn_honor (finish_row t w l rows ts i) = honored (go_get [] t (sn_user (rows ! i))) w l"
  "sn_category_ranks (finish_row t w l rows ts i) = go_get [] t (sn_user (rows ! i))"
  by (simp_all add: finish_row_def Let_def)

lemma snapshot_row_simps [simp]:
  "sn_user (snapshot_row w s) = st_user s" "sn_sid (snapshot_row w s) = st_sid s"
  "sn_major (snapshot_row w s) = go_get 0 (st_scores s) ''major''"
  "sn_total (snapshot_row w s) = i64sum (map (weighted_points w) (st_scores s))"
  by (simp_all add: snapshot_row_def Let_def)

lemma length_award_rows [simp]: "length (award_rows w ss) = length ss"
  by (simp add: award_rows_def)

lemma map_finish_rows:
  assumes "length rows = n" and "\<And>i. i < n \<Longrightarrow> g (finish_row t w l rows ts i) = h (rows ! i)"
  shows "map g (map (finish_row t w l rows ts) [0..<n]) = map h rows"
  using assms by (intro nth_equalityI) simp_all

lemma mset_users_award_rows: "mset (map sn_user (award_rows w ss)) = mset (map st_user ss)"
  by (simp add: award_rows_def multiset.map_comp comp_def)

lemma compute_users:
  assumes "compute vw vk students weights roll = Inr out"
  shows "mset (map sn_user out) = mset (map st_user students)"
  using assms
proof (rule computeE)
  assume out: "out = map (finish_row (category_ranks vk (map ranked_of (award_rows weights students)))
      weights (quota (int (length students)) (hr_top_percent roll)) (award_rows weights students)
      (award_tiers (length students) (hr_awards roll))) [0..<length students]"
  have "map sn_user out = map sn_user (award_rows weights students)"
    unfolding out by (rule map_finish_rows) simp_all
  then show ?thesis by (simp only: mset_users_award_rows)
qed

text \<open>
  C24. A settlement ranks the class.  Its rows are the students, each once, in award order
  (total, then the imported major score, then the student id); a class rank is one more than
  the number of students with a higher total, so equal totals share a rank; and the award
  tiers are handed out along that order.
\<close>

theorem compute_ranking:
  assumes "compute vw vk students weights roll = Inr out"
  shows "mset (map sn_user out) = mset (map st_user students)
    \<and> sorted_wrt (\<lambda>a b. award_before a b) out
    \<and> (\<forall>r \<in> set out. sn_class_rank r = 1 + int (length (filter (\<lambda>q. sn_total r < sn_total q) out)))
    \<and> map sn_award_tier out = award_tiers (length out) (hr_awards roll)"
  using assms
proof (rule computeE)
  let ?rows = "award_rows weights students"
  let ?n = "length students" and ?ts = "award_tiers (length students) (hr_awards roll)"
  assume ok: "students_ok students"
    and out: "out = map (finish_row (category_ranks vk (map ranked_of ?rows)) weights
        (quota (int ?n) (hr_top_percent roll)) ?rows ?ts) [0..<?n]"
  have len: "length out = ?n" by (simp add: out)
  have nth: "out ! i = finish_row (category_ranks vk (map ranked_of ?rows)) weights
      (quota (int ?n) (hr_top_percent roll)) ?rows ?ts i" if "i < ?n" for i
    using that by (simp add: out)
  have users: "map sn_user out = map sn_user ?rows"
    unfolding out by (rule map_finish_rows) simp_all
  have tot: "map sn_total out = map sn_total ?rows"
    unfolding out by (rule map_finish_rows) simp_all
  have "mset (map sn_user ?rows) = mset (map st_user students)"
    by (simp add: award_rows_def multiset.map_comp comp_def)
  moreover have "sorted_wrt award_before out"
  proof -
    have inj: "inj_on (\<lambda>r. (- sn_total r, - sn_major r, sn_sid r)) (set ?rows)"
    proof (rule inj_onI)
      fix a b assume "a \<in> set ?rows" and "b \<in> set ?rows"
        and e: "(- sn_total a, - sn_major a, sn_sid a) = (- sn_total b, - sn_major b, sn_sid b)"
      then obtain x y where "x \<in> set students" "a = snapshot_row weights x"
        "y \<in> set students" "b = snapshot_row weights y" by (auto simp: award_rows_def)
      moreover have "st_sid x = st_sid y" using e calculation by simp
      ultimately show "a = b" using ok by (auto simp: students_ok_def distinct_map inj_on_def)
    qed
    have dist: "distinct ?rows"
    proof -
      have "distinct (map sn_sid (map (snapshot_row weights) students))"
        using ok by (simp add: students_ok_def comp_def)
      then have "distinct (map (snapshot_row weights) students)"
        by (rule distinct_map [THEN iffD1, THEN conjunct1])
      then show ?thesis unfolding award_rows_def by (metis mset_eq_imp_distinct_iff mset_sort_less)
    qed
    have w: "sorted_wrt (\<lambda>a b. \<not> award_before b a) ?rows"
      unfolding award_rows_def by (rule award_order.sorted_sort)
    have "award_before (?rows ! i) (?rows ! j)" if "i < j" "j < ?n" for i j
    proof -
      have a: "\<not> award_before (?rows ! j) (?rows ! i)"
        using sorted_wrt_nth_less [OF w that(1)] that by simp
      have ne: "?rows ! i \<noteq> ?rows ! j" using dist that by (simp add: nth_eq_iff_index_eq)
      have "?rows ! i \<in> set ?rows" "?rows ! j \<in> set ?rows" using that by simp_all
      then show ?thesis using a ne inj unfolding award_order.less_key inj_on_def by (metis linorder_neqE)
    qed
    then show ?thesis
      unfolding sorted_wrt_iff_nth_less len
      by (auto simp: nth award_before_def)
  qed
  moreover have "sn_class_rank r = 1 + int (length (filter (\<lambda>q. sn_total r < sn_total q) out))"
    if "r \<in> set out" for r
  proof -
    from that [unfolded in_set_conv_nth len]
    obtain i where i: "i < ?n" "r = out ! i" by blast
    have "better sn_total ?rows p = better sn_total out p" for p
    proof -
      have "better f xs p = int (length (filter (\<lambda>q. p < q) (map f xs)))" for f :: "snapshot \<Rightarrow> points" and xs
        by (simp add: better_def filter_map comp_def)
      then show ?thesis by (simp only: tot)
    qed
    moreover have "falling sn_total ?rows" unfolding award_rows_def by (rule falling_award_sort)
    ultimately show ?thesis
      using competition_rank_better [of sn_total ?rows i] i by (simp add: nth better_def)
  qed
  moreover have "map sn_award_tier out = ?ts"
  proof (rule nth_equalityI)
    show "length (map sn_award_tier out) = length ?ts" by (simp add: len award_tiers_layout_aux)
    show "map sn_award_tier out ! i = ?ts ! i" if "i < length (map sn_award_tier out)" for i
      using that len by (simp add: nth)
  qed
  ultimately show ?thesis unfolding users len by blast
qed

definition points_in :: "string \<Rightarrow> student_input \<Rightarrow> points" where
  "points_in key s = go_get 0 (st_scores s) key"

definition exact_scores :: "student_input list \<Rightarrow> bool" where
  \<comment> \<open>scores small enough that storing them as doubles loses nothing\<close>
  "exact_scores ss \<longleftrightarrow> (\<forall>s \<in> set ss. \<forall>(k, p) \<in> set (st_scores s). \<bar>p\<bar> \<le> 2 ^ 50)"

lemma ranked_score_snapshot:
  assumes "exact_scores ss" and "s \<in> set ss"
  shows "ranked_score key (ranked_of (snapshot_row w s)) = points_in key s"
proof (cases "map_of (st_scores s) key")
  case None
  then have "map_of (map (\<lambda>(k, p). (k, points_float p)) (st_scores s)) key = None"
    by (auto simp: map_of_eq_None_iff image_iff)
  then show ?thesis using None
    by (simp add: ranked_score_def ranked_of_def snapshot_row_def Let_def points_in_def go_get_def)
next
  case (Some p)
  have "map_of (map (\<lambda>(k, p). (k, points_float p)) (st_scores s)) key = Some (points_float p)"
    using Some by (simp add: map_of_map)
  moreover have "\<bar>p\<bar> \<le> 2 ^ 50"
    using assms map_of_SomeD [OF Some] unfolding exact_scores_def by blast
  ultimately show ?thesis using Some
    by (simp add: ranked_score_def ranked_of_def snapshot_row_def Let_def points_in_def go_get_def
      points_roundtrip_aux)
qed

lemma better_ranked:
  assumes "exact_scores ss"
  shows "better (ranked_score k) (map ranked_of (award_rows w ss)) p = better (points_in k) ss p"
proof -
  have "better (ranked_score k) (map ranked_of (award_rows w ss)) p
      = better (ranked_score k) (map ranked_of (map (snapshot_row w) ss)) p"
    by (rule better_perm) (simp add: award_rows_def multiset.map_comp)
  also have "\<dots> = int (length (filter (\<lambda>s. p < ranked_score k (ranked_of (snapshot_row w s))) ss))"
    by (simp add: better_def filter_map comp_def)
  also have "\<dots> = better (points_in k) ss p"
    unfolding better_def
    by (metis (mono_tags, lifting) assms filter_cong ranked_score_snapshot)
  finally show ?thesis .
qed

definition has_key :: "string \<Rightarrow> student_input \<Rightarrow> bool" where
  "has_key k s \<longleftrightarrow> go_has (st_scores s) k"

lemma rank_of_student:
  assumes "distinct (map st_user ss)" and "exact_scores ss" and "visit_order vk" and "s \<in> set ss"
  shows "rank_of (category_ranks vk (map ranked_of (award_rows w ss))) (st_user s) k =
    (if \<exists>q \<in> set ss. has_key k q then Some (1 + better (points_in k) ss (points_in k s)) else None)"
proof -
  let ?rows = "map ranked_of (award_rows w ss)" and ?r = "ranked_of (snapshot_row w s)"
  have users: "distinct (map rk_user ?rows)"
  proof -
    have "mset (map rk_user ?rows) = mset (map st_user ss)"
      by (simp add: award_rows_def multiset.map_comp comp_def ranked_of_def)
    then show ?thesis using assms(1) by (metis mset_eq_imp_distinct_iff)
  qed
  have r: "?r \<in> set ?rows" using assms(4) by (auto simp: award_rows_def)
  have keys: "(\<exists>q \<in> set ?rows. k \<in> fst ` set (rk_scores q)) \<longleftrightarrow> (\<exists>q \<in> set ss. has_key k q)"
    by (force simp: award_rows_def ranked_of_def snapshot_row_def Let_def has_key_def go_has_iff image_iff)
  have u: "rk_user ?r = st_user s" by (simp add: ranked_of_def)
  show ?thesis
    using rank_of_category_ranks [OF users r assms(3), of k]
    unfolding keys u better_ranked [OF assms(2)] ranked_score_snapshot [OF assms(2,4)] .
qed

text \<open>
  C35. The honour of the four dimensions is exactly the rule: a student is honoured if and
  only if the line is positive and, in every category with a positive weight, one plus the
  number of classmates with more points is within the line.  The ranks are computed on
  doubles read back from the snapshot, yet they are the ranks of the exact points.
\<close>

theorem compute_honor:
  assumes "compute vw vk students weights roll = Inr out" and "visit_order vk"
    and "distinct (map st_user students)" and "exact_scores students"
    and "r \<in> set out" and "s \<in> set students" and "st_user s = sn_user r"
  shows "sn_honor r \<longleftrightarrow>
    (let line = quota (int (length students)) (hr_top_percent roll) in
     0 < line \<and> (\<forall>(k, w) \<in> set weights. fle w (Fin 0)
       \<or> ((\<exists>q \<in> set students. has_key k q)
          \<and> 1 + int (length (filter (\<lambda>q. points_in k s < points_in k q) students)) \<le> line)))"
  using assms(1)
proof (rule computeE)
  let ?rows = "award_rows weights students" and ?line = "quota (int (length students)) (hr_top_percent roll)"
  let ?t = "category_ranks vk (map ranked_of ?rows)"
  assume out: "out = map (finish_row ?t weights ?line ?rows
      (award_tiers (length students) (hr_awards roll))) [0..<length students]"
  obtain i where i: "i < length students"
    "r = finish_row ?t weights ?line ?rows (award_tiers (length students) (hr_awards roll)) i"
    using assms(5) unfolding out by auto
  have u: "sn_user (?rows ! i) = st_user s" using assms(7) i by simp
  have mine: "map_of (go_get [] ?t (st_user s)) k =
      (if \<exists>q \<in> set students. has_key k q
       then Some (1 + better (points_in k) students (points_in k s)) else None)" for k
    using rank_of_student [OF assms(3,4,2,6)] unfolding rank_of_def .
  have entry: "(case p of (key, weight) \<Rightarrow> fle weight (Fin 0)
      \<or> (case map_of (go_get [] ?t (st_user s)) key of None \<Rightarrow> False | Some rank \<Rightarrow> rank \<le> ?line))
    = (case p of (k, w) \<Rightarrow> fle w (Fin 0) \<or> ((\<exists>q \<in> set students. has_key k q)
      \<and> 1 + int (length (filter (\<lambda>q. points_in k s < points_in k q) students)) \<le> ?line))" for p
    unfolding mine better_def by (cases p) auto
  show ?thesis
    unfolding i(2) finish_row_simps u honored_def Let_def list_all_iff entry not_le ..
qed

section \<open>Determinism\<close>

lemma students_ok_perm: "mset ss = mset ss' \<Longrightarrow> students_ok ss = students_ok ss'"
  unfolding students_ok_def by (metis mset_eq_imp_distinct_iff mset_eq_setD mset_map)

lemma award_rows_perm:
  assumes "mset ss = mset ss'" and "students_ok ss"
  shows "award_rows w ss = award_rows w ss'"
  unfolding award_rows_def
proof (rule award_order.sort_less_perm)
  show "mset (map (snapshot_row w) ss) = mset (map (snapshot_row w) ss')" using assms(1) by simp
  show "inj_on (\<lambda>r. (- sn_total r, - sn_major r, sn_sid r)) (set (map (snapshot_row w) ss))"
  proof (rule inj_onI)
    fix a b
    assume "a \<in> set (map (snapshot_row w) ss)" and "b \<in> set (map (snapshot_row w) ss)"
      and e: "(- sn_total a, - sn_major a, sn_sid a) = (- sn_total b, - sn_major b, sn_sid b)"
    then obtain x y where xy: "x \<in> set ss" "a = snapshot_row w x" "y \<in> set ss" "b = snapshot_row w y"
      by auto
    then have "st_sid x = st_sid y" using e by simp
    then show "a = b" using assms(2) xy by (auto simp: students_ok_def distinct_map inj_on_def)
  qed
qed

text \<open>
   A settlement does not depend on the order in which the students are read: with the
  same weights and honour roll, permuted inputs give the same rows in the same order, or the
  same error.
\<close>

theorem compute_order_free:
  assumes "mset students = mset students'"
  shows "compute vw vk students weights roll = compute vw vk students' weights roll"
proof (cases "students_ok students")
  case True
  have rows: "sort_less award_before (map (snapshot_row weights) students)
      = sort_less award_before (map (snapshot_row weights) students')"
    using award_rows_perm [OF assms True] by (simp add: award_rows_def)
  show ?thesis
    using True students_ok_perm [OF assms] unfolding compute_def add_students
    by (simp add: rows mset_eq_setD [OF assms] mset_eq_length [OF assms] Let_def split: sum.split)
next
  case False
  then show ?thesis using students_ok_perm [OF assms]
    unfolding compute_def add_students by (simp split: sum.split)
qed

definition demo_students :: "student_input list" where
  "demo_students =
    [\<lparr>st_user = 7, st_sid = ''s2'', st_name = ''B'', st_scores = [(''major'', 90000)]\<rparr>,
     \<lparr>st_user = 5, st_sid = ''s1'', st_name = ''A'', st_scores = [(''major'', 90000)]\<rparr>]"

definition demo_roll :: honor_roll where
  "demo_roll = \<lparr>hr_top_percent = 50, hr_awards = [\<lparr>aw_name = ''first'', aw_top_percent = 50\<rparr>]\<rparr>"

lemma demo_compute:
  "\<exists>out. compute id id demo_students [(''major'', Fin 1)] demo_roll = Inr out"
proof -
  have w: "fold_res add_settle_weight (Fin 0) (id [(''major'', Fin 1)]) = Inr (Fin 1)"
    "\<not> flt (rnd64 (1 / 1000000)) (fabs (fsub (Fin 1) (Fin 1)))" by code_simp+
  show ?thesis
    unfolding compute_def w(1) sum.case if_not_P [OF w(2)]
    by (simp add: demo_students_def demo_roll_def Let_def)
qed

theorem compute_ranking_witness:
  "\<exists>out. compute id id demo_students [(''major'', Fin 1)] demo_roll = Inr out
     \<and> mset (map sn_user out) = {#5, 7#}"
proof -
  obtain out where out: "compute id id demo_students [(''major'', Fin 1)] demo_roll = Inr out"
    using demo_compute by blast
  then show ?thesis using compute_ranking [OF out] by (simp add: demo_students_def add_mset_commute)
qed

theorem compute_honor_witness:
  "\<exists>out. compute id id demo_students [(''major'', Fin 1)] demo_roll = Inr out
     \<and> (\<forall>r \<in> set out. sn_honor r)"
proof -
  obtain out where out: "compute id id demo_students [(''major'', Fin 1)] demo_roll = Inr out"
    using demo_compute by blast
  have ok: "distinct (map st_user demo_students)" "exact_scores demo_students"
    by (simp_all add: demo_students_def exact_scores_def)
  have line: "quota (int (length demo_students)) (hr_top_percent demo_roll) = 1"
    by code_simp
  have tie: "points_in ''major'' s = 90000" if "s \<in> set demo_students" for s
    using that by (auto simp: demo_students_def points_in_def go_get_def)
  have none: "filter (\<lambda>q. (90000::int) < points_in ''major'' q) demo_students = []"
    using tie by (auto simp: filter_empty_conv)
  have key: "\<exists>q \<in> set demo_students. has_key ''major'' q"
    by (auto simp: demo_students_def has_key_def go_has_def)
  have "sn_honor r" if r: "r \<in> set out" for r
  proof -
    have "mset (map sn_user out) = mset (map st_user demo_students)"
      using compute_users [OF out] .
    then have "sn_user r \<in> st_user ` set demo_students"
      using r by (metis image_eqI image_set mset_eq_setD)
    then obtain s where s: "s \<in> set demo_students" "st_user s = sn_user r" by auto
    show ?thesis
      unfolding compute_honor [OF out visit_order_id(1) ok r s] Let_def line
      using tie [OF s(1)] none key by simp
  qed
  then show ?thesis using out by blast
qed

theorem compute_order_free_witness:
  "compute id id demo_students [(''major'', Fin 1)] demo_roll
     = compute id id (rev demo_students) [(''major'', Fin 1)] demo_roll"
  by (rule compute_order_free) simp

end
