(* ===== verification/Settlements.thy ===== *)
theory Settlements
  imports Appeals Settle
begin

text \<open>
  The settlement of a class, \<open>api/settlement_handlers.go\<close>, and the live score of its
  students, \<open>api/current_score.go\<close>: the gate over the whole database, forcing it open,
  assembling the input of \<open>Compute\<close>, and the run that stores the ranking and locks every
  scored item.  The details kept for display are left out.  \<open>visits\<close> are the orders in
  which Go ranges over its maps.

  The lemmas show when a run may happen, what it changes and that a repeated run is reused.
\<close>

section \<open>The gate (evaluateGate, forceGate)\<close>

record gate_state =
  gt_current :: stored_scheme
  gt_students :: nat
  gt_sealed :: nat
  gt_pending :: nat
  gt_unfinalized :: nat
  gt_classifications :: nat
  gt_gpa :: nat
  gt_override :: "override_row option"
  gt_gate :: gate

definition active_user :: "app_user \<Rightarrow> bool" where
  "active_user u \<longleftrightarrow> us_status u = ''active''"

definition appeal_counts :: "db \<Rightarrow> int \<Rightarrow> appeal_row \<Rightarrow> bool" where
  \<comment> \<open>an open appeal whose submission exists or whose base score belongs to the scheme\<close>
  "appeal_counts d scheme p \<longleftrightarrow> open_status (ap_status p)
     \<and> (ap_target_type p = ''submission'' \<and> find_submission d (ap_target p) \<noteq> None
        \<or> ap_target_type p \<in> {''base_score'', ''penalty_score''}
          \<and> list_ex (\<lambda>b. bs_id b = ap_target p \<and> bs_scheme b = scheme) (db_base d))"

definition arbitrating_alone :: "db \<Rightarrow> submission \<Rightarrow> bool" where
  "arbitrating_alone d s \<longleftrightarrow> sb_status s = Arbitrating
     \<and> \<not> list_ex (\<lambda>p. ap_target_type p = ''submission'' \<and> ap_target p = sb_id s
           \<and> open_status (ap_status p)) (db_appeals d)"

definition pending_conflicts :: "db \<Rightarrow> int \<Rightarrow> nat" where
  "pending_conflicts d scheme =
     count_where (appeal_counts d scheme) (db_appeals d)
     + count_where (arbitrating_alone d) (db_submissions d)
     + count_where (\<lambda>o'. (ob_kind o' = ''submission'' \<or> ob_scheme o' = scheme)
         \<and> ob_status o' = ''submitted'') (db_objections d)
     + count_where (\<lambda>r. rp_status r \<in> {''reviewing'', ''escalated''}) (db_reports d)"

definition unfinalized :: "submission \<Rightarrow> bool" where
  "unfinalized s \<longleftrightarrow> sb_status s \<noteq> Draft
     \<and> (sb_status s \<noteq> Scored \<and> sb_status s \<noteq> Locked \<or> sb_final s = None)"

definition collective_pending :: "db \<Rightarrow> nat" where
  "collective_pending d = count_where (\<lambda>p.
     pr_status p \<in> {''discussion'', ''voting'', ''passed'', ''blocked'', ''deliberating''}
     \<and> pr_action p \<noteq> ''motion'' \<and> pr_action p \<noteq> ''export'') (db_proposals d)"

definition evaluate_gate :: "env \<Rightarrow> db \<Rightarrow> (load_error, db \<times> gate_state) result" where
  "evaluate_gate e d = (case load_current_scheme e d of
      Inl err \<Rightarrow> Inl err
    | Inr (d1, current) \<Rightarrow>
       (let students = count_where active_user (db_users d1);
            sealed = count_where (\<lambda>u. active_user u \<and> \<not> ensure_not_sealed d1 (us_id u)) (db_users d1);
            gpa = count_where (\<lambda>g. gp_scheme g = ss_id current) (db_gpa d1);
            open = count_where unfinalized (db_submissions d1);
            suggestions = count_where (\<lambda>g. sg_status g = ''pending'') (db_suggestions d1);
            collective = governance_mode d1 \<in> {''enrolling'', ''collective''};
            override = (if collective then None else latest_by ov_created_at
              (filter (\<lambda>v. ov_scheme v = ss_id current) (db_overrides d1)));
            pending = pending_conflicts d1 (ss_id current)
              + (if collective then collective_pending d1 else 0) in
        Inr (d1, \<lparr>gt_current = current, gt_students = students, gt_sealed = sealed,
          gt_pending = pending, gt_unfinalized = open, gt_classifications = suggestions,
          gt_gpa = gpa, gt_override = override,
          gt_gate = evaluate_gate_input \<lparr>gi_students = int students, gi_sealed = int sealed,
            gi_window_close = w_close (cf_window (ss_config current)), gi_now = en_now e,
            gi_unfinalized = int open, gi_classifications = int suggestions,
            gi_blind_complete = False, gi_confirmed = 0, gi_conflicts = int pending,
            gi_gpa = int gpa, gi_forced = override \<noteq> None\<rparr>\<rparr>)))"

definition force_gate :: "env \<Rightarrow> actor \<Rightarrow> string \<Rightarrow> db \<Rightarrow> gate_state handler" where
  \<comment> \<open>the answer is the state with the gate shown open\<close>
  "force_gate e a reason d = (let r = trim_space reason in
    (if length r < 8 \<or> 2000 < length r then Inl (HttpError 422 ''reason_required'')
     else (case evaluate_gate e d of
       Inl _ \<Rightarrow> Inl internal_error
     | Inr (d1, st) \<Rightarrow>
        if gt_override st \<noteq> None then Inl (HttpError 409 ''already_forced'')
        else (let n = db_next d1;
                  v = \<lparr>ov_id = n, ov_scheme = ss_id (gt_current st), ov_reason = r,
                       ov_created_at = en_now e, ov_by = ac_user a\<rparr> in
          Inr (enqueue_event ''gate.forced'' n
                 (append_audit a ''gate.forced'' ''gate'' (dec_int (ss_id (gt_current st)))
                   (d1\<lparr>db_overrides := db_overrides d1 @ [v], db_next := n + 1\<rparr>)),
               st\<lparr>gt_override := Some v,
                  gt_gate := (gt_gate st)\<lparr>ga_open := True, ga_forced := True\<rparr>\<rparr>)))))"

section \<open>Assembling the input (buildSettlement)\<close>

record visits =
  vs_chosen :: "(string \<times> scored_item) list \<Rightarrow> (string \<times> scored_item) list"
  vs_groups :: "(string \<times> points) list \<Rightarrow> (string \<times> points) list"
  vs_base :: "(string \<times> recorded_base) list \<Rightarrow> (string \<times> recorded_base) list"
  vs_weights :: "(string \<times> f64) list \<Rightarrow> (string \<times> f64) list"
  vs_keys :: "string list \<Rightarrow> string list"

definition scored_submission_item :: "int \<Rightarrow> string \<Rightarrow> f64 \<Rightarrow> rule_snapshot \<Rightarrow> scored_item" where
  "scored_submission_item i key score snap = (let it = rs_item snap in
     \<lparr>si_id = i, si_item_key = key, si_score = new_points score,
      si_item_cap = map_option new_points (sr_cap (it_score_rule it)),
      si_exclusive_group = it_exclusive_group it,
      si_cap_group_key = (case it_cap_group it of None \<Rightarrow> [] | Some g \<Rightarrow> cg_key g),
      si_cap_group_cap = (case it_cap_group it of None \<Rightarrow> 0 | Some g \<Rightarrow> new_points (cg_cap g))\<rparr>)"

definition sid_before :: "app_user \<Rightarrow> app_user \<Rightarrow> bool" where
  "sid_before u v \<longleftrightarrow> us_sid u < us_sid v"

definition active_roster :: "db \<Rightarrow> app_user list" where
  "active_roster d = sort_less sid_before (filter active_user (db_users d))"

definition settled_before :: "submission \<Rightarrow> submission \<Rightarrow> bool" where
  \<comment> \<open>\<open>ORDER BY student_id, category_key, id\<close>\<close>
  "settled_before s t \<longleftrightarrow> sb_student s < sb_student t
     \<or> sb_student s = sb_student t \<and> (sb_category s < sb_category t
        \<or> sb_category s = sb_category t \<and> sb_id s < sb_id t)"

definition settled_items :: "db \<Rightarrow> int \<Rightarrow> string \<Rightarrow> scored_item list" where
  "settled_items d student category =
     map (\<lambda>s. scored_submission_item (sb_id s) (sb_item s)
            (case sb_final s of None \<Rightarrow> Fin 0 | Some p \<Rightarrow> points_float p) (sb_snapshot s))
       (filter (\<lambda>s. sb_student s = student \<and> sb_category s = category)
         (sort_less settled_before
           (filter (\<lambda>s. sb_status s \<in> {Scored, Locked} \<and> sb_final s \<noteq> None
              \<and> sb_category s \<noteq> ''major'') (db_submissions d))))"

definition claimable_keys :: "config \<Rightarrow> string list" where
  "claimable_keys c = concat (map (\<lambda>ca. map (\<lambda>b. ca_key ca @ [CHR 0x00] @ bi_key b)
     (filter (\<lambda>b. bi_student_claim b \<noteq> None) (ca_base_items ca))) (cf_categories c))"

definition add_base_item :: "(string, recorded_base) gomap \<Rightarrow> base_item \<Rightarrow> (string, recorded_base) gomap" where
  "add_base_item m b = (if bi_student_claim b \<noteq> None then m
     else AList.update (bi_key b) \<lparr>rb_item_key = bi_key b, rb_kind = ''base'',
            rb_score = new_points (bi_full b)\<rparr> m)"

definition add_base_row :: "(string, recorded_base) gomap \<Rightarrow> base_row \<Rightarrow> (string, recorded_base) gomap" where
  "add_base_row m b = AList.update (bs_item b) \<lparr>rb_item_key = bs_item b, rb_kind = bs_kind b,
     rb_score = new_points (points_float (bs_score b))\<rparr> m"

definition base_row_before :: "base_row \<Rightarrow> base_row \<Rightarrow> bool" where
  "base_row_before p q \<longleftrightarrow> bs_student p < bs_student q
     \<or> bs_student p = bs_student q \<and> (bs_category p < bs_category q
        \<or> bs_category p = bs_category q \<and> bs_item p < bs_item q)"

definition settled_base :: "db \<Rightarrow> stored_scheme \<Rightarrow> int \<Rightarrow> category \<Rightarrow> (string, recorded_base) gomap" where
  "settled_base d current student ca =
     foldl add_base_row (foldl add_base_item [] (ca_base_items ca))
       (filter (\<lambda>b. bs_student b = student \<and> bs_category b = ca_key ca
            \<and> \<not> (bs_kind b = ''base''
              \<and> bs_category b @ [CHR 0x00] @ bs_item b \<in> set (claimable_keys (ss_config current))))
         (sort_less base_row_before (filter (\<lambda>b. bs_scheme b = ss_id current) (db_base d))))"

definition string_before :: "string \<Rightarrow> string \<Rightarrow> bool" where
  "string_before s t \<longleftrightarrow> s < t"

definition sorted_records :: "(string, recorded_base) gomap \<Rightarrow> recorded_base list" where
  \<comment> \<open>\<open>sort.Strings(keys)\<close> and the record of each key\<close>
  "sorted_records m = map (\<lambda>k. the (map_of m k)) (sort_less string_before (map fst m))"

definition settle_category ::
    "visits \<Rightarrow> db \<Rightarrow> stored_scheme \<Rightarrow> int \<Rightarrow> (string, points) gomap \<Rightarrow> category \<Rightarrow> (string, points) gomap" where
  "settle_category v d current student scores ca =
     (if ca_key ca = ''major'' then scores
      else AList.update (ca_key ca)
        (cb_total (compute_category_score (vs_chosen v) (vs_groups v)
          (settled_items d student (ca_key ca)) (sorted_records (settled_base d current student ca))
          (new_points (ca_max_total ca)))) scores)"

definition gpa_of :: "db \<Rightarrow> int \<Rightarrow> int \<Rightarrow> points option" where
  "gpa_of d scheme student = map_option gp_score
     (find (\<lambda>g. gp_scheme g = scheme \<and> gp_student g = student) (db_gpa d))"

definition settle_input :: "visits \<Rightarrow> db \<Rightarrow> stored_scheme \<Rightarrow> app_user \<Rightarrow> student_input" where
  "settle_input v d current u =
    (let zero = map (\<lambda>k. (k, 0)) (map fst (cf_weights (ss_config current)));
         start = (case gpa_of d (ss_id current) (us_id u) of None \<Rightarrow> zero
           | Some p \<Rightarrow> AList.update ''major'' (new_points (points_float p)) zero) in
     \<lparr>st_user = us_id u, st_sid = us_sid u, st_name = us_name u,
      st_scores = foldl (settle_category v d current (us_id u)) start
        (cf_categories (ss_config current))\<rparr>)"

definition build_settlement :: "visits \<Rightarrow> db \<Rightarrow> stored_scheme \<Rightarrow> student_input list option" where
  "build_settlement v d current = (let roster = active_roster d in
     if roster = [] then None else Some (map (settle_input v d current) roster))"

section \<open>The run (runSettlementTx)\<close>

definition reusable_run :: "db \<Rightarrow> int \<Rightarrow> run_row option" where
  "reusable_run d scheme = latest_by rn_created_at (filter (\<lambda>r. rn_scheme r = scheme
     \<and> rn_status r = ''complete'' \<and> \<not> list_ex (\<lambda>v. iv_run v = rn_id r) (db_invalidations d)) (db_runs d))"

definition settlement_row_of :: "int \<Rightarrow> snapshot \<Rightarrow> settlement_row" where
  "settlement_row_of n s = \<lparr>sl_run = n, sl_student = sn_user s, sl_scores = sn_category_scores s,
     sl_total = column_of (sn_total_score s), sl_class_rank = sn_class_rank s,
     sl_major_rank = sn_major_rank s, sl_honor = sn_honor s,
     sl_award = null_if_empty (sn_award_tier s)\<rparr>"

definition lock_scored :: "env \<Rightarrow> submission \<Rightarrow> submission" where
  "lock_scored e s = s\<lparr>sb_status := Locked, sb_locked_at := Some (en_now e),
     sb_updated_at := en_now e, sb_lock_version := sb_lock_version s + 1\<rparr>"

definition run_settlement :: "visits \<Rightarrow> env \<Rightarrow> actor \<Rightarrow> db \<Rightarrow> (int \<times> bool) handler" where
  \<comment> \<open>the answer is the run and whether an earlier one was reused\<close>
  "run_settlement v e a d = (case evaluate_gate e d of
      Inl _ \<Rightarrow> Inl internal_error
    | Inr (d1, st) \<Rightarrow>
       if \<not> ga_open (gt_gate st) then Inl (HttpError 409 ''gate_closed'')
       else (case reusable_run d1 (ss_id (gt_current st)) of
         Some r \<Rightarrow> Inr (d1, rn_id r, True)
       | None \<Rightarrow> (case build_settlement v d1 (gt_current st) of
           None \<Rightarrow> Inl internal_error
         | Some inputs \<Rightarrow>
            (let c = ss_config (gt_current st) in
            (case compute (vs_weights v) (vs_keys v) inputs (cf_weights c) (cf_honor_roll c) of
               Inl _ \<Rightarrow> Inl internal_error
             | Inr snapshots \<Rightarrow>
                (let n = db_next d1;
                     d2 = d1\<lparr>db_runs := db_runs d1 @ [\<lparr>rn_id = n, rn_scheme = ss_id (gt_current st),
                            rn_status = ''running'',
                            rn_trigger = (if ga_forced (gt_gate st) then ''forced'' else ''automatic''),
                            rn_by = ac_user a, rn_config = c, rn_created_at = en_now e,
                            rn_completed_at = None\<rparr>], db_next := n + 1,
                          db_settlement := db_settlement d1 @ map (settlement_row_of n) snapshots\<rparr> in
                 (case update_submissions (\<lambda>s. sb_status s = Scored) (lock_scored e) d2 of
                    Inl err \<Rightarrow> Inl err
                  | Inr d3 \<Rightarrow>
                     Inr (enqueue_event ''settlement.done'' n
                       (append_audit a ''settlement.completed'' ''settlement_run'' (dec_int n)
                         (d3\<lparr>db_runs := where_set (\<lambda>r. rn_id r = n)
                            (\<lambda>r. r\<lparr>rn_status := ''complete'', rn_completed_at := Some (en_now e)\<rparr>)
                            (db_runs d3)\<rparr>)), n, False))))))))"

section \<open>Live scores (current_score.go)\<close>

record score_submission =
  cs_id :: int
  cs_category :: string
  cs_item_key :: string
  cs_status :: sub_status
  cs_score :: "f64 option"
  cs_rule :: rule_snapshot
  cs_force_rejected :: bool

record score_base =
  cb_category :: string
  cb_item_key :: string
  cb_kind :: string
  cb_score :: f64

record score_member =
  cm_id :: int
  cm_sid :: string
  cm_gpa :: "f64 option"
  cm_submissions :: "score_submission list"
  cm_base :: "score_base list"

record current_score =
  cu_class_size :: int
  cu_gpa_imported :: int
  cu_ranking_ready :: bool
  cu_category_scores :: "(string, f64 option) gomap"
  cu_category_ranks :: "(string, int) gomap"
  cu_total :: "f64 option"
  cu_class_rank :: "int option"
  cu_major_rank :: "int option"
  cu_pending :: int

definition sub_id_before :: "submission \<Rightarrow> submission \<Rightarrow> bool" where
  "sub_id_before s t \<longleftrightarrow> sb_id s < sb_id t"

definition base_id_before :: "base_row \<Rightarrow> base_row \<Rightarrow> bool" where
  "base_id_before p q \<longleftrightarrow> bs_id p < bs_id q"

definition score_submission_of :: "submission \<Rightarrow> score_submission" where
  "score_submission_of s = \<lparr>cs_id = sb_id s, cs_category = sb_category s,
     cs_item_key = sb_item s, cs_status = sb_status s,
     cs_score = map_option points_float (sb_final s), cs_rule = sb_snapshot s,
     cs_force_rejected = (sb_force_rejection s \<noteq> None)\<rparr>"

definition score_base_of :: "base_row \<Rightarrow> score_base" where
  "score_base_of b = \<lparr>cb_category = bs_category b, cb_item_key = bs_item b, cb_kind = bs_kind b,
     cb_score = points_float (bs_score b)\<rparr>"

definition score_member_of :: "db \<Rightarrow> stored_scheme \<Rightarrow> app_user \<Rightarrow> score_member" where
  "score_member_of d current u = \<lparr>cm_id = us_id u, cm_sid = us_sid u,
     cm_gpa = map_option points_float (gpa_of d (ss_id current) (us_id u)),
     cm_submissions = map score_submission_of (sort_less sub_id_before
       (filter (\<lambda>s. sb_student s = us_id u \<and> sb_status s \<noteq> Draft) (db_submissions d))),
     cm_base = map score_base_of (sort_less base_id_before
       (filter (\<lambda>b. bs_student b = us_id u \<and> bs_scheme b = ss_id current) (db_base d)))\<rparr>"

definition load_current_score_members :: "db \<Rightarrow> stored_scheme \<Rightarrow> score_member list" where
  "load_current_score_members d current = map (score_member_of d current) (active_roster d)"

definition live_pending :: "score_submission \<Rightarrow> bool" where
  "live_pending s \<longleftrightarrow> cs_status s \<noteq> Draft \<and> cs_status s \<noteq> Scored \<and> cs_status s \<noteq> Locked
     \<and> \<not> cs_force_rejected s"

definition live_counts :: "score_submission \<Rightarrow> bool" where
  "live_counts s \<longleftrightarrow> cs_status s \<noteq> Draft \<and> cs_score s \<noteq> None \<and> \<not> cs_force_rejected s
     \<and> cs_category s \<noteq> ''major''
     \<and> (cs_status s = Scored \<or> cs_status s = Locked \<or> cs_status s = Appealing
        \<or> cs_status s = Arbitrating)"

definition live_items :: "score_member \<Rightarrow> string \<Rightarrow> scored_item list" where
  "live_items m category = map (\<lambda>s. scored_submission_item (cs_id s) (cs_item_key s)
       (case cs_score s of None \<Rightarrow> Fin 0 | Some v \<Rightarrow> v) (cs_rule s))
     (filter (\<lambda>s. live_counts s \<and> cs_category s = category) (cm_submissions m))"

definition add_score_base :: "(string, recorded_base) gomap \<Rightarrow> score_base \<Rightarrow> (string, recorded_base) gomap" where
  "add_score_base m b = AList.update (cb_item_key b) \<lparr>rb_item_key = cb_item_key b,
     rb_kind = cb_kind b, rb_score = new_points (cb_score b)\<rparr> m"

definition live_base :: "score_member \<Rightarrow> category \<Rightarrow> (string, recorded_base) gomap" where
  "live_base m ca = (let claimable = map bi_key (filter (\<lambda>b. bi_student_claim b \<noteq> None) (ca_base_items ca)) in
     foldl add_score_base (foldl add_base_item [] (ca_base_items ca))
       (filter (\<lambda>b. cb_category b = ca_key ca
           \<and> \<not> (cb_kind b = ''base'' \<and> cb_item_key b \<in> set claimable)) (cm_base m)))"

definition live_category :: "visits \<Rightarrow> score_member \<Rightarrow> (string, points) gomap \<Rightarrow> category \<Rightarrow> (string, points) gomap" where
  "live_category v m scores ca =
     (if ca_key ca = ''major'' then scores
      else AList.update (ca_key ca)
        (cb_total (compute_category_score (vs_chosen v) (vs_groups v) (live_items m (ca_key ca))
          (map snd (vs_base v (live_base m ca))) (new_points (ca_max_total ca)))) scores)"

definition live_input :: "visits \<Rightarrow> config \<Rightarrow> score_member \<Rightarrow> student_input" where
  "live_input v c m = \<lparr>st_user = cm_id m, st_sid = cm_sid m, st_name = [],
     st_scores = foldl (live_category v m)
       (case cm_gpa m of None \<Rightarrow> [] | Some g \<Rightarrow> [(''major'', new_points g)]) (cf_categories c)\<rparr>"

definition no_honor :: honor_roll where
  "no_honor = \<lparr>hr_top_percent = 0, hr_awards = []\<rparr>"

definition current_score_of :: "score_member list \<Rightarrow> int \<Rightarrow> bool \<Rightarrow> snapshot \<Rightarrow> score_member \<Rightarrow> current_score" where
  "current_score_of members imported ready row mine =
    \<lparr>cu_class_size = int (length members), cu_gpa_imported = imported, cu_ranking_ready = ready,
     cu_category_scores = (let scores = map (\<lambda>(k, x). (k, Some x)) (sn_category_scores row) in
       if cm_gpa mine = None then AList.update ''major'' None scores else scores),
     cu_category_ranks = filter (\<lambda>(k, _). k \<noteq> ''major'' \<or> ready) (sn_category_ranks row),
     cu_total = (if cm_gpa mine = None then None else Some (sn_total_score row)),
     cu_class_rank = (if ready then Some (sn_class_rank row) else None),
     cu_major_rank = (if ready then Some (sn_major_rank row) else None),
     cu_pending = int (count_where live_pending (cm_submissions mine))\<rparr>"

definition compute_current_scores ::
    "visits \<Rightarrow> config \<Rightarrow> score_member list \<Rightarrow> (settle_error, (int, current_score) gomap) result" where
  "compute_current_scores v c members =
    (case compute (vs_weights v) (vs_keys v) (map (live_input v c) members) (cf_weights c) no_honor of
       Inl err \<Rightarrow> Inl err
     | Inr snapshots \<Rightarrow>
        (let imported = int (count_where (\<lambda>m. cm_gpa m \<noteq> None) members);
             ready = members \<noteq> [] \<and> imported = int (length members) in
         Inr (foldl (\<lambda>res row. (case find (\<lambda>m. cm_id m = sn_user row) (rev members) of
                 None \<Rightarrow> res
               | Some mine \<Rightarrow> AList.update (sn_user row)
                   (current_score_of members imported ready row mine) res)) [] snapshots)))"

definition compute_current_score ::
    "visits \<Rightarrow> config \<Rightarrow> score_member list \<Rightarrow> int \<Rightarrow> (settle_error option, current_score) result" where
  \<comment> \<open>\<open>None\<close> is the error that the student is not in the roster\<close>
  "compute_current_score v c members student = (case compute_current_scores v c members of
      Inl err \<Rightarrow> Inl (Some err)
    | Inr results \<Rightarrow> (case map_of results student of None \<Rightarrow> Inl None | Some r \<Rightarrow> Inr r))"

end
