(* ===== verification/Frames.thy ===== *)
theory Frames
  imports Seals
begin

text \<open>
  Which columns the shared statements of the handlers leave alone, and one lemma per handler
  on what it does to the submissions: nothing, a new draft, a deletion, or an update that the
  constraints of the table let through.
\<close>

section \<open>Frames\<close>

named_theorems frame_simps \<open>fields a statement does not write\<close>

lemma append_audit_frame [frame_simps]:
  "db_submissions (append_audit a x r i d) = db_submissions d"
  "db_next (append_audit a x r i d) = db_next d"
  "db_seals (append_audit a x r i d) = db_seals d"
  "db_appeals (append_audit a x r i d) = db_appeals d"
  "db_runs (append_audit a x r i d) = db_runs d"
  "db_invalidations (append_audit a x r i d) = db_invalidations d"
  "db_suggestions (append_audit a x r i d) = db_suggestions d"
  "db_objections (append_audit a x r i d) = db_objections d"
  "db_reports (append_audit a x r i d) = db_reports d"
  "db_flags (append_audit a x r i d) = db_flags d"
  "db_assigned (append_audit a x r i d) = db_assigned d"
  "db_proposals (append_audit a x r i d) = db_proposals d"
  "db_reviews (append_audit a x r i d) = db_reviews d"
  "db_base (append_audit a x r i d) = db_base d"
  "db_settlement (append_audit a x r i d) = db_settlement d"
  by (simp_all add: append_audit_def)

lemma enqueue_event_frame [frame_simps]:
  "db_submissions (enqueue_event k i d) = db_submissions d"
  "db_next (enqueue_event k i d) = db_next d"
  "db_seals (enqueue_event k i d) = db_seals d"
  "db_appeals (enqueue_event k i d) = db_appeals d"
  "db_runs (enqueue_event k i d) = db_runs d"
  "db_invalidations (enqueue_event k i d) = db_invalidations d"
  "db_suggestions (enqueue_event k i d) = db_suggestions d"
  "db_objections (enqueue_event k i d) = db_objections d"
  "db_reports (enqueue_event k i d) = db_reports d"
  "db_flags (enqueue_event k i d) = db_flags d"
  "db_assigned (enqueue_event k i d) = db_assigned d"
  "db_proposals (enqueue_event k i d) = db_proposals d"
  "db_reviews (enqueue_event k i d) = db_reviews d"
  "db_base (enqueue_event k i d) = db_base d"
  "db_settlement (enqueue_event k i d) = db_settlement d"
  by (simp_all add: enqueue_event_def)

lemma invalidate_latest_settlement_frame [frame_simps]:
  "db_submissions (invalidate_latest_settlement r d) = db_submissions d"
  "db_next (invalidate_latest_settlement r d) = db_next d"
  "db_seals (invalidate_latest_settlement r d) = db_seals d"
  "db_appeals (invalidate_latest_settlement r d) = db_appeals d"
  "db_runs (invalidate_latest_settlement r d) = db_runs d"
  "db_suggestions (invalidate_latest_settlement r d) = db_suggestions d"
  "db_objections (invalidate_latest_settlement r d) = db_objections d"
  "db_reports (invalidate_latest_settlement r d) = db_reports d"
  "db_flags (invalidate_latest_settlement r d) = db_flags d"
  "db_assigned (invalidate_latest_settlement r d) = db_assigned d"
  "db_proposals (invalidate_latest_settlement r d) = db_proposals d"
  "db_reviews (invalidate_latest_settlement r d) = db_reviews d"
  "db_base (invalidate_latest_settlement r d) = db_base d"
  "db_settlement (invalidate_latest_settlement r d) = db_settlement d"
  by (simp_all add: invalidate_latest_settlement_def split: option.split)

lemma invalidate_student_blind_audit_frame [frame_simps]:
  "db_submissions (invalidate_student_blind_audit e s o' r d) = db_submissions d"
  "db_next (invalidate_student_blind_audit e s o' r d) = db_next d"
  "db_seals (invalidate_student_blind_audit e s o' r d) = db_seals d"
  "db_appeals (invalidate_student_blind_audit e s o' r d) = db_appeals d"
  "db_runs (invalidate_student_blind_audit e s o' r d) = db_runs d"
  "db_invalidations (invalidate_student_blind_audit e s o' r d) = db_invalidations d"
  "db_suggestions (invalidate_student_blind_audit e s o' r d) = db_suggestions d"
  "db_objections (invalidate_student_blind_audit e s o' r d) = db_objections d"
  "db_reports (invalidate_student_blind_audit e s o' r d) = db_reports d"
  "db_flags (invalidate_student_blind_audit e s o' r d) = db_flags d"
  "db_assigned (invalidate_student_blind_audit e s o' r d) = db_assigned d"
  "db_proposals (invalidate_student_blind_audit e s o' r d) = db_proposals d"
  "db_reviews (invalidate_student_blind_audit e s o' r d) = db_reviews d"
  "db_base (invalidate_student_blind_audit e s o' r d) = db_base d"
  by (simp_all add: invalidate_student_blind_audit_def Let_def)

lemma close_suggestions_frame [frame_simps]:
  "db_submissions (close_suggestions e a i c k r d) = db_submissions d"
  "db_next (close_suggestions e a i c k r d) = db_next d"
  "db_seals (close_suggestions e a i c k r d) = db_seals d"
  "db_appeals (close_suggestions e a i c k r d) = db_appeals d"
  "db_base (close_suggestions e a i c k r d) = db_base d"
  by (simp_all add: close_suggestions_def)

lemma insert_suggestion_frame:
  assumes "insert_suggestion e a d i src rv bl st x = Some (d', n, scope)"
  shows "db_submissions d' = db_submissions d" "db_next d' = db_next d + 1"
    "db_seals d' = db_seals d" "db_appeals d' = db_appeals d" "db_reviews d' = db_reviews d"
  using assms by (auto simp: insert_suggestion_def Let_def split: option.splits if_splits)

lemma foldl_enqueue_frame [frame_simps]:
  "db_submissions (foldl (\<lambda>q r. enqueue_event k i q) d xs) = db_submissions d"
  "db_next (foldl (\<lambda>q r. enqueue_event k i q) d xs) = db_next d"
  "db_seals (foldl (\<lambda>q r. enqueue_event k i q) d xs) = db_seals d"
  "db_appeals (foldl (\<lambda>q r. enqueue_event k i q) d xs) = db_appeals d"
  by (induction xs arbitrary: d) (simp_all add: enqueue_event_frame)

lemma close_workflows_frame [frame_simps]:
  "db_submissions (close_workflows e a i r s d) = db_submissions d"
  "db_next (close_workflows e a i r s d) = db_next d"
  "db_seals (close_workflows e a i r s d) = db_seals d"
  by (simp_all add: close_workflows_def)

lemma stale_proposals_frame [frame_simps]:
  "db_submissions (stale_proposals i d) = db_submissions d"
  "db_next (stale_proposals i d) = db_next d"
  "db_seals (stale_proposals i d) = db_seals d"
  "db_appeals (stale_proposals i d) = db_appeals d"
  "db_suggestions (stale_proposals i d) = db_suggestions d"
  "db_objections (stale_proposals i d) = db_objections d"
  "db_reports (stale_proposals i d) = db_reports d"
  "db_flags (stale_proposals i d) = db_flags d"
  "db_assigned (stale_proposals i d) = db_assigned d"
  by (simp_all add: stale_proposals_def)

lemma update_submissions_frame:
  assumes "update_submissions p f d = Inr d'"
  shows "db_next d' = db_next d" "db_seals d' = db_seals d" "db_appeals d' = db_appeals d"
    "db_reviews d' = db_reviews d" "db_runs d' = db_runs d" "db_suggestions d' = db_suggestions d"
    "db_objections d' = db_objections d" "db_reports d' = db_reports d" "db_flags d' = db_flags d"
    "db_assigned d' = db_assigned d" "db_proposals d' = db_proposals d"
    "db_invalidations d' = db_invalidations d" "db_base d' = db_base d"
    "db_settlement d' = db_settlement d"
    "db_submissions d' = where_set p f (db_submissions d)"
  unfolding update_submissions_Inr(1) [OF assms] by simp_all

section \<open>The life of a row\<close>

definition past_review :: "sub_status \<Rightarrow> bool" where
  "past_review st \<longleftrightarrow> st \<in> {Scored, Appealing, Arbitrating, Locked}"

definition kept_row :: "submission \<Rightarrow> submission \<Rightarrow> bool" where
  "kept_row s t \<longleftrightarrow> sb_id t = sb_id s \<and> sb_student t = sb_student s"

definition same_corrections :: "submission \<Rightarrow> submission \<Rightarrow> bool" where
  "same_corrections s t \<longleftrightarrow> sb_force_rejection t = sb_force_rejection s
     \<and> sb_forced_score t = sb_forced_score s"

text \<open>
  The abstract life cycle of a submission: one rule per thing that may happen to a row,
  whatever handler does it.
\<close>

inductive row_step :: "submission \<Rightarrow> submission \<Rightarrow> bool" where
  stay: "kept_row s t \<Longrightarrow> same_corrections s t \<Longrightarrow> sb_status t = sb_status s \<Longrightarrow> sb_final t = sb_final s
    \<Longrightarrow> sb_submitted_at t = sb_submitted_at s \<Longrightarrow> row_step s t"
| filed: "kept_row s t \<Longrightarrow> same_corrections s t \<Longrightarrow> sb_status s = Draft \<Longrightarrow> sb_status t = Pending
    \<Longrightarrow> sb_final t = sb_final s \<Longrightarrow> row_step s t"
| withdraw: "kept_row s t \<Longrightarrow> same_corrections s t \<Longrightarrow> sb_status s = Pending \<Longrightarrow> sb_status t = Draft
    \<Longrightarrow> sb_final t = sb_final s \<Longrightarrow> sb_submitted_at t = None \<Longrightarrow> row_step s t"
| review: "kept_row s t \<Longrightarrow> same_corrections s t \<Longrightarrow> sb_status s \<in> {Pending, Consensus}
    \<Longrightarrow> sb_status t = Scored \<and> sb_final t \<noteq> None
      \<or> sb_status t \<in> {Consensus, Arbitrating} \<and> sb_final t = None \<Longrightarrow> row_step s t"
| contest: "kept_row s t \<Longrightarrow> same_corrections s t \<Longrightarrow> sb_status s \<in> {Scored, Locked}
    \<Longrightarrow> sb_status t \<in> {Appealing, Arbitrating} \<Longrightarrow> sb_final s \<noteq> None \<Longrightarrow> sb_final t = sb_final s
    \<Longrightarrow> row_step s t"
| retract: "kept_row s t \<Longrightarrow> same_corrections s t \<Longrightarrow> sb_status s = Appealing \<Longrightarrow> sb_status t = Scored
    \<Longrightarrow> sb_final t = sb_final s \<Longrightarrow> row_step s t"
| escalate: "kept_row s t \<Longrightarrow> same_corrections s t \<Longrightarrow> past_review (sb_status s)
    \<Longrightarrow> sb_status t = Arbitrating \<Longrightarrow> sb_final t = sb_final s \<Longrightarrow> row_step s t"
| decide: "kept_row s t \<Longrightarrow> same_corrections s t \<Longrightarrow> past_review (sb_status s)
    \<Longrightarrow> sb_status t = Scored \<Longrightarrow> sb_final t \<noteq> None \<Longrightarrow> row_step s t"
| reopen: "kept_row s t \<Longrightarrow> same_corrections s t \<Longrightarrow> sb_status s \<in> {Scored, Arbitrating}
    \<Longrightarrow> sb_status t = Arbitrating \<Longrightarrow> sb_final t = None \<Longrightarrow> row_step s t"
| resolve: "kept_row s t \<Longrightarrow> same_corrections s t \<Longrightarrow> sb_status t = Scored \<Longrightarrow> sb_final t \<noteq> None
    \<Longrightarrow> row_step s t"
| corrected: "kept_row s t \<Longrightarrow> sb_status s \<noteq> Draft \<Longrightarrow> sb_force_rejection s = None
    \<Longrightarrow> sb_status t = Scored \<Longrightarrow> sb_final t \<noteq> None \<Longrightarrow> row_step s t"
| council: "kept_row s t \<Longrightarrow> same_corrections s t \<Longrightarrow> sb_status s = Draft \<Longrightarrow> sb_status t = Arbitrating
    \<Longrightarrow> sb_final t = sb_final s \<Longrightarrow> row_step s t"
| locked: "kept_row s t \<Longrightarrow> same_corrections s t \<Longrightarrow> sb_status s = Scored \<Longrightarrow> sb_status t = Locked
    \<Longrightarrow> sb_final t = sb_final s \<Longrightarrow> row_step s t"

lemma row_step_kept: "row_step s t \<Longrightarrow> kept_row s t"
  by (auto elim: row_step.cases)

definition score_fits :: "submission \<Rightarrow> bool" where
  "score_fits s \<longleftrightarrow> (case sb_status s of Draft \<Rightarrow> sb_final s = None \<and> sb_submitted_at s = None
     | Pending \<Rightarrow> sb_final s = None | Consensus \<Rightarrow> sb_final s = None | Arbitrating \<Rightarrow> True
     | _ \<Rightarrow> sb_final s \<noteq> None)"

lemma sub_ok_fits: "sub_ok s \<longleftrightarrow> sub_row_check s = None \<and> score_fits s"
  unfolding sub_ok_def score_fits_def by (cases "sb_status s") simp_all

lemma row_step_ok:
  assumes "row_step s t" and "sub_ok s" and "sub_row_check t = None"
  shows "sub_ok t"
proof -
  have "score_fits s" using assms(2) by (simp add: sub_ok_fits)
  with assms(1) have "score_fits t"
    by (cases rule: row_step.cases) (simp_all add: score_fits_def, auto split: sub_status.splits)
  then show ?thesis using assms(3) by (simp add: sub_ok_fits)
qed

lemma row_step_past_review: "row_step s t \<Longrightarrow> past_review (sb_status s) \<Longrightarrow> past_review (sb_status t)"
  by (induction rule: row_step.induct) (auto simp: past_review_def)

definition ap_key :: "appeal_row \<Rightarrow> int \<times> string \<times> int \<times> string \<times> int \<times> int" where
  \<comment> \<open>the columns of an appeal nothing rewrites\<close>
  "ap_key p = (ap_id p, ap_kind p, ap_round p, ap_target_type p, ap_target p, ap_student p)"

section \<open>What a handler does to the table\<close>

definition updates :: "(submission \<Rightarrow> submission \<Rightarrow> bool) \<Rightarrow> db \<Rightarrow> db \<Rightarrow> bool" where
  \<comment> \<open>some rows change as \<open>R\<close> says, and the constraints accept the change\<close>
  "updates R d d' \<longleftrightarrow> db_next d \<le> db_next d'
     \<and> (\<exists>p f. db_submissions d' = where_set p f (db_submissions d)
        \<and> (\<forall>s \<in> set (db_submissions d). p s \<longrightarrow> sub_update_check s (f s) = None \<and> R s (f s)))"

abbreviation moves :: "db \<Rightarrow> db \<Rightarrow> bool" where "moves \<equiv> updates row_step"

lemmas moves_def = updates_def [where R = row_step]

lemma updates_same:
  assumes "db_submissions d' = db_submissions d" and "db_next d \<le> db_next d'"
  shows "updates R d d'"
  unfolding updates_def using assms
  by (intro conjI exI [of _ "\<lambda>_. False"]) (simp_all add: where_set_def)

lemma sub_update_check_trans:
  assumes "sub_update_check s t = None" and "sub_update_check t u = None"
  shows "sub_update_check s u = None"
proof -
  have t: "sb_force_rejection s \<noteq> None \<Longrightarrow> sb_force_rejection t = sb_force_rejection s \<and> sub_frozen s t"
    "sb_forced_score s \<noteq> None \<Longrightarrow> sb_forced_score t \<noteq> None \<and> sub_frozen s t"
    using assms(1) by (simp_all only: sub_update_check_def split: if_split_asm) simp_all
  have u: "sb_force_rejection t \<noteq> None \<Longrightarrow> sb_force_rejection u = sb_force_rejection t \<and> sub_frozen t u"
    "sb_forced_score t \<noteq> None \<Longrightarrow> sb_forced_score u \<noteq> None \<and> sub_frozen t u" "sub_row_check u = None"
    using assms(2) by (simp_all only: sub_update_check_def split: if_split_asm) simp_all
  have fr: "sub_frozen s t \<Longrightarrow> sub_frozen t u \<Longrightarrow> sub_frozen s u" by (simp add: sub_frozen_def)
  have "\<not> (sb_force_rejection s \<noteq> None
      \<and> \<not> (sb_force_rejection u = sb_force_rejection s \<and> sub_frozen s u))"
    using t(1) u(1) fr by (metis (full_types))
  moreover have "\<not> (sb_forced_score s \<noteq> None \<and> \<not> (sb_forced_score u \<noteq> None \<and> sub_frozen s u))"
    using t(2) u(2) fr by blast
  ultimately show ?thesis using u(3) unfolding sub_update_check_def by (simp only: if_False)
qed

lemma where_set_twice:
  "where_set q g (where_set p f rows)
   = where_set (\<lambda>s. p s \<or> q (if p s then f s else s))
       (\<lambda>s. let t = (if p s then f s else s) in if q t then g t else t) rows"
  by (induction rows) (auto simp: where_set_def Let_def)

lemma updates_comp:
  assumes "updates R d d1" and "updates S d1 d2"
    and r: "\<And>s t. s \<in> set (db_submissions d) \<Longrightarrow> R s t \<Longrightarrow> T s t"
    and s: "\<And>s u. s \<in> set (db_submissions d) \<Longrightarrow> S s u \<Longrightarrow> T s u"
    and rs: "\<And>s t u. s \<in> set (db_submissions d) \<Longrightarrow> R s t \<Longrightarrow> S t u \<Longrightarrow> T s u"
  shows "updates T d d2"
proof -
  obtain p f where 1: "db_submissions d1 = where_set p f (db_submissions d)" "db_next d \<le> db_next d1"
    and f: "\<And>s. s \<in> set (db_submissions d) \<Longrightarrow> p s \<Longrightarrow> sub_update_check s (f s) = None \<and> R s (f s)"
    using assms(1) by (auto simp: updates_def)
  obtain q g where 2: "db_submissions d2 = where_set q g (db_submissions d1)" "db_next d1 \<le> db_next d2"
    and g: "\<And>s. s \<in> set (db_submissions d1) \<Longrightarrow> q s \<Longrightarrow> sub_update_check s (g s) = None \<and> S s (g s)"
    using assms(2) by (auto simp: updates_def)
  define h where "h = (\<lambda>s. let t = (if p s then f s else s) in if q t then g t else t)"
  have step: "sub_update_check s (h s) = None \<and> T s (h s)"
    if m: "s \<in> set (db_submissions d)" and hit: "p s \<or> q (if p s then f s else s)" for s
  proof -
    have m1: "(if p s then f s else s) \<in> set (db_submissions d1)" using m by (force simp: 1 where_set_def)
    show ?thesis
    proof (cases "p s")
      case True
      show ?thesis
        using f [OF m True] g [OF m1] r [OF m] rs [OF m] sub_update_check_trans True
        by (auto simp: h_def Let_def)
    next
      case False
      then show ?thesis using hit g [OF m1] s [OF m] by (simp add: h_def Let_def)
    qed
  qed
  have "db_submissions d2 = where_set (\<lambda>s. p s \<or> q (if p s then f s else s)) h (db_submissions d)"
    unfolding 1 2 where_set_twice h_def ..
  then have "\<exists>p f. db_submissions d2 = where_set p f (db_submissions d)
      \<and> (\<forall>s \<in> set (db_submissions d). p s \<longrightarrow> sub_update_check s (f s) = None \<and> T s (f s))"
    using step by blast
  then show ?thesis using order_trans [OF 1(2) 2(2)] by (simp add: updates_def)
qed

lemma updates_update:
  assumes u: "update_submissions p f d1 = Inr d2"
    and "db_submissions d1 = db_submissions d" and "db_next d \<le> db_next d1"
    and "db_submissions d' = db_submissions d2" and "db_next d2 \<le> db_next d'"
    and "\<And>s. s \<in> set (db_submissions d) \<Longrightarrow> p s \<Longrightarrow> R s (f s)"
  shows "updates R d d'"
proof -
  have "db_submissions d2 = where_set p f (db_submissions d1)" and n: "db_next d2 = db_next d1"
    using update_submissions_frame [OF u] by blast+
  then have eq: "db_submissions d' = where_set p f (db_submissions d)" using assms(2,4) by simp
  have "sub_update_check s (f s) = None \<and> R s (f s)"
    if "s \<in> set (db_submissions d)" "p s" for s
    using update_submissions_Inr(2) [OF u] assms(2,6) that by simp
  then show ?thesis
    unfolding updates_def using eq n assms(3,5) by fastforce
qed

lemmas moves_update = updates_update [where R = row_step]
lemmas moves_same = updates_same [where R = row_step]

lemma moves_submissions_ok:
  assumes "submissions_ok d" and "moves d d'"
  shows "submissions_ok d'"
proof -
  obtain p f where sub: "db_submissions d' = where_set p f (db_submissions d)"
    and step: "\<And>s. s \<in> set (db_submissions d) \<Longrightarrow> p s \<Longrightarrow>
        sub_update_check s (f s) = None \<and> row_step s (f s)"
    and le: "db_next d \<le> db_next d'" using assms(2) by (auto simp: moves_def)
  let ?g = "\<lambda>s. if p s then f s else s"
  have g: "sub_ok (?g s) \<and> sb_id (?g s) = sb_id s" if s: "s \<in> set (db_submissions d)" for s
  proof (cases "p s")
    case True
    have "sub_row_check (f s) = None"
      using step [OF s True] by (auto simp: sub_update_check_def split: if_splits)
    then show ?thesis
      using step [OF s True] row_step_ok row_step_kept submissions_okD(1) [OF assms(1) s] True
      by (auto simp: kept_row_def)
  qed (simp add: submissions_okD(1) [OF assms(1) s])
  have ids: "map sb_id (db_submissions d') = map sb_id (db_submissions d)"
    unfolding sub where_set_def using g by simp
  have "sb_id (?g s) < db_next d'" if "s \<in> set (db_submissions d)" for s
    using g [OF that] submissions_okD(3) [OF assms(1) that] le by simp
  then have "\<forall>s \<in> set (db_submissions d'). sb_id s < db_next d'"
    unfolding sub where_set_def set_map by blast
  moreover have "\<forall>s \<in> set (db_submissions d'). sub_ok s"
    unfolding sub where_set_def set_map using g by blast
  ultimately show ?thesis
    using ids submissions_okD(2) [OF assms(1)] by (simp add: submissions_ok_def list_all_iff)
qed

section \<open>Requests that leave the claims alone, or settle them\<close>

definition quiet :: "db \<Rightarrow> db \<Rightarrow> bool" where
  "quiet d d' \<longleftrightarrow> db_submissions d' = db_submissions d \<and> db_next d \<le> db_next d'
     \<and> db_appeals d' = db_appeals d \<and> db_seals d' = db_seals d"

definition settled_row :: "submission \<Rightarrow> submission \<Rightarrow> bool" where
  \<comment> \<open>whatever its status was, the row has a new score\<close>
  "settled_row s t \<longleftrightarrow> kept_row s t \<and> same_corrections s t \<and> sb_status t = Scored \<and> sb_final t \<noteq> None"

definition settles :: "db \<Rightarrow> db \<Rightarrow> bool" where
  "settles d d' \<longleftrightarrow> updates settled_row d d' \<and> db_appeals d' = db_appeals d \<and> db_seals d' = db_seals d"

lemma quiet_refl [simp]: "quiet d d"
  by (simp add: quiet_def)

lemma quiet_trans [trans]: "quiet d d1 \<Longrightarrow> quiet d1 d2 \<Longrightarrow> quiet d d2"
  by (simp add: quiet_def)

lemma settled_row_trans: "settled_row s t \<Longrightarrow> settled_row t u \<Longrightarrow> settled_row s u"
  by (simp add: settled_row_def kept_row_def same_corrections_def)

lemma settles_trans [trans]:
  assumes "settles d d1" and "settles d1 d2"
  shows "settles d d2"
proof -
  have "updates settled_row d d2"
    by (rule updates_comp [of settled_row d d1 settled_row])
      (use assms settled_row_trans in \<open>auto simp: settles_def\<close>)
  then show ?thesis using assms by (simp add: settles_def)
qed

lemma quiet_settles: "quiet d d' \<Longrightarrow> settles d d'"
  by (simp add: quiet_def settles_def updates_same)

lemma settles_quiet [trans]:
  "settles d d1 \<Longrightarrow> quiet d1 d2 \<Longrightarrow> settles d d2"
  "quiet d d1 \<Longrightarrow> settles d1 d2 \<Longrightarrow> settles d d2"
  using settles_trans quiet_settles by blast+

lemma settles_moves:
  assumes "settles d d'"
  shows "moves d d'"
proof -
  have "row_step s t" if "settled_row s t" for s t
    using that by (intro row_step.resolve) (simp_all add: settled_row_def)
  then show ?thesis using assms unfolding settles_def updates_def by blast
qed

lemma quiet_frames [simp]:
  "quiet d (append_audit a x r i d1) \<longleftrightarrow> quiet d d1"
  "quiet d (enqueue_event k j d1) \<longleftrightarrow> quiet d d1"
  "quiet d (invalidate_latest_settlement rs d1) \<longleftrightarrow> quiet d d1"
  "quiet d (invalidate_student_blind_audit e s o' rs d1) \<longleftrightarrow> quiet d d1"
  "settles d (append_audit a x r i d1) \<longleftrightarrow> settles d d1"
  "settles d (enqueue_event k j d1) \<longleftrightarrow> settles d d1"
  "settles d (invalidate_latest_settlement rs d1) \<longleftrightarrow> settles d d1"
  "settles d (invalidate_student_blind_audit e s o' rs d1) \<longleftrightarrow> settles d d1"
  by (simp_all add: quiet_def settles_def updates_def frame_simps)

lemma load_current_scheme_quiet:
  "load_current_scheme e d = Inr (d', c) \<Longrightarrow> quiet d d'"
  using load_current_scheme_keeps load_current_scheme_db(2) by (auto simp: quiet_def)

lemma fold_res_quiet:
  assumes "\<And>d x d'. step d x = Inr d' \<Longrightarrow> quiet d d'" and "fold_res step d xs = Inr d'"
  shows "quiet d d'"
  using assms(2)
proof (induction xs arbitrary: d)
  case (Cons x xs)
  then obtain d1 where "step d x = Inr d1" "fold_res step d1 xs = Inr d'" by (auto split: sum.splits)
  then show ?case using Cons.IH assms(1) quiet_trans by blast
qed simp

lemma fold_res_settles:
  assumes "\<And>d x d'. step d x = Inr d' \<Longrightarrow> settles d d'" and "fold_res step d xs = Inr d'"
  shows "settles d d'"
  using assms(2)
proof (induction xs arbitrary: d)
  case Nil
  then show ?case by (simp add: quiet_settles)
next
  case (Cons x xs)
  then obtain d1 where "step d x = Inr d1" "fold_res step d1 xs = Inr d'" by (auto split: sum.splits)
  then show ?case using Cons.IH assms(1) settles_trans by blast
qed

end
