(* ===== verification/Council.thy ===== *)
theory Council
  imports Seals
begin

text \<open>
  The council of a class that decides collectively: \<open>api/governance_handlers.go\<close> (its mode, its
  members, its roster) and the opening of a case, \<open>api/governance_cases.go\<close>.  A case is a
  proposal about one submission, appeal, report or objection; its panel is drawn by
  \<open>draw_panel\<close> from the members who review, without the person concerned.

  The fingerprint of a case is the digest of the facts it rests on (\<open>case_facts\<close>); the digest
  itself is \<open>en_digest\<close> of the environment.
\<close>

section \<open>Members and roster\<close>

definition member_before :: "app_user \<Rightarrow> app_user \<Rightarrow> bool" where
  "member_before u v \<longleftrightarrow> us_id u < us_id v"

definition case_kind :: "proposal_row \<Rightarrow> bool" where
  \<comment> \<open>\<open>governanceCase\<close>\<close>
  "case_kind p \<longleftrightarrow> pr_kind p = ''review'' \<or> pr_kind p = ''appeal''"

definition seats_held :: "db \<Rightarrow> int \<Rightarrow> nat" where
  "seats_held d u = count_where (\<lambda>v. vo_user v = u \<and> vo_active v
     \<and> list_ex (\<lambda>p. pr_id p = vo_proposal v \<and> case_kind p) (db_proposals d)) (db_voters d)"

definition member_of :: "db \<Rightarrow> app_user \<Rightarrow> gov_member" where
  "member_of d u = (let m = find (\<lambda>m. mb_user m = us_id u) (db_members d) in
     \<lparr>gm_id = us_id u, gm_registered = us_registered u, gm_active = (us_status u = ''active''),
      gm_joined_at = map_option mb_joined m, gm_left_at = Option.bind m mb_left,
      gm_reviewer = (case m of None \<Rightarrow> False | Some r \<Rightarrow> mb_reviewer r),
      gm_submitted = list_ex (\<lambda>s. sb_student s = us_id u \<and> sb_status s \<noteq> Draft
        \<and> sb_source s \<in> {''manual'', ''ai''}) (db_submissions d),
      gm_load = int (seats_held d (us_id u))\<rparr>)"

definition governance_members :: "db \<Rightarrow> gov_member list" where
  "governance_members d = map (member_of d) (sort_less member_before (db_users d))"

definition active_ids :: "db \<Rightarrow> int list" where
  "active_ids d = sort_less int_before
     (map us_id (filter (\<lambda>u. us_status u = ''active'') (db_users d)))"

definition governance_roster :: "env \<Rightarrow> db \<Rightarrow> int \<times> string" where
  "governance_roster e d = (let ids = active_ids d in (int (length ids), en_roster_digest e ids))"

section \<open>What a case is about (governance_cases.go)\<close>

definition default_item :: "string \<Rightarrow> string \<Rightarrow> score_rule \<Rightarrow> item" where
  "default_item key name r = \<lparr>it_key = key, it_name = name, it_score_rule = r,
     it_exclusive_group = [], it_cap_group = None, it_evidence = None, it_note = [],
     it_activities = []\<rparr>"

primrec governance_rule_item :: "string \<Rightarrow> string \<Rightarrow> category list \<Rightarrow> item option" where
  "governance_rule_item c k [] = None"
| "governance_rule_item c k (x # xs) =
    (if ca_key x \<noteq> c then governance_rule_item c k xs
     else (case find (\<lambda>t. it_key t = k) (ca_items x) of
        Some t \<Rightarrow> Some t
      | None \<Rightarrow> (case find (\<lambda>b. bi_key b = k) (ca_base_items x) of
          Some b \<Rightarrow> Some (default_item (bi_key b) (bi_name b) (free_rule (Fin 0) (bi_full b)))
        | None \<Rightarrow> (case find (\<lambda>p. pi_key p = k) (ca_penalty_items x) of
            Some p \<Rightarrow> Some (default_item (pi_key p) (pi_name p) (free_rule (Fin (- 99999)) (Fin 0)))
          | None \<Rightarrow> governance_rule_item c k xs))))"

record case_data =
  cd_subject :: int
  cd_title :: string
  cd_category :: string
  cd_item :: string
  cd_score :: "f64 option"
  cd_rule :: "item option"
  cd_submission :: "int option"

definition appeal_title :: string where
  "appeal_title = [CHR 0xE6, CHR 0x88, CHR 0x90, CHR 0xE7, CHR 0xBB, CHR 0xA9, CHR 0xE7, CHR 0x94,
     CHR 0xB3, CHR 0xE8, CHR 0xAF, CHR 0x89]"

definition review_title :: string where
  "review_title = [CHR 0xE6, CHR 0x88, CHR 0x90, CHR 0xE7, CHR 0xBB, CHR 0xA9, CHR 0xE5, CHR 0xA4,
     CHR 0x8D, CHR 0xE6, CHR 0xA0, CHR 0xB8]"

definition find_report :: "db \<Rightarrow> int \<Rightarrow> report_row option" where
  "find_report d i = find (\<lambda>r. rp_id r = i) (db_reports d)"

definition find_objection :: "db \<Rightarrow> int \<Rightarrow> objection_row option" where
  "find_objection d i = find (\<lambda>o'. ob_id o' = i) (db_objections d)"

definition published_case ::
    "db \<Rightarrow> string \<Rightarrow> int \<Rightarrow> int \<Rightarrow> string \<Rightarrow> string \<Rightarrow> points option \<Rightarrow> int option \<Rightarrow> case_data option" where
  \<comment> \<open>a report or an objection is read by the rule of its scheme\<close>
  "published_case d kind student scheme category key current target =
    (case load_scheme_by_id d scheme of
       None \<Rightarrow> None
     | Some s \<Rightarrow> map_option (\<lambda>t. \<lparr>cd_subject = student, cd_title = review_title,
         cd_category = category, cd_item = key, cd_score = map_option points_float current,
         cd_rule = Some t, cd_submission = (if kind = ''submission'' then target else None)\<rparr>)
         (governance_rule_item category key (cf_categories (sc_config s))))"

definition load_case_data :: "db \<Rightarrow> string \<Rightarrow> int \<Rightarrow> case_data option" where
  "load_case_data d action i =
    (if action = ''submission'' then map_option (\<lambda>s. \<lparr>cd_subject = sb_student s,
         cd_title = sb_title s, cd_category = sb_category s, cd_item = sb_item s,
         cd_score = map_option points_float (sb_final s), cd_rule = Some (rs_item (sb_snapshot s)),
         cd_submission = Some (sb_id s)\<rparr>) (find_submission d i)
     else if action = ''appeal'' then (case find_appeal d i of
         None \<Rightarrow> None
       | Some p \<Rightarrow> (case load_appeal_target d (ap_target_type p) (ap_target p) (ap_student p) of
           Target t \<Rightarrow> Some \<lparr>cd_subject = ap_student p, cd_title = appeal_title,
             cd_category = at_category t, cd_item = at_item t, cd_score = at_current t,
             cd_rule = map_option rs_item (at_snapshot t),
             cd_submission = (if ap_target_type p = ''submission'' then Some (ap_target p) else None)\<rparr>
         | _ \<Rightarrow> None))
     else if action = ''report'' then Option.bind (find_report d i) (\<lambda>r. published_case d (rp_kind r)
         (rp_student r) (rp_scheme r) (rp_category r) (rp_item r) (rp_current r) (rp_target r))
     else if action = ''objection'' then Option.bind (find_objection d i) (\<lambda>r. published_case d
         (ob_kind r) (ob_student r) (ob_scheme r) (ob_category r) (ob_item r) (ob_current r) (ob_target r))
     else None)"

definition case_target_row :: "db \<Rightarrow> string \<Rightarrow> int \<Rightarrow> case_target option" where
  "case_target_row d action i =
    (if action = ''submission'' then map_option SubmissionCase (find_submission d i)
     else if action = ''appeal'' then map_option AppealCase (find_appeal d i)
     else if action = ''report'' then map_option ReportCase (find_report d i)
     else if action = ''objection'' then map_option ObjectionCase (find_objection d i)
     else None)"

definition case_files :: "db \<Rightarrow> string \<Rightarrow> int \<Rightarrow> evidence_row list" where
  "case_files d action i = filter (\<lambda>f.
     (if action = ''submission'' then ed_submission f else if action = ''appeal'' then ed_appeal f
      else if action = ''report'' then ed_report f else ed_objection f) = Some i) (db_evidence d)"

definition case_facts_of :: "db \<Rightarrow> string \<Rightarrow> int \<Rightarrow> (case_data \<times> case_facts) option" where
  "case_facts_of d action i =
    (if i \<le> 0 then None else
     case case_target_row d action i of None \<Rightarrow> None | Some row \<Rightarrow>
     (case load_case_data d action i of None \<Rightarrow> None | Some c \<Rightarrow>
      (let under = Option.bind (cd_submission c) (find_submission d) in
       if cd_submission c \<noteq> None \<and> under = None then None
       else Some (c, \<lparr>cx_target = row, cx_files = case_files d action i,
         cx_schemes = map (\<lambda>s. (sc_id s, sc_config s))
           (filter (\<lambda>s. sc_status s = ''published'') (db_schemes d)),
         cx_submission = under,
         cx_base = (if cd_submission c \<noteq> None then []
           else filter (\<lambda>b. bs_student b = cd_subject c \<and> bs_category b = cd_category c
             \<and> bs_item b = cd_item c) (db_base d)),
         cx_supplement = map co_body (filter (\<lambda>m. co_kind m = ''evidence''
           \<and> list_ex (\<lambda>p. pr_id p = co_proposal m \<and> pr_action p = action \<and> pr_target p = Some i)
               (db_proposals d)) (db_comments d))\<rparr>))))"

definition governance_case_state :: "env \<Rightarrow> db \<Rightarrow> string \<Rightarrow> int \<Rightarrow> string option" where
  "governance_case_state e d action i =
     map_option (\<lambda>(_, x). en_digest e (CaseFacts x)) (case_facts_of d action i)"

section \<open>Opening a case (ensureGovernanceCase)\<close>

definition earlier_panel :: "db \<Rightarrow> case_data \<Rightarrow> int list" where
  \<comment> \<open>everyone who sat on a case about the same facts of the same person\<close>
  "earlier_panel d c = map vo_user (filter (\<lambda>v. list_ex (\<lambda>p. pr_id p = vo_proposal v
       \<and> pr_subject p = Some (cd_subject c)
       \<and> (pr_action p = ''submission'' \<and> pr_target p \<noteq> None \<and> pr_target p = cd_submission c
          \<or> pr_action p = ''report'' \<and> list_ex (\<lambda>r. Some (rp_id r) = pr_target p
               \<and> rp_student r = cd_subject c \<and> rp_category r = cd_category c
               \<and> rp_item r = cd_item c) (db_reports d)
          \<or> pr_action p = ''objection'' \<and> list_ex (\<lambda>r. Some (ob_id r) = pr_target p
               \<and> ob_student r = cd_subject c \<and> ob_category r = cd_category c
               \<and> ob_item r = cd_item c) (db_objections d))) (db_proposals d)) (db_voters d))"

definition standard_profile :: "db \<Rightarrow> bool" where
  "standard_profile d \<longleftrightarrow> governance_profile d = Some ''standard''"

definition available_reviewers :: "env \<Rightarrow> gov_member list \<Rightarrow> int list \<Rightarrow> nat" where
  "available_reviewers e members excluded =
     count_where (\<lambda>m. eligible m (en_now e) \<and> gm_reviewer m \<and> gm_id m \<notin> set excluded) members"

definition case_seats :: "db \<Rightarrow> string \<Rightarrow> int" where
  "case_seats d action = (if action = ''appeal'' then (if standard_profile d then 5 else 3) else 2)"

definition case_excluded :: "actor \<Rightarrow> bool \<Rightarrow> string \<Rightarrow> case_data \<Rightarrow> db \<Rightarrow> int list" where
  "case_excluded a exclude_actor action c d =
     cd_subject c # (if exclude_actor then [ac_user a] else [])
       @ (if action = ''appeal'' then earlier_panel d c else [])"

definition case_panel :: "env \<Rightarrow> string \<Rightarrow> int list \<Rightarrow> db \<Rightarrow> int list option" where
  \<comment> \<open>\<open>None\<close>: the case is opened blocked, with no seats\<close>
  "case_panel e action excluded d =
    (let members = governance_members d;
         drawn = draw_panel (en_sha256 e) members (en_now e) (set excluded) (case_seats d action)
                   (en_seed e) in
     if action \<noteq> ''appeal''
        \<and> int (available_reviewers e members excluded) < (if standard_profile d then 10 else 6)
     then None
     else (case drawn of Inl _ \<Rightarrow> None | Inr ids \<Rightarrow> Some ids))"

definition new_voter :: "int \<Rightarrow> int \<Rightarrow> int \<Rightarrow> voter_row" where
  "new_voter p k u = \<lparr>vo_proposal = p, vo_user = u, vo_choice = None, vo_opinion = None,
     vo_candidate = None, vo_cast_at = None, vo_locked = False, vo_active = True, vo_replacement = k\<rparr>"

definition proposal_check :: "proposal_row \<Rightarrow> bool" where
  \<comment> \<open>the \<open>CHECK\<close>s of \<open>governance_proposal\<close> on what the code does not fix itself\<close>
  "proposal_check p \<longleftrightarrow> 1 \<le> rune_count (pr_title p) \<and> rune_count (pr_title p) \<le> 120
     \<and> pr_opens p < pr_closes p \<and> 0 < pr_required p \<and> 0 < pr_electorate p"

definition blank_case :: "int \<Rightarrow> case_input" where
  "blank_case i = \<lparr>gc_version = [], gc_target = i, gc_score = None, gc_category = [], gc_item = [],
     gc_reason = [], gc_decision = [], gc_action = []\<rparr>"

definition new_case ::
    "env \<Rightarrow> string \<Rightarrow> int \<Rightarrow> case_data \<Rightarrow> string \<Rightarrow> int list option \<Rightarrow> db \<Rightarrow> proposal_row" where
  "new_case e action i c h panel d =
    (let seats = case_seats d action; (roster, rhash) = governance_roster e d in
     \<lparr>pr_id = db_next d, pr_author = cd_subject c, pr_created = None,
      pr_kind = (if action = ''appeal'' then ''appeal'' else ''review''), pr_title = cd_title c,
      pr_action = action, pr_payload = CasePayload (blank_case i), pr_target = Some i,
      pr_subject = Some (cd_subject c),
      pr_version = (case db_governance d of None \<Rightarrow> 0 | Some g \<Rightarrow> gv_version g), pr_hash = h,
      pr_roster_hash = rhash, pr_roster = roster, pr_electorate = seats,
      pr_required = seats div 2 + 1,
      pr_status = (if panel = None then ''blocked'' else ''voting''), pr_opens = en_now e,
      pr_closes = en_now e + review_timeout, pr_decided_at = None, pr_result = None, pr_round = 1\<rparr>)"

definition open_case ::
    "env \<Rightarrow> actor \<Rightarrow> bool \<Rightarrow> string \<Rightarrow> int \<Rightarrow> case_data \<Rightarrow> db \<Rightarrow> (http_error, db) result" where
  "open_case e a exclude_actor action i c d =
    (let excluded = case_excluded a exclude_actor action c d;
         panel = case_panel e action excluded d in
     case governance_case_state e d action i of
       None \<Rightarrow> Inl internal_error
     | Some h \<Rightarrow> (let p = new_case e action i c h panel d in
        if \<not> proposal_check p then Inl internal_error
        else Inr (d\<lparr>db_proposals := db_proposals d @ [p],
           db_voters := db_voters d @ map (new_voter (pr_id p) 0) (case panel of None \<Rightarrow> [] | Some ids \<Rightarrow> ids),
           db_cases := db_cases d @ [\<lparr>ce_proposal = pr_id p, ce_excluded = excluded, ce_seed = en_seed e\<rparr>],
           db_next := db_next d + 1\<rparr>)))"

definition arbitrate_pending :: "env \<Rightarrow> string \<Rightarrow> int \<Rightarrow> db \<Rightarrow> (http_error, db) result" where
  "arbitrate_pending e action i d =
    (if action \<noteq> ''submission'' then Inr d
     else update_submissions (\<lambda>s. sb_id s = i \<and> sb_status s = Pending)
       (\<lambda>s. s\<lparr>sb_status := Arbitrating, sb_updated_at := en_now e\<rparr>) d)"

definition ensure_governance_case ::
    "env \<Rightarrow> actor \<Rightarrow> string \<Rightarrow> int \<Rightarrow> bool \<Rightarrow> db \<Rightarrow> (http_error, db) result" where
  "ensure_governance_case e a action i exclude_actor d =
    (if governance_mode d \<noteq> ''collective'' then Inr d
     else if list_ex (\<lambda>p. pr_action p = action \<and> pr_target p = Some i \<and> pr_status p \<noteq> ''stale'')
       (db_proposals d) then Inr d
     else (case load_case_data d action i of
         None \<Rightarrow> Inl internal_error
       | Some c \<Rightarrow> (case arbitrate_pending e action i d of
           Inl err \<Rightarrow> Inl err
         | Inr d1 \<Rightarrow> open_case e a exclude_actor action i c d1)))"

end
