(* ===== verification/Objections.thy ===== *)
theory Objections
  imports Council
begin

text \<open>
  The review group's proposals to change a score: \<open>api/review_objection_handlers.go\<close>.  An
  objection names a member and a base item, a penalty item or a decided submission; it is
  drafted, submitted in batches, and decided by the administrator (or by a collective
  decision, \<open>granted\<close>), who applies, adjusts or dismisses it.

  A proposed score and a quantity are written as the client sent them, so the column holds
  the database's rounding of the double (\<open>en_numeric\<close>).
\<close>

section \<open>Validation\<close>

definition scorable_member :: "string \<Rightarrow> string \<Rightarrow> bool" where
  \<comment> \<open>\<open>isScorableClassMember\<close>\<close>
  "scorable_member role status \<longleftrightarrow>
     status = ''active'' \<and> role \<in> {''student'', ''group'', ''class_admin''}"

definition find_user :: "db \<Rightarrow> int \<Rightarrow> app_user option" where
  "find_user d i = find (\<lambda>u. us_id u = i) (db_users d)"

record objection_input =
  oi_kind :: string
  oi_student :: int
  oi_category :: string
  oi_item :: string
  oi_target :: "int option"
  oi_score :: "f64 option"
  oi_quantity :: "f64 option"
  oi_basis :: string

definition scored_kind :: "string \<Rightarrow> bool" where
  "scored_kind k \<longleftrightarrow> k \<in> {''base'', ''penalty'', ''submission''}"

definition normalize_objection :: "objection_input \<Rightarrow> (http_error, objection_input \<times> f64) result" where
  "normalize_objection x =
    (let y = x\<lparr>oi_kind := trim_space (oi_kind x), oi_category := trim_space (oi_category x),
       oi_item := trim_space (oi_item x), oi_basis := trim_space (oi_basis x)\<rparr> in
     if \<not> scored_kind (oi_kind y) then Inl (HttpError 422 ''objection_invalid'')
     else (case oi_score y of
         None \<Rightarrow> Inl (HttpError 422 ''objection_invalid'')
       | Some v \<Rightarrow>
          if length (oi_basis y) < 4 \<or> 5000 < length (oi_basis y)
          then Inl (HttpError 422 ''objection_invalid'')
          else if oi_kind y = ''penalty'' \<and> (case oi_quantity y of None \<Rightarrow> True | Some q \<Rightarrow> fle q (Fin 0))
          then Inl (HttpError 422 ''quantity_invalid'')
          else if oi_kind y \<noteq> ''penalty'' \<and> oi_quantity y \<noteq> None
          then Inl (HttpError 422 ''quantity_invalid'')
          else Inr (y, v)))"

datatype scheme_item = BaseOf base_item | PenaltyOf penalty_item

primrec scheme_item_labels :: "string \<Rightarrow> string \<Rightarrow> string \<Rightarrow> category list \<Rightarrow> scheme_item option" where
  \<comment> \<open>\<open>schemeItemLabels\<close>: the base item, unless students claim it, or the penalty item\<close>
  "scheme_item_labels c k kind [] = None"
| "scheme_item_labels c k kind (x # xs) =
    (case (if ca_key x \<noteq> c then None
           else if kind = ''base'' then
             map_option BaseOf (find (\<lambda>b. bi_key b = k \<and> bi_student_claim b = None) (ca_base_items x))
           else if kind = ''penalty'' then
             map_option PenaltyOf (find (\<lambda>p. pi_key p = k) (ca_penalty_items x))
           else None) of
       Some r \<Rightarrow> Some r
     | None \<Rightarrow> scheme_item_labels c k kind xs)"

definition target_appealing :: "db \<Rightarrow> string \<Rightarrow> int \<Rightarrow> bool" where
  \<comment> \<open>\<open>objectionTargetHasOpenAppeal\<close>\<close>
  "target_appealing d kind i \<longleftrightarrow> list_ex (\<lambda>p. ap_kind p = ''student_appeal''
     \<and> ap_target_type p = kind \<and> ap_target p = i \<and> open_status (ap_status p)) (db_appeals d)"

definition appeal_type :: "string \<Rightarrow> string" where
  "appeal_type kind = (if kind = ''penalty'' then ''penalty_score'' else ''base_score'')"

definition find_base :: "db \<Rightarrow> int \<Rightarrow> int \<Rightarrow> string \<Rightarrow> string \<Rightarrow> string \<Rightarrow> base_row option" where
  "find_base d student scheme category key kind = find (\<lambda>b. bs_student b = student
     \<and> bs_scheme b = scheme \<and> bs_category b = category \<and> bs_item b = key \<and> bs_kind b = kind) (db_base d)"

record valid_objection =
  vl_scheme :: int
  vl_student :: int
  vl_target :: "int option"
  vl_current :: "f64 option"
  vl_category :: string
  vl_item :: string
  vl_full :: "f64 option"

definition validate_submission_objection ::
    "objection_input \<Rightarrow> f64 \<Rightarrow> db \<Rightarrow> (http_error, valid_objection) result" where
  "validate_submission_objection x v d = (case oi_target x of
      None \<Rightarrow> Inl (HttpError 422 ''target_required'')
    | Some i \<Rightarrow> (case find_submission d i of
        None \<Rightarrow> Inl (HttpError 404 ''target_not_found'')
      | Some s \<Rightarrow>
         if sb_student s \<noteq> oi_student x \<or> sb_category s \<noteq> oi_category x \<or> sb_item s \<noteq> oi_item x
         then Inl (HttpError 422 ''target_mismatch'')
         else if sb_status s \<noteq> Scored \<and> sb_status s \<noteq> Locked then Inl (HttpError 409 ''not_objectable'')
         else if \<not> score_within_rule (it_score_rule (rs_item (sb_snapshot s))) v
         then Inl (HttpError 422 ''score_invalid'')
         else if target_appealing d ''submission'' i then Inl (HttpError 409 ''target_appealing'')
         else Inr \<lparr>vl_scheme = sb_scheme_id s, vl_student = oi_student x, vl_target = Some i,
           vl_current = map_option points_float (sb_final s), vl_category = sb_category s,
           vl_item = sb_item s, vl_full = None\<rparr>))"

definition objection_score_check ::
    "bool \<Rightarrow> scheme_item \<Rightarrow> objection_input \<Rightarrow> f64 \<Rightarrow> http_error option" where
  \<comment> \<open>executing a collective decision recomputes the quantity from the score decided\<close>
  "objection_score_check granted t x v = (let p = new_points v in case t of
      BaseOf b \<Rightarrow> if p < 0 \<or> new_points (bi_full b) < p then Some (HttpError 422 ''score_invalid'') else None
    | PenaltyOf m \<Rightarrow>
        if 0 < p then Some (HttpError 422 ''score_invalid'')
        else (let q = (if granted \<and> flt (pi_per m) (Fin 0) then fdiv v (pi_per m)
                       else (case oi_quantity x of None \<Rightarrow> Fin 0 | Some q \<Rightarrow> q)) in
          if p \<noteq> new_points (fmul q (pi_per m)) then Some (HttpError 422 ''quantity_mismatch'') else None))"

definition item_full :: "scheme_item \<Rightarrow> f64 option" where
  "item_full t = (case t of BaseOf b \<Rightarrow> Some (bi_full b) | PenaltyOf _ \<Rightarrow> None)"

definition validate_base_objection ::
    "env \<Rightarrow> bool \<Rightarrow> objection_input \<Rightarrow> f64 \<Rightarrow> db \<Rightarrow> (http_error, db \<times> valid_objection) result" where
  "validate_base_objection e granted x v d = (case load_current_scheme e d of
      Inl err \<Rightarrow> Inl internal_error
    | Inr (d1, current) \<Rightarrow>
      (case scheme_item_labels (oi_category x) (oi_item x) (oi_kind x)
              (cf_categories (ss_config current)) of
         None \<Rightarrow> Inl (HttpError 422 ''objection_invalid'')
       | Some t \<Rightarrow> (case objection_score_check granted t x v of Some err \<Rightarrow> Inl err | None \<Rightarrow>
          (let r = \<lparr>vl_scheme = ss_id current, vl_student = oi_student x, vl_target = None,
               vl_current = None, vl_category = oi_category x, vl_item = oi_item x,
               vl_full = item_full t\<rparr> in
           (case find_base d1 (oi_student x) (ss_id current) (oi_category x) (oi_item x) (oi_kind x) of
              None \<Rightarrow> if oi_target x \<noteq> None then Inl (HttpError 422 ''target_mismatch'') else Inr (d1, r)
            | Some b \<Rightarrow>
                if (case oi_target x of None \<Rightarrow> False | Some i \<Rightarrow> i \<noteq> bs_id b)
                then Inl (HttpError 422 ''target_mismatch'')
                else if target_appealing d1 (appeal_type (oi_kind x)) (bs_id b)
                then Inl (HttpError 409 ''target_appealing'')
                else Inr (d1, r\<lparr>vl_target := Some (bs_id b),
                       vl_current := Some (points_float (bs_score b))\<rparr>))))))"

definition validate_objection ::
    "env \<Rightarrow> bool \<Rightarrow> objection_input \<Rightarrow> db \<Rightarrow> (http_error, db \<times> valid_objection) result" where
  "validate_objection e granted input d = (case normalize_objection input of
      Inl err \<Rightarrow> Inl err
    | Inr (x, v) \<Rightarrow> (case find_user d (oi_student x) of
        None \<Rightarrow> Inl (HttpError 404 ''student_not_found'')
      | Some u \<Rightarrow>
         if \<not> scorable_member (us_role u) (us_status u) then Inl (HttpError 422 ''not_student'')
         else if oi_kind x = ''submission'' then
           (case validate_submission_objection x v d of Inl err \<Rightarrow> Inl err | Inr r \<Rightarrow> Inr (d, r))
         else validate_base_objection e granted x v d))"

section \<open>The table\<close>

definition objection_open :: "objection_row \<Rightarrow> bool" where
  "objection_open r \<longleftrightarrow> ob_status r \<in> {''draft'', ''submitted''}"

definition objection_key :: "objection_row \<Rightarrow> string \<times> int \<times> int \<times> string \<times> string \<times> int" where
  "objection_key r = (ob_kind r, ob_student r, ob_scheme r, ob_category r, ob_item r,
     case ob_target r of None \<Rightarrow> 0 | Some i \<Rightarrow> i)"

definition objection_workflow :: "db \<Rightarrow> objection_row \<Rightarrow> http_error option" where
  \<comment> \<open>the trigger on a row that is open on a submission\<close>
  "objection_workflow d r =
     (if ob_kind r = ''submission'' \<and> objection_open r then Option.bind (ob_target r) (workflow_check d)
      else None)"

definition objection_row_check :: "db \<Rightarrow> objection_row \<Rightarrow> http_error option" where
  \<comment> \<open>the trigger, the \<open>CHECK\<close>s, then \<open>objection_one_open_target\<close>\<close>
  "objection_row_check d r = (case objection_workflow d r of
      Some err \<Rightarrow> Some err
    | None \<Rightarrow>
       if \<not> scored_kind (ob_kind r) \<or> (ob_kind r = ''penalty'') \<noteq> (ob_quantity r \<noteq> None)
       then Some internal_error
       else if objection_open r \<and> list_ex (\<lambda>q. ob_id q \<noteq> ob_id r \<and> objection_open q
              \<and> objection_key q = objection_key r) (db_objections d)
       then Some (HttpError 409 ''objection_exists'') else None)"

definition filed_objection ::
    "env \<Rightarrow> actor \<Rightarrow> objection_input \<Rightarrow> valid_objection \<Rightarrow> objection_row \<Rightarrow> objection_row" where
  \<comment> \<open>the kind, the score, the quantity as sent; only the basis is trimmed\<close>
  "filed_objection e a x r row = row\<lparr>ob_kind := oi_kind x, ob_target := vl_target r,
     ob_student := vl_student r, ob_scheme := vl_scheme r, ob_category := vl_category r,
     ob_item := vl_item r, ob_current := map_option column_of (vl_current r),
     ob_proposed := (case oi_score x of None \<Rightarrow> 0 | Some v \<Rightarrow> en_numeric e v),
     ob_quantity := map_option (en_numeric e) (oi_quantity x), ob_basis := trim_space (oi_basis x)\<rparr>"

definition blank_objection :: "int \<Rightarrow> actor \<Rightarrow> objection_row" where
  "blank_objection i a = \<lparr>ob_id = i, ob_kind = [], ob_target = None, ob_student = 0, ob_scheme = 0,
     ob_category = [], ob_item = [], ob_current = None, ob_proposed = 0, ob_quantity = None,
     ob_basis = [], ob_proposer = ac_user a, ob_status = ''draft'', ob_batch = None,
     ob_submitted_at = None, ob_origin = None, ob_decided_by = None, ob_decided_score = None,
     ob_decision_reason = None, ob_decided_at = None\<rparr>"

section \<open>Drafts (createObjection, updateObjection, deleteObjection)\<close>

definition create_objection :: "env \<Rightarrow> actor \<Rightarrow> objection_input \<Rightarrow> db \<Rightarrow> int handler" where
  "create_objection e a x d = (case validate_objection e False x d of
      Inl err \<Rightarrow> Inl err
    | Inr (d1, r) \<Rightarrow> (let n = db_next d1; row = filed_objection e a x r (blank_objection n a) in
        case objection_row_check d1 row of
          Some err \<Rightarrow> Inl err
        | None \<Rightarrow> Inr (append_audit a ''objection.created'' ''objection'' (dec_int n)
            (d1\<lparr>db_objections := db_objections d1 @ [row], db_next := n + 1\<rparr>), n)))"

definition update_objection :: "env \<Rightarrow> actor \<Rightarrow> int \<Rightarrow> objection_input \<Rightarrow> db \<Rightarrow> int handler" where
  "update_objection e a i x d = (case path_id i of Some err \<Rightarrow> Inl err | None \<Rightarrow>
    (case find (\<lambda>r. ob_id r = i \<and> ob_proposer r = ac_user a) (db_objections d) of
       None \<Rightarrow> Inl not_found
     | Some row \<Rightarrow>
        if ob_status row \<noteq> ''draft'' then Inl (HttpError 409 ''objection_not_draft'')
        else (case validate_objection e False x d of
           Inl err \<Rightarrow> Inl err
         | Inr (d1, r) \<Rightarrow> (case objection_row_check d1 (filed_objection e a x r row) of
             Some err \<Rightarrow> Inl err
           | None \<Rightarrow> Inr (d1\<lparr>db_objections := where_set (\<lambda>q. ob_id q = i) (filed_objection e a x r)
               (db_objections d1)\<rparr>, i)))))"

definition delete_objection :: "actor \<Rightarrow> int \<Rightarrow> db \<Rightarrow> string list handler" where
  \<comment> \<open>answers with the stored objects to remove; the files go with the row\<close>
  "delete_objection a i d = (case path_id i of Some err \<Rightarrow> Inl err | None \<Rightarrow>
    (let hit = (\<lambda>r. ob_id r = i \<and> ob_proposer r = ac_user a \<and> ob_status r = ''draft'') in
     if \<not> list_ex hit (db_objections d) then Inl (HttpError 409 ''objection_not_draft'')
     else Inr (d\<lparr>db_objections := delete_where hit (db_objections d),
         db_evidence := delete_where (\<lambda>f. ed_objection f = Some i) (db_evidence d)\<rparr>,
       map ed_object (filter (\<lambda>f. ed_objection f = Some i) (db_evidence d)))))"

section \<open>Submitting a batch\<close>

definition parse_objection_ids :: "int list \<Rightarrow> bool" where
  "parse_objection_ids ids \<longleftrightarrow> ids \<noteq> [] \<and> length ids \<le> 500 \<and> distinct ids"

definition input_from_objection :: "objection_row \<Rightarrow> objection_input" where
  "input_from_objection r = \<lparr>oi_kind = ob_kind r, oi_student = ob_student r,
     oi_category = ob_category r, oi_item = ob_item r, oi_target = ob_target r,
     oi_score = Some (points_float (ob_proposed r)),
     oi_quantity = map_option points_float (ob_quantity r), oi_basis = ob_basis r\<rparr>"

definition check_submitted :: "env \<Rightarrow> actor \<Rightarrow> db \<times> int list \<Rightarrow> int \<Rightarrow> (http_error, db \<times> int list) result" where
  \<comment> \<open>one round of the loop; the second component collects the members concerned\<close>
  "check_submitted e a st i = (let (d, students) = st in case find_objection d i of
      None \<Rightarrow> Inl not_found
    | Some r \<Rightarrow>
       if ob_proposer r \<noteq> ac_user a then Inl not_found
       else if ob_status r \<noteq> ''draft'' then Inl (HttpError 409 ''objection_not_draft'')
       else (case validate_objection e False (input_from_objection r) d of
          Inl err \<Rightarrow> Inl err
        | Inr (d1, _) \<Rightarrow> Inr (d1, if ob_origin r = None then students @ [ob_student r] else students)))"

definition mark_submitted :: "env \<Rightarrow> objection_row \<Rightarrow> objection_row" where
  "mark_submitted e r = r\<lparr>ob_status := ''submitted'', ob_batch := Some (en_uuid e),
     ob_submitted_at := Some (en_now e)\<rparr>"

definition submit_objections :: "env \<Rightarrow> actor \<Rightarrow> int list \<Rightarrow> db \<Rightarrow> string handler" where
  \<comment> \<open>Go visits the members concerned in the order of a map; the order changes only the order of
     the events\<close>
  "submit_objections e a ids d =
    (if \<not> parse_objection_ids ids then Inl (HttpError 422 ''objection_invalid'')
     else (case fold_res (check_submitted e a) (d, []) ids of
        Inl err \<Rightarrow> Inl err
      | Inr (d1, students) \<Rightarrow>
         (case first_error (\<lambda>r. if ob_id r \<in> set ids then objection_workflow d1 (mark_submitted e r) else None)
                 (db_objections d1) of
            Some err \<Rightarrow> Inl err
          | None \<Rightarrow>
             (let d2 = enqueue_event ''objection.submitted'' (ac_user a)
                   (append_audit a ''objection.submitted'' ''objection'' (en_uuid e)
                     (d1\<lparr>db_objections := where_set (\<lambda>r. ob_id r \<in> set ids) (mark_submitted e)
                        (db_objections d1)\<rparr>));
                  d3 = fold (\<lambda>st. invalidate_student_blind_audit e st []
                     ''score objection filed after scorecard review'') (remdups students) d2 in
              (case fold_res (\<lambda>d i. ensure_governance_case e a ''objection'' i True d) d3 ids of
                 Inl err \<Rightarrow> Inl err
               | Inr d4 \<Rightarrow> Inr (d4, en_uuid e))))))"

definition withdraw_objection :: "actor \<Rightarrow> int \<Rightarrow> db \<Rightarrow> unit handler" where
  "withdraw_objection a i d = (case path_id i of Some err \<Rightarrow> Inl err | None \<Rightarrow>
    (let hit = (\<lambda>r. ob_id r = i \<and> ob_proposer r = ac_user a \<and> ob_status r = ''submitted'') in
     if \<not> list_ex hit (db_objections d) then Inl (HttpError 409 ''objection_not_withdrawable'')
     else Inr (append_audit a ''objection.withdrawn'' ''objection'' (dec_int i)
       (d\<lparr>db_objections := where_set hit (\<lambda>r. r\<lparr>ob_status := ''withdrawn''\<rparr>) (db_objections d)\<rparr>), ())))"

section \<open>Writing a base score\<close>

definition base_row_check :: "base_row \<Rightarrow> bool" where
  "base_row_check b \<longleftrightarrow>
     bs_kind b = ''base'' \<and> (case bs_full b of None \<Rightarrow> False | Some f \<Rightarrow> 0 \<le> bs_score b \<and> bs_score b \<le> f)
     \<or> bs_kind b = ''penalty'' \<and> bs_full b = None \<and> bs_score b \<le> 0"

definition same_base :: "base_row \<Rightarrow> base_row \<Rightarrow> bool" where
  "same_base b c \<longleftrightarrow> bs_student b = bs_student c \<and> bs_scheme b = bs_scheme c
     \<and> bs_category b = bs_category c \<and> bs_item b = bs_item c"

definition upsert_base :: "(base_row \<Rightarrow> base_row \<Rightarrow> base_row) \<Rightarrow> base_row \<Rightarrow> db \<Rightarrow> (http_error, db) result" where
  \<comment> \<open>\<open>INSERT ... ON CONFLICT DO UPDATE\<close>: the \<open>CHECK\<close> holds of the row offered and of the row stored\<close>
  "upsert_base merge b d =
    (if \<not> base_row_check b then Inl internal_error
     else (case find (same_base b) (db_base d) of
        None \<Rightarrow> Inr (d\<lparr>db_base := db_base d @ [b\<lparr>bs_id := db_next d\<rparr>], db_next := db_next d + 1\<rparr>)
      | Some old \<Rightarrow>
          if \<not> base_row_check (merge old b) then Inl internal_error
          else Inr (d\<lparr>db_base := where_set (same_base b) (\<lambda>c. merge c b) (db_base d)\<rparr>)))"

definition replace_base :: "base_row \<Rightarrow> base_row \<Rightarrow> base_row" where
  "replace_base old b = old\<lparr>bs_kind := bs_kind b, bs_full := bs_full b, bs_score := bs_score b,
     bs_basis := bs_basis b, bs_recorder := bs_recorder b\<rparr>"

section \<open>Deciding (decideObjection)\<close>

record objection_decision =
  od_action :: string
  od_score :: "f64 option"
  od_reason :: string

definition rescore :: "env \<Rightarrow> points \<Rightarrow> submission \<Rightarrow> submission" where
  \<comment> \<open>what an applied objection or report does to a decided submission\<close>
  "rescore e p s = s\<lparr>sb_final := Some p, sb_status := Scored, sb_scored_at := Some (en_now e),
     sb_updated_at := en_now e, sb_lock_version := sb_lock_version s + 1\<rparr>"

definition apply_objection ::
    "env \<Rightarrow> objection_row \<Rightarrow> valid_objection \<Rightarrow> f64 \<Rightarrow> db \<Rightarrow> (http_error, db) result" where
  "apply_objection e r v score d =
    (if ob_kind r = ''submission'' then
       update_submissions (\<lambda>s. Some (sb_id s) = vl_target v) (rescore e (en_numeric e score)) d
     else upsert_base replace_base \<lparr>bs_id = 0, bs_student = ob_student r, bs_scheme = ob_scheme r,
       bs_category = ob_category r, bs_item = ob_item r, bs_kind = ob_kind r,
       bs_full = map_option (en_numeric e) (vl_full v), bs_score = en_numeric e score,
       bs_basis = ob_basis r, bs_recorder = ob_proposer r\<rparr> d)"

definition close_objection ::
    "env \<Rightarrow> actor \<Rightarrow> int \<Rightarrow> string \<Rightarrow> points option \<Rightarrow> string \<Rightarrow> db \<Rightarrow> db" where
  "close_objection e a i status score reason d =
     d\<lparr>db_objections := where_set (\<lambda>r. ob_id r = i) (\<lambda>r. r\<lparr>ob_status := status,
        ob_decided_by := Some (ac_user a),
        ob_decided_score := (case score of None \<Rightarrow> ob_decided_score r | Some p \<Rightarrow> Some p),
        ob_decision_reason := Some reason, ob_decided_at := Some (en_now e)\<rparr>) (db_objections d)\<rparr>"

definition decide_objection ::
    "env \<Rightarrow> actor \<Rightarrow> bool \<Rightarrow> objection_row \<Rightarrow> objection_decision \<Rightarrow> db \<Rightarrow> (string \<times> f64 option) handler" where
  "decide_objection e a granted r x d = (case authorize_adjudication d a (ob_student r) of
      Some err \<Rightarrow> Inl err
    | None \<Rightarrow> (let action = trim_space (od_action x); reason = trim_space (od_reason x) in
       if ob_status r \<noteq> ''submitted'' then Inl (HttpError 409 ''objection_not_submitted'')
       else if action \<notin> {''apply'', ''adjust'', ''dismiss''} then Inl (HttpError 422 ''decision_invalid'')
       else if length reason < 4 \<or> 5000 < length reason then Inl (HttpError 422 ''decision_invalid'')
       else if action = ''dismiss''
       then Inr (close_objection e a (ob_id r) ''dismissed'' None reason d, ''dismissed'', None)
       else (case (if action = ''adjust'' then od_score x else Some (points_float (ob_proposed r))) of
          None \<Rightarrow> Inl (HttpError 422 ''score_required'')
        | Some score \<Rightarrow>
           (case validate_objection e granted ((input_from_objection r)\<lparr>oi_score := Some score\<rparr>) d of
              Inl err \<Rightarrow> Inl err
            | Inr (d1, v) \<Rightarrow> (case apply_objection e r v score d1 of
                Inl err \<Rightarrow> Inl err
              | Inr d2 \<Rightarrow>
                 (let status = (if action = ''adjust'' then ''adjusted'' else ''applied'');
                      d3 = close_objection e a (ob_id r) status (Some (en_numeric e score)) reason d2 in
                  Inr (invalidate_student_blind_audit e (ob_student r) (text_of (ob_origin r))
                     ''objection changed a score outside the active blind audit''
                     (invalidate_latest_settlement ''objection applied'' d3), status, Some score)))))))"

definition note_decision :: "actor \<Rightarrow> int \<Rightarrow> string \<Rightarrow> db \<Rightarrow> db" where
  "note_decision a i status d = enqueue_event ''objection.decided'' i
     (append_audit a (if status = ''dismissed'' then ''objection.dismissed'' else ''objection.applied'')
       ''objection'' (dec_int i) d)"

definition decide_admin_objection ::
    "env \<Rightarrow> actor \<Rightarrow> bool \<Rightarrow> int \<Rightarrow> objection_decision \<Rightarrow> db \<Rightarrow> (string \<times> f64 option) handler" where
  "decide_admin_objection e a granted i x d = (case path_id i of Some err \<Rightarrow> Inl err | None \<Rightarrow>
    (case find_objection d i of
       None \<Rightarrow> Inl not_found
     | Some r \<Rightarrow> (case decide_objection e a granted r x d of
         Inl err \<Rightarrow> Inl err
       | Inr (d1, status, score) \<Rightarrow> Inr (note_decision a i status d1, status, score))))"

definition decide_objections_batch ::
    "env \<Rightarrow> actor \<Rightarrow> int list \<Rightarrow> string \<Rightarrow> string \<Rightarrow> db \<Rightarrow> nat handler" where
  \<comment> \<open>\<open>decideAdminObjectionsBatch\<close>\<close>
  "decide_objections_batch e a ids action reason d =
    (if \<not> parse_objection_ids ids then Inl (HttpError 422 ''decision_invalid'')
     else if action \<noteq> ''apply'' \<and> action \<noteq> ''dismiss'' then Inl (HttpError 422 ''decision_invalid'')
     else (case fold_res (\<lambda>d i. case find_objection d i of
             None \<Rightarrow> Inl not_found
           | Some r \<Rightarrow> (case decide_objection e a False r
                 \<lparr>od_action = action, od_score = None, od_reason = reason\<rparr> d of
               Inl err \<Rightarrow> Inl err
             | Inr (d1, status, _) \<Rightarrow> Inr (note_decision a i status d1))) d ids of
        Inl err \<Rightarrow> Inl err
      | Inr d' \<Rightarrow> Inr (d', length ids)))"

end
