(* ===== verification/Reports.thy ===== *)
theory Reports
  imports Objections
begin

text \<open>
  Anonymous reports by students: \<open>api/report_handlers.go\<close> (filing) and
  \<open>api/report_review_handlers.go\<close> (the two reviewers, the administrator's final word).  A
  report claims that a base score, a penalty or a decided submission should be worse.  The
  reporter is kept in a table of its own, which only the three one-way questions of
  \<open>000041_student_reports\<close> read.
\<close>

section \<open>Filing\<close>

record report_input =
  rf_kind :: string
  rf_student :: int
  rf_category :: string
  rf_item :: string
  rf_target :: "int option"
  rf_quantity :: "f64 option"
  rf_proposed :: "f64 option"
  rf_basis :: string

record report_target =
  rt_student :: int
  rt_scheme :: int
  rt_category :: string
  rt_item :: string
  rt_target :: "int option"
  rt_current :: "f64 option"
  rt_proposed :: f64
  rt_quantity :: "f64 option"

definition report_daily_limit :: nat where "report_daily_limit = 10"

definition not_worse :: "f64 \<Rightarrow> f64 option \<Rightarrow> bool" where
  \<comment> \<open>true when \<open>rejectIfNotWorse\<close> refuses\<close>
  "not_worse proposed current =
     (case current of None \<Rightarrow> False | Some c \<Rightarrow> new_points c \<le> new_points proposed)"

definition validate_submission_report :: "report_input \<Rightarrow> db \<Rightarrow> (http_error, report_target) result" where
  "validate_submission_report x d = (case (rf_target x, rf_proposed x) of
      (Some i, Some v) \<Rightarrow>
        if rf_quantity x \<noteq> None then Inl (HttpError 422 ''quantity_invalid'')
        else (case find_submission d i of
           None \<Rightarrow> Inl (HttpError 404 ''target_not_found'')
         | Some s \<Rightarrow>
            if sb_student s \<noteq> rf_student x then Inl (HttpError 422 ''target_mismatch'')
            else if sb_status s \<noteq> Scored \<and> sb_status s \<noteq> Locked then Inl (HttpError 409 ''not_reportable'')
            else if \<not> score_within_rule (it_score_rule (rs_item (sb_snapshot s))) v
            then Inl (HttpError 422 ''score_invalid'')
            else if not_worse v (map_option points_float (sb_final s)) then Inl (HttpError 422 ''not_worse'')
            else if target_appealing d ''submission'' i then Inl (HttpError 409 ''target_appealing'')
            else Inr \<lparr>rt_student = rf_student x, rt_scheme = sb_scheme_id s,
              rt_category = sb_category s, rt_item = sb_item s, rt_target = Some i,
              rt_current = map_option points_float (sb_final s), rt_proposed = v, rt_quantity = None\<rparr>)
    | _ \<Rightarrow> Inl (HttpError 422 ''target_required''))"

definition report_points :: "scheme_item \<Rightarrow> report_input \<Rightarrow> (http_error, f64) result" where
  \<comment> \<open>a penalty is reported by its count, a base item by the score proposed\<close>
  "report_points t x = (case t of
      PenaltyOf m \<Rightarrow> (case rf_quantity x of
          None \<Rightarrow> Inl (HttpError 422 ''quantity_invalid'')
        | Some q \<Rightarrow> if fle q (Fin 0) \<or> flt (Fin 100) q then Inl (HttpError 422 ''quantity_invalid'')
                   else Inr (points_float (new_points (fmul q (pi_per m)))))
    | BaseOf b \<Rightarrow>
        if rf_quantity x \<noteq> None then Inl (HttpError 422 ''quantity_invalid'')
        else (case rf_proposed x of
           None \<Rightarrow> Inl (HttpError 422 ''report_invalid'')
         | Some v \<Rightarrow> (let p = new_points v in
             if p < 0 \<or> new_points (bi_full b) < p then Inl (HttpError 422 ''score_invalid'')
             else Inr (points_float p))))"

definition validate_base_report ::
    "env \<Rightarrow> report_input \<Rightarrow> db \<Rightarrow> (http_error, db \<times> report_target) result" where
  "validate_base_report e x d = (case load_current_scheme e d of
      Inl err \<Rightarrow> Inl internal_error
    | Inr (d1, current) \<Rightarrow>
      (case scheme_item_labels (rf_category x) (rf_item x) (rf_kind x)
              (cf_categories (ss_config current)) of
         None \<Rightarrow> Inl (HttpError 422 ''objection_invalid'')
       | Some t \<Rightarrow> (case report_points t x of Inl err \<Rightarrow> Inl err | Inr proposed \<Rightarrow>
          (let row = find_base d1 (rf_student x) (ss_id current) (rf_category x) (rf_item x) (rf_kind x);
               now = (case row of Some b \<Rightarrow> Some (points_float (bs_score b)) | None \<Rightarrow> item_full t) in
           if (case row of None \<Rightarrow> False | Some b \<Rightarrow> target_appealing d1 (appeal_type (rf_kind x)) (bs_id b))
           then Inl (HttpError 409 ''target_appealing'')
           else if rf_kind x = ''base'' \<and> not_worse proposed now then Inl (HttpError 422 ''not_worse'')
           else Inr (d1, \<lparr>rt_student = rf_student x, rt_scheme = ss_id current,
             rt_category = rf_category x, rt_item = rf_item x, rt_target = map_option bs_id row,
             rt_current = now, rt_proposed = proposed, rt_quantity = rf_quantity x\<rparr>)))))"

definition trim_report :: "report_input \<Rightarrow> report_input" where
  "trim_report x = x\<lparr>rf_kind := trim_space (rf_kind x), rf_category := trim_space (rf_category x),
     rf_item := trim_space (rf_item x), rf_basis := trim_space (rf_basis x)\<rparr>"

definition validate_report ::
    "env \<Rightarrow> actor \<Rightarrow> report_input \<Rightarrow> db \<Rightarrow> (http_error, db \<times> report_target) result" where
  "validate_report e a input d = (let x = trim_report input; n = rune_count (rf_basis x) in
     if \<not> scored_kind (rf_kind x) then Inl (HttpError 422 ''report_invalid'')
     else if n < 10 \<or> 5000 < n then Inl (HttpError 422 ''report_invalid'')
     else if rf_student x = ac_user a then Inl (HttpError 422 ''self_report'')
     else (case find_user d (rf_student x) of
        None \<Rightarrow> Inl (HttpError 404 ''student_not_found'')
      | Some u \<Rightarrow>
         if \<not> scorable_member (us_role u) (us_status u) then Inl (HttpError 422 ''not_student'')
         else if rf_kind x = ''submission'' then
           (case validate_submission_report x d of Inl err \<Rightarrow> Inl err | Inr t \<Rightarrow> Inr (d, t))
         else validate_base_report e x d))"

definition report_already_filed :: "db \<Rightarrow> int \<Rightarrow> report_row \<Rightarrow> bool" where
  "report_already_filed d reporter r \<longleftrightarrow> list_ex (\<lambda>y. ry_reporter y = reporter
     \<and> list_ex (\<lambda>q. rp_id q = ry_report y \<and> rp_student q = rp_student r \<and> rp_scheme q = rp_scheme r
         \<and> rp_kind q = rp_kind r \<and> rp_category q = rp_category r \<and> rp_item q = rp_item r
         \<and> rp_status q \<in> {''reviewing'', ''escalated''}) (db_reports d)) (db_reporters d)"

definition report_count_today :: "env \<Rightarrow> db \<Rightarrow> int \<Rightarrow> nat" where
  "report_count_today e d reporter =
     count_where (\<lambda>y. ry_reporter y = reporter \<and> en_today e \<le> ry_created_at y) (db_reporters d)"

subsection \<open>The two reviewers (assignReportReviewers)\<close>

definition report_load :: "db \<Rightarrow> int \<Rightarrow> nat" where
  "report_load d u = count_where (\<lambda>v. rw_reviewer v = u \<and> rw_decided_at v = None) (db_report_reviewers d)"

definition review_load :: "db \<Rightarrow> int \<Rightarrow> nat" where
  "review_load d u = count_where (\<lambda>v. sv_reviewer v = u \<and> sv_active v) (db_assigned d)"

definition idle_before :: "db \<Rightarrow> app_user \<Rightarrow> app_user \<Rightarrow> bool" where
  "idle_before d u v =
     (if report_load d (us_id u) \<noteq> report_load d (us_id v)
      then report_load d (us_id u) < report_load d (us_id v)
      else if review_load d (us_id u) \<noteq> review_load d (us_id v)
      then review_load d (us_id u) < review_load d (us_id v)
      else us_id u < us_id v)"

definition report_pool :: "db \<Rightarrow> int \<Rightarrow> int \<Rightarrow> app_user list" where
  "report_pool d student reporter = filter (\<lambda>u. us_status u = ''active''
     \<and> us_role u \<in> {''group'', ''class_admin''} \<and> \<not> us_paused u
     \<and> us_id u \<noteq> student \<and> us_id u \<noteq> reporter) (db_users d)"

definition new_report_reviewer :: "int \<Rightarrow> int \<Rightarrow> report_reviewer" where
  "new_report_reviewer r u = \<lparr>rw_report = r, rw_reviewer = u, rw_decision = None, rw_score = None,
     rw_reason = None, rw_spent = None, rw_decided_at = None\<rparr>"

definition assign_report_reviewers :: "int \<Rightarrow> int \<Rightarrow> int \<Rightarrow> db \<Rightarrow> db option" where
  "assign_report_reviewers r student reporter d =
    (let chosen = take 2 (sort_less (idle_before d) (report_pool d student reporter)) in
     if length chosen < 2 then None
     else Some (d\<lparr>db_report_reviewers := db_report_reviewers d
            @ map (new_report_reviewer r \<circ> us_id) chosen\<rparr>))"

subsection \<open>The row (createReport)\<close>

definition report_row_check :: "db \<Rightarrow> report_row \<Rightarrow> http_error option" where
  \<comment> \<open>the trigger on open work, then the \<open>CHECK\<close> that ties quantity and sign to the kind\<close>
  "report_row_check d r =
    (case (if rp_kind r = ''submission'' \<and> rp_status r \<in> {''reviewing'', ''escalated''}
           then Option.bind (rp_target r) (workflow_check d) else None) of
       Some err \<Rightarrow> Some err
     | None \<Rightarrow>
        if rp_kind r = ''penalty'' \<and> rp_quantity r \<noteq> None \<and> rp_proposed r < 0
           \<or> rp_kind r \<in> {''base'', ''submission''} \<and> rp_quantity r = None \<and> 0 \<le> rp_proposed r
        then None else Some internal_error)"

definition report_of :: "env \<Rightarrow> int \<Rightarrow> report_input \<Rightarrow> report_target \<Rightarrow> report_row" where
  "report_of e n x t = \<lparr>rp_id = n, rp_kind = trim_space (rf_kind x), rp_student = rt_student t,
     rp_scheme = rt_scheme t, rp_category = rt_category t, rp_item = rt_item t,
     rp_target = rt_target t, rp_current = map_option (en_numeric e) (rt_current t),
     rp_quantity = map_option (en_numeric e) (rt_quantity t),
     rp_proposed = en_numeric e (rt_proposed t), rp_basis = trim_space (rf_basis x),
     rp_status = ''reviewing'', rp_decided_by = None, rp_final = None, rp_reason = None,
     rp_decided_at = None\<rparr>"

definition append_anonymous :: "string \<Rightarrow> string \<Rightarrow> string \<Rightarrow> db \<Rightarrow> db" where
  \<comment> \<open>\<open>appendAnonymousAudit\<close>\<close>
  "append_anonymous action resource rid d = d\<lparr>db_audit := db_audit d
     @ [\<lparr>au_actor = None, au_action = action, au_resource = resource, au_id = rid\<rparr>]\<rparr>"

definition create_report :: "env \<Rightarrow> actor \<Rightarrow> report_input \<Rightarrow> db \<Rightarrow> int handler" where
  "create_report e a x d0 = (case load_current_scheme e d0 of
      Inl err \<Rightarrow> Inl internal_error
    | Inr (d, current) \<Rightarrow>
       if ensure_capability (ss_config current) ''studentReport'' (en_now e) \<noteq> None
       then Inl (HttpError 409 ''report_closed'')
       else (case validate_report e a x d of Inl err \<Rightarrow> Inl err | Inr (d1, t) \<Rightarrow>
         (let n = db_next d1; r = report_of e n x t in
          if report_already_filed d1 (ac_user a) r then Inl (HttpError 409 ''report_exists'')
          else if report_daily_limit \<le> report_count_today e d1 (ac_user a)
          then Inl (HttpError 429 ''report_daily_limit'')
          else (case report_row_check d1 r of Some err \<Rightarrow> Inl err | None \<Rightarrow>
            (let d2 = d1\<lparr>db_reports := db_reports d1 @ [r],
                   db_reporters := db_reporters d1 @ [\<lparr>ry_report = n, ry_reporter = ac_user a,
                     ry_created_at = en_now e\<rparr>],
                   db_next := n + 1\<rparr> in
             (case (if governance_mode d2 = ''collective''
                    then ensure_governance_case e a ''report'' n True d2
                    else (case assign_report_reviewers n (rt_student t) (ac_user a) d2 of
                       None \<Rightarrow> Inl (HttpError 409 ''no_reviewers'') | Some d3 \<Rightarrow> Inr d3)) of
                Inl err \<Rightarrow> Inl err
              | Inr d3 \<Rightarrow> Inr (enqueue_event ''report.filed'' n
                  (append_anonymous ''report.filed'' ''report'' (dec_int n) d3), n)))))))"

section \<open>The reviewers decide\<close>

record report_decision =
  rd_decision :: string
  rd_score :: "f64 option"
  rd_reason :: string
  rd_spent :: int

definition report_status_quo :: "report_row \<Rightarrow> f64" where
  "report_status_quo r = (if rp_kind r = ''penalty'' then Fin 0
     else (case rp_current r of None \<Rightarrow> Fin 0 | Some p \<Rightarrow> points_float p))"

definition validate_report_decision ::
    "report_row \<Rightarrow> report_decision \<Rightarrow> (string \<times> f64 \<times> string) option" where
  "validate_report_decision r x =
    (let decision = trim_space (rd_decision x); reason = trim_space (rd_reason x);
         n = rune_count reason; quo = report_status_quo r in
     if decision \<notin> {''uphold'', ''adjust'', ''reject''} then None
     else if n < 6 \<or> 5000 < n then None
     else if decision = ''uphold'' then Some (decision, points_float (rp_proposed r), reason)
     else if decision = ''reject'' then Some (decision, quo, reason)
     else (case rd_score x of None \<Rightarrow> None | Some v \<Rightarrow> (let p = new_points v in
        if p < new_points (points_float (rp_proposed r)) then None
        else if new_points quo < p then None
        else Some (decision, points_float p, reason))))"

definition report_outcome :: "f64 list \<Rightarrow> f64 \<Rightarrow> string \<times> f64 \<times> bool" where
  \<comment> \<open>the new status, the score, whether the reviewers disagree\<close>
  "report_outcome scores quo =
    (if length scores < 2 then (''reviewing'', Fin 0, False)
     else (let first = new_points (hd scores) in
       if \<not> list_all (\<lambda>v. new_points v = first) (tl scores) then (''escalated'', Fin 0, True)
       else if first = new_points quo then (''dismissed'', quo, False)
       else (''applied'', points_float first, False)))"

definition report_basis :: string where
  "report_basis = [CHR 0xE5, CHR 0xAD, CHR 0xA6, CHR 0xE7, CHR 0x94, CHR 0x9F, CHR 0xE4, CHR 0xB8,
     CHR 0xBE, CHR 0xE6, CHR 0x8A, CHR 0xA5, CHR 0xEF, CHR 0xBC, CHR 0x8C, CHR 0xE7,
     CHR 0xBB, CHR 0x8F, CHR 0xE4, CHR 0xB8, CHR 0xA4, CHR 0xE5, CHR 0x90, CHR 0x8D,
     CHR 0xE5, CHR 0xAE, CHR 0xA1, CHR 0xE6, CHR 0xA0, CHR 0xB8, CHR 0xE4, CHR 0xBA,
     CHR 0xBA, CHR 0xE5, CHR 0xA4, CHR 0x8D, CHR 0xE6, CHR 0xA0, CHR 0xB8, CHR 0xE8,
     CHR 0xAE, CHR 0xA4, CHR 0xE5, CHR 0xAE, CHR 0x9A]"

definition dismissed_reason :: string where
  "dismissed_reason = [CHR 0xE4, CHR 0xB8, CHR 0xA4, CHR 0xE5, CHR 0x90, CHR 0x8D, CHR 0xE5, CHR 0xA4,
     CHR 0x8D, CHR 0xE6, CHR 0xA0, CHR 0xB8, CHR 0xE4, CHR 0xBA, CHR 0xBA, CHR 0xE4,
     CHR 0xB8, CHR 0x80, CHR 0xE8, CHR 0x87, CHR 0xB4, CHR 0xE8, CHR 0xAE, CHR 0xA4,
     CHR 0xE4, CHR 0xB8, CHR 0xBA, CHR 0xE4, CHR 0xB8, CHR 0xBE, CHR 0xE6, CHR 0x8A,
     CHR 0xA5, CHR 0xE4, CHR 0xB8, CHR 0x8D, CHR 0xE6, CHR 0x88, CHR 0x90, CHR 0xE7,
     CHR 0xAB, CHR 0x8B]"

definition agreed_reason :: string where
  "agreed_reason = [CHR 0xE4, CHR 0xB8, CHR 0xA4, CHR 0xE5, CHR 0x90, CHR 0x8D, CHR 0xE5, CHR 0xA4,
     CHR 0x8D, CHR 0xE6, CHR 0xA0, CHR 0xB8, CHR 0xE4, CHR 0xBA, CHR 0xBA, CHR 0xE7,
     CHR 0xBB, CHR 0x93, CHR 0xE8, CHR 0xAE, CHR 0xBA, CHR 0xE4, CHR 0xB8, CHR 0x80,
     CHR 0xE8, CHR 0x87, CHR 0xB4]"

definition apply_report :: "env \<Rightarrow> actor \<Rightarrow> report_row \<Rightarrow> f64 \<Rightarrow> db \<Rightarrow> (http_error, db) result" where
  \<comment> \<open>\<open>applyReportOutcome\<close>: a penalty adds up, the other two are overwritten\<close>
  "apply_report e a r settled d =
    (if rp_kind r = ''submission'' then (case rp_target r of
         None \<Rightarrow> Inl internal_error
       | Some i \<Rightarrow> update_submissions (\<lambda>s. sb_id s = i) (rescore e (en_numeric e settled)) d)
     else if rp_kind r = ''base'' then (case load_current_scheme e d of
         Inl err \<Rightarrow> Inl internal_error
       | Inr (d1, current) \<Rightarrow>
         (case scheme_item_labels (rp_category r) (rp_item r) ''base'' (cf_categories (ss_config current)) of
            None \<Rightarrow> Inl (HttpError 422 ''objection_invalid'')
          | Some t \<Rightarrow> upsert_base
              (\<lambda>old b. old\<lparr>bs_full := bs_full b, bs_score := bs_score b, bs_basis := bs_basis b,
                 bs_recorder := bs_recorder b\<rparr>)
              \<lparr>bs_id = 0, bs_student = rp_student r, bs_scheme = rp_scheme r,
               bs_category = rp_category r, bs_item = rp_item r, bs_kind = ''base'',
               bs_full = map_option (en_numeric e) (item_full t), bs_score = en_numeric e settled,
               bs_basis = report_basis, bs_recorder = ac_user a\<rparr> d1))
     else upsert_base
       (\<lambda>old b. old\<lparr>bs_score := bs_score old + bs_score b, bs_basis := bs_basis b,
          bs_recorder := bs_recorder b\<rparr>)
       \<lparr>bs_id = 0, bs_student = rp_student r, bs_scheme = rp_scheme r, bs_category = rp_category r,
        bs_item = rp_item r, bs_kind = ''penalty'', bs_full = None, bs_score = en_numeric e settled,
        bs_basis = report_basis, bs_recorder = ac_user a\<rparr> d)"

definition set_report :: "int \<Rightarrow> (report_row \<Rightarrow> report_row) \<Rightarrow> db \<Rightarrow> db" where
  "set_report i f d = d\<lparr>db_reports := where_set (\<lambda>r. rp_id r = i) f (db_reports d)\<rparr>"

definition close_report :: "env \<Rightarrow> string \<Rightarrow> points \<Rightarrow> string \<Rightarrow> report_row \<Rightarrow> report_row" where
  "close_report e status score reason r = r\<lparr>rp_status := status, rp_final := Some score,
     rp_reason := Some reason, rp_decided_at := Some (en_now e)\<rparr>"

definition settle_report ::
    "env \<Rightarrow> actor \<Rightarrow> report_row \<Rightarrow> string \<Rightarrow> f64 \<Rightarrow> db \<Rightarrow> (http_error, db) result" where
  "settle_report e a r status settled d =
    (let rid = dec_int (rp_id r) in
     if status = ''escalated'' then
       (let f = (\<lambda>q. q\<lparr>rp_status := ''escalated''\<rparr>) in
        case first_error (\<lambda>q. if rp_id q = rp_id r then report_row_check d (f q) else None) (db_reports d) of
          Some err \<Rightarrow> Inl err
        | None \<Rightarrow> Inr (append_audit a ''report.escalated'' ''report'' rid (set_report (rp_id r) f d)))
     else if status = ''dismissed'' then
       Inr (append_audit a ''report.dismissed'' ''report'' rid
         (set_report (rp_id r) (close_report e ''dismissed'' 0 dismissed_reason) d))
     else (case apply_report e a r settled d of
        Inl err \<Rightarrow> Inl err
      | Inr d1 \<Rightarrow> Inr (append_audit a ''report.applied'' ''report'' rid
          (invalidate_latest_settlement ''student report applied a penalty''
            (set_report (rp_id r) (close_report e ''applied'' (en_numeric e settled) agreed_reason) d1)))))"

definition load_report_for :: "db \<Rightarrow> int \<Rightarrow> int \<Rightarrow> (report_row \<times> report_reviewer) option" where
  \<comment> \<open>\<open>loadReportForReviewer\<close>: the reviewer's own seat, never on a report about himself\<close>
  "load_report_for d i u =
    (case find (\<lambda>r. rp_id r = i \<and> rp_student r \<noteq> u) (db_reports d) of
       None \<Rightarrow> None
     | Some r \<Rightarrow> (case find_user d (rp_student r) of
         None \<Rightarrow> None
       | Some _ \<Rightarrow> map_option (Pair r)
           (find (\<lambda>v. rw_report v = i \<and> rw_reviewer v = u) (db_report_reviewers d))))"

definition seat_before :: "report_reviewer \<Rightarrow> report_reviewer \<Rightarrow> bool" where
  "seat_before v w \<longleftrightarrow> rw_reviewer v < rw_reviewer w"

definition report_scores :: "db \<Rightarrow> int \<Rightarrow> f64 list" where
  "report_scores d i = map (\<lambda>v. case rw_score v of None \<Rightarrow> Fin 0 | Some p \<Rightarrow> points_float p)
     (sort_less seat_before (filter (\<lambda>v. rw_report v = i \<and> rw_decided_at v \<noteq> None)
       (db_report_reviewers d)))"

definition record_report_decision ::
    "env \<Rightarrow> int \<Rightarrow> int \<Rightarrow> string \<Rightarrow> f64 \<Rightarrow> string \<Rightarrow> int \<Rightarrow> db \<Rightarrow> db" where
  "record_report_decision e i u decision score reason spent d =
     d\<lparr>db_report_reviewers := where_set (\<lambda>v. rw_report v = i \<and> rw_reviewer v = u)
        (\<lambda>v. v\<lparr>rw_decision := Some decision, rw_score := Some (en_numeric e score),
          rw_reason := Some reason, rw_spent := Some spent, rw_decided_at := Some (en_now e)\<rparr>)
        (db_report_reviewers d)\<rparr>"

definition report_verdict :: "db \<Rightarrow> report_row \<Rightarrow> string \<times> f64 \<times> bool" where
  \<comment> \<open>once everyone assigned has decided\<close>
  "report_verdict d r =
    (let scores = report_scores d (rp_id r) in
     if count_where (\<lambda>v. rw_report v = rp_id r) (db_report_reviewers d) \<le> length scores
     then report_outcome scores (report_status_quo r) else (''reviewing'', Fin 0, False))"

definition decide_report ::
    "env \<Rightarrow> actor \<Rightarrow> int \<Rightarrow> report_decision \<Rightarrow> db \<Rightarrow> (string \<times> f64) handler" where
  "decide_report e a i x d = (case path_id i of Some err \<Rightarrow> Inl err | None \<Rightarrow>
    (if rd_spent x < 0 \<or> 24 * 60 * 60 < rd_spent x then Inl (HttpError 400 ''invalid_request'')
     else (case load_report_for d i (ac_user a) of
        None \<Rightarrow> Inl not_found
      | Some (r, seat) \<Rightarrow>
         if rp_status r \<noteq> ''reviewing'' then Inl (HttpError 409 ''not_reviewable'')
         else if rw_decided_at seat \<noteq> None then Inl (HttpError 409 ''already_reviewed'')
         else (case load_current_scheme e d of
            Inl err \<Rightarrow> Inl internal_error
          | Inr (d1, current) \<Rightarrow>
             if ensure_capability (ss_config current) ''review'' (en_now e) \<noteq> None
             then Inl (HttpError 409 ''review_closed'')
             else (case validate_report_decision r x of
                None \<Rightarrow> Inl (HttpError 422 ''report_review_invalid'')
              | Some (decision, score, reason) \<Rightarrow>
                 (let d2 = record_report_decision e i (ac_user a) decision score reason (rd_spent x) d1;
                      (status, settled, conflict) = report_verdict d2 r in
                  if status = ''reviewing'' then
                    Inr (enqueue_event ''report.reviewed'' i
                      (append_audit a ''report.reviewed'' ''report'' (dec_int i) d2), status, settled)
                  else (case settle_report e a r status settled d2 of
                     Inl err \<Rightarrow> Inl err
                   | Inr d3 \<Rightarrow> Inr (enqueue_event
                       (if conflict then ''report.escalated'' else ''report.decided'') i d3,
                       status, settled))))))))"

section \<open>The final word (finalizeReport)\<close>

definition validate_report_final :: "report_row \<Rightarrow> f64 \<Rightarrow> bool" where
  \<comment> \<open>true when \<open>validateReportFinalScore\<close> returns no error\<close>
  "validate_report_final r score = (let p = new_points score in
     if rp_kind r = ''penalty'' then \<not> 0 < p
     else if rp_kind r \<noteq> ''base'' \<and> rp_kind r \<noteq> ''submission'' then False
     else (case rp_current r of
        None \<Rightarrow> False | Some c \<Rightarrow> \<not> p < 0 \<and> \<not> new_points (points_float c) < p))"

definition final_failure :: "http_error \<Rightarrow> http_error" where
  \<comment> \<open>here an unknown base item is an unexpected error\<close>
  "final_failure err = (if err = HttpError 422 ''objection_invalid'' then internal_error else err)"

definition finalize_report ::
    "env \<Rightarrow> actor \<Rightarrow> int \<Rightarrow> f64 option \<Rightarrow> string \<Rightarrow> db \<Rightarrow> f64 handler" where
  "finalize_report e a i given why d = (case path_id i of Some err \<Rightarrow> Inl err | None \<Rightarrow>
    (let reason = trim_space why in
     if length reason < 6 \<or> 5000 < length reason then Inl (HttpError 422 ''decision_invalid'')
     else (case given of None \<Rightarrow> Inl (HttpError 422 ''score_required'') | Some v \<Rightarrow>
      (let score = points_float (new_points v) in
       (case find_report d i of
          None \<Rightarrow> Inl not_found
        | Some r \<Rightarrow>
           if rp_status r \<noteq> ''escalated'' then Inl (HttpError 409 ''report_not_escalated'')
           else (case authorize_adjudication d a (rp_student r) of Some err \<Rightarrow> Inl err | None \<Rightarrow>
             if \<not> validate_report_final r score then Inl (HttpError 422 ''score_invalid'')
             else (case (if new_points score \<noteq> new_points (report_status_quo r)
                         then map_sum final_failure
                              (invalidate_latest_settlement ''class admin finalized a student report'')
                              (apply_report e a r score d)
                         else Inr d) of
                Inl err \<Rightarrow> Inl err
              | Inr d1 \<Rightarrow> Inr (enqueue_event ''report.decided'' i
                  (append_audit a ''report.finalized'' ''report'' (dec_int i)
                    (set_report i (\<lambda>q. (close_report e ''final'' (en_numeric e score) reason q)
                       \<lparr>rp_decided_by := Some (ac_user a)\<rparr>) d1)), score))))))))"

end
