(* ===== verification/Arbitration.thy ===== *)
theory Arbitration
  imports Reports
begin

text \<open>
  The student's appeal requests and the direct arbitration of a submission
  (\<open>api/appeal_handlers.go\<close>), and the timeline and its switches (\<open>api/scheme_handlers.go\<close>).

  What the modelled tables do not hold is an argument: the batch a blind assignment belongs
  to, and whether a collective decision is being executed.
\<close>

section \<open>Filing an appeal (createAppealDraft, createAppeal, submitAppeal)\<close>

definition valid_appeal_target_type :: "string \<Rightarrow> bool" where
  "valid_appeal_target_type v \<longleftrightarrow> v = ''submission'' \<or> v = ''base_score'' \<or> v = ''penalty_score''"

definition appeal_reason_ok :: "string \<Rightarrow> bool" where
  "appeal_reason_ok reason \<longleftrightarrow> \<not> length reason < 8 \<and> \<not> 5000 < length reason"

definition create_appeal_draft ::
    "env \<Rightarrow> actor \<Rightarrow> (db \<Rightarrow> appeal_target \<Rightarrow> string option) \<Rightarrow> string \<Rightarrow> int \<Rightarrow> db \<Rightarrow> int handler" where
  "create_appeal_draft e a batch kind i d =
    (if \<not> valid_appeal_target_type (trim_space kind) then Inl (HttpError 422 ''appeal_invalid'')
     else (case ensure_appeal_draft e a batch (trim_space kind) i d of
        Inl err \<Rightarrow> Inl err
      | Inr (d1, n, created) \<Rightarrow>
          Inr (if created then append_audit a ''appeal.draft_created'' ''appeal'' (dec_int n) d1 else d1, n)))"

definition create_appeal ::
    "env \<Rightarrow> actor \<Rightarrow> (db \<Rightarrow> appeal_target \<Rightarrow> string option) \<Rightarrow> string \<Rightarrow> int \<Rightarrow> appeal_claim \<Rightarrow> db
     \<Rightarrow> (string \<times> int) handler" where
  "create_appeal e a batch kind i x d =
    (if \<not> valid_appeal_target_type (trim_space kind) \<or> \<not> appeal_reason_ok (trim_space (ay_reason x))
     then Inl (HttpError 422 ''appeal_invalid'')
     else (case ensure_appeal_draft e a batch (trim_space kind) i d of
        Inl err \<Rightarrow> Inl err
      | Inr (d1, n, _) \<Rightarrow> file_appeal_draft e a n x d1))"

definition submit_appeal :: "env \<Rightarrow> actor \<Rightarrow> int \<Rightarrow> appeal_claim \<Rightarrow> db \<Rightarrow> (string \<times> int) handler" where
  "submit_appeal e a i x d = (case path_id i of Some err \<Rightarrow> Inl err | None \<Rightarrow>
     if \<not> appeal_reason_ok (trim_space (ay_reason x)) then Inl (HttpError 422 ''appeal_invalid'')
     else file_appeal_draft e a i x d)"

section \<open>Arbitrating a submission (arbitrateSubmission)\<close>

record arbitration_input =
  ai_decision :: string
  ai_category :: string
  ai_item :: string
  ai_score :: "f64 option"
  ai_reason :: string

definition arbitrable :: "db \<Rightarrow> int \<Rightarrow> sub_status \<Rightarrow> bool" where
  "arbitrable d i st \<longleftrightarrow> st = Arbitrating \<or> st = Scored \<or> st = Locked \<and> cross_category_pending d i"

definition escalated_appeal :: "db \<Rightarrow> int \<Rightarrow> appeal_row option" where
  \<comment> \<open>the code orders by the last update first; a target has one open appeal at a time\<close>
  "escalated_appeal d i = latest_by ap_id (filter (\<lambda>p. ap_target_type p = ''submission''
     \<and> ap_target p = i \<and> ap_status p = ''escalated'') (db_appeals d))"

definition suggestion_before :: "suggestion \<Rightarrow> suggestion \<Rightarrow> bool" where
  "suggestion_before g h \<longleftrightarrow> sg_id g < sg_id h"

definition classification_origin :: "db \<Rightarrow> int \<Rightarrow> (int \<Rightarrow> string option) \<Rightarrow> string option" where
  "classification_origin d i origin =
    (case sort_less suggestion_before (filter (\<lambda>g. sg_submission g = i \<and> sg_status g = ''pending''
             \<and> sg_scope g = ''cross_category'' \<and> Option.bind (sg_blind g) origin \<noteq> None)
           (db_suggestions d)) of
       [] \<Rightarrow> None | g # _ \<Rightarrow> Option.bind (sg_blind g) origin)"

definition arbitrated_item :: "arbitration_input \<Rightarrow> submission \<Rightarrow> (string \<times> string) option" where
  "arbitrated_item x s = (let c = trim_space (ai_category x); k = trim_space (ai_item x) in
     if c = [] \<and> k = [] then Some (sb_category s, sb_item s)
     else if c = [] \<or> k = [] then None else Some (c, k))"

definition arbitration_guard ::
    "env \<Rightarrow> actor \<Rightarrow> bool \<Rightarrow> int \<Rightarrow> arbitration_input \<Rightarrow> db
     \<Rightarrow> (http_error, db \<times> submission \<times> classification_target \<times> f64) result" where
  \<comment> \<open>\<open>granted\<close>: a collective decision on this submission is being executed\<close>
  "arbitration_guard e a granted i x d = (case path_id i of Some err \<Rightarrow> Inl err | None \<Rightarrow>
    (case ai_score x of None \<Rightarrow> Inl (HttpError 400 ''invalid_request'') | Some v \<Rightarrow>
     let n = length (trim_space (ai_reason x)) in
     if n < 6 \<or> 5000 < n then Inl (HttpError 422 ''arbitration_invalid'')
     else (case load_current_scheme e d of
        Inl err \<Rightarrow> Inl internal_error
      | Inr (d1, current) \<Rightarrow>
         if ensure_capability (ss_config current) ''arbitrate'' (en_now e) \<noteq> None
         then Inl (HttpError 409 ''arbitration_closed'')
         else (case find_submission d1 i of
            None \<Rightarrow> Inl not_found
          | Some s \<Rightarrow>
             if \<not> arbitrable d1 i (sb_status s) then Inl (HttpError 409 ''not_arbitrable'')
             else (case authorize_adjudication d1 a (sb_student s) of Some err \<Rightarrow> Inl err | None \<Rightarrow>
             (case arbitrated_item x s of
                None \<Rightarrow> Inl (HttpError 422 ''classification_invalid'')
              | Some (c, k) \<Rightarrow> (case load_classification_target e d1 i c k of
                  None \<Rightarrow> Inl (HttpError 422 ''classification_invalid'')
                | Some t \<Rightarrow> (let score = points_float (new_points v) in
                    if \<not> score_within_rule (it_score_rule (ct_item t)) score
                       \<and> \<not> (granted \<and> ai_decision x = ''rejected'' \<and> score = Fin 0)
                    then Inl (HttpError 422 ''score_invalid'')
                    else Inr (d1, s, t, score)))))))))"

definition finish_escalated ::
    "env \<Rightarrow> actor \<Rightarrow> appeal_row option \<Rightarrow> classification_target \<Rightarrow> f64 \<Rightarrow> string \<Rightarrow> db \<Rightarrow> db" where
  "finish_escalated e a linked t score reason d = (case linked of
      None \<Rightarrow> d
    | Some p \<Rightarrow> append_audit a ''appeal.final'' ''appeal'' (dec_int (ap_id p))
        (d\<lparr>db_appeals := where_set (\<lambda>q. ap_id q = ap_id p) (\<lambda>q. q\<lparr>
            ap_status := ''final'', ap_handler := Some (ac_user a),
            ap_resolution_score := Some (column_of score),
            ap_resolution_category := Some (ca_key (ct_category t)),
            ap_resolution_item := Some (it_key (ct_item t)),
            ap_resolution_snapshot := Some (ct_snapshot t),
            ap_resolution_reason := Some reason, ap_resolved_at := Some (en_now e)\<rparr>)
          (db_appeals d)\<rparr>))"

definition arbitrate_submission ::
    "env \<Rightarrow> actor \<Rightarrow> bool \<Rightarrow> (int \<Rightarrow> string option) \<Rightarrow> int \<Rightarrow> arbitration_input \<Rightarrow> db \<Rightarrow> f64 handler" where
  "arbitrate_submission e a granted origin i x d = (case arbitration_guard e a granted i x d of
      Inl err \<Rightarrow> Inl err
    | Inr (d1, s, t, score) \<Rightarrow>
       (let reason = trim_space (ai_reason x); n = db_next d1;
            category = ca_key (ct_category t); key = it_key (ct_item t);
            linked = escalated_appeal d1 i;
            batch = (case Option.bind linked ap_origin of Some o' \<Rightarrow> Some o'
                     | None \<Rightarrow> classification_origin d1 i origin);
            d2 = d1\<lparr>db_resolutions := db_resolutions d1 @ [\<lparr>rl_id = n, rl_scheme = sb_scheme_id s,
                rl_submission = i, rl_suggestion = None, rl_appeal = map_option ap_id linked,
                rl_origin = batch, rl_by = ac_user a,
                rl_before = (sb_category s, sb_item s, sb_snapshot s, sb_final s),
                rl_after = (category, key, ct_snapshot t, column_of score), rl_reason = reason\<rparr>],
              db_next := n + 1\<rparr> in
        (case update_submissions (\<lambda>q. sb_id q = i) (\<lambda>q. q\<lparr>sb_category := category, sb_item := key,
                sb_snapshot := ct_snapshot t, sb_final := Some (column_of score),
                sb_status := Scored, sb_scored_at := Some (en_now e),
                sb_updated_at := en_now e, sb_lock_version := sb_lock_version q + 1\<rparr>) d2 of
           Inl err \<Rightarrow> Inl err
         | Inr d3 \<Rightarrow> Inr (invalidate_student_blind_audit e (sb_student s) (text_of batch)
              ''submission arbitration changed an effective classification or score''
              (invalidate_latest_settlement ''submission arbitration changed a score''
                (enqueue_event ''arbitration.resolved'' i
                  (finish_escalated e a linked t score reason
                    (append_audit a ''submission.arbitrated'' ''submission'' (dec_int i)
                      (close_suggestions e a i category key reason d3))))), score))))"

section \<open>The timeline (updateTimeline, updateCapability)\<close>

definition decimal_digit :: "char \<Rightarrow> int option" where
  "decimal_digit c = (let n = int (of_char c) in if 48 \<le> n \<and> n \<le> 57 then Some (n - 48) else None)"

fun digits_value :: "int \<Rightarrow> string \<Rightarrow> int option" where
  "digits_value acc [] = Some acc"
| "digits_value acc (c # cs) = (case decimal_digit c of None \<Rightarrow> None | Some d \<Rightarrow> digits_value (10 * acc + d) cs)"

definition atoi :: "string \<Rightarrow> int option" where
  \<comment> \<open>\<open>strconv.Atoi\<close> on the few characters it is given here\<close>
  "atoi s = (let neg = take 1 s = ''-''; ds = (if neg \<or> take 1 s = ''+'' then drop 1 s else s) in
     if ds = [] then None else map_option (\<lambda>n. if neg then - n else n) (digits_value 0 ds))"

definition valid_academic_year :: "string \<Rightarrow> bool" where
  "valid_academic_year v \<longleftrightarrow> length v = 9 \<and> v ! 4 = CHR ''-''
     \<and> (case (atoi (take 4 v), atoi (drop 5 v)) of
          (Some a, Some b) \<Rightarrow> 2000 \<le> a \<and> a < 9999 \<and> b = a + 1 | _ \<Rightarrow> False)"

definition trim_award :: "award \<Rightarrow> award" where
  "trim_award w = w\<lparr>aw_name := trim_space (aw_name w)\<rparr>"

definition timeline_with :: "timeline_input \<Rightarrow> timeline \<Rightarrow> timeline" where
  "timeline_with x t =
    \<lparr>ti_window = \<lparr>w_open = tn_open x, w_close = tn_close x, w_lockdown = tn_lockdown x,
        w_publicity = (case tn_publicity x of None \<Rightarrow> w_publicity (ti_window t) | Some p \<Rightarrow> p)\<rparr>,
     ti_capabilities = ti_capabilities t,
     ti_honor_roll = \<lparr>hr_top_percent = (case tn_top x of None \<Rightarrow> hr_top_percent (ti_honor_roll t) | Some n \<Rightarrow> n),
        hr_awards = (case tn_awards x of None \<Rightarrow> hr_awards (ti_honor_roll t)
                     | Some ws \<Rightarrow> map trim_award ws)\<rparr>,
     ti_college = (case tn_college x of None \<Rightarrow> ti_college t | Some c \<Rightarrow> trim_space c),
     ti_enrollment = (case tn_enrollment x of None \<Rightarrow> ti_enrollment t | Some c \<Rightarrow> trim_space c),
     ti_year = (case tn_year x of None \<Rightarrow> ti_year t | Some y \<Rightarrow> trim_space y)\<rparr>"

definition timeline_allowed :: "timeline \<Rightarrow> bool" where
  "timeline_allowed t \<longleftrightarrow>
     validate_timeline (ti_window t) (ti_capabilities t) (ti_honor_roll t) = None"

definition update_timeline :: "env \<Rightarrow> actor \<Rightarrow> timeline_input \<Rightarrow> db \<Rightarrow> timeline handler" where
  \<comment> \<open>\<open>reflect.DeepEqual\<close> of the two award policies is equality: a stored list is never null\<close>
  "update_timeline e a x d =
    (let (d1, before) = timeline_load e d; t = timeline_with x before in
     if tn_year x \<noteq> None \<and> \<not> valid_academic_year (ti_year t) then Inl (HttpError 422 ''invalid_window'')
     else if 100 < length (ti_college t) \<or> 100 < length (ti_enrollment t)
     then Inl (HttpError 422 ''invalid_window'')
     else if \<not> timeline_allowed t then Inl (HttpError 422 ''invalid_window'')
     else (case timeline_save t d1 of
        Inl err \<Rightarrow> Inl err
      | Inr d2 \<Rightarrow> Inr (append_audit a ''timeline.updated'' ''class'' []
          (if ti_honor_roll before \<noteq> ti_honor_roll t
           then invalidate_latest_settlement ''honor and scholarship policy changed'' d2 else d2), t)))"

definition switch :: "string \<Rightarrow> bool \<Rightarrow> capabilities \<Rightarrow> capabilities option" where
  "switch key on c =
    (if key = ''submit'' then Some (c\<lparr>cap_submit := on\<rparr>)
     else if key = ''edit'' then Some (c\<lparr>cap_edit := on\<rparr>)
     else if key = ''appeal'' then Some (c\<lparr>cap_appeal := on\<rparr>)
     else if key = ''review'' then Some (c\<lparr>cap_review := on\<rparr>)
     else if key = ''arbitrate'' then Some (c\<lparr>cap_arbitrate := on\<rparr>)
     else if key = ''studentReport'' then Some (c\<lparr>cap_student_report := on\<rparr>)
     else None)"

definition update_capability :: "env \<Rightarrow> actor \<Rightarrow> string \<Rightarrow> bool \<Rightarrow> db \<Rightarrow> capabilities handler" where
  "update_capability e a key on d =
    (if key = ''export'' then Inl (HttpError 409 ''export_gate_managed'')
     else if key = ''gpa'' then Inl (HttpError 400 ''invalid_capability'')
     else (let (d1, before) = timeline_load e d in
       (case switch key on (ti_capabilities before) of
          None \<Rightarrow> Inl (HttpError 400 ''invalid_capability'')
        | Some c \<Rightarrow> (let t = before\<lparr>ti_capabilities := c\<rparr> in
            if \<not> timeline_allowed t then Inl (HttpError 422 ''invalid_window'')
            else (case timeline_save t d1 of
               Inl err \<Rightarrow> Inl err
             | Inr d2 \<Rightarrow> Inr (append_audit a ''timeline.capability_updated'' ''class'' [] d2, c))))))"

end
