(* ===== verification/Council_Cases.thy ===== *)
theory Council_Cases
  imports Arbitration
begin

text \<open>
  How a panel decides a case: \<open>api/governance_cases.go\<close> (opinions, reconciliation, replacement of
  silent members), \<open>api/governance_ballots.go\<close> (the ballot between the opinions, the one restart
  on new facts), and the execution of a decided case by \<open>api/governance_actions.go\<close>, which runs
  the ordinary handler with the panel's authority over the subject (\<open>ac_grant\<close>).

  \<open>auto\<close> says that the scheduler, and not a person, closes the case.  \<open>origin\<close> is the argument
  of \<open>arbitrate_submission\<close>.
\<close>

section \<open>Proposals and seats\<close>

definition find_proposal :: "db \<Rightarrow> int \<Rightarrow> proposal_row option" where
  "find_proposal d i = find (\<lambda>p. pr_id p = i) (db_proposals d)"

definition set_proposal :: "int \<Rightarrow> (proposal_row \<Rightarrow> proposal_row) \<Rightarrow> db \<Rightarrow> db" where
  "set_proposal i f d = d\<lparr>db_proposals := where_set (\<lambda>p. pr_id p = i) f (db_proposals d)\<rparr>"

definition seats_of :: "db \<Rightarrow> int \<Rightarrow> voter_row list" where
  "seats_of d i = filter (\<lambda>v. vo_proposal v = i) (db_voters d)"

definition update_seat ::
    "int \<Rightarrow> int \<Rightarrow> (voter_row \<Rightarrow> bool) \<Rightarrow> (voter_row \<Rightarrow> voter_row) \<Rightarrow> db \<Rightarrow> db option" where
  \<comment> \<open>an update that must reach the one seat of the caller\<close>
  "update_seat i u ok f d = (let hit = (\<lambda>v. vo_proposal v = i \<and> vo_user v = u \<and> ok v) in
     if count_where hit (db_voters d) \<noteq> 1 then None
     else Some (d\<lparr>db_voters := where_set hit f (db_voters d)\<rparr>))"

definition case_may_read :: "db \<Rightarrow> actor \<Rightarrow> proposal_row \<Rightarrow> bool" where
  \<comment> \<open>\<open>governanceCanRead\<close>\<close>
  "case_may_read d a p \<longleftrightarrow> \<not> case_kind p \<or> pr_subject p = Some (ac_user a)
     \<or> list_ex (\<lambda>v. vo_user v = ac_user a \<and> vo_active v) (seats_of d (pr_id p))"

section \<open>Executing a decided case (executeGovernanceProposal)\<close>

definition run_case_action ::
    "env \<Rightarrow> actor \<Rightarrow> (int \<Rightarrow> string option) \<Rightarrow> string \<Rightarrow> int \<Rightarrow> case_input \<Rightarrow> db \<Rightarrow> (http_error, db) result" where
  \<comment> \<open>\<open>governanceActionHandler\<close> on the payload\<close>
  "run_case_action e a origin action i x d =
    (if action = ''submission'' then map_sum id fst (arbitrate_submission e a True origin i
        \<lparr>ai_decision = gc_decision x, ai_category = gc_category x, ai_item = gc_item x,
         ai_score = gc_score x, ai_reason = gc_reason x\<rparr> d)
     else if action = ''appeal'' then map_sum id fst (finalize_appeal e a i
        \<lparr>rq_decision = gc_decision x, rq_category = gc_category x, rq_item = gc_item x,
         rq_score = gc_score x, rq_reason = gc_reason x, rq_spent = 0\<rparr> d)
     else if action = ''report'' then map_sum id fst (finalize_report e a i (gc_score x) (gc_reason x) d)
     else if action = ''objection'' then map_sum id fst (decide_admin_objection e a True i
        \<lparr>od_action = gc_action x, od_score = gc_score x, od_reason = gc_reason x\<rparr> d)
     else Inl (HttpError 422 ''action_unknown''))"

definition escalate_report :: "int \<Rightarrow> db \<Rightarrow> (http_error, db) result" where
  "escalate_report i d =
    (let hit = (\<lambda>r. rp_id r = i \<and> rp_status r = ''reviewing''); f = (\<lambda>r. r\<lparr>rp_status := ''escalated''\<rparr>) in
     case first_error (\<lambda>r. if hit r then report_row_check d (f r) else None) (db_reports d) of
       Some err \<Rightarrow> Inl err
     | None \<Rightarrow> Inr (d\<lparr>db_reports := where_set hit f (db_reports d)\<rparr>))"

definition execute_case ::
    "env \<Rightarrow> actor \<Rightarrow> (int \<Rightarrow> string option) \<Rightarrow> proposal_row \<Rightarrow> int \<Rightarrow> case_input \<Rightarrow> db \<Rightarrow> string handler" where
  "execute_case e a origin p i x d =
    (case governance_case_state e d (pr_action p) (gc_target x) of
       None \<Rightarrow> Inl internal_error
     | Some h \<Rightarrow>
        if h \<noteq> pr_hash p
        then Inr (set_proposal (pr_id p) (\<lambda>q. q\<lparr>pr_status := ''stale''\<rparr>) d, ''stale'')
        else (case (if pr_action p = ''report'' then escalate_report i d else Inr d) of
           Inl err \<Rightarrow> Inl err
         | Inr d1 \<Rightarrow>
            (case run_case_action e (a\<lparr>ac_grant := pr_subject p\<rparr>) origin (pr_action p) i x d1 of
               Inl err \<Rightarrow> Inl err
             | Inr d2 \<Rightarrow> Inr (append_audit a ''governance.applied'' ''governance_proposal''
                 (dec_int (pr_id p)) (set_proposal (pr_id p)
                   (\<lambda>q. q\<lparr>pr_status := ''applied'', pr_result := Some []\<rparr>) d2), ''applied''))))"

definition pass_case ::
    "env \<Rightarrow> actor \<Rightarrow> (int \<Rightarrow> string option) \<Rightarrow> proposal_row \<Rightarrow> int \<Rightarrow> case_input \<Rightarrow> db \<Rightarrow> string handler" where
  \<comment> \<open>the end both ways to a decision share\<close>
  "pass_case e a origin p i x d =
    (case governance_case_state e d (pr_action p) (gc_target x) of
       None \<Rightarrow> Inl internal_error
     | Some h \<Rightarrow>
        if h \<noteq> pr_hash p then Inl (HttpError 409 ''case_changed'')
        else execute_case e a origin p i x (set_proposal (pr_id p)
          (\<lambda>q. q\<lparr>pr_payload := CasePayload x, pr_status := ''passed'', pr_decided_at := Some (en_now e)\<rparr>) d))"

section \<open>Replacing and adding seats (expandGovernanceCase)\<close>

definition seat_expired :: "env \<Rightarrow> proposal_row \<Rightarrow> voter_row \<Rightarrow> bool" where
  "seat_expired e p v \<longleftrightarrow> vo_active v \<and> vo_opinion v = None \<and> \<not> en_now e < pr_closes p"

definition block_case :: "int \<Rightarrow> db \<Rightarrow> db" where
  "block_case i = set_proposal i (\<lambda>q. q\<lparr>pr_status := ''blocked''\<rparr>)"

definition seat_panel ::
    "env \<Rightarrow> proposal_row \<Rightarrow> int \<Rightarrow> int list \<Rightarrow> nat \<Rightarrow> int \<Rightarrow> string \<Rightarrow> db \<Rightarrow> int list option" where
  \<comment> \<open>the seats still missing, unless too few would be left for an independent appeal\<close>
  "seat_panel e p seats excluded active replaced seed d =
    (let members = governance_members d; reserve = (if standard_profile d then 5 else 3);
         drawn = draw_panel (en_sha256 e) members (en_now e) (set excluded) (seats - int active)
           (seed @ dec_int seats @ '' '' @ dec_int (int active) @ '' '' @ dec_int replaced) in
     if pr_kind p = ''review''
        \<and> int (available_reviewers e members excluded) < reserve - int active + reserve then None
     else (case drawn of Inl _ \<Rightarrow> None | Inr ids \<Rightarrow> Some ids))"

definition expand_case :: "env \<Rightarrow> bool \<Rightarrow> proposal_row \<Rightarrow> int \<Rightarrow> db \<Rightarrow> string handler" where
  "expand_case e auto p seats d = (case find (\<lambda>c. ce_proposal c = pr_id p) (db_cases d) of
      None \<Rightarrow> Inl internal_error
    | Some c \<Rightarrow>
       (let vs = seats_of d (pr_id p); excluded = ce_excluded c @ map vo_user vs;
            expired = map vo_user (filter (seat_expired e p) vs);
            active = count_where (\<lambda>v. vo_active v \<and> \<not> seat_expired e p v) vs;
            replaced = foldl max 0 (map vo_replacement vs) in
        if auto \<and> expired \<noteq> [] \<and> 2 \<le> replaced then Inr (block_case (pr_id p) d, ''blocked'')
        else if seats \<le> int active then Inr (d, pr_status p)
        else (case seat_panel e p seats excluded active replaced (ce_seed c) d of
           None \<Rightarrow> Inr (block_case (pr_id p) d, ''blocked'')
         | Some ids \<Rightarrow>
            (let k = (if expired = [] then replaced else replaced + 1) in
             Inr (set_proposal (pr_id p) (\<lambda>q. q\<lparr>pr_status := ''voting'', pr_electorate := seats,
                 pr_required := seats div 2 + 1, pr_closes := en_now e + review_timeout\<rparr>)
               (d\<lparr>db_voters := where_set (\<lambda>v. vo_proposal v = pr_id p \<and> vo_user v \<in> set expired)
                    (\<lambda>v. v\<lparr>vo_active := False\<rparr>) (db_voters d) @ map (new_voter (pr_id p) k) ids\<rparr>),
               ''voting'')))))"

section \<open>The ballot between opinions (finishGovernanceBallot)\<close>

definition candidate_of :: "env \<Rightarrow> case_input \<Rightarrow> string" where
  \<comment> \<open>\<open>governanceCandidate\<close>: the decision without its wording\<close>
  "candidate_of e x = en_candidate_digest e (x\<lparr>gc_reason := []\<rparr>)"

definition ballots :: "db \<Rightarrow> int \<Rightarrow> string list" where
  "ballots d i = List.map_filter (\<lambda>v. if vo_active v then vo_candidate v else None) (seats_of d i)"

definition ballot_winner :: "int \<Rightarrow> string list \<Rightarrow> string option" where
  \<comment> \<open>\<open>required\<close> is a majority of the seats, so at most one candidate reaches it\<close>
  "ballot_winner required ks =
     find (\<lambda>k. k \<noteq> ''abstain'' \<and> required \<le> int (count_where (\<lambda>j. j = k) ks)) ks"

definition finish_ballot ::
    "env \<Rightarrow> actor \<Rightarrow> (int \<Rightarrow> string option) \<Rightarrow> proposal_row \<Rightarrow> int \<Rightarrow> (int \<times> case_input) list \<Rightarrow> db \<Rightarrow> string handler" where
  \<comment> \<open>Go executes any of the inputs that make the winning decision; they differ in wording only\<close>
  "finish_ballot e a origin p i inputs d =
    (let ks = ballots d (pr_id p) in
     if int (length ks) < pr_electorate p \<and> en_now e < pr_closes p then Inr (d, ''deliberating'')
     else (case ballot_winner (pr_required p) ks of
        None \<Rightarrow> Inr (set_proposal (pr_id p)
            (\<lambda>q. q\<lparr>pr_status := ''blocked'', pr_result := Some ''no_majority''\<rparr>) d, ''blocked'')
      | Some k \<Rightarrow> (case find (\<lambda>(_, x). candidate_of e x = k) inputs of
          None \<Rightarrow> Inl (HttpError 409 ''candidate_missing'')
        | Some (_, x) \<Rightarrow> pass_case e a origin p i
            (if pr_action p = ''appeal'' then x\<lparr>gc_decision := ''adjust''\<rparr> else x) d)))"

section \<open>Finishing a round (finishGovernanceCase)\<close>

definition opinion_of :: "int \<Rightarrow> case_input \<Rightarrow> f64 \<Rightarrow> opinion" where
  "opinion_of u x v = \<lparr>op_reviewer = u, op_decision = gc_decision x, op_score = new_points v,
     op_category = gc_category x, op_item = gc_item x\<rparr>"

definition voter_before :: "voter_row \<Rightarrow> voter_row \<Rightarrow> bool" where
  "voter_before v w \<longleftrightarrow> vo_user v < vo_user w"

definition case_inputs :: "db \<Rightarrow> int \<Rightarrow> (int \<times> case_input) list" where
  "case_inputs d i = List.map_filter (\<lambda>v. if vo_active v then map_option (Pair (vo_user v)) (vo_opinion v) else None)
     (sort_less voter_before (seats_of d i))"

definition executed_input :: "proposal_row \<Rightarrow> case_input \<Rightarrow> case_input" where
  \<comment> \<open>the form the handler of the action expects\<close>
  "executed_input p x =
    (if gc_decision x = ''rejected'' then x
     else if pr_action p = ''submission'' \<or> pr_action p = ''report'' then x\<lparr>gc_decision := []\<rparr>
     else x\<lparr>gc_decision := ''adjust''\<rparr>)"

definition case_maximum :: "db \<Rightarrow> proposal_row \<Rightarrow> int" where
  "case_maximum d p = (if pr_kind p = ''appeal'' then pr_electorate p
     else if standard_profile d then 5 else 3)"

definition finish_case ::
    "env \<Rightarrow> actor \<Rightarrow> bool \<Rightarrow> (int \<Rightarrow> string option) \<Rightarrow> proposal_row \<Rightarrow> db \<Rightarrow> string handler" where
  "finish_case e a auto origin p d = (case pr_target p of
      None \<Rightarrow> Inl (HttpError 422 ''not_case'')
    | Some i \<Rightarrow>
       if \<not> case_kind p then Inl (HttpError 422 ''not_case'')
       else if pr_status p = ''applied'' then Inr (d, ''applied'')
       else if pr_status p \<notin> {''voting'', ''deliberating'', ''blocked''} then Inl (HttpError 409 ''case_closed'')
       else if pr_status p = ''blocked'' \<and> pr_result p \<noteq> None then Inr (d, ''blocked'')
       else (let inputs = case_inputs d (pr_id p) in
         if list_ex (\<lambda>(_, x). gc_score x = None) inputs then Inl (HttpError 500 ''invalid_opinion'')
         else if pr_status p = ''deliberating'' then finish_ballot e a origin p i inputs d
         else (case reconcile_opinions (map (\<lambda>(u, x). opinion_of u x (the (gc_score x))) inputs)
                   (pr_electorate p) (case_maximum d p) of
            Inl _ \<Rightarrow> Inl internal_error
          | Inr out \<Rightarrow>
             if go_state out = ''decided'' then
               (case Option.bind (go_opinion out) (\<lambda>o'. map_of inputs (op_reviewer o')) of
                  None \<Rightarrow> Inl internal_error
                | Some x \<Rightarrow> pass_case e a origin p i (executed_input p x) d)
             else if go_state out = ''expand'' then expand_case e auto p (go_seats out) d
             else if go_state out = ''deliberating'' then
               Inr (set_proposal (pr_id p) (\<lambda>q. q\<lparr>pr_status := ''deliberating'',
                   pr_closes := en_now e + review_timeout\<rparr>) d, ''deliberating'')
             else if \<not> en_now e < pr_closes p \<or> pr_status p = ''blocked''
             then expand_case e auto p (pr_electorate p) d
             else Inr (d, ''voting''))))"

definition close_case ::
    "env \<Rightarrow> actor \<Rightarrow> bool \<Rightarrow> (int \<Rightarrow> string option) \<Rightarrow> int \<Rightarrow> db \<Rightarrow> string handler" where
  \<comment> \<open>\<open>closeGovernanceProposal\<close> on a case\<close>
  "close_case e a auto origin i d = (case find_proposal d i of
      None \<Rightarrow> Inl not_found
    | Some p \<Rightarrow>
       if \<not> auto \<and> \<not> case_may_read d a p then Inl (HttpError 403 ''forbidden'')
       else finish_case e a auto origin p d)"

section \<open>An opinion (decideGovernanceCase)\<close>

definition opinion_input_check :: "case_input \<Rightarrow> bool" where
  "opinion_input_check x \<longleftrightarrow> gc_score x \<noteq> None \<and> 6 \<le> rune_count (trim_space (gc_reason x))
     \<and> rune_count (gc_reason x) \<le> 5000"

definition complete_opinion :: "proposal_row \<Rightarrow> int \<Rightarrow> case_data \<Rightarrow> case_input \<Rightarrow> case_input" where
  \<comment> \<open>what the code fills in and decides itself\<close>
  "complete_opinion p i c x =
    (let rejected = gc_decision x = ''reject'' \<and> (pr_action p = ''submission'' \<or> pr_action p = ''objection'') in
     x\<lparr>gc_target := i, gc_category := (if gc_category x = [] then cd_category c else gc_category x),
       gc_item := (if gc_item x = [] then cd_item c else gc_item x),
       gc_decision := (if rejected then ''rejected'' else ''accepted''),
       gc_action := (if pr_action p = ''objection'' \<and> rejected then ''dismiss'' else ''adjust''),
       gc_score := (if rejected then Some (Fin 0) else gc_score x)\<rparr>)"

definition opinion_rule ::
    "env \<Rightarrow> db \<Rightarrow> case_data \<Rightarrow> case_input \<Rightarrow> (http_error, item) result" where
  "opinion_rule e d c x = (case cd_rule c of
      None \<Rightarrow> Inl (HttpError 409 ''rule_unavailable'')
    | Some t \<Rightarrow> (case cd_submission c of
        Some s \<Rightarrow> (case load_classification_target e d s (gc_category x) (gc_item x) of
            None \<Rightarrow> Inl (HttpError 422 ''classification_invalid'')
          | Some ct \<Rightarrow> Inr (ct_item ct))
      | None \<Rightarrow> if gc_category x \<noteq> cd_category c \<or> gc_item x \<noteq> cd_item c
                then Inl (HttpError 422 ''classification_invalid'') else Inr t))"

definition opinion_guard ::
    "env \<Rightarrow> actor \<Rightarrow> proposal_row \<Rightarrow> int \<Rightarrow> case_input \<Rightarrow> db \<Rightarrow> (http_error, case_input) result" where
  \<comment> \<open>the opinion as it is stored, apart from the check of the facts\<close>
  "opinion_guard e a p i x0 d = (case load_case_data d (pr_action p) i of
      None \<Rightarrow> Inl internal_error
    | Some c \<Rightarrow> (let x = complete_opinion p i c x0 in
       if cd_subject c = ac_user a then Inl (HttpError 403 ''avoid_self'')
       else if pr_action p \<noteq> ''submission'' \<and> (gc_category x \<noteq> cd_category c \<or> gc_item x \<noteq> cd_item c)
       then Inl (HttpError 422 ''classification_fixed'')
       else (case opinion_rule e d c x of Inl err \<Rightarrow> Inl err | Inr t \<Rightarrow>
         (case gc_score x of None \<Rightarrow> Inl (HttpError 422 ''opinion_invalid'') | Some v \<Rightarrow>
          if \<not> score_within_rule (it_score_rule t) v \<and> gc_decision x \<noteq> ''rejected''
          then Inl (HttpError 422 ''score_invalid'')
          else if pr_action p = ''report''
             \<and> (case find_report d i of None \<Rightarrow> False | Some r \<Rightarrow> \<not> validate_report_final r v)
          then Inl (HttpError 422 ''score_invalid'')
          else Inr (x\<lparr>gc_score := Some (points_float (new_points v))\<rparr>)))))"

definition give_opinion ::
    "env \<Rightarrow> actor \<Rightarrow> (int \<Rightarrow> string option) \<Rightarrow> int \<Rightarrow> case_input \<Rightarrow> db \<Rightarrow> string handler" where
  "give_opinion e a origin k x0 d =
    (if \<not> opinion_input_check x0 then Inl (HttpError 422 ''opinion_invalid'')
     else (case find_proposal d k of None \<Rightarrow> Inl not_found | Some p \<Rightarrow>
      (case pr_target p of None \<Rightarrow> Inl (HttpError 409 ''case_not_reviewable'') | Some i \<Rightarrow>
       if \<not> case_kind p \<or> pr_status p \<noteq> ''voting'' \<or> \<not> en_now e < pr_closes p
       then Inl (HttpError 409 ''case_not_reviewable'')
       else (case opinion_guard e a p i x0 d of Inl err \<Rightarrow> Inl err | Inr x \<Rightarrow>
        (case governance_case_state e d (pr_action p) i of
           None \<Rightarrow> Inl internal_error
         | Some h \<Rightarrow>
            if gc_version x \<noteq> h then Inl (HttpError 409 ''case_changed'')
            else if h \<noteq> pr_hash p \<and> list_ex (\<lambda>v. vo_opinion v \<noteq> None) (seats_of d k)
            then Inl (HttpError 409 ''evidence_changed'')
            else (let q = p\<lparr>pr_hash := h\<rparr>; d1 = set_proposal k (\<lambda>q. q\<lparr>pr_hash := h\<rparr>) d in
              (case update_seat k (ac_user a) (\<lambda>v. vo_active v \<and> vo_opinion v = None)
                  (\<lambda>v. v\<lparr>vo_opinion := Some (x\<lparr>gc_version := []\<rparr>), vo_cast_at := Some (en_now e),
                     vo_locked := True\<rparr>) d1 of
                 None \<Rightarrow> Inl (HttpError 403 ''seat_required'')
               | Some d2 \<Rightarrow> finish_case e a False origin q d2)))))))"

section \<open>A ballot and a restart (governance_ballots.go)\<close>

definition ballot_case ::
    "env \<Rightarrow> actor \<Rightarrow> (int \<Rightarrow> string option) \<Rightarrow> int \<Rightarrow> string \<Rightarrow> db \<Rightarrow> string handler" where
  "ballot_case e a origin k candidate d =
    (if length candidate \<noteq> 64 \<and> candidate \<noteq> ''abstain'' then Inl (HttpError 422 ''invalid_ballot'')
     else (case find_proposal d k of None \<Rightarrow> Inl not_found | Some p \<Rightarrow>
       if \<not> case_kind p \<or> pr_status p \<noteq> ''deliberating'' \<or> \<not> en_now e < pr_closes p
       then Inl (HttpError 409 ''ballot_closed'')
       else if candidate \<noteq> ''abstain''
          \<and> \<not> list_ex (\<lambda>(_, x). candidate_of e x = candidate) (case_inputs d k)
       then Inl (HttpError 422 ''candidate_missing'')
       else (case update_seat k (ac_user a)
             (\<lambda>v. vo_active v \<and> vo_opinion v \<noteq> None \<and> vo_candidate v = None)
             (\<lambda>v. v\<lparr>vo_candidate := Some candidate\<rparr>) d of
          None \<Rightarrow> Inl (HttpError 403 ''seat_required'')
        | Some d1 \<Rightarrow> finish_case e a False origin p d1)))"

definition clear_seat :: "voter_row \<Rightarrow> voter_row" where
  "clear_seat v = v\<lparr>vo_opinion := None, vo_cast_at := None, vo_locked := False, vo_candidate := None\<rparr>"

definition restart_case :: "env \<Rightarrow> actor \<Rightarrow> int \<Rightarrow> db \<Rightarrow> string handler" where
  "restart_case e a k d = (case find_proposal d k of None \<Rightarrow> Inl not_found | Some p \<Rightarrow>
     (case pr_target p of None \<Rightarrow> Inl (HttpError 403 ''restart_forbidden'') | Some i \<Rightarrow>
      if \<not> (pr_subject p = Some (ac_user a)
            \<or> list_ex (\<lambda>v. vo_user v = ac_user a \<and> vo_active v) (seats_of d k))
         \<or> \<not> case_kind p \<or> pr_status p \<notin> {''blocked'', ''voting'', ''deliberating''}
      then Inl (HttpError 403 ''restart_forbidden'')
      else if 2 \<le> pr_round p then Inl (HttpError 409 ''round_limit'')
      else (case governance_case_state e d (pr_action p) i of
         None \<Rightarrow> Inl internal_error
       | Some h \<Rightarrow>
          if h = pr_hash p then Inl (HttpError 409 ''no_new_facts'')
          else Inr (set_proposal k (\<lambda>q. q\<lparr>pr_status := ''voting'', pr_hash := h, pr_result := None,
                pr_round := pr_round q + 1, pr_closes := en_now e + review_timeout\<rparr>)
              (d\<lparr>db_voters := where_set (\<lambda>v. vo_proposal v = k \<and> vo_active v) clear_seat
                 (db_voters d)\<rparr>), ''voting''))))"

end
