(* ===== verification/Bonus.thy ===== *)
theory Bonus
  imports Arbitration
begin

text \<open>
  Direct grants of points: \<open>api/bonus_grant_handlers.go\<close>.  One request scores the same claim for
  several members at once; it can be replayed, and it either reaches all of them or none.
  Grants with a shared upload (\<open>api/bonus_grant_evidence.go\<close>) copy stored objects and are not
  modelled: a request here has no upload.
\<close>

definition normalize_bonus :: "bonus_input \<Rightarrow> (bonus_input \<times> string) option" where
  "normalize_bonus x = (case bg_request x of None \<Rightarrow> None | Some rid \<Rightarrow>
    (let c = bg_claim x; note = trim_space (in_note c); n = rune_count note;
         ids = sort_less int_before (bg_students x);
         y = x\<lparr>bg_claim := c\<lparr>in_title := trim_space (in_title c), in_note := note,
               in_category := trim_space (in_category c), in_item := trim_space (in_item c)\<rparr>,
             bg_students := ids\<rparr> in
     if n < 4 \<or> 2000 < n then None
     else if ids = [] \<or> 1000 < length ids then None
     else if \<not> list_all (\<lambda>i. 0 < i) ids \<or> \<not> distinct ids then None
     else Some (y, rid)))"

datatype bonus_error = BonusPrepare prepare_error | BonusClaim claim_error | BonusRange | BonusRule

definition prepare_bonus ::
    "stored_scheme \<Rightarrow> bonus_input \<Rightarrow> time \<Rightarrow> (bonus_error, prepared \<times> f64) result" where
  "prepare_bonus current x now = (case prepare_submission current (bg_claim x) now True of
      Inl err \<Rightarrow> Inl (BonusPrepare err)
    | Inr p \<Rightarrow> (case score_claim (it_score_rule (pp_item p)) (pp_claim p) of
        Inl err \<Rightarrow> Inl (BonusClaim err)
      | Inr points \<Rightarrow> (let score = points_float points in
          if \<not> finite64 score \<or> fle score (Fin 0) \<or> flt (Fin 99999) score then Inl BonusRange
          else if \<not> score_within_rule (it_score_rule (pp_item p)) score then Inl BonusRule
          else Inr (p\<lparr>pp_requested := Some score\<rparr>, score))))"

definition granted_row :: "env \<Rightarrow> string \<Rightarrow> bonus_input \<Rightarrow> prepared \<Rightarrow> f64 \<Rightarrow> int \<Rightarrow> int \<Rightarrow> submission" where
  "granted_row e source x p score n student =
     \<lparr>sb_id = n, sb_student = student, sb_scheme_id = pp_scheme_id p,
      sb_scheme_version = pp_scheme_version p, sb_category = ca_key (pp_category p),
      sb_item = it_key (pp_item p), sb_filed_category = ca_key (pp_category p),
      sb_filed_item = it_key (pp_item p), sb_title = in_title (bg_claim x),
      sb_claim = pp_claim p, sb_requested = Some (column_of score), sb_final = Some (column_of score),
      sb_status = Scored, sb_source = source, sb_snapshot = pp_snapshot p,
      sb_filed_snapshot = pp_snapshot p, sb_note = in_note (bg_claim x),
      sb_force_rejection = None, sb_forced_score = None, sb_lock_version = 1,
      sb_submitted_at = Some (en_now e), sb_scored_at = Some (en_now e), sb_locked_at = None,
      sb_updated_at = en_now e\<rparr>"

definition bonus_reason :: string where
  "bonus_reason = [CHR 0xE7, CHR 0x8F, CHR 0xAD, CHR 0xE7, CHR 0xAE, CHR 0xA1, CHR 0xE7, CHR 0x9B,
     CHR 0xB4, CHR 0xE6, CHR 0x8E, CHR 0xA5, CHR 0xE5, CHR 0x8A, CHR 0xA0, CHR 0xE5,
     CHR 0x88, CHR 0x86]"

definition stale_reason :: string where
  "stale_reason = [CHR 0xE7, CHR 0x8F, CHR 0xAD, CHR 0xE7, CHR 0xAE, CHR 0xA1, CHR 0xE7, CHR 0x9B,
     CHR 0xB4, CHR 0xE6, CHR 0x8E, CHR 0xA5, CHR 0xE5, CHR 0x8A, CHR 0xA0, CHR 0xE5,
     CHR 0x88, CHR 0x86, CHR 0xEF, CHR 0xBC, CHR 0x8C, CHR 0xE5, CHR 0xBD, CHR 0x93,
     CHR 0xE5, CHR 0x89, CHR 0x8D, CHR 0xE6, CHR 0x88, CHR 0x90, CHR 0xE7, CHR 0xBB,
     CHR 0xA9, CHR 0xE7, CHR 0x89, CHR 0x88, CHR 0xE6, CHR 0x9C, CHR 0xAC, CHR 0xE5,
     CHR 0xB7, CHR 0xB2, CHR 0xE6, CHR 0x9B, CHR 0xB4, CHR 0xE6, CHR 0x96, CHR 0xB0]"

definition grant_one ::
    "env \<Rightarrow> actor \<Rightarrow> bool \<Rightarrow> bonus_input \<Rightarrow> prepared \<Rightarrow> f64 \<Rightarrow> int \<Rightarrow> db \<Rightarrow> db" where
  "grant_one e a granted x p score student d =
    (let n = db_next d;
         source = (if granted then ''collective_grant'' else ''admin_grant'');
         action = (if granted then ''submission.collective_granted'' else ''submission.admin_granted'') in
     invalidate_student_blind_audit e student [] stale_reason
       (append_audit a action ''submission'' (dec_int n)
         (d\<lparr>db_submissions := db_submissions d @ [granted_row e source x p score n student],
            db_next := n + 1\<rparr>)))"

definition bonus_member :: "db \<Rightarrow> int \<Rightarrow> bool" where
  "bonus_member d i = (case find_user d i of
     None \<Rightarrow> False | Some u \<Rightarrow> scorable_member (us_role u) (us_status u))"

definition create_bonus_grant ::
    "env \<Rightarrow> actor \<Rightarrow> bool \<Rightarrow> bonus_input \<Rightarrow> db \<Rightarrow> (nat \<times> f64) handler" where
  "create_bonus_grant e a granted x0 d = (case normalize_bonus x0 of
      None \<Rightarrow> Inl (HttpError 422 ''bonus_grant_invalid'')
    | Some (x, rid) \<Rightarrow>
       if ac_role a \<noteq> ''class_admin'' \<and> \<not> granted then Inl (HttpError 403 ''forbidden'')
       else (case find (\<lambda>g. gg_id g = rid) (db_grants d) of
          Some g \<Rightarrow> if gg_request g \<noteq> x then Inl (HttpError 409 ''bonus_grant_changed'')
                    else Inr (d, length (bg_students x), points_float (gg_score g))
        | None \<Rightarrow> (case load_current_scheme e d of
            Inl err \<Rightarrow> Inl internal_error
          | Inr (d1, current) \<Rightarrow>
             if bg_version x \<noteq> cf_version (ss_config current)
                \<or> \<not> list_ex (\<lambda>s. sc_id s = ss_id current \<and> sc_status s = ''published'') (db_schemes d1)
             then Inl (HttpError 409 ''scheme_changed'')
             else if locked_at (cf_window (ss_config current)) (en_now e)
             then Inl (HttpError 409 ''class_locked_down'')
             else (case prepare_bonus current x (en_now e) of
                Inl _ \<Rightarrow> Inl (HttpError 422 ''submission_invalid'')
              | Inr (p, score) \<Rightarrow>
                 if \<not> list_all (bonus_member d1) (bg_students x)
                 then Inl (HttpError 422 ''bonus_member_invalid'')
                 else (let d2 = d1\<lparr>db_grants := db_grants d1 @ [\<lparr>gg_id = rid, gg_by = ac_user a,
                          gg_request = x, gg_score = column_of score\<rparr>]\<rparr>;
                        d3 = fold (grant_one e a granted x p score) (bg_students x) d2 in
                   Inr (invalidate_latest_settlement bonus_reason d3, length (bg_students x), score))))))"

end
