(* ===== verification/Proposals.thy ===== *)
theory Proposals
  imports Council_Cases Bonus
begin

text \<open>
  The common business of a class that governs itself: \<open>api/governance_handlers.go\<close> (the choice of
  the mode, membership, proposals, votes and their closing) and \<open>api/governance_actions.go\<close> (what
  may be proposed, and the execution of what passed).  The votes of a proposal are the voter
  rows frozen when it was made; whoever is not among them cannot vote on it.

  The actions modelled are a motion, the activation of the council, a change of the timeline
  and a grant of points; the import of academic averages and the export of files are not.
\<close>

section \<open>The mode of the class (configureGovernance, joinGovernance)\<close>

definition assessment_started :: "db \<Rightarrow> bool" where
  "assessment_started d \<longleftrightarrow> list_ex (\<lambda>s. sb_status s \<noteq> Draft) (db_submissions d) \<or> db_runs d \<noteq> []
     \<or> list_ex (\<lambda>p. ap_status p \<noteq> ''draft'') (db_appeals d) \<or> db_reports d \<noteq> []
     \<or> list_ex (\<lambda>o'. ob_status o' \<noteq> ''draft'') (db_objections d)"

definition governance_version :: "db \<Rightarrow> int" where
  "governance_version d = (case db_governance d of None \<Rightarrow> 0 | Some g \<Rightarrow> gv_version g)"

definition cancel_enrollment :: "env \<Rightarrow> db \<Rightarrow> bool" where
  \<comment> \<open>the call for members is over, has failed, and no activation is under way\<close>
  "cancel_enrollment e d \<longleftrightarrow>
     governance_mode d = ''enrolling''
     \<and> (case Option.bind (db_governance d) gv_close of None \<Rightarrow> False | Some t \<Rightarrow> \<not> en_now e < t)
     \<and> count_where (\<lambda>m. mb_reviewer m \<and> mb_left m = None
          \<and> mb_joined m \<le> en_now e - membership_cooling) (db_members d) < 7
     \<and> \<not> list_ex (\<lambda>p. pr_action p = ''activate''
          \<and> pr_status p \<in> {''discussion'', ''voting'', ''passed''}) (db_proposals d)"

definition configure_governance :: "env \<Rightarrow> actor \<Rightarrow> string \<Rightarrow> db \<Rightarrow> unit handler" where
  "configure_governance e a mode d =
    (if ac_role a \<noteq> ''class_admin'' then Inl (HttpError 403 ''forbidden'')
     else if mode \<noteq> ''centralized'' \<and> mode \<noteq> ''collective'' then Inl (HttpError 422 ''invalid_mode'')
     else if assessment_started d
       \<or> 0 < governance_version d \<and> \<not> (mode = ''centralized'' \<and> cancel_enrollment e d)
     then Inl (HttpError 409 ''governance_started'')
     else (let opens = (if mode = ''collective'' then Some (en_now e) else None);
               closes = (if mode = ''collective'' then Some (en_now e + enrollment_notice) else None);
               stored = (if mode = ''collective'' then ''enrolling'' else mode) in
       Inr (d\<lparr>db_governance := Some (case db_governance d of
              None \<Rightarrow> \<lparr>gv_mode = stored, gv_version = 1, gv_open = opens, gv_close = closes,
                        gv_profile = None\<rparr>
            | Some g \<Rightarrow> g\<lparr>gv_mode := stored, gv_version := gv_version g + 1, gv_open := opens,
                            gv_close := closes\<rparr>)\<rparr>, ())))"

definition join_governance :: "env \<Rightarrow> actor \<Rightarrow> bool \<Rightarrow> bool \<Rightarrow> db \<Rightarrow> unit handler" where
  "join_governance e a joins reviewer d =
    (if governance_mode d = ''centralized'' then Inl (HttpError 409 ''not_collective'')
     else (let mine = (\<lambda>m. mb_user m = ac_user a) in
       if \<not> joins then Inr (d\<lparr>db_members := where_set mine (\<lambda>m. m\<lparr>mb_left :=
            (case mb_left m of None \<Rightarrow> Some (en_now e) | Some t \<Rightarrow> Some t), mb_reviewer := False\<rparr>)
            (db_members d)\<rparr>, ())
       else if list_ex mine (db_members d) then
         Inr (d\<lparr>db_members := where_set mine (\<lambda>m. m\<lparr>mb_joined :=
            (if mb_left m = None then mb_joined m else en_now e), mb_left := None,
             mb_reviewer := reviewer\<rparr>) (db_members d)\<rparr>, ())
       else Inr (d\<lparr>db_members := db_members d @ [\<lparr>mb_user = ac_user a, mb_joined = en_now e,
            mb_left = None, mb_reviewer = reviewer\<rparr>]\<rparr>, ())))"

section \<open>What may be proposed (validateGovernanceAction)\<close>

definition action_name :: "action_input \<Rightarrow> string" where
  "action_name x = (case x of MotionAction \<Rightarrow> ''motion'' | ActivateAction \<Rightarrow> ''activate''
     | TimelineAction _ \<Rightarrow> ''timeline'' | BonusAction _ \<Rightarrow> ''bonus'')"

definition window_payload :: "env \<Rightarrow> window_input \<Rightarrow> db \<Rightarrow> (db \<times> timeline_input) option" where
  \<comment> \<open>only the window may change; a lockdown left out stays what it is\<close>
  "window_payload e w d = (case (wi_open w, wi_close w) of
      (Some o', Some c) \<Rightarrow>
        if wi_other w \<or> \<not> o' < c then None
        else (let (d1, lockdown) = (case wi_lockdown w of
                 Some l \<Rightarrow> (d, l)
               | None \<Rightarrow> (let (d1, t) = timeline_load e d in (d1, w_lockdown (ti_window t)))) in
          Some (d1, \<lparr>tn_open = o', tn_close = c, tn_lockdown = lockdown,
            tn_publicity = wi_publicity w, tn_top = None, tn_awards = None, tn_college = None,
            tn_enrollment = None, tn_year = None\<rparr>))
    | _ \<Rightarrow> None)"

definition bonus_payload ::
    "env \<Rightarrow> string \<Rightarrow> bonus_input \<Rightarrow> db \<Rightarrow> (db \<times> string \<times> payload \<times> int set) option" where
  \<comment> \<open>the beneficiaries do not vote, unless everybody is one: then it is a protected matter\<close>
  "bonus_payload e kind x0 d = (case normalize_bonus x0 of
      None \<Rightarrow> None
    | Some (x, _) \<Rightarrow> (case load_current_scheme e d of
        Inl _ \<Rightarrow> None
      | Inr (d1, current) \<Rightarrow>
         if cf_version (ss_config current) \<noteq> bg_version x then None
         else (case prepare_bonus current x (en_now e) of
            Inl _ \<Rightarrow> None
          | Inr (p, _) \<Rightarrow>
             if (case it_evidence (pp_item p) of None \<Rightarrow> False | Some r \<Rightarrow> ev_required r) then None
             else if \<not> list_all (\<lambda>i. i \<in> set (active_ids d1)) (bg_students x) then None
             else if length (bg_students x) = length (active_ids d1)
             then Some (d1, ''protected'', BonusPayload x, {})
             else Some (d1, kind, BonusPayload x, set (bg_students x)))))"

definition validate_action ::
    "env \<Rightarrow> string \<Rightarrow> action_input \<Rightarrow> gov_profile option \<Rightarrow> db
     \<Rightarrow> (db \<times> string \<times> payload \<times> int set) option" where
  "validate_action e kind x profile d = (case x of
      ActivateAction \<Rightarrow> (case profile of
         Some p \<Rightarrow> if kind = ''activate'' then Some (d, kind, ProfilePayload p, {}) else None
       | None \<Rightarrow> None)
    | MotionAction \<Rightarrow>
        if kind = ''ordinary'' \<or> kind = ''protected'' then Some (d, kind, MotionPayload, {}) else None
    | TimelineAction w \<Rightarrow>
        if kind \<noteq> ''protected'' then None
        else map_option (\<lambda>(d1, t). (d1, kind, TimelinePayload t, {})) (window_payload e w d)
    | BonusAction b \<Rightarrow> if kind \<noteq> ''bonus'' then None else bonus_payload e kind b d)"

definition published_schemes :: "db \<Rightarrow> (int \<times> int \<times> config) list" where
  "published_schemes d = map (\<lambda>s. (sc_id s, sc_version s, sc_config s))
     (filter (\<lambda>s. sc_status s = ''published'') (db_schemes d))"

definition action_state :: "env \<Rightarrow> db \<Rightarrow> string \<Rightarrow> payload \<Rightarrow> string" where
  \<comment> \<open>\<open>governanceActionState\<close>, for what is not a case\<close>
  "action_state e d action x = en_digest e
     (if action = ''motion'' then MotionFacts x
      else if action = ''bonus'' then GrantFacts (published_schemes d) x
      else TimelineFacts (published_schemes d) (db_timeline d) x)"

section \<open>Proposing (createGovernanceProposal)\<close>

definition proposal_text_ok :: "proposal_input \<Rightarrow> bool" where
  "proposal_text_ok x \<longleftrightarrow> np_request x \<noteq> None \<and> 1 \<le> rune_count (trim_space (np_title x))
     \<and> rune_count (np_title x) \<le> 120 \<and> 4 \<le> rune_count (trim_space (np_body x))
     \<and> rune_count (np_body x) \<le> 10000"

definition reviewer_count :: "env \<Rightarrow> db \<Rightarrow> nat" where
  "reviewer_count e d =
     count_where (\<lambda>m. eligible m (en_now e) \<and> gm_reviewer m) (governance_members d)"

definition propose_mode ::
    "env \<Rightarrow> proposal_input \<Rightarrow> db \<Rightarrow> (http_error, action_input \<times> gov_profile option) result" where
  \<comment> \<open>an activation needs the call for members to be over and enough reviewers\<close>
  "propose_mode e x d =
    (if np_kind x = ''activate'' then
       (if governance_mode d \<noteq> ''enrolling''
           \<or> (case Option.bind (db_governance d) gv_close of None \<Rightarrow> True | Some t \<Rightarrow> en_now e < t)
        then Inl (HttpError 409 ''enrollment_open'')
        else (case review_profile (int (reviewer_count e d)) of
           Inl _ \<Rightarrow> Inl (HttpError 409 ''review_capacity'')
         | Inr p \<Rightarrow> Inr (ActivateAction, Some p)))
     else if governance_mode d \<noteq> ''collective'' then Inl (HttpError 409 ''not_active'')
     else Inr (np_action x, None))"

definition discussion_time :: "string \<Rightarrow> int" where
  "discussion_time kind = (if kind = ''protected'' \<or> kind = ''activate'' then 48 * hour else 24 * hour)"

definition voting_time :: "string \<Rightarrow> int" where
  "voting_time kind = (if kind = ''protected'' \<or> kind = ''activate'' then 72 * hour else 48 * hour)"

definition new_proposal ::
    "env \<Rightarrow> actor \<Rightarrow> proposal_input \<Rightarrow> string \<Rightarrow> string \<Rightarrow> payload \<Rightarrow> int list \<Rightarrow> int \<Rightarrow> db \<Rightarrow> proposal_row" where
  "new_proposal e a x kind action body ids required d =
    (let (roster, rhash) = governance_roster e d; opens = en_now e + discussion_time kind in
     \<lparr>pr_id = db_next d, pr_author = ac_user a, pr_created = Some x, pr_kind = kind,
      pr_title = np_title x, pr_action = action, pr_payload = body, pr_target = None,
      pr_subject = None, pr_version = governance_version d,
      pr_hash = action_state e d action body, pr_roster_hash = rhash, pr_roster = roster,
      pr_electorate = int (length ids), pr_required = required, pr_status = ''discussion'',
      pr_opens = opens, pr_closes = opens + voting_time kind, pr_decided_at = None,
      pr_result = None, pr_round = 1\<rparr>)"

definition open_proposal_for :: "actor \<Rightarrow> proposal_row \<Rightarrow> bool" where
  "open_proposal_for a p \<longleftrightarrow> pr_author p = ac_user a
     \<and> pr_status p \<in> {''discussion'', ''voting'', ''passed'', ''blocked''}"

definition request_of :: "proposal_row \<Rightarrow> string option" where
  "request_of p = Option.bind (pr_created p) np_request"

definition create_proposal :: "env \<Rightarrow> actor \<Rightarrow> proposal_input \<Rightarrow> db \<Rightarrow> int handler" where
  "create_proposal e a x d =
    (if \<not> proposal_text_ok x then Inl (HttpError 422 ''invalid_proposal'')
     else (case find (\<lambda>p. pr_author p = ac_user a \<and> pr_created p \<noteq> None \<and> request_of p = np_request x)
             (db_proposals d) of
        Some p \<Rightarrow> if pr_created p = Some x then Inr (d, pr_id p) else Inl (HttpError 409 ''request_changed'')
      | None \<Rightarrow>
         if governance_mode d = ''centralized'' then Inl (HttpError 409 ''not_collective'')
         else if \<not> list_ex (\<lambda>m. gm_id m = ac_user a \<and> eligible m (en_now e)) (governance_members d)
         then Inl (HttpError 403 ''membership_required'')
         else (case propose_mode e x d of Inl err \<Rightarrow> Inl err | Inr (action, profile) \<Rightarrow>
          (case validate_action e (np_kind x) action profile d of
             None \<Rightarrow> Inl (HttpError 422 ''proposal_invalid'')
           | Some (d1, kind, body, excluded) \<Rightarrow>
              (let ids = electorate (governance_members d1) (en_now e) excluded;
                   roster = int (length (active_ids d1)) in
               (case threshold kind (int (length ids)) roster of
                  Inl _ \<Rightarrow> Inl (HttpError 422 ''electorate_empty'')
                | Inr required \<Rightarrow>
                   if int (length ids) < required then Inl (HttpError 409 ''quorum_unreachable'')
                   else if 3 \<le> count_where (open_proposal_for a) (db_proposals d1)
                   then Inl (HttpError 409 ''proposal_limit'')
                   else (let p = new_proposal e a x kind (action_name action) body ids required d1 in
                     Inr (d1\<lparr>db_proposals := db_proposals d1 @ [p],
                          db_voters := db_voters d1 @ map (new_voter (pr_id p) 0) ids,
                          db_next := db_next d1 + 1\<rparr>, pr_id p))))))))"

section \<open>Voting and closing (voteGovernance, closeGovernanceProposal)\<close>

definition vote_proposal :: "env \<Rightarrow> actor \<Rightarrow> int \<Rightarrow> string \<Rightarrow> bool \<Rightarrow> db \<Rightarrow> bool handler" where
  "vote_proposal e a i choice lock d =
    (if choice \<notin> {''yes'', ''no'', ''abstain''} then Inl (HttpError 422 ''invalid_vote'')
     else (case find_proposal d i of None \<Rightarrow> Inl not_found | Some p \<Rightarrow>
       if case_kind p then Inl (HttpError 422 ''case_review_required'')
       else if pr_status p \<noteq> ''discussion'' \<and> pr_status p \<noteq> ''voting'' \<or> en_now e < pr_opens p
          \<or> \<not> en_now e < pr_closes p then Inl (HttpError 409 ''vote_closed'')
       else if snd (governance_roster e d) \<noteq> pr_roster_hash p then Inl (HttpError 409 ''roster_changed'')
       else (case update_seat i (ac_user a) (\<lambda>v. vo_active v \<and> \<not> vo_locked v)
             (\<lambda>v. v\<lparr>vo_choice := Some choice, vo_cast_at := Some (en_now e), vo_locked := lock\<rparr>) d of
          None \<Rightarrow> Inl (HttpError 403 ''not_eligible'')
        | Some d1 \<Rightarrow> Inr (set_proposal i (\<lambda>q. q\<lparr>pr_status := ''voting''\<rparr>) d1, lock))))"

definition yes_votes :: "db \<Rightarrow> int \<Rightarrow> nat" where
  "yes_votes d i = count_where (\<lambda>v. vo_active v \<and> vo_choice v = Some ''yes'') (seats_of d i)"

definition locked_votes :: "db \<Rightarrow> int \<Rightarrow> nat" where
  "locked_votes d i =
     count_where (\<lambda>v. vo_active v \<and> vo_locked v \<and> vo_cast_at v \<noteq> None) (seats_of d i)"

definition run_action ::
    "env \<Rightarrow> actor \<Rightarrow> proposal_row \<Rightarrow> db \<Rightarrow> (http_error, db) result" where
  "run_action e a p d = (case pr_payload p of
      MotionPayload \<Rightarrow> Inr d
    | ProfilePayload wanted \<Rightarrow>
        if int (reviewer_count e d) < gp_minimum wanted then Inl (HttpError 409 ''capacity_changed'')
        else if list_ex (\<lambda>s. sb_status s \<noteq> Draft) (db_submissions d)
        then Inl (HttpError 409 ''assessment_started'')
        else Inr (d\<lparr>db_governance := map_option (\<lambda>g. if gv_mode g = ''enrolling'' then
            g\<lparr>gv_mode := ''collective'', gv_profile := Some (gp_name wanted),
              gv_version := gv_version g + 1\<rparr> else g) (db_governance d)\<rparr>)
    | TimelinePayload t \<Rightarrow> map_sum id fst (update_timeline e a t d)
    | BonusPayload b \<Rightarrow> map_sum id fst (create_bonus_grant e a True b d)
    | CasePayload _ \<Rightarrow> Inl (HttpError 422 ''action_unknown''))"

definition execute_proposal :: "env \<Rightarrow> actor \<Rightarrow> proposal_row \<Rightarrow> time \<Rightarrow> db \<Rightarrow> string handler" where
  \<comment> \<open>\<open>decided\<close>: when it passed; a weighty decision waits a day after that\<close>
  "execute_proposal e a p decided d =
    (if (pr_kind p = ''protected'' \<or> pr_kind p = ''activate'') \<and> en_now e < decided + 24 * hour
     then Inr (d, ''passed'')
     else if action_state e d (pr_action p) (pr_payload p) \<noteq> pr_hash p
     then Inr (set_proposal (pr_id p) (\<lambda>q. q\<lparr>pr_status := ''stale''\<rparr>) d, ''stale'')
     else (case run_action e (a\<lparr>ac_grant := pr_subject p\<rparr>) p d of
        Inl err \<Rightarrow> Inl err
      | Inr d1 \<Rightarrow> Inr (append_audit a ''governance.applied'' ''governance_proposal'' (dec_int (pr_id p))
          (set_proposal (pr_id p) (\<lambda>q. q\<lparr>pr_status := ''applied'', pr_result := Some []\<rparr>) d1),
          ''applied'')))"

definition tally_votes :: "env \<Rightarrow> proposal_row \<Rightarrow> db \<Rightarrow> string" where
  "tally_votes e p d =
    (if snd (governance_roster e d) \<noteq> pr_roster_hash p \<or> governance_version d \<noteq> pr_version p
     then ''stale''
     else if int (yes_votes d (pr_id p)) < pr_required p then ''rejected'' else ''passed'')"

definition close_proposal :: "env \<Rightarrow> actor \<Rightarrow> int \<Rightarrow> db \<Rightarrow> string handler" where
  "close_proposal e a i d = (case find_proposal d i of
      None \<Rightarrow> Inl not_found
    | Some p \<Rightarrow>
       if pr_status p \<in> {''applied'', ''rejected'', ''stale''} then Inr (d, pr_status p)
       else if en_now e < pr_closes p \<and> int (locked_votes d i) \<noteq> pr_electorate p
       then Inl (HttpError 409 ''vote_pending'')
       else if en_now e < pr_opens p then Inl (HttpError 409 ''discussion_pending'')
       else (let status = tally_votes e p d;
                 decided = (case pr_decided_at p of None \<Rightarrow> en_now e | Some t \<Rightarrow> t);
                 d1 = set_proposal i (\<lambda>q. q\<lparr>pr_status := status, pr_decided_at := Some decided\<rparr>) d in
         if status \<noteq> ''passed'' then Inr (d1, status)
         else execute_proposal e a p decided d1))"

definition close_governance ::
    "env \<Rightarrow> actor \<Rightarrow> bool \<Rightarrow> (int \<Rightarrow> string option) \<Rightarrow> int \<Rightarrow> db \<Rightarrow> string handler" where
  \<comment> \<open>\<open>closeGovernanceProposal\<close>: a case is finished, anything else is counted\<close>
  "close_governance e a auto origin i d = (case find_proposal d i of
      None \<Rightarrow> Inl not_found
    | Some p \<Rightarrow> if case_kind p then close_case e a auto origin i d else close_proposal e a i d)"

section \<open>Comments and new facts (commentGovernance)\<close>

definition comment_guard :: "env \<Rightarrow> actor \<Rightarrow> proposal_row \<Rightarrow> string \<Rightarrow> string \<Rightarrow> db \<Rightarrow> http_error option" where
  \<comment> \<open>a panel does not discuss; only the person concerned adds facts, and only once\<close>
  "comment_guard e a p body kind d =
    (if \<not> case_may_read d a p then Some (HttpError 403 ''forbidden'')
     else if pr_status p \<in> {''applied'', ''rejected'', ''stale''} then Some (HttpError 409 ''closed'')
     else if case_kind p \<and> kind \<noteq> ''evidence'' then Some (HttpError 409 ''independent_review'')
     else if kind = ''evidence'' \<and> (pr_subject p \<noteq> Some (ac_user a) \<or> \<not> case_kind p
        \<or> rune_count body < 20) then Some (HttpError 403 ''subject_only'')
     else if kind = ''evidence'' \<and> 2 \<le> pr_round p then Some (HttpError 409 ''round_limit'')
     else if 20 \<le> count_where (\<lambda>m. co_actor m = ac_user a \<and> en_now e - hour < co_created_at m)
               (db_comments d) then Some (HttpError 429 ''comment_limit'')
     else None)"

definition comment_governance :: "env \<Rightarrow> actor \<Rightarrow> int \<Rightarrow> string \<Rightarrow> string \<Rightarrow> db \<Rightarrow> string handler" where
  "comment_governance e a i body kind d =
    (if rune_count (trim_space body) < 4 \<or> 5000 < rune_count body
     then Inl (HttpError 422 ''comment_invalid'')
     else (case find_proposal d i of None \<Rightarrow> Inl not_found | Some p \<Rightarrow>
       (case comment_guard e a p body kind d of Some err \<Rightarrow> Inl err | None \<Rightarrow>
        (let k = (if kind = ''evidence'' then kind else ''discussion'');
             d1 = d\<lparr>db_comments := db_comments d @ [\<lparr>co_proposal = i, co_actor = ac_user a,
               co_created_at = en_now e, co_kind = k, co_body = trim_space body\<rparr>]\<rparr> in
         if k = ''evidence'' then restart_case e a i d1 else Inr (d1, ''saved'')))))"

section \<open>Settling a self-governed class (collectiveSettlement)\<close>

definition collective_settlement :: "visits \<Rightarrow> env \<Rightarrow> actor \<Rightarrow> db \<Rightarrow> (int \<times> bool) handler" where
  "collective_settlement v e a d =
    (if governance_mode d \<noteq> ''collective'' then Inl (HttpError 403 ''not_collective'')
     else if \<not> list_ex (\<lambda>m. gm_id m = ac_user a \<and> eligible m (en_now e)) (governance_members d)
     then Inl (HttpError 403 ''membership_required'')
     else run_settlement v e a d)"

end
