(* ===== verification/DispatchDesk.thy ===== *)
theory DispatchDesk
  imports Proposals
begin

text \<open>
  Who reviews what: \<open>api/dispatch_handlers.go\<close> (the runs of the administrator, pausing a
  reviewer, moving one seat or all seats of a reviewer), \<open>api/recusal.go\<close> and the event worker
  \<open>dispatch/worker.go\<close>.  The choice itself is \<open>balance\<close> and \<open>pick_one\<close> of \<open>Dispatch\<close>.

  A seat is a row of \<open>submission_reviewer\<close>; its two partial unique indexes allow one active seat
  per reviewer and one per position of a submission.  The random bytes of a run are
  \<open>en_random\<close>.  The seats of scorecard audits, which \<open>clearSelfReviewAssignments\<close> also retires,
  are not among the modelled tables.
\<close>

section \<open>The pool (loadDispatchPool, loadDispatchTargets)\<close>

definition id_before :: "app_user \<Rightarrow> app_user \<Rightarrow> bool" where
  "id_before a b \<longleftrightarrow> us_id a < us_id b"

definition may_hold_seats :: "app_user \<Rightarrow> bool" where
  "may_hold_seats u \<longleftrightarrow> us_status u = ''active'' \<and> us_role u \<in> {''group'', ''class_admin''}"

definition in_round :: "db \<Rightarrow> int \<Rightarrow> bool" where
  "in_round d i \<longleftrightarrow> list_ex (\<lambda>s. sb_id s = i \<and> sb_status s \<noteq> Draft \<and> sb_status s \<noteq> Locked) (db_submissions d)"

definition has_verdict :: "db \<Rightarrow> int \<Rightarrow> int \<Rightarrow> bool" where
  "has_verdict d i u \<longleftrightarrow> list_ex (\<lambda>r. rv_submission r = i \<and> rv_reviewer r = u \<and> rv_superseded_at r = None) (db_reviews d)"

definition seat_load :: "db \<Rightarrow> app_user \<Rightarrow> reviewer" where
  "seat_load d u = \<lparr>re_user = us_id u, re_sid = us_sid u, re_name = us_name u, re_role = us_role u,
     re_paused = us_paused u,
     re_assigned = int (count_where (\<lambda>v. sv_reviewer v = us_id u \<and> in_round d (sv_submission v)
        \<and> sv_active v) (db_assigned d)),
     re_pending = int (count_where (\<lambda>v. sv_reviewer v = us_id u \<and> in_round d (sv_submission v)
        \<and> sv_active v \<and> \<not> has_verdict d (sv_submission v) (us_id u)) (db_assigned d)),
     re_done = int (count_where (\<lambda>r. rv_reviewer r = us_id u \<and> in_round d (rv_submission r)
        \<and> rv_superseded_at r = None) (db_reviews d))\<rparr>"

definition load_pool :: "db \<Rightarrow> reviewer list" where
  "load_pool d = map (seat_load d) (sort_less id_before (filter may_hold_seats (db_users d)))"

definition pool_loads :: "reviewer list \<Rightarrow> loads" where
  "pool_loads pool = foldl (\<lambda>m r. AList.update (re_user r)
     \<lparr>lo_assigned = re_assigned r, lo_pending = re_pending r\<rparr> m) [] pool"

definition active_seats :: "db \<Rightarrow> int \<Rightarrow> int list" where
  "active_seats d i = map sv_reviewer (filter (\<lambda>v. sv_submission v = i \<and> sv_active v) (db_assigned d))"

definition verdicts_of :: "db \<Rightarrow> int \<Rightarrow> int list" where
  "verdicts_of d i = map rv_reviewer (filter (\<lambda>r. rv_submission r = i \<and> rv_superseded_at r = None) (db_reviews d))"

definition filed_before :: "submission \<Rightarrow> submission \<Rightarrow> bool" where
  "filed_before a b \<longleftrightarrow> (case (sb_submitted_at a, sb_submitted_at b) of
      (Some x, Some y) \<Rightarrow> x < y \<or> x = y \<and> sb_id a < sb_id b
    | (Some x, None) \<Rightarrow> True
    | (None, Some y) \<Rightarrow> False
    | (None, None) \<Rightarrow> sb_id a < sb_id b)"

definition waiting :: "submission \<Rightarrow> bool" where
  "waiting s \<longleftrightarrow> sb_status s = Pending \<or> sb_status s = Consensus"

definition dispatch_target :: "db \<Rightarrow> bool \<Rightarrow> submission \<Rightarrow> bool" where
  "dispatch_target d include s \<longleftrightarrow> waiting s \<and> find_user d (sb_student s) \<noteq> None
     \<and> (if include then verdicts_of d (sb_id s) = [] else active_seats d (sb_id s) = [])"

definition dispatch_item :: "db \<Rightarrow> int set \<Rightarrow> int list \<Rightarrow> submission \<Rightarrow> dispatch_submission option" where
  \<comment> \<open>a missing time of filing cannot be scanned\<close>
  "dispatch_item d assigned replaced s = (case (find_user d (sb_student s), sb_submitted_at s) of
      (Some u, Some t) \<Rightarrow> Some \<lparr>ds_id = sb_id s, ds_student = sb_student s, ds_title = sb_title s,
        ds_student_name = us_name u, ds_submitted_at = t, ds_reviewed_by = set (verdicts_of d (sb_id s)),
        ds_assigned = assigned, ds_replaced = replaced\<rparr>
    | _ \<Rightarrow> None)"

fun all_items :: "('a \<Rightarrow> 'b option) \<Rightarrow> 'a list \<Rightarrow> 'b list option" where
  \<comment> \<open>the rows of a query, or the error of the first that cannot be scanned\<close>
  "all_items f [] = Some []"
| "all_items f (x # xs) = (case f x of None \<Rightarrow> None | Some y \<Rightarrow> map_option ((#) y) (all_items f xs))"

definition load_targets :: "db \<Rightarrow> bool \<Rightarrow> dispatch_submission list option" where
  "load_targets d include = all_items (\<lambda>s. dispatch_item d {} (if include then active_seats d (sb_id s) else []) s)
     (sort_less filed_before (filter (dispatch_target d include) (db_submissions d)))"

section \<open>Plans and seats\<close>

definition random_seed :: "env \<Rightarrow> int" where
  "random_seed e = (let v = be_uint64 (en_random e) mod 2 ^ 63 in if v = 0 then 1 else v)"

definition build_plan :: "env \<Rightarrow> int \<Rightarrow> bool \<Rightarrow> db \<Rightarrow> (http_error, db \<times> plan \<times> int) result" where
  "build_plan e seed include d = (case load_current_scheme e d of
      Inl err \<Rightarrow> Inl (HttpError 422 ''dispatch_invalid'')
    | Inr (d1, current) \<Rightarrow> (case load_targets d1 include of
        None \<Rightarrow> Inl (HttpError 422 ''dispatch_invalid'')
      | Some targets \<Rightarrow>
         (case balance (en_sha256 e) targets (load_pool d1) (pool_loads (load_pool d1))
                (if seed = 0 then random_seed e else seed) True of
            Inl err \<Rightarrow> Inl (HttpError 422 ''dispatch_invalid'')
          | Inr plan \<Rightarrow> Inr (d1, plan, ss_id current))))"

definition self_seat :: "db \<Rightarrow> submission_reviewer \<Rightarrow> bool" where
  "self_seat d v \<longleftrightarrow> sv_active v
     \<and> list_ex (\<lambda>s. sb_id s = sv_submission v \<and> sb_student s = sv_reviewer v) (db_submissions d)
     \<and> \<not> has_verdict d (sv_submission v) (sv_reviewer v)"

definition retire_seats :: "(submission_reviewer \<Rightarrow> bool) \<Rightarrow> db \<Rightarrow> db" where
  "retire_seats p d = d\<lparr>db_assigned := where_set p (\<lambda>v. v\<lparr>sv_active := False\<rparr>) (db_assigned d)\<rparr>"

definition clear_self_seats :: "db \<Rightarrow> db" where
  \<comment> \<open>\<open>clearSelfReviewAssignments\<close>, for the seats of submissions\<close>
  "clear_self_seats d = retire_seats (self_seat d) d"

definition insert_seat :: "int \<Rightarrow> int \<Rightarrow> int \<Rightarrow> int option \<Rightarrow> time \<Rightarrow> db \<Rightarrow> (http_error, db) result" where
  "insert_seat i u position run at_time d =
    (if position \<noteq> 1 \<and> position \<noteq> 2
        \<or> list_ex (\<lambda>v. sv_active v \<and> sv_submission v = i \<and> (sv_reviewer v = u \<or> sv_position v = position))
             (db_assigned d)
     then Inl internal_error
     else Inr (d\<lparr>db_assigned := db_assigned d @ [\<lparr>sv_id = db_next d, sv_submission = i, sv_reviewer = u,
            sv_position = position, sv_run = run, sv_active = True, sv_assigned_at = at_time\<rparr>],
          db_next := db_next d + 1\<rparr>))"

definition insert_dispatch_run ::
    "env \<Rightarrow> int \<Rightarrow> int \<Rightarrow> string \<Rightarrow> int \<Rightarrow> int \<Rightarrow> int option \<Rightarrow> db \<Rightarrow> db \<times> int" where
  "insert_dispatch_run e scheme seed trigger assigned blocked by_user d =
     (d\<lparr>db_dispatch_runs := db_dispatch_runs d @ [\<lparr>dr_id = db_next d, dr_scheme = scheme, dr_seed = seed,
          dr_trigger = trigger, dr_assigned = assigned, dr_blocked = blocked, dr_by = by_user,
          dr_created_at = en_now e\<rparr>], db_next := db_next d + 1\<rparr>, db_next d)"

definition assign_pair :: "env \<Rightarrow> int \<Rightarrow> bool \<Rightarrow> db \<Rightarrow> int \<times> int \<times> int \<Rightarrow> (http_error, db) result" where
  "assign_pair e run include d x = (case x of (i, u1, u2) \<Rightarrow>
     (let d1 = (if include then retire_seats (\<lambda>v. sv_submission v = i \<and> sv_active v) d else d) in
      (case insert_seat i u1 1 (Some run) (en_now e) d1 of
         Inl err \<Rightarrow> Inl err
       | Inr d2 \<Rightarrow> insert_seat i u2 2 (Some run) (en_now e) d2)))"

section \<open>Runs (previewDispatch, runDispatch, updateDispatchAuto)\<close>

definition preview_dispatch :: "env \<Rightarrow> actor \<Rightarrow> int \<Rightarrow> bool \<Rightarrow> db \<Rightarrow> plan handler" where
  "preview_dispatch e a seed include d = (case build_plan e seed include d of
      Inl err \<Rightarrow> Inl err
    | Inr (d1, plan, scheme) \<Rightarrow> Inr (append_audit a ''dispatch.previewed'' ''dispatch_run'' [] d1, plan))"

definition run_dispatch :: "env \<Rightarrow> actor \<Rightarrow> int \<Rightarrow> bool \<Rightarrow> db \<Rightarrow> plan handler" where
  "run_dispatch e a seed include d = (case build_plan e seed include (clear_self_seats d) of
      Inl err \<Rightarrow> Inl err
    | Inr (d1, plan, scheme) \<Rightarrow>
       (let (d2, run) = insert_dispatch_run e scheme (pl_seed plan)
              (if include then ''rebalance'' else ''manual'') (int (length (pl_assignments plan)))
              (int (length (pl_blocked plan))) (Some (ac_user a)) d1 in
        (case fold_res (assign_pair e run include) d2 (pl_assignments plan) of
           Inl err \<Rightarrow> Inl err
         | Inr d3 \<Rightarrow> Inr (enqueue_event ''dispatch.done'' run
              (append_audit a ''dispatch.completed'' ''dispatch_run'' (dec_int run) d3), plan))))"

definition update_dispatch_auto :: "actor \<Rightarrow> bool option \<Rightarrow> db \<Rightarrow> bool handler" where
  "update_dispatch_auto a on d = (case on of
      None \<Rightarrow> Inl (HttpError 400 ''invalid_request'')
    | Some b \<Rightarrow> if \<not> b then Inl (HttpError 409 ''auto_dispatch_required'')
       else Inr (append_audit a ''dispatch.auto_changed'' ''class'' [] (d\<lparr>db_auto := b\<rparr>), b))"

section \<open>Handing over seats\<close>

definition seated_before :: "submission_reviewer \<Rightarrow> submission_reviewer \<Rightarrow> bool" where
  "seated_before v w \<longleftrightarrow> sv_assigned_at v < sv_assigned_at w
     \<or> sv_assigned_at v = sv_assigned_at w \<and> sv_id v < sv_id w"

definition open_seat :: "db \<Rightarrow> int \<Rightarrow> submission_reviewer \<Rightarrow> bool" where
  "open_seat d u v \<longleftrightarrow> sv_reviewer v = u \<and> sv_active v
     \<and> list_ex (\<lambda>s. sb_id s = sv_submission v \<and> waiting s) (db_submissions d)
     \<and> \<not> has_verdict d (sv_submission v) u"

definition run_before :: "dispatch_run \<Rightarrow> dispatch_run \<Rightarrow> bool" where
  "run_before x y \<longleftrightarrow> dr_created_at x > dr_created_at y \<or> dr_created_at x = dr_created_at y \<and> dr_id x > dr_id y"

definition latest_seed :: "db \<Rightarrow> int \<Rightarrow> int \<Rightarrow> int" where
  "latest_seed d scheme default_seed =
    (case sort_less run_before (filter (\<lambda>r. dr_scheme r = scheme) (db_dispatch_runs d)) of
       [] \<Rightarrow> default_seed | r # _ \<Rightarrow> dr_seed r)"

definition take_over_seat :: "env \<Rightarrow> db \<Rightarrow> submission_reviewer \<times> submission \<Rightarrow> (http_error, db) result" where
  "take_over_seat e d x = (case x of (v, s) \<Rightarrow>
    (let item = \<lparr>ds_id = sb_id s, ds_student = sb_student s, ds_title = sb_title s, ds_student_name = [],
           ds_submitted_at = (case sb_submitted_at s of Some t \<Rightarrow> t | None \<Rightarrow> 0),
           ds_reviewed_by = set (verdicts_of d (sb_id s)), ds_assigned = set (active_seats d (sb_id s)),
           ds_replaced = []\<rparr> in
     (case pick_one (en_sha256 e) item (load_pool d) (pool_loads (load_pool d))
             (latest_seed d (sb_scheme_id s) (sb_id s)) True of
        Inl err \<Rightarrow> Inl internal_error
      | Inr None \<Rightarrow> Inr d
      | Inr (Some u) \<Rightarrow>
          insert_seat (sb_id s) u (sv_position v) None (sv_assigned_at v)
            (retire_seats (\<lambda>w. sv_id w = sv_id v \<and> sv_active w) d))))"

definition reassign_unavailable :: "env \<Rightarrow> int \<Rightarrow> db \<Rightarrow> (http_error, db) result" where
  \<comment> \<open>\<open>reassignUnavailableSubmissionReviewer\<close>\<close>
  "reassign_unavailable e u d =
    (case all_items (\<lambda>v. case find_submission d (sv_submission v) of
              None \<Rightarrow> None | Some s \<Rightarrow> if sb_submitted_at s = None then None else Some (v, s))
            (sort_less seated_before (filter (open_seat d u) (db_assigned d))) of
       None \<Rightarrow> Inl internal_error
     | Some seats \<Rightarrow> fold_res (take_over_seat e) d seats)"

definition update_dispatch_reviewer :: "env \<Rightarrow> actor \<Rightarrow> int \<Rightarrow> bool option \<Rightarrow> db \<Rightarrow> reviewer option handler" where
  "update_dispatch_reviewer e a uid paused d = (case path_id uid of Some err \<Rightarrow> Inl err | None \<Rightarrow>
    (case paused of
       None \<Rightarrow> Inl (HttpError 400 ''invalid_request'')
     | Some b \<Rightarrow>
        if \<not> list_ex (\<lambda>u. us_id u = uid \<and> may_hold_seats u) (db_users d)
        then Inl (HttpError 404 ''reviewer_not_found'')
        else (let d1 = d\<lparr>db_users := where_set (\<lambda>u. us_id u = uid \<and> may_hold_seats u)
                     (\<lambda>u. u\<lparr>us_paused := b\<rparr>) (db_users d)\<rparr>;
                  answer = find (\<lambda>r. re_user r = uid) (load_pool d1);
                  d2 = append_audit a ''dispatch.reviewer_paused'' ''app_user'' (dec_int uid) d1 in
              if \<not> b then Inr (d2, answer)
              else (case reassign_unavailable e uid d2 of Inl err \<Rightarrow> Inl err | Inr d3 \<Rightarrow> Inr (d3, answer)))))"

definition valid_reassign_reason :: "string \<Rightarrow> bool" where
  "valid_reassign_reason reason \<longleftrightarrow>
     (let n = rune_count (trim_space reason) in 4 \<le> n \<and> n \<le> 500)"

definition valid_reassign_target :: "db \<Rightarrow> int \<Rightarrow> int \<Rightarrow> int \<Rightarrow> bool" where
  "valid_reassign_target d i student u \<longleftrightarrow> 0 < u \<and> u \<noteq> student
     \<and> list_ex (\<lambda>x. us_id x = u \<and> may_hold_seats x \<and> \<not> us_paused x) (db_users d)
     \<and> \<not> list_ex (\<lambda>v. sv_submission v = i \<and> sv_reviewer v = u \<and> sv_active v) (db_assigned d)
     \<and> \<not> has_verdict d i u"

definition place_before :: "submission_reviewer \<Rightarrow> submission_reviewer \<Rightarrow> bool" where
  "place_before v w \<longleftrightarrow> sv_position v < sv_position w"

definition active_submission_reviewers :: "db \<Rightarrow> int \<Rightarrow> reviewer list" where
  "active_submission_reviewers d i = List.map_filter (\<lambda>v. find (\<lambda>r. re_user r = sv_reviewer v) (load_pool d))
     (sort_less place_before (filter (\<lambda>v. sv_submission v = i \<and> sv_active v) (db_assigned d)))"

definition reassign_submission :: "env \<Rightarrow> actor \<Rightarrow> int \<Rightarrow> int \<Rightarrow> int \<Rightarrow> string \<Rightarrow> db \<Rightarrow> reviewer list handler" where
  "reassign_submission e a i from to reason d = (case path_id i of Some err \<Rightarrow> Inl err | None \<Rightarrow>
    (if \<not> valid_reassign_reason reason \<or> from \<le> 0 \<or> to \<le> 0 \<or> from = to
     then Inl (HttpError 400 ''invalid_request'')
     else (case load_current_scheme e d of Inl err \<Rightarrow> Inl internal_error | Inr (d1, current) \<Rightarrow>
       (case find (\<lambda>v. sv_submission v = i \<and> sv_reviewer v = from \<and> sv_active v \<and> in_round d1 i) (db_assigned d1) of
          None \<Rightarrow> Inl (HttpError 422 ''invalid_reviewer'')
        | Some v \<Rightarrow> (case find_submission d1 i of None \<Rightarrow> Inl (HttpError 422 ''invalid_reviewer'') | Some s \<Rightarrow>
           if has_verdict d1 i from then Inl (HttpError 409 ''already_reviewed'')
           else if \<not> valid_reassign_target d1 i (sb_student s) to then Inl (HttpError 422 ''invalid_reviewer'')
           else (let (d2, run) = insert_dispatch_run e (ss_id current) (random_seed e) ''handover'' 1 0
                       (Some (ac_user a)) d1 in
             (case insert_seat i to (sv_position v) (Some run) (en_now e)
                     (retire_seats (\<lambda>w. sv_id w = sv_id v) d2) of
                Inl err \<Rightarrow> Inl err
              | Inr d3 \<Rightarrow>
                 (let d4 = enqueue_event ''dispatch.reassigned'' i
                       (append_audit a ''dispatch.reassigned'' ''submission'' (dec_int i) d3)
                  in Inr (d4, active_submission_reviewers d4 i)))))))))"

section \<open>Handing over everything (handoverDispatch)\<close>

record handover_move =
  hm_seat :: int
  hm_submission :: int
  hm_position :: int
  hm_to :: int

definition handed_seat :: "db \<Rightarrow> int \<Rightarrow> submission_reviewer \<Rightarrow> bool" where
  "handed_seat d u v \<longleftrightarrow> sv_reviewer v = u \<and> sv_active v \<and> in_round d (sv_submission v)
     \<and> \<not> has_verdict d (sv_submission v) u"

definition item_before :: "submission_reviewer \<times> submission \<Rightarrow> submission_reviewer \<times> submission \<Rightarrow> bool" where
  "item_before x y \<longleftrightarrow> filed_before (snd x) (snd y)"

definition handed_seats :: "db \<Rightarrow> int \<Rightarrow> (submission_reviewer \<times> submission) list" where
  \<comment> \<open>the joins drop a seat whose submission or student is not there\<close>
  "handed_seats d u = sort_less item_before (List.map_filter (\<lambda>v. case find_submission d (sv_submission v) of
       None \<Rightarrow> None | Some s \<Rightarrow> if find_user d (sb_student s) = None then None else Some (v, s))
     (filter (handed_seat d u) (db_assigned d)))"

definition plan_move :: "env \<Rightarrow> db \<Rightarrow> reviewer list \<Rightarrow> int \<Rightarrow> int option
    \<Rightarrow> loads \<times> handover_move list \<Rightarrow> submission_reviewer \<times> dispatch_submission
    \<Rightarrow> (http_error, loads \<times> handover_move list) result" where
  "plan_move e d pool from to st x = (case (st, x) of ((loads, moves), (v, item)) \<Rightarrow>
    (let l = go_get no_load loads from;
         loads1 = (if 0 < lo_pending l then AList.update from (l\<lparr>lo_pending := lo_pending l - 1\<rparr>) loads else loads) in
     (case (case to of
          Some u \<Rightarrow> if valid_reassign_target d (ds_id item) (ds_student item) u then Inr u
                    else Inl (HttpError 422 ''invalid_reviewer'')
        | None \<Rightarrow> (case pick_one (en_sha256 e) item pool loads1 (random_seed e) True of
              Inl err \<Rightarrow> Inl internal_error
            | Inr None \<Rightarrow> Inl (HttpError 422 ''not_enough_reviewers'')
            | Inr (Some u) \<Rightarrow> Inr u)) of
        Inl err \<Rightarrow> Inl err
      | Inr u \<Rightarrow> Inr (change_load 1 u loads1, moves @ [\<lparr>hm_seat = sv_id v, hm_submission = ds_id item,
          hm_position = sv_position v, hm_to = u\<rparr>]))))"

definition make_move :: "env \<Rightarrow> int \<Rightarrow> db \<Rightarrow> handover_move \<Rightarrow> (http_error, db) result" where
  "make_move e run d m =
    (case insert_seat (hm_submission m) (hm_to m) (hm_position m) (Some run) (en_now e)
            (retire_seats (\<lambda>w. sv_id w = hm_seat m) d) of
       Inl err \<Rightarrow> Inl err
     | Inr d1 \<Rightarrow> Inr (enqueue_event ''dispatch.reassigned'' (hm_submission m) d1))"

definition dispatch_plan_rows :: "reviewer list \<Rightarrow> loads \<Rightarrow> loads \<Rightarrow> plan_row list" where
  "dispatch_plan_rows pool before after = map (\<lambda>r.
     (let b = lo_assigned (go_get no_load before (re_user r)); v = lo_assigned (go_get no_load after (re_user r))
      in \<lparr>pr_reviewer = re_user r, pr_name = re_name r, pr_sid = re_sid r, pr_before = b, pr_after = v,
          pr_delta = v - b\<rparr>)) pool"

definition handover_dispatch ::
    "env \<Rightarrow> actor \<Rightarrow> int \<Rightarrow> int option \<Rightarrow> string \<Rightarrow> db \<Rightarrow> (nat \<times> plan_row list) handler" where
  "handover_dispatch e a from to reason d =
    (if \<not> valid_reassign_reason reason \<or> from \<le> 0 \<or> (case to of None \<Rightarrow> False | Some u \<Rightarrow> u \<le> 0 \<or> u = from)
     then Inl (HttpError 400 ''invalid_request'')
     else (case load_current_scheme e d of Inl err \<Rightarrow> Inl internal_error | Inr (d1, current) \<Rightarrow>
       (let pool = load_pool d1; loads = pool_loads pool in
        (case all_items (\<lambda>(v, s). map_option (Pair v) (dispatch_item d1 (set (active_seats d1 (sb_id s))) [] s))
                (handed_seats d1 from) of
           None \<Rightarrow> Inl internal_error
         | Some candidates \<Rightarrow>
            (case fold_res (plan_move e d1 pool from to) (loads, []) candidates of
               Inl err \<Rightarrow> Inl err
             | Inr (after, moves) \<Rightarrow>
                (let rows = dispatch_plan_rows pool loads after in
                 if moves = [] then Inr (d1, 0, rows)
                 else (let (d2, run) = insert_dispatch_run e (ss_id current) (random_seed e) ''handover''
                             (int (length moves)) 0 (Some (ac_user a)) d1 in
                   (case fold_res (make_move e run) d2 moves of
                      Inl err \<Rightarrow> Inl err
                    | Inr d3 \<Rightarrow> Inr (append_audit a ''dispatch.reassigned'' ''dispatch_run'' (dec_int run) d3,
                        length moves, rows)))))))))"

section \<open>The event worker (dispatch/worker.go)\<close>

definition auto_dispatch :: "env \<Rightarrow> string \<Rightarrow> int \<Rightarrow> db \<Rightarrow> (http_error, db) result" where
  \<comment> \<open>\<open>Handle\<close> of the event \<open>submission.created\<close> with the identifier \<open>event\<close>\<close>
  "auto_dispatch e event i d =
    (if i \<le> 0 then Inl internal_error
     else if governance_mode d \<noteq> ''centralized'' then Inr d
     else if \<not> db_auto d then Inr d
     else if active_seats d i \<noteq> [] then Inr d
     else (case find_submission d i of
         None \<Rightarrow> Inr d
       | Some s \<Rightarrow> (case find_user d (sb_student s) of None \<Rightarrow> Inr d | Some u \<Rightarrow>
          (case sb_submitted_at s of None \<Rightarrow> Inl internal_error | Some t \<Rightarrow>
           if \<not> waiting s then Inr d
           else (let d1 = clear_self_seats d;
                     item = \<lparr>ds_id = i, ds_student = sb_student s, ds_title = sb_title s,
                       ds_student_name = us_name u, ds_submitted_at = t, ds_reviewed_by = {},
                       ds_assigned = {}, ds_replaced = []\<rparr> in
             (case balance (en_sha256 e) [item] (load_pool d) (pool_loads (load_pool d))
                     (event_seed (en_sha256 e) event) True of
                Inl err \<Rightarrow> Inl internal_error
              | Inr plan \<Rightarrow>
                 (let (d2, run) = insert_dispatch_run e (sb_scheme_id s) (event_seed (en_sha256 e) event)
                        ''auto'' (int (length (pl_assignments plan))) (int (length (pl_blocked plan))) None d1 in
                  (case fold_res (assign_pair e run False) d2 (pl_assignments plan) of
                     Inl err \<Rightarrow> Inl err
                   | Inr d3 \<Rightarrow> Inr (enqueue_event ''dispatch.done'' run
                       (d3\<lparr>db_audit := db_audit d3 @ [\<lparr>au_actor = None, au_action = ''dispatch.completed'',
                          au_resource = ''dispatch_run'', au_id = dec_int run\<rparr>]\<rparr>))))))))))"

end
