(* ===== verification/Roster.thy ===== *)
theory Roster
  imports DispatchDesk
begin

text \<open>
  The members of a class: \<open>api/roster_handlers.go\<close> (the whitelist, roles, accounts and their
  passwords), \<open>api/deputy_handlers.go\<close> and the import of academic averages,
  \<open>api/gpa_handlers.go\<close>; with the triggers that keep an account in step with its whitelist row
  (\<open>000011_preprovision_class_members\<close>) and a deputy eligible (\<open>000047_class_deputy\<close>).

  \<open>en_taken\<close> says which student numbers other classes hold.  What \<open>encoding/csv\<close> or the
  spreadsheet reader returned is an argument, and so is \<open>strconv.ParseFloat\<close>.  Whether a row
  outside the model refers to a member is an argument of its deletion.
\<close>

section \<open>Triggers\<close>

definition deputy_lost :: "app_user \<Rightarrow> app_user \<Rightarrow> bool" where
  "deputy_lost old u \<longleftrightarrow> us_deputy old \<and> (us_role u \<noteq> ''group'' \<or> us_status u \<noteq> ''active'')"

definition update_members :: "(app_user \<Rightarrow> bool) \<Rightarrow> (app_user \<Rightarrow> app_user) \<Rightarrow> db \<Rightarrow> db" where
  \<comment> \<open>an \<open>UPDATE\<close> of role or status, with \<open>clear_ineligible_class_deputy\<close>\<close>
  "update_members p f d = d\<lparr>
     db_users := where_set p (\<lambda>u. let v = f u in if deputy_lost u v then v\<lparr>us_deputy := False\<rparr> else v) (db_users d),
     db_audit := db_audit d @ map (\<lambda>u. \<lparr>au_actor = None, au_action = ''user.deputy_revoked'',
        au_resource = ''user'', au_id = dec_int (us_id u)\<rparr>)
        (filter (\<lambda>u. p u \<and> deputy_lost u (f u)) (db_users d))\<rparr>"

definition sync_member :: "whitelist_row \<Rightarrow> db \<Rightarrow> db" where
  \<comment> \<open>\<open>sync_member_identity_from_whitelist\<close>\<close>
  "sync_member w d = (let status = (if wl_active w then ''active'' else ''disabled'') in
     if list_ex (\<lambda>u. us_whitelist u = wl_id w) (db_users d)
     then update_members (\<lambda>u. us_whitelist u = wl_id w \<and> \<not> us_registered u)
            (\<lambda>u. u\<lparr>us_sid := wl_sid w, us_name := wl_name w, us_role := wl_role w, us_status := status\<rparr>) d
     else d\<lparr>db_users := db_users d @ [\<lparr>us_id = db_next d, us_sid = wl_sid w, us_name = wl_name w,
              us_role = wl_role w, us_status = status, us_deputy = False, us_registered = False,
              us_paused = False, us_whitelist = wl_id w, us_version = 1\<rparr>], db_next := db_next d + 1\<rparr>)"

section \<open>The whitelist\<close>

definition utf8 :: "nat list \<Rightarrow> string" where
  "utf8 = map char_of"

definition gender_male :: string where "gender_male = utf8 [231, 148, 183]"
definition gender_female :: string where "gender_female = utf8 [229, 165, 179]"

record whitelist_input =
  wh_sid :: string
  wh_name :: string
  wh_role :: string
  wh_gender :: string

definition valid_business_role :: "string \<Rightarrow> bool" where
  "valid_business_role role \<longleftrightarrow> role = ''student'' \<or> role = ''group'' \<or> role = ''class_admin''"

definition normalize_whitelist :: "whitelist_input \<Rightarrow> whitelist_input option" where
  "normalize_whitelist x =
    (let role = trim_space (wh_role x);
         y = \<lparr>wh_sid = trim_space (wh_sid x), wh_name = trim_space (wh_name x),
              wh_role = (if role = [] then ''student'' else role), wh_gender = trim_space (wh_gender x)\<rparr> in
     if wh_sid y = [] \<or> wh_name y = [] \<or> 64 < length (wh_sid y) \<or> 100 < length (wh_name y)
        \<or> \<not> valid_business_role (wh_role y) then None
     else if wh_gender y \<noteq> [] \<and> wh_gender y \<noteq> gender_male \<and> wh_gender y \<noteq> gender_female then None
     else Some y)"

definition sid_taken :: "env \<Rightarrow> db \<Rightarrow> string \<Rightarrow> bool" where
  \<comment> \<open>the student number is unique over all classes, on the whitelist and among the accounts\<close>
  "sid_taken e d sid \<longleftrightarrow> en_taken e sid \<or> list_ex (\<lambda>w. wl_sid w = sid) (db_whitelist d)
     \<or> list_ex (\<lambda>u. us_sid u = sid) (db_users d)"

definition insert_whitelist :: "env \<Rightarrow> whitelist_input \<Rightarrow> db \<Rightarrow> (db \<times> int) option" where
  "insert_whitelist e x d =
    (if sid_taken e d (wh_sid x) then None
     else (let w = \<lparr>wl_id = db_next d, wl_sid = wh_sid x, wl_name = wh_name x, wl_role = wh_role x,
                wl_active = True, wl_registered_at = None,
                wl_gender = (if wh_gender x = [] then None else Some (wh_gender x))\<rparr> in
       Some (sync_member w (d\<lparr>db_whitelist := db_whitelist d @ [w], db_next := db_next d + 1\<rparr>), wl_id w)))"

definition add_whitelist :: "env \<Rightarrow> actor \<Rightarrow> string \<Rightarrow> string \<Rightarrow> db \<Rightarrow> int handler" where
  "add_whitelist e a sid name d =
    (case normalize_whitelist \<lparr>wh_sid = sid, wh_name = name, wh_role = ''student'', wh_gender = []\<rparr> of
       None \<Rightarrow> Inl (HttpError 422 ''whitelist_invalid'')
     | Some x \<Rightarrow> (case insert_whitelist e x d of
         None \<Rightarrow> Inl (HttpError 409 ''sid_exists'')
       | Some (d1, n) \<Rightarrow> Inr (append_audit a ''whitelist.added'' ''whitelist'' (dec_int n) d1, n)))"

subsection \<open>Importing a file\<close>

fun lower_ascii :: "string \<Rightarrow> string" where
  \<comment> \<open>\<open>strings.ToLower\<close> as far as a comparison with an ASCII or a Chinese word can see: the
     capital letters, and the two other code points whose lower case is an ASCII letter\<close>
  "lower_ascii (a # b # c # s) =
    (if [a, b, c] = utf8 [226, 132, 170] then CHR ''k'' # lower_ascii s
     else if [a, b] = utf8 [196, 176] then CHR ''i'' # lower_ascii (c # s)
     else (if CHR ''A'' \<le> a \<and> a \<le> CHR ''Z'' then char_of ((of_char a :: nat) + 32) else a) # lower_ascii (b # c # s))"
| "lower_ascii [a, b] =
    (if [a, b] = utf8 [196, 176] then ''i''
     else [if CHR ''A'' \<le> a \<and> a \<le> CHR ''Z'' then char_of ((of_char a :: nat) + 32) else a,
           if CHR ''A'' \<le> b \<and> b \<le> CHR ''Z'' then char_of ((of_char b :: nat) + 32) else b])"
| "lower_ascii [a] = [if CHR ''A'' \<le> a \<and> a \<le> CHR ''Z'' then char_of ((of_char a :: nat) + 32) else a]"
| "lower_ascii [] = []"

definition header_index :: "string list \<Rightarrow> string \<Rightarrow> nat option" where
  \<comment> \<open>a later column of the same name replaces an earlier one\<close>
  "header_index header name = (case rev (filter (\<lambda>(i, h). lower_ascii (trim_space h) = name)
       (zip [0..<length header] header)) of [] \<Rightarrow> None | (i, _) # _ \<Rightarrow> Some i)"

definition first_header :: "string list \<Rightarrow> string list \<Rightarrow> nat option" where
  "first_header header names = (case List.map_filter (header_index header) names of [] \<Rightarrow> None | i # _ \<Rightarrow> Some i)"

definition column_at :: "string list \<Rightarrow> nat option \<Rightarrow> string" where
  "column_at row i = (case i of None \<Rightarrow> [] | Some k \<Rightarrow> if k < length row then row ! k else [])"

record roster_layout =
  rc_sid :: nat
  rc_name :: nat
  rc_role :: "nat option"
  rc_gender :: "nat option"

definition roster_columns :: "string list \<Rightarrow> roster_layout option" where
  "roster_columns header =
    (case (first_header header [''sid'', utf8 [229, 173, 166, 229, 143, 183]],
           first_header header [''name'', utf8 [229, 167, 147, 229, 144, 141]]) of
       (Some s, Some n) \<Rightarrow> Some \<lparr>rc_sid = s, rc_name = n,
          rc_role = first_header header [''role'', utf8 [232, 167, 146, 232, 137, 178]],
          rc_gender = first_header header [''gender'', utf8 [230, 128, 167, 229, 136, 171]]\<rparr>
     | _ \<Rightarrow> None)"

definition roster_row :: "roster_layout \<Rightarrow> string list \<Rightarrow> whitelist_input option" where
  "roster_row c row =
    (if length row \<le> rc_sid c \<or> length row \<le> rc_name c then None
     else (let role = trim_space (column_at row (rc_role c)) in
       normalize_whitelist \<lparr>wh_sid = row ! rc_sid c, wh_name = row ! rc_name c,
         wh_role = (if role = [] then ''student'' else role), wh_gender = trim_space (column_at row (rc_gender c))\<rparr>))"

definition roster_rows :: "roster_layout \<Rightarrow> string list list \<Rightarrow> whitelist_input list option" where
  "roster_rows c rows = (case all_items (roster_row c) rows of None \<Rightarrow> None
     | Some xs \<Rightarrow> if distinct (map wh_sid xs) then Some xs else None)"

definition refresh_whitelist :: "whitelist_input \<Rightarrow> whitelist_row \<Rightarrow> whitelist_row" where
  "refresh_whitelist x w = w\<lparr>wl_name := wh_name x, wl_role := wh_role x, wl_active := True\<rparr>"

definition import_row :: "env \<Rightarrow> db \<Rightarrow> whitelist_input \<Rightarrow> (http_error, db) result" where
  \<comment> \<open>\<open>INSERT ... ON CONFLICT (class_id,sid) DO UPDATE ... WHERE registered_at IS NULL\<close>, then the gender\<close>
  "import_row e d x =
    (let set_gender = (\<lambda>q. if wh_gender x = [] then q
           else q\<lparr>db_whitelist := where_set (\<lambda>w. wl_sid w = wh_sid x)
                   (\<lambda>w. w\<lparr>wl_gender := Some (wh_gender x)\<rparr>) (db_whitelist q)\<rparr>) in
     (case find (\<lambda>w. wl_sid w = wh_sid x) (db_whitelist d) of
        Some w \<Rightarrow>
          if wl_registered_at w \<noteq> None then Inr (set_gender d)
          else Inr (set_gender (sync_member (refresh_whitelist x w)
                 (d\<lparr>db_whitelist := where_set (\<lambda>v. wl_sid v = wh_sid x) (refresh_whitelist x) (db_whitelist d)\<rparr>)))
      | None \<Rightarrow> (case insert_whitelist e x d of
          None \<Rightarrow> Inl (HttpError 409 ''sid_exists'')
        | Some (d1, n) \<Rightarrow> Inr (set_gender d1))))"

definition import_whitelist :: "env \<Rightarrow> actor \<Rightarrow> nat \<Rightarrow> string list list option \<Rightarrow> db \<Rightarrow> (nat \<times> nat) handler" where
  "import_whitelist e a bytes_read records d =
    (if 2 ^ 20 < bytes_read then Inl (HttpError 413 ''csv_too_large'')
     else (case records of
         Some (header # row # rows) \<Rightarrow>
           (case roster_columns header of
              None \<Rightarrow> Inl (HttpError 422 ''invalid_csv_header'')
            | Some c \<Rightarrow> (case roster_rows c (row # rows) of
                None \<Rightarrow> Inl (HttpError 422 ''invalid_csv_row'')
              | Some inputs \<Rightarrow> (case fold_res (import_row e) d inputs of
                  Inl err \<Rightarrow> Inl err
                | Inr d1 \<Rightarrow> Inr (append_audit a ''whitelist.imported'' ''whitelist'' [] d1,
                    length inputs, length (filter (\<lambda>x. wh_gender x \<noteq> []) inputs)))))
       | _ \<Rightarrow> Inl (HttpError 422 ''invalid_csv'')))"

definition delete_whitelist :: "actor \<Rightarrow> bool \<Rightarrow> int \<Rightarrow> db \<Rightarrow> unit handler" where
  \<comment> \<open>the account of the row goes with it unless other rows refer to it (\<open>referenced\<close>)\<close>
  "delete_whitelist a referenced i d = (case path_id i of Some err \<Rightarrow> Inl err | None \<Rightarrow>
    (if \<not> list_ex (\<lambda>w. wl_id w = i \<and> wl_registered_at w = None) (db_whitelist d)
     then Inl (HttpError 409 ''not_removable'')
     else if referenced then Inl (HttpError 409 ''member_has_records'')
     else Inr (append_audit a ''whitelist.deleted'' ''whitelist'' (dec_int i)
        (d\<lparr>db_whitelist := delete_where (\<lambda>w. wl_id w = i \<and> wl_registered_at w = None) (db_whitelist d),
           db_users := delete_where (\<lambda>u. us_whitelist u = i) (db_users d)\<rparr>), ())))"

section \<open>Passwords\<close>

definition reset_passwords :: "app_user list \<Rightarrow> db \<Rightarrow> (http_error, db) result" where
  "reset_passwords targets d =
    (let ids = map us_id targets; rows = map us_whitelist targets;
         hit = (\<lambda>u. us_id u \<in> set ids \<and> us_role u \<in> {''student'', ''group''} \<and> us_status u = ''active''
                   \<and> us_registered u \<and> list_ex (\<lambda>w. wl_id w = us_whitelist u) (db_whitelist d)) in
     if targets = [] then Inr d
     else if count_where hit (db_users d) \<noteq> length targets then Inl internal_error
     else if count_where (\<lambda>w. wl_id w \<in> set rows) (db_whitelist d) \<noteq> length targets then Inl internal_error
     else Inr (d\<lparr>db_users := where_set hit (\<lambda>u. u\<lparr>us_registered := False, us_version := us_version u + 1\<rparr>) (db_users d),
            db_whitelist := where_set (\<lambda>w. wl_id w \<in> set rows) (\<lambda>w. w\<lparr>wl_registered_at := None\<rparr>) (db_whitelist d)\<rparr>))"

definition has_whitelist :: "db \<Rightarrow> app_user \<Rightarrow> bool" where
  "has_whitelist d u \<longleftrightarrow> list_ex (\<lambda>w. wl_id w = us_whitelist u) (db_whitelist d)"

definition reset_user_password :: "actor \<Rightarrow> int \<Rightarrow> db \<Rightarrow> nat handler" where
  "reset_user_password a i d = (case path_id i of Some err \<Rightarrow> Inl err | None \<Rightarrow>
    (case find (\<lambda>u. us_id u = i \<and> has_whitelist d u) (db_users d) of
       None \<Rightarrow> Inl not_found
     | Some u \<Rightarrow>
        if us_role u \<noteq> ''student'' \<and> us_role u \<noteq> ''group'' then Inl (HttpError 409 ''member_account_required'')
        else if \<not> us_registered u then Inl (HttpError 409 ''account_unregistered'')
        else if us_status u \<noteq> ''active'' then Inl (HttpError 409 ''account_disabled'')
        else (case reset_passwords [u] d of Inl err \<Rightarrow> Inl err
          | Inr d1 \<Rightarrow> Inr (append_audit a ''user.password_reset_by_admin'' ''user'' (dec_int i) d1, 1))))"

definition reset_class_passwords :: "actor \<Rightarrow> bool \<Rightarrow> db \<Rightarrow> nat handler" where
  \<comment> \<open>\<open>legacy\<close>: the old endpoint names students only\<close>
  "reset_class_passwords a legacy d =
    (let targets = sort_less id_before (filter (\<lambda>u. has_whitelist d u
           \<and> (us_role u = ''student'' \<or> us_role u = ''group'' \<and> \<not> legacy)
           \<and> us_status u = ''active'' \<and> us_registered u) (db_users d)) in
     if targets = [] then Inr (d, 0)
     else (case reset_passwords targets d of Inl err \<Rightarrow> Inl err
       | Inr d1 \<Rightarrow> Inr (foldl (\<lambda>q u. append_audit a ''user.password_reset_by_admin'' ''user'' (dec_int (us_id u)) q) d1 targets,
           length targets)))"

section \<open>Roles, accounts and the deputy\<close>

definition active_admins :: "db \<Rightarrow> nat" where
  "active_admins d = count_where (\<lambda>u. us_role u = ''class_admin'' \<and> us_status u = ''active'') (db_users d)"

definition update_user_role :: "env \<Rightarrow> actor \<Rightarrow> int \<Rightarrow> string \<Rightarrow> db \<Rightarrow> unit handler" where
  "update_user_role e a i role d = (case path_id i of Some err \<Rightarrow> Inl err | None \<Rightarrow>
    (if \<not> valid_business_role role then Inl (HttpError 400 ''invalid_role'')
     else (case find_user d i of None \<Rightarrow> Inl not_found | Some u \<Rightarrow>
       if us_role u = ''class_admin'' \<and> role \<noteq> ''class_admin'' \<and> active_admins d \<le> 1
       then Inl (HttpError 409 ''last_admin'')
       else (let d1 = update_members (\<lambda>v. us_id v = i)
                   (\<lambda>v. v\<lparr>us_role := role, us_version := us_version v + 1\<rparr>) d;
                 d2 = d1\<lparr>db_whitelist := where_set (\<lambda>w. wl_id w = us_whitelist u) (\<lambda>w. w\<lparr>wl_role := role\<rparr>) (db_whitelist d1)\<rparr>;
                 d3 = (case find (\<lambda>w. wl_id w = us_whitelist u) (db_whitelist d2) of
                         None \<Rightarrow> d2 | Some w \<Rightarrow> sync_member w d2) in
         (case (if (us_role u = ''group'' \<or> us_role u = ''class_admin'') \<and> role = ''student''
                then reassign_unavailable e i d3 else Inr d3) of
            Inl err \<Rightarrow> Inl err
          | Inr d4 \<Rightarrow> Inr (append_audit a ''user.role_changed'' ''user'' (dec_int i) d4, ()))))))"

definition disabled_reason :: string where
  "disabled_reason = utf8 [231, 143, 173, 231, 186, 167, 230, 136, 144, 229, 145, 152, 229, 129, 156, 231, 148, 168]"

definition stale_batches :: "env \<Rightarrow> int \<Rightarrow> string \<Rightarrow> db \<Rightarrow> db" where
  "stale_batches e student reason d =
    (let hit = (\<lambda>b. ab_student b = student \<and> ab_status b \<in> {''generating'', ''blocked'', ''open'', ''resolving''}) in
     d\<lparr>db_batches := where_set hit (\<lambda>b. b\<lparr>ab_status := ''stale'', ab_reason := Some reason,
            ab_stale_at := Some (en_now e)\<rparr>) (db_batches d),
       db_outbox := db_outbox d @ map (\<lambda>b. OutboxEvent ''scorecard_audit.stale'' student) (filter hit (db_batches d))\<rparr>)"

definition update_user_status :: "env \<Rightarrow> actor \<Rightarrow> int \<Rightarrow> string \<Rightarrow> db \<Rightarrow> unit handler" where
  "update_user_status e a i status d = (case path_id i of Some err \<Rightarrow> Inl err | None \<Rightarrow>
    (if i = ac_user a then Inl (HttpError 409 ''self_disable'')
     else if status \<noteq> ''active'' \<and> status \<noteq> ''disabled'' then Inl (HttpError 400 ''invalid_status'')
     else (case find_user d i of None \<Rightarrow> Inl not_found | Some u \<Rightarrow>
       if us_role u = ''class_admin'' \<and> status = ''disabled'' \<and> active_admins d \<le> 1
       then Inl (HttpError 409 ''last_admin'')
       else (let d1 = update_members (\<lambda>v. us_id v = i)
                   (\<lambda>v. v\<lparr>us_status := status, us_version := us_version v + 1\<rparr>) d in
         (case (if status = ''disabled''
                then map_sum id (stale_batches e i disabled_reason) (reassign_unavailable e i d1)
                else Inr d1) of
            Inl err \<Rightarrow> Inl err
          | Inr d2 \<Rightarrow> Inr (append_audit a ''user.status_changed'' ''user'' (dec_int i) d2, ()))))))"

definition may_be_deputy :: "app_user \<Rightarrow> bool" where
  "may_be_deputy u \<longleftrightarrow> us_role u = ''group'' \<and> us_status u = ''active'' \<and> us_registered u"

definition update_class_deputy :: "actor \<Rightarrow> int option \<Rightarrow> db \<Rightarrow> unit handler" where
  "update_class_deputy a user d =
    (case user of
       Some i \<Rightarrow> if i \<le> 0 then Inl (HttpError 400 ''invalid_id'')
         else (case find_user d i of None \<Rightarrow> Inl not_found | Some u \<Rightarrow>
           if \<not> may_be_deputy u then Inl (HttpError 409 ''deputy_ineligible'')
           else Inr (append_audit a ''class.deputy_changed'' ''class'' []
             (d\<lparr>db_users := where_set (\<lambda>v. us_id v = i) (\<lambda>v. v\<lparr>us_deputy := True\<rparr>)
                 (where_set us_deputy (\<lambda>v. v\<lparr>us_deputy := False\<rparr>) (db_users d))\<rparr>), ()))
     | None \<Rightarrow> Inr (append_audit a ''class.deputy_changed'' ''class'' []
         (d\<lparr>db_users := where_set us_deputy (\<lambda>v. v\<lparr>us_deputy := False\<rparr>) (db_users d)\<rparr>), ()))"

section \<open>Academic averages (gpa_handlers.go)\<close>

record gpa_import =
  gi_sid :: string
  gi_name :: string
  gi_score :: f64
  gi_source :: nat

definition thousandths :: "f64 \<Rightarrow> f64" where
  "thousandths x = fdiv (math_round (fmul x (Fin 1000))) (Fin 1000)"

definition gpa_score_ok :: "f64 \<Rightarrow> bool" where
  "gpa_score_ok x \<longleftrightarrow> (case x of Fin q \<Rightarrow> 0 \<le> q \<and> q \<le> 100 | _ \<Rightarrow> False)"

fun drop_blank_columns :: "string list \<Rightarrow> string list" where
  "drop_blank_columns [] = []"
| "drop_blank_columns (c # cs) = (case drop_blank_columns cs of
      [] \<Rightarrow> if trim_space c = [] then [] else [c] | ds \<Rightarrow> c # ds)"

fun contains :: "string \<Rightarrow> string \<Rightarrow> bool" where
  "contains [] sub \<longleftrightarrow> sub = []"
| "contains (c # s) sub \<longleftrightarrow> take (length sub) (c # s) = sub \<or> contains s sub"

definition is_gpa_header :: "string list \<Rightarrow> bool" where
  "is_gpa_header columns =
    (let first = lower_ascii (trim_space (hd columns)); final = lower_ascii (trim_space (last columns)) in
     (contains first (utf8 [229, 173, 166, 229, 143, 183]) \<or> first = ''sid'' \<or> first = ''student_id'')
     \<and> (contains final (utf8 [229, 157, 135, 229, 136, 134]) \<or> final = ''score'' \<or> final = ''gpa''))"

definition strip_bom :: "string \<Rightarrow> string" where
  "strip_bom s = (let bom = utf8 [239, 187, 191] in if take 3 s = bom then drop 3 s else s)"

definition gpa_table_row :: "(string \<Rightarrow> f64 option) \<Rightarrow> string set \<Rightarrow> nat \<Rightarrow> string list \<Rightarrow> gpa_import option" where
  \<comment> \<open>one row of two or three columns; the index counts from 0\<close>
  "gpa_table_row parse_float seen index columns =
    (let sid = trim_space (hd columns) in
     if length columns \<noteq> 2 \<and> length columns \<noteq> 3 then None
     else if sid = [] \<or> sid \<in> seen then None
     else (case parse_float (trim_space (last columns)) of
         None \<Rightarrow> None
       | Some x \<Rightarrow> if gpa_score_ok x
           then Some \<lparr>gi_sid = sid, gi_name = (if length columns = 3 then trim_space (columns ! 1) else []),
                  gi_score = thousandths x, gi_source = index + 1\<rparr>
           else None))"

fun parse_gpa_rows :: "(string \<Rightarrow> f64 option) \<Rightarrow> string set \<Rightarrow> nat \<Rightarrow> string list list \<Rightarrow> gpa_import list option" where
  "parse_gpa_rows parse_float seen index [] = Some []"
| "parse_gpa_rows parse_float seen index (row # rows) = (case drop_blank_columns row of
      [] \<Rightarrow> parse_gpa_rows parse_float seen (index + 1) rows
    | c # cs \<Rightarrow>
       (let columns = strip_bom (trim_space c) # cs in
        if index = 0 \<and> is_gpa_header columns then parse_gpa_rows parse_float seen (index + 1) rows
        else (case gpa_table_row parse_float seen index columns of
            None \<Rightarrow> None
          | Some r \<Rightarrow> map_option ((#) r) (parse_gpa_rows parse_float (insert (gi_sid r) seen) (index + 1) rows))))"

definition parse_gpa_table :: "(string \<Rightarrow> f64 option) \<Rightarrow> string list list \<Rightarrow> gpa_import list option" where
  "parse_gpa_table parse_float table = (case parse_gpa_rows parse_float {} 0 table of
      None \<Rightarrow> None | Some rows \<Rightarrow> if rows = [] \<or> 5000 < length rows then None else Some rows)"

fun structured_rows :: "string set \<Rightarrow> nat \<Rightarrow> gpa_import list \<Rightarrow> gpa_import list option" where
  "structured_rows seen index [] = Some []"
| "structured_rows seen index (r # rs) =
    (let sid = trim_space (gi_sid r) in
     if sid = [] \<or> sid \<in> seen \<or> \<not> gpa_score_ok (gi_score r) then None
     else map_option ((#) \<lparr>gi_sid = sid, gi_name = trim_space (gi_name r),
            gi_score = thousandths (gi_score r), gi_source = index + 1\<rparr>)
            (structured_rows (insert sid seen) (index + 1) rs))"

definition user_by_sid :: "db \<Rightarrow> string \<Rightarrow> app_user option" where
  "user_by_sid d sid = find (\<lambda>u. us_sid u = sid \<and> us_status u = ''active'') (db_users d)"

definition insert_gpa :: "env \<Rightarrow> int \<Rightarrow> db \<Rightarrow> gpa_import \<Rightarrow> (http_error, db) result" where
  "insert_gpa e scheme d r = (case user_by_sid d (gi_sid r) of None \<Rightarrow> Inl internal_error | Some u \<Rightarrow>
    (let score = en_numeric e (gi_score r) in
     if list_ex (\<lambda>g. gp_student g = us_id u \<and> gp_scheme g = scheme) (db_gpa d) \<or> score < 0 \<or> 100000 < score
     then Inl internal_error
     else Inr (d\<lparr>db_gpa := db_gpa d @ [\<lparr>gp_student = us_id u, gp_scheme = scheme, gp_score = score\<rparr>]\<rparr>)))"

definition import_gpa :: "env \<Rightarrow> actor \<Rightarrow> gpa_import list \<Rightarrow> db \<Rightarrow> (nat \<times> string list) handler" where
  \<comment> \<open>the answer is the number of rows and the active members without one\<close>
  "import_gpa e a rows d = (case load_current_scheme e d of Inl err \<Rightarrow> Inl internal_error | Inr (d1, current) \<Rightarrow>
    (if list_ex (\<lambda>r. case user_by_sid d1 (gi_sid r) of None \<Rightarrow> True
          | Some u \<Rightarrow> gi_name r \<noteq> [] \<and> gi_name r \<noteq> us_name u) rows
     then Inl (HttpError 422 ''gpa_roster_mismatch'')
     else (case fold_res (insert_gpa e (ss_id current))
             (d1\<lparr>db_gpa := delete_where (\<lambda>g. gp_scheme g = ss_id current) (db_gpa d1)\<rparr>) rows of
        Inl err \<Rightarrow> Inl err
      | Inr d2 \<Rightarrow> Inr (invalidate_latest_settlement ''GPA import replaced''
            (append_audit a ''gpa.imported'' ''student_gpa'' (en_uuid e) d2),
          length rows, filter (\<lambda>s. s \<notin> set (map gi_sid rows))
            (map us_sid (filter (\<lambda>u. us_status u = ''active'') (db_users d1)))))))"

definition paste_gpa ::
    "env \<Rightarrow> actor \<Rightarrow> (string \<Rightarrow> f64 option) \<Rightarrow> string list list option \<Rightarrow> gpa_import list \<Rightarrow> db
     \<Rightarrow> (nat \<times> string list) handler" where
  "paste_gpa e a parse_float table rows d =
    (case (if rows = [] then Option.bind table (parse_gpa_table parse_float) else structured_rows {} 0 rows) of
       None \<Rightarrow> Inl (HttpError 422 ''gpa_parse_failed'')
     | Some xs \<Rightarrow> import_gpa e a xs d)"

definition import_gpa_file ::
    "env \<Rightarrow> actor \<Rightarrow> (string \<Rightarrow> f64 option) \<Rightarrow> string list list option \<Rightarrow> db \<Rightarrow> (nat \<times> string list) handler" where
  "import_gpa_file e a parse_float table d = (case Option.bind table (parse_gpa_table parse_float) of
      None \<Rightarrow> Inl (HttpError 422 ''gpa_parse_failed'')
    | Some rows \<Rightarrow> import_gpa e a rows d)"

end
