(* ===== verification/Requests.thy ===== *)
theory Requests
  imports Roster
begin

text \<open>
  The requests the router serves (\<open>api/router.go\<close>) whose handlers change claims, reviews,
  appeals, objections, reports, seals, seats, members, scores, settlements, the timeline or the
  council, and the middleware every request passes (\<open>api/middleware.go\<close>,
  \<open>api/governance_guard.go\<close>, \<open>api/governance_lockdown.go\<close>).

  A \<open>request\<close> is one call of a handler with its decoded body; \<open>handle\<close> runs the handler, \<open>serve\<close>
  puts the middleware before it.  What the modelled tables do not hold is an argument of the
  request: the batch a blind assignment belongs to, and the order in which Go visits its maps.

  Not among the requests: the two that file assisted drafts (\<open>Intake\<close>), registration, login,
  passwords and addresses (\<open>Accounts\<close>), and those that write only schemes, evidence, audit batches
  or no table of the model; the first and the last kind are steps of the histories of
  \<open>ClassHistory\<close> all the same.  A bonus grant with an upload inserts the rows of \<open>GrantBonus\<close> and
  copies of the evidence beside them.
\<close>

section \<open>Requests (router.go)\<close>

datatype (plugins only: code) request =
    CreateSubmission submission_input
  | UpdateSubmission int submission_input
  | DeleteSubmission int
  | SubmitSubmission int
  | WithdrawSubmission int
  | DecideReview bool int decision_input
  | SuggestClassification int suggestion_input
  | ResolveClassification int "int \<Rightarrow> string option" resolution_input
  | CorrectSubmission bool bool int correction_input
  | DraftAppeal "db \<Rightarrow> appeal_target \<Rightarrow> string option" string int
  | CreateAppeal "db \<Rightarrow> appeal_target \<Rightarrow> string option" string int appeal_claim
  | SubmitAppeal int appeal_claim
  | WithdrawAppeal int
  | DeleteAppeal int
  | RereviewAppeal int resolution_request
  | FinalizeAppeal int resolution_request
  | ArbitrateSubmission "int \<Rightarrow> string option" int arbitration_input
  | GrantBonus bonus_input
  | CreateObjection objection_input
  | UpdateObjection int objection_input
  | DeleteObjection int
  | SubmitObjections "int list"
  | WithdrawObjection int
  | DecideObjection int objection_decision
  | DecideObjections "int list" string string
  | CreateReport report_input
  | DecideReport int report_decision
  | FinalizeReport int "f64 option" string
  | ForceGate string
  | RunSettlement visits
  | MySeal
  | SealSubmissions string string
  | UnsealStudent int string
  | UpdateTimeline timeline_input
  | UpdateCapability string bool
  | ConfigureGovernance string
  | JoinGovernance bool bool
  | CreateProposal proposal_input
  | VoteProposal int string bool
  | CloseProposal "int \<Rightarrow> string option" int
  | CommentProposal int string string
  | CaseOpinion "int \<Rightarrow> string option" int case_input
  | CaseBallot "int \<Rightarrow> string option" int string
  | CaseRestart int
  | SettleCollectively visits
  | PreviewDispatch int bool
  | RunDispatch int bool
  | SetDispatchAuto "bool option"
  | PauseReviewer int "bool option"
  | ReassignSubmission int int int string
  | HandoverDispatch int "int option" string
  | AddWhitelist string string
  | ImportWhitelist nat "string list list option"
  | DeleteWhitelist bool int
  | ResetPassword int
  | ResetPasswords bool
  | UpdateRole int string
  | UpdateStatus int string
  | UpdateDeputy "int option"
  | PasteGPA "string \<Rightarrow> f64 option" "string list list option" "gpa_import list"
  | ImportGPAFile "string \<Rightarrow> f64 option" "string list list option"

definition state_of :: "'a handler \<Rightarrow> (http_error, db) result" where
  "state_of r = (case r of Inl err \<Rightarrow> Inl err | Inr (d, _) \<Rightarrow> Inr d)"

definition collective_after ::
    "env \<Rightarrow> actor \<Rightarrow> string \<Rightarrow> ('a \<Rightarrow> int) \<Rightarrow> 'a handler \<Rightarrow> (http_error, db) result" where
  \<comment> \<open>\<open>collectiveAfter\<close>: a handler that succeeds hands its object to the council\<close>
  "collective_after e a action key r = (case r of Inl err \<Rightarrow> Inl err
     | Inr (d, x) \<Rightarrow> ensure_governance_case e a action (key x) False d)"

definition handle :: "env \<Rightarrow> actor \<Rightarrow> request \<Rightarrow> db \<Rightarrow> (http_error, db) result" where
  "handle e a r d = (case r of
      CreateSubmission x \<Rightarrow> state_of (create_submission e a x d)
    | UpdateSubmission i x \<Rightarrow> state_of (update_submission e a i x d)
    | DeleteSubmission i \<Rightarrow> state_of (delete_submission a i d)
    | SubmitSubmission i \<Rightarrow> collective_after e a ''submission'' (\<lambda>_. i) (submit_submission e a i d)
    | WithdrawSubmission i \<Rightarrow> state_of (withdraw_submission e a i d)
    | DecideReview revision i x \<Rightarrow> state_of (save_review_task e a revision i x d)
    | SuggestClassification i x \<Rightarrow> state_of (admin_suggest_classification e a i x d)
    | ResolveClassification i origin x \<Rightarrow> state_of (resolve_classification e a i origin x d)
    | CorrectSubmission self force i x \<Rightarrow> state_of (correct_submission e a self force i x d)
    | DraftAppeal batch kind i \<Rightarrow> state_of (create_appeal_draft e a batch kind i d)
    | CreateAppeal batch kind i x \<Rightarrow> collective_after e a ''appeal'' snd (create_appeal e a batch kind i x d)
    | SubmitAppeal i x \<Rightarrow> collective_after e a ''appeal'' snd (submit_appeal e a i x d)
    | WithdrawAppeal i \<Rightarrow> state_of (withdraw_appeal e a i d)
    | DeleteAppeal i \<Rightarrow> state_of (delete_appeal_draft a i d)
    | RereviewAppeal i x \<Rightarrow> state_of (decide_first_appeal e a i x d)
    | FinalizeAppeal i x \<Rightarrow> state_of (finalize_appeal e a i x d)
    | ArbitrateSubmission origin i x \<Rightarrow> state_of (arbitrate_submission e a False origin i x d)
    | GrantBonus x \<Rightarrow> state_of (create_bonus_grant e a False x d)
    | CreateObjection x \<Rightarrow> state_of (create_objection e a x d)
    | UpdateObjection i x \<Rightarrow> state_of (update_objection e a i x d)
    | DeleteObjection i \<Rightarrow> state_of (delete_objection a i d)
    | SubmitObjections ids \<Rightarrow> state_of (submit_objections e a ids d)
    | WithdrawObjection i \<Rightarrow> state_of (withdraw_objection a i d)
    | DecideObjection i x \<Rightarrow> state_of (decide_admin_objection e a False i x d)
    | DecideObjections ids action reason \<Rightarrow> state_of (decide_objections_batch e a ids action reason d)
    | CreateReport x \<Rightarrow> state_of (create_report e a x d)
    | DecideReport i x \<Rightarrow> state_of (decide_report e a i x d)
    | FinalizeReport i score reason \<Rightarrow> state_of (finalize_report e a i score reason d)
    | ForceGate reason \<Rightarrow> state_of (force_gate e a reason d)
    | RunSettlement v \<Rightarrow> state_of (run_settlement v e a d)
    | MySeal \<Rightarrow> state_of (my_seal e a d)
    | SealSubmissions phrase sid \<Rightarrow> state_of (seal_my_submissions e a phrase sid d)
    | UnsealStudent i reason \<Rightarrow> state_of (unseal_student e a i reason d)
    | UpdateTimeline x \<Rightarrow> state_of (update_timeline e a x d)
    | UpdateCapability key on \<Rightarrow> state_of (update_capability e a key on d)
    | ConfigureGovernance mode \<Rightarrow> state_of (configure_governance e a mode d)
    | JoinGovernance joins reviewer \<Rightarrow> state_of (join_governance e a joins reviewer d)
    | CreateProposal x \<Rightarrow> state_of (create_proposal e a x d)
    | VoteProposal i choice lock \<Rightarrow> state_of (vote_proposal e a i choice lock d)
    | CloseProposal origin i \<Rightarrow> state_of (close_governance e a False origin i d)
    | CommentProposal i body kind \<Rightarrow> state_of (comment_governance e a i body kind d)
    | CaseOpinion origin i x \<Rightarrow> state_of (give_opinion e a origin i x d)
    | CaseBallot origin i k \<Rightarrow> state_of (ballot_case e a origin i k d)
    | CaseRestart i \<Rightarrow> state_of (restart_case e a i d)
    | SettleCollectively v \<Rightarrow> state_of (collective_settlement v e a d)
    | PreviewDispatch seed include \<Rightarrow> state_of (preview_dispatch e a seed include d)
    | RunDispatch seed include \<Rightarrow> state_of (run_dispatch e a seed include d)
    | SetDispatchAuto on \<Rightarrow> state_of (update_dispatch_auto a on d)
    | PauseReviewer u paused \<Rightarrow> state_of (update_dispatch_reviewer e a u paused d)
    | ReassignSubmission i from to reason \<Rightarrow> state_of (reassign_submission e a i from to reason d)
    | HandoverDispatch from to reason \<Rightarrow> state_of (handover_dispatch e a from to reason d)
    | AddWhitelist sid name \<Rightarrow> state_of (add_whitelist e a sid name d)
    | ImportWhitelist bytes_read records \<Rightarrow> state_of (import_whitelist e a bytes_read records d)
    | DeleteWhitelist referenced i \<Rightarrow> state_of (delete_whitelist a referenced i d)
    | ResetPassword i \<Rightarrow> state_of (reset_user_password a i d)
    | ResetPasswords legacy \<Rightarrow> state_of (reset_class_passwords a legacy d)
    | UpdateRole i role \<Rightarrow> state_of (update_user_role e a i role d)
    | UpdateStatus i status \<Rightarrow> state_of (update_user_status e a i status d)
    | UpdateDeputy user \<Rightarrow> state_of (update_class_deputy a user d)
    | PasteGPA parse table rows \<Rightarrow> state_of (paste_gpa e a parse table rows d)
    | ImportGPAFile parse table \<Rightarrow> state_of (import_gpa_file e a parse table d))"

lemma state_of_Inr [simp]: "state_of r = Inr d \<longleftrightarrow> (\<exists>x. r = Inr (d, x))"
  by (auto simp: state_of_def split: sum.splits)

lemma collective_after_Inr:
  "collective_after e a action key r = Inr d'
   \<longleftrightarrow> (\<exists>d x. r = Inr (d, x) \<and> ensure_governance_case e a action (key x) False d = Inr d')"
  by (auto simp: collective_after_def split: sum.splits)

section \<open>Where a request is served\<close>

datatype desk = Business | AdminDesk | ReviewDesk | DeputyDesk | CouncilDesk

definition desks :: "request \<Rightarrow> desk list" where
  "desks r = (case r of
      DecideReview _ _ _ \<Rightarrow> [ReviewDesk]
    | RereviewAppeal _ _ \<Rightarrow> [ReviewDesk]
    | DecideReport _ _ \<Rightarrow> [ReviewDesk]
    | WithdrawObjection _ \<Rightarrow> [ReviewDesk]
    | CreateObjection _ \<Rightarrow> [ReviewDesk, CouncilDesk]
    | UpdateObjection _ _ \<Rightarrow> [ReviewDesk, CouncilDesk]
    | DeleteObjection _ \<Rightarrow> [ReviewDesk, CouncilDesk]
    | SubmitObjections _ \<Rightarrow> [ReviewDesk, CouncilDesk]
    | SuggestClassification _ _ \<Rightarrow> [AdminDesk, DeputyDesk]
    | ResolveClassification _ _ _ \<Rightarrow> [AdminDesk, DeputyDesk]
    | CorrectSubmission self force _ _ \<Rightarrow>
        (if \<not> self then [AdminDesk, DeputyDesk] else if force then [] else [Business])
    | ArbitrateSubmission _ _ _ \<Rightarrow> [AdminDesk, DeputyDesk]
    | FinalizeAppeal _ _ \<Rightarrow> [AdminDesk, DeputyDesk]
    | DecideObjection _ _ \<Rightarrow> [AdminDesk, DeputyDesk]
    | DecideObjections _ _ _ \<Rightarrow> [AdminDesk, DeputyDesk]
    | FinalizeReport _ _ _ \<Rightarrow> [AdminDesk, DeputyDesk]
    | GrantBonus _ \<Rightarrow> [AdminDesk]
    | ForceGate _ \<Rightarrow> [AdminDesk]
    | RunSettlement _ \<Rightarrow> [AdminDesk]
    | UnsealStudent _ _ \<Rightarrow> [AdminDesk]
    | UpdateTimeline _ \<Rightarrow> [AdminDesk]
    | UpdateCapability _ _ \<Rightarrow> [AdminDesk]
    | PreviewDispatch _ _ \<Rightarrow> [AdminDesk]
    | RunDispatch _ _ \<Rightarrow> [AdminDesk]
    | SetDispatchAuto _ \<Rightarrow> [AdminDesk]
    | PauseReviewer _ _ \<Rightarrow> [AdminDesk]
    | ReassignSubmission _ _ _ _ \<Rightarrow> [AdminDesk]
    | HandoverDispatch _ _ _ \<Rightarrow> [AdminDesk]
    | AddWhitelist _ _ \<Rightarrow> [AdminDesk]
    | ImportWhitelist _ _ \<Rightarrow> [AdminDesk]
    | DeleteWhitelist _ _ \<Rightarrow> [AdminDesk]
    | ResetPassword _ \<Rightarrow> [AdminDesk]
    | ResetPasswords _ \<Rightarrow> [AdminDesk]
    | UpdateRole _ _ \<Rightarrow> [AdminDesk]
    | UpdateStatus _ _ \<Rightarrow> [AdminDesk]
    | UpdateDeputy _ \<Rightarrow> [AdminDesk]
    | PasteGPA _ _ _ \<Rightarrow> [AdminDesk]
    | ImportGPAFile _ _ \<Rightarrow> [AdminDesk]
    | _ \<Rightarrow> [Business])"

section \<open>The middleware\<close>

definition current_actor :: "db \<Rightarrow> actor \<Rightarrow> actor option" where
  \<comment> \<open>\<open>validateActorState\<close>: the token must still say what the account is\<close>
  "current_actor d a = (case find_user d (ac_user a) of
      None \<Rightarrow> None
    | Some u \<Rightarrow> if \<not> db_archived d \<and> us_status u = ''active'' \<and> us_role u = ac_role a
                  \<and> us_version u = ac_version a
               then Some (a\<lparr>ac_deputy := us_deputy u, ac_grant := None\<rparr>) else None)"

definition about_lockdown :: "db \<Rightarrow> int \<Rightarrow> bool" where
  "about_lockdown d i \<longleftrightarrow> list_ex (\<lambda>p. pr_id p = i
     \<and> (pr_action p = ''timeline'' \<or> pr_action p = ''export'')) (db_proposals d)"

definition lockdown_exempt :: "db \<Rightarrow> request \<Rightarrow> bool" where
  \<comment> \<open>\<open>lockdownExempt\<close> and \<open>governanceLockdownExempt\<close>: reads, the settlement, the timeline, and
     in a collective class what leads to a new timeline\<close>
  "lockdown_exempt d r = (case r of
      MySeal \<Rightarrow> True
    | RunSettlement _ \<Rightarrow> True
    | UpdateTimeline _ \<Rightarrow> True
    | SettleCollectively _ \<Rightarrow> True
    | JoinGovernance _ _ \<Rightarrow> governance_mode d = ''collective''
    | CreateProposal x \<Rightarrow> governance_mode d = ''collective'' \<and> np_kind x = ''protected''
        \<and> action_name (np_action x) = ''timeline''
    | VoteProposal i _ _ \<Rightarrow> governance_mode d = ''collective'' \<and> about_lockdown d i
    | CloseProposal _ i \<Rightarrow> governance_mode d = ''collective'' \<and> about_lockdown d i
    | CommentProposal i _ _ \<Rightarrow> governance_mode d = ''collective'' \<and> about_lockdown d i
    | _ \<Rightarrow> False)"

definition class_locked :: "env \<Rightarrow> db \<Rightarrow> bool" where
  "class_locked e d \<longleftrightarrow> (case timeline_lockdown d of None \<Rightarrow> False | Some t \<Rightarrow> \<not> en_now e < t)"

definition enrolling_closed :: "desk \<Rightarrow> request \<Rightarrow> bool" where
  \<comment> \<open>the paths \<open>governanceGuard\<close> closes while members are still being called\<close>
  "enrolling_closed desk r = (case r of
      SubmitSubmission _ \<Rightarrow> True
    | CreateReport _ \<Rightarrow> True
    | DraftAppeal _ _ _ \<Rightarrow> True
    | CreateAppeal _ _ _ _ \<Rightarrow> True
    | SubmitAppeal _ _ \<Rightarrow> True
    | WithdrawAppeal _ \<Rightarrow> True
    | DeleteAppeal _ \<Rightarrow> True
    | GrantBonus _ \<Rightarrow> True
    | ArbitrateSubmission _ _ _ \<Rightarrow> True
    | CorrectSubmission _ _ _ _ \<Rightarrow> True
    | RunSettlement _ \<Rightarrow> True
    | _ \<Rightarrow> desk = ReviewDesk \<or> desk = DeputyDesk)"

definition governance_guard :: "db \<Rightarrow> desk \<Rightarrow> request \<Rightarrow> actor \<Rightarrow> (http_error, actor) result" where
  \<comment> \<open>in a collective class no role has authority of its own\<close>
  "governance_guard d desk r a =
    (if governance_mode d = ''centralized'' then Inr a
     else if governance_mode d = ''enrolling'' then
       (if enrolling_closed desk r then Inl (HttpError 409 ''governance_enrolling'') else Inr a)
     else if desk = AdminDesk \<or> desk = ReviewDesk \<or> desk = DeputyDesk
     then Inl (HttpError 403 ''collective_decision_required'')
     else Inr (a\<lparr>ac_role := ''student'', ac_deputy := False\<rparr>))"

definition role_level :: "string \<Rightarrow> nat" where
  "role_level role = (if role = ''class_admin'' then 2 else if role = ''group'' then 1 else 0)"

definition desk_gate :: "env \<Rightarrow> db \<Rightarrow> desk \<Rightarrow> actor \<Rightarrow> http_error option" where
  \<comment> \<open>\<open>requireMinimumRole\<close>, \<open>requireDeputy\<close>, \<open>requireGovernanceMember\<close>\<close>
  "desk_gate e d desk a = (case desk of
      Business \<Rightarrow> None
    | AdminDesk \<Rightarrow> if role_level (ac_role a) < 2 then Some (HttpError 403 ''forbidden'') else None
    | ReviewDesk \<Rightarrow> if role_level (ac_role a) < 1 then Some (HttpError 403 ''forbidden'') else None
    | DeputyDesk \<Rightarrow> if role_level (ac_role a) < 1 then Some (HttpError 403 ''forbidden'')
        else if ac_role a \<noteq> ''group'' \<or> \<not> ac_deputy a then Some (HttpError 403 ''deputy_required'') else None
    | CouncilDesk \<Rightarrow> if governance_mode d \<noteq> ''collective'' then Some (HttpError 403 ''not_collective'')
        else if \<not> list_ex (\<lambda>m. mb_user m = ac_user a \<and> mb_left m = None
            \<and> mb_joined m \<le> en_now e - membership_cooling) (db_members d)
        then Some (HttpError 403 ''membership_required'') else None)"

definition serve :: "env \<Rightarrow> actor \<Rightarrow> desk \<Rightarrow> request \<Rightarrow> db \<Rightarrow> (http_error, db) result" where
  "serve e a desk r d = (case current_actor d a of
      None \<Rightarrow> Inl (HttpError 401 ''unauthenticated'')
    | Some b \<Rightarrow>
       if desk \<notin> set (desks r) then Inl not_found
       else if class_locked e d \<and> \<not> lockdown_exempt d r then Inl (HttpError 409 ''class_locked'')
       else (case governance_guard d desk r b of Inl err \<Rightarrow> Inl err | Inr c \<Rightarrow>
         (case desk_gate e d desk c of Some err \<Rightarrow> Inl err | None \<Rightarrow> handle e c r d)))"

section \<open>The scheduler (governance_scheduler.go)\<close>

definition proposal_due :: "env \<Rightarrow> proposal_row \<Rightarrow> bool" where
  \<comment> \<open>\<open>governance_due_proposals\<close>, without its pacing\<close>
  "proposal_due e p \<longleftrightarrow>
     pr_status p \<in> {''discussion'', ''voting'', ''deliberating''} \<and> pr_closes p \<le> en_now e
     \<or> pr_status p = ''passed'' \<and> (case pr_decided_at p of None \<Rightarrow> False
          | Some t \<Rightarrow> t \<le> en_now e - 24 * hour)
     \<or> pr_status p = ''blocked'' \<and> pr_result p = None"

definition close_due :: "env \<Rightarrow> (int \<Rightarrow> string option) \<Rightarrow> int \<Rightarrow> db \<Rightarrow> (http_error, db) result" where
  \<comment> \<open>the scheduler acts in the name of the author, through the same middleware\<close>
  "close_due e origin i d = (case find_proposal d i of
      None \<Rightarrow> Inr d
    | Some p \<Rightarrow>
       if \<not> proposal_due e p then Inr d
       else if class_locked e d \<and> \<not> (governance_mode d = ''collective'' \<and> about_lockdown d i)
       then Inl (HttpError 409 ''class_locked'')
       else state_of (close_governance e \<lparr>ac_user = pr_author p, ac_role = ''student'',
         ac_deputy = False, ac_version = 0, ac_grant = None\<rparr> True origin i d))"

end
