(* ===== verification/DeskFrames.thy ===== *)
theory DeskFrames
  imports Frames Requests
begin

text \<open>
  Which handlers leave the accounts and the review seats alone: every one of them, except a
  correction and the deletion of a submission, which retire or remove seats, and the handlers
  of \<open>DispatchDesk\<close> and \<open>Roster\<close>.
\<close>

definition same_desk :: "db \<Rightarrow> db \<Rightarrow> bool" where
  "same_desk d d' \<longleftrightarrow> db_users d' = db_users d \<and> db_assigned d' = db_assigned d"

named_theorems desk_frames \<open>statements that touch neither the accounts nor the seats\<close>
named_theorems desk_keeps \<open>handlers that touch neither the accounts nor the seats\<close>

lemma same_desk_refl [simp]: "same_desk d d"
  by (simp add: same_desk_def)

lemma same_desk_trans [trans]: "same_desk d d1 \<Longrightarrow> same_desk d1 d2 \<Longrightarrow> same_desk d d2"
  by (simp add: same_desk_def)

lemma map_sum_Inr: "map_sum f g r = Inr y \<longleftrightarrow> (\<exists>x. r = Inr x \<and> y = g x)"
  by (cases r) auto

lemma fold_res_desk:
  assumes "\<And>d x d'. step d x = Inr d' \<Longrightarrow> same_desk d d'" and "fold_res step d xs = Inr d'"
  shows "same_desk d d'"
  using fold_res_inv [OF assms(2), where P = "same_desk d"] assms(1) same_desk_trans by simp

lemmas desk_step = Let_def same_desk_def map_sum_Inr

lemmas desk_splits = sum.split_asm option.split_asm if_split_asm prod.split_asm load_target.split_asm
  load_error.split_asm payload.split_asm action_input.split_asm

section \<open>Statements\<close>

lemma statements_desk [desk_frames]:
  "db_users (append_audit a x r k q) = db_users q"
  "db_assigned (append_audit a x r k q) = db_assigned q"
  "db_users (enqueue_event k j q) = db_users q"
  "db_assigned (enqueue_event k j q) = db_assigned q"
  "db_users (invalidate_latest_settlement rs q) = db_users q"
  "db_assigned (invalidate_latest_settlement rs q) = db_assigned q"
  "db_users (invalidate_student_blind_audit e s o' rs q) = db_users q"
  "db_assigned (invalidate_student_blind_audit e s o' rs q) = db_assigned q"
  "db_users (stale_proposals i q) = db_users q"
  "db_assigned (stale_proposals i q) = db_assigned q"
  "db_users (close_suggestions e a i c l rs q) = db_users q"
  "db_assigned (close_suggestions e a i c l rs q) = db_assigned q"
  by (auto simp: append_audit_def enqueue_event_def invalidate_latest_settlement_def stale_proposals_def
    invalidate_student_blind_audit_def Let_def close_suggestions_def split: option.split)

lemma foldl_enqueue_desk [desk_frames]:
  "db_users (foldl (\<lambda>q r. enqueue_event k i q) q xs) = db_users q"
  "db_assigned (foldl (\<lambda>q r. enqueue_event k i q) q xs) = db_assigned q"
  by (induction xs arbitrary: q) (simp_all add: desk_frames)



lemma update_submissions_desk [desk_keeps]: "update_submissions p f q = Inr q' \<Longrightarrow> same_desk q q'"
  by (auto simp: update_submissions_def same_desk_def split: option.splits)

lemma load_current_scheme_desk [desk_keeps]: "load_current_scheme e d = Inr (d', c) \<Longrightarrow> same_desk d d'"
  by (subst load_current_scheme_db(1) [of e d d' c]) (simp_all add: same_desk_def)

lemma insert_suggestion_desk [desk_keeps]:
  "insert_suggestion e a d i src rv bl st x = Some (d', n, scope) \<Longrightarrow> same_desk d d'"
  by (auto simp: insert_suggestion_def Let_def same_desk_def split: option.splits if_splits)

section \<open>The timeline\<close>

lemma timeline_save_desk [desk_keeps]: "timeline_save x1 d = Inr d' \<Longrightarrow> same_desk d d'"
  by (auto simp: timeline_save_def Let_def same_desk_def split: if_split_asm option.split_asm)

lemma timeline_load_desk [desk_keeps]: "timeline_load e d = (d', t) \<Longrightarrow> same_desk d d'"
  by (auto simp: timeline_load_def Let_def same_desk_def split: if_split_asm option.split_asm)

section \<open>Reviews\<close>

lemma reviews_desk_step0 [desk_keeps]:
  "review_guard e a x11 x21 d = Inr (d', r1) \<Longrightarrow> same_desk d d'"
  "supersede_review e a x12 x22 d = Inr (d', r2) \<Longrightarrow> same_desk d d'"
  "settle_review e a x13 x23 x33 x43 x53 d = Inr d' \<Longrightarrow> same_desk d d'"
  "resolve_classification e a x14 x24 x34 d = Inr (d', r4) \<Longrightarrow> same_desk d d'"
  by (auto simp: review_guard_def supersede_review_def settle_review_def
    resolve_classification_def desk_step desk_frames
    dest!: desk_keeps split: desk_splits)

lemma reviews_desk_step1 [desk_keeps]:
  "record_review e a x11 x21 x31 x41 x51 x61 x71 d = Inr (d', r1) \<Longrightarrow> same_desk d d'"
  "admin_suggest_classification e a x12 x22 d = Inr (d', r2) \<Longrightarrow> same_desk d d'"
  by (auto simp: record_review_def admin_suggest_classification_def desk_step desk_frames
    dest!: desk_keeps split: desk_splits)

lemma reviews_desk_step2 [desk_keeps]:
  "save_review_task e a x11 x21 x31 d = Inr (d', r1) \<Longrightarrow> same_desk d d'"
  by (auto simp: save_review_task_def desk_step desk_frames
    dest!: desk_keeps split: desk_splits)

section \<open>Submissions\<close>

lemma submissions_desk_step0 [desk_keeps]:
  "create_submission e a x11 d = Inr (d', r1) \<Longrightarrow> same_desk d d'"
  "update_submission e a x12 x22 d = Inr (d', r2) \<Longrightarrow> same_desk d d'"
  "withdraw_submission e a x13 d = Inr (d', r3) \<Longrightarrow> same_desk d d'"
  "submit_submission e a x14 d = Inr (d', r4) \<Longrightarrow> same_desk d d'"
  by (auto simp: create_submission_def update_submission_def withdraw_submission_def
    submit_submission_def desk_step desk_frames
    dest!: desk_keeps split: desk_splits)

section \<open>Appeals\<close>

lemma appeals_desk_frame0 [desk_frames]:
  "db_users (apply_appeal_score x11 x21 x31 d) = db_users d"
  "db_assigned (apply_appeal_score x11 x21 x31 d) = db_assigned d"
  "db_users (record_rereview e a x12 x22 x32 d) = db_users d"
  "db_assigned (record_rereview e a x12 x22 x32 d) = db_assigned d"
  by (auto simp: apply_appeal_score_def record_rereview_def Let_def desk_frames split: sum.split option.split)

lemma appeals_desk_step0 [desk_keeps]:
  "prepare_appeal_draft e a x11 x21 d = Inr (d', r1) \<Longrightarrow> same_desk d d'"
  "filing_guard e a x12 x22 d = Inr (d', r2) \<Longrightarrow> same_desk d d'"
  "delete_appeal_draft a x13 d = Inr (d', r3) \<Longrightarrow> same_desk d d'"
  "withdraw_appeal e a x14 d = Inr (d', r4) \<Longrightarrow> same_desk d d'"
  "rereview_guard e a x15 x25 d = Inr (d', r5) \<Longrightarrow> same_desk d d'"
  by (auto simp: prepare_appeal_draft_def filing_guard_def delete_appeal_draft_def
    withdraw_appeal_def rereview_guard_def desk_step desk_frames
    dest!: desk_keeps split: desk_splits)

lemma appeals_desk_step1 [desk_keeps]:
  "ensure_appeal_draft e a x11 x21 x31 d = Inr (d', r1) \<Longrightarrow> same_desk d d'"
  "file_appeal_draft e a x12 x22 d = Inr (d', r2) \<Longrightarrow> same_desk d d'"
  "apply_appeal_outcome e a x13 x23 x33 x43 d = Inr d' \<Longrightarrow> same_desk d d'"
  by (auto simp: ensure_appeal_draft_def file_appeal_draft_def apply_appeal_outcome_def desk_step
    desk_frames
    dest!: desk_keeps split: desk_splits)

lemma appeals_desk_step2 [desk_keeps]:
  "settle_rereview e a x11 x21 x31 x41 x51 d = Inr d' \<Longrightarrow> same_desk d d'"
  "finalize_appeal e a x12 x22 d = Inr (d', r2) \<Longrightarrow> same_desk d d'"
  by (auto simp: settle_rereview_def finalize_appeal_def desk_step desk_frames
    dest!: desk_keeps split: desk_splits)

lemma appeals_desk_step3 [desk_keeps]:
  "decide_first_appeal e a x11 x21 d = Inr (d', r1) \<Longrightarrow> same_desk d d'"
  by (auto simp: decide_first_appeal_def desk_step desk_frames
    dest!: desk_keeps split: desk_splits)

section \<open>Settlements and seals\<close>

lemma settlements_desk_step0 [desk_keeps]:
  "evaluate_gate e d = Inr (d', r1) \<Longrightarrow> same_desk d d'"
  by (auto simp: evaluate_gate_def desk_step desk_frames
    dest!: desk_keeps split: desk_splits)

lemma settlements_desk_step1 [desk_keeps]:
  "force_gate e a x11 d = Inr (d', r1) \<Longrightarrow> same_desk d d'"
  "run_settlement x12 e a d = Inr (d', r2) \<Longrightarrow> same_desk d d'"
  by (auto simp: force_gate_def run_settlement_def desk_step desk_frames
    dest!: desk_keeps split: desk_splits)

lemma seals_desk_step0 [desk_keeps]:
  "insert_seal x11 x21 x31 d = (d', r1) \<Longrightarrow> same_desk d d'"
  "unseal_student e a x12 x22 d = Inr (d', r2) \<Longrightarrow> same_desk d d'"
  by (auto simp: insert_seal_def unseal_student_def desk_step desk_frames
    dest!: desk_keeps split: desk_splits)

lemma seals_desk_step1 [desk_keeps]:
  "seal_my_submissions e a x11 x21 d = Inr (d', r1) \<Longrightarrow> same_desk d d'"
  by (auto simp: seal_my_submissions_def desk_step desk_frames
    dest!: desk_keeps split: desk_splits)

lemma ensure_automatic_seal_desk [desk_frames]:
  "db_users (ensure_automatic_seal x1 x2 d) = db_users d" "db_assigned (ensure_automatic_seal x1 x2 d) = db_assigned d"
  by (auto simp: ensure_automatic_seal_def insert_seal_def Let_def desk_frames split: prod.split option.split)

lemma seals_desk_step2 [desk_keeps]:
  "my_seal e a d = Inr (d', r1) \<Longrightarrow> same_desk d d'"
  by (auto simp: my_seal_def desk_step desk_frames
    dest!: desk_keeps split: desk_splits)

section \<open>Cases\<close>

lemma council_desk_step0 [desk_keeps]:
  "open_case e a x11 x21 x31 x41 d = Inr d' \<Longrightarrow> same_desk d d'"
  "arbitrate_pending e x12 x22 d = Inr d' \<Longrightarrow> same_desk d d'"
  by (auto simp: open_case_def arbitrate_pending_def desk_step desk_frames
    dest!: desk_keeps split: desk_splits)

lemma council_desk_step1 [desk_keeps]:
  "ensure_governance_case e a x11 x21 x31 d = Inr d' \<Longrightarrow> same_desk d d'"
  by (auto simp: ensure_governance_case_def desk_step desk_frames
    dest!: desk_keeps split: desk_splits)

section \<open>Objections\<close>

lemma objections_desk_frame0 [desk_frames]:
  "db_users (close_objection e a x11 x21 x31 x41 d) = db_users d"
  "db_assigned (close_objection e a x11 x21 x31 x41 d) = db_assigned d"
  "db_users (note_decision a x12 x22 d) = db_users d"
  "db_assigned (note_decision a x12 x22 d) = db_assigned d"
  by (auto simp: close_objection_def note_decision_def Let_def desk_frames split: sum.split option.split)

lemma objections_desk_step0 [desk_keeps]:
  "validate_base_objection e x11 x21 x31 d = Inr (d', r1) \<Longrightarrow> same_desk d d'"
  "delete_objection a x12 d = Inr (d', r2) \<Longrightarrow> same_desk d d'"
  "withdraw_objection a x13 d = Inr (d', r3) \<Longrightarrow> same_desk d d'"
  "upsert_base x14 x24 d = Inr d' \<Longrightarrow> same_desk d d'"
  by (auto simp: validate_base_objection_def delete_objection_def withdraw_objection_def
    upsert_base_def desk_step desk_frames
    dest!: desk_keeps split: desk_splits)

lemma objections_desk_step1 [desk_keeps]:
  "validate_objection e x11 x21 d = Inr (d', r1) \<Longrightarrow> same_desk d d'"
  "apply_objection e x12 x22 x32 d = Inr d' \<Longrightarrow> same_desk d d'"
  by (auto simp: validate_objection_def apply_objection_def desk_step desk_frames
    dest!: desk_keeps split: desk_splits)

lemma objections_desk_step2 [desk_keeps]:
  "create_objection e a x11 d = Inr (d', r1) \<Longrightarrow> same_desk d d'"
  "update_objection e a x12 x22 d = Inr (d', r2) \<Longrightarrow> same_desk d d'"
  "decide_objection e a x13 x23 x33 d = Inr (d', r3) \<Longrightarrow> same_desk d d'"
  by (auto simp: create_objection_def update_objection_def decide_objection_def desk_step
    desk_frames
    dest!: desk_keeps split: desk_splits)

lemma check_submitted_desk: "check_submitted e a st i = Inr st' \<Longrightarrow> same_desk (fst st) (fst st')"
  by (cases st) (auto simp: check_submitted_def same_desk_def desk_frames dest!: desk_keeps split: sum.split_asm option.split_asm if_split_asm)

lemma fold_check_submitted_desk:
  "fold_res (check_submitted e a) st ids = Inr st' \<Longrightarrow> same_desk (fst st) (fst st')"
proof (induction ids arbitrary: st)
  case (Cons i ids)
  then obtain st1 where "check_submitted e a st i = Inr st1" "fold_res (check_submitted e a) st1 ids = Inr st'"
    by (auto split: sum.splits)
  then show ?case using Cons.IH check_submitted_desk same_desk_trans by blast
qed simp

lemma objections_desk_step3 [desk_keeps]:
  "decide_admin_objection e a x11 x21 x31 d = Inr (d', r1) \<Longrightarrow> same_desk d d'"
  by (auto simp: decide_admin_objection_def desk_step desk_frames
    dest!: desk_keeps split: desk_splits)

lemma fold_blind_audit_desk [desk_frames]:
  "db_users (fold (\<lambda>st. invalidate_student_blind_audit e st o' rs) xs d) = db_users d"
  "db_assigned (fold (\<lambda>st. invalidate_student_blind_audit e st o' rs) xs d) = db_assigned d"
  by (induction xs arbitrary: d) (simp_all add: desk_frames)

lemma submit_objections_desk [desk_keeps]: "submit_objections e a ids d = Inr (d', r) \<Longrightarrow> same_desk d d'"
  by (auto simp: submit_objections_def Let_def same_desk_def desk_frames
    dest!: fold_check_submitted_desk fold_res_desk [rotated, where step = "\<lambda>d i. ensure_governance_case e a ''objection'' i True d", OF _ council_desk_step1]
    split: sum.split_asm if_split_asm option.split_asm)

lemma decide_objections_batch_desk [desk_keeps]:
  assumes "decide_objections_batch e a ids action reason d = Inr (d', r)"
  shows "same_desk d d'"
proof -
  let ?step = "\<lambda>d i. case find_objection d i of None \<Rightarrow> Inl not_found
           | Some r \<Rightarrow> (case decide_objection e a False r
                 \<lparr>od_action = action, od_score = None, od_reason = reason\<rparr> d of
               Inl err \<Rightarrow> Inl err
             | Inr (d1, status, _) \<Rightarrow> Inr (note_decision a i status d1))"
  have "fold_res ?step d ids = Inr d'"
    using assms by (auto simp: decide_objections_batch_def split: if_splits sum.splits)
  then show ?thesis
    by (rule fold_res_desk [rotated])
      (auto simp: same_desk_def desk_frames dest!: desk_keeps split: option.splits sum.splits prod.splits)
qed

section \<open>Reports\<close>

lemma reports_desk_frame0 [desk_frames]:
  "db_users (append_anonymous x11 x21 x31 d) = db_users d"
  "db_assigned (append_anonymous x11 x21 x31 d) = db_assigned d"
  "db_users (set_report x12 x22 d) = db_users d"
  "db_assigned (set_report x12 x22 d) = db_assigned d"
  "db_users (record_report_decision e x13 x23 x33 x43 x53 x63 d) = db_users d"
  "db_assigned (record_report_decision e x13 x23 x33 x43 x53 x63 d) = db_assigned d"
  by (auto simp: append_anonymous_def set_report_def record_report_decision_def Let_def desk_frames split: sum.split option.split)

lemma reports_desk_step0 [desk_keeps]:
  "validate_base_report e x11 d = Inr (d', r1) \<Longrightarrow> same_desk d d'"
  "assign_report_reviewers x12 x22 x32 d = Some d' \<Longrightarrow> same_desk d d'"
  "apply_report e a x13 x23 d = Inr d' \<Longrightarrow> same_desk d d'"
  by (auto simp: validate_base_report_def assign_report_reviewers_def apply_report_def desk_step
    desk_frames
    dest!: desk_keeps split: desk_splits)

lemma reports_desk_step1 [desk_keeps]:
  "validate_report e a x11 d = Inr (d', r1) \<Longrightarrow> same_desk d d'"
  "settle_report e a x12 x22 x32 d = Inr d' \<Longrightarrow> same_desk d d'"
  "finalize_report e a x13 x23 x33 d = Inr (d', r3) \<Longrightarrow> same_desk d d'"
  by (auto simp: validate_report_def settle_report_def finalize_report_def desk_step desk_frames
    dest!: desk_keeps split: desk_splits)

lemma reports_desk_step2 [desk_keeps]:
  "create_report e a x11 d = Inr (d', r1) \<Longrightarrow> same_desk d d'"
  "decide_report e a x12 x22 d = Inr (d', r2) \<Longrightarrow> same_desk d d'"
  by (auto simp: create_report_def decide_report_def desk_step desk_frames
    dest!: desk_keeps split: desk_splits)

section \<open>Arbitration and grants\<close>

lemma arbitration_desk_frame0 [desk_frames]:
  "db_users (finish_escalated e a x11 x21 x31 x41 d) = db_users d"
  "db_assigned (finish_escalated e a x11 x21 x31 x41 d) = db_assigned d"
  by (auto simp: finish_escalated_def Let_def desk_frames split: sum.split option.split)

lemma arbitration_desk_step0 [desk_keeps]:
  "create_appeal_draft e a x11 x21 x31 d = Inr (d', r1) \<Longrightarrow> same_desk d d'"
  "create_appeal e a x12 x22 x32 x42 d = Inr (d', r2) \<Longrightarrow> same_desk d d'"
  "submit_appeal e a x13 x23 d = Inr (d', r3) \<Longrightarrow> same_desk d d'"
  "arbitration_guard e a x14 x24 x34 d = Inr (d', r4) \<Longrightarrow> same_desk d d'"
  "update_timeline e a x15 d = Inr (d', r5) \<Longrightarrow> same_desk d d'"
  "update_capability e a x16 x26 d = Inr (d', r6) \<Longrightarrow> same_desk d d'"
  by (auto simp: create_appeal_draft_def create_appeal_def submit_appeal_def arbitration_guard_def
    update_timeline_def update_capability_def desk_step desk_frames
    dest!: desk_keeps split: desk_splits)

lemma arbitration_desk_step1 [desk_keeps]:
  "arbitrate_submission e a x11 x21 x31 x41 d = Inr (d', r1) \<Longrightarrow> same_desk d d'"
  by (auto simp: arbitrate_submission_def desk_step desk_frames
    dest!: desk_keeps split: desk_splits)

lemma grant_one_desk [desk_frames]:
  "db_users (grant_one e a x1 x2 x3 x4 x5 d) = db_users d" "db_assigned (grant_one e a x1 x2 x3 x4 x5 d) = db_assigned d"
  by (simp_all add: grant_one_def Let_def desk_frames)

lemma fold_grant_desk [desk_frames]:
  "db_users (fold (grant_one e a x1 x2 x3 x4) xs d) = db_users d" "db_assigned (fold (grant_one e a x1 x2 x3 x4) xs d) = db_assigned d"
  by (induction xs arbitrary: d) (simp_all add: desk_frames)

lemma bonus_desk_step1 [desk_keeps]:
  "create_bonus_grant e a x11 x21 d = Inr (d', r1) \<Longrightarrow> same_desk d d'"
  by (auto simp: create_bonus_grant_def desk_step desk_frames
    dest!: desk_keeps split: desk_splits)

section \<open>The council\<close>

lemma council_cases_desk_frame0 [desk_frames]:
  "db_users (set_proposal x11 x21 d) = db_users d"
  "db_assigned (set_proposal x11 x21 d) = db_assigned d"
  by (auto simp: set_proposal_def Let_def desk_frames split: sum.split option.split)

lemma council_cases_desk_step0 [desk_keeps]:
  "update_seat x11 x21 x31 x41 d = Some d' \<Longrightarrow> same_desk d d'"
  "run_case_action e a x12 x22 x32 x42 d = Inr d' \<Longrightarrow> same_desk d d'"
  "escalate_report x13 d = Inr d' \<Longrightarrow> same_desk d d'"
  by (auto simp: update_seat_def run_case_action_def escalate_report_def desk_step desk_frames
    dest!: desk_keeps split: desk_splits)

lemma council_cases_desk_frame1 [desk_frames]:
  "db_users (block_case x11 d) = db_users d"
  "db_assigned (block_case x11 d) = db_assigned d"
  by (auto simp: block_case_def Let_def desk_frames split: sum.split option.split)

lemma council_cases_desk_step1 [desk_keeps]:
  "execute_case e a x11 x21 x31 x41 d = Inr (d', r1) \<Longrightarrow> same_desk d d'"
  "restart_case e a x12 d = Inr (d', r2) \<Longrightarrow> same_desk d d'"
  by (auto simp: execute_case_def restart_case_def desk_step desk_frames
    dest!: desk_keeps split: desk_splits)

lemma council_cases_desk_step2 [desk_keeps]:
  "pass_case e a x11 x21 x31 x41 d = Inr (d', r1) \<Longrightarrow> same_desk d d'"
  "expand_case e x12 x22 x32 d = Inr (d', r2) \<Longrightarrow> same_desk d d'"
  by (auto simp: pass_case_def expand_case_def desk_step desk_frames
    dest!: desk_keeps split: desk_splits)

lemma council_cases_desk_step3 [desk_keeps]:
  "finish_ballot e a x11 x21 x31 x41 d = Inr (d', r1) \<Longrightarrow> same_desk d d'"
  by (auto simp: finish_ballot_def desk_step desk_frames
    dest!: desk_keeps split: desk_splits)

lemma council_cases_desk_step4 [desk_keeps]:
  "finish_case e a x11 x21 x31 d = Inr (d', r1) \<Longrightarrow> same_desk d d'"
  by (auto simp: finish_case_def desk_step desk_frames
    dest!: desk_keeps split: desk_splits)

lemma council_cases_desk_step5 [desk_keeps]:
  "close_case e a x11 x21 x31 d = Inr (d', r1) \<Longrightarrow> same_desk d d'"
  "give_opinion e a x12 x22 x32 d = Inr (d', r2) \<Longrightarrow> same_desk d d'"
  "ballot_case e a x13 x23 x33 d = Inr (d', r3) \<Longrightarrow> same_desk d d'"
  by (auto simp: close_case_def give_opinion_def ballot_case_def desk_step desk_frames
    dest!: desk_keeps split: desk_splits)

lemma proposals_desk_step0 [desk_keeps]:
  "configure_governance e a x11 d = Inr (d', r1) \<Longrightarrow> same_desk d d'"
  "join_governance e a x12 x22 d = Inr (d', r2) \<Longrightarrow> same_desk d d'"
  "window_payload e x13 d = Some (d', r3) \<Longrightarrow> same_desk d d'"
  "bonus_payload e x14 x24 d = Some (d', r4) \<Longrightarrow> same_desk d d'"
  "vote_proposal e a x15 x25 x35 d = Inr (d', r5) \<Longrightarrow> same_desk d d'"
  "run_action e a x16 d = Inr d' \<Longrightarrow> same_desk d d'"
  "comment_governance e a x17 x27 x37 d = Inr (d', r7) \<Longrightarrow> same_desk d d'"
  "collective_settlement x18 e a d = Inr (d', r8) \<Longrightarrow> same_desk d d'"
  by (auto simp: configure_governance_def join_governance_def window_payload_def bonus_payload_def
    vote_proposal_def run_action_def comment_governance_def collective_settlement_def desk_step
    desk_frames
    dest!: desk_keeps split: desk_splits)

lemma proposals_desk_step1 [desk_keeps]:
  "validate_action e x11 x21 x31 d = Some (d', r1) \<Longrightarrow> same_desk d d'"
  "execute_proposal e a x12 x22 d = Inr (d', r2) \<Longrightarrow> same_desk d d'"
  by (auto simp: validate_action_def execute_proposal_def desk_step desk_frames
    dest!: desk_keeps split: desk_splits)

lemma proposals_desk_step2 [desk_keeps]:
  "create_proposal e a x11 d = Inr (d', r1) \<Longrightarrow> same_desk d d'"
  "close_proposal e a x12 d = Inr (d', r2) \<Longrightarrow> same_desk d d'"
  by (auto simp: create_proposal_def close_proposal_def desk_step desk_frames
    dest!: desk_keeps split: desk_splits)

lemma proposals_desk_step3 [desk_keeps]:
  "close_governance e a x11 x21 x31 d = Inr (d', r1) \<Longrightarrow> same_desk d d'"
  by (auto simp: close_governance_def desk_step desk_frames
    dest!: desk_keeps split: desk_splits)

end
