(* ===== verification/ClassMachine.thy ===== *)
theory ClassMachine
  imports Frames
begin

text \<open>
  The class as a state machine: a step is one successful request.  One lemma per handler
  classifies what it does to the submissions.
\<close>

section \<open>The student's handlers\<close>

lemma load_owned_D:
  assumes "load_owned d i u = Some s"
  shows "s \<in> set (db_submissions d)" and "sb_id s = i" and "sb_student s = u"
  using find_Some_D [of _ "db_submissions d" s] assms by (auto simp: load_owned_def)

lemma find_submission_D:
  assumes "find_submission d i = Some s"
  shows "s \<in> set (db_submissions d)" and "sb_id s = i"
  using find_Some_D [of _ "db_submissions d" s] assms by (auto simp: find_submission_def)

lemma same_row:
  assumes "submissions_ok d" and "s \<in> set (db_submissions d)" and "t \<in> set (db_submissions d)"
    and "sb_id s = sb_id t"
  shows "s = t"
  using submissions_okD(2) [OF assms(1)] assms(2-4) by (metis distinct_map inj_onD)

lemma update_submission_moves:
  assumes ok: "submissions_ok d" and h: "update_submission e a i x d = Inr (d', r)"
  shows "moves d d'"
proof -
  obtain s d1 c p d2 where s: "load_owned d i (ac_user a) = Some s"
    and st: "sb_status s \<in> {Draft, Pending}"
    and l: "load_current_scheme e d = Inr (d1, c)"
    and u: "update_submissions (\<lambda>q. sb_id q = i) (refile e p (trim_space (in_title x)) (in_note x)) d1
      = Inr d2"
    and d': "db_submissions d' = db_submissions d2" "db_next d' = db_next d2"
    using h by (auto simp: update_submission_def frame_simps
      split: option.splits if_splits sum.splits prod.splits)
  show ?thesis
  proof (rule moves_update [OF u])
    show "row_step q (refile e p (trim_space (in_title x)) (in_note x) q)" for q
      by (rule row_step.stay) (simp_all add: refile_def kept_row_def same_corrections_def)
  qed (use load_current_scheme_keeps [OF l] load_current_scheme_db(2) [OF l] d' in simp_all)
qed

lemma withdraw_submission_moves:
  assumes ok: "submissions_ok d" and h: "withdraw_submission e a i d = Inr (d', r)"
  shows "moves d d'"
proof -
  consider "d' = d" | d1 where
    "update_submissions (\<lambda>q. sb_id q = i \<and> sb_status q = Pending) (\<lambda>q. q\<lparr>sb_status := Draft,
        sb_submitted_at := None, sb_updated_at := en_now e,
        sb_lock_version := sb_lock_version q + 1\<rparr>) d = Inr d1"
    "db_submissions d' = db_submissions d1" "db_next d' = db_next d1"
    using h by (auto simp: withdraw_submission_def frame_simps
      split: option.splits if_splits sum.splits)
  then show ?thesis
  proof cases
    case 2
    show ?thesis
      by (rule moves_update [OF 2(1)])
        (use 2 in \<open>auto intro!: row_step.withdraw simp: kept_row_def same_corrections_def\<close>)
  qed (simp add: moves_same)
qed

lemma submit_submission_moves:
  assumes ok: "submissions_ok d" and h: "submit_submission e a i d = Inr (d', r)"
  shows "moves d d'"
proof -
  consider "d' = d" | d1 c p d2 where "load_current_scheme e d = Inr (d1, c)"
    "update_submissions (\<lambda>q. sb_id q = i \<and> sb_status q = Draft) (file_for_review e p) d1 = Inr d2"
    "db_submissions d' = db_submissions d2" "db_next d' = db_next d2"
    using h by (auto simp: submit_submission_def frame_simps
      split: option.splits if_splits sum.splits prod.splits)
  then show ?thesis
  proof cases
    case 2
    show ?thesis
    proof (rule moves_update [OF 2(2)])
      show "row_step q (file_for_review e p q)" if "sb_id q = i \<and> sb_status q = Draft" for q
        by (rule row_step.filed) (use that in \<open>simp_all add: file_for_review_def kept_row_def same_corrections_def\<close>)
    qed (use load_current_scheme_keeps [OF 2(1)] load_current_scheme_db(2) [OF 2(1)] 2 in simp_all)
  qed (simp add: moves_same)
qed

lemma create_submission_D:
  assumes "create_submission e a x d = Inr (d', i, r)"
  obtains s where "db_submissions d' = db_submissions d @ [s]" "sb_status s = Draft"
    "sb_final s = None" "sb_force_rejection s = None" "sb_forced_score s = None"
    "sb_submitted_at s = None" "sb_id s = i" "db_next d \<le> i" "db_next d' = i + 1"
    "sb_student s = ac_user a" "ensure_not_sealed d (ac_user a)"
proof -
  obtain d1 c where l: "load_current_scheme e d = Inr (d1, c)"
    using assms by (auto simp: create_submission_def split: sum.splits)
  note keep = load_current_scheme_keeps [OF l] and le = load_current_scheme_db(2) [OF l]
  have seal: "ensure_not_sealed d1 (ac_user a) = ensure_not_sealed d (ac_user a)"
    by (simp add: ensure_not_sealed_def keep)
  obtain p where p: "prepare_submission c x (en_now e) False = Inr p"
    and ns: "ensure_not_sealed d1 (ac_user a)"
    using assms l by (auto simp: create_submission_def split: sum.splits if_splits)
  show thesis
    using assms l p ns seal keep le
    by (intro that [of "last (db_submissions d')"])
      (auto simp: create_submission_def Let_def frame_simps split: if_splits)
qed

lemma delete_submission_D:
  assumes "delete_submission a i d = Inr (d', r)"
  shows "db_submissions d' = delete_where (\<lambda>q. sb_id q = i) (db_submissions d)"
    and "db_next d' = db_next d" and "db_appeals d' = db_appeals d" and "db_seals d' = db_seals d"
    and "\<exists>s \<in> set (db_submissions d). sb_id s = i \<and> sb_status s \<in> {Draft, Pending}"
proof -
  obtain s where s: "load_owned d i (ac_user a) = Some s" "sb_status s \<in> {Draft, Pending}"
    using assms by (auto simp: delete_submission_def split: option.splits if_splits)
  then show "\<exists>s \<in> set (db_submissions d). sb_id s = i \<and> sb_status s \<in> {Draft, Pending}"
    using load_owned_D [OF s(1)] by blast
qed (use assms in \<open>auto simp: delete_submission_def Let_def frame_simps
      split: option.splits if_splits\<close>)

section \<open>Reviewers and administrators\<close>

lemma reconcile_shape:
  assumes "reconcile n rs = Inr out"
  shows "ro_status out = Scored \<and> ro_final out \<noteq> None
    \<or> ro_status out \<in> {Consensus, Arbitrating} \<and> ro_final out = None"
  using assms by (auto simp: reconcile_def scored_outcome_def split: if_splits sum.splits)

lemma review_verdict_shape:
  assumes "review_verdict d i t = Inr (out, arb)"
  shows "ro_status out = Scored \<and> ro_final out \<noteq> None
    \<or> ro_status out \<in> {Consensus, Arbitrating} \<and> ro_final out = None"
  using assms reconcile_shape by (auto simp: review_verdict_def Let_def split: sum.splits if_splits)

lemma supersede_review_frame:
  assumes "supersede_review e a i x d = Inr (d', n)"
  shows "db_submissions d' = db_submissions d" "db_next d' = db_next d"
    "db_appeals d' = db_appeals d" "db_seals d' = db_seals d"
  using assms by (auto simp: supersede_review_def split: option.splits if_splits)

lemma record_review_frame:
  assumes "record_review e a i x t dc sc rs sp d = Inr (d', n, sg)"
  shows "db_submissions d' = db_submissions d" "db_next d \<le> db_next d'"
    "db_appeals d' = db_appeals d" "db_seals d' = db_seals d"
  using assms
  by (auto simp: record_review_def Let_def dest: insert_suggestion_frame
    split: option.splits if_splits)

lemma settle_review_D:
  assumes "settle_review e a rv i n sg out d = Inr d'"
  obtains d1 where "update_submissions (\<lambda>s. sb_id s = i) (set_verdict e out) d = Inr d1"
    "db_submissions d' = db_submissions d1" "db_next d' = db_next d1"
    "db_appeals d' = db_appeals d1" "db_seals d' = db_seals d1"
proof -
  obtain d1 where "update_submissions (\<lambda>s. sb_id s = i) (set_verdict e out) d = Inr d1"
    using assms by (auto simp: settle_review_def split: sum.splits)
  with assms show thesis
    by (intro that [of d1]) (auto simp: settle_review_def Let_def frame_simps split: option.splits prod.splits)
qed

lemma load_reviewer_task_D:
  assumes "load_reviewer_task d a i = Some t"
  obtains s where "find_submission d i = Some s" "tk_status t = sb_status s"
    "tk_snapshot t = sb_snapshot s" "sb_student s \<noteq> ac_user a"
  using assms by (auto simp: load_reviewer_task_def split: option.splits if_splits)

lemma review_guard_D:
  assumes "review_guard e a i x d = Inr (d1, t, dc, sc, rs)"
  obtains c where "load_reviewer_task d a i = Some t" "tk_status t \<in> {Pending, Consensus}"
    "load_current_scheme e d = Inr (d1, c)" "validate_decision t x = Some (dc, sc, rs)"
  using assms by (auto simp: review_guard_def split: option.splits if_splits sum.splits)

lemma save_review_task_D:
  assumes h: "save_review_task e a rv i x d = Inr (d', r)"
  obtains d1 t dc sc rs d2 n0 d3 n sg out arb where
    "review_guard e a i x d = Inr (d1, t, dc, sc, rs)"
    "db_submissions d2 = db_submissions d1" "db_next d2 = db_next d1"
    "db_appeals d2 = db_appeals d1" "db_seals d2 = db_seals d1"
    "record_review e a i x t dc sc rs n0 d2 = Inr (d3, n, sg)"
    "review_verdict d3 i t = Inr (out, arb)"
    "settle_review e a rv i n sg out d3 = Inr d'"
    "r = \<lparr>ra_review = n, ra_status = ro_status out, ra_final = map_option points_float (ro_final out),
       ra_conflict = ro_conflict out, ra_classification = arb\<rparr>"
proof -
  obtain d1 t dc sc rs where g: "review_guard e a i x d = Inr (d1, t, dc, sc, rs)"
    using h by (auto simp: save_review_task_def split: sum.splits)
  obtain d2 m where s: "(if rv then supersede_review e a i x d1 else Inr (d1, 0)) = Inr (d2, m)"
    using h g by (auto simp: save_review_task_def split: sum.splits)
  have fr: "db_submissions d2 = db_submissions d1" "db_next d2 = db_next d1"
    "db_appeals d2 = db_appeals d1" "db_seals d2 = db_seals d1"
    using s supersede_review_frame by (auto split: if_splits)
  obtain d3 n sg where rr: "record_review e a i x t dc sc rs (di_spent x + m) d2 = Inr (d3, n, sg)"
    using h g s by (auto simp: save_review_task_def split: sum.splits)
  obtain out arb where v: "review_verdict d3 i t = Inr (out, arb)"
    using h g s rr by (auto simp: save_review_task_def split: sum.splits)
  show thesis
    using h g s rr v
    by (intro that [OF g fr rr v]) (auto simp: save_review_task_def split: sum.splits)
qed

lemma save_review_task_moves:
  assumes ok: "submissions_ok d" and h: "save_review_task e a rv i x d = Inr (d', r)"
  shows "moves d d'" and "db_appeals d' = db_appeals d" and "db_seals d' = db_seals d"
proof -
  obtain d1 t dc sc rs d2 n0 d3 n sg out arb where
    g: "review_guard e a i x d = Inr (d1, t, dc, sc, rs)"
    and f2: "db_submissions d2 = db_submissions d1" "db_next d2 = db_next d1"
      "db_appeals d2 = db_appeals d1" "db_seals d2 = db_seals d1"
    and rr: "record_review e a i x t dc sc rs n0 d2 = Inr (d3, n, sg)"
    and v: "review_verdict d3 i t = Inr (out, arb)"
    and st: "settle_review e a rv i n sg out d3 = Inr d'"
    by (rule save_review_task_D [OF h]) blast
  obtain c where tk: "load_reviewer_task d a i = Some t" "tk_status t \<in> {Pending, Consensus}"
    and l: "load_current_scheme e d = Inr (d1, c)" by (rule review_guard_D [OF g]) blast
  obtain s where s: "find_submission d i = Some s" "tk_status t = sb_status s"
    by (rule load_reviewer_task_D [OF tk(1)]) blast
  obtain d4 where u: "update_submissions (\<lambda>s. sb_id s = i) (set_verdict e out) d3 = Inr d4"
    and d': "db_submissions d' = db_submissions d4" "db_next d' = db_next d4"
      "db_appeals d' = db_appeals d4" "db_seals d' = db_seals d4"
    by (rule settle_review_D [OF st]) blast
  note fr3 = record_review_frame [OF rr] and fr4 = update_submissions_frame [OF u]
    and keep = load_current_scheme_keeps [OF l] and le = load_current_scheme_db(2) [OF l]
  show "db_appeals d' = db_appeals d" and "db_seals d' = db_seals d"
    using d' f2 fr3 fr4 keep by simp_all
  show "moves d d'"
  proof (rule moves_update [OF u])
    fix q assume q: "q \<in> set (db_submissions d)" "sb_id q = i"
    have "q = s" using same_row [OF ok q(1) find_submission_D(1) [OF s(1)]]
        find_submission_D(2) [OF s(1)] q(2) by simp
    then have "sb_status q \<in> {Pending, Consensus}" using tk(2) s(2) by simp
    then show "row_step q (set_verdict e out q)"
      using review_verdict_shape [OF v]
      by (intro row_step.review) (auto simp: set_verdict_def kept_row_def same_corrections_def)
  qed (use d' f2 fr3 keep le in simp_all)
qed

lemma admin_suggest_classification_moves:
  assumes ok: "submissions_ok d" and h: "admin_suggest_classification e a i x d = Inr (d', r)"
  shows "moves d d'" and "db_appeals d' = db_appeals d" and "db_seals d' = db_seals d"
proof -
  obtain s d1 n sc d2 where s: "find_submission d i = Some s" "sb_status s \<in> {Scored, Arbitrating, Locked}"
    and ins: "insert_suggestion e a d i ''admin'' None None ''pending'' x = Some (d1, n, sc)"
    and up: "(if sc = ''cross_category'' \<and> sb_status s \<noteq> Locked
       then update_submissions (\<lambda>q. sb_id q = i) (\<lambda>q. q\<lparr>sb_status := Arbitrating, sb_final := None,
          sb_updated_at := en_now e, sb_lock_version := sb_lock_version q + 1\<rparr>) d1
       else Inr d1) = Inr d2"
    and d': "db_submissions d' = db_submissions d2" "db_next d' = db_next d2"
      "db_appeals d' = db_appeals d2" "db_seals d' = db_seals d2"
    using h by (auto simp: admin_suggest_classification_def frame_simps
      split: option.splits if_splits sum.splits prod.splits)
  note fr = insert_suggestion_frame [OF ins]
  show "moves d d'"
  proof (cases "sc = ''cross_category'' \<and> sb_status s \<noteq> Locked")
    case True
    with up have u: "update_submissions (\<lambda>q. sb_id q = i) (\<lambda>q. q\<lparr>sb_status := Arbitrating, sb_final := None,
          sb_updated_at := en_now e, sb_lock_version := sb_lock_version q + 1\<rparr>) d1 = Inr d2" by simp
    show ?thesis
    proof (rule moves_update [OF u])
      fix q assume q: "q \<in> set (db_submissions d)" "sb_id q = i"
      have "q = s" using same_row [OF ok q(1) find_submission_D(1) [OF s(1)]]
          find_submission_D(2) [OF s(1)] q(2) by simp
      then show "row_step q (q\<lparr>sb_status := Arbitrating, sb_final := None,
          sb_updated_at := en_now e, sb_lock_version := sb_lock_version q + 1\<rparr>)"
        using s(2) True by (intro row_step.reopen) (auto simp: kept_row_def same_corrections_def)
    qed (use fr d' in simp_all)
  next
    case False
    with up d' fr show ?thesis by (intro moves_same) auto
  qed
  show "db_appeals d' = db_appeals d" and "db_seals d' = db_seals d"
    using up d' fr update_submissions_frame by (auto split: if_splits)
qed

lemma resolve_classification_moves:
  assumes h: "resolve_classification e a i org x d = Inr (d', r)"
  shows "moves d d'" and "db_appeals d' = db_appeals d" and "db_seals d' = db_seals d"
proof -
  obtain s t score batch where g: "resolution_guard e a i org x d = Inr (s, t, score, batch)"
    using h by (auto simp: resolve_classification_def split: sum.splits)
  define f :: "submission \<Rightarrow> submission" where "f = (\<lambda>q. q\<lparr>sb_category := ca_key (ct_category t), sb_item := it_key (ct_item t),
       sb_snapshot := ct_snapshot t, sb_final := Some (column_of score), sb_status := Scored,
       sb_scored_at := (case sb_scored_at q of None \<Rightarrow> Some (en_now e) | Some u \<Rightarrow> Some u),
       sb_updated_at := en_now e, sb_lock_version := sb_lock_version q + 1\<rparr>)"
  obtain d1 d2 where u: "update_submissions (\<lambda>q. sb_id q = i) f d1 = Inr d2"
    and d1: "db_submissions d1 = db_submissions d" "db_next d1 = db_next d + 1"
      "db_appeals d1 = db_appeals d" "db_seals d1 = db_seals d"
    and d': "db_submissions d' = db_submissions d2" "db_next d' = db_next d2"
      "db_appeals d' = db_appeals d2" "db_seals d' = db_seals d2"
    using h g unfolding f_def
    by (auto simp: resolve_classification_def Let_def frame_simps split: sum.splits prod.splits)
  show "moves d d'"
    by (rule moves_update [OF u])
      (use d1 d' in \<open>auto intro!: row_step.resolve simp: f_def kept_row_def same_corrections_def\<close>)
  show "db_appeals d' = db_appeals d" and "db_seals d' = db_seals d"
    using d1 d' update_submissions_frame [OF u] by simp_all
qed

section \<open>Corrections, the settlement and seals\<close>

lemma correction_allowed:
  assumes "correction_denied a self force_score s = None"
  shows "sb_status s \<noteq> Draft" and "sb_force_rejection s = None"
  using assms
  by (auto simp: correction_denied_def force_score_permission_def force_reject_permission_def
    self_force_reject_permission_def scored_status_def Let_def split: if_splits option.splits)

lemma correct_submission_D:
  assumes h: "correct_submission e a self fs i x d = Inr (d', r)"
  obtains s score c d1 where "s \<in> set (db_submissions d)" "sb_id s = i"
    "correction_denied a self fs s = None" "corrected_score fs x s = Inr score"
    "c = correction_of e d a self fs x s score"
    "update_submissions (\<lambda>q. sb_id q = i) (set_correction e fs c score) d = Inr d1"
    "d' = (let reason = correction_prefix self fs @ fr_reason c;
        d2 = stale_proposals i (close_workflows e a i reason (column_of score) d1);
        d3 = invalidate_student_blind_audit e (sb_student s) [] reason
               (invalidate_latest_settlement reason d2);
        action = (if fs then ''submission.force_scored'' else ''submission.force_rejected'') in
      enqueue_event action i (append_audit a action ''submission'' (dec_int i) d3))"
    "r = score"
proof -
  obtain s where s: "find (\<lambda>s. sb_id s = i \<and> (\<not> self \<or> sb_student s = ac_user a)) (db_submissions d) = Some s"
    using h by (auto simp: correct_submission_def split: option.splits)
  obtain score where c: "corrected_score fs x s = Inr score" and dn: "correction_denied a self fs s = None"
    using h s by (auto simp: correct_submission_def split: option.splits sum.splits)
  define k where "k = correction_of e d a self fs x s score"
  obtain d1 where u: "update_submissions (\<lambda>q. sb_id q = i) (set_correction e fs k score) d = Inr d1"
    using h s c dn unfolding k_def
    by (auto simp: correct_submission_def Let_def split: option.splits sum.splits)
  note fd = find_Some_D [OF s]
  show thesis
    using h s c dn u fd k_def
    by (intro that [OF _ _ dn c k_def u])
      (auto simp: correct_submission_def Let_def split: option.splits)
qed

lemma correct_submission_moves:
  assumes ok: "submissions_ok d" and h: "correct_submission e a self fs i x d = Inr (d', r)"
  shows "moves d d'" and "map ap_key (db_appeals d') = map ap_key (db_appeals d)"
    and "db_seals d' = db_seals d"
proof -
  obtain s score c d1 where s: "s \<in> set (db_submissions d)" "sb_id s = i"
    and dn: "correction_denied a self fs s = None"
    and u: "update_submissions (\<lambda>q. sb_id q = i) (set_correction e fs c score) d = Inr d1"
    and eq: "d' = (let reason = correction_prefix self fs @ fr_reason c;
        d2 = stale_proposals i (close_workflows e a i reason (column_of score) d1);
        d3 = invalidate_student_blind_audit e (sb_student s) [] reason
               (invalidate_latest_settlement reason d2);
        action = (if fs then ''submission.force_scored'' else ''submission.force_rejected'') in
      enqueue_event action i (append_audit a action ''submission'' (dec_int i) d3))"
    by (rule correct_submission_D [OF h]) blast
  have d': "db_submissions d' = db_submissions d1" "db_next d' = db_next d1" "db_seals d' = db_seals d1"
    "\<exists>r. db_appeals d' = db_appeals (close_workflows e a i r (column_of score) d1)"
    unfolding eq by (auto simp: Let_def frame_simps)
  show "moves d d'"
  proof (rule moves_update [OF u])
    fix q assume q: "q \<in> set (db_submissions d)" "sb_id q = i"
    then have "q = s" using same_row [OF ok q(1) s(1)] s(2) by simp
    then show "row_step q (set_correction e fs c score q)"
      using correction_allowed [OF dn]
      by (intro row_step.corrected) (auto simp: set_correction_def kept_row_def Let_def)
  qed (use d' in simp_all)
  show "db_seals d' = db_seals d" using d' update_submissions_frame [OF u] by simp
  obtain r where "db_appeals d' = db_appeals (close_workflows e a i r (column_of score) d1)"
    using d'(4) by blast
  moreover have "map ap_key (where_set p (\<lambda>p. p\<lparr>ap_status := st, ap_handler := h1,
      ap_resolution_score := sc, ap_resolution_reason := rs, ap_resolved_at := ra\<rparr>) rows)
    = map ap_key rows" for p st h1 sc rs ra rows
    by (rule where_set_keys) (simp add: ap_key_def)
  ultimately show "map ap_key (db_appeals d') = map ap_key (db_appeals d)"
    using update_submissions_frame [OF u] by (simp add: close_workflows_def)
qed

lemma evaluate_gate_D:
  assumes "evaluate_gate e d = Inr (d1, st)"
  obtains c where "load_current_scheme e d = Inr (d1, c)" "gt_current st = c"
  using assms by (auto simp: evaluate_gate_def Let_def split: sum.splits)

lemma run_settlement_D:
  assumes h: "run_settlement v e a d = Inr (d', n, reused)"
  obtains d1 st where "evaluate_gate e d = Inr (d1, st)" "ga_open (gt_gate st)"
    "reused \<and> d' = d1 \<and> (\<exists>r. reusable_run d1 (ss_id (gt_current st)) = Some r \<and> n = rn_id r)
     \<or> \<not> reused \<and> reusable_run d1 (ss_id (gt_current st)) = None \<and> n = db_next d1 \<and>
       (\<exists>inputs snapshots d2 d3. build_settlement v d1 (gt_current st) = Some inputs
         \<and> compute (vs_weights v) (vs_keys v) inputs (cf_weights (ss_config (gt_current st)))
             (cf_honor_roll (ss_config (gt_current st))) = Inr snapshots
         \<and> d2 = d1\<lparr>db_runs := db_runs d1 @ [\<lparr>rn_id = n, rn_scheme = ss_id (gt_current st),
              rn_status = ''running'',
              rn_trigger = (if ga_forced (gt_gate st) then ''forced'' else ''automatic''),
              rn_by = ac_user a, rn_config = ss_config (gt_current st), rn_created_at = en_now e,
              rn_completed_at = None\<rparr>], db_next := n + 1,
            db_settlement := db_settlement d1 @ map (settlement_row_of n) snapshots\<rparr>
         \<and> update_submissions (\<lambda>s. sb_status s = Scored) (lock_scored e) d2 = Inr d3
         \<and> d' = enqueue_event ''settlement.done'' n
              (append_audit a ''settlement.completed'' ''settlement_run'' (dec_int n)
                (d3\<lparr>db_runs := where_set (\<lambda>r. rn_id r = n)
                   (\<lambda>r. r\<lparr>rn_status := ''complete'', rn_completed_at := Some (en_now e)\<rparr>)
                   (db_runs d3)\<rparr>)))"
proof -
  obtain d1 st where g: "evaluate_gate e d = Inr (d1, st)" and o': "ga_open (gt_gate st)"
    using h by (auto simp: run_settlement_def split: sum.splits if_splits)
  show thesis
    using h g o'
    by (intro that [OF g o'], cases "reusable_run d1 (ss_id (gt_current st))")
      (auto simp: run_settlement_def Let_def split: option.splits sum.splits)
qed

lemma run_settlement_moves:
  assumes h: "run_settlement v e a d = Inr (d', n, reused)"
  shows "moves d d'" and "db_appeals d' = db_appeals d" and "db_seals d' = db_seals d"
proof -
  obtain d1 st where g: "evaluate_gate e d = Inr (d1, st)"
    and cs: "d' = d1 \<or> (\<exists>d2 d3 k sn m. d2 = d1\<lparr>db_runs := k, db_next := m + 1, db_settlement := sn\<rparr>
      \<and> m = db_next d1
      \<and> update_submissions (\<lambda>s. sb_status s = Scored) (lock_scored e) d2 = Inr d3
      \<and> d' = enqueue_event ''settlement.done'' n
              (append_audit a ''settlement.completed'' ''settlement_run'' (dec_int n)
                (d3\<lparr>db_runs := where_set (\<lambda>r. rn_id r = n)
                   (\<lambda>r. r\<lparr>rn_status := ''complete'', rn_completed_at := Some (en_now e)\<rparr>)
                   (db_runs d3)\<rparr>)))"
    by (rule run_settlement_D [OF h]) blast
  obtain c where l: "load_current_scheme e d = Inr (d1, c)"
    by (rule evaluate_gate_D [OF g]) blast
  note keep = load_current_scheme_keeps [OF l] and le = load_current_scheme_db(2) [OF l]
  have "moves d d' \<and> db_appeals d' = db_appeals d \<and> db_seals d' = db_seals d"
    using cs
  proof (elim disjE exE conjE)
    assume "d' = d1" then show ?thesis using keep le by (simp add: moves_same)
  next
    fix d2 d3 k sn m
    assume eq2: "d2 = d1\<lparr>db_runs := k, db_next := m + 1, db_settlement := sn\<rparr>" "m = db_next d1"
      and u: "update_submissions (\<lambda>s. sb_status s = Scored) (lock_scored e) d2 = Inr d3"
      and eq: "d' = enqueue_event ''settlement.done'' n
              (append_audit a ''settlement.completed'' ''settlement_run'' (dec_int n)
                (d3\<lparr>db_runs := where_set (\<lambda>r. rn_id r = n)
                   (\<lambda>r. r\<lparr>rn_status := ''complete'', rn_completed_at := Some (en_now e)\<rparr>)
                   (db_runs d3)\<rparr>))"
    have d2: "db_submissions d2 = db_submissions d1" "db_next d2 = db_next d1 + 1"
        "db_appeals d2 = db_appeals d1" "db_seals d2 = db_seals d1" unfolding eq2 by simp_all
    have d': "db_submissions d' = db_submissions d3" "db_next d' = db_next d3"
        "db_appeals d' = db_appeals d3" "db_seals d' = db_seals d3"
      unfolding eq by (simp_all add: frame_simps)
    have "moves d d'"
      by (rule moves_update [OF u])
        (use d2 d' keep le in \<open>auto intro!: row_step.locked simp: lock_scored_def kept_row_def same_corrections_def\<close>)
    then show ?thesis using d' d2 keep update_submissions_frame [OF u] by simp
  qed
  then show "moves d d'" and "db_appeals d' = db_appeals d" and "db_seals d' = db_seals d" by auto
qed

lemma force_gate_frame:
  assumes "force_gate e a rs d = Inr (d', st)"
  shows "db_submissions d' = db_submissions d" "db_next d \<le> db_next d'"
    "db_appeals d' = db_appeals d" "db_seals d' = db_seals d"
proof -
  obtain d1 st1 where g: "evaluate_gate e d = Inr (d1, st1)"
    using assms by (auto simp: force_gate_def Let_def split: if_splits sum.splits)
  obtain c where l: "load_current_scheme e d = Inr (d1, c)"
    by (rule evaluate_gate_D [OF g]) blast
  show "db_submissions d' = db_submissions d" "db_next d \<le> db_next d'"
    "db_appeals d' = db_appeals d" "db_seals d' = db_seals d"
    using assms g load_current_scheme_keeps [OF l] load_current_scheme_db(2) [OF l]
    by (auto simp: force_gate_def Let_def frame_simps split: if_splits)
qed

lemma insert_seal_frame:
  assumes "insert_seal st src t d = (d', n)"
  shows "db_submissions d' = db_submissions d" "db_next d \<le> db_next d'" "db_appeals d' = db_appeals d"
    "db_users d' = db_users d"
  using assms by (auto simp: insert_seal_def Let_def split: if_splits)

lemma ensure_automatic_seal_frame:
  "db_submissions (ensure_automatic_seal st t d) = db_submissions d"
  "db_next d \<le> db_next (ensure_automatic_seal st t d)"
  "db_appeals (ensure_automatic_seal st t d) = db_appeals d"
  using insert_seal_frame
  by (auto simp: ensure_automatic_seal_def frame_simps split: prod.splits option.splits)

lemma my_seal_D:
  assumes "my_seal e a d = Inr (d', r)"
  obtains "db_submissions d' = db_submissions d" "db_next d' = db_next d"
    "db_appeals d' = db_appeals d" "db_seals d' = db_seals d"
  | d1 c t where "load_current_scheme e d = Inr (d1, c)"
    "db_submissions d' = db_submissions (ensure_automatic_seal (ac_user a) t d1)"
    "db_next d' = db_next (ensure_automatic_seal (ac_user a) t d1)"
    "db_appeals d' = db_appeals (ensure_automatic_seal (ac_user a) t d1)"
    "db_seals d' = db_seals (ensure_automatic_seal (ac_user a) t d1)"
  | d1 c where "load_current_scheme e d = Inr (d1, c)"
    "db_submissions d' = db_submissions d1" "db_next d' = db_next d1"
    "db_appeals d' = db_appeals d1" "db_seals d' = db_seals d1"
  using assms
  by (auto simp: my_seal_def Let_def frame_simps split: sum.splits load_error.splits if_splits)

lemma my_seal_frame:
  assumes "my_seal e a d = Inr (d', r)"
  shows "db_submissions d' = db_submissions d" "db_next d \<le> db_next d'" "db_appeals d' = db_appeals d"
proof -
  have "db_submissions d' = db_submissions d \<and> db_next d \<le> db_next d' \<and> db_appeals d' = db_appeals d"
  proof (rule my_seal_D [OF assms], goal_cases)
    case (2 d1 c t)
    then show ?case
      using load_current_scheme_keeps [OF 2(1)]
        order_trans [OF load_current_scheme_db(2) [OF 2(1)] ensure_automatic_seal_frame(2)]
      by (simp add: ensure_automatic_seal_frame)
  next
    case (3 d1 c)
    then show ?case
      using load_current_scheme_keeps [OF 3(1)] load_current_scheme_db(2) [OF 3(1)] by simp
  qed simp
  then show "db_submissions d' = db_submissions d" "db_next d \<le> db_next d'" "db_appeals d' = db_appeals d"
    by auto
qed

lemma seal_my_submissions_frame:
  assumes "seal_my_submissions e a ph sid d = Inr (d', r)"
  shows "db_submissions d' = db_submissions d" "db_next d \<le> db_next d'" "db_appeals d' = db_appeals d"
  using assms insert_seal_frame
  by (auto simp: seal_my_submissions_def Let_def frame_simps
    split: option.splits if_splits prod.splits)

lemma unseal_student_frame:
  assumes "unseal_student e a st rs d = Inr (d', r)"
  shows "db_submissions d' = db_submissions d" "db_next d' = db_next d" "db_appeals d' = db_appeals d"
  using assms by (auto simp: unseal_student_def Let_def frame_simps split: option.splits if_splits)

end
