(* ===== verification/DeskSteps.thy ===== *)
theory DeskSteps
  imports DeskFrames ClassMachine
begin

text \<open>
  What the requests of \<open>DispatchDesk\<close> and \<open>Roster\<close> do: they leave claims, appeals and seals
  alone (\<open>quiet\<close>), seats are only retired or given to members who are not the author of the
  claim, and the accounts keep an administrator and at most one deputy.
\<close>

lemma fold_res_inv_mem:
  assumes "fold_res f s xs = Inr t" and "P s"
    and step: "\<And>s x s'. x \<in> set xs \<Longrightarrow> P s \<Longrightarrow> f s x = Inr s' \<Longrightarrow> P s'"
  shows "P t"
  using assms
proof (induction xs arbitrary: s)
  case (Cons x xs)
  obtain s' where s': "f s x = Inr s'" "fold_res f s' xs = Inr t"
    using Cons.prems(1) by (auto split: sum.splits)
  have "P s'" using Cons.prems(3) [OF _ Cons.prems(2) s'(1)] by simp
  from Cons.IH [OF s'(2) this] Cons.prems(3) show ?case by (meson list.set_intros(2))
qed simp

section \<open>Seats and accounts change, claims do not\<close>

lemma seat_statements_quiet [simp]:
  "quiet d (retire_seats p d1) \<longleftrightarrow> quiet d d1" "quiet d (clear_self_seats d1) \<longleftrightarrow> quiet d d1"
  by (simp_all add: retire_seats_def clear_self_seats_def quiet_def)

lemma quiet_through_retire: "quiet d d1 \<Longrightarrow> quiet (retire_seats p d1) d2 \<Longrightarrow> quiet d d2"
  using quiet_trans seat_statements_quiet(1) by blast

lemma insert_seat_quiet: "insert_seat i u p run t d = Inr d' \<Longrightarrow> quiet d d'"
  by (auto simp: insert_seat_def quiet_def split: if_splits)

lemma insert_dispatch_run_quiet: "insert_dispatch_run e s sd tr n b u d = (d', run) \<Longrightarrow> quiet d d'"
  by (auto simp: insert_dispatch_run_def quiet_def)

lemma assign_pair_quiet: "assign_pair e run include d x = Inr d' \<Longrightarrow> quiet d d'"
  by (auto simp: assign_pair_def Let_def dest!: insert_seat_quiet split: prod.splits sum.splits if_splits)
    (metis quiet_trans seat_statements_quiet(1) quiet_refl)+

lemma take_over_seat_quiet: "take_over_seat e d x = Inr d' \<Longrightarrow> quiet d d'"
  by (auto simp: take_over_seat_def Let_def dest!: insert_seat_quiet split: prod.splits sum.splits option.splits)
    (metis quiet_trans seat_statements_quiet(1) quiet_refl)+

lemma make_move_quiet: "make_move e run d m = Inr d' \<Longrightarrow> quiet d d'"
  by (auto simp: make_move_def dest!: insert_seat_quiet split: sum.splits)
    (metis quiet_trans seat_statements_quiet(1) quiet_refl)

lemma reassign_unavailable_quiet: "reassign_unavailable e u d = Inr d' \<Longrightarrow> quiet d d'"
  using fold_res_quiet [of "take_over_seat e", OF take_over_seat_quiet]
  by (auto simp: reassign_unavailable_def split: option.splits)

lemma build_plan_quiet: "build_plan e sd inc d = Inr (d', p, s) \<Longrightarrow> quiet d d'"
  by (auto simp: build_plan_def dest: load_current_scheme_quiet split: sum.splits option.splits)

lemma run_dispatch_D:
  assumes "run_dispatch e a sd inc d = Inr (d', plan)"
  obtains d1 s d2 run d3 where "build_plan e sd inc (clear_self_seats d) = Inr (d1, plan, s)"
    and "insert_dispatch_run e s (pl_seed plan) (if inc then ''rebalance'' else ''manual'')
      (int (length (pl_assignments plan))) (int (length (pl_blocked plan))) (Some (ac_user a)) d1 = (d2, run)"
    and "fold_res (assign_pair e run inc) d2 (pl_assignments plan) = Inr d3"
    and "d' = enqueue_event ''dispatch.done'' run
      (append_audit a ''dispatch.completed'' ''dispatch_run'' (dec_int run) d3)"
  using assms by (auto simp: run_dispatch_def split: sum.splits prod.splits)

lemma dispatch_quiet:
  shows "preview_dispatch e a sd inc d = Inr (d', r1) \<Longrightarrow> quiet d d'"
    and "run_dispatch e a sd inc d = Inr (d', r2) \<Longrightarrow> quiet d d'"
    and "update_dispatch_auto a on d = Inr (d', r3) \<Longrightarrow> quiet d d'"
    and "update_dispatch_reviewer e a u pz d = Inr (d', r4) \<Longrightarrow> quiet d d'"
    and "reassign_submission e a i from to rs d = Inr (d', r5) \<Longrightarrow> quiet d d'"
proof -
  show "preview_dispatch e a sd inc d = Inr (d', r1) \<Longrightarrow> quiet d d'"
    by (auto simp: preview_dispatch_def dest: build_plan_quiet split: sum.splits)
  show "quiet d d'" if h: "run_dispatch e a sd inc d = Inr (d', r2)"
  proof -
    obtain d1 s d2 run d3 where b: "build_plan e sd inc (clear_self_seats d) = Inr (d1, r2, s)"
      and i: "insert_dispatch_run e s (pl_seed r2) (if inc then ''rebalance'' else ''manual'')
        (int (length (pl_assignments r2))) (int (length (pl_blocked r2))) (Some (ac_user a)) d1 = (d2, run)"
      and f: "fold_res (assign_pair e run inc) d2 (pl_assignments r2) = Inr d3"
      and d': "d' = enqueue_event ''dispatch.done'' run
        (append_audit a ''dispatch.completed'' ''dispatch_run'' (dec_int run) d3)"
      by (rule run_dispatch_D [OF h])
    have "quiet d (clear_self_seats d)" by simp
    also note build_plan_quiet [OF b]
    also note insert_dispatch_run_quiet [OF i]
    also have "quiet d2 d3" by (rule fold_res_quiet [OF assign_pair_quiet f])
    finally show ?thesis by (simp add: d')
  qed
  show "update_dispatch_auto a on d = Inr (d', r3) \<Longrightarrow> quiet d d'"
    by (auto simp: update_dispatch_auto_def quiet_def frame_simps split: option.splits if_splits)
  show "quiet d d'" if "update_dispatch_reviewer e a u pz d = Inr (d', r4)"
    using that reassign_unavailable_quiet
    by (fastforce simp: update_dispatch_reviewer_def Let_def quiet_def frame_simps
      split: option.splits if_splits sum.splits)
  show "quiet d d'" if "reassign_submission e a i from to rs d = Inr (d', r5)"
    using that
    by (auto simp: reassign_submission_def Let_def
      dest!: load_current_scheme_quiet insert_dispatch_run_quiet insert_seat_quiet
      split: option.splits if_split_asm sum.splits prod.splits)
      (meson quiet_trans quiet_through_retire)
qed

lemma handover_dispatch_D:
  assumes "handover_dispatch e a from to rs d = Inr (d', n, rows)"
  obtains d1 c cs after moves where "load_current_scheme e d = Inr (d1, c)"
    and "all_items (\<lambda>(v, s). map_option (Pair v) (dispatch_item d1 (set (active_seats d1 (sb_id s))) [] s))
      (handed_seats d1 from) = Some cs"
    and "fold_res (plan_move e d1 (load_pool d1) from to) (pool_loads (load_pool d1), []) cs = Inr (after, moves)"
    and "d' = d1 \<or> (\<exists>d2 run d3. insert_dispatch_run e (ss_id c) (random_seed e) ''handover''
        (int (length moves)) 0 (Some (ac_user a)) d1 = (d2, run)
      \<and> fold_res (make_move e run) d2 moves = Inr d3
      \<and> d' = append_audit a ''dispatch.reassigned'' ''dispatch_run'' (dec_int run) d3)"
proof -
  obtain d1 c where l: "load_current_scheme e d = Inr (d1, c)"
    using assms by (auto simp: handover_dispatch_def split: if_splits sum.splits)
  obtain cs where cs: "all_items (\<lambda>(v, s). map_option (Pair v) (dispatch_item d1 (set (active_seats d1 (sb_id s))) [] s))
      (handed_seats d1 from) = Some cs"
    using assms l by (auto simp: handover_dispatch_def Let_def split: if_splits option.splits)
  obtain after moves where m: "fold_res (plan_move e d1 (load_pool d1) from to) (pool_loads (load_pool d1), []) cs
      = Inr (after, moves)"
    using assms l cs by (auto simp: handover_dispatch_def Let_def split: if_splits sum.splits)
  have "d' = d1 \<or> (\<exists>d2 run d3. insert_dispatch_run e (ss_id c) (random_seed e) ''handover''
        (int (length moves)) 0 (Some (ac_user a)) d1 = (d2, run)
      \<and> fold_res (make_move e run) d2 moves = Inr d3
      \<and> d' = append_audit a ''dispatch.reassigned'' ''dispatch_run'' (dec_int run) d3)"
    using assms l cs m by (auto simp: handover_dispatch_def Let_def split: if_splits sum.splits prod.splits)
  with l cs m show thesis by (rule that)
qed

lemma handover_quiet:
  assumes "handover_dispatch e a from to rs d = Inr (d', r)"
  shows "quiet d d'"
proof -
  obtain n rows where r: "r = (n, rows)" by (cases r)
  show ?thesis
  proof (rule handover_dispatch_D [OF assms [unfolded r]], goal_cases)
    case (1 d1 c cs after moves)
    have "quiet d1 d'"
      using 1(4)
    proof (elim disjE exE conjE)
      fix d2 run d3
      assume i: "insert_dispatch_run e (ss_id c) (random_seed e) ''handover'' (int (length moves)) 0
          (Some (ac_user a)) d1 = (d2, run)"
        and f: "fold_res (make_move e run) d2 moves = Inr d3"
        and d': "d' = append_audit a ''dispatch.reassigned'' ''dispatch_run'' (dec_int run) d3"
      have "quiet d2 d3" by (rule fold_res_quiet [OF make_move_quiet f])
      then show "quiet d1 d'" using insert_dispatch_run_quiet [OF i] quiet_trans by (simp add: d')
    qed simp
    then show ?case using load_current_scheme_quiet [OF 1(1)] quiet_trans by blast
  qed
qed

section \<open>The members\<close>

lemma update_members_quiet [simp]: "quiet d (update_members p f d1) \<longleftrightarrow> quiet d d1"
  by (simp add: update_members_def quiet_def)

lemma sync_member_quiet: "quiet d d1 \<Longrightarrow> quiet d (sync_member w d1)"
  by (auto simp: sync_member_def Let_def quiet_def update_members_def)

lemma insert_whitelist_quiet: "insert_whitelist e x d = Some (d', n) \<Longrightarrow> quiet d d'"
  by (auto simp: insert_whitelist_def Let_def intro!: sync_member_quiet split: if_splits)
    (simp_all add: quiet_def)

lemma import_row_quiet: "import_row e d x = Inr d' \<Longrightarrow> quiet d d'"
  by (auto simp: import_row_def Let_def quiet_def sync_member_def update_members_def
    dest!: insert_whitelist_quiet split: option.splits if_splits)

lemma import_rows_quiet: "fold_res (import_row e) d xs = Inr d' \<Longrightarrow> quiet d d'"
  by (rule fold_res_quiet [OF import_row_quiet])

lemma assign_pairs_quiet: "fold_res (assign_pair e run inc) d xs = Inr d' \<Longrightarrow> quiet d d'"
  by (rule fold_res_quiet [OF assign_pair_quiet])

lemma reset_passwords_quiet: "reset_passwords ts d = Inr d' \<Longrightarrow> quiet d d'"
  by (auto simp: reset_passwords_def Let_def quiet_def split: if_splits)

lemma foldl_audit_quiet [simp]:
  "quiet d (foldl (\<lambda>q u. append_audit a x r (k u) q) d1 us) \<longleftrightarrow> quiet d d1"
  by (induction us arbitrary: d1) simp_all

lemma insert_gpa_quiet: "insert_gpa e s d r = Inr d' \<Longrightarrow> quiet d d'"
  by (auto simp: insert_gpa_def Let_def quiet_def split: option.splits if_splits)

lemma import_gpa_quiet:
  assumes "import_gpa e a rows d = Inr (d', r)"
  shows "quiet d d'"
proof -
  obtain d1 c d2 where l: "load_current_scheme e d = Inr (d1, c)"
    and f: "fold_res (insert_gpa e (ss_id c)) (d1\<lparr>db_gpa := delete_where (\<lambda>g. gp_scheme g = ss_id c) (db_gpa d1)\<rparr>) rows
      = Inr d2"
    and d': "d' = invalidate_latest_settlement ''GPA import replaced''
      (append_audit a ''gpa.imported'' ''student_gpa'' (en_uuid e) d2)"
    using assms by (auto simp: import_gpa_def split: sum.splits if_splits)
  have "quiet d1 d2" using fold_res_quiet [OF insert_gpa_quiet f] by (simp add: quiet_def)
  then show ?thesis using load_current_scheme_quiet [OF l] quiet_trans by (auto simp: d')
qed

lemma stale_batches_quiet [simp]: "quiet d (stale_batches e i rs d1) \<longleftrightarrow> quiet d d1"
  by (simp add: stale_batches_def Let_def quiet_def)

lemma role_update_quiet:
  "quiet d (update_members p f d1\<lparr>db_whitelist := ws\<rparr>) \<longleftrightarrow> quiet d d1"
  by (simp add: update_members_def quiet_def)

lemma roster_quiet:
  shows "add_whitelist e a sid nm d = Inr (d', r1) \<Longrightarrow> quiet d d'"
    and "import_whitelist e a n rec d = Inr (d', r2) \<Longrightarrow> quiet d d'"
    and "delete_whitelist a rf i d = Inr (d', r3) \<Longrightarrow> quiet d d'"
    and "reset_user_password a i d = Inr (d', r4) \<Longrightarrow> quiet d d'"
    and "reset_class_passwords a lg d = Inr (d', r4) \<Longrightarrow> quiet d d'"
    and "update_user_role e a i role d = Inr (d', r3) \<Longrightarrow> quiet d d'"
    and "update_user_status e a i role d = Inr (d', r3) \<Longrightarrow> quiet d d'"
    and "update_class_deputy a user d = Inr (d', r3) \<Longrightarrow> quiet d d'"
    and "paste_gpa e a pf tb rows d = Inr (d', r5) \<Longrightarrow> quiet d d'"
    and "import_gpa_file e a pf tb d = Inr (d', r5) \<Longrightarrow> quiet d d'"
proof -
  show "add_whitelist e a sid nm d = Inr (d', r1) \<Longrightarrow> quiet d d'"
    by (auto simp: add_whitelist_def dest: insert_whitelist_quiet split: option.splits)
  show "import_whitelist e a n rec d = Inr (d', r2) \<Longrightarrow> quiet d d'"
    by (auto simp: import_whitelist_def dest!: import_rows_quiet
      split: option.splits if_splits list.splits sum.splits)
  show "delete_whitelist a rf i d = Inr (d', r3) \<Longrightarrow> quiet d d'"
    by (auto simp: delete_whitelist_def quiet_def frame_simps split: option.splits if_splits)
  show "reset_user_password a i d = Inr (d', r4) \<Longrightarrow> quiet d d'"
    by (auto simp: reset_user_password_def dest!: reset_passwords_quiet split: option.splits if_splits sum.splits)
  show "reset_class_passwords a lg d = Inr (d', r4) \<Longrightarrow> quiet d d'"
    by (auto simp: reset_class_passwords_def Let_def dest!: reset_passwords_quiet split: if_splits sum.splits)
  show "update_class_deputy a user d = Inr (d', r3) \<Longrightarrow> quiet d d'"
    by (auto simp: update_class_deputy_def quiet_def frame_simps split: option.splits if_splits)
  show "paste_gpa e a pf tb rows d = Inr (d', r5) \<Longrightarrow> quiet d d'"
    by (auto simp: paste_gpa_def dest: import_gpa_quiet split: option.splits)
  show "import_gpa_file e a pf tb d = Inr (d', r5) \<Longrightarrow> quiet d d'"
    by (auto simp: import_gpa_file_def dest: import_gpa_quiet split: option.splits)
  show "quiet d d'" if h: "update_user_role e a i role d = Inr (d', r3)"
  proof -
    obtain u where u: "find_user d i = Some u"
      using h by (auto simp: update_user_role_def split: option.splits if_splits)
    let ?d1 = "update_members (\<lambda>v. us_id v = i) (\<lambda>v. v\<lparr>us_role := role, us_version := us_version v + 1\<rparr>) d"
    let ?d2 = "?d1\<lparr>db_whitelist := where_set (\<lambda>w. wl_id w = us_whitelist u) (\<lambda>w. w\<lparr>wl_role := role\<rparr>)
        (db_whitelist ?d1)\<rparr>"
    let ?d3 = "case find (\<lambda>w. wl_id w = us_whitelist u) (db_whitelist ?d2) of None \<Rightarrow> ?d2 | Some w \<Rightarrow> sync_member w ?d2"
    have "quiet d ?d3" by (simp add: role_update_quiet sync_member_quiet split: option.split)
    moreover have "\<exists>d4. (reassign_unavailable e i ?d3 = Inr d4 \<or> d4 = ?d3)
        \<and> d' = append_audit a ''user.role_changed'' ''user'' (dec_int i) d4"
      using h u unfolding update_user_role_def Let_def
      by (simp only: option.case split: option.split_asm if_split_asm sum.split_asm) auto
    ultimately show ?thesis using reassign_unavailable_quiet quiet_trans by auto
  qed
  show "quiet d d'" if h: "update_user_status e a i role d = Inr (d', r3)"
  proof -
    let ?d1 = "update_members (\<lambda>v. us_id v = i) (\<lambda>v. v\<lparr>us_status := role, us_version := us_version v + 1\<rparr>) d"
    obtain d2 where "reassign_unavailable e i ?d1 = Inr d2 \<or> d2 = ?d1"
        and "d' = append_audit a ''user.status_changed'' ''user'' (dec_int i) d2
          \<or> d' = append_audit a ''user.status_changed'' ''user'' (dec_int i) (stale_batches e i disabled_reason d2)"
      using h unfolding update_user_status_def Let_def
      by (auto simp: map_sum_Inr map_sum_def split: option.split_asm if_split_asm sum.split_asm)
    then show ?thesis using reassign_unavailable_quiet [of e i ?d1 d2] quiet_trans [of d ?d1 d2] by auto
  qed
qed

lemma auto_dispatch_quiet:
  assumes "auto_dispatch e ev i d = Inr d'"
  shows "quiet d d'"
proof -
  have audit: "quiet q (x\<lparr>db_audit := au\<rparr>) \<longleftrightarrow> quiet q x" for q x au by (simp add: quiet_def)
  show ?thesis
    using assms
    by (auto simp: auto_dispatch_def Let_def audit dest!: insert_dispatch_run_quiet assign_pairs_quiet
      split: if_splits option.splits sum.splits prod.splits)
      (meson quiet_trans seat_statements_quiet(2) quiet_refl)+
qed

end
