(* ===== verification/Seats.thy ===== *)
theory Seats
  imports DeskSteps
begin

text \<open>
  The seats of reviewers: however seats are dealt out, handed over or retired, an active seat is
  at position 1 or 2, no two active seats of a claim share a position or a reviewer, and nobody
  holds a seat on a claim of their own.
\<close>

section \<open>The invariant\<close>

definition may_take :: "db \<Rightarrow> int \<Rightarrow> int \<Rightarrow> bool" where
  \<comment> \<open>the claim exists or once existed, and is not the member's own\<close>
  "may_take d i u \<longleftrightarrow> i < db_next d \<and> list_all (\<lambda>s. sb_id s = i \<longrightarrow> sb_student s \<noteq> u) (db_submissions d)"

definition seats_ok :: "db \<Rightarrow> bool" where
  "seats_ok d \<longleftrightarrow> list_all (\<lambda>v. sv_submission v < db_next d) (db_assigned d)
     \<and> list_all (\<lambda>v. (sv_position v = 1 \<or> sv_position v = 2)
          \<and> list_all (\<lambda>s. sb_id s = sv_submission v \<longrightarrow> sb_student s \<noteq> sv_reviewer v) (db_submissions d))
         (filter sv_active (db_assigned d))
     \<and> distinct (map (\<lambda>v. (sv_submission v, sv_reviewer v)) (filter sv_active (db_assigned d)))
     \<and> distinct (map (\<lambda>v. (sv_submission v, sv_position v)) (filter sv_active (db_assigned d)))"

lemma seats_okD:
  assumes "seats_ok d"
  shows "v \<in> set (db_assigned d) \<Longrightarrow> sv_submission v < db_next d"
    and "v \<in> set (db_assigned d) \<Longrightarrow> sv_active v \<Longrightarrow> sv_position v = 1 \<or> sv_position v = 2"
    and "v \<in> set (db_assigned d) \<Longrightarrow> sv_active v \<Longrightarrow> s \<in> set (db_submissions d) \<Longrightarrow> sb_id s = sv_submission v
      \<Longrightarrow> sb_student s \<noteq> sv_reviewer v"
    and "distinct (map (\<lambda>v. (sv_submission v, sv_reviewer v)) (filter sv_active (db_assigned d)))"
    and "distinct (map (\<lambda>v. (sv_submission v, sv_position v)) (filter sv_active (db_assigned d)))"
  using assms by (auto simp: seats_ok_def list_all_iff)

lemma active_after_retire:
  "filter sv_active (where_set p (\<lambda>v. v\<lparr>sv_active := False\<rparr>) rows) = filter (\<lambda>v. \<not> p v) (filter sv_active rows)"
  by (induction rows) (auto simp: where_set_def)

lemma seats_ok_shrink:
  assumes ok: "seats_ok d" and "db_next d \<le> db_next d'"
    and rows: "\<And>v. v \<in> set (db_assigned d') \<Longrightarrow> \<exists>w \<in> set (db_assigned d). sv_submission w = sv_submission v"
    and act: "filter sv_active (db_assigned d') = filter k (filter sv_active (db_assigned d))"
    and students: "\<And>s' v. s' \<in> set (db_submissions d') \<Longrightarrow> sb_id s' < db_next d
      \<Longrightarrow> \<exists>s \<in> set (db_submissions d). sb_id s = sb_id s' \<and> sb_student s = sb_student s'"
  shows "seats_ok d'"
proof -
  have "sv_submission v < db_next d'" if "v \<in> set (db_assigned d')" for v
    using rows [OF that] seats_okD(1) [OF ok] assms(2) by force
  moreover have "(sv_position v = 1 \<or> sv_position v = 2)
      \<and> (\<forall>s' \<in> set (db_submissions d'). sb_id s' = sv_submission v \<longrightarrow> sb_student s' \<noteq> sv_reviewer v)"
    if "v \<in> set (filter sv_active (db_assigned d'))" for v
  proof -
    have v: "v \<in> set (db_assigned d)" "sv_active v" using that unfolding act by auto
    have "sb_student s' \<noteq> sv_reviewer v" if "s' \<in> set (db_submissions d')" "sb_id s' = sv_submission v" for s'
      using students [OF that(1)] seats_okD(1) [OF ok v(1)] seats_okD(3) [OF ok v] that(2) by metis
    then show ?thesis using seats_okD(2) [OF ok v] by blast
  qed
  moreover note distinct_map_filter [OF seats_okD(4) [OF ok], of k] distinct_map_filter [OF seats_okD(5) [OF ok], of k]
  ultimately show ?thesis unfolding seats_ok_def list_all_iff act by blast
qed

lemma seats_ok_frame:
  assumes "seats_ok d" and "db_assigned d' = db_assigned d" and "db_submissions d' = db_submissions d"
    and "db_next d \<le> db_next d'"
  shows "seats_ok d'"
  by (rule seats_ok_shrink [OF assms(1,4), where k = "\<lambda>_. True"]) (use assms(2,3) in auto)

lemma may_take_frame:
  "may_take d i u \<Longrightarrow> db_submissions d' = db_submissions d \<Longrightarrow> db_next d \<le> db_next d' \<Longrightarrow> may_take d' i u"
  by (auto simp: may_take_def)

lemma retire_seats_ok:
  assumes "seats_ok d"
  shows "seats_ok (retire_seats p d)"
proof (rule seats_ok_shrink [OF assms, where k = "\<lambda>v. \<not> p v"])
  show "\<exists>w \<in> set (db_assigned d). sv_submission w = sv_submission v"
    if "v \<in> set (db_assigned (retire_seats p d))" for v
    using that by (auto simp: retire_seats_def set_where_set split: if_splits)
qed (auto simp: retire_seats_def active_after_retire)

lemma insert_seat_ok:
  assumes ok: "seats_ok d" and h: "insert_seat i u pos run t d = Inr d'" and take: "may_take d i u"
  shows "seats_ok d'"
proof -
  let ?v = "\<lparr>sv_id = db_next d, sv_submission = i, sv_reviewer = u, sv_position = pos, sv_run = run,
    sv_active = True, sv_assigned_at = t\<rparr>"
  have d': "db_assigned d' = db_assigned d @ [?v]" "db_next d' = db_next d + 1" "db_submissions d' = db_submissions d"
    and pos: "pos = 1 \<or> pos = 2"
    and new: "\<And>v. v \<in> set (db_assigned d) \<Longrightarrow> sv_active v \<Longrightarrow> sv_submission v = i
      \<Longrightarrow> sv_reviewer v \<noteq> u \<and> sv_position v \<noteq> pos"
    using h by (auto simp: insert_seat_def list_ex_iff split: if_splits)
  have "(i, u) \<notin> (\<lambda>v. (sv_submission v, sv_reviewer v)) ` set (filter sv_active (db_assigned d))"
    "(i, pos) \<notin> (\<lambda>v. (sv_submission v, sv_position v)) ` set (filter sv_active (db_assigned d))"
    using new by auto
  then show ?thesis
    using ok pos take unfolding seats_ok_def d' may_take_def
    by (auto simp: list_all_iff)
qed

section \<open>Dealing out seats\<close>

lemma assign_pair_ok:
  assumes "seats_ok d" and "assign_pair e run inc d (i, u1, u2) = Inr d'"
    and "may_take d i u1" and "may_take d i u2"
  shows "seats_ok d'"
proof -
  define d1 where "d1 = (if inc then retire_seats (\<lambda>v. sv_submission v = i \<and> sv_active v) d else d)"
  obtain d2 where s: "insert_seat i u1 1 (Some run) (en_now e) d1 = Inr d2" "insert_seat i u2 2 (Some run) (en_now e) d2 = Inr d'"
    using assms(2) unfolding d1_def by (auto simp: assign_pair_def Let_def split: sum.splits)
  have d1: "seats_ok d1" "db_submissions d1 = db_submissions d" "db_next d1 = db_next d"
    using assms(1) retire_seats_ok by (simp_all add: d1_def retire_seats_def)
  have ok2: "seats_ok d2"
    by (rule insert_seat_ok [OF d1(1) s(1)]) (rule may_take_frame [OF assms(3)], use d1 in simp_all)
  have d2: "db_submissions d2 = db_submissions d" "db_next d \<le> db_next d2"
    using insert_seat_quiet [OF s(1)] d1 by (simp_all add: quiet_def)
  show ?thesis
    by (rule insert_seat_ok [OF ok2 s(2)]) (rule may_take_frame [OF assms(4) d2])
qed

lemma assign_pairs_ok:
  assumes ok: "seats_ok d" and h: "fold_res (assign_pair e run inc) d xs = Inr d'"
    and take: "\<And>i u1 u2. (i, u1, u2) \<in> set xs \<Longrightarrow> may_take d i u1 \<and> may_take d i u2"
  shows "seats_ok d'"
proof -
  have "seats_ok d' \<and> quiet d d'"
  proof (rule fold_res_inv_mem [OF h, where P = "\<lambda>q. seats_ok q \<and> quiet d q"])
    fix q x q'
    assume x: "x \<in> set xs" and q: "seats_ok q \<and> quiet d q" and s: "assign_pair e run inc q x = Inr q'"
    obtain i u1 u2 where xx: "x = (i, u1, u2)" by (cases x)
    have t: "may_take q i u1" "may_take q i u2"
      using take x may_take_frame [of d i _ q] q unfolding xx quiet_def by auto
    show "seats_ok q' \<and> quiet d q'"
      using assign_pair_ok [OF _ s [unfolded xx] t] q assign_pair_quiet [OF s] quiet_trans by blast
  qed (use ok in simp)
  then show ?thesis by blast
qed

lemma all_items_member:
  "all_items f xs = Some ys \<Longrightarrow> y \<in> set ys \<Longrightarrow> \<exists>x \<in> set xs. f x = Some y"
  by (induction xs arbitrary: ys) (auto split: option.splits)

lemma assigned_not_author:
  assumes "balance sha subs pool ex seed True = Inr plan" and "(i, u1, u2) \<in> set (pl_assignments plan)"
  shows "\<exists>s \<in> set subs. ds_id s = i \<and> ds_student s \<noteq> u1 \<and> ds_student s \<noteq> u2"
  using assms(1)
proof (rule balanceE, goal_cases)
  case (1 loads bl as)
  obtain an where "as = [] @ an"
    "\<forall>a \<in> set an. assignment_ok (sort_less submitted_before subs) (active_of pool) True a"
    using assign_all [OF 1(2) active_of_facts(2) [OF 1(1)]] by blast
  then have "assignment_ok (sort_less submitted_before subs) (active_of pool) True (i, u1, u2)"
    using assms(2) 1(3) by auto
  then show ?case by (auto simp: assignment_ok_def may_review_def)
qed

lemma item_student:
  assumes "dispatch_item d as rp s = Some x"
  shows "ds_id x = sb_id s" and "ds_student x = sb_student s"
  using assms by (auto simp: dispatch_item_def split: option.splits)

lemma may_take_other:
  assumes ok: "submissions_ok d" and s: "s \<in> set (db_submissions d)" and "u \<noteq> sb_student s"
  shows "may_take d (sb_id s) u"
  using submissions_okD(3) [OF ok s] same_row [OF ok _ s] assms(3)
  by (auto simp: may_take_def list_all_iff)

lemma build_plan_may_take:
  assumes ok: "submissions_ok d" and h: "build_plan e sd inc d = Inr (d1, plan, sch)"
    and a: "(i, u1, u2) \<in> set (pl_assignments plan)"
  shows "may_take d1 i u1 \<and> may_take d1 i u2"
proof -
  obtain c targets seed where l: "load_current_scheme e d = Inr (d1, c)"
    and t: "load_targets d1 inc = Some targets"
    and b: "balance (en_sha256 e) targets (load_pool d1) (pool_loads (load_pool d1)) seed True = Inr plan"
    using h by (auto simp: build_plan_def split: sum.splits option.splits)
  obtain x where x: "x \<in> set targets" "ds_id x = i" "ds_student x \<noteq> u1" "ds_student x \<noteq> u2"
    using assigned_not_author [OF b a] by blast
  obtain s where s: "s \<in> set (db_submissions d1)" "sb_id s = i" "sb_student s \<noteq> u1" "sb_student s \<noteq> u2"
    using all_items_member [OF t [unfolded load_targets_def] x(1)] item_student x by fastforce
  have "submissions_ok d1"
    using ok load_current_scheme_quiet [OF l] unfolding quiet_def submissions_ok_def
    by (auto simp: list_all_iff)
  then show ?thesis using may_take_other s by metis
qed

lemma quiet_submissions_ok: "quiet d d' \<Longrightarrow> submissions_ok d \<Longrightarrow> submissions_ok d'"
  by (auto simp: quiet_def submissions_ok_def list_all_iff)

lemma load_current_scheme_seats:
  "load_current_scheme e d = Inr (d', c) \<Longrightarrow> seats_ok d \<Longrightarrow> seats_ok d'"
  using load_current_scheme_quiet load_current_scheme_desk
  by (auto simp: quiet_def same_desk_def intro: seats_ok_frame)

lemma insert_dispatch_run_seats:
  "insert_dispatch_run e s sd tr n b u d = (d', run) \<Longrightarrow> seats_ok d \<Longrightarrow> seats_ok d'"
  by (auto simp: insert_dispatch_run_def intro: seats_ok_frame)

lemma audit_seats [simp]:
  "seats_ok (append_audit a x r i d) \<longleftrightarrow> seats_ok d" "seats_ok (enqueue_event k j d) \<longleftrightarrow> seats_ok d"
  "seats_ok (d\<lparr>db_audit := au\<rparr>) \<longleftrightarrow> seats_ok d"
  by (simp_all add: seats_ok_def append_audit_def enqueue_event_def)

lemma run_dispatch_ok:
  assumes so: "submissions_ok d" and ok: "seats_ok d" and h: "run_dispatch e a sd inc d = Inr (d', plan)"
  shows "seats_ok d'"
proof (rule run_dispatch_D [OF h], goal_cases)
  case (1 d1 s d2 run d3)
  have c: "submissions_ok (clear_self_seats d)" "seats_ok (clear_self_seats d)"
    using so retire_seats_ok [OF ok] quiet_submissions_ok [of d "clear_self_seats d"]
    by (simp_all add: clear_self_seats_def)
  obtain cs where l: "load_current_scheme e (clear_self_seats d) = Inr (d1, cs)"
    using 1(1) by (auto simp: build_plan_def split: sum.splits option.splits)
  have "seats_ok d2" using insert_dispatch_run_seats [OF 1(2)] load_current_scheme_seats [OF l c(2)] by simp
  then have "seats_ok d3"
  proof (rule assign_pairs_ok [OF _ 1(3)])
    fix i u1 u2 assume a: "(i, u1, u2) \<in> set (pl_assignments plan)"
    have "db_submissions d2 = db_submissions d1" "db_next d1 \<le> db_next d2"
      using insert_dispatch_run_quiet [OF 1(2)] by (simp_all add: quiet_def)
    then show "may_take d2 i u1 \<and> may_take d2 i u2"
      using build_plan_may_take [OF c(1) 1(1) a] may_take_frame by blast
  qed
  then show ?case by (simp add: 1(4))
qed

section \<open>Handing over seats\<close>

lemma picked_not_author:
  assumes "pick_one sha x pool ex seed True = Inr (Some u)"
  shows "u \<noteq> ds_student x"
proof -
  let ?c = "filter (\<lambda>r. \<not> re_paused r \<and> may_review x True r) pool"
  let ?s = "sort_less (candidate_before sha ex seed (ds_id x)) ?c"
  have u: "?c \<noteq> []" "u = re_user (?s ! 0)"
    using assms by (auto simp: pick_one_def Let_def split: sum.splits if_splits)
  have "?s ! 0 \<in> set ?s" using u(1) by (intro nth_mem) (metis length_greater_0_conv length_sort_less)
  then have "may_review x True (?s ! 0)" by auto
  then show ?thesis by (simp add: u(2) may_review_def)
qed

lemma take_over_seat_ok:
  assumes so: "submissions_ok q" and ok: "seats_ok q" and s: "s \<in> set (db_submissions q)"
    and h: "take_over_seat e q (v, s) = Inr q'"
  shows "seats_ok q'"
proof -
  consider "q' = q" | x sha pool ex seed u where "pick_one sha x pool ex seed True = Inr (Some u)"
    "ds_student x = sb_student s" "insert_seat (sb_id s) u (sv_position v) None (sv_assigned_at v)
      (retire_seats (\<lambda>w. sv_id w = sv_id v \<and> sv_active w) q) = Inr q'"
    using h by (auto simp: take_over_seat_def Let_def split: sum.splits option.splits)
  then show ?thesis
  proof cases
    case 2
    have "may_take q (sb_id s) u"
      using may_take_other [OF so s] picked_not_author [OF 2(1)] 2(2) by simp
    then show ?thesis
      using insert_seat_ok [OF retire_seats_ok [OF ok] 2(3)] by (simp add: may_take_def retire_seats_def)
  qed (use ok in simp)
qed

lemma reassign_unavailable_ok:
  assumes so: "submissions_ok d" and ok: "seats_ok d" and h: "reassign_unavailable e u d = Inr d'"
  shows "seats_ok d'"
proof -
  obtain seats where a: "all_items (\<lambda>v. case find_submission d (sv_submission v) of
        None \<Rightarrow> None | Some s \<Rightarrow> if sb_submitted_at s = None then None else Some (v, s))
      (sort_less seated_before (filter (open_seat d u) (db_assigned d))) = Some seats"
    and f: "fold_res (take_over_seat e) d seats = Inr d'"
    using h by (auto simp: reassign_unavailable_def split: option.splits)
  have "seats_ok d' \<and> quiet d d'"
  proof (rule fold_res_inv_mem [OF f, where P = "\<lambda>q. seats_ok q \<and> quiet d q"])
    fix q x q'
    assume x: "x \<in> set seats" and q: "seats_ok q \<and> quiet d q" and s: "take_over_seat e q x = Inr q'"
    obtain v sb where xx: "x = (v, sb)" by (cases x)
    have "sb \<in> set (db_submissions q)"
      using all_items_member [OF a x] q find_Some_D(1)
      unfolding xx quiet_def find_submission_def by (fastforce split: option.splits if_splits)
    then show "seats_ok q' \<and> quiet d q'"
      using take_over_seat_ok [OF _ _ _ s [unfolded xx]] q quiet_submissions_ok so
        take_over_seat_quiet [OF s] quiet_trans by blast
  qed (use ok in simp)
  then show ?thesis by blast
qed

lemma valid_target_may_take:
  assumes so: "submissions_ok d" and s: "find_submission d i = Some s" and "valid_reassign_target d i (sb_student s) u"
  shows "may_take d i u"
  using may_take_other [OF so, of s u] find_Some_D [OF s [unfolded find_submission_def]] assms(3)
  by (simp add: valid_reassign_target_def)

lemma reassign_submission_ok:
  assumes so: "submissions_ok d" and ok: "seats_ok d"
    and h: "reassign_submission e a i from to rs d = Inr (d', r)"
  shows "seats_ok d'"
proof -
  obtain d1 c where l: "load_current_scheme e d = Inr (d1, c)"
    using h by (auto simp: reassign_submission_def split: option.splits if_splits sum.splits)
  obtain v s where s: "find_submission d1 i = Some s" and t: "valid_reassign_target d1 i (sb_student s) to"
    and v: "find (\<lambda>v. sv_submission v = i \<and> sv_reviewer v = from \<and> sv_active v \<and> in_round d1 i) (db_assigned d1) = Some v"
    using h l by (auto simp: reassign_submission_def Let_def split: option.splits if_splits)
  obtain d2 run where r: "insert_dispatch_run e (ss_id c) (random_seed e) ''handover'' 1 0 (Some (ac_user a)) d1 = (d2, run)"
    by fastforce
  obtain d3 where i: "insert_seat i to (sv_position v) (Some run) (en_now e)
        (retire_seats (\<lambda>w. sv_id w = sv_id v) d2) = Inr d3"
    and d': "seats_ok d' \<longleftrightarrow> seats_ok d3"
    using h l s t v r by (auto simp: reassign_submission_def Let_def split: if_splits sum.splits option.splits)
  have so1: "submissions_ok d1" using quiet_submissions_ok [OF load_current_scheme_quiet [OF l] so] .
  have "seats_ok d2" using insert_dispatch_run_seats [OF r] load_current_scheme_seats [OF l ok] by simp
  moreover have "may_take (retire_seats (\<lambda>w. sv_id w = sv_id v) d2) i to"
    by (rule may_take_frame [OF valid_target_may_take [OF so1 s t]])
      (use insert_dispatch_run_quiet [OF r] in \<open>simp_all add: retire_seats_def quiet_def\<close>)
  ultimately show ?thesis using insert_seat_ok [OF retire_seats_ok i] d' by simp
qed

lemma plan_move_may_take:
  assumes so: "submissions_ok d" and s: "s \<in> set (db_submissions d)" "ds_id x = sb_id s" "ds_student x = sb_student s"
    and h: "plan_move e d pool from to (loads, mvs) (v, x) = Inr (loads', mvs')"
  shows "\<exists>m. mvs' = mvs @ [m] \<and> may_take d (hm_submission m) (hm_to m)"
proof -
  obtain u where u: "mvs' = mvs @ [\<lparr>hm_seat = sv_id v, hm_submission = ds_id x, hm_position = sv_position v, hm_to = u\<rparr>]"
    and ok: "valid_reassign_target d (ds_id x) (ds_student x) u \<or> (\<exists>sha pool ex seed. pick_one sha x pool ex seed True = Inr (Some u))"
    using h by (auto simp: plan_move_def Let_def split: option.splits if_splits sum.splits) blast+
  have "u \<noteq> sb_student s" using ok picked_not_author s(3) by (metis valid_reassign_target_def)
  then show ?thesis using may_take_other [OF so s(1)] s(2) u by simp
qed

lemma map_filter_member: "y \<in> set (List.map_filter f xs) \<Longrightarrow> \<exists>x \<in> set xs. f x = Some y"
  by (auto simp: List.map_filter_def)

lemma handover_dispatch_ok:
  assumes so: "submissions_ok d" and ok: "seats_ok d"
    and h: "handover_dispatch e a from to rs d = Inr (d', n, rows)"
  shows "seats_ok d'"
proof (rule handover_dispatch_D [OF h], goal_cases)
  case (1 d1 c cs after mvs)
  have so1: "submissions_ok d1" using quiet_submissions_ok [OF load_current_scheme_quiet [OF 1(1)] so] .
  have ok1: "seats_ok d1" using load_current_scheme_seats [OF 1(1) ok] .
  have mem: "s \<in> set (db_submissions d1)" if "(v, s) \<in> set (handed_seats d1 from)" for v s
    using that map_filter_member [of "(v, s)"]
    by (fastforce simp: handed_seats_def find_submission_def dest: find_Some_D(1) split: option.splits if_splits)
  have "\<forall>m \<in> set mvs. may_take d1 (hm_submission m) (hm_to m)"
  proof -
    have "\<forall>m \<in> set (snd (after, mvs)). may_take d1 (hm_submission m) (hm_to m)"
    proof (rule fold_res_inv_mem [OF 1(3), where P = "\<lambda>st. \<forall>m \<in> set (snd st). may_take d1 (hm_submission m) (hm_to m)"])
      fix st x st'
      assume x: "x \<in> set cs" and st: "\<forall>m \<in> set (snd st). may_take d1 (hm_submission m) (hm_to m)"
        and f: "plan_move e d1 (load_pool d1) from to st x = Inr st'"
      obtain v item where xx: "x = (v, item)" by (cases x)
      obtain ld ms ld' ms' where ss: "st = (ld, ms)" "st' = (ld', ms')" by (cases st, cases st')
      obtain s where "(v, s) \<in> set (handed_seats d1 from)" "dispatch_item d1 (set (active_seats d1 (sb_id s))) [] s = Some item"
        using all_items_member [OF 1(2) x] unfolding xx by auto
      then have s: "s \<in> set (db_submissions d1)" "ds_id item = sb_id s" "ds_student item = sb_student s"
        using mem item_student by simp_all
      from plan_move_may_take [OF so1 s f [unfolded xx ss]] st
      show "\<forall>m \<in> set (snd st'). may_take d1 (hm_submission m) (hm_to m)" by (auto simp: ss)
    qed simp
    then show ?thesis by simp
  qed
  note take = this
  show ?case
    using 1(4)
  proof (elim disjE exE conjE)
    fix d2 run d3
    assume i: "insert_dispatch_run e (ss_id c) (random_seed e) ''handover'' (int (length mvs)) 0
        (Some (ac_user a)) d1 = (d2, run)" and f: "fold_res (make_move e run) d2 mvs = Inr d3"
      and d': "d' = append_audit a ''dispatch.reassigned'' ''dispatch_run'' (dec_int run) d3"
    have "seats_ok d3 \<and> quiet d1 d3"
    proof (rule fold_res_inv_mem [OF f, where P = "\<lambda>q. seats_ok q \<and> quiet d1 q"])
      fix q m q'
      assume m: "m \<in> set mvs" and q: "seats_ok q \<and> quiet d1 q" and s: "make_move e run q m = Inr q'"
      obtain q1 where i: "insert_seat (hm_submission m) (hm_to m) (hm_position m) (Some run) (en_now e)
          (retire_seats (\<lambda>w. sv_id w = hm_seat m) q) = Inr q1" and q': "q' = enqueue_event ''dispatch.reassigned'' (hm_submission m) q1"
        using s by (auto simp: make_move_def split: sum.splits)
      have "may_take (retire_seats (\<lambda>w. sv_id w = hm_seat m) q) (hm_submission m) (hm_to m)"
        by (rule may_take_frame [of d1]) (use take m q in \<open>auto simp: retire_seats_def quiet_def\<close>)
      then have "seats_ok q1" using insert_seat_ok [OF retire_seats_ok i] q by blast
      then show "seats_ok q' \<and> quiet d1 q'" using q make_move_quiet [OF s] quiet_trans q' by auto
    qed (use insert_dispatch_run_seats [OF i ok1] insert_dispatch_run_quiet [OF i] in simp)
    then show "seats_ok d'" by (simp add: d')
  qed (use ok1 in simp)
qed

section \<open>The event worker\<close>

lemma auto_dispatch_D:
  assumes "auto_dispatch e ev i d = Inr d'"
  obtains "d' = d"
  | s item plan n b d2 run d3 where "find_submission d i = Some s" "ds_id item = i" "ds_student item = sb_student s"
    "balance (en_sha256 e) [item] (load_pool d) (pool_loads (load_pool d)) (event_seed (en_sha256 e) ev) True = Inr plan"
    "insert_dispatch_run e (sb_scheme_id s) (event_seed (en_sha256 e) ev) ''auto'' n b None (clear_self_seats d) = (d2, run)"
    "fold_res (assign_pair e run False) d2 (pl_assignments plan) = Inr d3" "seats_ok d' \<longleftrightarrow> seats_ok d3"
    "db_users d' = db_users d3"
proof (cases "d' = d")
  case False
  obtain s where s: "find_submission d i = Some s" using assms False
    by (auto simp: auto_dispatch_def split: if_splits option.splits)
  obtain u t where u: "find_user d (sb_student s) = Some u" "sb_submitted_at s = Some t"
    using assms False s by (auto simp: auto_dispatch_def split: if_splits option.splits)
  define item where "item = \<lparr>ds_id = i, ds_student = sb_student s, ds_title = sb_title s,
    ds_student_name = us_name u, ds_submitted_at = t, ds_reviewed_by = {}, ds_assigned = {}, ds_replaced = []\<rparr>"
  obtain plan where b: "balance (en_sha256 e) [item] (load_pool d) (pool_loads (load_pool d))
      (event_seed (en_sha256 e) ev) True = Inr plan"
    using assms False s u unfolding item_def
    by (auto simp: auto_dispatch_def Let_def split: if_splits sum.splits)
  obtain d2 run where r: "insert_dispatch_run e (sb_scheme_id s) (event_seed (en_sha256 e) ev) ''auto''
      (int (length (pl_assignments plan))) (int (length (pl_blocked plan))) None (clear_self_seats d) = (d2, run)"
    by fastforce
  obtain d3 where f: "fold_res (assign_pair e run False) d2 (pl_assignments plan) = Inr d3"
    and d': "d' = enqueue_event ''dispatch.done'' run (d3\<lparr>db_audit := db_audit d3 @ [\<lparr>au_actor = None,
        au_action = ''dispatch.completed'', au_resource = ''dispatch_run'', au_id = dec_int run\<rparr>]\<rparr>)"
    using assms False s u r b unfolding item_def
    by (auto simp: auto_dispatch_def Let_def split: if_splits sum.splits)
  show thesis
    by (rule that(2) [OF s _ _ b r f]) (simp_all add: item_def d' desk_frames)
qed

lemma auto_dispatch_ok:
  assumes so: "submissions_ok d" and ok: "seats_ok d" and h: "auto_dispatch e ev i d = Inr d'"
  shows "seats_ok d'"
  using h
proof (cases rule: auto_dispatch_D)
  case 1
  then show ?thesis using ok by simp
next
  case (2 s item plan n b d2 run d3)
  have "seats_ok d2"
    using insert_dispatch_run_seats [OF 2(5)] retire_seats_ok [OF ok] by (simp add: clear_self_seats_def)
  then have "seats_ok d3"
  proof (rule assign_pairs_ok [OF _ 2(6)])
    fix j u1 u2 assume "(j, u1, u2) \<in> set (pl_assignments plan)"
    then have a: "j = i" "sb_student s \<noteq> u1" "sb_student s \<noteq> u2"
      using assigned_not_author [OF 2(4)] 2(2,3) by auto
    have s: "s \<in> set (db_submissions d)" "sb_id s = i"
      using find_Some_D [OF 2(1) [unfolded find_submission_def]] by simp_all
    have "db_submissions d2 = db_submissions d" "db_next d \<le> db_next d2"
      using insert_dispatch_run_quiet [OF 2(5)] by (simp_all add: quiet_def clear_self_seats_def retire_seats_def)
    then show "may_take d2 j u1 \<and> may_take d2 j u2"
      using may_take_other [OF so s(1)] a s(2) may_take_frame by metis
  qed
  then show ?thesis using 2(7) by simp
qed

end
