(* ===== verification/Samples.thy ===== *)
theory Samples
  imports Requests
begin

text \<open>
  A small class to evaluate the handlers on: an administrator, two reviewers and a student,
  one published scheme with a single item scored freely between 0 and 10, and the reviewers
  the dispatch worker assigns to the first submission.
\<close>

definition sample_item :: item where
  "sample_item = \<lparr>it_key = ''i'', it_name = ''i'', it_score_rule = free_rule (Fin 0) (Fin 10),
     it_exclusive_group = [], it_cap_group = None, it_evidence = None, it_note = [], it_activities = []\<rparr>"

definition sample_config :: config where
  "sample_config = \<lparr>cf_scheme_name = ''s'', cf_version = ''v1'', cf_window = \<lparr>w_open = 0, w_close = 1, w_lockdown = None, w_publicity = None\<rparr>,
     cf_capabilities = default_capabilities, cf_weights = [(''c'', Fin 1)],
     cf_honor_roll = no_honor,
     cf_categories = [\<lparr>ca_key = ''c'', ca_name = ''c'', ca_max_total = Fin 20,
       ca_formula = None, ca_note = [], ca_base_items = [], ca_penalty_items = [],
       ca_items = [sample_item]\<rparr>]\<rparr>"

definition sample_env :: env where
  "sample_env = \<lparr>en_now = 1000000, en_year = ''2025-2026'', en_today = 0,
     en_numeric = column_of, en_sha256 = (\<lambda>b. b), en_digest = (\<lambda>_. ''facts''),
     en_candidate_digest = gc_decision,
     en_roster_digest = concat \<circ> map dec_int, en_seed = replicate 64 CHR ''a'', en_uuid = ''batch'',
     en_random = [0, 0, 0, 0, 0, 0, 0, 7], en_taken = (\<lambda>_. False)\<rparr>"

definition sample_user :: "int \<Rightarrow> string \<Rightarrow> app_user" where
  "sample_user i role = \<lparr>us_id = i, us_sid = dec_int i, us_name = dec_int i, us_role = role,
     us_status = ''active'', us_deputy = False, us_registered = True, us_paused = False,
     us_whitelist = i, us_version = 1\<rparr>"

definition sample_actor :: "int \<Rightarrow> string \<Rightarrow> actor" where
  "sample_actor i role = \<lparr>ac_user = i, ac_role = role, ac_deputy = False, ac_version = 1, ac_grant = None\<rparr>"

definition sample_class :: db where
  "sample_class =
    \<lparr>db_users = [sample_user 1 ''class_admin'', sample_user 2 ''group'', sample_user 3 ''group'',
       sample_user 4 ''student''],
     db_schemes = [\<lparr>sc_id = 9, sc_version = 1, sc_name = ''s'', sc_status = ''published'',
       sc_config = sample_config, sc_created_by = 1, sc_published_at = Some 0\<rparr>],
     db_timeline = Some \<lparr>tl_open = 0, tl_close = 4000000, tl_lockdown = None,
       tl_capabilities = default_capabilities, tl_honor_roll = no_honor, tl_college = None,
       tl_enrollment = None, tl_year = ''2025-2026'', tl_publicity_open = None,
       tl_publicity_close = None\<rparr>,
     db_submissions = [], db_evidence = [],
     db_seals = [],
     db_assigned = [\<lparr>sv_id = 51, sv_submission = 100, sv_reviewer = 2, sv_position = 1, sv_run = None,
       sv_active = True, sv_assigned_at = 0\<rparr>,
       \<lparr>sv_id = 52, sv_submission = 100, sv_reviewer = 3, sv_position = 2, sv_run = None,
       sv_active = True, sv_assigned_at = 0\<rparr>],
     db_reviews = [], db_suggestions = [], db_resolutions = [], db_base = [], db_objections = [],
     db_reports = [], db_report_reviewers = [], db_reporters = [], db_flags = [], db_batches = [], db_appeals = [], db_appeal_reviewers = [],
     db_governance = None, db_members = [], db_proposals = [], db_voters = [], db_cases = [],
     db_comments = [], db_grants = [], db_gpa = [], db_overrides = [], db_runs = [],
     db_settlement = [], db_invalidations = [], db_whitelist = [],
     db_dispatch_runs = [], db_auto = True, db_archived = False, db_next = 100, db_audit = [], db_outbox = []\<rparr>"

definition sample_claim :: submission_input where
  "sample_claim = \<lparr>in_category = ''c'', in_item = ''i'', in_title = ''t'',
     in_claim = Some \<lparr>cl_quantity = None, cl_option = [], cl_score = Some (Fin 5)\<rparr>, in_note = []\<rparr>"

definition sample_decision :: decision_input where
  "sample_decision = \<lparr>di_review = [], di_decision = ''accepted'', di_score = None, di_reason = [],
     di_spent = 30, di_suggestion = None\<rparr>"

definition sample_row :: "sub_status \<Rightarrow> points option \<Rightarrow> submission" where
  "sample_row st final = \<lparr>sb_id = 100, sb_student = 4, sb_scheme_id = 9, sb_scheme_version = 1,
     sb_category = ''c'', sb_item = ''i'', sb_filed_category = ''c'', sb_filed_item = ''i'',
     sb_title = ''t'', sb_claim = \<lparr>cl_quantity = None, cl_option = [], cl_score = Some (Fin 5)\<rparr>,
     sb_requested = Some 5000, sb_final = final, sb_status = st, sb_source = ''manual'',
     sb_snapshot = \<lparr>rs_scheme_id = 9, rs_version = ''v1'', rs_category_key = ''c'',
       rs_category_name = ''c'', rs_item = sample_item, rs_captured_at = 1000000\<rparr>,
     sb_filed_snapshot = \<lparr>rs_scheme_id = 9, rs_version = ''v1'', rs_category_key = ''c'',
       rs_category_name = ''c'', rs_item = sample_item, rs_captured_at = 1000000\<rparr>,
     sb_note = [], sb_force_rejection = None, sb_forced_score = None, sb_lock_version = 1,
     sb_submitted_at = (if st = Draft then None else Some 1000000), sb_scored_at = None,
     sb_locked_at = None, sb_updated_at = 1000000\<rparr>"

definition sample_at :: "sub_status \<Rightarrow> points option \<Rightarrow> db" where
  \<comment> \<open>the class with the student's one submission in a given state\<close>
  "sample_at st final = sample_class\<lparr>db_submissions := [sample_row st final], db_next := 101\<rparr>"

definition sample_student :: actor where "sample_student = sample_actor 4 ''student''"
definition sample_admin :: actor where "sample_admin = sample_actor 1 ''class_admin''"
definition sample_reviewer :: actor where "sample_reviewer = sample_actor 2 ''group''"

lemmas sample_defs = sample_class_def sample_env_def sample_config_def sample_item_def
  sample_user_def sample_actor_def sample_claim_def sample_decision_def sample_row_def
  sample_at_def sample_student_def sample_admin_def sample_reviewer_def

lemmas scheme_read_defs = load_current_scheme_def read_current_scheme_def latest_by_def
  timeline_load_def timeline_apply_def timeline_of_row_def publicity_of_def

lemmas capability_defs = ensure_capability_def locked_at_def capability_on_def
  default_capabilities_def ensure_not_sealed_def

lemma sample_trims:
  "trim_space ''c'' = ''c''" "trim_space ''i'' = ''i''" "trim_space ''t'' = ''t''" "trim_space [] = []"
  by code_simp+

lemma sample_points:
  "new_points (Fin 5) = 5000" "new_points (Fin 0) = 0" "new_points (Fin 10) = 10000"
  "points_float 5000 = Fin 5"
  by code_simp+

lemma sample_create:
  "handle sample_env sample_student (CreateSubmission sample_claim) sample_class
   = Inr (append_audit sample_student ''submission.draft_created'' ''submission'' (dec_int 100)
       (sample_at Draft None))"
  by (simp add: handle_def state_of_def create_submission_def scheme_read_defs capability_defs Let_def
    prepare_submission_def item_for_submission_def accepts_submissions_def requested_score_def
    score_claim_def free_rule_def imported_category_key_def sample_trims sample_points column_of_def
    append_audit_def sample_defs)

definition sample_created :: db where
  "sample_created = append_audit sample_student ''submission.draft_created'' ''submission''
     (dec_int 100) (sample_at Draft None)"

definition sample_submitted :: db where
  "sample_submitted = enqueue_event ''submission.created'' 100
     (append_audit sample_student ''submission.submitted'' ''submission'' (dec_int 100)
       (sample_created\<lparr>db_submissions := [sample_row Pending None\<lparr>sb_lock_version := 2\<rparr>]\<rparr>))"

lemma sample_submit:
  "handle sample_env sample_student (SubmitSubmission 100) sample_created = Inr sample_submitted"
  by (simp add: handle_def collective_after_def ensure_governance_case_def governance_mode_def
    submit_submission_def path_id_def load_owned_def
    own_input_def scheme_read_defs capability_defs Let_def prepare_submission_def
    item_for_submission_def accepts_submissions_def requested_score_def score_claim_def
    free_rule_def imported_category_key_def sample_trims sample_points column_of_def
    update_submissions_def sub_update_check_def sub_row_check_def where_set_def
    file_for_review_def append_audit_def enqueue_event_def sample_created_def
    sample_submitted_def sample_defs)

definition sample_rejection :: force_rejection where
  "sample_rejection = \<lparr>fr_reason = ''no'', fr_previous_score = None, fr_rejected_at = 1000000,
     fr_actor_name = ''1'', fr_self_rejected = False, fr_score = None\<rparr>"

definition sample_correction :: correction_input where
  "sample_correction = \<lparr>ci_reason = ''no'', ci_score = None, ci_previous = None\<rparr>"

definition sample_visits :: visits where
  "sample_visits = \<lparr>vs_chosen = (\<lambda>x. x), vs_groups = (\<lambda>x. x), vs_base = (\<lambda>x. x),
     vs_weights = (\<lambda>x. x), vs_keys = (\<lambda>x. x)\<rparr>"

definition sample_settled :: db where
  "sample_settled = (sample_at Scored (Some 5000))\<lparr>db_users := [sample_user 4 ''student''],
     db_seals := [\<lparr>se_id = 60, se_student = 4, se_source = ''manual'', se_sealed_at = 5,
       se_unsealed_at = None, se_unsealed_by = None, se_reason = None\<rparr>],
     db_gpa := [\<lparr>gp_student = 4, gp_scheme = 9, gp_score = 3000\<rparr>]\<rparr>"

end
