(* ===== verification/ClassInvariants.thy ===== *)
theory ClassInvariants
  imports ClassMachine
begin

text \<open>
  The appeal handlers as steps, the step relation of the whole class, and what holds in
  every reachable state: the submissions are consistent, appeals concern items that were
  scored, no student appeals a score more than twice and nobody is sealed twice.
\<close>

section \<open>The appeals table\<close>

definition appeal_key_ok :: "db \<Rightarrow> int \<times> string \<times> int \<times> string \<times> int \<times> int \<Rightarrow> bool" where
  "appeal_key_ok d k \<longleftrightarrow> (case k of (i, kind, n, type, target, student) \<Rightarrow>
     i < db_next d \<and> kind = ''student_appeal'' \<and> (n = 1 \<or> n = 2)
     \<and> (type = ''submission'' \<longrightarrow> target < db_next d
        \<and> (\<forall>s \<in> set (db_submissions d). sb_id s = target \<longrightarrow> past_review (sb_status s))))"

definition appeals_ok :: "db \<Rightarrow> bool" where
  "appeals_ok d \<longleftrightarrow> list_all (appeal_key_ok d) (map ap_key (db_appeals d))
     \<and> distinct (map (\<lambda>p. (ap_target_type p, ap_target p, ap_student p, ap_round p)) (db_appeals d))
     \<and> distinct (map ap_id (db_appeals d))"

lemma appeals_okD:
  assumes "appeals_ok d" and "p \<in> set (db_appeals d)"
  shows "ap_id p < db_next d" and "ap_round p = 1 \<or> ap_round p = 2"
    and "ap_target_type p = ''submission'' \<Longrightarrow> s \<in> set (db_submissions d) \<Longrightarrow> sb_id s = ap_target p
      \<Longrightarrow> past_review (sb_status s)"
    and "ap_target_type p = ''submission'' \<Longrightarrow> ap_target p < db_next d"
    and "ap_kind p = ''student_appeal''"
proof -
  have "appeal_key_ok d (ap_key p)" using assms by (simp add: appeals_ok_def list_all_iff)
  then have k: "ap_id p < db_next d \<and> ap_kind p = ''student_appeal'' \<and> (ap_round p = 1 \<or> ap_round p = 2)
     \<and> (ap_target_type p = ''submission'' \<longrightarrow> ap_target p < db_next d
        \<and> (\<forall>s \<in> set (db_submissions d). sb_id s = ap_target p \<longrightarrow> past_review (sb_status s)))"
    unfolding appeal_key_ok_def ap_key_def by simp
  then show "ap_id p < db_next d" and "ap_round p = 1 \<or> ap_round p = 2"
    and "ap_target_type p = ''submission'' \<Longrightarrow> s \<in> set (db_submissions d) \<Longrightarrow> sb_id s = ap_target p
      \<Longrightarrow> past_review (sb_status s)"
    and "ap_target_type p = ''submission'' \<Longrightarrow> ap_target p < db_next d"
    and "ap_kind p = ''student_appeal''" by blast+
qed

lemma appeals_ok_keys:
  assumes ok: "appeals_ok d" and keys: "map ap_key (db_appeals d') = map ap_key (db_appeals d)"
    and le: "db_next d \<le> db_next d'"
    and past: "\<And>i. i < db_next d \<Longrightarrow> \<forall>s \<in> set (db_submissions d). sb_id s = i \<longrightarrow> past_review (sb_status s)
      \<Longrightarrow> \<forall>s \<in> set (db_submissions d'). sb_id s = i \<longrightarrow> past_review (sb_status s)"
  shows "appeals_ok d'"
proof -
  have proj: "map (\<lambda>p. (ap_target_type p, ap_target p, ap_student p, ap_round p)) xs
      = map (\<lambda>(i, kind, n, ty, tg, st). (ty, tg, st, n)) (map ap_key xs)"
    "map ap_id xs = map fst (map ap_key xs)" for xs
    by (simp_all add: ap_key_def)
  have "appeal_key_ok d' k" if "appeal_key_ok d k" for k
  proof -
    obtain i kind n ty tg st where k: "k = (i, kind, n, ty, tg, st)" by (cases k)
    have o1: "i < db_next d" "kind = ''student_appeal''" "n = 1 \<or> n = 2"
      and o2: "ty = ''submission'' \<Longrightarrow> tg < db_next d"
      and o3: "ty = ''submission'' \<Longrightarrow>
        \<forall>s \<in> set (db_submissions d). sb_id s = tg \<longrightarrow> past_review (sb_status s)"
      using that unfolding appeal_key_ok_def k prod.case by blast+
    have "i < db_next d'" using o1(1) le by (rule less_le_trans)
    moreover have "ty = ''submission'' \<longrightarrow> tg < db_next d'
        \<and> (\<forall>s \<in> set (db_submissions d'). sb_id s = tg \<longrightarrow> past_review (sb_status s))"
      using past [OF o2 o3] less_le_trans [OF o2 le] by blast
    ultimately show ?thesis unfolding appeal_key_ok_def k prod.case using o1(2,3) by blast
  qed
  then show ?thesis
    using ok unfolding appeals_ok_def proj keys by (simp add: list_all_iff)
qed

lemma moves_past_review:
  assumes "moves d d'"
    and "\<forall>s \<in> set (db_submissions d). sb_id s = i \<longrightarrow> past_review (sb_status s)"
  shows "\<forall>s \<in> set (db_submissions d'). sb_id s = i \<longrightarrow> past_review (sb_status s)"
proof -
  obtain p f where sub: "db_submissions d' = where_set p f (db_submissions d)"
    and step: "\<And>s. s \<in> set (db_submissions d) \<Longrightarrow> p s \<Longrightarrow> row_step s (f s)"
    using assms(1) by (auto simp: moves_def)
  have "sb_id s = i \<longrightarrow> past_review (sb_status s)"
    if s: "s \<in> set (db_submissions d')" for s
  proof -
    obtain q where q: "q \<in> set (db_submissions d)" "s = (if p q then f q else q)"
      using s by (auto simp: sub where_set_def)
    show ?thesis
      using q step [OF q(1)] row_step_past_review [OF step [OF q(1)]] row_step_kept [OF step [OF q(1)]]
        assms(2) by (auto simp: kept_row_def split: if_splits)
  qed
  then show ?thesis by blast
qed

lemma moves_appeals_ok:
  assumes "appeals_ok d" and "moves d d'" and "map ap_key (db_appeals d') = map ap_key (db_appeals d)"
  shows "appeals_ok d'"
  by (rule appeals_ok_keys [OF assms(1,3)])
    (use assms(2) moves_past_review in \<open>auto simp: moves_def\<close>)

section \<open>The appeal handlers\<close>

lemma find_appeal_D:
  assumes "find_appeal d i = Some p"
  shows "p \<in> set (db_appeals d)" and "ap_id p = i"
  using find_Some_D [of _ "db_appeals d" p] assms by (auto simp: find_appeal_def)

lemma load_appeal_target_D:
  assumes "load_appeal_target d kind i st = Target t"
  shows "at_type t = kind" and "at_id t = i" and "at_student t = st"
    and "kind = ''submission'' \<Longrightarrow> \<exists>s. load_owned d i st = Some s \<and> at_status t = sb_status s
      \<and> at_current t = map_option points_float (sb_final s)"
proof -
  have "at_type t = kind \<and> at_id t = i \<and> at_student t = st"
  proof (cases "kind = ''submission''")
    case True
    then obtain s where "load_owned d i st = Some s"
      using assms by (auto simp: load_appeal_target_def split: option.splits)
    then show ?thesis using True assms load_owned_D(3) [of d i st s]
      by (auto simp: load_appeal_target_def)
  next
    case False
    then obtain b where b: "find (\<lambda>b. bs_id b = i \<and> bs_student b = st) (db_base d) = Some b"
      using assms by (auto simp: load_appeal_target_def split: option.splits if_splits)
    have t: "at_type t = kind \<and> at_id t = i \<and> at_student t = bs_student b"
      using assms unfolding load_appeal_target_def if_not_P [OF False] b option.case
      by (simp split: if_split_asm) (elim subst, simp)
    show ?thesis using t find_Some_D(2) [OF b] by simp
  qed
  then show "at_type t = kind" and "at_id t = i" and "at_student t = st" by auto
  show "\<exists>s. load_owned d i st = Some s \<and> at_status t = sb_status s
      \<and> at_current t = map_option points_float (sb_final s)" if "kind = ''submission''"
    using assms that by (auto simp: load_appeal_target_def split: option.splits)
qed

lemma ap_key_where_set:
  assumes "\<And>p. ap_key (f p) = ap_key p"
  shows "map ap_key (where_set q f rows) = map ap_key rows"
  using assms by (rule where_set_keys)

lemma filing_guard_D:
  assumes "filing_guard e a i x d = Inr (d1, row, t, cat, item, score)"
  obtains c where "find_appeal d i = Some row" "ap_status row = ''draft''"
    "load_current_scheme e d = Inr (d1, c)" "ap_student row = ac_user a"
    "load_appeal_target d1 (ap_target_type row) (ap_target row) (ac_user a) = Target t"
    "at_type t = ''submission'' \<Longrightarrow> at_status t \<in> {Scored, Locked}" "at_current t \<noteq> None"
    "\<not> target_in_appeal d1 t (ap_id row)"
  using assms unfolding filing_guard_def
  by (auto split: option.splits if_splits sum.splits load_target.splits prod.splits)

lemma file_appeal_draft_moves:
  assumes ok: "submissions_ok d" and h: "file_appeal_draft e a i x d = Inr (d', r)"
  shows "moves d d'" and "map ap_key (db_appeals d') = map ap_key (db_appeals d)"
    and "db_seals d' = db_seals d"
proof -
  obtain d1 row t cat item score where g: "filing_guard e a i x d = Inr (d1, row, t, cat, item, score)"
    using h by (auto simp: file_appeal_draft_def split: sum.splits)
  obtain c where row: "find_appeal d i = Some row" and l: "load_current_scheme e d = Inr (d1, c)"
    and t: "load_appeal_target d1 (ap_target_type row) (ap_target row) (ac_user a) = Target t"
    and st: "at_type t = ''submission'' \<Longrightarrow> at_status t \<in> {Scored, Locked}" and cur: "at_current t \<noteq> None"
    by (rule filing_guard_D [OF g]) blast
  obtain status rs where rt: "route_appeal d1 row t = (status, rs)" by fastforce
  note keep = load_current_scheme_keeps [OF l] and le = load_current_scheme_db(2) [OF l]
  define f where "f = (\<lambda>p. p\<lparr>ap_reason := trim_space (ay_reason x), ap_status := status,
       ap_original_score := map_option column_of (at_current t),
       ap_proposed_score := map_option column_of score,
       ap_proposed_category := Some cat, ap_proposed_item := Some item\<rparr> :: appeal_row)"
  define q :: "appeal_row \<Rightarrow> bool" where "q = (\<lambda>p. ap_id p = ap_id row \<and> ap_status p = ''draft'')"
  have fk: "ap_key (f p) = ap_key p" for p by (simp add: f_def ap_key_def)
  define d2 where "d2 = d1\<lparr>db_appeals := where_set q f (db_appeals d1),
       db_appeal_reviewers := db_appeal_reviewers d1 @ map (new_appeal_reviewer (ap_id row)) rs\<rparr>"
  have d2: "db_submissions d2 = db_submissions d1" "db_next d2 = db_next d1"
      "db_appeals d2 = where_set q f (db_appeals d1)" "db_seals d2 = db_seals d1"
    by (simp_all add: d2_def)
  obtain d3 where u: "(if at_type t = ''submission''
       then update_submissions (\<lambda>s. sb_id s = at_id t)
              (set_status e (if status = ''escalated'' then Arbitrating else Appealing)) d2
       else Inr d2) = Inr d3"
    and d': "db_submissions d' = db_submissions d3" "db_next d' = db_next d3"
      "db_appeals d' = db_appeals d3" "db_seals d' = db_seals d3"
    using h g rt unfolding file_appeal_draft_def d2_def f_def q_def
    by (simp add: Let_def split: option.splits sum.splits) (auto simp: frame_simps)
  have key: "map ap_key (db_appeals d2) = map ap_key (db_appeals d)"
    unfolding d2 keep by (rule ap_key_where_set) (rule fk)
  show "moves d d'"
  proof (cases "at_type t = ''submission''")
    case True
    with u have u': "update_submissions (\<lambda>s. sb_id s = at_id t)
              (set_status e (if status = ''escalated'' then Arbitrating else Appealing)) d2 = Inr d3" by simp
    show ?thesis
    proof (rule moves_update [OF u'])
      fix s assume s: "s \<in> set (db_submissions d)" "sb_id s = at_id t"
      obtain s' where s': "load_owned d1 (ap_target row) (ac_user a) = Some s'"
          "at_status t = sb_status s'" "at_current t = map_option points_float (sb_final s')"
        using load_appeal_target_D [OF t] True by auto
      have "s = s'"
        using same_row [OF ok s(1), of s'] load_owned_D [OF s'(1)] load_appeal_target_D(2) [OF t] s(2) keep
        by simp
      then show "row_step s (set_status e (if status = ''escalated'' then Arbitrating else Appealing) s)"
        using st [OF True] cur s' by (intro row_step.contest)
          (auto simp: set_status_def kept_row_def same_corrections_def)
    qed (use d2 d' keep le in simp_all)
  next
    case False
    then show ?thesis using u d2 d' keep le by (intro moves_same) auto
  qed
  show "map ap_key (db_appeals d') = map ap_key (db_appeals d)" and "db_seals d' = db_seals d"
    using u d' key d2 keep update_submissions_frame by (auto split: if_splits)
qed

lemma withdraw_appeal_moves:
  assumes h: "withdraw_appeal e a i d = Inr (d', r)"
  shows "moves d d'" and "map ap_key (db_appeals d') = map ap_key (db_appeals d)"
    and "db_seals d' = db_seals d"
proof -
  define f where "f = (\<lambda>p. p\<lparr>ap_status := ''draft''\<rparr> :: appeal_row)"
  define q :: "appeal_row \<Rightarrow> bool" where "q = (\<lambda>p. ap_id p = i \<and> ap_status p \<in> {''filed'', ''reviewing''})"
  have fk: "ap_key (f p) = ap_key p" for p by (simp add: f_def ap_key_def)
  define d1 where "d1 = d\<lparr>db_appeal_reviewers := delete_where (\<lambda>r. ar_appeal r = i) (db_appeal_reviewers d),
       db_appeals := where_set q f (db_appeals d)\<rparr>"
  have d1: "db_submissions d1 = db_submissions d" "db_next d1 = db_next d"
      "db_appeals d1 = where_set q f (db_appeals d)" "db_seals d1 = db_seals d"
    by (simp_all add: d1_def)
  obtain row where row: "find_appeal d i = Some row"
    using h by (auto simp: withdraw_appeal_def split: option.splits)
  have "(case (if ap_target_type row = ''submission''
        then update_submissions (\<lambda>s. sb_id s = ap_target row \<and> sb_status s = Appealing)
               (set_status e Scored) d1
        else Inr d1) of Inl err \<Rightarrow> Inl err
      | Inr d2 \<Rightarrow> Inr (invalidate_latest_settlement ''student appeal withdrawn to draft''
              (append_audit a ''appeal.withdrawn'' ''appeal'' (dec_int i) d2), ())) = Inr (d', r)"
    using h unfolding withdraw_appeal_def Let_def d1_def f_def q_def row option.case
    by (cases "path_id i"; cases "withdraw_target_check d a row";
        cases "if ap_target_type row = ''submission'' then workflow_check d (ap_target row) else None")
      (simp_all only: option.case split: if_split_asm, simp_all)
  then obtain d2 where u: "(if ap_target_type row = ''submission''
        then update_submissions (\<lambda>s. sb_id s = ap_target row \<and> sb_status s = Appealing)
               (set_status e Scored) d1
        else Inr d1) = Inr d2"
    and eq: "d' = invalidate_latest_settlement ''student appeal withdrawn to draft''
              (append_audit a ''appeal.withdrawn'' ''appeal'' (dec_int i) d2)"
    by (auto split: sum.splits)
  have d': "db_submissions d' = db_submissions d2" "db_next d' = db_next d2"
      "db_appeals d' = db_appeals d2" "db_seals d' = db_seals d2"
    unfolding eq by (simp_all add: frame_simps)
  have key: "map ap_key (db_appeals d1) = map ap_key (db_appeals d)"
    unfolding d1 by (rule ap_key_where_set) (rule fk)
  show "moves d d'"
  proof (cases "ap_target_type row = ''submission''")
    case True
    with u have u': "update_submissions (\<lambda>s. sb_id s = ap_target row \<and> sb_status s = Appealing)
               (set_status e Scored) d1 = Inr d2" by simp
    show ?thesis
      by (rule moves_update [OF u']) (use d1 d' in \<open>auto intro!: row_step.retract
        simp: set_status_def kept_row_def same_corrections_def\<close>)
  next
    case False
    then show ?thesis using u d1 d' by (intro moves_same) auto
  qed
  show "map ap_key (db_appeals d') = map ap_key (db_appeals d)" and "db_seals d' = db_seals d"
    using u d' key d1 update_submissions_frame by (auto split: if_splits)
qed

lemma ensure_appeal_draft_D:
  assumes "ensure_appeal_draft e a batch kind i d = Inr (d', n, new)"
  obtains "d' = d"
  | d1 t pr k p where "prepare_appeal_draft e a kind i d = Inr (d1, t, pr, k)"
    "db_submissions d' = db_submissions d1" "db_next d' = db_next d1 + 1" "db_seals d' = db_seals d1"
    "db_appeals d' = db_appeals d1 @ [p]"
    "ap_key p = (db_next d1, ''student_appeal'', k, kind, i, ac_user a)"
    "\<not> list_ex (\<lambda>p. ap_round p = k) (student_appeals d1 kind i (ac_user a))"
proof (cases "latest_by ap_id (filter (\<lambda>p. ap_status p = ''draft'') (student_appeals d kind i (ac_user a)))")
  case None
  obtain d1 t pr k where p: "prepare_appeal_draft e a kind i d = Inr (d1, t, pr, k)"
    using assms None by (auto simp: ensure_appeal_draft_def split: sum.splits)
  have ex: "\<not> list_ex (\<lambda>p. ap_round p = k) (student_appeals d1 kind i (ac_user a))"
    and rc: "reopen_check d1 t = None"
    using assms None p by (auto simp: ensure_appeal_draft_def split: if_split_asm option.splits)
  show thesis
    using assms None p ex rc
    by (intro that(2) [OF p, where p = "last (db_appeals d')"])
      (auto simp: ensure_appeal_draft_def Let_def ap_key_def)
next
  case (Some x)
  then show thesis using assms by (intro that(1)) (simp add: ensure_appeal_draft_def)
qed

lemma prepare_appeal_draft_D:
  assumes "prepare_appeal_draft e a kind i d = Inr (d1, t, pr, k)"
  obtains c where "load_current_scheme e d = Inr (d1, c)"
    "load_appeal_target d1 kind i (ac_user a) = Target t"
    "at_type t = ''submission'' \<Longrightarrow> at_status t \<in> {Scored, Locked}" "k = 1 \<or> k = 2"
  using assms unfolding prepare_appeal_draft_def
  by (auto simp: Let_def next_student_appeal_round_def
    split: sum.splits if_splits load_target.splits option.splits)

lemma distinct_snoc_map:
  "distinct (map g (xs @ [x])) \<longleftrightarrow> distinct (map g xs) \<and> (\<forall>y \<in> set xs. g y \<noteq> g x)"
  by (auto simp: image_iff)

lemma ensure_appeal_draft_ok:
  assumes ok: "submissions_ok d" and ap: "appeals_ok d"
    and h: "ensure_appeal_draft e a batch kind i d = Inr (d', n, new)"
  shows "db_submissions d' = db_submissions d" and "db_next d \<le> db_next d'"
    and "db_seals d' = db_seals d" and "appeals_ok d'"
proof -
  have "db_submissions d' = db_submissions d \<and> db_next d \<le> db_next d'
    \<and> db_seals d' = db_seals d \<and> appeals_ok d'"
  proof (rule ensure_appeal_draft_D [OF h], goal_cases)
    case 1
    then show ?case using ap by simp
  next
    case (2 d1 t pr k p)
    obtain c where l: "load_current_scheme e d = Inr (d1, c)"
      and t: "load_appeal_target d1 kind i (ac_user a) = Target t"
      and st: "at_type t = ''submission'' \<Longrightarrow> at_status t \<in> {Scored, Locked}" and k: "k = 1 \<or> k = 2"
      by (rule prepare_appeal_draft_D [OF 2(1)]) blast
    note keep = load_current_scheme_keeps [OF l] and le = load_current_scheme_db(2) [OF l]
    have ap1: "appeals_ok d1" by (rule appeals_ok_keys [OF ap]) (use keep le in auto)
    have past: "\<forall>s \<in> set (db_submissions d'). sb_id s = i \<longrightarrow> past_review (sb_status s)"
      and lt: "i < db_next d1" if sub: "kind = ''submission''"
    proof -
      obtain s where s: "load_owned d1 i (ac_user a) = Some s" "at_status t = sb_status s"
        using load_appeal_target_D(4) [OF t sub] by blast
      note sd = load_owned_D [OF s(1)]
      have in_d: "s \<in> set (db_submissions d)" using sd(1) keep by simp
      show "\<forall>s \<in> set (db_submissions d'). sb_id s = i \<longrightarrow> past_review (sb_status s)"
      proof (intro ballI impI)
        fix q assume "q \<in> set (db_submissions d')" "sb_id q = i"
        then have "q = s" using same_row [OF ok, of q s] 2(2) keep in_d sd(2) by simp
        then show "past_review (sb_status q)"
          using st load_appeal_target_D(1) [OF t] sub s(2) by (auto simp: past_review_def)
      qed
      show "i < db_next d1" using submissions_okD(3) [OF ok in_d] sd(2) le by simp
    qed
    have key: "appeal_key_ok d' (ap_key p)"
      unfolding appeal_key_ok_def 2(6) prod.case using 2(3) k past lt by auto
    have old: "appeal_key_ok d' (ap_key q)" if "q \<in> set (db_appeals d1)" for q
    proof -
      have "list_all (appeal_key_ok d') (map ap_key (db_appeals d1))"
        using appeals_ok_keys [OF ap1, of "d'\<lparr>db_appeals := db_appeals d1\<rparr>"] 2(2,3) keep
        by (simp add: appeals_ok_def appeal_key_ok_def [abs_def])
      then show ?thesis using that by (simp add: list_all_iff)
    qed
    have fresh: "ap_id q \<noteq> ap_id p" if "q \<in> set (db_appeals d1)" for q
      using appeals_okD(1) [OF ap1 that] 2(6) by (simp add: ap_key_def)
    have new: "(ap_target_type q, ap_target q, ap_student q, ap_round q)
        \<noteq> (ap_target_type p, ap_target p, ap_student p, ap_round p)" if q: "q \<in> set (db_appeals d1)" for q
      using 2(6,7) q appeals_okD(5) [OF ap1 q]
      by (auto simp: ap_key_def student_appeals_def list_ex_iff)
    have "list_all (appeal_key_ok d') (map ap_key (db_appeals d'))"
      using key old by (auto simp: 2(5) list_all_iff)
    moreover have "distinct (map (\<lambda>p. (ap_target_type p, ap_target p, ap_student p, ap_round p))
        (db_appeals d1 @ [p]))"
      using ap1 new unfolding appeals_ok_def
      by (simp only: distinct_snoc_map simp_thms) blast
    moreover have "distinct (map ap_id (db_appeals d1 @ [p]))"
      using ap1 fresh unfolding appeals_ok_def
      by (simp only: distinct_snoc_map simp_thms) blast
    ultimately have "appeals_ok d'" unfolding appeals_ok_def 2(5) by blast
    then show ?case using 2(2,3,4) keep le by simp
  qed
  then show "db_submissions d' = db_submissions d" and "db_next d \<le> db_next d'"
    and "db_seals d' = db_seals d" and "appeals_ok d'" by auto
qed

lemma delete_appeal_draft_ok:
  assumes ap: "appeals_ok d" and h: "delete_appeal_draft a i d = Inr (d', r)"
  shows "db_submissions d' = db_submissions d" and "db_next d' = db_next d"
    and "db_seals d' = db_seals d" and "appeals_ok d'"
proof -
  have eq: "db_submissions d' = db_submissions d" "db_next d' = db_next d" "db_seals d' = db_seals d"
    "db_appeals d' = delete_where (\<lambda>p. ap_id p = i \<and> ap_status p = ''draft'') (db_appeals d)"
    using h by (auto simp: delete_appeal_draft_def Let_def frame_simps split: option.splits if_splits)
  then show "db_submissions d' = db_submissions d" and "db_next d' = db_next d"
    and "db_seals d' = db_seals d" by auto
  have "appeal_key_ok d' = appeal_key_ok d" using eq by (simp add: appeal_key_ok_def fun_eq_iff)
  then show "appeals_ok d'"
    using ap eq unfolding appeals_ok_def delete_where_def
    by (auto simp: list_all_iff distinct_map_filter)
qed

lemma apply_appeal_outcome_D:
  assumes h: "apply_appeal_outcome e a row t out basis d = Inr d'"
  shows "map ap_key (db_appeals d') = map ap_key (db_appeals d)" and "db_seals d' = db_seals d"
    and "(\<forall>s \<in> set (db_submissions d). at_type t = ''submission'' \<longrightarrow> sb_id s = at_id t
        \<longrightarrow> past_review (sb_status s)) \<Longrightarrow> moves d d'"
    and "db_appeals d' = db_appeals d"
proof -
  show ap: "db_appeals d' = db_appeals d" and "db_seals d' = db_seals d"
    using h update_submissions_frame
    by (auto simp: apply_appeal_outcome_def apply_appeal_score_def Let_def frame_simps
      split: if_splits option.splits sum.splits)
  then show "map ap_key (db_appeals d') = map ap_key (db_appeals d)" by simp
  assume past: "\<forall>s \<in> set (db_submissions d). at_type t = ''submission'' \<longrightarrow> sb_id s = at_id t
        \<longrightarrow> past_review (sb_status s)"
  show "moves d d'"
  proof (cases "at_type t = ''submission''")
    case False
    then show ?thesis using h
      by (intro moves_same) (auto simp: apply_appeal_outcome_def apply_appeal_score_def frame_simps)
  next
    case True
    then obtain after d1 d2 where u: "update_submissions (\<lambda>s. sb_id s = at_id t)
         (\<lambda>s. s\<lparr>sb_category := ao_category out, sb_item := ao_item out,
            sb_snapshot := after, sb_final := Some (column_of (ao_score out)),
            sb_status := Scored, sb_scored_at := Some (en_now e),
            sb_updated_at := en_now e, sb_lock_version := sb_lock_version s + 1\<rparr>) d1 = Inr d2"
      and d1: "db_submissions d1 = db_submissions d" "db_next d1 = db_next d + 1"
      and d': "db_submissions d' = db_submissions d2" "db_next d' = db_next d2"
      using h by (auto simp: apply_appeal_outcome_def Let_def frame_simps
        split: option.splits sum.splits)
    show ?thesis
      by (rule moves_update [OF u])
        (use d1 d' past True in \<open>auto intro!: row_step.decide simp: kept_row_def same_corrections_def\<close>)
  qed
qed

lemma appeal_target_past_review:
  assumes "appeals_ok d" and "row \<in> set (db_appeals d)"
    and "load_appeal_target d (ap_target_type row) (ap_target row) st = Target t"
  shows "\<forall>s \<in> set (db_submissions d). at_type t = ''submission'' \<longrightarrow> sb_id s = at_id t
    \<longrightarrow> past_review (sb_status s)"
  using appeals_okD(3) [OF assms(1,2)] load_appeal_target_D(1,2) [OF assms(3)] by auto

lemma settle_rereview_D:
  assumes h: "settle_rereview e a i row t fin cf d = Inr d'"
    and past: "\<forall>s \<in> set (db_submissions d). at_type t = ''submission'' \<longrightarrow> sb_id s = at_id t
        \<longrightarrow> past_review (sb_status s)"
  shows "map ap_key (db_appeals d') = map ap_key (db_appeals d)" and "db_seals d' = db_seals d"
    and "moves d d'"
proof -
  have "map ap_key (db_appeals d') = map ap_key (db_appeals d) \<and> db_seals d' = db_seals d \<and> moves d d'"
  proof (cases fin)
    case (Some out)
    define f where "f = (\<lambda>p. p\<lparr>ap_status := ''resolved'',
                 ap_resolution_score := Some (column_of (ao_score out)),
                 ap_resolution_category := Some (ao_category out),
                 ap_resolution_item := Some (ao_item out),
                 ap_resolution_snapshot := ao_snapshot out,
                 ap_resolution_reason := Some (join_reasons (map (\<lambda>r. text_of (ar_reason r))
                   (filter (\<lambda>r. ar_reason r \<noteq> None) (panel_of d i)))),
                 ap_resolved_at := Some (en_now e)\<rparr> :: appeal_row)"
    define q :: "appeal_row \<Rightarrow> bool" where "q = (\<lambda>p. ap_id p = i)"
    define d1 where d1: "d1 = d\<lparr>db_appeals := where_set q f (db_appeals d)\<rparr>"
    have f: "ap_key (f p) = ap_key p" for p by (simp add: f_def ap_key_def)
    have "(case apply_appeal_outcome e a row t out agreed_basis d1 of Inl err \<Rightarrow> Inl err
       | Inr d2 \<Rightarrow> Inr (invalidate_latest_settlement
          ''first appeal reconsideration changed a score'' d2)) = Inr d'"
      using h unfolding Some settle_rereview_def Let_def option.case d1 f_def q_def .
    then obtain d2 where ap: "apply_appeal_outcome e a row t out agreed_basis d1 = Inr d2"
      and d': "d' = invalidate_latest_settlement ''first appeal reconsideration changed a score'' d2"
      by (auto split: sum.splits)
    have m: "moves d1 d2" by (rule apply_appeal_outcome_D(3) [OF ap]) (use past d1 in simp)
    have "moves d d'" using m unfolding moves_def d1 d' by (simp add: frame_simps)
    moreover have "map ap_key (db_appeals d') = map ap_key (db_appeals d)"
      unfolding d' using apply_appeal_outcome_D(1) [OF ap] ap_key_where_set [OF f]
      by (simp add: d1 frame_simps)
    ultimately show ?thesis using apply_appeal_outcome_D(2) [OF ap] d1 d' by (simp add: frame_simps)
  next
    case None
    show ?thesis
    proof (cases cf)
      case False
      then show ?thesis using h None by (auto simp: settle_rereview_def intro: moves_same)
    next
      case True
      define d1 where "d1 = d\<lparr>db_appeals := where_set (\<lambda>p. ap_id p = i) (\<lambda>p. p\<lparr>ap_status := ''escalated'',
                 ap_resolution_score := None, ap_resolution_reason := Some escalated_reason\<rparr>)
               (db_appeals d)\<rparr>"
      have u: "(if at_type t = ''submission''
         then update_submissions (\<lambda>s. sb_id s = at_id t) (set_status e Arbitrating) d1 else Inr d1) = Inr d'"
        using h None True unfolding settle_rereview_def Let_def d1_def
        by (cases "reopen_check d t") (simp_all add: d1_def)
      have key: "map ap_key (db_appeals d1) = map ap_key (db_appeals d)"
        unfolding d1_def by (simp add: ap_key_where_set ap_key_def)
      show ?thesis
      proof (cases "at_type t = ''submission''")
        case sub: True
        with u have u': "update_submissions (\<lambda>s. sb_id s = at_id t) (set_status e Arbitrating) d1 = Inr d'" by simp
        have "moves d d'"
          by (rule moves_update [OF u']) (use past sub d1_def in \<open>auto intro!: row_step.escalate
             simp: set_status_def kept_row_def same_corrections_def\<close>)
        then show ?thesis using key update_submissions_frame [OF u'] by (simp add: d1_def)
      next
        case False
        then show ?thesis using u key by (auto simp: d1_def intro: moves_same)
      qed
    qed
  qed
  then show "map ap_key (db_appeals d') = map ap_key (db_appeals d)" and "db_seals d' = db_seals d"
    and "moves d d'" by auto
qed

lemma rereview_guard_D:
  assumes "rereview_guard e a i x d = Inr (d1, row, t, out)"
  obtains c where "find_appeal d i = Some row" "load_current_scheme e d = Inr (d1, c)"
    "load_appeal_target d1 (ap_target_type row) (ap_target row) (ap_student row) = Target t"
    "ap_status row = ''reviewing''" "ac_user a \<noteq> ap_student row"
    "resolve_appeal_outcome e d1 row t x = Some out"
proof -
  obtain row' where row: "find_appeal d i = Some row'"
    using assms by (auto simp: rereview_guard_def split: option.splits)
  obtain r where r: "find (\<lambda>r. ar_appeal r = i \<and> ar_reviewer r = ac_user a) (db_appeal_reviewers d) = Some r"
    using assms row by (auto simp: rereview_guard_def split: option.splits if_splits)
  show thesis
    using assms row r that unfolding rereview_guard_def
    by (simp split: if_split_asm sum.splits load_target.splits option.splits prod.splits)
qed

lemma decide_first_appeal_moves:
  assumes ap: "appeals_ok d" and h: "decide_first_appeal e a i x d = Inr (d', r)"
  shows "moves d d'" and "map ap_key (db_appeals d') = map ap_key (db_appeals d)"
    and "db_seals d' = db_seals d"
proof -
  obtain d1 row t out where g: "rereview_guard e a i x d = Inr (d1, row, t, out)"
    using h by (auto simp: decide_first_appeal_def split: option.splits sum.splits)
  obtain c where row: "find_appeal d i = Some row" and l: "load_current_scheme e d = Inr (d1, c)"
    and t: "load_appeal_target d1 (ap_target_type row) (ap_target row) (ap_student row) = Target t"
    by (rule rereview_guard_D [OF g]) blast
  note keep = load_current_scheme_keeps [OF l] and le = load_current_scheme_db(2) [OF l]
  have ap1: "appeals_ok d1" by (rule appeals_ok_keys [OF ap]) (use keep le in auto)
  have past: "\<forall>s \<in> set (db_submissions d1). at_type t = ''submission'' \<longrightarrow> sb_id s = at_id t
    \<longrightarrow> past_review (sb_status s)"
    by (rule appeal_target_past_review [OF ap1 _ t]) (use find_appeal_D(1) [OF row] keep in simp)
  define d2 where "d2 = record_rereview e a i x out d1"
  have d2: "db_submissions d2 = db_submissions d1" "db_next d2 = db_next d1"
    "db_appeals d2 = db_appeals d1" "db_seals d2 = db_seals d1"
    by (simp_all add: d2_def record_rereview_def)
  obtain st fin cf d3 where s: "settle_rereview e a i row t fin cf d2 = Inr d3"
    and d': "db_submissions d' = db_submissions d3" "db_next d' = db_next d3"
      "db_appeals d' = db_appeals d3" "db_seals d' = db_seals d3"
    using h g unfolding d2_def
    by (auto simp: decide_first_appeal_def Let_def frame_simps
      split: option.splits sum.splits prod.splits)
  note sd = settle_rereview_D [OF s]
  have m: "moves d2 d3" by (rule sd(3)) (use past d2 in simp)
  show "moves d d'" using m d2 d' keep le unfolding moves_def by simp
  show "map ap_key (db_appeals d') = map ap_key (db_appeals d)"
    using sd(1) past d2 d' keep by simp
  show "db_seals d' = db_seals d" using sd(2) past d2 d' keep by simp
qed

lemma finalize_appeal_D:
  assumes h: "finalize_appeal e a i x d = Inr (d', r)"
  obtains row d1 c t out d2 where "find_appeal d i = Some row" "open_status (ap_status row)"
    "load_current_scheme e d = Inr (d1, c)" "authorize_adjudication d1 a (ap_student row) = None"
    "load_appeal_target d1 (ap_target_type row) (ap_target row) (ap_student row) = Target t"
    "resolve_appeal_outcome e d1 row t x = Some out" "r = ao_score out"
    "apply_appeal_outcome e a row t out (trim_space (rq_reason x)) d1 = Inr d2"
    "d' = invalidate_latest_settlement ''appeal or objection finalization changed a score''
       (enqueue_event ''arbitration.resolved'' i (enqueue_event ''appeal.resolved'' i
         (append_audit a ''appeal.final'' ''appeal'' (dec_int i)
           (d2\<lparr>db_appeals := where_set (\<lambda>p. ap_id p = i) (\<lambda>p. p\<lparr>
              ap_status := ''final'', ap_handler := Some (ac_user a),
              ap_resolution_score := Some (column_of (ao_score out)),
              ap_resolution_category := Some (ao_category out),
              ap_resolution_item := Some (ao_item out),
              ap_resolution_snapshot := ao_snapshot out,
              ap_resolution_reason := Some (trim_space (rq_reason x)),
              ap_resolved_at := Some (en_now e)\<rparr>) (db_appeals d2)\<rparr>))))"
proof -
  obtain row where row: "find_appeal d i = Some row"
    using h by (auto simp: finalize_appeal_def split: option.splits)
  obtain d1 c where l: "load_current_scheme e d = Inr (d1, c)"
    using h row by (auto simp: finalize_appeal_def split: option.splits sum.splits if_splits)
  obtain t where t: "load_appeal_target d1 (ap_target_type row) (ap_target row) (ap_student row) = Target t"
    using h row l by (auto simp: finalize_appeal_def split: option.splits if_split_asm load_target.splits)
  obtain out where out: "resolve_appeal_outcome e d1 row t x = Some out"
    using h row l t by (auto simp: finalize_appeal_def split: option.splits if_split_asm)
  obtain d2 where d2: "apply_appeal_outcome e a row t out (trim_space (rq_reason x)) d1 = Inr d2"
    using h row l t out by (auto simp: finalize_appeal_def split: option.splits if_split_asm sum.splits)
  note res = h [unfolded finalize_appeal_def Let_def row option.case l sum.case t load_target.case
      out d2 prod.case]
  have op: "open_status (ap_status row)" and au: "authorize_adjudication d1 a (ap_student row) = None"
    and r: "r = ao_score out"
    using res by (simp_all split: option.splits if_split_asm)
  show thesis
  proof (rule that [OF row op l au t out r d2], goal_cases)
    case 1
    show ?case using res by (auto split: option.splits if_split_asm)
  qed
qed

lemma finalize_appeal_moves:
  assumes ap: "appeals_ok d" and h: "finalize_appeal e a i x d = Inr (d', r)"
  shows "moves d d'" and "map ap_key (db_appeals d') = map ap_key (db_appeals d)"
    and "db_seals d' = db_seals d"
proof -
  define f :: "appeal_outcome \<Rightarrow> appeal_row \<Rightarrow> appeal_row"
    where "f = (\<lambda>out p. p\<lparr>ap_status := ''final'', ap_handler := Some (ac_user a),
              ap_resolution_score := Some (column_of (ao_score out)),
              ap_resolution_category := Some (ao_category out),
              ap_resolution_item := Some (ao_item out),
              ap_resolution_snapshot := ao_snapshot out,
              ap_resolution_reason := Some (trim_space (rq_reason x)),
              ap_resolved_at := Some (en_now e)\<rparr>)"
  obtain row d1 c t out d2 where row: "find_appeal d i = Some row"
    and l: "load_current_scheme e d = Inr (d1, c)"
    and t: "load_appeal_target d1 (ap_target_type row) (ap_target row) (ap_student row) = Target t"
    and o': "apply_appeal_outcome e a row t out (trim_space (rq_reason x)) d1 = Inr d2"
    and d': "d' = invalidate_latest_settlement ''appeal or objection finalization changed a score''
       (enqueue_event ''arbitration.resolved'' i (enqueue_event ''appeal.resolved'' i
         (append_audit a ''appeal.final'' ''appeal'' (dec_int i)
           (d2\<lparr>db_appeals := where_set (\<lambda>p. ap_id p = i) (f out) (db_appeals d2)\<rparr>))))"
    unfolding f_def by (rule finalize_appeal_D [OF h]) blast
  note keep = load_current_scheme_keeps [OF l] and le = load_current_scheme_db(2) [OF l]
  have ap1: "appeals_ok d1" by (rule appeals_ok_keys [OF ap]) (use keep le in auto)
  have past: "\<forall>s \<in> set (db_submissions d1). at_type t = ''submission'' \<longrightarrow> sb_id s = at_id t
    \<longrightarrow> past_review (sb_status s)"
    by (rule appeal_target_past_review [OF ap1 _ t]) (use find_appeal_D(1) [OF row] keep in simp)
  have eq: "db_submissions d' = db_submissions d2" "db_next d' = db_next d2" "db_seals d' = db_seals d2"
    "db_appeals d' = where_set (\<lambda>p. ap_id p = i) (f out) (db_appeals d2)"
    unfolding d' by (simp_all add: frame_simps)
  have "moves d1 d2" by (rule apply_appeal_outcome_D(3) [OF o' past])
  then show "moves d d'" using eq keep le unfolding moves_def by simp
  have "ap_key (f out p) = ap_key p" for p by (simp add: f_def ap_key_def)
  then show "map ap_key (db_appeals d') = map ap_key (db_appeals d)"
    unfolding eq using apply_appeal_outcome_D(1) [OF o'] keep by (simp add: ap_key_where_set)
  show "db_seals d' = db_seals d" using eq apply_appeal_outcome_D(2) [OF o'] keep by simp
qed

end
