(* ===== verification/ClassSteps.thy ===== *)
theory ClassSteps
  imports ClassInvariants Requests
begin

text \<open>
  Every request as a step of the class: what it does to the submissions, the appeals and the
  seals, and the states that sequences of requests reach.
\<close>

section \<open>Frames of the student's own requests\<close>

lemma update_submission_frame:
  assumes h: "update_submission e a i x d = Inr (d', r)"
  shows "db_appeals d' = db_appeals d" "db_seals d' = db_seals d"
    and "ensure_not_sealed d (ac_user a)"
proof -
  obtain c d1 where l: "load_current_scheme e d = Inr (d1, c)"
    using h by (auto simp: update_submission_def split: option.splits sum.splits if_splits)
  obtain p d2 where u: "update_submissions (\<lambda>s. sb_id s = i)
        (refile e p (trim_space (in_title x)) (in_note x)) d1 = Inr d2"
    and d': "d' = append_audit a ''submission.updated'' ''submission'' (dec_int i) d2"
    and ns: "ensure_not_sealed d1 (ac_user a)"
    using h l by (auto simp: update_submission_def split: option.splits sum.splits if_splits)
  show "db_appeals d' = db_appeals d" "db_seals d' = db_seals d"
    using update_submissions_frame [OF u] load_current_scheme_keeps [OF l] by (simp_all add: d' frame_simps)
  show "ensure_not_sealed d (ac_user a)"
    using ns load_current_scheme_keeps [OF l] by (simp add: ensure_not_sealed_def)
qed

lemma withdraw_submission_frame:
  assumes h: "withdraw_submission e a i d = Inr (d', r)"
  shows "db_appeals d' = db_appeals d" "db_seals d' = db_seals d"
    and "d' = d \<or> ensure_not_sealed d (ac_user a)"
proof -
  have "d' = d \<or> ensure_not_sealed d (ac_user a) \<and> (\<exists>p f d2. update_submissions p f d = Inr d2
      \<and> d' = append_audit a ''submission.withdrawn'' ''submission'' (dec_int i) d2)"
    using h by (auto simp: withdraw_submission_def split: option.splits sum.splits if_splits)
  then show "db_appeals d' = db_appeals d" "db_seals d' = db_seals d"
    and "d' = d \<or> ensure_not_sealed d (ac_user a)"
    using update_submissions_frame by (auto simp: frame_simps)
qed

lemma submit_submission_frame:
  assumes h: "submit_submission e a i d = Inr (d', r)"
  shows "db_appeals d' = db_appeals d" "db_seals d' = db_seals d"
    and "d' = d \<or> ensure_not_sealed d (ac_user a)"
proof -
  consider "d' = d" | d1 c p d2 where "load_current_scheme e d = Inr (d1, c)" "ensure_not_sealed d1 (ac_user a)"
    "update_submissions (\<lambda>q. sb_id q = i \<and> sb_status q = Draft) (file_for_review e p) d1 = Inr d2"
    "db_appeals d' = db_appeals d2" "db_seals d' = db_seals d2"
    using h by (auto simp: submit_submission_def frame_simps
      split: option.splits if_splits sum.splits prod.splits)
  then have "db_appeals d' = db_appeals d \<and> db_seals d' = db_seals d
    \<and> (d' = d \<or> ensure_not_sealed d (ac_user a))"
  proof cases
    case 2
    then show ?thesis
      using update_submissions_frame [OF 2(3)] load_current_scheme_keeps [OF 2(1)]
      by (simp add: ensure_not_sealed_def)
  qed simp
  then show "db_appeals d' = db_appeals d" "db_seals d' = db_seals d"
    and "d' = d \<or> ensure_not_sealed d (ac_user a)" by auto
qed

lemma create_submission_frame:
  assumes h: "create_submission e a x d = Inr (d', r)"
  shows "db_appeals d' = db_appeals d" "db_seals d' = db_seals d"
proof -
  obtain d1 c where l: "load_current_scheme e d = Inr (d1, c)"
    using h by (auto simp: create_submission_def split: sum.splits)
  then show "db_appeals d' = db_appeals d" "db_seals d' = db_seals d"
    using h load_current_scheme_keeps [OF l]
    by (auto simp: create_submission_def Let_def frame_simps split: sum.splits if_splits)
qed

section \<open>Arbitration and the timeline\<close>

lemma arbitration_guard_D:
  assumes "arbitration_guard e a g i x d = Inr (d1, s, t, score)"
  obtains c where "load_current_scheme e d = Inr (d1, c)" "find_submission d1 i = Some s"
    "arbitrable d1 i (sb_status s)" "authorize_adjudication d1 a (sb_student s) = None"
  using assms unfolding arbitration_guard_def Let_def
  by (auto split: option.splits sum.splits if_splits)

lemma finish_escalated_frame:
  "db_submissions (finish_escalated e a l t sc r d) = db_submissions d"
  "db_next (finish_escalated e a l t sc r d) = db_next d"
  "db_seals (finish_escalated e a l t sc r d) = db_seals d"
  "map ap_key (db_appeals (finish_escalated e a l t sc r d)) = map ap_key (db_appeals d)"
  by (auto simp: finish_escalated_def frame_simps ap_key_def where_set_def split: option.splits)

lemma arbitrate_submission_moves:
  assumes ok: "submissions_ok d" and h: "arbitrate_submission e a g org i x d = Inr (d', r)"
  shows "moves d d'" and "map ap_key (db_appeals d') = map ap_key (db_appeals d)"
    and "db_seals d' = db_seals d"
proof -
  obtain d1 s t score where gd: "arbitration_guard e a g i x d = Inr (d1, s, t, score)"
    using h by (auto simp: arbitrate_submission_def split: sum.splits)
  obtain c where l: "load_current_scheme e d = Inr (d1, c)" and s: "find_submission d1 i = Some s"
    and ar: "arbitrable d1 i (sb_status s)"
    by (rule arbitration_guard_D [OF gd]) blast
  note keep = load_current_scheme_keeps [OF l] and le = load_current_scheme_db(2) [OF l]
  define f :: "submission \<Rightarrow> submission" where "f = (\<lambda>q. q\<lparr>sb_category := ca_key (ct_category t),
     sb_item := it_key (ct_item t), sb_snapshot := ct_snapshot t, sb_final := Some (column_of score),
     sb_status := Scored, sb_scored_at := Some (en_now e), sb_updated_at := en_now e,
     sb_lock_version := sb_lock_version q + 1\<rparr>)"
  obtain d2 d3 where u: "update_submissions (\<lambda>q. sb_id q = i) f d2 = Inr d3"
    and d2: "db_submissions d2 = db_submissions d1" "db_next d2 = db_next d1 + 1"
      "db_appeals d2 = db_appeals d1" "db_seals d2 = db_seals d1"
    and d': "db_submissions d' = db_submissions d3" "db_next d' = db_next d3"
      "map ap_key (db_appeals d') = map ap_key (db_appeals d3)" "db_seals d' = db_seals d3"
    using h gd unfolding f_def
    by (auto simp: arbitrate_submission_def Let_def frame_simps finish_escalated_frame
      split: sum.splits prod.splits)
  show "moves d d'"
  proof (rule moves_update [OF u])
    fix q assume q: "q \<in> set (db_submissions d)" "sb_id q = i"
    have "q = s" using same_row [OF ok q(1), of s] find_submission_D [OF s] q(2) keep by simp
    then show "row_step q (f q)"
      using ar by (intro row_step.decide)
        (auto simp: f_def kept_row_def same_corrections_def past_review_def arbitrable_def)
  qed (use d2 d' keep le in simp_all)
  show "map ap_key (db_appeals d') = map ap_key (db_appeals d)" and "db_seals d' = db_seals d"
    using d2 d' keep update_submissions_frame [OF u] by simp_all
qed

lemma timeline_save_frame:
  assumes "timeline_save t d = Inr d'"
  shows "db_submissions d' = db_submissions d" "db_next d' = db_next d"
    "db_appeals d' = db_appeals d" "db_seals d' = db_seals d"
  using assms by (auto simp: timeline_save_def Let_def split: if_splits)

lemma timeline_load_frame:
  assumes "timeline_load e d = (d', t)"
  shows "db_submissions d' = db_submissions d" "db_next d' = db_next d"
    "db_appeals d' = db_appeals d" "db_seals d' = db_seals d"
  using assms by (auto simp: timeline_load_def Let_def split: option.splits)

lemma update_timeline_frame:
  assumes "update_timeline e a x d = Inr (d', r)"
  shows "db_submissions d' = db_submissions d" "db_next d' = db_next d"
    "db_appeals d' = db_appeals d" "db_seals d' = db_seals d"
  using assms timeline_save_frame timeline_load_frame
  by (auto simp: update_timeline_def Let_def frame_simps split: prod.splits sum.splits if_splits)

lemma update_capability_frame:
  assumes "update_capability e a k on d = Inr (d', r)"
  shows "db_submissions d' = db_submissions d" "db_next d' = db_next d"
    "db_appeals d' = db_appeals d" "db_seals d' = db_seals d"
  using assms timeline_save_frame timeline_load_frame
  by (auto simp: update_capability_def Let_def frame_simps
    split: prod.splits sum.splits if_splits option.splits)

end
