(* ===== verification/CouncilSteps.thy ===== *)
theory CouncilSteps
  imports ClassInvariants Requests
begin

text \<open>
  What the council, the objections, the reports and the direct grants do to the claims: almost
  every one of their requests is \<open>quiet\<close> (no claim, no appeal and no seal changes) or \<open>settles\<close>
  some claims, whatever their status was, at a new score.
\<close>

section \<open>Frames\<close>

lemma set_proposal_quiet [simp]:
  "quiet d (set_proposal i f d1) \<longleftrightarrow> quiet d d1" "settles d (set_proposal i f d1) \<longleftrightarrow> settles d d1"
  "quiet d (block_case i d1) \<longleftrightarrow> quiet d d1"
  by (simp_all add: set_proposal_def block_case_def quiet_def settles_def updates_def)

lemma set_report_quiet [simp]:
  "quiet d (set_report i g d1) \<longleftrightarrow> quiet d d1" "settles d (set_report i g d1) \<longleftrightarrow> settles d d1"
  by (simp_all add: set_report_def quiet_def settles_def updates_def)

lemma close_objection_quiet [simp]:
  "settles d (close_objection e a i st sc rs d1) \<longleftrightarrow> settles d d1"
  by (simp add: close_objection_def settles_def updates_def)

lemma note_decision_quiet [simp]: "settles d (note_decision a i st d1) \<longleftrightarrow> settles d d1"
  by (simp add: note_decision_def)

lemma append_anonymous_quiet [simp]: "quiet d (append_anonymous x r i d1) \<longleftrightarrow> quiet d d1"
  by (simp add: append_anonymous_def quiet_def)

lemma update_seat_quiet: "update_seat i u ok f d = Some d' \<Longrightarrow> quiet d d'"
  by (auto simp: update_seat_def Let_def quiet_def split: if_splits)

lemma upsert_base_quiet: "upsert_base m b d = Inr d' \<Longrightarrow> quiet d d'"
  by (auto simp: upsert_base_def quiet_def split: if_splits option.splits)

section \<open>Opening a case\<close>

lemma open_case_quiet: "open_case e a ex action i c d = Inr d' \<Longrightarrow> quiet d d'"
  by (auto simp: open_case_def Let_def quiet_def split: option.splits if_splits)

definition handed_over :: "submission \<Rightarrow> submission \<Rightarrow> bool" where
  "handed_over s t \<longleftrightarrow> kept_row s t \<and> same_corrections s t \<and> sb_status s = Pending
     \<and> sb_status t = Arbitrating \<and> sb_final t = sb_final s"

lemma ensure_case_D:
  assumes "ensure_governance_case e a action i ex d = Inr d'"
  obtains "quiet d d'"
  | d1 where "action = ''submission''" "governance_mode d = ''collective''"
    "update_submissions (\<lambda>s. sb_id s = i \<and> sb_status s = Pending)
       (\<lambda>s. s\<lparr>sb_status := Arbitrating, sb_updated_at := en_now e\<rparr>) d = Inr d1" "quiet d1 d'"
  using assms
  by (auto simp: ensure_governance_case_def arbitrate_pending_def
    dest: open_case_quiet split: if_splits option.splits sum.splits)

lemma ensure_case_quiet:
  "ensure_governance_case e a action i ex d = Inr d' \<Longrightarrow> action \<noteq> ''submission'' \<Longrightarrow> quiet d d'"
  by (auto elim: ensure_case_D)

lemma ensure_case_updates:
  assumes h: "ensure_governance_case e a action i ex d = Inr d'"
  shows "updates handed_over d d'" and "db_appeals d' = db_appeals d" and "db_seals d' = db_seals d"
proof -
  have "updates handed_over d d' \<and> db_appeals d' = db_appeals d \<and> db_seals d' = db_seals d"
    using h
  proof (cases rule: ensure_case_D)
    case 1
    then show ?thesis by (simp add: quiet_def updates_same)
  next
    case (2 d1)
    have "updates handed_over d d'"
      by (rule updates_update [OF 2(3)])
        (use 2(4) in \<open>auto simp: quiet_def handed_over_def kept_row_def same_corrections_def\<close>)
    then show ?thesis using 2(4) update_submissions_frame [OF 2(3)] by (simp add: quiet_def)
  qed
  then show "updates handed_over d d'" and "db_appeals d' = db_appeals d" and "db_seals d' = db_seals d"
    by auto
qed

lemma row_step_to_pending:
  assumes "row_step s t" and "sb_status t = Pending"
  shows "kept_row s t \<and> same_corrections s t \<and> sb_final t = sb_final s
    \<and> (sb_status s = Draft \<or> sb_status s = Pending)"
  using assms by (cases rule: row_step.cases) auto

lemma handed_over_step:
  assumes "sub_ok s"
  shows "handed_over s t \<Longrightarrow> row_step s t" and "row_step s u \<Longrightarrow> handed_over u t \<Longrightarrow> row_step s t"
proof -
  have pend: "row_step s t" if "kept_row s t" "same_corrections s t" "sb_status s = Pending"
    "sb_status t = Arbitrating" "sb_final t = sb_final s" for t
    using that assms by (intro row_step.review) (auto simp: sub_ok_def)
  show "row_step s t" if "handed_over s t" using that pend by (simp add: handed_over_def)
  show "row_step s t" if "row_step s u" "handed_over u t"
  proof -
    have u: "kept_row s u \<and> same_corrections s u \<and> sb_final u = sb_final s
      \<and> (sb_status s = Draft \<or> sb_status s = Pending)"
      using row_step_to_pending [OF that(1)] that(2) by (simp add: handed_over_def)
    have k: "kept_row s t" "same_corrections s t" "sb_final t = sb_final s" "sb_status t = Arbitrating"
      using u that(2) by (auto simp: handed_over_def kept_row_def same_corrections_def)
    show ?thesis using u pend [OF k(1,2) _ k(4,3)] row_step.council [OF k(1,2) _ k(4,3)] by blast
  qed
qed

lemma handed_over_moves:
  assumes ok: "submissions_ok d" and "moves d d1" and "ensure_governance_case e a action i ex d1 = Inr d'"
  shows "moves d d'"
  by (rule updates_comp [OF assms(2) ensure_case_updates(1) [OF assms(3)]])
    (use handed_over_step submissions_okD(1) [OF ok] in blast)+

section \<open>Objections\<close>

lemma validate_objection_quiet: "validate_objection e g x d = Inr (d', r) \<Longrightarrow> quiet d d'"
  by (auto simp: validate_objection_def validate_base_objection_def Let_def
    dest!: load_current_scheme_quiet split: sum.splits option.splits if_splits)

lemma create_objection_quiet: "create_objection e a x d = Inr (d', r) \<Longrightarrow> quiet d d'"
  by (auto simp: create_objection_def Let_def quiet_def dest!: validate_objection_quiet
    split: sum.splits option.splits) (simp_all add: frame_simps)

lemma update_objection_quiet: "update_objection e a i x d = Inr (d', r) \<Longrightarrow> quiet d d'"
  by (auto simp: update_objection_def quiet_def dest!: validate_objection_quiet
    split: sum.splits option.splits if_splits)

lemma delete_objection_quiet: "delete_objection a i d = Inr (d', r) \<Longrightarrow> quiet d d'"
  by (auto simp: delete_objection_def Let_def quiet_def split: option.splits if_splits)

lemma withdraw_objection_quiet: "withdraw_objection a i d = Inr (d', r) \<Longrightarrow> quiet d d'"
  by (auto simp: withdraw_objection_def Let_def quiet_def frame_simps split: option.splits if_splits)

lemma check_submitted_quiet: "check_submitted e a st i = Inr st' \<Longrightarrow> quiet (fst st) (fst st')"
  by (cases st) (auto simp: check_submitted_def dest!: validate_objection_quiet
    split: sum.splits option.splits if_splits)

lemma fold_check_submitted_quiet:
  "fold_res (check_submitted e a) st ids = Inr st' \<Longrightarrow> quiet (fst st) (fst st')"
proof (induction ids arbitrary: st)
  case (Cons i ids)
  then obtain st1 where "check_submitted e a st i = Inr st1" "fold_res (check_submitted e a) st1 ids = Inr st'"
    by (auto split: sum.splits)
  then show ?case using Cons.IH check_submitted_quiet quiet_trans by blast
qed simp

lemma fold_blind_audit_quiet:
  "quiet d (fold (\<lambda>st. invalidate_student_blind_audit e st o' rs) xs d1) \<longleftrightarrow> quiet d d1"
  by (induction xs arbitrary: d1) simp_all

lemma submit_objections_quiet:
  assumes "submit_objections e a ids d = Inr (d', r)"
  shows "quiet d d'"
proof -
  obtain d1 st where f: "fold_res (check_submitted e a) (d, []) ids = Inr (d1, st)"
    using assms by (auto simp: submit_objections_def split: if_splits sum.splits)
  define d2 where "d2 = fold (\<lambda>st. invalidate_student_blind_audit e st []
       ''score objection filed after scorecard review'') (remdups st)
     (enqueue_event ''objection.submitted'' (ac_user a)
        (append_audit a ''objection.submitted'' ''objection'' (en_uuid e)
          (d1\<lparr>db_objections := where_set (\<lambda>r. ob_id r \<in> set ids) (mark_submitted e) (db_objections d1)\<rparr>)))"
  have "fold_res (\<lambda>d i. ensure_governance_case e a ''objection'' i True d) d2 ids = Inr d'"
    using assms f unfolding d2_def by (auto simp: submit_objections_def Let_def split: if_splits sum.splits option.splits)
  then have "quiet d2 d'" by (rule fold_res_quiet [rotated]) (simp add: ensure_case_quiet)
  moreover have "quiet d1 d2" unfolding d2_def fold_blind_audit_quiet by (simp add: quiet_def frame_simps)
  moreover have "quiet d d1" using fold_check_submitted_quiet [OF f] by simp
  ultimately show ?thesis using quiet_trans by blast
qed

lemma rescore_settles:
  assumes "update_submissions p (rescore e v) d = Inr d'"
  shows "settles d d'"
  unfolding settles_def
  using updates_update [OF assms, of d d' settled_row] update_submissions_frame [OF assms]
  by (simp add: settled_row_def rescore_def kept_row_def same_corrections_def)

lemma apply_objection_settles: "apply_objection e r v sc d = Inr d' \<Longrightarrow> settles d d'"
  by (auto simp: apply_objection_def rescore_settles quiet_settles dest: upsert_base_quiet split: if_splits)

lemma decide_objection_settles:
  "decide_objection e a g r x d = Inr (d', st, sc) \<Longrightarrow> settles d d'"
  by (auto simp: decide_objection_def Let_def quiet_settles
    dest!: validate_objection_quiet apply_objection_settles
    split: option.splits sum.splits if_split_asm) (erule (1) settles_quiet(2))+

lemma decide_admin_objection_settles:
  "decide_admin_objection e a g i x d = Inr (d', r) \<Longrightarrow> settles d d'"
  by (auto simp: decide_admin_objection_def dest: decide_objection_settles
    split: option.splits sum.splits prod.splits)

lemma decide_objections_batch_settles:
  assumes "decide_objections_batch e a ids action reason d = Inr (d', r)"
  shows "settles d d'"
proof -
  let ?step = "\<lambda>d i. case find_objection d i of None \<Rightarrow> Inl not_found
           | Some r \<Rightarrow> (case decide_objection e a False r
                 \<lparr>od_action = action, od_score = None, od_reason = reason\<rparr> d of
               Inl err \<Rightarrow> Inl err
             | Inr (d1, status, _) \<Rightarrow> Inr (note_decision a i status d1))"
  have "fold_res ?step d ids = Inr d'"
    using assms by (auto simp: decide_objections_batch_def split: if_splits sum.splits)
  then show ?thesis
    by (rule fold_res_settles [rotated])
      (auto dest!: decide_objection_settles split: option.splits sum.splits prod.splits)
qed

section \<open>Reports\<close>

lemma validate_report_quiet: "validate_report e a x d = Inr (d', t) \<Longrightarrow> quiet d d'"
  by (auto simp: validate_report_def validate_base_report_def Let_def
    dest!: load_current_scheme_quiet split: sum.splits option.splits if_split_asm)

lemma assign_report_reviewers_quiet: "assign_report_reviewers i st rp d = Some d' \<Longrightarrow> quiet d d'"
  by (auto simp: assign_report_reviewers_def Let_def quiet_def split: if_splits)

lemma create_report_quiet:
  assumes "create_report e a x d = Inr (d', n)"
  shows "quiet d d'"
proof -
  obtain d1 c where l: "load_current_scheme e d = Inr (d1, c)"
    using assms by (auto simp: create_report_def split: sum.splits)
  obtain d2 t where v: "validate_report e a x d1 = Inr (d2, t)"
    using assms l by (auto simp: create_report_def split: sum.splits if_split_asm)
  define d3 where "d3 = d2\<lparr>db_reports := db_reports d2 @ [report_of e (db_next d2) x t],
      db_reporters := db_reporters d2 @ [\<lparr>ry_report = db_next d2, ry_reporter = ac_user a,
        ry_created_at = en_now e\<rparr>], db_next := db_next d2 + 1\<rparr>"
  have "(case (if governance_mode d3 = ''collective''
                    then ensure_governance_case e a ''report'' (db_next d2) True d3
                    else (case assign_report_reviewers (db_next d2) (rt_student t) (ac_user a) d3 of
                       None \<Rightarrow> Inl (HttpError 409 ''no_reviewers'') | Some d3 \<Rightarrow> Inr d3)) of
                Inl err \<Rightarrow> Inl err
              | Inr d3 \<Rightarrow> Inr (enqueue_event ''report.filed'' (db_next d2)
                  (append_anonymous ''report.filed'' ''report'' (dec_int (db_next d2)) d3), db_next d2))
        = Inr (d', n)"
    using assms l v unfolding d3_def
    by (simp add: create_report_def Let_def split: if_split_asm option.split_asm)
  then obtain d4 where "quiet d3 d4"
      and d': "d' = enqueue_event ''report.filed'' (db_next d2)
        (append_anonymous ''report.filed'' ''report'' (dec_int (db_next d2)) d4)"
    by (auto dest: ensure_case_quiet assign_report_reviewers_quiet split: if_split_asm option.split_asm sum.split_asm)
  moreover have "quiet d2 d3" by (simp add: d3_def quiet_def)
  ultimately have "quiet d d4"
    using load_current_scheme_quiet [OF l] validate_report_quiet [OF v] quiet_trans by blast
  then show ?thesis by (simp add: d')
qed

lemma apply_report_settles: "apply_report e a r v d = Inr d' \<Longrightarrow> settles d d'"
  by (auto simp: apply_report_def rescore_settles quiet_settles
    dest!: load_current_scheme_quiet upsert_base_quiet
    split: if_split_asm option.split_asm sum.split_asm) (metis quiet_settles quiet_trans)

lemma settle_report_settles: "settle_report e a r st v d = Inr d' \<Longrightarrow> settles d d'"
  by (auto simp: settle_report_def Let_def quiet_settles dest!: apply_report_settles
    split: if_split_asm option.split_asm sum.split_asm)

lemma record_report_decision_quiet: "quiet d (record_report_decision e i u dc v rs sp d)"
  by (simp add: record_report_decision_def quiet_def)

lemma decide_report_settles:
  assumes "decide_report e a i x d = Inr (d', r)"
  shows "settles d d'"
proof -
  obtain row seat d1 c dc v rs where l: "load_current_scheme e d = Inr (d1, c)"
    and lr: "load_report_for d i (ac_user a) = Some (row, seat)"
    and va: "validate_report_decision row x = Some (dc, v, rs)"
    using assms by (auto simp: decide_report_def split: option.splits if_split_asm sum.splits)
  define d2 where "d2 = record_report_decision e i (ac_user a) dc v rs (rd_spent x) d1"
  obtain st sc cf where vd: "report_verdict d2 row = (st, sc, cf)" by (cases "report_verdict d2 row") auto
  have "d' = enqueue_event ''report.reviewed'' i (append_audit a ''report.reviewed'' ''report'' (dec_int i) d2)
    \<or> (\<exists>d3 k. settle_report e a row st sc d2 = Inr d3 \<and> d' = enqueue_event k i d3)"
    using assms l lr va vd unfolding decide_report_def d2_def
    by (auto simp: Let_def split: option.splits if_split_asm sum.splits)
  then have "settles d2 d'" using settle_report_settles by (auto simp: quiet_settles)
  moreover have "quiet d d2"
    using load_current_scheme_quiet [OF l] record_report_decision_quiet quiet_trans unfolding d2_def by blast
  ultimately show ?thesis by (rule settles_quiet(2) [rotated])
qed

lemma finalize_report_settles:
  assumes "finalize_report e a i g why d = Inr (d', r)"
  shows "settles d d'"
proof -
  obtain v row where r: "find_report d i = Some row"
    and g: "g = Some v"
    using assms by (auto simp: finalize_report_def Let_def split: option.splits if_split_asm)
  define score where "score = points_float (new_points v)"
  obtain d1 f where d1: "(if new_points score \<noteq> new_points (report_status_quo row)
                         then map_sum final_failure
                              (invalidate_latest_settlement ''class admin finalized a student report'')
                              (apply_report e a row score d)
                         else Inr d) = Inr d1"
    and d': "d' = enqueue_event ''report.decided'' i
                  (append_audit a ''report.finalized'' ''report'' (dec_int i) (set_report i f d1))"
    using assms r g unfolding score_def
    by (auto simp: finalize_report_def Let_def split: option.splits if_split_asm sum.splits)
  have "settles d d1"
    using d1 by (auto simp: quiet_settles map_sum_def split: if_split_asm sum.split_asm
      dest!: apply_report_settles)
  then show ?thesis by (simp add: d')
qed

section \<open>Direct grants\<close>

lemma grant_one_frame:
  "db_submissions (grant_one e a g x p sc st d)
    = db_submissions d @ [granted_row e (if g then ''collective_grant'' else ''admin_grant'') x p sc (db_next d) st]"
  "db_next (grant_one e a g x p sc st d) = db_next d + 1"
  "db_appeals (grant_one e a g x p sc st d) = db_appeals d"
  "db_seals (grant_one e a g x p sc st d) = db_seals d"
  by (simp_all add: grant_one_def Let_def frame_simps)

definition granted_rows :: "int \<Rightarrow> int \<Rightarrow> submission list \<Rightarrow> bool" where
  \<comment> \<open>new rows with fresh numbers in order, scored from the start\<close>
  "granted_rows lo hi rows \<longleftrightarrow> list_all (\<lambda>s. sub_ok s \<and> sb_status s = Scored
     \<and> lo \<le> sb_id s \<and> sb_id s < hi) rows \<and> distinct (map sb_id rows)"

lemma granted_row_ok:
  "sub_ok (granted_row e src x p sc n st)" "sb_status (granted_row e src x p sc n st) = Scored"
  "sb_id (granted_row e src x p sc n st) = n"
  by (simp_all add: granted_row_def sub_ok_def sub_row_check_def)

lemma granted_rows_Cons:
  assumes "granted_rows (n + 1) hi rows" and "n < hi" and "sub_ok s" "sb_status s = Scored" "sb_id s = n"
  shows "granted_rows n hi (s # rows)"
  using assms by (fastforce simp: granted_rows_def list_all_iff)

lemma grant_fold_rows:
  "\<exists>rows. db_submissions (fold (grant_one e a g x p sc) sts d) = db_submissions d @ rows
     \<and> granted_rows (db_next d) (db_next (fold (grant_one e a g x p sc) sts d)) rows
     \<and> db_next d \<le> db_next (fold (grant_one e a g x p sc) sts d)
     \<and> db_appeals (fold (grant_one e a g x p sc) sts d) = db_appeals d
     \<and> db_seals (fold (grant_one e a g x p sc) sts d) = db_seals d"
proof (induction sts arbitrary: d)
  case Nil
  then show ?case by (simp add: granted_rows_def)
next
  case (Cons st sts)
  let ?d1 = "grant_one e a g x p sc st d" and ?d2 = "fold (grant_one e a g x p sc) (st # sts) d"
  let ?s = "granted_row e (if g then ''collective_grant'' else ''admin_grant'') x p sc (db_next d) st"
  obtain rows where r: "db_submissions ?d2 = db_submissions ?d1 @ rows"
    "granted_rows (db_next ?d1) (db_next ?d2) rows" "db_next ?d1 \<le> db_next ?d2"
    "db_appeals ?d2 = db_appeals ?d1" "db_seals ?d2 = db_seals ?d1"
    using Cons.IH [of ?d1] by auto
  have "granted_rows (db_next d) (db_next ?d2) (?s # rows)"
    by (rule granted_rows_Cons) (use r in \<open>simp_all add: grant_one_frame granted_row_ok\<close>)
  then show ?case using r by (intro exI [of _ "?s # rows"]) (simp add: grant_one_frame)
qed

lemma create_bonus_grant_rows:
  assumes "create_bonus_grant e a g x d = Inr (d', r)"
  shows "\<exists>rows. db_submissions d' = db_submissions d @ rows \<and> granted_rows (db_next d) (db_next d') rows
    \<and> db_next d \<le> db_next d' \<and> db_appeals d' = db_appeals d \<and> db_seals d' = db_seals d"
proof -
  obtain y rid where y: "normalize_bonus x = Some (y, rid)"
    using assms by (auto simp: create_bonus_grant_def split: option.splits)
  show ?thesis
  proof (cases "find (\<lambda>g. gg_id g = rid) (db_grants d)")
    case (Some k)
    then have "d' = d" using assms y by (auto simp: create_bonus_grant_def split: if_split_asm)
    then show ?thesis by (intro exI [of _ "[]"]) (simp add: granted_rows_def)
  next
    case None
    obtain d1 c where l: "load_current_scheme e d = Inr (d1, c)"
      using assms y None by (auto simp: create_bonus_grant_def split: if_split_asm sum.splits)
    obtain p score k where "d' = invalidate_latest_settlement bonus_reason
        (fold (grant_one e a g y p score) (bg_students y) (d1\<lparr>db_grants := k\<rparr>))"
      using assms y None l
      by (auto simp: create_bonus_grant_def Let_def split: if_split_asm sum.splits)
    moreover obtain rows where "db_submissions (fold (grant_one e a g y p score) (bg_students y) (d1\<lparr>db_grants := k\<rparr>))
          = db_submissions d1 @ rows"
        "granted_rows (db_next d1) (db_next (fold (grant_one e a g y p score) (bg_students y) (d1\<lparr>db_grants := k\<rparr>))) rows"
        "db_next d1 \<le> db_next (fold (grant_one e a g y p score) (bg_students y) (d1\<lparr>db_grants := k\<rparr>))"
        "db_appeals (fold (grant_one e a g y p score) (bg_students y) (d1\<lparr>db_grants := k\<rparr>)) = db_appeals d1"
        "db_seals (fold (grant_one e a g y p score) (bg_students y) (d1\<lparr>db_grants := k\<rparr>)) = db_seals d1"
      using grant_fold_rows [of e a g y p score "bg_students y" "d1\<lparr>db_grants := k\<rparr>"] by auto
    ultimately show ?thesis
      using load_current_scheme_quiet [OF l]
      by (intro exI [of _ rows]) (auto simp: frame_simps quiet_def granted_rows_def list_all_iff)
  qed
qed

end
