(* ===== verification/ClassLife.thy ===== *)
theory ClassLife
  imports ClassSteps CouncilSteps
begin

text \<open>
  The life of a class: sequences of served requests, the invariant they keep (submissions
  consistent with their status and corrections, at most two appeals of one score, one active
  seal per student) and what no sequence of requests can undo.
\<close>

section \<open>What one request does to the submissions\<close>

inductive effect :: "db \<Rightarrow> db \<Rightarrow> bool" where
  moved: "moves d d' \<Longrightarrow> effect d d'"
| created: "db_submissions d' = db_submissions d @ rows
    \<Longrightarrow> \<forall>s \<in> set rows. sub_ok s \<and> sb_status s \<in> {Draft, Scored} \<and> db_next d \<le> sb_id s \<and> sb_id s < db_next d'
    \<Longrightarrow> distinct (map sb_id rows) \<Longrightarrow> db_next d \<le> db_next d' \<Longrightarrow> effect d d'"
| deleted: "db_submissions d' = delete_where (\<lambda>q. sb_id q = i) (db_submissions d)
    \<Longrightarrow> s \<in> set (db_submissions d) \<Longrightarrow> sb_id s = i \<Longrightarrow> sb_status s \<in> {Draft, Pending}
    \<Longrightarrow> db_next d \<le> db_next d' \<Longrightarrow> effect d d'"

inductive_cases effectE: "effect d d'"

lemma effect_submissions_ok:
  assumes "effect d d'" and ok: "submissions_ok d"
  shows "submissions_ok d'"
  using assms(1)
proof cases
  case moved
  then show ?thesis by (rule moves_submissions_ok [OF ok])
next
  case (created rows)
  have "sb_id ` set rows \<inter> sb_id ` set (db_submissions d) = {}"
    using submissions_okD(3) [OF ok] created(2) by fastforce
  moreover have "sb_id q < db_next d'" if "q \<in> set (db_submissions d)" for q
    using submissions_okD(3) [OF ok that] created(4) by simp
  ultimately show ?thesis
    using ok created unfolding submissions_ok_def created(1) by (auto simp: list_all_iff)
next
  case (deleted i s)
  have "sb_id q < db_next d'" if "q \<in> set (db_submissions d)" for q
    using submissions_okD(3) [OF ok that] deleted(5) by simp
  then show ?thesis using ok deleted
    by (auto simp: submissions_ok_def delete_where_def list_all_iff distinct_map_filter)
qed

lemma effect_past_review:
  assumes "effect d d'" and "i < db_next d"
    and past: "\<forall>s \<in> set (db_submissions d). sb_id s = i \<longrightarrow> past_review (sb_status s)"
  shows "\<forall>s \<in> set (db_submissions d'). sb_id s = i \<longrightarrow> past_review (sb_status s)"
  using assms(1)
proof cases
  case moved
  then show ?thesis using past by (rule moves_past_review)
next
  case (created rows)
  then show ?thesis using past assms(2) by fastforce
next
  case (deleted i' s)
  then show ?thesis using past by (simp add: delete_where_def)
qed

lemma effect_next: "effect d d' \<Longrightarrow> db_next d \<le> db_next d'"
  by (auto elim!: effectE simp: moves_def)

section \<open>Seals\<close>

definition seals_ok :: "db \<Rightarrow> bool" where
  "seals_ok d \<longleftrightarrow> distinct (map se_student (filter (\<lambda>s. se_unsealed_at s = None) (db_seals d)))
     \<and> list_all (\<lambda>s. se_id s < db_next d) (db_seals d) \<and> distinct (map se_id (db_seals d))"

lemma seals_ok_same:
  "seals_ok d \<Longrightarrow> db_seals d' = db_seals d \<Longrightarrow> db_next d \<le> db_next d' \<Longrightarrow> seals_ok d'"
  by (fastforce simp: seals_ok_def list_all_iff)

lemma insert_seal_ok:
  assumes ok: "seals_ok d" and h: "insert_seal st src t d = (d', n)"
  shows "seals_ok d'"
proof (cases "list_ex (active_seal st) (db_seals d)")
  case True
  then show ?thesis using ok h by (simp add: insert_seal_def)
next
  case False
  have "\<forall>s \<in> set (db_seals d). se_unsealed_at s = None \<longrightarrow> se_student s \<noteq> st"
    using False by (auto simp: list_ex_iff active_seal_def)
  then show ?thesis
    using ok False h unfolding seals_ok_def insert_seal_def
    by (fastforce simp: Let_def list_all_iff)
qed

lemma ensure_automatic_seal_ok: "seals_ok d \<Longrightarrow> seals_ok (ensure_automatic_seal st t d)"
  using insert_seal_ok [of d st "''auto''" t]
  by (auto simp: ensure_automatic_seal_def seals_ok_def enqueue_event_def
    split: prod.splits option.splits)

lemma my_seal_ok:
  assumes ok: "seals_ok d" and h: "my_seal e a d = Inr (d', r)"
  shows "seals_ok d'"
proof (rule my_seal_D [OF h], goal_cases)
  case 1
  then show ?case using seals_ok_same [OF ok] by simp
next
  case (2 d1 c t)
  have "seals_ok d1"
    using seals_ok_same [OF ok] load_current_scheme_keeps [OF 2(1)] load_current_scheme_db(2) [OF 2(1)] by simp
  then show ?case using seals_ok_same [OF ensure_automatic_seal_ok] 2 by simp
next
  case (3 d1 c)
  then show ?case
    using seals_ok_same [OF ok] load_current_scheme_keeps [OF 3(1)] load_current_scheme_db(2) [OF 3(1)] by simp
qed

lemma seal_my_submissions_ok:
  assumes ok: "seals_ok d" and h: "seal_my_submissions e a ph sid d = Inr (d', r)"
  shows "seals_ok d'"
proof -
  obtain d1 n where i: "insert_seal (ac_user a) ''manual'' (en_now e) d = (d1, n)" by fastforce
  have "db_seals d' = db_seals d1 \<and> db_next d' = db_next d1"
    using h i by (auto simp: seal_my_submissions_def Let_def frame_simps
      split: option.splits if_splits prod.splits)
  then show ?thesis using seals_ok_same [OF insert_seal_ok [OF ok i]] by simp
qed

lemma unseal_student_ok:
  assumes ok: "seals_ok d" and h: "unseal_student e a st rs d = Inr (d', r)"
  shows "seals_ok d'"
proof -
  obtain s where s: "latest_by se_sealed_at (filter (active_seal st) (db_seals d)) = Some s"
    using h by (auto simp: unseal_student_def Let_def split: option.splits if_splits)
  have eq: "db_seals d' = where_set (\<lambda>q. se_id q = se_id s)
      (\<lambda>q. q\<lparr>se_unsealed_at := Some (en_now e), se_unsealed_by := Some (ac_user a),
         se_reason := Some (trim_space rs)\<rparr>) (db_seals d)" and n: "db_next d' = db_next d"
    using h s by (auto simp: unseal_student_def Let_def frame_simps split: option.splits if_splits)
  have sub: "filter (\<lambda>s. se_unsealed_at s = None) (where_set p (\<lambda>q. q\<lparr>se_unsealed_at := Some u,
        se_unsealed_by := v, se_reason := w\<rparr>) rows)
      = filter (\<lambda>q. \<not> p q) (filter (\<lambda>s. se_unsealed_at s = None) rows)" for p u v w rows
    by (induction rows) (auto simp: where_set_def)
  have ids: "map se_id (db_seals d') = map se_id (db_seals d)"
    unfolding eq by (rule where_set_keys) simp
  have "list_all (\<lambda>k. k < db_next d') (map se_id (db_seals d'))"
    using ok n unfolding ids seals_ok_def by (simp add: list_all_iff)
  then have "list_all (\<lambda>s. se_id s < db_next d') (db_seals d')" by (simp add: list_all_iff)
  then show ?thesis using ok ids unfolding seals_ok_def
    by (simp only: eq sub distinct_map_filter)
qed

section \<open>Every request keeps the class consistent\<close>

definition class_ok :: "db \<Rightarrow> bool" where
  "class_ok d \<longleftrightarrow> submissions_ok d \<and> appeals_ok d \<and> seals_ok d"

lemma class_okD:
  assumes "class_ok d"
  shows "submissions_ok d" and "appeals_ok d" and "seals_ok d"
  using assms by (auto simp: class_ok_def)

lemma step_keys:
  assumes ok: "class_ok d" and ef: "effect d d'"
    and keys: "map ap_key (db_appeals d') = map ap_key (db_appeals d)" and seals: "db_seals d' = db_seals d"
  shows "effect d d' \<and> class_ok d'"
proof -
  have "appeals_ok d'"
    by (rule appeals_ok_keys [OF class_okD(2) [OF ok] keys effect_next [OF ef]])
      (rule effect_past_review [OF ef])
  then show ?thesis
    using ef effect_submissions_ok [OF ef class_okD(1) [OF ok]]
      seals_ok_same [OF class_okD(3) [OF ok] seals effect_next [OF ef]] by (simp add: class_ok_def)
qed

lemma step_moves:
  assumes "class_ok d" and "moves d d'"
    and "map ap_key (db_appeals d') = map ap_key (db_appeals d)" and "db_seals d' = db_seals d"
  shows "effect d d' \<and> class_ok d'"
  using assms by (intro step_keys effect.moved)

lemma step_frame:
  assumes ok: "class_ok d" and "db_submissions d' = db_submissions d" and "db_next d \<le> db_next d'"
    and "appeals_ok d'" and "seals_ok d'"
  shows "effect d d' \<and> class_ok d'"
  using assms effect.moved [OF moves_same, of d' d] effect_submissions_ok [of d d']
  by (simp add: class_ok_def)

lemma appeals_ok_frame:
  assumes "appeals_ok d" and "db_submissions d' = db_submissions d" and "db_next d \<le> db_next d'"
    and "db_appeals d' = db_appeals d"
  shows "appeals_ok d'"
  by (rule appeals_ok_keys [OF assms(1)]) (use assms in simp_all)

lemma moves_after_frame:
  assumes "db_submissions d1 = db_submissions d" and "db_next d \<le> db_next d1" and "moves d1 d'"
  shows "moves d d'"
  using assms unfolding moves_def by auto

lemma student_step:
  assumes ok: "class_ok d"
  shows "create_submission e a x d = Inr (d', r1) \<Longrightarrow> effect d d' \<and> class_ok d'"
    and "update_submission e a i x d = Inr (d', r2) \<Longrightarrow> effect d d' \<and> class_ok d'"
    and "delete_submission a i d = Inr (d', r3) \<Longrightarrow> effect d d' \<and> class_ok d'"
    and "submit_submission e a i d = Inr (d', r4) \<Longrightarrow> effect d d' \<and> class_ok d'"
    and "withdraw_submission e a i d = Inr (d', r4) \<Longrightarrow> effect d d' \<and> class_ok d'"
proof -
  note so = class_okD(1) [OF ok]
  show "effect d d' \<and> class_ok d'" if h: "create_submission e a x d = Inr (d', r1)"
  proof -
    obtain i r where r1: "r1 = (i, r)" by fastforce
    have ef: "effect d d'"
    proof (rule create_submission_D [OF h [unfolded r1]], goal_cases)
      case (1 s)
      then show ?case by (intro effect.created [of _ _ "[s]"]) (simp_all add: sub_ok_def sub_row_check_def)
    qed
    show ?thesis by (rule step_keys [OF ok ef]) (use create_submission_frame [OF h] in simp_all)
  qed
  show "effect d d' \<and> class_ok d'" if h: "delete_submission a i d = Inr (d', r3)"
  proof -
    have ef: "effect d d'" using delete_submission_D [OF h] by (auto intro!: effect.deleted)
    show ?thesis by (rule step_keys [OF ok ef]) (use delete_submission_D [OF h] in simp_all)
  qed
  show "effect d d' \<and> class_ok d'" if h: "update_submission e a i x d = Inr (d', r2)"
    using step_moves [OF ok update_submission_moves [OF so h]] update_submission_frame [OF h] by simp
  show "effect d d' \<and> class_ok d'" if h: "submit_submission e a i d = Inr (d', r4)"
    using step_moves [OF ok submit_submission_moves [OF so h]] submit_submission_frame [OF h] by simp
  show "effect d d' \<and> class_ok d'" if h: "withdraw_submission e a i d = Inr (d', r4)"
    using step_moves [OF ok withdraw_submission_moves [OF so h]] withdraw_submission_frame [OF h] by simp
qed

lemma ensure_appeal_draft_step:
  assumes ok: "class_ok d" and h: "ensure_appeal_draft e a batch kind i d = Inr (d', n, new)"
  shows "effect d d' \<and> class_ok d'" and "db_submissions d' = db_submissions d"
    and "db_next d \<le> db_next d'"
proof -
  note f = ensure_appeal_draft_ok [OF class_okD(1,2) [OF ok] h]
  show "effect d d' \<and> class_ok d'"
    by (rule step_frame [OF ok f(1,2,4)]) (rule seals_ok_same [OF class_okD(3) [OF ok] f(3,2)])
qed (use ensure_appeal_draft_ok [OF class_okD(1,2) [OF ok] h] in simp_all)

lemma file_appeal_step:
  assumes "class_ok d" and "file_appeal_draft e a i x d = Inr (d', r)"
  shows "effect d d' \<and> class_ok d'"
  using step_moves [OF assms(1)] file_appeal_draft_moves [OF class_okD(1) [OF assms(1)] assms(2)] by simp

lemma appeal_step:
  assumes ok: "class_ok d"
  shows "create_appeal_draft e a batch kind i d = Inr (d', r1) \<Longrightarrow> effect d d' \<and> class_ok d'"
    and "create_appeal e a batch kind i x d = Inr (d', r2) \<Longrightarrow> effect d d' \<and> class_ok d'"
    and "submit_appeal e a i x d = Inr (d', r2) \<Longrightarrow> effect d d' \<and> class_ok d'"
    and "withdraw_appeal e a i d = Inr (d', r3) \<Longrightarrow> effect d d' \<and> class_ok d'"
    and "delete_appeal_draft a i d = Inr (d', r4) \<Longrightarrow> effect d d' \<and> class_ok d'"
    and "decide_first_appeal e a i q d = Inr (d', r5) \<Longrightarrow> effect d d' \<and> class_ok d'"
    and "finalize_appeal e a i q d = Inr (d', r6) \<Longrightarrow> effect d d' \<and> class_ok d'"
proof -
  note ap = class_okD(2) [OF ok]
  show "effect d d' \<and> class_ok d'" if h: "create_appeal_draft e a batch kind i d = Inr (d', r1)"
  proof -
    obtain d1 n new where en: "ensure_appeal_draft e a batch (trim_space kind) i d = Inr (d1, n, new)"
      and d': "db_submissions d' = db_submissions d1" "db_next d' = db_next d1"
        "db_appeals d' = db_appeals d1" "db_seals d' = db_seals d1"
      using h by (auto simp: create_appeal_draft_def frame_simps split: if_splits sum.splits)
    have ok1: "class_ok d1" using ensure_appeal_draft_step(1) [OF ok en] by simp
    have "appeals_ok d'" using appeals_ok_frame [OF class_okD(2) [OF ok1]] d' by simp
    moreover have "seals_ok d'" using seals_ok_same [OF class_okD(3) [OF ok1]] d' by simp
    ultimately show ?thesis
      using step_frame [OF ok] ensure_appeal_draft_step(2,3) [OF ok en] d' by simp
  qed
  show "effect d d' \<and> class_ok d'" if h: "create_appeal e a batch kind i x d = Inr (d', r2)"
  proof -
    obtain d1 n new where en: "ensure_appeal_draft e a batch (trim_space kind) i d = Inr (d1, n, new)"
      and fl: "file_appeal_draft e a n x d1 = Inr (d', r2)"
      using h by (auto simp: create_appeal_def split: if_splits sum.splits)
    have ok1: "class_ok d1" using ensure_appeal_draft_step(1) [OF ok en] by simp
    have "moves d d'"
      by (rule moves_after_frame [OF ensure_appeal_draft_step(2,3) [OF ok en]])
        (rule file_appeal_draft_moves(1) [OF class_okD(1) [OF ok1] fl])
    then show ?thesis using file_appeal_step [OF ok1 fl] by (simp add: effect.moved)
  qed
  show "effect d d' \<and> class_ok d'" if h: "submit_appeal e a i x d = Inr (d', r2)"
    by (rule file_appeal_step [OF ok, where r = r2])
      (use h in \<open>auto simp: submit_appeal_def split: option.splits if_splits\<close>)
  show "effect d d' \<and> class_ok d'" if h: "withdraw_appeal e a i d = Inr (d', r3)"
    using step_moves [OF ok] withdraw_appeal_moves [OF h] by simp
  show "effect d d' \<and> class_ok d'" if h: "delete_appeal_draft a i d = Inr (d', r4)"
    using step_frame [OF ok] delete_appeal_draft_ok [OF ap h] seals_ok_same [OF class_okD(3) [OF ok]] by simp
  show "effect d d' \<and> class_ok d'" if h: "decide_first_appeal e a i q d = Inr (d', r5)"
    using step_moves [OF ok] decide_first_appeal_moves [OF ap h] by simp
  show "effect d d' \<and> class_ok d'" if h: "finalize_appeal e a i q d = Inr (d', r6)"
    using step_moves [OF ok] finalize_appeal_moves [OF ap h] by simp
qed

end
