(* ===== verification/CouncilLife.thy ===== *)
theory CouncilLife
  imports ClassLife
begin

text \<open>
  The council, the objections, the reports and the grants as steps of a class: their requests keep
  the invariant of \<open>ClassLife\<close>, also when a decision carries out an ordinary handler in the
  middle of the request.
\<close>

section \<open>Steps around quiet work\<close>

lemma effect_quiet_left:
  assumes "quiet d d1" and "effect d1 d2"
  shows "effect d d2"
  using assms(2)
proof cases
  case moved
  then show ?thesis
    using moves_after_frame [of d1 d d2] assms(1) by (intro effect.moved) (simp add: quiet_def)
next
  case (created rows)
  then show ?thesis
    using assms(1) by (intro effect.created [of _ _ rows]) (auto simp: quiet_def)
next
  case (deleted i s)
  then show ?thesis
    using assms(1) by (intro effect.deleted [of _ i _ s]) (auto simp: quiet_def)
qed

lemma effect_quiet_right:
  assumes "effect d d1" and "quiet d1 d2"
  shows "effect d d2"
  using assms(1)
proof cases
  case moved
  then show ?thesis using assms(2) by (intro effect.moved) (auto simp: quiet_def moves_def)
next
  case (created rows)
  then show ?thesis
    using assms(2) by (intro effect.created [of _ _ rows]) (auto simp: quiet_def)
next
  case (deleted i s)
  then show ?thesis
    using assms(2) by (intro effect.deleted [of _ i _ s]) (auto simp: quiet_def)
qed

lemma settles_step:
  assumes "class_ok d" and "settles d d'"
  shows "effect d d' \<and> class_ok d'"
  using step_moves [OF assms(1) settles_moves [OF assms(2)]] assms(2) by (simp add: settles_def)

lemma quiet_step: "class_ok d \<Longrightarrow> quiet d d' \<Longrightarrow> effect d d' \<and> class_ok d'"
  by (rule settles_step [OF _ quiet_settles])

lemma quiet_then:
  assumes "class_ok d" and "quiet d d1" and "class_ok d1 \<Longrightarrow> effect d1 d2 \<and> class_ok d2"
  shows "effect d d2 \<and> class_ok d2"
  using quiet_step [OF assms(1,2)] effect_quiet_left [OF assms(2)] assms(3) by blast

lemma then_quiet:
  assumes "effect d d1 \<and> class_ok d1" and "quiet d1 d2"
  shows "effect d d2 \<and> class_ok d2"
  using assms quiet_step effect_quiet_right by blast

section \<open>Objections, reports and grants\<close>

lemma objection_step:
  assumes ok: "class_ok d"
  shows "create_objection e a ox d = Inr (d', r1) \<Longrightarrow> effect d d' \<and> class_ok d'"
    and "update_objection e a i ox d = Inr (d', r1) \<Longrightarrow> effect d d' \<and> class_ok d'"
    and "delete_objection a i d = Inr (d', r2) \<Longrightarrow> effect d d' \<and> class_ok d'"
    and "submit_objections e a ids d = Inr (d', r3) \<Longrightarrow> effect d d' \<and> class_ok d'"
    and "withdraw_objection a i d = Inr (d', r4) \<Longrightarrow> effect d d' \<and> class_ok d'"
    and "decide_admin_objection e a g i od d = Inr (d', r5) \<Longrightarrow> effect d d' \<and> class_ok d'"
    and "decide_objections_batch e a ids act rs d = Inr (d', r6) \<Longrightarrow> effect d d' \<and> class_ok d'"
    and "create_report e a rx d = Inr (d', r7) \<Longrightarrow> effect d d' \<and> class_ok d'"
    and "decide_report e a i rd d = Inr (d', r8) \<Longrightarrow> effect d d' \<and> class_ok d'"
    and "finalize_report e a i gv rs d = Inr (d', r9) \<Longrightarrow> effect d d' \<and> class_ok d'"
  by (erule quiet_step [OF ok create_objection_quiet] quiet_step [OF ok update_objection_quiet]
      quiet_step [OF ok delete_objection_quiet] quiet_step [OF ok submit_objections_quiet]
      quiet_step [OF ok withdraw_objection_quiet] settles_step [OF ok decide_admin_objection_settles]
      settles_step [OF ok decide_objections_batch_settles] quiet_step [OF ok create_report_quiet]
      settles_step [OF ok decide_report_settles] settles_step [OF ok finalize_report_settles])+

lemma bonus_step:
  assumes ok: "class_ok d" and h: "create_bonus_grant e a g x d = Inr (d', r)"
  shows "effect d d' \<and> class_ok d'"
proof -
  obtain rows where rows: "db_submissions d' = db_submissions d @ rows"
    "granted_rows (db_next d) (db_next d') rows" "db_next d \<le> db_next d'"
    and same: "db_appeals d' = db_appeals d" "db_seals d' = db_seals d"
    using create_bonus_grant_rows [OF h] by blast
  have "effect d d'"
    by (rule effect.created [OF rows(1) _ _ rows(3)])
      (use rows(2) in \<open>auto simp: granted_rows_def list_all_iff\<close>)
  then show ?thesis by (rule step_keys [OF ok]) (simp_all add: same)
qed

section \<open>Handing work to the council\<close>

lemma ensure_case_step:
  assumes ok: "class_ok d" and h: "ensure_governance_case e a action i ex d = Inr d'"
  shows "effect d d' \<and> class_ok d'"
  using step_moves [OF ok handed_over_moves [OF class_okD(1) [OF ok] moves_same h]]
    ensure_case_updates [OF h] by simp

lemma submit_step:
  assumes ok: "class_ok d"
    and h: "collective_after e a ''submission'' k (submit_submission e a i d) = Inr d'"
  shows "effect d d' \<and> class_ok d'"
proof -
  obtain d1 x where s: "submit_submission e a i d = Inr (d1, x)"
    and en: "ensure_governance_case e a ''submission'' (k x) False d1 = Inr d'"
    using h by (auto simp: collective_after_Inr)
  have "moves d d'"
    by (rule handed_over_moves [OF class_okD(1) [OF ok] submit_submission_moves [OF class_okD(1) [OF ok] s] en])
  then show ?thesis
    using step_moves [OF ok] ensure_case_updates [OF en] submit_submission_frame [OF s] by simp
qed

lemma appeal_case_step:
  assumes "effect d d1 \<and> class_ok d1" and "ensure_governance_case e a ''appeal'' i ex d1 = Inr d'"
  shows "effect d d' \<and> class_ok d'"
  by (rule then_quiet [OF assms(1) ensure_case_quiet [OF assms(2)]]) simp

section \<open>Cases\<close>

lemma run_case_action_step:
  assumes ok: "class_ok d" and h: "run_case_action e a origin action i x d = Inr d'"
  shows "effect d d' \<and> class_ok d'"
proof -
  consider y r where "arbitrate_submission e a True origin i y d = Inr (d', r)"
    | y r where "finalize_appeal e a i y d = Inr (d', r)"
    | r where "finalize_report e a i (gc_score x) (gc_reason x) d = Inr (d', r)"
    | y r where "decide_admin_objection e a True i y d = Inr (d', r)"
    using h unfolding run_case_action_def
    by (auto simp: map_sum_def split: if_split_asm sum.split_asm)
  then show ?thesis
  proof cases
    case 1
    then show ?thesis
      using step_moves [OF ok] arbitrate_submission_moves [OF class_okD(1) [OF ok] 1] by simp
  next
    case 2
    then show ?thesis by (rule appeal_step(7) [OF ok])
  next
    case 3
    then show ?thesis by (rule objection_step(10) [OF ok])
  next
    case 4
    then show ?thesis by (rule objection_step(6) [OF ok])
  qed
qed

lemma escalate_report_quiet: "escalate_report i d = Inr d' \<Longrightarrow> quiet d d'"
  by (auto simp: escalate_report_def Let_def quiet_def split: option.splits)

lemma execute_case_step:
  assumes ok: "class_ok d" and h: "execute_case e a origin p i x d = Inr (d', r)"
  shows "effect d d' \<and> class_ok d'"
proof -
  consider f where "d' = set_proposal (pr_id p) f d"
    | d1 d2 f b where "(if pr_action p = ''report'' then escalate_report i d else Inr d) = Inr d1"
      "run_case_action e b origin (pr_action p) i x d1 = Inr d2"
      "d' = append_audit a ''governance.applied'' ''governance_proposal'' (dec_int (pr_id p))
        (set_proposal (pr_id p) f d2)"
    using h unfolding execute_case_def
    by (auto split: option.split_asm if_split_asm sum.split_asm)
  then show ?thesis
  proof cases
    case 1
    then show ?thesis by (intro quiet_step [OF ok]) simp
  next
    case 2
    have "quiet d d1" using 2(1) escalate_report_quiet by (auto split: if_split_asm)
    then have "effect d d2 \<and> class_ok d2" using run_case_action_step [OF _ 2(2)] by (rule quiet_then [OF ok])
    then show ?thesis by (rule then_quiet) (simp add: 2(3))
  qed
qed

lemma pass_case_step:
  assumes ok: "class_ok d" and h: "pass_case e a origin p i x d = Inr (d', r)"
  shows "effect d d' \<and> class_ok d'"
proof -
  obtain f where "execute_case e a origin p i x (set_proposal (pr_id p) f d) = Inr (d', r)"
    using h unfolding pass_case_def by (auto split: option.split_asm if_split_asm)
  then show ?thesis
    by (intro quiet_then [OF ok, of "set_proposal (pr_id p) f d"] execute_case_step) simp_all
qed

lemma seats_quiet [simp]:
  "quiet d (d1\<lparr>db_voters := v\<rparr>) \<longleftrightarrow> quiet d d1"
  by (simp add: quiet_def)

lemma expand_case_quiet: "expand_case e auto p seats d = Inr (d', r) \<Longrightarrow> quiet d d'"
  by (auto simp: expand_case_def Let_def split: option.split_asm if_split_asm)

lemma finish_ballot_step:
  assumes ok: "class_ok d" and h: "finish_ballot e a origin p i inputs d = Inr (d', r)"
  shows "effect d d' \<and> class_ok d'"
proof -
  consider "quiet d d'" | x where "pass_case e a origin p i x d = Inr (d', r)"
    using h unfolding finish_ballot_def
    by (auto simp: Let_def split: option.split_asm if_split_asm prod.split_asm)
  then show ?thesis using quiet_step [OF ok] pass_case_step [OF ok] by cases blast+
qed

lemma finish_case_step:
  assumes ok: "class_ok d" and h: "finish_case e a auto origin p d = Inr (d', r)"
  shows "effect d d' \<and> class_ok d'"
proof -
  consider "quiet d d'" | x i where "pass_case e a origin p i x d = Inr (d', r)"
    | i xs where "finish_ballot e a origin p i xs d = Inr (d', r)"
    using h unfolding finish_case_def
    by (auto simp: Let_def dest: expand_case_quiet
      split: option.split_asm if_split_asm prod.split_asm sum.split_asm)
  then show ?thesis
    using quiet_step [OF ok] pass_case_step [OF ok] finish_ballot_step [OF ok] by cases blast+
qed

lemma restart_case_quiet: "restart_case e a k d = Inr (d', r) \<Longrightarrow> quiet d d'"
  by (auto simp: restart_case_def split: option.split_asm if_split_asm)

lemma case_step:
  assumes ok: "class_ok d"
  shows "close_case e a auto origin k d = Inr (d', r) \<Longrightarrow> effect d d' \<and> class_ok d'"
    and "give_opinion e a origin k x d = Inr (d', r) \<Longrightarrow> effect d d' \<and> class_ok d'"
    and "ballot_case e a origin k c d = Inr (d', r) \<Longrightarrow> effect d d' \<and> class_ok d'"
    and "restart_case e a k d = Inr (d', r) \<Longrightarrow> effect d d' \<and> class_ok d'"
proof -
  show "effect d d' \<and> class_ok d'" if "close_case e a auto origin k d = Inr (d', r)"
    using that finish_case_step [OF ok] by (auto simp: close_case_def split: option.split_asm if_split_asm)
  show "effect d d' \<and> class_ok d'" if "restart_case e a k d = Inr (d', r)"
    by (rule quiet_step [OF ok restart_case_quiet [OF that]])
  show "effect d d' \<and> class_ok d'" if h: "give_opinion e a origin k x d = Inr (d', r)"
  proof -
    obtain q f g w d2 where "update_seat k (ac_user a) w g (set_proposal k f d) = Some d2"
      "finish_case e a False origin q d2 = Inr (d', r)"
      using h unfolding give_opinion_def
      by (auto simp: Let_def split: option.split_asm if_split_asm sum.split_asm)
    then show ?thesis
      using quiet_then [OF ok, of d2] finish_case_step update_seat_quiet set_proposal_quiet(1) quiet_refl
      by (metis quiet_trans)
  qed
  show "effect d d' \<and> class_ok d'" if h: "ballot_case e a origin k c d = Inr (d', r)"
  proof -
    obtain q g w d2 where "update_seat k (ac_user a) w g d = Some d2"
      "finish_case e a False origin q d2 = Inr (d', r)"
      using h unfolding ballot_case_def
      by (auto split: option.split_asm if_split_asm)
    then show ?thesis using quiet_then [OF ok, of d2] finish_case_step update_seat_quiet by blast
  qed
qed

section \<open>Proposals\<close>

lemma timeline_quiet: "update_timeline e a x d = Inr (d', r) \<Longrightarrow> quiet d d'"
  using update_timeline_frame by (simp add: quiet_def)

lemma run_action_step:
  assumes ok: "class_ok d" and h: "run_action e a p d = Inr d'"
  shows "effect d d' \<and> class_ok d'"
proof -
  consider "quiet d d'" | x r where "create_bonus_grant e a True x d = Inr (d', r)"
    using h unfolding run_action_def
    by (auto simp: map_sum_def quiet_def dest: timeline_quiet
      split: payload.split_asm if_split_asm sum.split_asm)
  then show ?thesis using quiet_step [OF ok] bonus_step [OF ok] by cases blast+
qed

lemma execute_proposal_step:
  assumes ok: "class_ok d" and h: "execute_proposal e a p t d = Inr (d', r)"
  shows "effect d d' \<and> class_ok d'"
proof -
  consider "quiet d d'" | d1 f b where "run_action e b p d = Inr d1"
      "d' = append_audit a ''governance.applied'' ''governance_proposal'' (dec_int (pr_id p))
        (set_proposal (pr_id p) f d1)"
    using h unfolding execute_proposal_def by (auto split: if_split_asm sum.split_asm)
  then show ?thesis
  proof cases
    case 2
    show ?thesis by (rule then_quiet [OF run_action_step [OF ok 2(1)]]) (simp add: 2(2))
  qed (rule quiet_step [OF ok])
qed

lemma close_proposal_step:
  assumes ok: "class_ok d" and h: "close_proposal e a i d = Inr (d', r)"
  shows "effect d d' \<and> class_ok d'"
proof -
  consider "quiet d d'" | f p t where "execute_proposal e a p t (set_proposal i f d) = Inr (d', r)"
    using h unfolding close_proposal_def
    by (auto simp: Let_def split: option.split_asm if_split_asm)
  then show ?thesis
  proof cases
    case 2
    show ?thesis
      by (rule quiet_then [OF ok, of "set_proposal i f d"]) (use execute_proposal_step [OF _ 2] in simp_all)
  qed (rule quiet_step [OF ok])
qed

lemma timeline_load_quiet: "timeline_load e d = (d', t) \<Longrightarrow> quiet d d'"
  using timeline_load_frame by (simp add: quiet_def)

lemma validate_action_quiet: "validate_action e k x p d = Some (d', k', y, ex) \<Longrightarrow> quiet d d'"
  by (auto simp: validate_action_def window_payload_def bonus_payload_def Let_def
    dest!: load_current_scheme_quiet timeline_load_quiet
    split: action_input.split_asm option.split_asm if_split_asm prod.split_asm sum.split_asm)

lemma create_proposal_quiet: "create_proposal e a x d = Inr (d', r) \<Longrightarrow> quiet d d'"
  by (auto simp: create_proposal_def Let_def dest!: validate_action_quiet
    split: option.split_asm if_split_asm prod.split_asm sum.split_asm)
    (auto simp: quiet_def)

lemma vote_proposal_quiet: "vote_proposal e a i c l d = Inr (d', r) \<Longrightarrow> quiet d d'"
  by (auto simp: vote_proposal_def dest!: update_seat_quiet split: option.split_asm if_split_asm)

lemma comment_governance_quiet:
  assumes "comment_governance e a i b k d = Inr (d', r)"
  shows "quiet d d'"
proof -
  obtain c where "restart_case e a i (d\<lparr>db_comments := c\<rparr>) = Inr (d', r) \<or> d' = d\<lparr>db_comments := c\<rparr>"
    using assms unfolding comment_governance_def
    by (auto simp: Let_def split: option.split_asm if_split_asm)
  then show ?thesis
    using quiet_trans [OF _ restart_case_quiet, of d "d\<lparr>db_comments := c\<rparr>"] by (auto simp: quiet_def)
qed

lemma configure_quiet:
  "configure_governance e a m d = Inr (d', r) \<Longrightarrow> quiet d d'"
  "join_governance e a j rv d = Inr (d', r) \<Longrightarrow> quiet d d'"
  by (auto simp: configure_governance_def join_governance_def Let_def quiet_def split: if_split_asm)

lemma governance_step:
  assumes ok: "class_ok d"
  shows "configure_governance e a m d = Inr (d', r1) \<Longrightarrow> effect d d' \<and> class_ok d'"
    and "join_governance e a j rv d = Inr (d', r1) \<Longrightarrow> effect d d' \<and> class_ok d'"
    and "create_proposal e a x d = Inr (d', r2) \<Longrightarrow> effect d d' \<and> class_ok d'"
    and "vote_proposal e a i c l d = Inr (d', r3) \<Longrightarrow> effect d d' \<and> class_ok d'"
    and "comment_governance e a i b k d = Inr (d', r4) \<Longrightarrow> effect d d' \<and> class_ok d'"
    and "close_governance e a auto org i d = Inr (d', r4) \<Longrightarrow> effect d d' \<and> class_ok d'"
    and "collective_settlement v e a d = Inr (d', r5) \<Longrightarrow> effect d d' \<and> class_ok d'"
proof -
  show "effect d d' \<and> class_ok d'" if "close_governance e a auto org i d = Inr (d', r4)"
    using that case_step(1) [OF ok] close_proposal_step [OF ok]
    by (auto simp: close_governance_def split: option.split_asm if_split_asm)
  show "effect d d' \<and> class_ok d'" if h: "collective_settlement v e a d = Inr (d', r5)"
  proof -
    obtain n reused where "run_settlement v e a d = Inr (d', n, reused)"
      using h by (cases r5) (auto simp: collective_settlement_def split: if_split_asm)
    from run_settlement_moves [OF this] show ?thesis using step_moves [OF ok] by simp
  qed
qed (erule quiet_step [OF ok configure_quiet(1)] quiet_step [OF ok configure_quiet(2)]
  quiet_step [OF ok create_proposal_quiet] quiet_step [OF ok vote_proposal_quiet]
  quiet_step [OF ok comment_governance_quiet])+

end
