(* ===== verification/Intake.thy ===== *)
theory Intake
  imports CouncilLife DeskFrames
begin

text \<open>
  What reaches the tables of a class beside the requests of \<open>Requests\<close>: the drafts of an import
  by a language model (\<open>applyAIBatch\<close> of \<open>ai_handlers.go\<close>) and of a confirmed suggestion of the agent
  (\<open>applyAgentAction\<close> of \<open>agent_action_handlers.go\<close>), and the seals the maintenance worker sets
  when the window has closed (\<open>runWindowTasks\<close> and \<open>autoSeal\<close> of \<open>maintenance.go\<close>).

  The rows of batches and suggestions are arguments; what the model or the agent proposed, as
  the student edited it, is the input of the request.  \<open>VerifyEditedCandidate\<close>, which tidies a
  candidate once more, is an argument too: nothing is assumed of it, since its result is prepared
  like any other input.  The lemmas show that all three keep the invariant of \<open>ClassLife\<close> and
  touch neither accounts nor seats.
\<close>

section \<open>Drafts\<close>

definition assisted_row :: "env \<Rightarrow> actor \<Rightarrow> submission_input \<Rightarrow> prepared \<Rightarrow> int \<Rightarrow> submission" where
  "assisted_row e a x p n =
     \<lparr>sb_id = n, sb_student = ac_user a, sb_scheme_id = pp_scheme_id p,
      sb_scheme_version = pp_scheme_version p, sb_category = ca_key (pp_category p),
      sb_item = it_key (pp_item p), sb_filed_category = ca_key (pp_category p),
      sb_filed_item = it_key (pp_item p), sb_title = trim_space (in_title x),
      sb_claim = pp_claim p, sb_requested = map_option column_of (pp_requested p),
      sb_final = None, sb_status = Draft, sb_source = ''ai'',
      sb_snapshot = pp_snapshot p, sb_filed_snapshot = pp_snapshot p, sb_note = in_note x,
      sb_force_rejection = None, sb_forced_score = None, sb_lock_version = 1,
      sb_submitted_at = None, sb_scored_at = None, sb_locked_at = None, sb_updated_at = en_now e\<rparr>"

definition insert_assisted :: "env \<Rightarrow> actor \<Rightarrow> submission_input \<Rightarrow> prepared \<Rightarrow> db \<Rightarrow> db" where
  "insert_assisted e a x p d =
     d\<lparr>db_submissions := db_submissions d @ [assisted_row e a x p (db_next d)], db_next := db_next d + 1\<rparr>"

record ai_batch =
  ab_id :: int
  ab_status :: string
  ab_expires :: time
  ab_scheme :: int
  ab_version :: int
  ab_snapshot :: "config option"   \<comment> \<open>the scoring tree the batch froze, when it can be decoded\<close>

record ai_candidate =
  an_input :: submission_input
  an_usable :: bool   \<comment> \<open>it cites material, all of this batch and processed\<close>

definition restore_ai_scheme :: "stored_scheme \<Rightarrow> config option \<Rightarrow> stored_scheme option" where
  \<comment> \<open>\<open>restoreAIBatchScheme\<close>: the frozen rules under the class's present window and switches\<close>
  "restore_ai_scheme current snapshot = (case snapshot of None \<Rightarrow> None
     | Some c \<Rightarrow> (let cfg = c\<lparr>cf_window := cf_window (ss_config current),
           cf_capabilities := cf_capabilities (ss_config current),
           cf_honor_roll := cf_honor_roll (ss_config current)\<rparr> in
         if validate id id cfg \<noteq> None then None else Some (current\<lparr>ss_config := cfg\<rparr>)))"

definition prepare_ai_candidate ::
    "(config \<Rightarrow> submission_input \<Rightarrow> submission_input) \<Rightarrow> stored_scheme \<Rightarrow> time \<Rightarrow> ai_candidate
     \<Rightarrow> (submission_input \<times> prepared) option" where
  "prepare_ai_candidate revise frozen now x =
    (if \<not> an_usable x then None
     else (case prepare_submission frozen (an_input x) now False of
        Inl _ \<Rightarrow> None
      | Inr _ \<Rightarrow> (let y = revise (ss_config frozen) (an_input x) in
          (case prepare_submission frozen y now False of Inl _ \<Rightarrow> None | Inr p \<Rightarrow> Some (y, p)))))"

definition draft_one :: "env \<Rightarrow> actor \<Rightarrow> submission_input \<times> prepared \<Rightarrow> db \<Rightarrow> db" where
  "draft_one e a yp d = append_audit a ''submission.draft_created'' ''submission'' (dec_int (db_next d))
     (insert_assisted e a (fst yp) (snd yp) d)"

definition apply_ai_batch ::
    "env \<Rightarrow> actor \<Rightarrow> (config \<Rightarrow> submission_input \<Rightarrow> submission_input) \<Rightarrow> bool \<Rightarrow> int \<Rightarrow> ai_batch option
     \<Rightarrow> ai_candidate list \<Rightarrow> db \<Rightarrow> nat handler" where
  \<comment> \<open>\<open>fits\<close>: the copies of the cited material stay within the storage limit of a batch\<close>
  "apply_ai_batch e a revise fits i batch xs d =
    (case path_id i of Some err \<Rightarrow> Inl err | None \<Rightarrow>
     if xs = [] \<or> 100 < length xs then Inl (HttpError 400 ''invalid_request'')
     else (case batch of None \<Rightarrow> Inl not_found
     | Some b \<Rightarrow>
        if ab_status b = ''complete'' then Inl (HttpError 409 ''batch_already_applied'')
        else if ab_status b \<noteq> ''review'' \<or> \<not> en_now e < ab_expires b
        then Inl (HttpError 409 ''batch_not_applicable'')
        else (case load_current_scheme e d of Inl _ \<Rightarrow> Inl internal_error
        | Inr (d1, current) \<Rightarrow>
           if ss_id current \<noteq> ab_scheme b \<or> ss_version current \<noteq> ab_version b
           then Inl (HttpError 409 ''scheme_changed'')
           else (case restore_ai_scheme current (ab_snapshot b) of
              None \<Rightarrow> Inl (HttpError 409 ''scheme_snapshot_invalid'')
            | Some frozen \<Rightarrow>
               if ensure_capability (ss_config current) ''submit'' (en_now e) \<noteq> None
               then Inl (HttpError 409 ''submission_closed'')
               else if \<not> ensure_not_sealed d1 (ac_user a) then Inl (HttpError 409 ''sealed'')
               else (case those (map (prepare_ai_candidate revise frozen (en_now e)) xs) of
                  None \<Rightarrow> Inl (HttpError 422 ''candidate_invalid'')
                | Some ps \<Rightarrow>
                   if \<not> fits then Inl (HttpError 413 ''batch_storage_limit'')
                   else Inr (append_audit a ''ai.batch_applied'' ''ai_batch'' (dec_int (ab_id b))
                          (fold (draft_one e a) ps d1), length ps))))))"

record agent_action =
  aa_id :: int
  aa_status :: string
  aa_expires :: "time option"       \<comment> \<open>until when it may be confirmed\<close>
  aa_token :: bytes                  \<comment> \<open>the digest of the confirmation token\<close>
  aa_input :: "submission_input option"
  aa_state :: "int \<times> string \<times> int \<times> int"   \<comment> \<open>who, as what, under which scheme and version\<close>

definition apply_agent_draft ::
    "env \<Rightarrow> actor \<Rightarrow> int \<Rightarrow> agent_action option \<Rightarrow> bytes \<Rightarrow> db \<Rightarrow> unit handler" where
  \<comment> \<open>\<open>applyAgentAction\<close> for a suggestion of the kind \<open>submission_draft\<close>; the other kinds write no row of the class\<close>
  "apply_agent_draft e a i action token d =
    (case path_id i of Some err \<Rightarrow> Inl err | None \<Rightarrow>
     (case action of None \<Rightarrow> Inl not_found
     | Some r \<Rightarrow>
        if aa_status r = ''applied'' then Inr (d, ())
        else if aa_status r \<noteq> ''prepared'' \<or> (case aa_expires r of None \<Rightarrow> True | Some t \<Rightarrow> \<not> en_now e < t)
        then Inl (HttpError 409 ''action_expired'')
        else if aa_token r \<noteq> en_sha256 e token then Inl (HttpError 403 ''action_forbidden'')
        else (case (aa_input r, load_current_scheme e d) of
           (Some x, Inr (d1, current)) \<Rightarrow>
             (case prepare_submission current x (en_now e) False of
                Inl _ \<Rightarrow> Inl (HttpError 409 ''action_stale'')
              | Inr p \<Rightarrow>
                 if ensure_capability (ss_config current) ''submit'' (en_now e) \<noteq> None
                    \<or> \<not> ensure_not_sealed d1 (ac_user a)
                    \<or> aa_state r \<noteq> (ac_user a, ac_role a, ss_id current, ss_version current)
                 then Inl (HttpError 409 ''action_stale'')
                 else Inr (append_audit a ''agent.action_applied'' ''agent_action'' (dec_int (aa_id r))
                        (insert_assisted e a x p d1), ()))
         | _ \<Rightarrow> Inl (HttpError 409 ''action_stale''))))"

section \<open>The end of the window\<close>

definition auto_seal :: "time \<Rightarrow> db \<Rightarrow> db" where
  \<comment> \<open>the statement seals every active member without a seal in force; each with its audit entry and event\<close>
  "auto_seal closed_at d = fold (\<lambda>u. ensure_automatic_seal (us_id u) closed_at)
     (filter (\<lambda>u. us_status u = ''active'' \<and> \<not> list_ex (active_seal (us_id u)) (db_seals d)) (db_users d)) d"

definition window_tasks :: "env \<Rightarrow> db \<Rightarrow> db" where
  \<comment> \<open>\<open>runWindowTasks\<close> without its reminders, which write events only\<close>
  "window_tasks e d = (case read_current_scheme e d of
     Inl _ \<Rightarrow> d
   | Inr (d1, current) \<Rightarrow>
      if locked_at (cf_window (ss_config current)) (en_now e) then d1
      else if en_now e < w_close (cf_window (ss_config current)) then d1
      else auto_seal (w_close (cf_window (ss_config current))) d1)"

section \<open>They keep the class in order\<close>

definition draft_rows :: "int \<Rightarrow> int \<Rightarrow> submission list \<Rightarrow> bool" where
  "draft_rows lo hi rows \<longleftrightarrow> list_all (\<lambda>s. sub_ok s \<and> sb_status s = Draft \<and> lo \<le> sb_id s \<and> sb_id s < hi) rows
     \<and> distinct (map sb_id rows)"

lemma assisted_row_ok:
  "sub_ok (assisted_row e a x p n)" "sb_status (assisted_row e a x p n) = Draft" "sb_id (assisted_row e a x p n) = n"
  by (simp_all add: assisted_row_def sub_ok_def sub_row_check_def)

lemma draft_one_frame:
  "db_submissions (draft_one e a yp d) = db_submissions d @ [assisted_row e a (fst yp) (snd yp) (db_next d)]"
  "db_next (draft_one e a yp d) = db_next d + 1" "db_appeals (draft_one e a yp d) = db_appeals d"
  "db_seals (draft_one e a yp d) = db_seals d" "same_desk d (draft_one e a yp d)"
  by (simp_all add: draft_one_def insert_assisted_def append_audit_def same_desk_def)

lemma draft_fold:
  "\<exists>rows. db_submissions (fold (draft_one e a) ps d) = db_submissions d @ rows
     \<and> draft_rows (db_next d) (db_next (fold (draft_one e a) ps d)) rows
     \<and> db_next d \<le> db_next (fold (draft_one e a) ps d)
     \<and> db_appeals (fold (draft_one e a) ps d) = db_appeals d \<and> db_seals (fold (draft_one e a) ps d) = db_seals d
     \<and> same_desk d (fold (draft_one e a) ps d)"
proof (induction ps arbitrary: d)
  case Nil
  then show ?case by (simp add: draft_rows_def)
next
  case (Cons p ps)
  let ?d1 = "draft_one e a p d" and ?s = "assisted_row e a (fst p) (snd p) (db_next d)"
  obtain rows where r: "db_submissions (fold (draft_one e a) ps ?d1) = db_submissions ?d1 @ rows"
    "draft_rows (db_next ?d1) (db_next (fold (draft_one e a) ps ?d1)) rows"
    "db_next ?d1 \<le> db_next (fold (draft_one e a) ps ?d1)"
    "db_appeals (fold (draft_one e a) ps ?d1) = db_appeals ?d1" "db_seals (fold (draft_one e a) ps ?d1) = db_seals ?d1"
    "same_desk ?d1 (fold (draft_one e a) ps ?d1)"
    using Cons.IH [of ?d1] by blast
  have "draft_rows (db_next d) (db_next (fold (draft_one e a) ps ?d1)) (?s # rows)"
    using r(2,3) by (fastforce simp: draft_rows_def list_all_iff draft_one_frame assisted_row_ok)
  then show ?case
    using r same_desk_trans [OF draft_one_frame(5) r(6)]
    by (intro exI [of _ "?s # rows"]) (simp add: draft_one_frame)
qed

lemma drafts_step:
  assumes ok: "class_ok d" and sub: "db_submissions d' = db_submissions d @ rows"
    and rows: "draft_rows lo (db_next d') rows" and le: "db_next d \<le> lo" "lo \<le> db_next d'"
    and same: "db_appeals d' = db_appeals d" "db_seals d' = db_seals d"
  shows "effect d d' \<and> class_ok d'"
proof -
  have "effect d d'"
    by (rule effect.created [OF sub]) (use rows le in \<open>auto simp: draft_rows_def list_all_iff\<close>)
  then show ?thesis by (rule step_keys [OF ok]) (simp_all add: same)
qed

lemma apply_ai_batch_D:
  assumes "apply_ai_batch e a revise fits i batch xs d = Inr (d', n)"
  obtains d1 c ps where "load_current_scheme e d = Inr (d1, c)" and "ensure_not_sealed d1 (ac_user a)"
    and "d' = append_audit a ''ai.batch_applied'' ''ai_batch'' (dec_int (ab_id (the batch))) (fold (draft_one e a) ps d1)"
  using assms by (auto simp: apply_ai_batch_def split: option.splits sum.splits if_splits)

lemma apply_agent_draft_D:
  assumes "apply_agent_draft e a i action token d = Inr (d', r)"
  obtains "d' = d" | d1 c x p where "load_current_scheme e d = Inr (d1, c)" and "ensure_not_sealed d1 (ac_user a)"
    and "d' = append_audit a ''agent.action_applied'' ''agent_action'' (dec_int (aa_id (the action)))
      (insert_assisted e a x p d1)"
  using assms by (auto simp: apply_agent_draft_def split: option.splits sum.splits if_splits)

lemma load_scheme_seals:
  "load_current_scheme e d = Inr (d1, c) \<Longrightarrow> ensure_not_sealed d1 i = ensure_not_sealed d i"
  using load_current_scheme_keeps by (simp add: ensure_not_sealed_def)

lemma apply_ai_batch_unsealed:
  "apply_ai_batch e a revise fits i batch xs d = Inr (d', n) \<Longrightarrow> ensure_not_sealed d (ac_user a)"
  by (erule apply_ai_batch_D) (simp add: load_scheme_seals)

lemma apply_agent_draft_unsealed:
  "apply_agent_draft e a i action token d = Inr (d', r) \<Longrightarrow> d' = d \<or> ensure_not_sealed d (ac_user a)"
  by (erule apply_agent_draft_D) (simp_all add: load_scheme_seals)

lemma after_load:
  assumes ok: "class_ok d" and l: "load_current_scheme e d = Inr (d1, c)"
    and step: "class_ok d1 \<Longrightarrow> effect d1 d2 \<and> class_ok d2"
  shows "effect d d2 \<and> class_ok d2"
  by (rule quiet_then [OF ok load_current_scheme_quiet [OF l] step])

lemma apply_ai_batch_step:
  assumes ok: "class_ok d" and h: "apply_ai_batch e a revise fits i batch xs d = Inr (d', n)"
  shows "effect d d' \<and> class_ok d'"
proof (rule apply_ai_batch_D [OF h])
  fix d1 c ps
  assume l: "load_current_scheme e d = Inr (d1, c)"
    and d': "d' = append_audit a ''ai.batch_applied'' ''ai_batch'' (dec_int (ab_id (the batch))) (fold (draft_one e a) ps d1)"
  obtain rows where "db_submissions (fold (draft_one e a) ps d1) = db_submissions d1 @ rows"
    "draft_rows (db_next d1) (db_next (fold (draft_one e a) ps d1)) rows" "db_next d1 \<le> db_next (fold (draft_one e a) ps d1)"
    "db_appeals (fold (draft_one e a) ps d1) = db_appeals d1" "db_seals (fold (draft_one e a) ps d1) = db_seals d1"
    using draft_fold [of e a ps d1] by blast
  then show ?thesis
    by (intro after_load [OF ok l] drafts_step [of d1 d' rows "db_next d1"]) (simp_all add: d' append_audit_def)
qed

lemma apply_ai_batch_desk:
  assumes h: "apply_ai_batch e a revise fits i batch xs d = Inr (d', n)"
  shows "same_desk d d'"
proof (rule apply_ai_batch_D [OF h])
  fix d1 c ps
  assume l: "load_current_scheme e d = Inr (d1, c)"
    and d': "d' = append_audit a ''ai.batch_applied'' ''ai_batch'' (dec_int (ab_id (the batch))) (fold (draft_one e a) ps d1)"
  have "same_desk d1 (fold (draft_one e a) ps d1)" using draft_fold [of e a ps d1] by blast
  then have "same_desk d1 d'" by (simp add: d' append_audit_def same_desk_def)
  then show ?thesis by (rule same_desk_trans [OF load_current_scheme_desk [OF l]])
qed

lemma apply_agent_draft_step:
  assumes ok: "class_ok d" and h: "apply_agent_draft e a i action token d = Inr (d', r)"
  shows "effect d d' \<and> class_ok d'"
proof (rule apply_agent_draft_D [OF h])
  assume "d' = d"
  then show ?thesis using quiet_step [OF ok quiet_refl] by simp
next
  fix d1 c x p
  assume l: "load_current_scheme e d = Inr (d1, c)"
    and d': "d' = append_audit a ''agent.action_applied'' ''agent_action'' (dec_int (aa_id (the action)))
      (insert_assisted e a x p d1)"
  show ?thesis
    by (intro after_load [OF ok l] drafts_step [of d1 d' "[assisted_row e a x p (db_next d1)]" "db_next d1"])
      (simp_all add: d' append_audit_def insert_assisted_def draft_rows_def assisted_row_ok)
qed

lemma apply_agent_draft_desk:
  assumes h: "apply_agent_draft e a i action token d = Inr (d', r)"
  shows "same_desk d d'"
proof (rule apply_agent_draft_D [OF h])
  fix d1 c x p
  assume l: "load_current_scheme e d = Inr (d1, c)"
    and d': "d' = append_audit a ''agent.action_applied'' ''agent_action'' (dec_int (aa_id (the action)))
      (insert_assisted e a x p d1)"
  have "same_desk d1 d'" by (simp add: d' append_audit_def insert_assisted_def same_desk_def)
  then show ?thesis by (rule same_desk_trans [OF load_current_scheme_desk [OF l]])
qed simp

lemma seal_fold:
  assumes "seals_ok d"
  shows "seals_ok (fold (\<lambda>u. ensure_automatic_seal (us_id u) t) us d)
    \<and> db_submissions (fold (\<lambda>u. ensure_automatic_seal (us_id u) t) us d) = db_submissions d
    \<and> db_appeals (fold (\<lambda>u. ensure_automatic_seal (us_id u) t) us d) = db_appeals d
    \<and> db_next d \<le> db_next (fold (\<lambda>u. ensure_automatic_seal (us_id u) t) us d)
    \<and> same_desk d (fold (\<lambda>u. ensure_automatic_seal (us_id u) t) us d)"
  using assms
proof (induction us arbitrary: d)
  case (Cons u us)
  have "seals_ok (ensure_automatic_seal (us_id u) t d)" by (rule ensure_automatic_seal_ok [OF Cons.prems])
  from Cons.IH [OF this] show ?case
    using order_trans [OF ensure_automatic_seal_frame(2) [of d "us_id u" t]]
    by (simp add: ensure_automatic_seal_frame(1,3) same_desk_def ensure_automatic_seal_desk)
qed simp

lemma read_scheme_quiet:
  assumes "read_current_scheme e d = Inr (d1, c)"
  shows "quiet d d1" and "same_desk d d1"
  by (subst read_current_scheme_db [OF assms], simp add: quiet_def same_desk_def)+

lemma window_tasks_step:
  assumes ok: "class_ok d"
  shows "effect d (window_tasks e d) \<and> class_ok (window_tasks e d)" and "same_desk d (window_tasks e d)"
proof -
  have "effect d (window_tasks e d) \<and> class_ok (window_tasks e d) \<and> same_desk d (window_tasks e d)"
  proof (cases "read_current_scheme e d")
    case (Inl err)
    then show ?thesis using quiet_step [OF ok quiet_refl] by (simp add: window_tasks_def)
  next
    case (Inr r)
    then obtain d1 c where l: "read_current_scheme e d = Inr (d1, c)" by (cases r) simp
    note q = read_scheme_quiet [OF l]
    have s1: "effect d d1 \<and> class_ok d1" by (rule quiet_step [OF ok q(1)])
    then have so: "seals_ok d1" using class_okD(3) by blast
    define t where "t = w_close (cf_window (ss_config c))"
    have "window_tasks e d = d1 \<or> window_tasks e d = auto_seal t d1" by (simp add: window_tasks_def l t_def)
    then show ?thesis
    proof
      assume "window_tasks e d = d1"
      then show ?thesis using s1 q(2) by simp
    next
      assume w: "window_tasks e d = auto_seal t d1"
      let ?us = "filter (\<lambda>u. us_status u = ''active'' \<and> \<not> list_ex (active_seal (us_id u)) (db_seals d1)) (db_users d1)"
      note f = seal_fold [OF so, of t ?us, folded auto_seal_def]
      have "effect d1 (auto_seal t d1) \<and> class_ok (auto_seal t d1)"
        using f s1 appeals_ok_frame [of d1 "auto_seal t d1"] class_okD(2)
        by (intro step_frame) auto
      then show ?thesis
        using quiet_then [OF ok q(1)] same_desk_trans [OF q(2)] f by (simp add: w)
    qed
  qed
  then show "effect d (window_tasks e d) \<and> class_ok (window_tasks e d)" and "same_desk d (window_tasks e d)"
    by blast+
qed

end
