(* ===== verification/ClassHistory.thy ===== *)
theory ClassHistory
  imports DeskSteps Samples Intake
begin

text \<open>
  What holds of a class after any sequence of requests, whoever sends them and in whatever
  order, with the scheduler, the workers, assisted drafts and the editing of schemes in between: the invariant of \<open>ClassLife\<close> request by request, the life cycle of a submission as a
  refinement of the transition table of \<open>review/state.go\<close>, and the permanence of a forced
  rejection.
\<close>

section \<open>One request\<close>

lemma staff_step:
  assumes ok: "class_ok d"
  shows "save_review_task e a rv i dc d = Inr (d', r1) \<Longrightarrow> effect d d' \<and> class_ok d'"
    and "admin_suggest_classification e a i sg d = Inr (d', r2) \<Longrightarrow> effect d d' \<and> class_ok d'"
    and "resolve_classification e a i org rx d = Inr (d', r3) \<Longrightarrow> effect d d' \<and> class_ok d'"
    and "correct_submission e a self fs i cx d = Inr (d', r4) \<Longrightarrow> effect d d' \<and> class_ok d'"
    and "arbitrate_submission e a g org i ax d = Inr (d', r5) \<Longrightarrow> effect d d' \<and> class_ok d'"
    and "force_gate e a rs d = Inr (d', r6) \<Longrightarrow> effect d d' \<and> class_ok d'"
    and "run_settlement v e a d = Inr (d', r7) \<Longrightarrow> effect d d' \<and> class_ok d'"
proof -
  note so = class_okD(1) [OF ok]
  show "effect d d' \<and> class_ok d'" if h: "save_review_task e a rv i dc d = Inr (d', r1)"
    using step_moves [OF ok] save_review_task_moves [OF so h] by simp
  show "effect d d' \<and> class_ok d'" if h: "admin_suggest_classification e a i sg d = Inr (d', r2)"
    using step_moves [OF ok] admin_suggest_classification_moves [OF so h] by simp
  show "effect d d' \<and> class_ok d'" if h: "resolve_classification e a i org rx d = Inr (d', r3)"
    using step_moves [OF ok] resolve_classification_moves [OF h] by simp
  show "effect d d' \<and> class_ok d'" if h: "correct_submission e a self fs i cx d = Inr (d', r4)"
    using step_moves [OF ok] correct_submission_moves [OF so h] by simp
  show "effect d d' \<and> class_ok d'" if h: "arbitrate_submission e a g org i ax d = Inr (d', r5)"
    using step_moves [OF ok] arbitrate_submission_moves [OF so h] by simp
  show "effect d d' \<and> class_ok d'" if h: "force_gate e a rs d = Inr (d', r6)"
    using step_moves [OF ok moves_same] force_gate_frame [OF h] by simp
  show "effect d d' \<and> class_ok d'" if h: "run_settlement v e a d = Inr (d', r7)"
  proof -
    obtain n reused where r7: "r7 = (n, reused)" by fastforce
    show ?thesis using step_moves [OF ok] run_settlement_moves [OF h [unfolded r7]] by simp
  qed
qed

lemma class_step:
  assumes ok: "class_ok d"
  shows "my_seal e a d = Inr (d', r1) \<Longrightarrow> effect d d' \<and> class_ok d'"
    and "seal_my_submissions e a ph sid d = Inr (d', r2) \<Longrightarrow> effect d d' \<and> class_ok d'"
    and "unseal_student e a st rs d = Inr (d', r3) \<Longrightarrow> effect d d' \<and> class_ok d'"
    and "update_timeline e a tx d = Inr (d', r4) \<Longrightarrow> effect d d' \<and> class_ok d'"
    and "update_capability e a k on d = Inr (d', r5) \<Longrightarrow> effect d d' \<and> class_ok d'"
proof -
  note ap = appeals_ok_frame [OF class_okD(2) [OF ok]] and se = class_okD(3) [OF ok]
  show "effect d d' \<and> class_ok d'" if h: "my_seal e a d = Inr (d', r1)"
    using step_frame [OF ok] ap my_seal_frame [OF h] my_seal_ok [OF se h] by simp
  show "effect d d' \<and> class_ok d'" if h: "seal_my_submissions e a ph sid d = Inr (d', r2)"
    using step_frame [OF ok] ap seal_my_submissions_frame [OF h] seal_my_submissions_ok [OF se h] by simp
  show "effect d d' \<and> class_ok d'" if h: "unseal_student e a st rs d = Inr (d', r3)"
    using step_frame [OF ok] ap unseal_student_frame [OF h] unseal_student_ok [OF se h] by simp
  show "effect d d' \<and> class_ok d'" if h: "update_timeline e a tx d = Inr (d', r4)"
    using step_frame [OF ok] ap update_timeline_frame [OF h] seals_ok_same [OF se] by simp
  show "effect d d' \<and> class_ok d'" if h: "update_capability e a k on d = Inr (d', r5)"
    using step_frame [OF ok] ap update_capability_frame [OF h] seals_ok_same [OF se] by simp
qed

lemma collective_step:
  assumes ok: "class_ok d"
  shows "collective_after e a ''submission'' k1 (submit_submission e a i d) = Inr d' \<Longrightarrow> effect d d' \<and> class_ok d'"
    and "collective_after e a ''appeal'' k2 (create_appeal e a batch kind i x d) = Inr d' \<Longrightarrow> effect d d' \<and> class_ok d'"
    and "collective_after e a ''appeal'' k2 (submit_appeal e a i x d) = Inr d' \<Longrightarrow> effect d d' \<and> class_ok d'"
proof -
  show "effect d d' \<and> class_ok d'"
    if h: "collective_after e a ''submission'' k1 (submit_submission e a i d) = Inr d'"
    by (rule submit_step [OF ok h])
  show "effect d d' \<and> class_ok d'"
    if h: "collective_after e a ''appeal'' k2 (create_appeal e a batch kind i x d) = Inr d'"
  proof -
    obtain d1 y where "create_appeal e a batch kind i x d = Inr (d1, y)"
      and "ensure_governance_case e a ''appeal'' (k2 y) False d1 = Inr d'"
      using h by (auto simp: collective_after_Inr)
    then show ?thesis using appeal_case_step appeal_step(2) [OF ok] by blast
  qed
  show "effect d d' \<and> class_ok d'"
    if h: "collective_after e a ''appeal'' k2 (submit_appeal e a i x d) = Inr d'"
  proof -
    obtain d1 y where "submit_appeal e a i x d = Inr (d1, y)"
      and "ensure_governance_case e a ''appeal'' (k2 y) False d1 = Inr d'"
      using h by (auto simp: collective_after_Inr)
    then show ?thesis using appeal_case_step appeal_step(3) [OF ok] by blast
  qed
qed

lemma roster_step:
  assumes ok: "class_ok d"
  shows "add_whitelist e a sid nm d = Inr (d', r1) \<Longrightarrow> effect d d' \<and> class_ok d'"
    and "import_whitelist e a n rec d = Inr (d', r2) \<Longrightarrow> effect d d' \<and> class_ok d'"
    and "delete_whitelist a rf i d = Inr (d', r3) \<Longrightarrow> effect d d' \<and> class_ok d'"
    and "reset_user_password a i d = Inr (d', r4) \<Longrightarrow> effect d d' \<and> class_ok d'"
    and "reset_class_passwords a lg d = Inr (d', r4) \<Longrightarrow> effect d d' \<and> class_ok d'"
    and "update_user_role e a i role d = Inr (d', r3) \<Longrightarrow> effect d d' \<and> class_ok d'"
    and "update_user_status e a i role d = Inr (d', r3) \<Longrightarrow> effect d d' \<and> class_ok d'"
    and "update_class_deputy a user d = Inr (d', r3) \<Longrightarrow> effect d d' \<and> class_ok d'"
    and "paste_gpa e a pf tb rows d = Inr (d', r5) \<Longrightarrow> effect d d' \<and> class_ok d'"
    and "import_gpa_file e a pf tb d = Inr (d', r5) \<Longrightarrow> effect d d' \<and> class_ok d'"
  by (erule roster_quiet [THEN quiet_step [OF ok]])+

lemma dispatch_step:
  assumes ok: "class_ok d"
  shows "preview_dispatch e a sd inc d = Inr (d', r1) \<Longrightarrow> effect d d' \<and> class_ok d'"
    and "run_dispatch e a sd inc d = Inr (d', r2) \<Longrightarrow> effect d d' \<and> class_ok d'"
    and "update_dispatch_auto a on d = Inr (d', r3) \<Longrightarrow> effect d d' \<and> class_ok d'"
    and "update_dispatch_reviewer e a u pz d = Inr (d', r4) \<Longrightarrow> effect d d' \<and> class_ok d'"
    and "reassign_submission e a i from to rs d = Inr (d', r5) \<Longrightarrow> effect d d' \<and> class_ok d'"
    and "handover_dispatch e a from tt rs d = Inr (d', r6) \<Longrightarrow> effect d d' \<and> class_ok d'"
  by (erule dispatch_quiet [THEN quiet_step [OF ok]] handover_quiet [THEN quiet_step [OF ok]])+

lemma handle_step:
  assumes ok: "class_ok d" and h: "handle e a r d = Inr d'"
  shows "effect d d'" and "class_ok d'"
proof -
  have "effect d d' \<and> class_ok d'"
    using h
    by (cases r) (simp_all only: handle_def request.case state_of_Inr,
      ((elim exE)?, erule student_step [OF ok] appeal_step [OF ok] staff_step [OF ok]
        class_step [OF ok] objection_step [OF ok] bonus_step [OF ok] case_step [OF ok]
        governance_step [OF ok] collective_step [OF ok] dispatch_step [OF ok] roster_step [OF ok])+)
  then show "effect d d'" and "class_ok d'" by auto
qed

section \<open>Histories\<close>

text \<open>
  One step of a history is whatever changes the tables: a request of \<open>Requests\<close>; the scheduler closing
  a proposal; the dispatch worker handling the event of a new submission; drafts from an AI import or a
  confirmed suggestion of the agent; the worker that seals at the end of the window; and
  \<open>editing\<close>, which stands for everything not modelled in itself: the editor of schemes (saving, publishing,
  cloning, sharing), uploads and notes of evidence, the scorecard audits and the archive switch of
  the operators may leave any rows in their tables.  Every statement of the program that writes
  submissions, appeals or seals is in one of these steps.
\<close>

inductive acts :: "db \<Rightarrow> db \<Rightarrow> bool" where
  request: "handle e a r d = Inr d' \<Longrightarrow> acts d d'"
| scheduler: "close_due e org i d = Inr d' \<Longrightarrow> acts d d'"
| worker: "auto_dispatch e ev i d = Inr d' \<Longrightarrow> acts d d'"
| ai_import: "apply_ai_batch e a revise fits i batch xs d = Inr (d', n) \<Longrightarrow> acts d d'"
| agent_draft: "apply_agent_draft e a i action token d = Inr (d', u) \<Longrightarrow> acts d d'"
| window_end: "acts d (window_tasks e d)"
| editing: "acts d (d\<lparr>db_schemes := ss, db_evidence := es, db_batches := bs, db_flags := fs, db_archived := ar\<rparr>)"

inductive serves :: "db \<Rightarrow> db \<Rightarrow> bool" where
  none: "serves d d"
| one: "serves d d1 \<Longrightarrow> acts d1 d2 \<Longrightarrow> serves d d2"

inductive_cases actsE: "acts d d'"

lemma close_due_cases:
  assumes "close_due e org i d = Inr d'"
  obtains "d' = d" | a r where "close_governance e a True org i d = Inr (d', r)"
  using assms by (auto simp: close_due_def split: option.splits if_splits)

lemma acts_step:
  assumes ok: "class_ok d" and h: "acts d d'"
  shows "effect d d' \<and> class_ok d'"
  using h
proof cases
  case (request e a r)
  then show ?thesis using handle_step [OF ok] by blast
next
  case (scheduler e org i)
  then show ?thesis
    by (rule close_due_cases) (use quiet_step [OF ok] governance_step(6) [OF ok] in auto)
next
  case (worker e ev i)
  then show ?thesis by (rule quiet_step [OF ok auto_dispatch_quiet])
next
  case ai_import
  then show ?thesis by (rule apply_ai_batch_step [OF ok])
next
  case agent_draft
  then show ?thesis by (rule apply_agent_draft_step [OF ok])
next
  case (window_end e)
  then show ?thesis using window_tasks_step(1) [OF ok] by simp
next
  case editing
  then show ?thesis by (intro quiet_step [OF ok]) (simp add: quiet_def)
qed

inductive outside :: "db \<Rightarrow> db \<Rightarrow> bool" where
  \<comment> \<open>a step that is no request and no work of the scheduler or the dispatch worker\<close>
  import_step: "apply_ai_batch e a revise fits i batch xs d = Inr (d', n) \<Longrightarrow> outside d d'"
| agent_step: "apply_agent_draft e a i action token d = Inr (d', u) \<Longrightarrow> outside d d'"
| window_step: "class_ok d \<Longrightarrow> outside d (window_tasks e d)"
| edit_step: "outside d (d\<lparr>db_schemes := ss, db_evidence := es, db_batches := bs, db_flags := fs, db_archived := ar\<rparr>)"

lemma outside_desk: "outside d d' \<Longrightarrow> same_desk d d'"
  by (induction rule: outside.induct)
    (simp_all add: apply_ai_batch_desk apply_agent_draft_desk window_tasks_step(2), simp add: same_desk_def)

lemma acts_cases:
  assumes ok: "class_ok d" and h: "acts d d'"
  obtains (served) e a r where "handle e a r d = Inr d'"
    | (closed) e org i where "close_due e org i d = Inr d'"
    | (dispatched) e ev i where "auto_dispatch e ev i d = Inr d'"
    | (aside) "outside d d'"
  using h
proof cases
  case request
  then show thesis by (rule served)
next
  case scheduler
  then show thesis by (rule closed)
next
  case worker
  then show thesis by (rule dispatched)
next
  case ai_import
  then show thesis by (intro aside import_step)
next
  case agent_draft
  then show thesis by (intro aside agent_step)
next
  case window_end
  then show thesis using aside window_step [OF ok] by simp
next
  case editing
  then show thesis using aside edit_step by simp
qed

lemma serves_class_ok: "serves d d' \<Longrightarrow> class_ok d \<Longrightarrow> class_ok d'"
  by (induction rule: serves.induct) (auto dest: acts_step)

definition new_class :: "db \<Rightarrow> bool" where
  \<comment> \<open>members, schemes and imported scores may be there, but no work yet\<close>
  "new_class d \<longleftrightarrow> db_submissions d = [] \<and> db_appeals d = [] \<and> db_seals d = []"

lemma new_class_ok: "new_class d \<Longrightarrow> class_ok d"
  by (simp add: new_class_def class_ok_def submissions_ok_def appeals_ok_def seals_ok_def)

text \<open>A further invariant of the tables that every act keeps, given \<open>class_ok\<close>.\<close>

locale class_invariant =
  fixes holds :: "db \<Rightarrow> bool"
  assumes kept: "class_ok d \<Longrightarrow> holds d \<Longrightarrow> acts d d' \<Longrightarrow> holds d'"
begin

lemma history: "serves d d' \<Longrightarrow> class_ok d \<Longrightarrow> holds d \<Longrightarrow> holds d'"
  by (induction rule: serves.induct) (auto intro: kept serves_class_ok)

lemma from_new: "new_class d \<Longrightarrow> holds d \<Longrightarrow> serves d d' \<Longrightarrow> class_ok d' \<and> holds d'"
  using history serves_class_ok new_class_ok by blast

end

lemma same_id_row:
  assumes ok: "submissions_ok d" and "effect d d'" and s: "s \<in> set (db_submissions d)"
    and s': "s' \<in> set (db_submissions d')" and id: "sb_id s' = sb_id s"
  shows "s' = s \<or> row_step s s' \<and> sub_update_check s s' = None"
  using assms(2)
proof cases
  case moved
  then obtain p f where sub: "db_submissions d' = where_set p f (db_submissions d)"
    and step: "\<And>q. q \<in> set (db_submissions d) \<Longrightarrow> p q \<Longrightarrow>
        sub_update_check q (f q) = None \<and> row_step q (f q)" by (auto simp: moves_def)
  obtain q where q: "q \<in> set (db_submissions d)" "s' = (if p q then f q else q)"
    using s' by (auto simp: sub where_set_def)
  have "sb_id q = sb_id s'"
    using q step [OF q(1)] row_step_kept by (auto simp: kept_row_def split: if_splits)
  then have "q = s" using same_row [OF ok q(1) s] id by simp
  then show ?thesis using q step [OF q(1)] by auto
next
  case (created rows)
  then have "s' \<notin> set rows" using submissions_okD(3) [OF ok s] id by fastforce
  then have "s' \<in> set (db_submissions d)" using s' created(1) by auto
  then show ?thesis using same_row [OF ok _ s id] by simp
next
  case (deleted i t)
  then have "s' \<in> set (db_submissions d)" using s' by (auto simp: delete_where_def)
  then show ?thesis using same_row [OF ok _ s id] by simp
qed

lemma rejected_row_scored:
  assumes "sub_row_check s = None" and "sb_force_rejection s = Some c"
  shows "sb_final s = Some 0" and "sb_status s = Scored \<or> sb_status s = Locked"
proof -
  have "sb_final s = Some 0 \<and> sb_status s \<in> {Scored, Locked}"
    using assms unfolding sub_row_check_def by (metis option.distinct(1))
  then show "sb_final s = Some 0" and "sb_status s = Scored \<or> sb_status s = Locked" by blast+
qed

lemma rejected_row_step:
  assumes ok: "submissions_ok d" and ef: "effect d d'" and s: "s \<in> set (db_submissions d)"
    and rj: "sb_force_rejection s = Some c"
  obtains s' where "s' \<in> set (db_submissions d')" "sb_id s' = sb_id s"
    "sb_force_rejection s' = Some c" "sub_frozen s s'" "sub_row_check s' = None"
proof -
  have row: "sub_row_check s = None" using submissions_okD(1) [OF ok s] by (simp add: sub_ok_def)
  have same: "sub_frozen s s" by (simp add: sub_frozen_def)
  show thesis
    using ef
  proof cases
    case moved
    then obtain p f where sub: "db_submissions d' = where_set p f (db_submissions d)"
      and step: "p s \<Longrightarrow> sub_update_check s (f s) = None \<and> row_step s (f s)"
      using s by (auto simp: moves_def)
    show thesis
    proof (cases "p s")
      case True
      then have u: "sub_update_check s (f s) = None" and k: "kept_row s (f s)"
        using step row_step_kept by blast+
      have mem: "f s \<in> set (db_submissions d')" using s True by (force simp: sub where_set_def)
      have id: "sb_id (f s) = sb_id s" using k by (simp add: kept_row_def)
      have z: "sb_force_rejection (f s) = Some c" "sub_frozen s (f s)" "sub_row_check (f s) = None"
        using u rj by (simp_all add: sub_update_check_def split: if_split_asm)
      show thesis by (rule that [OF mem id z])
    next
      case False
      then have "s \<in> set (db_submissions d')" using s by (force simp: sub where_set_def)
      then show thesis using that [OF _ HOL.refl rj same row] by blast
    qed
  next
    case (created rows)
    then have "s \<in> set (db_submissions d')" using s by simp
    then show thesis using that [OF _ HOL.refl rj same row] by blast
  next
    case (deleted i t)
    have "sb_status t \<noteq> sb_status s" using rejected_row_scored(2) [OF row rj] deleted(4) by auto
    then have "sb_id s \<noteq> i" using same_row [OF ok deleted(2) s] unfolding deleted(3) by blast
    then have "s \<in> set (db_submissions d')" using s deleted(1) by (auto simp: delete_where_def)
    then show thesis using that [OF _ HOL.refl rj same row] by blast
  qed
qed

lemma rejected_rows_stay:
  assumes "serves d d'" and "class_ok d" and "s \<in> set (db_submissions d)"
    and "sb_force_rejection s = Some c"
  shows "\<exists>s' \<in> set (db_submissions d'). sb_id s' = sb_id s \<and> sb_force_rejection s' = Some c
    \<and> sub_frozen s s' \<and> sub_row_check s' = None"
  using assms
proof (induction rule: serves.induct)
  case (none d)
  then show ?case using submissions_okD(1) [OF class_okD(1) [OF none(1)] none(2)]
    by (auto simp: sub_frozen_def sub_ok_def)
next
  case (one d d1 d2)
  then obtain t where t: "t \<in> set (db_submissions d1)" "sb_id t = sb_id s"
    "sb_force_rejection t = Some c" "sub_frozen s t" by blast
  have ok: "class_ok d1" by (rule serves_class_ok [OF one(1) one(4)])
  obtain s' where "s' \<in> set (db_submissions d2)" "sb_id s' = sb_id t"
    "sb_force_rejection s' = Some c" "sub_frozen t s'" "sub_row_check s' = None"
    by (rule rejected_row_step [OF class_okD(1) [OF ok] acts_step [OF ok one(2), THEN conjunct1] t(1,3)])
  then show ?case using t by (auto simp: sub_frozen_def)
qed

lemma distinct_class_bound:
  assumes "distinct (map f xs)" shows "length (filter (\<lambda>x. f x = a) xs) \<le> 1"
proof -
  have "set (map f (filter (\<lambda>x. f x = a) xs)) \<subseteq> {a}" by auto
  then have "card (set (map f (filter (\<lambda>x. f x = a) xs))) \<le> card {a}" by (rule card_mono [rotated]) simp
  moreover have "distinct (map f (filter (\<lambda>x. f x = a) xs))" using assms by (rule distinct_map_filter)
  ultimately show ?thesis using distinct_card by fastforce
qed

lemma distinct_one: "distinct xs \<Longrightarrow> set xs \<subseteq> {a} \<Longrightarrow> length xs \<le> 1"
  by (cases xs; cases "tl xs") auto

lemma student_appeals_bound:
  assumes "appeals_ok d"
  shows "length (filter (\<lambda>p. ap_target_type p = ty \<and> ap_target p = i \<and> ap_student p = st) (db_appeals d)) \<le> 2"
proof -
  define q :: "appeal_row \<Rightarrow> bool" where "q = (\<lambda>p. ap_target_type p = ty \<and> ap_target p = i \<and> ap_student p = (st :: int))"
  let ?ps = "filter q (db_appeals d)" and ?key = "\<lambda>p. (ap_target_type p, ap_target p, ap_student p, ap_round p)"
  have "set (map ?key ?ps) \<subseteq> {(ty, i, st, 1), (ty, i, st, 2)}"
    using appeals_okD(2) [OF assms] by (auto simp: q_def)
  then have "card (set (map ?key ?ps)) \<le> card {(ty, i, st, 1), (ty, i, st, 2 :: int)}"
    by (rule card_mono [rotated]) simp
  moreover have "distinct (map ?key ?ps)"
    using assms unfolding appeals_ok_def by (intro distinct_map_filter) blast
  ultimately have "length ?ps \<le> 2" using distinct_card by fastforce
  then show ?thesis by (simp add: q_def)
qed

lemma open_seals_bound:
  assumes "seals_ok d"
  shows "length (filter (\<lambda>s. se_student s = st \<and> se_unsealed_at s = None) (db_seals d)) \<le> 1"
proof -
  have "distinct (map se_student (filter (\<lambda>s. se_unsealed_at s = None) (db_seals d)))"
    using assms by (simp add: seals_ok_def)
  from distinct_class_bound [OF this, of st] show ?thesis by (simp add: conj_commute)
qed

lemma row_step_status:
  assumes "row_step s t"
  shows "sb_status t = sb_status s \<or> can_transition (sb_status s) (sb_status t)
    \<or> sb_status s = Locked \<and> sb_status t \<in> {Scored, Appealing, Arbitrating}
    \<or> sb_status s = Draft \<and> sb_status t \<in> {Scored, Arbitrating}"
  using assms
  by (cases rule: row_step.cases)
    (auto simp: past_review_def can_transition_def split: sub_status.splits)

section \<open>A history\<close>

lemma sample_history: "serves sample_class sample_created" "serves sample_class sample_submitted"
proof -
  show c: "serves sample_class sample_created"
    by (rule serves.one [OF serves.none acts.request]) (rule sample_create [folded sample_created_def])
  show "serves sample_class sample_submitted" by (rule serves.one [OF c acts.request [OF sample_submit]])
qed

lemma sample_new: "new_class sample_class"
  by (simp add: new_class_def sample_class_def)

lemma sample_submitted_rows:
  "db_submissions sample_submitted = [sample_row Pending None\<lparr>sb_lock_version := 2\<rparr>]"
  by (simp add: sample_submitted_def frame_simps)

definition sample_rejected_row :: submission where
  "sample_rejected_row = sample_row Scored (Some 0)\<lparr>sb_lock_version := 3,
     sb_scored_at := Some 1000000, sb_force_rejection := Some sample_rejection\<rparr>"

lemma sample_reject:
  "\<exists>d. handle sample_env sample_admin (CorrectSubmission False False 100 sample_correction)
      sample_submitted = Inr d \<and> db_submissions d = [sample_rejected_row]"
proof -
  have t: "trim_space ''no'' = ''no''" "rune_count ''no'' = 2" "column_of (Fin 0) = 0" "dec_int 1 = ''1''"
    by code_simp+
  show ?thesis
    by (simp add: handle_def state_of_def correct_submission_def path_id_def
      correction_input_check_def t Let_def correction_denied_def corrected_score_def
      force_reject_permission_def authorize_adjudication_def correction_of_def set_correction_def
      sample_rejection_def sample_rejected_row_def sample_correction_def update_submissions_def
      sub_update_check_def sub_row_check_def sub_frozen_def where_set_def append_audit_def
      enqueue_event_def frame_simps sample_created_def sample_submitted_def sample_defs)
qed

section \<open>Properties\<close>

text \<open>
  C1. A class that starts with no submissions, appeals or seals keeps scores and statuses together
  through every sequence of the steps of \<open>acts\<close> (the 61 modelled requests, the scheduler, the dispatch worker, assisted
  drafts, the end of the window, any editing of schemes and evidence): a claim has no final score until it is scored,
  has one while it is scored, locked or under appeal, a forced rejection means a locked-in zero,
  a forced score is the score shown, and no two rows share an id.
\<close>

theorem history_scores_consistent:
  assumes "new_class d0" and "serves d0 d" and "s \<in> set (db_submissions d)"
  shows "(sb_status s \<in> {Draft, Pending, Consensus} \<longrightarrow> sb_final s = None)
    \<and> (sb_status s \<in> {Scored, Locked, Appealing} \<longrightarrow> sb_final s \<noteq> None)
    \<and> (sb_force_rejection s \<noteq> None \<longrightarrow> sb_final s = Some 0 \<and> sb_status s \<in> {Scored, Locked})
    \<and> (\<forall>f. sb_forced_score s = Some f \<and> sb_force_rejection s = None
         \<longrightarrow> sb_final s = map_option column_of (fr_score f) \<and> sb_status s \<in> {Scored, Locked})
    \<and> (\<forall>t \<in> set (db_submissions d). sb_id t = sb_id s \<longrightarrow> t = s)"
proof -
  have so: "submissions_ok d"
    using class_okD(1) [OF serves_class_ok [OF assms(2) new_class_ok [OF assms(1)]]] .
  have ok: "sub_ok s" by (rule submissions_okD(1) [OF so assms(3)])
  then have row: "sub_row_check s = None" by (simp add: sub_ok_def)
  have forced: "sb_final s = map_option column_of (fr_score f) \<and> sb_status s \<in> {Scored, Locked}"
    if "sb_forced_score s = Some f" "sb_force_rejection s = None" for f
    using row that by (simp add: sub_row_check_def split: if_split_asm)
  show ?thesis
    using ok forced rejected_row_scored [OF row] same_row [OF so _ assms(3)]
    unfolding sub_ok_def by blast
qed

lemma history_scores_consistent_witness:
  "sb_final (sample_row Pending None\<lparr>sb_lock_version := 2\<rparr>) = None
    \<and> sample_row Pending None\<lparr>sb_lock_version := 2\<rparr> \<in> set (db_submissions sample_submitted)"
  using history_scores_consistent [OF sample_new sample_history(2),
    of "sample_row Pending None\<lparr>sb_lock_version := 2\<rparr>"]
  by (simp add: sample_submitted_rows) (simp add: sample_row_def)

text \<open>
  C2. Every step of a history - each of the 61 requests, the scheduler, the dispatch worker,
  assisted drafts, the end of the window - moves each submission it leaves in the table along the life cycle of \<open>review/state.go\<close>
  and keeps its owner.  The code takes three steps the table does not list: an appeal, a correction or
  a report reopens a locked claim, a classification ruling may score a draft directly, and in a
  class that decides collectively a draft that is submitted goes to the council at once.
\<close>

theorem handle_refines_life_cycle:
  assumes "new_class d0" and "serves d0 d" and "acts d d'"
    and "s \<in> set (db_submissions d)" and "s' \<in> set (db_submissions d')" and "sb_id s' = sb_id s"
  shows "sb_student s' = sb_student s
    \<and> (sb_status s' = sb_status s \<or> can_transition (sb_status s) (sb_status s')
      \<or> sb_status s = Locked \<and> sb_status s' \<in> {Scored, Appealing, Arbitrating}
      \<or> sb_status s = Draft \<and> sb_status s' \<in> {Scored, Arbitrating})"
proof -
  have ok: "class_ok d" by (rule serves_class_ok [OF assms(2) new_class_ok [OF assms(1)]])
  have "s' = s \<or> row_step s s' \<and> sub_update_check s s' = None"
    by (rule same_id_row [OF class_okD(1) [OF ok] acts_step [OF ok assms(3), THEN conjunct1] assms(4-6)])
  then show ?thesis
    using row_step_status row_step_kept unfolding kept_row_def by blast
qed

lemma handle_refines_life_cycle_witness:
  "can_transition Pending Scored \<and> sb_student sample_rejected_row = 4"
proof -
  obtain d where h: "handle sample_env sample_admin (CorrectSubmission False False 100 sample_correction)
      sample_submitted = Inr d" and d: "db_submissions d = [sample_rejected_row]"
    using sample_reject by blast
  show ?thesis
    using handle_refines_life_cycle [OF sample_new sample_history(2) acts.request [OF h],
      of "sample_row Pending None\<lparr>sb_lock_version := 2\<rparr>" sample_rejected_row]
    by (simp add: d sample_submitted_rows sample_rejected_row_def sample_row_def)
qed

text \<open>
  C3. A forced rejection is final: whatever steps of \<open>acts\<close> follow, decisions on objections, reports,
  appeals and council cases included, the claim stays in the table with a
  score of zero, the same item and the same rejection.
\<close>

theorem force_rejection_permanent:
  assumes "new_class d0" and "serves d0 d" and "serves d d'"
    and "s \<in> set (db_submissions d)" and "sb_force_rejection s = Some c"
  shows "\<exists>s' \<in> set (db_submissions d'). sb_id s' = sb_id s \<and> sb_force_rejection s' = Some c
    \<and> sb_final s' = Some 0 \<and> sb_category s' = sb_category s \<and> sb_item s' = sb_item s
    \<and> sb_student s' = sb_student s \<and> sb_snapshot s' = sb_snapshot s"
proof -
  have ok: "class_ok d" by (rule serves_class_ok [OF assms(2) new_class_ok [OF assms(1)]])
  obtain s' where s': "s' \<in> set (db_submissions d')" "sb_id s' = sb_id s"
    "sb_force_rejection s' = Some c" "sub_frozen s s'" "sub_row_check s' = None"
    using rejected_rows_stay [OF assms(3) ok assms(4,5)] by blast
  show ?thesis
    using s' rejected_row_scored(1) [OF s'(5,3)] unfolding sub_frozen_def by blast
qed

lemma force_rejection_permanent_witness:
  "\<exists>d. serves sample_class d \<and> (\<exists>s' \<in> set (db_submissions d). sb_id s' = 100
    \<and> sb_force_rejection s' = Some sample_rejection \<and> sb_final s' = Some 0)"
proof -
  obtain d where h: "handle sample_env sample_admin (CorrectSubmission False False 100 sample_correction)
      sample_submitted = Inr d" and d: "db_submissions d = [sample_rejected_row]"
    using sample_reject by blast
  have sv: "serves sample_class d" by (rule serves.one [OF sample_history(2) acts.request [OF h]])
  show ?thesis
    using force_rejection_permanent [OF sample_new sv serves.none, of sample_rejected_row sample_rejection] sv
    by (auto simp: d sample_rejected_row_def sample_row_def)
qed

definition sample_base :: base_row where
  "sample_base = \<lparr>bs_id = 31, bs_student = 4, bs_scheme = 9, bs_category = ''c'', bs_item = ''b'', bs_kind = ''base'',
     bs_full = Some 5000, bs_score = 3000, bs_basis = [], bs_recorder = 1\<rparr>"

definition sample_graded :: db where
  "sample_graded = sample_class\<lparr>db_base := [sample_base]\<rparr>"

lemma sample_appeal:
  "\<exists>d p. handle sample_env sample_student (DraftAppeal (\<lambda>_ _. None) ''base_score'' 31) sample_graded = Inr d
    \<and> db_appeals d = [p] \<and> ap_target_type p = ''base_score'' \<and> ap_target p = 31 \<and> ap_student p = 4"
proof -
  have t: "trim_space ''base_score'' = ''base_score''" "points_float 3000 = Fin 3" by code_simp+
  show ?thesis
    by (simp add: handle_def state_of_def create_appeal_draft_def t valid_appeal_target_type_def ensure_appeal_draft_def
      prepare_appeal_draft_def student_appeals_def previous_appeal_def next_student_appeal_round_def
      load_appeal_target_def reopen_check_def objection_pending_def scheme_read_defs capability_defs Let_def latest_by_def
      append_audit_def sample_base_def sample_graded_def sample_defs)
qed

text \<open>
  C9. At any moment of any history a student has at most one first-round and one second-round appeal
  against one score, drafts included, and no other: at most two in all.  (An appeal taken back before its
  decision is the same row again when it is filed anew; a deleted draft leaves its round free.)
\<close>

theorem history_two_appeals:
  assumes "new_class d0" and "serves d0 d"
  shows "length (filter (\<lambda>p. ap_target_type p = ty \<and> ap_target p = i \<and> ap_student p = st) (db_appeals d)) \<le> 2
    \<and> (\<forall>p \<in> set (db_appeals d). ap_round p \<in> {1, 2})
    \<and> length (filter (\<lambda>p. ap_target_type p = ty \<and> ap_target p = i \<and> ap_student p = st \<and> ap_round p = n) (db_appeals d)) \<le> 1"
proof -
  have ok: "appeals_ok d" by (rule class_okD(2) [OF serves_class_ok [OF assms(2) new_class_ok [OF assms(1)]]])
  let ?key = "\<lambda>p. (ap_target_type p, ap_target p, ap_student p, ap_round p)"
  have "distinct (map ?key (filter (\<lambda>p. ?key p = (ty, i, st, n)) (db_appeals d)))"
    using ok unfolding appeals_ok_def by (intro distinct_map_filter) blast
  moreover have "set (map ?key (filter (\<lambda>p. ?key p = (ty, i, st, n)) (db_appeals d))) \<subseteq> {(ty, i, st, n)}" by auto
  ultimately have "length (map ?key (filter (\<lambda>p. ?key p = (ty, i, st, n)) (db_appeals d))) \<le> 1"
    by (rule distinct_one)
  then have "length (filter (\<lambda>p. ?key p = (ty, i, st, n)) (db_appeals d)) \<le> 1" by (simp only: length_map)
  moreover have "ap_round p \<in> {1, 2}" if "p \<in> set (db_appeals d)" for p using appeals_okD(2) [OF ok that] by simp
  ultimately show ?thesis using student_appeals_bound [OF ok, of ty i st] by simp
qed

lemma history_two_appeals_witness:
  "\<exists>d p. serves sample_graded d \<and> db_appeals d = [p] \<and> ap_target p = 31
    \<and> length (filter (\<lambda>p. ap_target_type p = ''base_score'' \<and> ap_target p = 31 \<and> ap_student p = 4 \<and> ap_round p = 1)
        (db_appeals d)) \<le> 1"
proof -
  show ?thesis
    using sample_appeal
  proof (elim exE conjE)
    fix d p
    assume h: "handle sample_env sample_student (DraftAppeal (\<lambda>_ _. None) ''base_score'' 31) sample_graded = Inr d"
      and d: "db_appeals d = [p]" "ap_target p = 31"
    have new: "new_class sample_graded" by (simp add: new_class_def sample_graded_def sample_class_def)
    have sv: "serves sample_graded d" by (rule serves.one [OF serves.none acts.request [OF h]])
    have "length (filter (\<lambda>p. ap_target_type p = ''base_score'' \<and> ap_target p = 31 \<and> ap_student p = 4 \<and> ap_round p = 1)
        (db_appeals d)) \<le> 1"
      by (rule history_two_appeals [OF new sv, THEN conjunct2, THEN conjunct2])
    then show ?thesis by (intro exI [of _ d] exI [of _ p] conjI sv d)
  qed
qed

text \<open>
  C8. At any moment of any history a student has at most one seal in force, whoever set it: the student,
  a look at the page after the window closed, or the worker at the end of the window.
\<close>

theorem history_one_seal:
  assumes "new_class d0" and "serves d0 d"
  shows "length (filter (\<lambda>s. se_student s = st \<and> se_unsealed_at s = None) (db_seals d)) \<le> 1"
  by (rule open_seals_bound [OF class_okD(3) [OF serves_class_ok [OF assms(2) new_class_ok [OF assms(1)]]]])

lemma sample_seal:
  "\<exists>d s. handle sample_env sample_student (SealSubmissions seal_phrase (dec_int 4)) sample_submitted = Inr d
    \<and> db_seals d = [s] \<and> se_student s = 4 \<and> se_unsealed_at s = None"
  by (simp add: handle_def state_of_def seal_my_submissions_def insert_seal_def active_seal_def Let_def
    append_audit_def enqueue_event_def sample_created_def sample_submitted_def sample_defs)

lemma history_one_seal_witness:
  "\<exists>d. serves sample_class d \<and> length (filter (\<lambda>s. se_student s = 4 \<and> se_unsealed_at s = None) (db_seals d)) = 1"
proof -
  obtain d s where h: "handle sample_env sample_student (SealSubmissions seal_phrase (dec_int 4)) sample_submitted = Inr d"
    and d: "db_seals d = [s]" "se_student s = 4" "se_unsealed_at s = None" using sample_seal by blast
  have sv: "serves sample_class d" by (rule serves.one [OF sample_history(2) acts.request [OF h]])
  have "length (filter (\<lambda>s. se_student s = 4 \<and> se_unsealed_at s = None) (db_seals d)) \<le> 1"
    by (rule history_one_seal [OF sample_new sv])
  then show ?thesis using sv d by (intro exI [of _ d]) simp
qed

end
