(* ===== verification/DeskLife.thy ===== *)
theory DeskLife
  imports Seats ClassHistory
begin

text \<open>
  The reviewers' desk over the life of a class: the invariant of \<open>Seats\<close> and the invariant of the
  accounts, request by request and for the scheduler and the dispatch worker.
\<close>

section \<open>Requests that change neither accounts nor seats\<close>

definition keeps_desk :: "request \<Rightarrow> bool" where
  "keeps_desk r \<longleftrightarrow> (case r of
      DeleteSubmission _ \<Rightarrow> False
    | CorrectSubmission _ _ _ _ \<Rightarrow> False
    | RunDispatch _ _ \<Rightarrow> False
    | PauseReviewer _ _ \<Rightarrow> False
    | ReassignSubmission _ _ _ _ \<Rightarrow> False
    | HandoverDispatch _ _ _ \<Rightarrow> False
    | AddWhitelist _ _ \<Rightarrow> False
    | ImportWhitelist _ _ \<Rightarrow> False
    | DeleteWhitelist _ _ \<Rightarrow> False
    | ResetPassword _ \<Rightarrow> False
    | ResetPasswords _ \<Rightarrow> False
    | UpdateRole _ _ \<Rightarrow> False
    | UpdateStatus _ _ \<Rightarrow> False
    | UpdateDeputy _ \<Rightarrow> False
    | _ \<Rightarrow> True)"

lemma build_plan_desk [desk_keeps]: "build_plan e sd inc d = Inr (d', p, s) \<Longrightarrow> same_desk d d'"
  by (auto simp: build_plan_def dest: desk_keeps split: sum.splits option.splits)

lemma insert_gpa_desk [desk_keeps]: "insert_gpa e s d r = Inr d' \<Longrightarrow> same_desk d d'"
  by (auto simp: insert_gpa_def desk_step split: desk_splits)

lemma insert_gpas_desk [desk_keeps]: "fold_res (insert_gpa e s) d rs = Inr d' \<Longrightarrow> same_desk d d'"
  by (rule fold_res_desk [OF insert_gpa_desk])

lemma import_gpa_desk [desk_keeps]: "import_gpa e a rows d = Inr (d', r) \<Longrightarrow> same_desk d d'"
  by (auto simp: import_gpa_def desk_step desk_frames dest!: desk_keeps split: desk_splits)

lemma class_requests_desk [desk_keeps]:
  "preview_dispatch e a sd inc d = Inr (d', r1) \<Longrightarrow> same_desk d d'"
  "update_dispatch_auto a on d = Inr (d', r2) \<Longrightarrow> same_desk d d'"
  "paste_gpa e a pf tb rows d = Inr (d', r3) \<Longrightarrow> same_desk d d'"
  "import_gpa_file e a pf tb d = Inr (d', r3) \<Longrightarrow> same_desk d d'"
  by (auto simp: preview_dispatch_def update_dispatch_auto_def paste_gpa_def import_gpa_file_def
    desk_step desk_frames dest!: desk_keeps split: desk_splits)

lemma collective_after_desk:
  assumes "collective_after e a action key r = Inr d'" and "\<And>d1 x. r = Inr (d1, x) \<Longrightarrow> same_desk d d1"
  shows "same_desk d d'"
proof -
  obtain d1 x where "r = Inr (d1, x)" "ensure_governance_case e a action (key x) False d1 = Inr d'"
    using assms(1) by (auto simp: collective_after_Inr)
  then show ?thesis using assms(2) council_desk_step1 same_desk_trans by blast
qed

lemma handle_desk:
  assumes h: "handle e a r d = Inr d'" and "keeps_desk r"
  shows "same_desk d d'"
  using assms
  by (cases r) (simp_all only: handle_def keeps_desk_def request.case state_of_Inr,
    ((elim exE)?, erule desk_keeps collective_after_desk, (erule desk_keeps)?)+)

section \<open>Seats\<close>

lemma effect_students:
  assumes "effect d d'" and "s' \<in> set (db_submissions d')" and "sb_id s' < db_next d"
  shows "\<exists>s \<in> set (db_submissions d). sb_id s = sb_id s' \<and> sb_student s = sb_student s'"
  using assms(1)
proof cases
  case moved
  then obtain p f where sub: "db_submissions d' = where_set p f (db_submissions d)"
    and step: "\<And>q. q \<in> set (db_submissions d) \<Longrightarrow> p q \<Longrightarrow> row_step q (f q)" by (auto simp: moves_def)
  obtain q where q: "q \<in> set (db_submissions d)" "s' = (if p q then f q else q)"
    using assms(2) by (auto simp: sub where_set_def)
  have "sb_id s' = sb_id q \<and> sb_student s' = sb_student q"
    using q step [OF q(1)] row_step_kept by (auto simp: kept_row_def split: if_splits)
  then show ?thesis using q(1) by auto
next
  case (created rows)
  then have "s' \<notin> set rows" using assms(3) by fastforce
  then show ?thesis using assms(2) created(1) by auto
next
  case (deleted i t)
  then show ?thesis using assms(2) by (auto simp: delete_where_def)
qed

lemma effect_seats:
  assumes "effect d d'" and "seats_ok d" and "db_assigned d' = db_assigned d"
  shows "seats_ok d'"
  by (rule seats_ok_shrink [OF assms(2) effect_next [OF assms(1)], where k = "\<lambda>_. True"])
    (use assms(3) effect_students [OF assms(1)] in auto)

lemma correct_submission_seats:
  assumes h: "correct_submission e a self fs i x d = Inr (d', score)" and ok: "seats_ok d"
    and ef: "effect d d'"
  shows "seats_ok d'"
proof (rule correct_submission_D [OF h], goal_cases)
  case (1 s sc c d1)
  have rows: "db_assigned d' = where_set (\<lambda>v. sv_submission v = i \<and> sv_active v) (\<lambda>v. v\<lparr>sv_active := False\<rparr>) (db_assigned d)"
    using update_submissions_frame [OF 1(6)] by (simp add: 1(7) Let_def frame_simps close_workflows_def)
  show ?case
    by (rule seats_ok_shrink [OF ok effect_next [OF ef], where k = "\<lambda>v. \<not> (sv_submission v = i \<and> sv_active v)"])
      (use effect_students [OF ef] in \<open>auto simp: rows active_after_retire set_where_set split: if_splits\<close>)
qed

lemma delete_submission_seats:
  assumes h: "delete_submission a i d = Inr (d', r)" and ok: "seats_ok d" and ef: "effect d d'"
  shows "seats_ok d'"
proof -
  have rows: "db_assigned d' = filter (\<lambda>v. sv_submission v \<noteq> i) (db_assigned d)"
    using h by (auto simp: delete_submission_def Let_def delete_where_def frame_simps
      split: option.splits if_splits)
  show ?thesis
    by (rule seats_ok_shrink [OF ok effect_next [OF ef], where k = "\<lambda>v. sv_submission v \<noteq> i"])
      (use effect_students [OF ef] in \<open>auto simp: rows filter_filter conj_commute\<close>)
qed

lemma quiet_seats:
  assumes "quiet d d'" and "db_assigned d' = db_assigned d" and "seats_ok d"
  shows "seats_ok d'"
  by (rule seats_ok_frame [OF assms(3,2)]) (use assms(1) in \<open>simp_all add: quiet_def\<close>)

lemma update_members_assigned [simp]: "db_assigned (update_members p f d) = db_assigned d"
  by (simp add: update_members_def)

lemma sync_member_assigned [simp]: "db_assigned (sync_member w d) = db_assigned d"
  by (simp add: sync_member_def Let_def)

lemma insert_whitelist_assigned: "insert_whitelist e x d = Some (d', n) \<Longrightarrow> db_assigned d' = db_assigned d"
  by (auto simp: insert_whitelist_def Let_def split: if_splits)

lemma import_row_assigned: "import_row e d x = Inr d' \<Longrightarrow> db_assigned d' = db_assigned d"
  by (auto simp: import_row_def Let_def dest: insert_whitelist_assigned split: option.splits if_splits prod.splits)

lemma import_rows_assigned:
  assumes "fold_res (import_row e) d xs = Inr d'"
  shows "db_assigned d' = db_assigned d"
  by (rule fold_res_inv [OF assms, where P = "\<lambda>q. db_assigned q = db_assigned d"])
    (auto dest: import_row_assigned)

lemma reset_passwords_assigned: "reset_passwords ts d = Inr d' \<Longrightarrow> db_assigned d' = db_assigned d"
  by (auto simp: reset_passwords_def Let_def split: if_splits)

lemma foldl_audit_assigned [simp]:
  "db_assigned (foldl (\<lambda>q u. append_audit a x r (k u) q) d us) = db_assigned d"
  by (induction us arbitrary: d) (simp_all add: frame_simps)

lemma roster_assigned:
  shows "add_whitelist e a sid nm d = Inr (d', r1) \<Longrightarrow> db_assigned d' = db_assigned d"
    and "import_whitelist e a n rec d = Inr (d', r2) \<Longrightarrow> db_assigned d' = db_assigned d"
    and "delete_whitelist a rf i d = Inr (d', r3) \<Longrightarrow> db_assigned d' = db_assigned d"
    and "reset_user_password a i d = Inr (d', r4) \<Longrightarrow> db_assigned d' = db_assigned d"
    and "reset_class_passwords a lg d = Inr (d', r4) \<Longrightarrow> db_assigned d' = db_assigned d"
    and "update_class_deputy a user d = Inr (d', r3) \<Longrightarrow> db_assigned d' = db_assigned d"
proof -
  show "add_whitelist e a sid nm d = Inr (d', r1) \<Longrightarrow> db_assigned d' = db_assigned d"
    by (auto simp: add_whitelist_def frame_simps dest: insert_whitelist_assigned split: option.splits)
  show "import_whitelist e a n rec d = Inr (d', r2) \<Longrightarrow> db_assigned d' = db_assigned d"
    by (auto simp: import_whitelist_def frame_simps dest: import_rows_assigned
      split: option.splits if_splits list.splits sum.splits)
  show "delete_whitelist a rf i d = Inr (d', r3) \<Longrightarrow> db_assigned d' = db_assigned d"
    by (auto simp: delete_whitelist_def frame_simps split: option.splits if_splits)
  show "reset_user_password a i d = Inr (d', r4) \<Longrightarrow> db_assigned d' = db_assigned d"
    by (auto simp: reset_user_password_def frame_simps dest: reset_passwords_assigned
      split: option.splits if_splits sum.splits)
  show "reset_class_passwords a lg d = Inr (d', r4) \<Longrightarrow> db_assigned d' = db_assigned d"
    by (auto simp: reset_class_passwords_def Let_def dest: reset_passwords_assigned split: if_splits sum.splits)
  show "update_class_deputy a user d = Inr (d', r3) \<Longrightarrow> db_assigned d' = db_assigned d"
    by (auto simp: update_class_deputy_def frame_simps split: option.splits if_splits)
qed

section \<open>Roles and statuses\<close>

definition role_given :: "int \<Rightarrow> string \<Rightarrow> app_user \<Rightarrow> db \<Rightarrow> db" where
  \<comment> \<open>the account, its whitelist row and what the trigger makes of both\<close>
  "role_given i role u d =
    (let d1 = update_members (\<lambda>v. us_id v = i) (\<lambda>v. v\<lparr>us_role := role, us_version := us_version v + 1\<rparr>) d;
         d2 = d1\<lparr>db_whitelist := where_set (\<lambda>w. wl_id w = us_whitelist u) (\<lambda>w. w\<lparr>wl_role := role\<rparr>) (db_whitelist d1)\<rparr>
     in case find (\<lambda>w. wl_id w = us_whitelist u) (db_whitelist d2) of None \<Rightarrow> d2 | Some w \<Rightarrow> sync_member w d2)"

definition status_given :: "int \<Rightarrow> string \<Rightarrow> db \<Rightarrow> db" where
  "status_given i status d =
     update_members (\<lambda>v. us_id v = i) (\<lambda>v. v\<lparr>us_status := status, us_version := us_version v + 1\<rparr>) d"

lemma update_user_role_D:
  assumes "update_user_role e a i role d = Inr (d', r)"
  obtains u d4 where "find_user d i = Some u" "valid_business_role role"
    "\<not> (us_role u = ''class_admin'' \<and> role \<noteq> ''class_admin'' \<and> active_admins d \<le> 1)"
    "reassign_unavailable e i (role_given i role u d) = Inr d4 \<or> d4 = role_given i role u d"
    "d' = append_audit a ''user.role_changed'' ''user'' (dec_int i) d4"
proof -
  obtain u where u: "find_user d i = Some u" "valid_business_role role"
    "\<not> (us_role u = ''class_admin'' \<and> role \<noteq> ''class_admin'' \<and> active_admins d \<le> 1)"
    using assms by (auto simp: update_user_role_def split: option.splits if_splits)
  have "\<exists>d4. (reassign_unavailable e i (role_given i role u d) = Inr d4 \<or> d4 = role_given i role u d)
      \<and> d' = append_audit a ''user.role_changed'' ''user'' (dec_int i) d4"
    using assms u(1) unfolding update_user_role_def role_given_def Let_def
    by (simp only: option.case split: option.split_asm if_split_asm sum.split_asm) auto
  then show thesis using that u by blast
qed

lemma update_user_status_D:
  assumes "update_user_status e a i status d = Inr (d', r)"
  obtains u d2 where "find_user d i = Some u" "status = ''active'' \<or> status = ''disabled''" "i \<noteq> ac_user a"
    "\<not> (us_role u = ''class_admin'' \<and> status = ''disabled'' \<and> active_admins d \<le> 1)"
    "reassign_unavailable e i (status_given i status d) = Inr d2 \<or> d2 = status_given i status d"
    "d' = append_audit a ''user.status_changed'' ''user'' (dec_int i) d2
      \<or> d' = append_audit a ''user.status_changed'' ''user'' (dec_int i) (stale_batches e i disabled_reason d2)"
proof -
  obtain u where u: "find_user d i = Some u" "status = ''active'' \<or> status = ''disabled''" "i \<noteq> ac_user a"
    "\<not> (us_role u = ''class_admin'' \<and> status = ''disabled'' \<and> active_admins d \<le> 1)"
    using assms by (auto simp: update_user_status_def split: option.splits if_splits)
  obtain d2 where "reassign_unavailable e i (status_given i status d) = Inr d2 \<or> d2 = status_given i status d"
    "d' = append_audit a ''user.status_changed'' ''user'' (dec_int i) d2
      \<or> d' = append_audit a ''user.status_changed'' ''user'' (dec_int i) (stale_batches e i disabled_reason d2)"
    using assms unfolding update_user_status_def status_given_def Let_def
    by (auto simp: map_sum_Inr map_sum_def split: option.split_asm if_split_asm sum.split_asm)
  then show thesis using that u by blast
qed

definition pause_given :: "int \<Rightarrow> bool \<Rightarrow> db \<Rightarrow> db" where
  "pause_given i b d = d\<lparr>db_users := where_set (\<lambda>u. us_id u = i \<and> may_hold_seats u) (\<lambda>u. u\<lparr>us_paused := b\<rparr>) (db_users d)\<rparr>"

lemma update_dispatch_reviewer_D:
  assumes "update_dispatch_reviewer e a i pz d = Inr (d', r)"
  obtains b where "reassign_unavailable e i (append_audit a ''dispatch.reviewer_paused'' ''app_user'' (dec_int i) (pause_given i b d)) = Inr d'
      \<or> d' = append_audit a ''dispatch.reviewer_paused'' ''app_user'' (dec_int i) (pause_given i b d)"
  using assms by (auto simp: update_dispatch_reviewer_def Let_def pause_given_def split: option.splits if_splits sum.splits)

lemma role_given_quiet: "quiet d (role_given i role u d)"
  by (simp add: role_given_def Let_def role_update_quiet sync_member_quiet split: option.split)

lemma status_given_quiet: "quiet d (status_given i status d)"
  by (simp add: status_given_def)

lemma members_assigned [simp]:
  "db_assigned (role_given i role u d) = db_assigned d" "db_assigned (status_given i status d) = db_assigned d"
  "db_assigned (stale_batches e i rs d) = db_assigned d"
  by (simp_all add: role_given_def status_given_def stale_batches_def Let_def split: option.split)

lemma stale_batches_seats [simp]: "seats_ok (stale_batches e i rs d) \<longleftrightarrow> seats_ok d"
  by (simp add: seats_ok_def stale_batches_def Let_def)

lemma reassign_after:
  assumes so: "submissions_ok d" and ok: "seats_ok d" and "quiet d d1" and "db_assigned d1 = db_assigned d"
    and "reassign_unavailable e i d1 = Inr d2 \<or> d2 = d1"
  shows "seats_ok d2"
  using assms(5) reassign_unavailable_ok [OF quiet_submissions_ok [OF assms(3) so] quiet_seats [OF assms(3,4) ok]]
    quiet_seats [OF assms(3,4) ok] by blast

lemma member_seats:
  assumes so: "submissions_ok d" and ok: "seats_ok d"
  shows "update_user_role e a i role d = Inr (d', r1) \<Longrightarrow> seats_ok d'"
    and "update_user_status e a i status d = Inr (d', r1) \<Longrightarrow> seats_ok d'"
    and "update_dispatch_reviewer e a i pz d = Inr (d', r2) \<Longrightarrow> seats_ok d'"
proof -
  show "seats_ok d'" if h: "update_user_role e a i role d = Inr (d', r1)"
  proof (rule update_user_role_D [OF h], goal_cases)
    case (1 u d4)
    show ?case using reassign_after [OF so ok role_given_quiet _ 1(4)] 1(5) by simp
  qed
  show "seats_ok d'" if h: "update_user_status e a i status d = Inr (d', r1)"
  proof (rule update_user_status_D [OF h], goal_cases)
    case (1 u d2)
    have "seats_ok d2" using reassign_after [OF so ok status_given_quiet _ 1(5)] by simp
    then show ?case using 1(6) by auto
  qed
  show "seats_ok d'" if h: "update_dispatch_reviewer e a i pz d = Inr (d', r2)"
  proof -
    obtain b where "reassign_unavailable e i (append_audit a ''dispatch.reviewer_paused'' ''app_user'' (dec_int i) (pause_given i b d)) = Inr d'
      \<or> d' = append_audit a ''dispatch.reviewer_paused'' ''app_user'' (dec_int i) (pause_given i b d)"
      by (rule update_dispatch_reviewer_D [OF h])
    then show ?thesis by (intro reassign_after [OF so ok]) (simp_all add: pause_given_def quiet_def frame_simps)
  qed
qed

section \<open>Every step keeps the seats\<close>

lemma handle_seats:
  assumes co: "class_ok d" and ok: "seats_ok d" and h: "handle e a r d = Inr d'"
  shows "seats_ok d'"
proof (cases "keeps_desk r")
  case True
  then show ?thesis
    using effect_seats [OF handle_step(1) [OF co h] ok] handle_desk [OF h] by (simp add: same_desk_def)
next
  case False
  note so = class_okD(1) [OF co] and ef = handle_step(1) [OF co h]
  show ?thesis
    using False h ef
    by (cases r) (auto simp: keeps_desk_def handle_def
      dest: correct_submission_seats [OF _ ok] delete_submission_seats [OF _ ok] run_dispatch_ok [OF so ok]
        reassign_submission_ok [OF so ok] handover_dispatch_ok [OF so ok] member_seats [OF so ok]
        effect_seats [OF _ ok] roster_assigned)
qed

lemma acts_seats:
  assumes co: "class_ok d" and ok: "seats_ok d" and h: "acts d d'"
  shows "seats_ok d'"
proof (cases rule: acts_cases [OF co h])
  case (1 e a r)
  then show ?thesis by (rule handle_seats [OF co ok])
next
  case (2 e org i)
  then show ?thesis
  proof (cases rule: close_due_cases)
    case (2 a r)
    then show ?thesis using effect_seats [OF _ ok] acts_step [OF co h] proposals_desk_step3
      by (simp add: same_desk_def)
  qed (use ok in simp)
next
  case (3 e ev i)
  then show ?thesis by (rule auto_dispatch_ok [OF class_okD(1) [OF co] ok])
next
  case 4
  then show ?thesis using effect_seats [OF _ ok] acts_step [OF co h] outside_desk by (simp add: same_desk_def)
qed

interpretation seat_life: class_invariant seats_ok
  by unfold_locales (rule acts_seats)

end
