(* ===== verification/Members.thy ===== *)
theory Members
  imports DeskLife
begin

text \<open>
  The accounts of a class: roles and statuses stay in their types, ids stay unique, at most one
  deputy is in office and only while eligible, an administrator always remains, and a token is
  refused as soon as the account behind it changes.
\<close>

section \<open>The invariant\<close>

definition member_ok :: "app_user \<Rightarrow> bool" where
  "member_ok u \<longleftrightarrow> valid_business_role (us_role u) \<and> (us_status u = ''active'' \<or> us_status u = ''disabled'')
     \<and> (us_deputy u \<longrightarrow> us_role u = ''group'' \<and> us_status u = ''active'')"

definition members_ok :: "db \<Rightarrow> bool" where
  "members_ok d \<longleftrightarrow> distinct (map us_id (db_users d)) \<and> list_all (\<lambda>u. us_id u < db_next d) (db_users d)
     \<and> list_all member_ok (db_users d) \<and> length (filter us_deputy (db_users d)) \<le> 1"

lemma members_okD:
  assumes "members_ok d"
  shows "u \<in> set (db_users d) \<Longrightarrow> us_id u < db_next d" and "u \<in> set (db_users d) \<Longrightarrow> member_ok u"
    and "distinct (map us_id (db_users d))" and "length (filter us_deputy (db_users d)) \<le> 1"
  using assms by (auto simp: members_ok_def list_all_iff)

lemma fewer_deputies:
  assumes "\<And>u. u \<in> set us \<Longrightarrow> us_deputy (g u) \<Longrightarrow> us_deputy u"
  shows "length (filter us_deputy (map g us)) \<le> length (filter us_deputy us)"
  using assms by (induction us) (auto simp: le_SucI)

lemma members_ok_map:
  assumes ok: "members_ok d" and rows: "db_users d' = map g (db_users d)" and "db_next d \<le> db_next d'"
    and g: "\<And>u. u \<in> set (db_users d) \<Longrightarrow> us_id (g u) = us_id u \<and> member_ok (g u) \<and> (us_deputy (g u) \<longrightarrow> us_deputy u)"
  shows "members_ok d'"
proof -
  have ids: "map us_id (map g (db_users d)) = map us_id (db_users d)" using g by simp
  have "length (filter us_deputy (map g (db_users d))) \<le> 1"
    using fewer_deputies [of "db_users d" g] g members_okD(4) [OF ok] by fastforce
  moreover have "distinct (map us_id (map g (db_users d)))" unfolding ids by (rule members_okD(3) [OF ok])
  moreover have "\<forall>u \<in> set (map g (db_users d)). us_id u < db_next d' \<and> member_ok u"
    using g members_okD(1) [OF ok] assms(3) by fastforce
  ultimately show ?thesis unfolding members_ok_def rows list_all_iff by blast
qed

lemma members_ok_frame:
  assumes "members_ok d" and "db_users d' = db_users d" and "db_next d \<le> db_next d'"
  shows "members_ok d'"
  by (rule members_ok_map [OF assms(1) _ assms(3), where g = "\<lambda>u. u"])
    (use assms members_okD(2) in auto)

lemma members_ok_more:
  assumes ok: "members_ok d" and "db_users d' = db_users d @ [u]" and "us_id u = db_next d" and "db_next d < db_next d'"
    and "member_ok u" and "\<not> us_deputy u"
  shows "members_ok d'"
proof -
  have "us_id u \<notin> us_id ` set (db_users d)" using members_okD(1) [OF ok] assms(3) by force
  then show ?thesis using assms unfolding members_ok_def by (fastforce simp: list_all_iff)
qed

lemma members_ok_fewer:
  assumes ok: "members_ok d" and "db_users d' = filter k (db_users d)" and "db_next d \<le> db_next d'"
  shows "members_ok d'"
proof -
  have "length (filter us_deputy (filter k xs)) \<le> length (filter us_deputy xs)" for xs
    by (induction xs) auto
  then have "length (filter us_deputy (filter k (db_users d))) \<le> 1"
    using members_okD(4) [OF ok] order_trans by blast
  then show ?thesis
    using assms(2,3) members_okD(1,2) [OF ok] distinct_map_filter [OF members_okD(3) [OF ok]]
    by (auto simp: members_ok_def list_all_iff intro: less_le_trans)
qed

lemma update_members_ok:
  assumes ok: "members_ok d"
    and f: "\<And>u. u \<in> set (db_users d) \<Longrightarrow> p u \<Longrightarrow> us_id (f u) = us_id u \<and> us_deputy (f u) = us_deputy u
      \<and> valid_business_role (us_role (f u)) \<and> (us_status (f u) = ''active'' \<or> us_status (f u) = ''disabled'')"
  shows "members_ok (update_members p f d)"
proof (rule members_ok_map [OF ok, where g = "\<lambda>u. if p u then (let v = f u in if deputy_lost u v then v\<lparr>us_deputy := False\<rparr> else v) else u"])
  fix u assume u: "u \<in> set (db_users d)"
  show "us_id (if p u then (let v = f u in if deputy_lost u v then v\<lparr>us_deputy := False\<rparr> else v) else u) = us_id u
      \<and> member_ok (if p u then (let v = f u in if deputy_lost u v then v\<lparr>us_deputy := False\<rparr> else v) else u)
      \<and> (us_deputy (if p u then (let v = f u in if deputy_lost u v then v\<lparr>us_deputy := False\<rparr> else v) else u) \<longrightarrow> us_deputy u)"
    using f [OF u] members_okD(2) [OF ok u]
    by (auto simp: Let_def member_ok_def deputy_lost_def)
qed (simp_all add: update_members_def where_set_def)

section \<open>Seats leave the accounts alone\<close>

lemma seat_users:
  shows "db_users (retire_seats p d) = db_users d"
    and "insert_seat i u ps ru t d = Inr d' \<Longrightarrow> db_users d' = db_users d"
    and "insert_dispatch_run e s sd tr n b w d = (d', run) \<Longrightarrow> db_users d' = db_users d"
  by (auto simp: retire_seats_def insert_seat_def insert_dispatch_run_def split: if_splits)

lemma seats_given_users:
  shows "assign_pair e run inc d x = Inr d' \<Longrightarrow> db_users d' = db_users d"
    and "take_over_seat e d y = Inr d' \<Longrightarrow> db_users d' = db_users d"
    and "make_move e run d m = Inr d' \<Longrightarrow> db_users d' = db_users d"
  by (auto simp: assign_pair_def take_over_seat_def make_move_def Let_def seat_users(1) desk_frames
    dest!: seat_users(2) split: prod.splits sum.splits option.splits if_splits)

lemma fold_res_users:
  assumes "fold_res f d xs = Inr d'" and "\<And>q x q'. f q x = Inr q' \<Longrightarrow> db_users q' = db_users q"
  shows "db_users d' = db_users d"
  by (rule fold_res_inv [OF assms(1), where P = "\<lambda>q. db_users q = db_users d"]) (use assms(2) in auto)

lemma fold_seats_users:
  shows "fold_res (assign_pair e run inc) d xs = Inr d' \<Longrightarrow> db_users d' = db_users d"
    and "fold_res (take_over_seat e) d ys = Inr d' \<Longrightarrow> db_users d' = db_users d"
    and "fold_res (make_move e run) d ms = Inr d' \<Longrightarrow> db_users d' = db_users d"
  by (erule fold_res_users, erule seats_given_users)+

lemma reassign_unavailable_users: "reassign_unavailable e u d = Inr d' \<Longrightarrow> db_users d' = db_users d"
  by (auto simp: reassign_unavailable_def dest: fold_seats_users(2) split: option.splits)

lemma dispatch_users:
  shows "run_dispatch e a sd inc d = Inr (d', r1) \<Longrightarrow> db_users d' = db_users d"
    and "reassign_submission e a i from to rs d = Inr (d', r2) \<Longrightarrow> db_users d' = db_users d"
    and "handover_dispatch e a from tt rs d = Inr (d', r3) \<Longrightarrow> db_users d' = db_users d"
    and "auto_dispatch e ev i d = Inr d' \<Longrightarrow> db_users d' = db_users d"
proof -
  show "db_users d' = db_users d" if h: "run_dispatch e a sd inc d = Inr (d', r1)"
  proof (rule run_dispatch_D [OF h], goal_cases)
    case (1 d1 s d2 run d3)
    then show ?case using build_plan_desk [OF 1(1)] seat_users(3) [OF 1(2)] fold_seats_users(1) [OF 1(3)]
      by (simp add: same_desk_def clear_self_seats_def seat_users(1) frame_simps desk_frames)
  qed
  show "db_users d' = db_users d" if "reassign_submission e a i from to rs d = Inr (d', r2)"
    using that
    by (auto simp: reassign_submission_def Let_def same_desk_def desk_frames seat_users(1)
      dest!: load_current_scheme_desk seat_users(2,3)
      split: option.splits if_split_asm sum.splits prod.splits)
  show "db_users d' = db_users d" if h: "handover_dispatch e a from tt rs d = Inr (d', r3)"
  proof -
    obtain n rows where r3: "r3 = (n, rows)" by (cases r3)
    show ?thesis
      by (rule handover_dispatch_D [OF h [unfolded r3]])
        (auto simp: same_desk_def desk_frames dest!: load_current_scheme_desk seat_users(3) fold_seats_users(3))
  qed
  show "db_users d' = db_users d" if "auto_dispatch e ev i d = Inr d'"
    using that
    by (cases rule: auto_dispatch_D)
      (auto simp: clear_self_seats_def seat_users(1) dest!: seat_users(3) fold_seats_users(1))
qed

section \<open>Each operation keeps the invariant\<close>

lemma sync_member_ok:
  assumes ok: "members_ok d" and "valid_business_role (wl_role w)"
  shows "members_ok (sync_member w d)"
proof (cases "list_ex (\<lambda>u. us_whitelist u = wl_id w) (db_users d)")
  case True
  have "members_ok (update_members (\<lambda>u. us_whitelist u = wl_id w \<and> \<not> us_registered u)
      (\<lambda>u. u\<lparr>us_sid := wl_sid w, us_name := wl_name w, us_role := wl_role w,
        us_status := if wl_active w then ''active'' else ''disabled''\<rparr>) d)"
    by (rule update_members_ok [OF ok]) (use assms(2) in auto)
  then show ?thesis using True by (simp add: sync_member_def Let_def)
next
  case False
  show ?thesis
    by (rule members_ok_more [OF ok, where u = "\<lparr>us_id = db_next d, us_sid = wl_sid w, us_name = wl_name w,
        us_role = wl_role w, us_status = if wl_active w then ''active'' else ''disabled'', us_deputy = False,
        us_registered = False, us_paused = False, us_whitelist = wl_id w, us_version = 1\<rparr>"])
      (use False assms(2) in \<open>auto simp: sync_member_def Let_def member_ok_def\<close>)
qed

lemma normalize_whitelist_role: "normalize_whitelist x = Some y \<Longrightarrow> valid_business_role (wh_role y)"
  by (auto simp: normalize_whitelist_def Let_def split: if_splits)

lemma insert_whitelist_ok:
  assumes "members_ok d" and "insert_whitelist e x d = Some (d', n)" and "valid_business_role (wh_role x)"
  shows "members_ok d'"
  using assms by (auto simp: insert_whitelist_def Let_def intro!: sync_member_ok intro: members_ok_frame split: if_splits)

lemma set_gender_ok: "members_ok d \<Longrightarrow> members_ok (d\<lparr>db_whitelist := ws\<rparr>)"
  by (erule members_ok_frame) simp_all

lemma import_row_ok:
  assumes ok: "members_ok d" and h: "import_row e d x = Inr d'" and v: "valid_business_role (wh_role x)"
  shows "members_ok d'"
proof -
  have "members_ok (sync_member (refresh_whitelist x w) (d\<lparr>db_whitelist := ws\<rparr>))" for w ws
    by (rule sync_member_ok [OF set_gender_ok [OF ok]]) (simp add: refresh_whitelist_def v)
  then show ?thesis
    using h ok insert_whitelist_ok [OF ok _ v]
    by (auto simp: import_row_def Let_def intro!: set_gender_ok split: option.splits if_splits prod.splits)
qed

lemma roster_rows_valid:
  assumes "roster_rows c rows = Some xs" and "x \<in> set xs"
  shows "valid_business_role (wh_role x)"
proof -
  obtain row where "roster_row c row = Some x"
    using assms all_items_member [of "roster_row c" rows xs x]
    by (auto simp: roster_rows_def split: option.splits if_splits)
  then show ?thesis by (auto simp: roster_row_def Let_def dest: normalize_whitelist_role split: if_splits)
qed

lemma reset_passwords_ok:
  assumes ok: "members_ok d" and h: "reset_passwords ts d = Inr d'"
  shows "members_ok d'"
proof (cases "ts = []")
  case False
  then obtain p where "db_users d' = where_set p (\<lambda>u. u\<lparr>us_registered := False, us_version := us_version u + 1\<rparr>) (db_users d)"
    and "db_next d' = db_next d"
    using h by (auto simp: reset_passwords_def Let_def split: if_splits)
  then show ?thesis
    by (intro members_ok_map [OF ok, of _ "\<lambda>u. if p u then u\<lparr>us_registered := False, us_version := us_version u + 1\<rparr> else u"])
      (auto simp: where_set_def member_ok_def dest: members_okD(2) [OF ok])
qed (use ok h in \<open>simp add: reset_passwords_def\<close>)

lemma foldl_audit_users [simp]:
  "db_users (foldl (\<lambda>q u. append_audit a x r (k u) q) d us) = db_users d"
  "db_next (foldl (\<lambda>q u. append_audit a x r (k u) q) d us) = db_next d"
  by (induction us arbitrary: d) (simp_all add: desk_frames frame_simps)

lemma same_user:
  assumes "members_ok d" and "u \<in> set (db_users d)" and "v \<in> set (db_users d)" and "us_id u = us_id v"
  shows "u = v"
  using members_okD(3) [OF assms(1)] assms(2-4) by (metis distinct_map inj_on_eq_iff)

lemma find_user_D: "find_user d i = Some u \<Longrightarrow> u \<in> set (db_users d) \<and> us_id u = i"
  using find_Some_D [of "\<lambda>u. us_id u = i" "db_users d" u] by (simp add: find_user_def)

lemma appointed_ok:
  assumes ok: "members_ok d" and u: "find_user d i = Some u" "may_be_deputy u"
    and rows: "db_users d' = where_set (\<lambda>v. us_id v = i) (\<lambda>v. v\<lparr>us_deputy := True\<rparr>)
      (where_set us_deputy (\<lambda>v. v\<lparr>us_deputy := False\<rparr>) (db_users d))" and "db_next d \<le> db_next d'"
  shows "members_ok d'"
proof -
  let ?g = "\<lambda>v. if us_id v = i then v\<lparr>us_deputy := True\<rparr> else v\<lparr>us_deputy := False\<rparr>"
  have map: "db_users d' = map ?g (db_users d)" by (auto simp: rows where_set_def)
  have ids: "map us_id (map ?g (db_users d)) = map us_id (db_users d)" by simp
  have "member_ok (?g v)" if v: "v \<in> set (db_users d)" for v
  proof (cases "us_id v = i")
    case True
    then have "v = u" using same_user [OF ok v, of u] find_user_D [OF u(1)] by simp
    then show ?thesis using u(2) members_okD(2) [OF ok v] True by (simp add: member_ok_def may_be_deputy_def)
  qed (use members_okD(2) [OF ok v] in \<open>simp add: member_ok_def\<close>)
  moreover have "length (filter us_deputy (map ?g (db_users d))) \<le> 1"
  proof -
    have "length (filter us_deputy (map ?g xs)) = length (filter (\<lambda>x. us_id x = i) xs)" for xs :: "app_user list"
      by (induction xs) simp_all
    then show ?thesis using distinct_class_bound [OF members_okD(3) [OF ok], of i] by simp
  qed
  moreover have "distinct (map us_id (map ?g (db_users d)))" unfolding ids by (rule members_okD(3) [OF ok])
  moreover have "us_id (?g v) < db_next d'" if "v \<in> set (db_users d)" for v
    using members_okD(1) [OF ok that] assms(5) by simp
  ultimately show ?thesis unfolding members_ok_def map list_all_iff set_map by blast
qed

lemma roster_ok:
  assumes ok: "members_ok d"
  shows "add_whitelist e a sid nm d = Inr (d', r1) \<Longrightarrow> members_ok d'"
    and "import_whitelist e a n rec d = Inr (d', r2) \<Longrightarrow> members_ok d'"
    and "delete_whitelist a rf i d = Inr (d', r3) \<Longrightarrow> members_ok d'"
    and "reset_user_password a i d = Inr (d', r4) \<Longrightarrow> members_ok d'"
    and "reset_class_passwords a lg d = Inr (d', r4) \<Longrightarrow> members_ok d'"
    and "update_class_deputy a user d = Inr (d', r3) \<Longrightarrow> members_ok d'"
proof -
  have audit: "members_ok (append_audit a x r k q)" if "members_ok q" for x r k q
    by (rule members_ok_frame [OF that]) (simp_all add: desk_frames frame_simps)
  have dismissed: "members_ok (d\<lparr>db_users := where_set us_deputy (\<lambda>v. v\<lparr>us_deputy := False\<rparr>) (db_users d)\<rparr>)"
    by (rule members_ok_map [OF ok, where g = "\<lambda>v. if us_deputy v then v\<lparr>us_deputy := False\<rparr> else v"])
      (use members_okD(2) [OF ok] in \<open>auto simp: where_set_def member_ok_def valid_business_role_def\<close>)
  show "add_whitelist e a sid nm d = Inr (d', r1) \<Longrightarrow> members_ok d'"
    by (auto simp: add_whitelist_def intro!: audit insert_whitelist_ok [OF ok]
      dest: normalize_whitelist_role split: option.splits)
  show "members_ok d'" if h: "import_whitelist e a n rec d = Inr (d', r2)"
  proof -
    obtain c rows inputs d1 where r: "roster_rows c rows = Some inputs"
      and f: "fold_res (import_row e) d inputs = Inr d1" and d': "d' = append_audit a ''whitelist.imported'' ''whitelist'' [] d1"
      using h by (auto simp: import_whitelist_def split: if_splits option.splits list.splits sum.splits)
    have "members_ok d1"
      by (rule fold_res_inv_mem [OF f, where P = members_ok, OF ok]) (blast intro: import_row_ok roster_rows_valid [OF r])
    then show ?thesis by (simp add: d' audit)
  qed
  show "delete_whitelist a rf i d = Inr (d', r3) \<Longrightarrow> members_ok d'"
    by (auto simp: delete_whitelist_def delete_where_def intro!: audit members_ok_fewer [OF ok]
      split: option.splits if_splits)
  show "reset_user_password a i d = Inr (d', r4) \<Longrightarrow> members_ok d'"
    by (auto simp: reset_user_password_def intro!: audit dest: reset_passwords_ok [OF ok] split: option.splits if_splits sum.splits)
  have "members_ok (foldl (\<lambda>q u. append_audit a x y (k u) q) d1 us)" if "reset_passwords ts d = Inr d1" for ts d1 x y k us
    by (rule members_ok_frame [OF reset_passwords_ok [OF ok that]]) simp_all
  then show "reset_class_passwords a lg d = Inr (d', r4) \<Longrightarrow> members_ok d'"
    using ok by (auto simp: reset_class_passwords_def Let_def split: if_split_asm sum.split_asm)
  show "members_ok d'" if h: "update_class_deputy a user d = Inr (d', r3)"
  proof (cases user)
    case None
    then show ?thesis using h ok
      by (auto simp: update_class_deputy_def intro!: audit dismissed)
  next
    case (Some i)
    then obtain u where "find_user d i = Some u" "may_be_deputy u"
      and "d' = append_audit a ''class.deputy_changed'' ''class'' []
             (d\<lparr>db_users := where_set (\<lambda>v. us_id v = i) (\<lambda>v. v\<lparr>us_deputy := True\<rparr>)
                 (where_set us_deputy (\<lambda>v. v\<lparr>us_deputy := False\<rparr>) (db_users d))\<rparr>)"
      using h by (auto simp: update_class_deputy_def split: option.splits if_splits)
    then show ?thesis by (auto intro!: audit appointed_ok [OF ok])
  qed
qed

lemma role_given_ok:
  assumes ok: "members_ok d" and "valid_business_role role"
  shows "members_ok (role_given i role u d)"
proof -
  let ?d1 = "update_members (\<lambda>v. us_id v = i) (\<lambda>v. v\<lparr>us_role := role, us_version := us_version v + 1\<rparr>) d"
  have d1: "members_ok ?d1"
    by (rule update_members_ok [OF ok]) (use assms(2) members_okD(2) [OF ok] in \<open>auto simp: member_ok_def\<close>)
  have "members_ok (sync_member w (?d1\<lparr>db_whitelist := ws\<rparr>))" if "wl_role w = role" for w ws
    by (rule sync_member_ok [OF set_gender_ok [OF d1]]) (simp add: that assms(2))
  moreover have "wl_role w = role"
    if "find (\<lambda>w. wl_id w = us_whitelist u) (where_set (\<lambda>w. wl_id w = us_whitelist u) (\<lambda>w. w\<lparr>wl_role := role\<rparr>) ws) = Some w" for w ws
    using find_Some_D [OF that] by (auto simp: where_set_def split: if_splits)
  ultimately show ?thesis using set_gender_ok [OF d1] by (auto simp: role_given_def Let_def split: option.split)
qed

lemma status_given_ok:
  assumes ok: "members_ok d" and "status = ''active'' \<or> status = ''disabled''"
  shows "members_ok (status_given i status d)"
  unfolding status_given_def
  by (rule update_members_ok [OF ok]) (use assms(2) members_okD(2) [OF ok] in \<open>auto simp: member_ok_def\<close>)

lemma quiet_members:
  assumes "members_ok d" and "quiet d d'" and "db_users d' = db_users d"
  shows "members_ok d'"
  by (rule members_ok_frame [OF assms(1,3)]) (use assms(2) in \<open>simp add: quiet_def\<close>)

lemma account_ok:
  assumes ok: "members_ok d"
  shows "update_user_role e a i role d = Inr (d', r1) \<Longrightarrow> members_ok d'"
    and "update_user_status e a i status d = Inr (d', r1) \<Longrightarrow> members_ok d'"
    and "update_dispatch_reviewer e a i pz d = Inr (d', r2) \<Longrightarrow> members_ok d'"
proof -
  have after: "members_ok d2" if "members_ok d1" "reassign_unavailable e i d1 = Inr d2 \<or> d2 = d1" for d1 d2
    using that quiet_members [OF that(1)] reassign_unavailable_quiet reassign_unavailable_users by blast
  have audit: "members_ok (append_audit a x y k q)" if "members_ok q" for x y k q
    by (rule members_ok_frame [OF that]) (simp_all add: desk_frames frame_simps)
  show "members_ok d'" if h: "update_user_role e a i role d = Inr (d', r1)"
  proof (rule update_user_role_D [OF h], goal_cases)
    case (1 u d4)
    show ?case unfolding 1(5) by (rule audit [OF after [OF role_given_ok [OF ok 1(2)] 1(4)]])
  qed
  have stale: "members_ok (stale_batches e i rs q)" if "members_ok q" for rs q
    by (rule members_ok_frame [OF that]) (simp_all add: stale_batches_def Let_def)
  show "members_ok d'" if h: "update_user_status e a i status d = Inr (d', r1)"
  proof (rule update_user_status_D [OF h], goal_cases)
    case (1 u d2)
    have "members_ok d2" by (rule after [OF status_given_ok [OF ok 1(2)] 1(5)])
    then show ?case using 1(6) audit stale by (elim disjE) simp_all
  qed
  show "members_ok d'" if h: "update_dispatch_reviewer e a i pz d = Inr (d', r2)"
  proof -
    have "members_ok (pause_given i b d)" for b
      by (rule members_ok_map [OF ok, where g = "\<lambda>u. if us_id u = i \<and> may_hold_seats u then u\<lparr>us_paused := b\<rparr> else u"])
        (use members_okD(2) [OF ok] in \<open>auto simp: pause_given_def where_set_def member_ok_def\<close>)
    then show ?thesis using after [OF audit] update_dispatch_reviewer_D [OF h] by metis
  qed
qed

lemma desk_members:
  assumes "members_ok d" and "effect d d'" and "same_desk d d'"
  shows "members_ok d'"
  by (rule members_ok_frame [OF assms(1)]) (use assms(3) effect_next [OF assms(2)] in \<open>simp_all add: same_desk_def\<close>)

lemma correct_submission_users: "correct_submission e a self fs i x d = Inr (d', r) \<Longrightarrow> db_users d' = db_users d"
  by (erule correct_submission_D)
    (auto simp: Let_def desk_frames close_workflows_def same_desk_def dest!: update_submissions_desk)

lemma delete_submission_users: "delete_submission a i d = Inr (d', r) \<Longrightarrow> db_users d' = db_users d"
  by (auto simp: delete_submission_def Let_def desk_frames split: option.splits if_splits)

lemma handle_members:
  assumes ok: "members_ok d" and ef: "effect d d'" and h: "handle e a r d = Inr d'"
  shows "members_ok d'"
proof (cases "keeps_desk r")
  case True
  show ?thesis by (rule desk_members [OF ok ef handle_desk [OF h True]])
next
  case False
  then have "members_ok d' \<or> db_users d' = db_users d"
    using h
    by (cases r) (auto simp: keeps_desk_def handle_def
      dest: roster_ok [OF ok] account_ok [OF ok] dispatch_users correct_submission_users delete_submission_users)
  then show ?thesis using members_ok_frame [OF ok _ effect_next [OF ef]] by blast
qed

lemma acts_members:
  assumes co: "class_ok d" and ok: "members_ok d" and h: "acts d d'"
  shows "members_ok d'"
proof -
  have ef: "effect d d'" using acts_step [OF co h] by simp
  show ?thesis
  proof (cases rule: acts_cases [OF co h])
    case (1 e a r)
    then show ?thesis by (rule handle_members [OF ok ef])
  next
    case (2 e org i)
    then show ?thesis
      by (rule close_due_cases) (use ok desk_members [OF ok ef proposals_desk_step3] in auto)
  next
    case (3 e ev i)
    then show ?thesis by (rule members_ok_frame [OF ok dispatch_users(4) effect_next [OF ef]])
  next
    case 4
    then show ?thesis by (rule desk_members [OF ok ef outside_desk])
  qed
qed

interpretation account_life: class_invariant members_ok
  by unfold_locales (rule acts_members)

section \<open>Tokens\<close>

lemma find_user_update:
  assumes "\<And>u. us_id (f u) = us_id u"
  shows "find_user (update_members p f d) i = map_option
    (\<lambda>u. if p u then (let v = f u in if deputy_lost u v then v\<lparr>us_deputy := False\<rparr> else v) else u) (find_user d i)"
  using find_where_set [of us_id "\<lambda>u. let v = f u in if deputy_lost u v then v\<lparr>us_deputy := False\<rparr> else v" i p "db_users d"]
  by (simp add: find_user_def update_members_def assms Let_def)

lemma find_user_whitelist [simp]: "find_user (d\<lparr>db_whitelist := ws\<rparr>) i = find_user d i"
  by (simp add: find_user_def)

lemma find_user_sync:
  assumes "find_user d i = Some u" and "us_whitelist u = wl_id w"
  shows "\<exists>v. find_user (sync_member w d) i = Some v \<and> us_version v = us_version u"
proof -
  have "list_ex (\<lambda>u. us_whitelist u = wl_id w) (db_users d)"
    using find_user_D [OF assms(1)] assms(2) by (auto simp: list_ex_iff)
  then show ?thesis using assms by (simp add: sync_member_def Let_def find_user_update)
qed

lemma role_given_version:
  assumes u: "find_user d i = Some u"
  shows "\<exists>v. find_user (role_given i role u d) i = Some v \<and> us_version v = us_version u + 1"
proof -
  let ?d1 = "update_members (\<lambda>v. us_id v = i) (\<lambda>v. v\<lparr>us_role := role, us_version := us_version v + 1\<rparr>) d"
  obtain x where x: "find_user ?d1 i = Some x" "us_version x = us_version u + 1" "us_whitelist x = us_whitelist u"
    using find_user_D [OF u] by (simp add: find_user_update u Let_def)
  have "\<exists>v. find_user (sync_member w (?d1\<lparr>db_whitelist := ws\<rparr>)) i = Some v \<and> us_version v = us_version u + 1"
    if "wl_id w = us_whitelist u" for w ws
    using find_user_sync [of "?d1\<lparr>db_whitelist := ws\<rparr>" i x w] x that by simp
  then show ?thesis using x by (auto simp: role_given_def Let_def dest!: find_Some_D split: option.split)
qed

lemma status_given_version:
  assumes u: "find_user d i = Some u"
  shows "\<exists>v. find_user (status_given i status d) i = Some v \<and> us_version v = us_version u + 1"
  using find_user_D [OF u] by (simp add: status_given_def find_user_update u Let_def)

interpretation reset_accounts: keyed_table us_id "\<lambda>u. u\<lparr>us_registered := False, us_version := us_version u + 1\<rparr>"
  by unfold_locales simp

lemma reset_passwords_version:
  assumes "reset_passwords ts d = Inr d'" and u: "find_user d i = Some u" and "u \<in> set ts"
    and "us_role u \<in> {''student'', ''group''}" "us_status u = ''active''" "us_registered u" "has_whitelist d u"
  shows "\<exists>v. find_user d' i = Some v \<and> us_version v = us_version u + 1"
proof -
  define p :: "app_user \<Rightarrow> bool" where "p = (\<lambda>v. us_id v \<in> set (map us_id ts) \<and> us_role v \<in> {''student'', ''group''}
    \<and> us_status v = ''active'' \<and> us_registered v \<and> list_ex (\<lambda>w. wl_id w = us_whitelist v) (db_whitelist d))"
  have "ts \<noteq> []" using assms(3) by auto
  then have rows: "db_users d' = where_set p (\<lambda>u. u\<lparr>us_registered := False, us_version := us_version u + 1\<rparr>) (db_users d)"
    using assms(1) unfolding reset_passwords_def Let_def p_def [symmetric] by (simp split: if_split_asm) force
  have p: "p u" using assms(3-7) by (simp add: p_def has_whitelist_def)
  show ?thesis
    using u p by (simp add: find_user_def rows reset_accounts.find_update)
qed

lemma find_user_same: "db_users d' = db_users d \<Longrightarrow> find_user d' i = find_user d i"
  by (simp add: find_user_def)

lemma find_user_audit [simp]:
  "find_user (append_audit a x r k d) i = find_user d i" "find_user (stale_batches e j rs d) i = find_user d i"
  "find_user (foldl (\<lambda>q u. append_audit a x r (g u) q) d us) i = find_user d i"
  by (simp_all add: find_user_def desk_frames stale_batches_def Let_def)

definition revokes :: "db \<Rightarrow> request \<Rightarrow> app_user \<Rightarrow> bool" where
  \<comment> \<open>the requests after which a member has to log in again\<close>
  "revokes d r u \<longleftrightarrow> (case r of
      UpdateRole i _ \<Rightarrow> us_id u = i
    | UpdateStatus i _ \<Rightarrow> us_id u = i
    | ResetPassword i \<Rightarrow> us_id u = i
    | ResetPasswords legacy \<Rightarrow> us_status u = ''active'' \<and> us_registered u \<and> has_whitelist d u
        \<and> (us_role u = ''student'' \<or> us_role u = ''group'' \<and> \<not> legacy)
    | _ \<Rightarrow> False)"

lemma revoked_version:
  assumes ok: "members_ok d" and u: "find_user d i = Some u" and "revokes d r u" and "handle e a r d = Inr d'"
  shows "\<exists>v. find_user d' i = Some v \<and> us_version v = us_version u + 1"
proof -
  have mem: "u \<in> set (db_users d)" "us_id u = i" using find_user_D [OF u] by simp_all
  have found: "x = u" if "find (\<lambda>v. us_id v = i \<and> has_whitelist d v) (db_users d) = Some x" for x
    using same_user [OF ok _ mem(1)] find_Some_D [OF that] mem(2) by simp
  consider (role) role r1 where "update_user_role e a i role d = Inr (d', r1)"
    | (status) st r1 where "update_user_status e a i st d = Inr (d', r1)"
    | (one) n where "reset_user_password a i d = Inr (d', n)"
    | (all) lg n where "reset_class_passwords a lg d = Inr (d', n)" "revokes d (ResetPasswords lg) u"
    using assms(3,4) mem(2) by (cases r) (simp_all add: revokes_def handle_def, blast+)
  then show ?thesis
  proof cases
    case role
    show ?thesis
    proof (rule update_user_role_D [OF role], goal_cases)
      case (1 x d4)
      have xu: "x = u" using 1(1) u by simp
      have "find_user d4 i = find_user (role_given i role u d) i"
        using 1(4) find_user_same reassign_unavailable_users unfolding xu by blast
      then show ?case using role_given_version [OF u] 1(5) by simp
    qed
  next
    case status
    show ?thesis
    proof (rule update_user_status_D [OF status], goal_cases)
      case (1 x d2)
      have "find_user d2 i = find_user (status_given i st d) i"
        using 1(5) find_user_same reassign_unavailable_users by blast
      then show ?case using status_given_version [OF u, of st] 1(6) by auto
    qed
  next
    case one
    then obtain x d1 where x: "find (\<lambda>v. us_id v = i \<and> has_whitelist d v) (db_users d) = Some x"
      and r: "reset_passwords [x] d = Inr d1" and d': "d' = append_audit a ''user.password_reset_by_admin'' ''user'' (dec_int i) d1"
      and c: "us_role x \<in> {''student'', ''group''}" "us_status x = ''active''" "us_registered x"
      by (auto simp: reset_user_password_def split: option.splits if_splits sum.splits)
    have "x = u" by (rule found [OF x])
    then show ?thesis using reset_passwords_version [OF r u] c d' find_Some_D(2) [OF x] by simp
  next
    case all
    let ?ts = "sort_less id_before (filter (\<lambda>u. has_whitelist d u
           \<and> (us_role u = ''student'' \<or> us_role u = ''group'' \<and> \<not> lg)
           \<and> us_status u = ''active'' \<and> us_registered u) (db_users d))"
    have c: "u \<in> set ?ts" "us_role u \<in> {''student'', ''group''}" "us_status u = ''active''" "us_registered u" "has_whitelist d u"
      using all(2) mem by (auto simp: revokes_def)
    have ne: "?ts \<noteq> []" using c(1) by (metis empty_iff empty_set)
    then obtain d1 where "reset_passwords ?ts d = Inr d1" "find_user d' i = find_user d1 i"
      using all(1) by (auto simp: reset_class_passwords_def Let_def split: if_splits sum.splits)
    then show ?thesis using reset_passwords_version [OF _ u c] by simp
  qed
qed

section \<open>Administrators\<close>

definition standing_admin :: "app_user \<Rightarrow> bool" where
  "standing_admin u \<longleftrightarrow> us_role u = ''class_admin'' \<and> us_status u = ''active''"

lemma active_admins_pos: "0 < active_admins d \<longleftrightarrow> (\<exists>u \<in> set (db_users d). standing_admin u)"
  by (auto simp: active_admins_def count_where_def standing_admin_def filter_empty_conv)

lemma length_filter_mono: "(\<And>x. x \<in> set xs \<Longrightarrow> p x \<Longrightarrow> q x) \<Longrightarrow> length (filter p xs) \<le> length (filter q xs)"
  by (induction xs) (auto simp: le_SucI)

lemma another_admin:
  assumes "distinct (map us_id (db_users d))" and "1 < active_admins d"
  shows "\<exists>v \<in> set (db_users d). standing_admin v \<and> us_id v \<noteq> i"
proof (rule ccontr)
  assume "\<not> ?thesis"
  then have "length (filter standing_admin (db_users d)) \<le> length (filter (\<lambda>v. us_id v = i) (db_users d))"
    by (intro length_filter_mono) blast
  then show False using assms(2) distinct_class_bound [OF assms(1), of i]
    by (simp add: active_admins_def count_where_def standing_admin_def [abs_def])
qed

lemma sync_keeps_member:
  assumes "u \<in> set (db_users d)" and "us_registered u \<or> us_whitelist u \<noteq> wl_id w"
  shows "u \<in> set (db_users (sync_member w d))"
  using assms by (auto simp: sync_member_def Let_def update_members_def set_where_set image_iff)

lemma update_keeps_member: "u \<in> set (db_users d) \<Longrightarrow> \<not> p u \<Longrightarrow> u \<in> set (db_users (update_members p f d))"
  by (auto simp: update_members_def set_where_set image_iff)

lemma import_keeps_member:
  assumes "u \<in> set (db_users d)" and "us_registered u" and "import_row e d x = Inr d'"
  shows "u \<in> set (db_users d')"
  using assms by (auto simp: import_row_def insert_whitelist_def Let_def sync_keeps_member split: option.splits if_splits)

lemma role_keeps_admin:
  assumes ok: "members_ok d" and uw: "distinct (map us_whitelist (db_users d))"
    and u: "u \<in> set (db_users d)" "standing_admin u" "us_registered u"
    and h: "find_user d i = Some x" "\<not> (us_role x = ''class_admin'' \<and> role \<noteq> ''class_admin'' \<and> active_admins d \<le> 1)"
  shows "\<exists>v \<in> set (db_users (role_given i role x d)). standing_admin v"
proof -
  let ?f = "\<lambda>v. v\<lparr>us_role := role, us_version := us_version v + 1\<rparr>"
  let ?d1 = "update_members (\<lambda>v. us_id v = i) ?f d"
  have stays: "\<exists>v \<in> set (db_users (role_given i role x d)). standing_admin v"
    if "v \<in> set (db_users ?d1)" "standing_admin v" "us_registered v \<or> us_whitelist v \<noteq> us_whitelist x" for v
    using that sync_keeps_member [of v]
    by (fastforce simp: role_given_def Let_def dest!: find_Some_D split: option.split)
  consider (other) "us_id u \<noteq> i" | (same) "us_id u = i" "role = ''class_admin''" | (demoted) "us_id u = i" "role \<noteq> ''class_admin''" by blast
  then show ?thesis
  proof cases
    case other
    then show ?thesis using stays [of u] update_keeps_member u by simp
  next
    case same
    have "?f u \<in> set (db_users ?d1)"
      using u same members_okD(2) [OF ok u(1)]
      by (auto simp: update_members_def set_where_set image_iff deputy_lost_def member_ok_def standing_admin_def intro!: bexI [of _ u])
    then show ?thesis using stays [of "?f u"] u same by (simp add: standing_admin_def)
  next
    case demoted
    have x: "x = u" using same_user [OF ok _ u(1)] find_user_D [OF h(1)] demoted(1) by simp
    obtain v where v: "v \<in> set (db_users d)" "standing_admin v" "us_id v \<noteq> i"
      using another_admin [OF members_okD(3) [OF ok], of i] h(2) demoted u(2) by (auto simp: x standing_admin_def)
    have "us_whitelist v \<noteq> us_whitelist x"
      using uw v u(1) demoted x by (auto simp: distinct_map inj_on_def)
    then show ?thesis using stays [of v] update_keeps_member [OF v(1)] v by simp
  qed
qed

lemma pause_keeps_admin:
  assumes "u \<in> set (db_users d)" and "standing_admin u"
  shows "\<exists>v \<in> set (db_users (pause_given i b d)). standing_admin v"
proof -
  let ?v = "if us_id u = i \<and> may_hold_seats u then u\<lparr>us_paused := b\<rparr> else u"
  have "?v \<in> set (db_users (pause_given i b d))" using assms(1) by (simp add: pause_given_def set_where_set)
  moreover have "standing_admin ?v" using assms(2) by (simp add: standing_admin_def)
  ultimately show ?thesis by blast
qed

lemma roster_keeps_admin:
  assumes u: "u \<in> set (db_users d)" "standing_admin u" "us_registered u"
    and reg: "\<forall>w \<in> set (db_whitelist d). wl_id w = us_whitelist u \<longrightarrow> wl_registered_at w \<noteq> None"
  shows "add_whitelist e a sid nm d = Inr (d', r1) \<Longrightarrow> u \<in> set (db_users d')"
    and "import_whitelist e a n rec d = Inr (d', r2) \<Longrightarrow> u \<in> set (db_users d')"
    and "delete_whitelist a rf i d = Inr (d', r3) \<Longrightarrow> u \<in> set (db_users d')"
    and "reset_user_password a i d = Inr (d', r4) \<Longrightarrow> u \<in> set (db_users d')"
    and "reset_class_passwords a lg d = Inr (d', r4) \<Longrightarrow> u \<in> set (db_users d')"
    and "update_class_deputy a user d = Inr (d', r3) \<Longrightarrow> \<exists>v \<in> set (db_users d'). standing_admin v"
proof -
  show "add_whitelist e a sid nm d = Inr (d', r1) \<Longrightarrow> u \<in> set (db_users d')"
    using u by (auto simp: add_whitelist_def insert_whitelist_def Let_def desk_frames sync_keeps_member split: option.splits if_splits)
  show "u \<in> set (db_users d')" if h: "import_whitelist e a n rec d = Inr (d', r2)"
  proof -
    obtain inputs d1 where f: "fold_res (import_row e) d inputs = Inr d1"
      and d': "d' = append_audit a ''whitelist.imported'' ''whitelist'' [] d1"
      using h by (auto simp: import_whitelist_def split: if_splits option.splits list.splits sum.splits)
    have "u \<in> set (db_users d1)"
      by (rule fold_res_inv [OF f, where P = "\<lambda>q. u \<in> set (db_users q)"]) (use u import_keeps_member in auto)
    then show ?thesis by (simp add: d' desk_frames)
  qed
  show "delete_whitelist a rf i d = Inr (d', r3) \<Longrightarrow> u \<in> set (db_users d')"
    using u reg by (auto simp: delete_whitelist_def delete_where_def desk_frames list_ex_iff split: option.splits if_splits)
  have reset: "u \<in> set (db_users d1)" if r: "reset_passwords ts d = Inr d1" for ts d1
  proof -
    obtain f p where "db_users d1 = where_set p f (db_users d)" "\<not> p u"
    proof (cases "ts = []")
      case True
      then show thesis using r that [of "\<lambda>_. False" "\<lambda>u. u"] by (simp add: reset_passwords_def where_set_def)
    next
      case False
      have "us_role u \<noteq> ''student''" "us_role u \<noteq> ''group''" using u(2) by (simp_all add: standing_admin_def)
      then show thesis using r False that by (auto simp: reset_passwords_def Let_def split: if_splits)
    qed
    then show ?thesis using u(1) by (auto simp: set_where_set image_iff)
  qed
  show "reset_user_password a i d = Inr (d', r4) \<Longrightarrow> u \<in> set (db_users d')"
    by (auto simp: reset_user_password_def desk_frames dest: reset split: option.splits if_splits sum.splits)
  show "reset_class_passwords a lg d = Inr (d', r4) \<Longrightarrow> u \<in> set (db_users d')"
    using u by (auto simp: reset_class_passwords_def Let_def dest: reset split: if_split_asm sum.split_asm)
  show "\<exists>v \<in> set (db_users d'). standing_admin v" if h: "update_class_deputy a user d = Inr (d', r3)"
  proof -
    obtain g where g: "db_users d' = map g (db_users d)" "\<And>v. standing_admin (g v) = standing_admin v"
    proof (cases user)
      case None
      then show thesis using h that [of "\<lambda>v. if us_deputy v then v\<lparr>us_deputy := False\<rparr> else v"]
        by (auto simp: update_class_deputy_def where_set_def desk_frames standing_admin_def)
    next
      case (Some j)
      then have "db_users d' = where_set (\<lambda>v. us_id v = j) (\<lambda>v. v\<lparr>us_deputy := True\<rparr>)
          (where_set us_deputy (\<lambda>v. v\<lparr>us_deputy := False\<rparr>) (db_users d))"
        using h by (auto simp: update_class_deputy_def desk_frames split: option.splits if_splits)
      then show thesis
        by (intro that [of "(\<lambda>v. if us_id v = j then v\<lparr>us_deputy := True\<rparr> else v) \<circ> (\<lambda>v. if us_deputy v then v\<lparr>us_deputy := False\<rparr> else v)"])
          (simp_all add: where_set_def standing_admin_def)
    qed
    then show ?thesis using u(1,2) by auto
  qed
qed

lemma admin_stays:
  assumes ok: "members_ok d" and uw: "distinct (map us_whitelist (db_users d))"
    and u: "find_user d (ac_user a) = Some u" "standing_admin u" "us_registered u"
    and reg: "\<forall>w \<in> set (db_whitelist d). wl_id w = us_whitelist u \<longrightarrow> wl_registered_at w \<noteq> None"
    and h: "handle e a r d = Inr d'"
  shows "\<exists>v \<in> set (db_users d'). standing_admin v"
proof -
  have mem: "u \<in> set (db_users d)" "us_id u = ac_user a" using find_user_D [OF u(1)] by simp_all
  show ?thesis
  proof (cases "keeps_desk r")
    case True
    then show ?thesis using handle_desk [OF h True] mem u(2) by (auto simp: same_desk_def)
  next
    case False
    note roster = roster_keeps_admin [OF mem(1) u(2,3) reg]
    have role: "\<exists>v \<in> set (db_users d'). standing_admin v" if "update_user_role e a i rl d = Inr (d', x)" for i rl x
    proof (rule update_user_role_D [OF that], goal_cases)
      case (1 y d4)
      have "db_users d' = db_users (role_given i rl y d)"
        using 1(4) reassign_unavailable_users by (auto simp: 1(5) desk_frames)
      then show ?case using role_keeps_admin [OF ok uw mem(1) u(2,3) 1(1,3)] by simp
    qed
    have status: "\<exists>v \<in> set (db_users d'). standing_admin v" if "update_user_status e a i st d = Inr (d', x)" for i st x
    proof (rule update_user_status_D [OF that], goal_cases)
      case (1 y d2)
      have "db_users d' = db_users (status_given i st d)"
        using 1(5,6) reassign_unavailable_users by (auto simp: desk_frames stale_batches_def Let_def)
      then show ?case using update_keeps_member [OF mem(1)] 1(3) mem(2) u(2) by (auto simp: status_given_def)
    qed
    have pause: "\<exists>v \<in> set (db_users d'). standing_admin v" if "update_dispatch_reviewer e a i pz d = Inr (d', x)" for i pz x
    proof (rule update_dispatch_reviewer_D [OF that], goal_cases)
      case (1 b)
      then have "db_users d' = db_users (pause_given i b d)" using reassign_unavailable_users by (auto simp: desk_frames)
      then show ?case using pause_keeps_admin [OF mem(1) u(2)] by simp
    qed
    have "(\<exists>v \<in> set (db_users d'). standing_admin v) \<or> u \<in> set (db_users d') \<or> db_users d' = db_users d"
      using False h
      by (cases r) (auto simp: keeps_desk_def handle_def
        dest: roster role status pause dispatch_users correct_submission_users delete_submission_users)
    then show ?thesis using mem(1) u(2) by auto
  qed
qed

section \<open>Two surprises\<close>

text \<open>
  The event of a claim that has never been filed or was withdrawn is not skipped: its missing
  time of submission is read into a value that cannot be missing before the status is looked at.
\<close>

lemma unfiled_event_fails:
  assumes "0 < i" and "governance_mode d = ''centralized''" and "db_auto d" and "active_seats d i = []"
    and "find_submission d i = Some s" and "find_user d (sb_student s) = Some u" and "sb_submitted_at s = None"
  shows "auto_dispatch e ev i d = Inl internal_error"
  using assms by (simp add: auto_dispatch_def)

text \<open>
  A change of role also writes the whitelist, and the trigger on the whitelist sets the status of
  an account that nobody has registered yet: disabled before, active afterwards.
\<close>

lemma role_change_enables:
  assumes u: "find_user d i = Some u" and "us_status u = ''disabled''" and "us_role u = ''student''"
    and "\<not> us_registered u" and w: "find (\<lambda>w. wl_id w = us_whitelist u) (db_whitelist d) = Some w" and "wl_active w"
    and "0 < i" and "valid_business_role role"
  shows "\<exists>d' v. update_user_role e a i role d = Inr (d', ()) \<and> find_user d' i = Some v \<and> us_status v = ''active''"
proof -
  let ?d1 = "update_members (\<lambda>v. us_id v = i) (\<lambda>v. v\<lparr>us_role := role, us_version := us_version v + 1\<rparr>) d"
  obtain x where x: "find_user ?d1 i = Some x" "us_whitelist x = us_whitelist u" "\<not> us_registered x"
    using find_user_D [OF u] assms(4) by (simp add: find_user_update u Let_def)
  have w2: "find (\<lambda>w. wl_id w = us_whitelist u) (where_set (\<lambda>w. wl_id w = us_whitelist u) (\<lambda>w. w\<lparr>wl_role := role\<rparr>) (db_whitelist d))
      = Some (w\<lparr>wl_role := role\<rparr>)"
    using w find_Some_D(2) [OF w] by (simp add: find_where_set)
  have known: "list_ex (\<lambda>v. us_whitelist v = us_whitelist u) (db_users ?d1)"
    using find_user_D [OF x(1)] x(2) by (auto simp: list_ex_iff)
  have "\<exists>v. find_user (role_given i role u d) i = Some v \<and> us_status v = ''active''"
    using w2 known x find_Some_D(2) [OF w] assms(6)
    by (simp add: role_given_def Let_def sync_member_def find_user_update update_members_def [of _ _ d] del: where_set_def)
  moreover have "update_user_role e a i role d
      = Inr (append_audit a ''user.role_changed'' ''user'' (dec_int i) (role_given i role u d), ())"
    using assms(3,7,8) u by (simp add: update_user_role_def role_given_def path_id_def Let_def)
  ultimately show ?thesis by simp
qed

end
