(* ===== verification/Guarantees.thy ===== *)
theory Guarantees
  imports ClassHistory
begin

text \<open>
  What single requests guarantee, whatever state they meet: a sealed student's claims stand
  still, and a correction closes every piece of work that was open on the claim it corrects.
\<close>

section \<open>Seals\<close>

fun edits_claims :: "request \<Rightarrow> bool" where
  "edits_claims (CreateSubmission _) = True"
| "edits_claims (UpdateSubmission _ _) = True"
| "edits_claims (DeleteSubmission _) = True"
| "edits_claims (SubmitSubmission _) = True"
| "edits_claims (WithdrawSubmission _) = True"
| "edits_claims _ = False"

lemma delete_submission_unsealed:
  "delete_submission a i d = Inr (d', r) \<Longrightarrow> ensure_not_sealed d (ac_user a)"
  by (auto simp: delete_submission_def split: option.splits if_splits)

lemma create_submission_unsealed:
  assumes "create_submission e a x d = Inr (d', r)"
  shows "ensure_not_sealed d (ac_user a)"
proof -
  obtain i v where "r = (i, v)" by fastforce
  then show ?thesis using assms by (auto elim: create_submission_D)
qed

definition hand_over :: "env \<Rightarrow> int \<Rightarrow> db \<Rightarrow> submission list" where
  \<comment> \<open>the council takes a claim that waits for review\<close>
  "hand_over e i d = where_set (\<lambda>s. sb_id s = i \<and> sb_status s = Pending)
     (\<lambda>s. s\<lparr>sb_status := Arbitrating, sb_updated_at := en_now e\<rparr>) (db_submissions d)"

lemma ensure_case_rows:
  assumes "ensure_governance_case e a action i ex d = Inr d'"
  shows "db_submissions d' = db_submissions d
    \<or> governance_mode d = ''collective'' \<and> db_submissions d' = hand_over e i d"
  using assms
proof (cases rule: ensure_case_D)
  case (2 d1)
  then show ?thesis
    using update_submissions_frame(15) [OF 2(3)] by (simp add: quiet_def hand_over_def)
qed (simp add: quiet_def)

lemma sealed_edit:
  assumes "edits_claims r" and ns: "\<not> ensure_not_sealed d (ac_user a)"
  shows "(\<exists>err. handle e a r d = Inl err) \<or> (\<exists>i. r = WithdrawSubmission i \<and> handle e a r d = Inr d)
    \<or> (\<exists>i d'. r = SubmitSubmission i \<and> handle e a r d = Inr d' \<and> (db_submissions d' = db_submissions d
         \<or> governance_mode d = ''collective'' \<and> db_submissions d' = hand_over e i d))"
proof (cases "handle e a r d")
  case (Inr d')
  show ?thesis
  proof (cases "\<exists>i. r = SubmitSubmission i")
    case True
    then obtain i where i: "r = SubmitSubmission i"
      and h: "collective_after e a ''submission'' (\<lambda>_. i) (submit_submission e a i d) = Inr d'"
      using Inr by (auto simp: handle_def)
    then obtain d1 x where s: "submit_submission e a i d = Inr (d1, x)"
      and en: "ensure_governance_case e a ''submission'' i False d1 = Inr d'"
      by (auto simp: collective_after_Inr)
    have "d1 = d" using submit_submission_frame(3) [OF s] ns by blast
    then have "db_submissions d' = db_submissions d
        \<or> governance_mode d = ''collective'' \<and> db_submissions d' = hand_over e i d"
      using ensure_case_rows [OF en] by simp
    then show ?thesis using i Inr by simp
  next
    case False
    then have "ensure_not_sealed d (ac_user a) \<or> (\<exists>i. r = WithdrawSubmission i \<and> d' = d)"
      using assms(1) Inr
      by (cases r) (auto simp: handle_def dest: create_submission_unsealed update_submission_frame(3)
        delete_submission_unsealed withdraw_submission_frame(3))
    then show ?thesis using ns Inr by simp
  qed
qed simp

section \<open>Corrections\<close>

lemma where_set_clears:
  assumes "r \<in> set (where_set p f rows)" and "\<And>r. p r \<Longrightarrow> \<not> p (f r)"
  shows "\<not> p r"
  using assms by (auto simp: where_set_def)

lemma close_workflows_closes:
  shows "p \<in> set (db_appeals (close_workflows e a i reason score d)) \<Longrightarrow> \<not> open_appeal i p"
    and "o' \<in> set (db_objections (close_workflows e a i reason score d)) \<Longrightarrow> \<not> open_objection i o'"
    and "g \<in> set (db_suggestions (close_workflows e a i reason score d)) \<Longrightarrow> \<not> open_suggestion i g"
    and "f \<in> set (db_flags (close_workflows e a i reason score d)) \<Longrightarrow> \<not> open_flag i f"
    and "r \<in> set (db_reports (close_workflows e a i reason score d)) \<Longrightarrow> \<not> open_report i r"
    and "v \<in> set (db_assigned (close_workflows e a i reason score d))
      \<Longrightarrow> \<not> (sv_submission v = i \<and> sv_active v)"
proof (simp_all add: close_workflows_def, goal_cases)
  case 1 show ?case by (rule where_set_clears [OF 1]) (simp add: open_appeal_def)
next
  case 2 show ?case by (rule where_set_clears [OF 2]) (simp add: open_objection_def)
next
  case 3 show ?case by (rule where_set_clears [OF 3]) (simp add: open_suggestion_def)
next
  case 4 show ?case by (rule where_set_clears [OF 4]) (simp add: open_flag_def)
next
  case 5 show ?case by (rule where_set_clears [OF 5]) (simp add: open_report_def)
next
  case 6
  have "\<not> (sv_submission v = i \<and> sv_active v)" by (rule where_set_clears [OF 6]) simp
  then show ?case by blast
qed

lemma proposal_on_stale:
  "proposal_on (stale_proposals i d) i = proposal_on d i"
  by (simp add: stale_proposals_def proposal_on_def fun_eq_iff)

lemma stale_proposals_closes:
  assumes "p \<in> set (db_proposals (stale_proposals i d))"
  shows "\<not> (open_proposal p \<and> proposal_on d i p)"
proof -
  have "p \<in> set (where_set (\<lambda>p. open_proposal p \<and> proposal_on d i p) (\<lambda>p. p\<lparr>pr_status := ''stale''\<rparr>)
      (db_proposals d))" using assms by (simp add: stale_proposals_def)
  then show ?thesis by (rule where_set_clears) (simp add: open_proposal_def)
qed

lemma correct_submission_state:
  assumes h: "correct_submission e a self fs i x d = Inr (d', score)"
  obtains d1 d2 c reason where
    "update_submissions (\<lambda>q. sb_id q = i) (set_correction e fs c score) d = Inr d1"
    "d2 = close_workflows e a i reason (column_of score) d1"
    "db_submissions d' = db_submissions d1"
    "db_appeals d' = db_appeals d2" "db_objections d' = db_objections d2"
    "db_suggestions d' = db_suggestions d2" "db_flags d' = db_flags d2"
    "db_reports d' = db_reports d2" "db_assigned d' = db_assigned d2"
    "db_proposals d' = db_proposals (stale_proposals i d2)"
proof -
  obtain s :: submission and sc c d1 where u: "update_submissions (\<lambda>q. sb_id q = i) (set_correction e fs c sc) d = Inr d1"
    and eq: "d' = (let reason = correction_prefix self fs @ fr_reason c;
        d2 = stale_proposals i (close_workflows e a i reason (column_of sc) d1);
        d3 = invalidate_student_blind_audit e (sb_student s) [] reason
               (invalidate_latest_settlement reason d2);
        action = (if fs then ''submission.force_scored'' else ''submission.force_rejected'') in
      enqueue_event action i (append_audit a action ''submission'' (dec_int i) d3))"
    and sc: "score = sc"
    by (rule correct_submission_D [OF h]) blast
  show thesis
    by (rule that [OF u [folded sc] HOL.refl, of "correction_prefix self fs @ fr_reason c"])
      (simp_all only: eq sc Let_def frame_simps)
qed

section \<open>A settlement goes through\<close>

lemma compute_one:
  assumes "st_user s \<noteq> 0" and "st_sid s \<noteq> []"
  shows "\<exists>rows. compute (\<lambda>x. x) k [s] [(''c'', Fin 1)] no_honor = Inr rows"
proof -
  have w: "fold_res add_settle_weight (Fin 0) [(''c'', Fin 1)] = Inr (Fin 1)"
    "\<not> flt (rnd64 (1 / 1000000)) (fabs (fsub (Fin 1) (Fin 1)))" by code_simp+
  show ?thesis unfolding compute_def w(1) sum.case using w(2) assms by (simp add: no_honor_def Let_def)
qed

lemma run_settlement_succeeds:
  assumes "evaluate_gate e d = Inr (d1, st)" and "ga_open (gt_gate st)"
    and "reusable_run d1 (ss_id (gt_current st)) = None"
    and "build_settlement v d1 (gt_current st) = Some inputs"
    and "compute (vs_weights v) (vs_keys v) inputs (cf_weights (ss_config (gt_current st)))
             (cf_honor_roll (ss_config (gt_current st))) = Inr snapshots"
    and "\<forall>s \<in> set (db_submissions d1). sb_status s = Scored \<longrightarrow> sub_update_check s (lock_scored e s) = None"
  shows "\<exists>d' n. run_settlement v e a d = Inr (d', n, False)"
proof -
  let ?n = "db_next d1"
  have u: "\<exists>d3. update_submissions (\<lambda>s. sb_status s = Scored) (lock_scored e) d2 = Inr d3"
    if "db_submissions d2 = db_submissions d1" for d2
    using assms(6) that by (auto simp: update_submissions_def split: option.split)
  define d2 where "d2 = d1\<lparr>db_runs := db_runs d1 @ [\<lparr>rn_id = ?n, rn_scheme = ss_id (gt_current st),
            rn_status = ''running'',
            rn_trigger = (if ga_forced (gt_gate st) then ''forced'' else ''automatic''),
            rn_by = ac_user a, rn_config = ss_config (gt_current st), rn_created_at = en_now e,
            rn_completed_at = None\<rparr>], db_next := ?n + 1,
          db_settlement := db_settlement d1 @ map (settlement_row_of ?n) snapshots\<rparr>"
  obtain d3 where d3: "update_submissions (\<lambda>s. sb_status s = Scored) (lock_scored e) d2 = Inr d3"
    using u [of d2] by (auto simp: d2_def)
  show ?thesis
    unfolding run_settlement_def assms(1,3-5) sum.case option.case prod.case Let_def d2_def [symmetric] d3 sum.case
    using assms(2) by simp
qed

lemma sample_settle:
  "\<exists>d n. run_settlement sample_visits sample_env sample_admin sample_settled = Inr (d, n, False)"
proof -
  obtain current where l: "load_current_scheme sample_env sample_settled = Inr (sample_settled, current)"
     "ss_id current = 9" "cf_weights (ss_config current) = [(''c'', Fin 1)]" "cf_honor_roll (ss_config current) = no_honor"
    by (simp add: scheme_read_defs sample_settled_def sample_defs)
  obtain st where g: "evaluate_gate sample_env sample_settled = Inr (sample_settled, st)" "ga_open (gt_gate st)"
     "gt_current st = current"
    using l(1,2)
    by (simp add: evaluate_gate_def Let_def evaluate_gate_input_def count_where_def active_user_def
      capability_defs pending_conflicts_def appeal_counts_def arbitrating_alone_def unfinalized_def
      collective_pending_def sample_settled_def sample_defs latest_by_def)
  have r: "reusable_run sample_settled 9 = None"
    by (simp add: reusable_run_def latest_by_def sample_settled_def sample_defs)
  obtain s where b: "build_settlement sample_visits sample_settled current = Some [s]" "st_user s = 4" "st_sid s = ''4''"
  proof -
    have "active_roster sample_settled = [sample_user 4 ''student'']" "dec_int 4 = ''4''"
      by (simp add: active_roster_def active_user_def sample_settled_def sample_user_def sort_less_def, code_simp)
    then show thesis by (intro that, simp add: build_settlement_def settle_input_def Let_def sample_user_def) simp_all
  qed
  obtain rows where c: "compute (\<lambda>x. x) (\<lambda>x. x) [s] [(''c'', Fin 1)] no_honor = Inr rows"
    using compute_one [of s] b(2,3) by auto
  have c': "compute (vs_weights sample_visits) (vs_keys sample_visits) [s] (cf_weights (ss_config (gt_current st)))
             (cf_honor_roll (ss_config (gt_current st))) = Inr rows"
    using c by (simp add: g l sample_visits_def)
  show ?thesis
  proof (rule run_settlement_succeeds [OF g(1,2) _ _ c'])
    show "\<forall>s \<in> set (db_submissions sample_settled). sb_status s = Scored
        \<longrightarrow> sub_update_check s (lock_scored sample_env s) = None"
      by (simp add: sample_settled_def sample_at_def sample_row_def lock_scored_def sub_update_check_def sub_row_check_def)
  qed (simp_all add: g l r b)
qed

section \<open>Properties\<close>

text \<open>
  C10. A sealed student can no longer file anything: creating, changing and deleting a claim, applying an AI
  import and confirming a draft of the agent are refused, and so are submitting and taking back,
  except that repeating one that is already done (or a confirmed draft) is answered without
  changing a claim; in a class that decides collectively that answer may hand a waiting claim to
  the council.  Appeals and the student's own forced rejection stay possible while sealed.
\<close>

theorem sealed_student_frozen:
  assumes "\<not> ensure_not_sealed d (ac_user a)"
  shows "(edits_claims r \<longrightarrow> (\<exists>err. handle e a r d = Inl err)
        \<or> (\<exists>i. r = WithdrawSubmission i \<and> handle e a r d = Inr d)
        \<or> (\<exists>i d'. r = SubmitSubmission i \<and> handle e a r d = Inr d' \<and> (db_submissions d' = db_submissions d
             \<or> governance_mode d = ''collective'' \<and> db_submissions d' = hand_over e i d)))
    \<and> (\<exists>err. apply_ai_batch e a revise fits n batch xs d = Inl err)
    \<and> ((\<exists>err. apply_agent_draft e a m action token d = Inl err) \<or> apply_agent_draft e a m action token d = Inr (d, ()))"
proof (intro conjI impI)
  assume r: "edits_claims r"
  show "(\<exists>err. handle e a r d = Inl err) \<or> (\<exists>i. r = WithdrawSubmission i \<and> handle e a r d = Inr d)
        \<or> (\<exists>i d'. r = SubmitSubmission i \<and> handle e a r d = Inr d' \<and> (db_submissions d' = db_submissions d
             \<or> governance_mode d = ''collective'' \<and> db_submissions d' = hand_over e i d))"
    by (rule sealed_edit [OF r assms])
next
  show "\<exists>err. apply_ai_batch e a revise fits n batch xs d = Inl err"
    using apply_ai_batch_unsealed [of e a revise fits n batch xs d] assms
    by (cases "apply_ai_batch e a revise fits n batch xs d") auto
next
  show "(\<exists>err. apply_agent_draft e a m action token d = Inl err) \<or> apply_agent_draft e a m action token d = Inr (d, ())"
    using apply_agent_draft_unsealed [of e a m action token d] assms
    by (cases "apply_agent_draft e a m action token d") auto
qed

lemma sealed_student_frozen_witness:
  "\<exists>err. handle sample_env sample_student (DeleteSubmission 100) (sample_settled\<lparr>db_submissions :=
      [sample_row Pending None]\<rparr>) = Inl err"
proof -
  have "\<not> ensure_not_sealed (sample_settled\<lparr>db_submissions := [sample_row Pending None]\<rparr>) (ac_user sample_student)"
    by (simp add: ensure_not_sealed_def sample_settled_def sample_student_def sample_actor_def)
  from sealed_student_frozen [OF this, of "DeleteSubmission 100" sample_env] show ?thesis by simp
qed

text \<open>
  C6. A correction that goes through leaves the claim scored with the corrected score and
  nothing open on it: no appeal, no objection, no suggestion, no audit flag, no report, no
  assigned review, and no vote about any of these.  No other claim changes.
\<close>

theorem correction_closes_workflows:
  assumes "correct_submission e a self fs i x d = Inr (d', score)"
  shows "(\<forall>s \<in> set (db_submissions d'). sb_id s = i
        \<longrightarrow> sb_status s = Scored \<and> sb_final s = Some (column_of score))
    \<and> filter (\<lambda>s. sb_id s \<noteq> i) (db_submissions d') = filter (\<lambda>s. sb_id s \<noteq> i) (db_submissions d)
    \<and> \<not> list_ex (open_appeal i) (db_appeals d') \<and> \<not> list_ex (open_objection i) (db_objections d')
    \<and> \<not> list_ex (open_suggestion i) (db_suggestions d') \<and> \<not> list_ex (open_flag i) (db_flags d')
    \<and> \<not> list_ex (open_report i) (db_reports d')
    \<and> \<not> list_ex (\<lambda>v. sv_submission v = i \<and> sv_active v) (db_assigned d')
    \<and> \<not> list_ex (\<lambda>p. open_proposal p \<and> proposal_on d' i p) (db_proposals d')"
proof -
  obtain d1 d2 c reason where
    u: "update_submissions (\<lambda>q. sb_id q = i) (set_correction e fs c score) d = Inr d1"
    and d2: "d2 = close_workflows e a i reason (column_of score) d1"
    and sub: "db_submissions d' = db_submissions d1"
    and rest: "db_appeals d' = db_appeals d2" "db_objections d' = db_objections d2"
      "db_suggestions d' = db_suggestions d2" "db_flags d' = db_flags d2"
      "db_reports d' = db_reports d2" "db_assigned d' = db_assigned d2"
    and props: "db_proposals d' = db_proposals (stale_proposals i d2)"
    by (rule correct_submission_state [OF assms]) blast
  have rows: "db_submissions d' = where_set (\<lambda>q. sb_id q = i) (set_correction e fs c score) (db_submissions d)"
    using update_submissions_frame [OF u] sub by simp
  have on: "proposal_on d' i = proposal_on d2 i" by (simp add: proposal_on_def rest fun_eq_iff)
  have "\<not> list_ex (\<lambda>p. open_proposal p \<and> proposal_on d' i p) (db_proposals d')"
    unfolding on props list_ex_iff using stale_proposals_closes [of _ i d2] by blast
  moreover have "\<forall>s \<in> set (db_submissions d'). sb_id s = i
        \<longrightarrow> sb_status s = Scored \<and> sb_final s = Some (column_of score)"
  proof (intro ballI impI)
    fix s assume "s \<in> set (db_submissions d')" and "sb_id s = i"
    then obtain q where "s = set_correction e fs c score q"
      unfolding rows using corrected.the_row [of s i e fs c score "db_submissions d"] by blast
    then show "sb_status s = Scored \<and> sb_final s = Some (column_of score)" by (simp add: set_correction_fields)
  qed
  moreover have "filter (\<lambda>s. sb_id s \<noteq> i) (db_submissions d') = filter (\<lambda>s. sb_id s \<noteq> i) (db_submissions d)"
    unfolding rows by (rule corrected.other_rows)
  moreover have "\<not> list_ex (open_appeal i) (db_appeals d')"
    using close_workflows_closes(1) by (auto simp: rest d2 list_ex_iff)
  moreover have "\<not> list_ex (open_objection i) (db_objections d')"
    using close_workflows_closes(2) by (auto simp: rest d2 list_ex_iff)
  moreover have "\<not> list_ex (open_suggestion i) (db_suggestions d')"
    using close_workflows_closes(3) by (auto simp: rest d2 list_ex_iff)
  moreover have "\<not> list_ex (open_flag i) (db_flags d')"
    using close_workflows_closes(4) by (auto simp: rest d2 list_ex_iff)
  moreover have "\<not> list_ex (open_report i) (db_reports d')"
    using close_workflows_closes(5) by (auto simp: rest d2 list_ex_iff)
  moreover have "\<not> list_ex (\<lambda>v. sv_submission v = i \<and> sv_active v) (db_assigned d')"
    using close_workflows_closes(6) by (auto simp: rest d2 list_ex_iff)
  ultimately show ?thesis by blast
qed

lemma correction_closes_workflows_witness:
  "\<exists>d v. correct_submission sample_env sample_admin False False 100 sample_correction sample_submitted
      = Inr (d, v) \<and> \<not> list_ex (\<lambda>v. sv_submission v = 100 \<and> sv_active v) (db_assigned d)"
proof -
  obtain d v where h: "correct_submission sample_env sample_admin False False 100 sample_correction
      sample_submitted = Inr (d, v)"
    using sample_reject by (auto simp: handle_def)
  show ?thesis using h correction_closes_workflows [OF h] by blast
qed

text \<open>
  C5. A settlement that is actually run goes through the gate, stores one result row per
  active member computed from the claims scored by then, and locks exactly the scored claims
  at their scores; the run is recorded as complete.
\<close>

theorem settlement_locks:
  assumes "run_settlement v e a d = Inr (d', n, False)"
  shows "db_submissions d' = map (\<lambda>s. if sb_status s = Scored then lock_scored e s else s) (db_submissions d)
    \<and> (\<exists>d1 st inputs snapshots. evaluate_gate e d = Inr (d1, st) \<and> ga_open (gt_gate st)
        \<and> build_settlement v d1 (gt_current st) = Some inputs
        \<and> compute (vs_weights v) (vs_keys v) inputs (cf_weights (ss_config (gt_current st)))
             (cf_honor_roll (ss_config (gt_current st))) = Inr snapshots
        \<and> db_settlement d' = db_settlement d1 @ map (settlement_row_of n) snapshots)
    \<and> (\<exists>r \<in> set (db_runs d'). rn_id r = n \<and> rn_status r = ''complete'' \<and> rn_completed_at r = Some (en_now e))"
proof -
  obtain d1 st where g: "evaluate_gate e d = Inr (d1, st)" "ga_open (gt_gate st)"
    using assms by (auto simp: run_settlement_def split: sum.splits if_splits)
  have fresh: "reusable_run d1 (ss_id (gt_current st)) = None"
    using assms g by (auto simp: run_settlement_def split: option.splits)
  obtain inputs where b1: "build_settlement v d1 (gt_current st) = Some inputs"
    using assms g fresh by (auto simp: run_settlement_def split: option.splits)
  obtain snapshots where b2: "compute (vs_weights v) (vs_keys v) inputs (cf_weights (ss_config (gt_current st)))
             (cf_honor_roll (ss_config (gt_current st))) = Inr snapshots"
    using assms g fresh b1 by (auto simp: run_settlement_def Let_def split: sum.splits)
  define run :: run_row where "run = \<lparr>rn_id = n, rn_scheme = ss_id (gt_current st),
      rn_status = ''running'',
      rn_trigger = (if ga_forced (gt_gate st) then ''forced'' else ''automatic''),
      rn_by = ac_user a, rn_config = ss_config (gt_current st), rn_created_at = en_now e,
      rn_completed_at = None\<rparr>"
  define d2 where "d2 = d1\<lparr>db_runs := db_runs d1 @ [run], db_next := n + 1,
            db_settlement := db_settlement d1 @ map (settlement_row_of n) snapshots\<rparr>"
  obtain d3 where u: "update_submissions (\<lambda>s. sb_status s = Scored) (lock_scored e) d2 = Inr d3"
    and d': "d' = enqueue_event ''settlement.done'' n
              (append_audit a ''settlement.completed'' ''settlement_run'' (dec_int n)
                (d3\<lparr>db_runs := where_set (\<lambda>r. rn_id r = n)
                   (\<lambda>r. r\<lparr>rn_status := ''complete'', rn_completed_at := Some (en_now e)\<rparr>)
                   (db_runs d3)\<rparr>))"
    using assms g fresh b1 b2
    by (auto simp: run_settlement_def Let_def d2_def run_def split: sum.splits)
  obtain c where l: "load_current_scheme e d = Inr (d1, c)" by (rule evaluate_gate_D [OF g(1)]) blast
  have "db_submissions d' = where_set (\<lambda>s. sb_status s = Scored) (lock_scored e) (db_submissions d)"
    using update_submissions_frame [OF u] load_current_scheme_keeps [OF l] by (simp add: d' d2_def frame_simps)
  moreover have "db_settlement d' = db_settlement d1 @ map (settlement_row_of n) snapshots"
    using update_submissions_frame [OF u] by (simp add: d' d2_def frame_simps)
  moreover have "db_runs d3 = db_runs d1 @ [run]"
    using update_submissions_Inr(1) [OF u] by (simp add: d2_def)
  then have "\<exists>r \<in> set (db_runs d'). rn_id r = n \<and> rn_status r = ''complete'' \<and> rn_completed_at r = Some (en_now e)"
    by (auto simp: d' frame_simps where_set_def run_def)
  ultimately show ?thesis
    using g b1 b2 unfolding where_set_def by blast
qed

lemma settlement_locks_witness:
  "\<exists>d n. run_settlement sample_visits sample_env sample_admin sample_settled = Inr (d, n, False)
    \<and> map sb_status (db_submissions d) = [Locked]"
proof -
  obtain d n where h: "run_settlement sample_visits sample_env sample_admin sample_settled
      = Inr (d, n, False)" using sample_settle by blast
  have "db_submissions d = map (\<lambda>s. if sb_status s = Scored then lock_scored sample_env s else s)
      (db_submissions sample_settled)" using settlement_locks [OF h] by blast
  then show ?thesis
    using h by (simp add: sample_settled_def sample_at_def sample_row_def lock_scored_def)
qed

end
