(* ===== verification/Authority.thy ===== *)
theory Authority
  imports Members Guarantees
begin

text \<open>
  Who may do what, and for how long: seats and accounts over any history, tokens, the guard of a
  class that governs itself, and the scheduler that closes its proposals.
\<close>

section \<open>The scheduler\<close>











section \<open>A class whose desk is empty\<close>

definition fresh_class :: db where "fresh_class = sample_class\<lparr>db_assigned := []\<rparr>"
definition fresh_created :: db where "fresh_created = sample_created\<lparr>db_assigned := []\<rparr>"
definition fresh_submitted :: db where "fresh_submitted = sample_submitted\<lparr>db_assigned := []\<rparr>"

lemma fresh_create: "handle sample_env sample_student (CreateSubmission sample_claim) fresh_class = Inr fresh_created"
  by (simp add: fresh_class_def fresh_created_def handle_def state_of_def create_submission_def
    scheme_read_defs capability_defs Let_def prepare_submission_def item_for_submission_def
    accepts_submissions_def requested_score_def score_claim_def free_rule_def imported_category_key_def
    sample_trims sample_points column_of_def append_audit_def sample_created_def sample_defs)

lemma fresh_submit: "handle sample_env sample_student (SubmitSubmission 100) fresh_created = Inr fresh_submitted"
  by (simp add: fresh_submitted_def fresh_created_def handle_def collective_after_def
    ensure_governance_case_def governance_mode_def submit_submission_def path_id_def load_owned_def
    own_input_def scheme_read_defs capability_defs Let_def prepare_submission_def
    item_for_submission_def accepts_submissions_def requested_score_def score_claim_def
    free_rule_def imported_category_key_def sample_trims sample_points column_of_def
    update_submissions_def sub_update_check_def sub_row_check_def where_set_def
    file_for_review_def append_audit_def enqueue_event_def sample_created_def
    sample_submitted_def sample_defs)

lemma fresh_dispatch:
  "\<exists>d. auto_dispatch sample_env ''e'' 100 fresh_submitted = Inr d
    \<and> map (\<lambda>v. (sv_submission v, sv_reviewer v, sv_active v)) (db_assigned d) = [(100, 1, True), (100, 2, True)]"
proof -
  have "map_sum (\<lambda>_. ()) (\<lambda>d. map (\<lambda>v. (sv_submission v, sv_reviewer v, sv_active v)) (db_assigned d))
      (auto_dispatch sample_env ''e'' 100 fresh_submitted) = Inr [(100, 1, True), (100, 2, True)]"
    by code_simp
  then show ?thesis by (auto simp: map_sum_Inr)
qed

lemma fresh_history:
  "\<exists>d. serves fresh_class d
    \<and> map (\<lambda>v. (sv_submission v, sv_reviewer v, sv_active v)) (db_assigned d) = [(100, 1, True), (100, 2, True)]"
proof -
  have s: "serves fresh_class fresh_submitted"
    by (rule serves.one [OF serves.one [OF serves.none acts.request [OF fresh_create]] acts.request [OF fresh_submit]])
  from fresh_dispatch show ?thesis
    by (elim exE conjE) (intro exI conjI, erule serves.one [OF s acts.worker])
qed

lemma fresh_new: "new_class fresh_class" "db_assigned fresh_class = []" "members_ok fresh_class"
  by (simp_all add: new_class_def members_ok_def member_ok_def valid_business_role_def fresh_class_def sample_class_def sample_user_def)

lemma appointed: "\<exists>d. handle sample_env sample_admin (UpdateDeputy (Some 2)) fresh_class = Inr d
    \<and> map us_deputy (db_users d) = [False, True, False, False]"
  by (simp add: handle_def update_class_deputy_def find_user_def may_be_deputy_def where_set_def
    fresh_class_def sample_defs desk_frames)

lemma promoted: "\<exists>d. update_user_role sample_env sample_admin 2 ''class_admin'' fresh_class = Inr (d, ())
    \<and> map us_role (db_users d) = [''class_admin'', ''class_admin'', ''group'', ''student'']"
  by (simp add: update_user_role_def path_id_def find_user_def valid_business_role_def where_set_def
    update_members_def deputy_lost_def Let_def fresh_class_def sample_defs desk_frames)

section \<open>Properties\<close>

text \<open>
  C7. Whatever requests, dispatch runs, handovers and events a class goes through, a claim has at
  most two active seats; they are at position one and two, belong to different members, and
  never to the author of the claim.
\<close>

theorem history_seats:
  assumes "new_class d0" and "db_assigned d0 = []" and "serves d0 d"
    and "held = filter (\<lambda>v. sv_active v \<and> sv_submission v = i) (db_assigned d)"
  shows "length held \<le> 2 \<and> distinct (map sv_reviewer held) \<and> distinct (map sv_position held)
    \<and> (\<forall>v \<in> set held. sv_position v \<in> {1, 2})
    \<and> (\<forall>s \<in> set (db_submissions d). sb_id s = i \<longrightarrow> sb_student s \<notin> set (map sv_reviewer held))"
proof -
  have start: "seats_ok d0" by (simp add: seats_ok_def assms(2))
  have ok: "seats_ok d" by (rule seat_life.from_new [OF assms(1) start assms(3), THEN conjunct2])
  have held: "held = filter (\<lambda>v. sv_submission v = i) (filter sv_active (db_assigned d))"
    using assms(4) by (simp add: conj_commute)
  have same: "map (\<lambda>v. (sv_submission v, k v)) held = map (Pair i \<circ> k) held" for k :: "submission_reviewer \<Rightarrow> int"
    by (simp add: held)
  have dist: "distinct (map k held)" if "distinct (map (\<lambda>v. (sv_submission v, k v)) (filter sv_active (db_assigned d)))"
    for k :: "submission_reviewer \<Rightarrow> int"
    using distinct_map_filter [OF that, of "\<lambda>v. sv_submission v = i"] same [of k]
    by (simp add: held distinct_map inj_on_def)
  have pos: "\<forall>v \<in> set held. sv_position v \<in> {1, 2}" using seats_okD(2) [OF ok] by (auto simp: held)
  then have "card (set (map sv_position held)) \<le> card {1, 2 :: int}" by (intro card_mono) auto
  then have "length held \<le> 2" using distinct_card [OF dist [OF seats_okD(5) [OF ok]]] by simp
  then show ?thesis
    using dist [OF seats_okD(4) [OF ok]] dist [OF seats_okD(5) [OF ok]] pos seats_okD(3) [OF ok] by (auto simp: held)
qed

lemma history_seats_witness:
  "\<exists>d. serves fresh_class d \<and> length (filter (\<lambda>v. sv_active v \<and> sv_submission v = 100) (db_assigned d)) = 2
    \<and> distinct (map sv_reviewer (filter (\<lambda>v. sv_active v \<and> sv_submission v = 100) (db_assigned d)))"
proof -
  obtain d where d: "serves fresh_class d"
    "map (\<lambda>v. (sv_submission v, sv_reviewer v, sv_active v)) (db_assigned d) = [(100, 1, True), (100, 2, True)]"
    by (rule exE [OF fresh_history]) (elim conjE, rule that)
  have "length (filter (\<lambda>v. sv_active v \<and> sv_submission v = 100) (db_assigned d)) = 2"
    using d(2) by (auto simp: Cons_eq_map_conv map_eq_Cons_conv)
  then show ?thesis using d(1) history_seats [OF fresh_new(1,2) d(1), of _ 100] by auto
qed

text \<open>
  C19. The accounts of a class stay well typed through every sequence of the steps of \<open>acts\<close>: every role is one of
  the three business roles, every status is active or disabled, ids are unique, and at most one
  deputy is in office, who is an active member of the review group.
\<close>

theorem history_member_types:
  assumes "new_class d0" and "members_ok d0" and "serves d0 d"
  shows "distinct (map us_id (db_users d))
    \<and> (\<forall>u \<in> set (db_users d). us_role u \<in> {''student'', ''group'', ''class_admin''}
        \<and> us_status u \<in> {''active'', ''disabled''}
        \<and> (us_deputy u \<longrightarrow> us_role u = ''group'' \<and> us_status u = ''active''))
    \<and> length (filter us_deputy (db_users d)) \<le> 1"
proof -
  have "members_ok d" by (rule account_life.from_new [OF assms(1-3), THEN conjunct2])
  from members_okD [OF this] show ?thesis by (auto simp: member_ok_def valid_business_role_def)
qed

lemma history_member_types_witness:
  "\<exists>d. serves fresh_class d \<and> map us_deputy (db_users d) = [False, True, False, False]
    \<and> (\<forall>u \<in> set (db_users d). us_deputy u \<longrightarrow> us_role u = ''group'')"
proof -
  obtain d where d: "handle sample_env sample_admin (UpdateDeputy (Some 2)) fresh_class = Inr d"
    "map us_deputy (db_users d) = [False, True, False, False]" by (rule exE [OF appointed]) (elim conjE, rule that)
  have sv: "serves fresh_class d" by (rule serves.one [OF serves.none acts.request [OF d(1)]])
  have "\<forall>u \<in> set (db_users d). us_deputy u \<longrightarrow> us_role u = ''group''"
    using history_member_types [OF fresh_new(1,3) sv] by simp
  with sv d(2) show ?thesis by (intro exI conjI)
qed

text \<open>
  C11. A class never loses its last administrator to a request of one: while the administrator who
  asks has a registered account, the class has an active administrator afterwards, whatever is
  asked for - the change of a role or a status, an import or a deletion of members included.
\<close>

theorem admin_remains:
  assumes "members_ok d" and "distinct (map us_whitelist (db_users d))"
    and "find_user d (ac_user a) = Some u" and "us_role u = ''class_admin''" and "us_status u = ''active''"
    and "us_registered u"
    and "\<forall>w \<in> set (db_whitelist d). wl_id w = us_whitelist u \<longrightarrow> wl_registered_at w \<noteq> None"
    and "handle e a r d = Inr d'"
  shows "0 < active_admins d'"
  using admin_stays [OF assms(1-3) _ assms(6-8)] assms(4,5) by (simp add: active_admins_pos standing_admin_def)

lemma admin_remains_witness:
  "\<exists>d. handle sample_env sample_admin (UpdateRole 2 ''class_admin'') fresh_class = Inr d \<and> 0 < active_admins d"
proof -
  obtain d where d: "handle sample_env sample_admin (UpdateRole 2 ''class_admin'') fresh_class = Inr d"
    by (rule exE [OF promoted]) (simp add: handle_def)
  have "0 < active_admins d"
    by (rule admin_remains [OF fresh_new(3) _ _ _ _ _ _ d, of "sample_user 1 ''class_admin''"])
      (simp_all add: find_user_def fresh_class_def sample_class_def sample_user_def sample_admin_def sample_actor_def)
  with d show ?thesis by blast
qed



text \<open>
  C15. A request is served only to a token that still says what the account is, at a desk the
  router offers it at, and while the class is not locked down unless it is exempt.  The
  administrator's desk needs an administrator, the reviewers' desk a reviewer, the deputy's the
  deputy in office.  In a class that governs itself none of these three desks serves anyone:
  everybody acts there as a plain student, and the council's desk asks for membership.
\<close>

theorem served_with_authority:
  assumes "serve e a desk r d = Inr d'"
  shows "\<exists>u c. find_user d (ac_user a) = Some u \<and> us_status u = ''active'' \<and> us_role u = ac_role a
    \<and> us_version u = ac_version a \<and> \<not> db_archived d \<and> desk \<in> set (desks r)
    \<and> (class_locked e d \<longrightarrow> lockdown_exempt d r)
    \<and> (desk = AdminDesk \<longrightarrow> us_role u = ''class_admin'')
    \<and> (desk = ReviewDesk \<longrightarrow> us_role u \<in> {''group'', ''class_admin''})
    \<and> (desk = DeputyDesk \<longrightarrow> us_role u = ''group'' \<and> us_deputy u)
    \<and> (desk = CouncilDesk \<longrightarrow> governance_mode d = ''collective''
        \<and> (\<exists>m \<in> set (db_members d). mb_user m = ac_user a \<and> mb_left m = None \<and> mb_joined m \<le> en_now e - membership_cooling))
    \<and> (governance_mode d \<notin> {''centralized'', ''enrolling''} \<longrightarrow> desk \<in> {Business, CouncilDesk}
        \<and> ac_role c = ''student'' \<and> \<not> ac_deputy c)
    \<and> ac_user c = ac_user a \<and> ac_grant c = None \<and> handle e c r d = Inr d'"
proof -
  obtain u where u: "find_user d (ac_user a) = Some u" "us_status u = ''active''" "us_role u = ac_role a"
    "us_version u = ac_version a" "\<not> db_archived d"
    using assms by (auto simp: serve_def current_actor_def split: option.splits if_splits)
  let ?b = "a\<lparr>ac_deputy := us_deputy u, ac_grant := None\<rparr>"
  have b: "current_actor d a = Some ?b" using u by (simp add: current_actor_def)
  have desk: "desk \<in> set (desks r)" and locked: "class_locked e d \<longrightarrow> lockdown_exempt d r"
    using assms b by (auto simp: serve_def split: if_splits)
  obtain c where g: "governance_guard d desk r ?b = Inr c" and gate: "desk_gate e d desk c = None" and h: "handle e c r d = Inr d'"
    using assms b desk locked by (auto simp: serve_def split: if_splits sum.splits option.splits)
  have who: "ac_user c = ac_user a" "ac_grant c = None"
    using g by (auto simp: governance_guard_def split: if_splits)
  have collective: "governance_mode d \<notin> {''centralized'', ''enrolling''} \<longrightarrow> desk \<in> {Business, CouncilDesk}
      \<and> ac_role c = ''student'' \<and> \<not> ac_deputy c"
    using g by (cases desk) (auto simp: governance_guard_def split: if_splits)
  have same: "c = ?b" if "desk \<in> {AdminDesk, ReviewDesk, DeputyDesk}"
    using g that by (auto simp: governance_guard_def split: if_splits)
  have "(desk = AdminDesk \<longrightarrow> us_role u = ''class_admin'') \<and> (desk = ReviewDesk \<longrightarrow> us_role u \<in> {''group'', ''class_admin''})
      \<and> (desk = DeputyDesk \<longrightarrow> us_role u = ''group'' \<and> us_deputy u)"
    using gate same u(3) by (cases desk) (auto simp: desk_gate_def role_level_def split: if_splits)
  moreover have "desk = CouncilDesk \<longrightarrow> governance_mode d = ''collective''
        \<and> (\<exists>m \<in> set (db_members d). mb_user m = ac_user a \<and> mb_left m = None \<and> mb_joined m \<le> en_now e - membership_cooling)"
    using gate who(1) by (auto simp: desk_gate_def list_ex_iff split: if_splits)
  ultimately show ?thesis using u desk locked who collective h by blast
qed

lemma served_with_authority_witness:
  "\<exists>d. serve sample_env sample_admin AdminDesk (UpdateRole 2 ''class_admin'') fresh_class = Inr d
    \<and> (\<exists>u. find_user fresh_class 1 = Some u \<and> us_role u = ''class_admin'')"
proof -
  obtain d where d: "handle sample_env sample_admin (UpdateRole 2 ''class_admin'') fresh_class = Inr d"
    by (rule exE [OF promoted]) (simp add: handle_def)
  have a: "current_actor fresh_class sample_admin = Some sample_admin"
    by (simp add: current_actor_def find_user_def fresh_class_def sample_class_def sample_user_def
      sample_admin_def sample_actor_def)
  have g: "governance_guard fresh_class AdminDesk r sample_admin = Inr sample_admin" for r
    by (simp add: governance_guard_def governance_mode_def fresh_class_def sample_class_def)
  have l: "\<not> class_locked sample_env fresh_class"
    by (simp add: class_locked_def timeline_lockdown_def fresh_class_def sample_class_def)
  have s: "serve sample_env sample_admin AdminDesk (UpdateRole 2 ''class_admin'') fresh_class = Inr d"
    using a g l d by (simp add: serve_def desks_def desk_gate_def role_level_def sample_admin_def sample_actor_def)
  have "ac_user sample_admin = 1" by (simp add: sample_admin_def sample_actor_def)
  then show ?thesis using s served_with_authority [OF s] by (auto simp: sample_admin_def sample_actor_def)
qed





end
