(* ===== verification/Base64.thy ===== *)
theory Base64
  imports Prelude "HOL-Library.Char_ord"
begin

text \<open>
  Go's \<open>encoding/base64\<close> without padding, as the session tokens and the stored passwords use it:
  bytes to digits and back, and that decoding inverts encoding.
\<close>

section \<open>Base64 without padding (encoding/base64)\<close>

datatype b64_encoding = RawURLEncoding | RawStdEncoding

definition b64_alphabet :: "b64_encoding \<Rightarrow> string" where
  "b64_alphabet k = ''ABCDEFGHIJKLMNOPQRSTUVWXYZabcdefghijklmnopqrstuvwxyz0123456789''
     @ (case k of RawURLEncoding \<Rightarrow> ''-_'' | RawStdEncoding \<Rightarrow> ''+/'')"

definition b64_digit :: "b64_encoding \<Rightarrow> nat \<Rightarrow> char" where
  "b64_digit k i = b64_alphabet k ! (i mod 64)"

primrec index_of :: "char \<Rightarrow> string \<Rightarrow> nat option" where
  "index_of c [] = None"
| "index_of c (x # xs) = (if c = x then Some 0 else map_option Suc (index_of c xs))"

fun b64_values :: "nat list \<Rightarrow> nat list" where
  "b64_values (a # b # c # r) = [a div 4, a mod 4 * 16 + b div 16, b mod 16 * 4 + c div 64, c mod 64] @ b64_values r"
| "b64_values [a, b] = [a div 4, a mod 4 * 16 + b div 16, b mod 16 * 4]"
| "b64_values [a] = [a div 4, a mod 4 * 16]"
| "b64_values [] = []"

fun b64_bytes :: "nat list \<Rightarrow> nat list option" where
  \<comment> \<open>digits to bytes; bits left over at the end are dropped, as the decoder that is not strict does\<close>
  "b64_bytes (w # x # y # z # r) = map_option
     (\<lambda>bs. [w * 4 + x div 16, x mod 16 * 16 + y div 4, y mod 4 * 64 + z] @ bs) (b64_bytes r)"
| "b64_bytes [w, x, y] = Some [w * 4 + x div 16, x mod 16 * 16 + y div 4]"
| "b64_bytes [w, x] = Some [w * 4 + x div 16]"
| "b64_bytes [w] = None"
| "b64_bytes [] = Some []"

definition b64_encode :: "b64_encoding \<Rightarrow> string \<Rightarrow> string" where
  "b64_encode k s = map (b64_digit k) (b64_values (map of_char s))"

definition b64_decode :: "b64_encoding \<Rightarrow> string \<Rightarrow> string option" where
  \<comment> \<open>line breaks are skipped\<close>
  "b64_decode k s = (case those (map (\<lambda>c. index_of c (b64_alphabet k)) (filter (\<lambda>c. c \<noteq> CHR 0x0A \<and> c \<noteq> CHR 0x0D) s)) of
     None \<Rightarrow> None
   | Some ds \<Rightarrow> map_option (map char_of) (b64_bytes ds))"

lemma b64_digit_index: "i < 64 \<Longrightarrow> index_of (b64_digit k i) (b64_alphabet k) = Some i"
proof -
  have "\<forall>k \<in> set [RawURLEncoding, RawStdEncoding]. \<forall>i \<in> set [0..<64].
      index_of (b64_digit k i) (b64_alphabet k) = Some i" by code_simp
  then show "i < 64 \<Longrightarrow> ?thesis" by (cases k) simp_all
qed

lemma b64_digit_plain: "i < 64 \<Longrightarrow> b64_digit k i \<notin> set [CHR 0x0A, CHR 0x0D, CHR ''.'', CHR ''$'']"
proof -
  have "\<forall>k \<in> set [RawURLEncoding, RawStdEncoding]. \<forall>i \<in> set [0..<64].
      b64_digit k i \<notin> set [CHR 0x0A, CHR 0x0D, CHR ''.'', CHR ''$'']" by code_simp
  then show "i < 64 \<Longrightarrow> ?thesis" by (cases k) simp_all
qed

lemma b64_values_below: "\<forall>b \<in> set bs. b < 256 \<Longrightarrow> v \<in> set (b64_values bs) \<Longrightarrow> v < 64"
  by (induction bs rule: b64_values.induct) auto

lemma b64_bytes_values: "\<forall>b \<in> set bs. b < 256 \<Longrightarrow> b64_bytes (b64_values bs) = Some bs"
  by (induction bs rule: b64_values.induct) (auto simp: algebra_simps)

lemma those_map: "(\<And>x. x \<in> set xs \<Longrightarrow> f x = Some (g x)) \<Longrightarrow> those (map f xs) = Some (map g xs)"
  by (induction xs) simp_all

lemma b64_plain: "c \<in> set (b64_encode k s) \<Longrightarrow> c \<notin> set [CHR 0x0A, CHR 0x0D, CHR ''.'', CHR ''$'']"
proof -
  assume "c \<in> set (b64_encode k s)"
  then obtain v where "v \<in> set (b64_values (map of_char s))" "c = b64_digit k v" by (auto simp: b64_encode_def)
  moreover from this have "v < 64" using b64_values_below [of "map of_char s" v] by simp
  ultimately show ?thesis using b64_digit_plain by blast
qed

lemma b64_no_dot: "CHR ''.'' \<notin> set (b64_encode k s)"
  and b64_no_dollar: "CHR ''$'' \<notin> set (b64_encode k s)"
  using b64_plain [of "CHR ''.''" k s] b64_plain [of "CHR ''$''" k s] by auto

lemma b64_round_trip: "b64_decode k (b64_encode k s) = Some s"
proof -
  let ?vs = "b64_values (map of_char s)"
  have bytes: "\<forall>b \<in> set (map of_char s). (b :: nat) < 256" by simp
  have "filter (\<lambda>c. c \<noteq> CHR 0x0A \<and> c \<noteq> CHR 0x0D) (b64_encode k s) = b64_encode k s"
    using b64_plain [of _ k s] by (intro filter_True) auto
  moreover have "those (map (\<lambda>c. index_of c (b64_alphabet k)) (map (b64_digit k) ?vs)) = Some ?vs"
    using those_map [of ?vs "\<lambda>v. index_of (b64_digit k v) (b64_alphabet k)" id] b64_values_below [OF bytes] b64_digit_index
    by (simp add: comp_def)
  ultimately show ?thesis
    by (simp add: b64_decode_def b64_bytes_values [OF bytes] comp_def) (simp add: b64_encode_def b64_bytes_values [OF bytes] comp_def)
qed

lemma b64_length: "length s \<le> length (b64_encode k s)" "length (b64_encode k s) \<le> 2 * length s"
proof -
  have "length bs \<le> length (b64_values bs) \<and> length (b64_values bs) \<le> 2 * length bs" for bs
    by (induction bs rule: b64_values.induct) auto
  from this [of "map of_char s"] show "length s \<le> length (b64_encode k s)" "length (b64_encode k s) \<le> 2 * length s"
    by (simp_all add: b64_encode_def)
qed

end
