(* ===== verification/Sessions.thy ===== *)
theory Sessions
  imports Base64
begin

text \<open>
  Login sessions (\<open>auth/session.go\<close>): the refresh tokens, their rotation and their revocation.
  A session is a family of tokens of which only the newest is accepted.  The keys of Redis are
  maps from the variable part of a key to a value and the instant at which it expires; a Lua
  script or a transaction pipeline is one step.  Times are milliseconds.  The hash and the
  authentication code are parameters.
\<close>

section \<open>Tokens\<close>

record identity =
  id_user :: int
  id_class :: int
  id_sid :: string
  id_name :: string
  id_role :: string
  id_deputy :: bool
  id_version :: int

record refresh_session =
  rf_identity :: identity
  rf_session :: string
  rf_created :: int

record session_config =
  sf_ttl :: int                          \<comment> \<open>milliseconds\<close>
  sf_sha256 :: "string \<Rightarrow> string"       \<comment> \<open>the digest in hexadecimal\<close>
  sf_hmac :: "string \<Rightarrow> string"         \<comment> \<open>HMAC-SHA256 under the deployment's secret\<close>

definition cut_at :: "char \<Rightarrow> string \<Rightarrow> (string \<times> string) option" where
  \<comment> \<open>\<open>strings.Cut\<close>\<close>
  "cut_at c s = (if c \<in> set s then Some (takeWhile (\<lambda>x. x \<noteq> c) s, tl (dropWhile (\<lambda>x. x \<noteq> c) s)) else None)"

definition hex_digit :: "char \<Rightarrow> bool" where
  "hex_digit c \<longleftrightarrow> c \<in> set ''0123456789abcdefABCDEF''"

definition refresh_session_id :: "string \<Rightarrow> string option" where
  "refresh_session_id token = (case cut_at (CHR ''.'') token of
     None \<Rightarrow> None
   | Some (sid, secret) \<Rightarrow>
       if length sid = 32 \<and> 32 \<le> length secret \<and> list_all hex_digit sid then Some sid else None)"

definition token_hash :: "session_config \<Rightarrow> string \<Rightarrow> string" where
  "token_hash c token = sf_sha256 c token"

definition refresh_proof :: "session_config \<Rightarrow> string \<Rightarrow> string" where
  "refresh_proof c token = sf_hmac c (''easygpa-refresh-v1'' @ [CHR 0x00] @ token)"

definition new_refresh_token :: "session_config \<Rightarrow> string \<Rightarrow> string \<Rightarrow> string" where
  \<comment> \<open>from the session's id and 32 random bytes\<close>
  "new_refresh_token c sid raw = (let token = sid @ ''.'' @ b64_encode RawURLEncoding raw in
     token @ ''.'' @ b64_encode RawURLEncoding (refresh_proof c token))"

definition valid_refresh_proof :: "session_config \<Rightarrow> string \<Rightarrow> bool" where
  "valid_refresh_proof c token = (case cut_at (CHR ''.'') (rev token) of
     None \<Rightarrow> False
   | Some (r, body) \<Rightarrow> b64_decode RawURLEncoding (rev r) = Some (refresh_proof c (rev body)))"

lemma cut_at_append: "c \<notin> set s \<Longrightarrow> cut_at c (s @ c # t) = Some (s, t)"
proof -
  assume "c \<notin> set s"
  then have "takeWhile (\<lambda>x. x \<noteq> c) (s @ c # t) = s" "dropWhile (\<lambda>x. x \<noteq> c) (s @ c # t) = c # t"
    by (induction s) auto
  then show ?thesis by (simp add: cut_at_def)
qed


lemma new_refresh_token_id:
  assumes "length sid = 32" and "list_all hex_digit sid" and "31 \<le> length raw"
  shows "refresh_session_id (new_refresh_token c sid raw) = Some sid"
proof -
  have "\<not> hex_digit (CHR ''.'')" by (simp add: hex_digit_def)
  then have dot: "CHR ''.'' \<notin> set sid" using assms(2) by (auto simp: list_all_iff)
  have "31 \<le> length (b64_encode RawURLEncoding raw)"
    using b64_length(1) [of raw RawURLEncoding] assms(3) by simp
  then show ?thesis
    using assms(1,2) cut_at_append [OF dot] by (simp add: refresh_session_id_def new_refresh_token_def Let_def)
qed

section \<open>The keys of a session\<close>

type_synonym 'v cell = "'v \<times> int"  \<comment> \<open>a value and the instant it expires\<close>

definition cell_get :: "int \<Rightarrow> ('k \<Rightarrow> 'v cell option) \<Rightarrow> 'k \<Rightarrow> 'v option" where
  "cell_get now m k = (case m k of None \<Rightarrow> None | Some (v, t) \<Rightarrow> if now < t then Some v else None)"

record session_keys =
  sk_refresh :: "string \<Rightarrow> refresh_session cell option"  \<comment> \<open>\<open>auth:refresh:<hash>\<close>\<close>
  sk_family :: "string \<Rightarrow> string cell option"            \<comment> \<open>\<open>auth:family:<session>\<close>\<close>
  sk_index :: "int \<Rightarrow> string list cell option"          \<comment> \<open>\<open>auth:user:<id>:sessions\<close>\<close>

definition no_sessions :: session_keys where
  "no_sessions = \<lparr>sk_refresh = Map.empty, sk_family = Map.empty, sk_index = Map.empty\<rparr>"

definition del_refresh :: "string option \<Rightarrow> session_keys \<Rightarrow> session_keys" where
  "del_refresh h k = (case h of None \<Rightarrow> k | Some h \<Rightarrow> k\<lparr>sk_refresh := (sk_refresh k)(h := None)\<rparr>)"

definition del_family :: "string \<Rightarrow> session_keys \<Rightarrow> session_keys" where
  "del_family sid k = k\<lparr>sk_family := (sk_family k)(sid := None)\<rparr>"

definition index_members :: "int \<Rightarrow> int \<Rightarrow> session_keys \<Rightarrow> string list" where
  "index_members now user k = (case cell_get now (sk_index k) user of None \<Rightarrow> [] | Some sids \<Rightarrow> sids)"

definition index_add :: "int \<Rightarrow> int \<Rightarrow> int \<Rightarrow> string \<Rightarrow> session_keys \<Rightarrow> session_keys" where
  \<comment> \<open>\<open>SADD\<close> and \<open>PEXPIRE\<close>\<close>
  "index_add now ttl user sid k =
     k\<lparr>sk_index := (sk_index k)(user \<mapsto> (List.insert sid (index_members now user k), now + ttl))\<rparr>"

definition index_remove :: "int \<Rightarrow> int \<Rightarrow> string \<Rightarrow> session_keys \<Rightarrow> session_keys" where
  \<comment> \<open>\<open>SREM\<close>: the time to live stays\<close>
  "index_remove now user sid k = (case sk_index k user of
     Some (sids, t) \<Rightarrow> if now < t then k\<lparr>sk_index := (sk_index k)(user \<mapsto> (removeAll sid sids, t))\<rparr> else k
   | None \<Rightarrow> k)"

definition create_session ::
    "session_config \<Rightarrow> int \<Rightarrow> string \<Rightarrow> string \<Rightarrow> identity \<Rightarrow> session_keys \<Rightarrow> string \<times> refresh_session \<times> session_keys" where
  "create_session c now sid raw who k =
    (let token = new_refresh_token c sid raw;
         s = \<lparr>rf_identity = who, rf_session = sid, rf_created = now\<rparr>;
         h = token_hash c token;
         k1 = k\<lparr>sk_refresh := (sk_refresh k)(h \<mapsto> (s, now + sf_ttl c))\<rparr>;
         k2 = k1\<lparr>sk_family := (sk_family k1)(sid \<mapsto> (h, now + sf_ttl c))\<rparr>
     in (token, s, index_add now (sf_ttl c) (id_user who) sid k2))"

definition rotate_script ::
    "session_config \<Rightarrow> int \<Rightarrow> string \<Rightarrow> string \<Rightarrow> string \<Rightarrow> int \<Rightarrow> bool \<Rightarrow> session_keys
      \<Rightarrow> refresh_session option \<times> session_keys" where
  "rotate_script c now sid old_hash new_hash user proven k =
    (let active = cell_get now (sk_family k) sid in
     case cell_get now (sk_refresh k) old_hash of
       None \<Rightarrow> (None, if proven then del_family sid (del_refresh active k) else k)
     | Some s \<Rightarrow>
         if active \<noteq> Some old_hash
         then (None, del_family sid (del_refresh (Some old_hash) (del_refresh active k)))
         else (let k1 = del_refresh (Some old_hash) k;
                   k2 = k1\<lparr>sk_refresh := (sk_refresh k1)(new_hash \<mapsto> (s, now + sf_ttl c))\<rparr>;
                   k3 = k2\<lparr>sk_family := (sk_family k2)(sid \<mapsto> (new_hash, now + sf_ttl c))\<rparr>
               in (Some s, index_add now (sf_ttl c) user sid k3)))"

datatype session_error = InvalidRefresh

definition rotate_session ::
    "session_config \<Rightarrow> int \<Rightarrow> string \<Rightarrow> string \<Rightarrow> session_keys
      \<Rightarrow> (session_error, string \<times> refresh_session) result \<times> session_keys" where
  \<comment> \<open>\<open>Rotate\<close>: the identity of the index is read from the key the script reads again\<close>
  "rotate_session c now raw old k = (case refresh_session_id old of
     None \<Rightarrow> (Inl InvalidRefresh, k)
   | Some sid \<Rightarrow>
      (let new = new_refresh_token c sid raw;
           user = (case cell_get now (sk_refresh k) (token_hash c old) of
                     None \<Rightarrow> 0 | Some s \<Rightarrow> id_user (rf_identity s)) in
       (case rotate_script c now sid (token_hash c old) (token_hash c new) user (valid_refresh_proof c old) k of
          (None, k') \<Rightarrow> (Inl InvalidRefresh, k')
        | (Some s, k') \<Rightarrow> (Inr (new, s), k'))))"

definition revoke_session :: "session_config \<Rightarrow> int \<Rightarrow> string \<Rightarrow> session_keys \<Rightarrow> session_keys" where
  "revoke_session c now token k = (case refresh_session_id token of
     None \<Rightarrow> k
   | Some sid \<Rightarrow>
      (let h = token_hash c token;
           payload = cell_get now (sk_refresh k) h;
           active = cell_get now (sk_family k) sid in
       if payload = None \<and> \<not> valid_refresh_proof c token then k
       else (let current = (case active of None \<Rightarrow> None | Some a \<Rightarrow> cell_get now (sk_refresh k) a);
                 final = (case current of None \<Rightarrow> payload | Some s \<Rightarrow> Some s);
                 k1 = del_family sid (del_refresh (Some h) (del_refresh active k))
             in (case final of None \<Rightarrow> k1
                 | Some s \<Rightarrow> index_remove now (id_user (rf_identity s)) sid k1))))"

definition end_session :: "int \<Rightarrow> int \<Rightarrow> string \<Rightarrow> session_keys \<Rightarrow> session_keys" where
  \<comment> \<open>a round of the loop of \<open>RevokeUser\<close>\<close>
  "end_session now user sid k =
     index_remove now user sid (del_family sid (del_refresh (cell_get now (sk_family k) sid) k))"

definition revoke_user :: "int \<Rightarrow> int \<Rightarrow> string \<Rightarrow> session_keys \<Rightarrow> session_keys" where
  "revoke_user now user except k =
     foldl (\<lambda>k sid. if sid = except then k else end_session now user sid k) k (index_members now user k)"

section \<open>Histories of sessions\<close>

record session_world =
  sw_now :: int
  sw_keys :: session_keys
  sw_issued :: "string list"   \<comment> \<open>the hashes of all tokens made so far\<close>

inductive session_step :: "session_config \<Rightarrow> session_world \<Rightarrow> session_world \<Rightarrow> bool" for c where
  \<comment> \<open>a new token has 256 random bits: its hash is none of those issued before\<close>
  wait: "sw_now w \<le> t \<Longrightarrow> session_step c w (w\<lparr>sw_now := t\<rparr>)"
| login: "create_session c (sw_now w) sid raw who (sw_keys w) = (token, s, k) \<Longrightarrow> token_hash c token \<notin> set (sw_issued w)
    \<Longrightarrow> session_step c w (w\<lparr>sw_keys := k, sw_issued := token_hash c token # sw_issued w\<rparr>)"
| rotate: "rotate_session c (sw_now w) raw old (sw_keys w) = (Inr (token, s), k) \<Longrightarrow> token_hash c token \<notin> set (sw_issued w)
    \<Longrightarrow> session_step c w (w\<lparr>sw_keys := k, sw_issued := token_hash c token # sw_issued w\<rparr>)"
| refused: "rotate_session c (sw_now w) raw old (sw_keys w) = (Inl err, k) \<Longrightarrow> session_step c w (w\<lparr>sw_keys := k\<rparr>)"
| logout: "session_step c w (w\<lparr>sw_keys := revoke_session c (sw_now w) token (sw_keys w)\<rparr>)"
| revoke: "session_step c w (w\<lparr>sw_keys := revoke_user (sw_now w) user except (sw_keys w)\<rparr>)"

inductive session_history :: "session_config \<Rightarrow> session_world \<Rightarrow> session_world \<Rightarrow> bool" for c where
  start: "session_history c w w"
| more: "session_history c w w1 \<Longrightarrow> session_step c w1 w2 \<Longrightarrow> session_history c w w2"

definition shrunk :: "session_keys \<Rightarrow> session_keys \<Rightarrow> bool" where
  \<comment> \<open>keys were only deleted, and the index lost only sessions that have no family any more\<close>
  "shrunk k k' \<longleftrightarrow> sk_refresh k' \<subseteq>\<^sub>m sk_refresh k \<and> sk_family k' \<subseteq>\<^sub>m sk_family k
     \<and> (\<forall>u sids t. sk_index k u = Some (sids, t) \<longrightarrow> (\<exists>sids'. sk_index k' u = Some (sids', t)
          \<and> (\<forall>x \<in> set sids. sk_family k' x \<noteq> None \<longrightarrow> x \<in> set sids')))"

lemma shrunk_refl: "shrunk k k"
  by (auto simp: shrunk_def)

lemma shrunk_index:
  assumes "shrunk k k'" and "sk_index k u = Some (sids, t)"
  obtains sids' where "sk_index k' u = Some (sids', t)"
    "\<And>x. x \<in> set sids \<Longrightarrow> sk_family k' x \<noteq> None \<Longrightarrow> x \<in> set sids'"
  using assms unfolding shrunk_def by meson

lemma shrunk_trans:
  assumes a: "shrunk k k1" and b: "shrunk k1 k2"
  shows "shrunk k k2"
proof -
  have r: "sk_refresh k2 \<subseteq>\<^sub>m sk_refresh k" and f: "sk_family k2 \<subseteq>\<^sub>m sk_family k"
    using a b unfolding shrunk_def by (metis map_le_trans)+
  have "\<exists>sids'. sk_index k2 u = Some (sids', t) \<and> (\<forall>x \<in> set sids. sk_family k2 x \<noteq> None \<longrightarrow> x \<in> set sids')"
    if i: "sk_index k u = Some (sids, t)" for u sids t
  proof -
    obtain s1 where s1: "sk_index k1 u = Some (s1, t)"
      "\<And>x. x \<in> set sids \<Longrightarrow> sk_family k1 x \<noteq> None \<Longrightarrow> x \<in> set s1"
      by (rule shrunk_index [OF a i], blast)
    obtain s2 where s2: "sk_index k2 u = Some (s2, t)"
      "\<And>x. x \<in> set s1 \<Longrightarrow> sk_family k2 x \<noteq> None \<Longrightarrow> x \<in> set s2"
      by (rule shrunk_index [OF b s1(1)], blast)
    have "sk_family k1 x \<noteq> None" if "sk_family k2 x \<noteq> None" for x
      using b that by (auto simp: shrunk_def map_le_def dom_def)
    then show ?thesis using s1(2) s2 by blast
  qed
  then show ?thesis using r f by (simp add: shrunk_def)
qed

lemma shrunk_steps:
  "shrunk k (del_refresh h k)" "shrunk k (del_family sid k)"
  "sk_family k sid = None \<Longrightarrow> shrunk k (index_remove now u sid k)"
  by (auto simp: shrunk_def del_refresh_def del_family_def index_remove_def map_le_def split: option.split)

lemma del_family_gone [simp]:
  "sk_family (del_family sid k) sid = None" "sk_family (del_refresh h k) = sk_family k"
  "sk_family (index_remove now u sid k) = sk_family k" "sk_refresh (index_remove now u sid k) = sk_refresh k"
  "sk_refresh (del_family sid k) = sk_refresh k" "sk_index (del_refresh h k) = sk_index k"
  "sk_index (del_family sid k) = sk_index k"
  by (auto simp: del_family_def del_refresh_def index_remove_def split: option.split)

lemma end_session_shrunk: "shrunk k (end_session now u sid k)"
  unfolding end_session_def by (rule shrunk_trans [OF shrunk_trans [OF shrunk_steps(1) shrunk_steps(2)] shrunk_steps(3)]) simp

lemma revoke_user_shrunk: "shrunk k (revoke_user now u ex k)"
proof -
  have "shrunk k (foldl (\<lambda>k sid. if sid = ex then k else end_session now u sid k) k sids)" for sids
    by (induction sids arbitrary: k) (auto intro: shrunk_trans end_session_shrunk shrunk_refl)
  then show ?thesis by (simp add: revoke_user_def)
qed

lemma revoke_session_shrunk: "shrunk k (revoke_session c now token k)"
proof -
  have "shrunk k (del_family sid (del_refresh h (del_refresh a k)))" for sid h a
    by (rule shrunk_trans [OF shrunk_trans [OF shrunk_steps(1) shrunk_steps(1)] shrunk_steps(2)])
  then show ?thesis
    by (auto simp: revoke_session_def Let_def shrunk_refl split: option.split
      intro: shrunk_trans [OF _ shrunk_steps(3)])
qed

lemma rotate_refused_shrunk: "rotate_session c now raw old k = (Inl err, k') \<Longrightarrow> shrunk k k'"
  by (auto simp: rotate_session_def rotate_script_def Let_def shrunk_refl split: option.splits prod.splits if_splits
    intro!: shrunk_trans [OF _ shrunk_steps(2)] shrunk_trans [OF _ shrunk_steps(1)])

lemma rotate_session_D:
  assumes "rotate_session c now raw old k = (Inr (new, s), k')"
  obtains sid where "refresh_session_id old = Some sid" "new = new_refresh_token c sid raw"
    "cell_get now (sk_family k) sid = Some (token_hash c old)" "cell_get now (sk_refresh k) (token_hash c old) = Some s"
    "sk_refresh k' = (sk_refresh k)(token_hash c old := None, token_hash c new \<mapsto> (s, now + sf_ttl c))"
    "sk_family k' = (sk_family k)(sid \<mapsto> (token_hash c new, now + sf_ttl c))"
    "sk_index k' = (sk_index k)(id_user (rf_identity s) \<mapsto>
       (List.insert sid (index_members now (id_user (rf_identity s)) k), now + sf_ttl c))"
  using assms
  by (auto simp: rotate_session_def rotate_script_def Let_def index_add_def index_members_def del_refresh_def
    split: option.splits if_splits prod.splits)

text \<open>What holds of the keys in every history.\<close>

definition sessions_ok :: "session_config \<Rightarrow> session_world \<Rightarrow> bool" where
  "sessions_ok c w \<longleftrightarrow>
     (\<forall>sid h t. sk_family (sw_keys w) sid = Some (h, t) \<longrightarrow> h \<in> set (sw_issued w) \<and> t \<le> sw_now w + sf_ttl c)
   \<and> (\<forall>sid h t s. sk_family (sw_keys w) sid = Some (h, t) \<longrightarrow> sw_now w < t
        \<longrightarrow> cell_get (sw_now w) (sk_refresh (sw_keys w)) h = Some s
        \<longrightarrow> (\<exists>sids td. sk_index (sw_keys w) (id_user (rf_identity s)) = Some (sids, td) \<and> sid \<in> set sids \<and> t \<le> td))"

lemma sessions_okD:
  assumes "sessions_ok c w"
  shows "sk_family (sw_keys w) sid = Some (h, t) \<Longrightarrow> h \<in> set (sw_issued w) \<and> t \<le> sw_now w + sf_ttl c"
    and "sk_family (sw_keys w) sid = Some (h, t) \<Longrightarrow> sw_now w < t
      \<Longrightarrow> cell_get (sw_now w) (sk_refresh (sw_keys w)) h = Some s
      \<Longrightarrow> \<exists>sids td. sk_index (sw_keys w) (id_user (rf_identity s)) = Some (sids, td) \<and> sid \<in> set sids \<and> t \<le> td"
  using assms by (auto simp: sessions_ok_def)

lemma cell_get_le: "m' \<subseteq>\<^sub>m m \<Longrightarrow> cell_get now m' x = Some v \<Longrightarrow> cell_get now m x = Some v"
  by (auto simp: cell_get_def map_le_def dom_def split: option.splits if_splits)

lemma map_leD: "m' \<subseteq>\<^sub>m m \<Longrightarrow> m' x = Some v \<Longrightarrow> m x = Some v"
  by (auto simp: map_le_def dom_def)

lemma shrunk_ok:
  assumes ok: "sessions_ok c w" and sh: "shrunk (sw_keys w) k"
  shows "sessions_ok c (w\<lparr>sw_keys := k\<rparr>)"
proof -
  have le: "sk_refresh k \<subseteq>\<^sub>m sk_refresh (sw_keys w)" "sk_family k \<subseteq>\<^sub>m sk_family (sw_keys w)"
    using sh by (auto simp: shrunk_def)
  have "\<exists>sids td. sk_index k (id_user (rf_identity s)) = Some (sids, td) \<and> sid \<in> set sids \<and> t \<le> td"
    if f: "sk_family k sid = Some (h, t)" and t: "sw_now w < t" and r: "cell_get (sw_now w) (sk_refresh k) h = Some s"
    for sid h t s
  proof -
    obtain sids td where i: "sk_index (sw_keys w) (id_user (rf_identity s)) = Some (sids, td)" "sid \<in> set sids" "t \<le> td"
      using sessions_okD(2) [OF ok map_leD [OF le(2) f] t cell_get_le [OF le(1) r]] by blast
    obtain sids' where "sk_index k (id_user (rf_identity s)) = Some (sids', td)"
      "\<And>x. x \<in> set sids \<Longrightarrow> sk_family k x \<noteq> None \<Longrightarrow> x \<in> set sids'" by (rule shrunk_index [OF sh i(1)], blast)
    then show ?thesis using i f by auto
  qed
  moreover have "h \<in> set (sw_issued w) \<and> t \<le> sw_now w + sf_ttl c" if "sk_family k sid = Some (h, t)" for sid h t
    by (rule sessions_okD(1) [OF ok map_leD [OF le(2) that]])
  ultimately show ?thesis by (simp add: sessions_ok_def)
qed

lemma opened_ok:
  \<comment> \<open>a new newest token of a session, at a login or a rotation\<close>
  assumes ok: "sessions_ok c w" and new: "h \<notin> set (sw_issued w)"
    and r: "sk_refresh k = m(h \<mapsto> (s, sw_now w + sf_ttl c))" "m \<subseteq>\<^sub>m sk_refresh (sw_keys w)"
    and f: "sk_family k = (sk_family (sw_keys w))(sid \<mapsto> (h, sw_now w + sf_ttl c))"
    and i: "sk_index k = (sk_index (sw_keys w))(u \<mapsto> (List.insert sid (index_members (sw_now w) u (sw_keys w)), sw_now w + sf_ttl c))"
    and u: "u = id_user (rf_identity s)"
  shows "sessions_ok c (w\<lparr>sw_keys := k, sw_issued := h # sw_issued w\<rparr>)"
proof -
  have "\<exists>sids td. sk_index k (id_user (rf_identity s2)) = Some (sids, td) \<and> sid2 \<in> set sids \<and> t \<le> td"
    if f2: "sk_family k sid2 = Some (h2, t)" and t: "sw_now w < t" and r2: "cell_get (sw_now w) (sk_refresh k) h2 = Some s2"
    for sid2 h2 t s2
  proof (cases "sid2 = sid")
    case True
    then have "h2 = h" "t = sw_now w + sf_ttl c" using f2 f by auto
    moreover from this have "s2 = s" using r2 t r by (simp add: cell_get_def)
    ultimately show ?thesis using True i u by simp
  next
    case False
    then have f0: "sk_family (sw_keys w) sid2 = Some (h2, t)" using f2 f by simp
    note b = sessions_okD(1) [OF ok f0]
    have "h2 \<noteq> h" using b new by auto
    then have "cell_get (sw_now w) m h2 = Some s2" using r2 r by (simp add: cell_get_def)
    then have r0: "cell_get (sw_now w) (sk_refresh (sw_keys w)) h2 = Some s2" using cell_get_le r(2) by metis
    obtain sids td where x: "sk_index (sw_keys w) (id_user (rf_identity s2)) = Some (sids, td)" "sid2 \<in> set sids" "t \<le> td"
      using sessions_okD(2) [OF ok f0 t r0] by blast
    then show ?thesis using i b t by (auto simp: index_members_def cell_get_def)
  qed
  moreover have "h2 \<in> set (h # sw_issued w) \<and> t \<le> sw_now w + sf_ttl c" if "sk_family k sid2 = Some (h2, t)" for sid2 h2 t
    using that f sessions_okD(1) [OF ok] by (auto split: if_splits)
  ultimately show ?thesis by (simp add: sessions_ok_def)
qed

lemma session_step_ok:
  assumes "session_step c w w'" and ok: "sessions_ok c w"
  shows "sessions_ok c w'"
  using assms(1)
proof cases
  case (wait t)
  have "cell_get (sw_now w) m h = Some s" if "cell_get t m h = Some s" for m :: "string \<Rightarrow> refresh_session cell option" and h s
    using that wait(2) by (auto simp: cell_get_def split: option.splits if_splits)
  then show ?thesis using ok wait by (fastforce simp: sessions_ok_def)
next
  case (login sid raw who token s k)
  then show ?thesis
    using opened_ok [OF ok login(3), where k = k and m = "sk_refresh (sw_keys w)" and s = s and sid = sid]
    by (auto simp: create_session_def Let_def index_add_def index_members_def)
next
  case (rotate raw old token s k)
  show ?thesis unfolding rotate(1)
  proof (rule rotate_session_D [OF rotate(2)])
    fix sid
    assume a: "sk_refresh k = (sk_refresh (sw_keys w))(token_hash c old := None, token_hash c token \<mapsto> (s, sw_now w + sf_ttl c))"
      "sk_family k = (sk_family (sw_keys w))(sid \<mapsto> (token_hash c token, sw_now w + sf_ttl c))"
      "sk_index k = (sk_index (sw_keys w))(id_user (rf_identity s) \<mapsto>
         (List.insert sid (index_members (sw_now w) (id_user (rf_identity s)) (sw_keys w)), sw_now w + sf_ttl c))"
    show "sessions_ok c (w\<lparr>sw_keys := k, sw_issued := token_hash c token # sw_issued w\<rparr>)"
      by (rule opened_ok [OF ok rotate(3) a(1) _ a(2,3) HOL.refl]) (simp add: map_le_def)
  qed
next
  case refused then show ?thesis using shrunk_ok [OF ok rotate_refused_shrunk] by blast
next
  case logout then show ?thesis using shrunk_ok [OF ok revoke_session_shrunk] by blast
next
  case revoke then show ?thesis using shrunk_ok [OF ok revoke_user_shrunk] by blast
qed

lemma session_history_ok: "session_history c w w' \<Longrightarrow> sessions_ok c w \<Longrightarrow> sessions_ok c w'"
  by (induction rule: session_history.induct) (auto intro: session_step_ok)

section \<open>Replayed tokens and revoked members\<close>






lemma ended_families:
  "sid \<in> set sids \<Longrightarrow> sid \<noteq> ex
    \<Longrightarrow> sk_family (foldl (\<lambda>k sid. if sid = ex then k else end_session now u sid k) k sids) sid = None"
proof (induction sids arbitrary: k)
  case (Cons x xs)
  let ?f = "\<lambda>k sid. if sid = ex then k else end_session now u sid k"
  have le: "sk_family (foldl ?f k xs) \<subseteq>\<^sub>m sk_family k" for k
  proof -
    have "shrunk k (foldl ?f k xs)"
      by (induction xs arbitrary: k) (auto intro: shrunk_trans end_session_shrunk shrunk_refl)
    then show ?thesis by (simp add: shrunk_def)
  qed
  have "sk_family (end_session now u sid k) sid = None" by (simp add: end_session_def)
  then have "sid = x \<Longrightarrow> sk_family (foldl ?f (?f k x) xs) sid = None"
    using map_leD [OF le [of "?f k x"], of sid] Cons.prems(2)
    by (cases "sk_family (foldl ?f (?f k x) xs) sid") auto
  then show ?case using Cons by auto
qed simp

lemma revoke_user_complete:
  assumes ok: "sessions_ok c w" and k: "k = revoke_user (sw_now w) user ex (sw_keys w)"
    and r: "rotate_session c (sw_now w) raw tok k = (Inr (new, s), k')" and u: "id_user (rf_identity s) = user"
  shows "refresh_session_id tok = Some ex"
proof (rule rotate_session_D [OF r])
  fix sid
  assume sid: "refresh_session_id tok = Some sid" and f: "cell_get (sw_now w) (sk_family k) sid = Some (token_hash c tok)"
    and rr: "cell_get (sw_now w) (sk_refresh k) (token_hash c tok) = Some s"
  have le: "sk_refresh k \<subseteq>\<^sub>m sk_refresh (sw_keys w)" "sk_family k \<subseteq>\<^sub>m sk_family (sw_keys w)"
    using revoke_user_shrunk k by (auto simp: shrunk_def)
  obtain t where t: "sk_family k sid = Some (token_hash c tok, t)" "sw_now w < t"
    using f by (auto simp: cell_get_def split: option.splits if_splits)
  obtain sids td where "sk_index (sw_keys w) user = Some (sids, td)" "sid \<in> set sids" "t \<le> td"
    using sessions_okD(2) [OF ok map_leD [OF le(2) t(1)] t(2) cell_get_le [OF le(1) rr]] u by blast
  then have "sid \<in> set (index_members (sw_now w) user (sw_keys w))"
    using t(2) by (simp add: index_members_def cell_get_def)
  then have "sid = ex" using ended_families t(1) unfolding k revoke_user_def by fastforce
  then show ?thesis using sid by simp
qed

definition fresh_sessions :: session_world where
  "fresh_sessions = \<lparr>sw_now = 0, sw_keys = no_sessions, sw_issued = []\<rparr>"

lemma fresh_sessions_ok: "sessions_ok c fresh_sessions"
  by (simp add: sessions_ok_def fresh_sessions_def no_sessions_def)

text \<open>A member logs in and rotates the token once.\<close>

definition demo_config :: session_config where
  "demo_config = \<lparr>sf_ttl = 1000, sf_sha256 = (\<lambda>s. s), sf_hmac = (\<lambda>s. [])\<rparr>"

definition demo_session :: string where "demo_session = replicate 32 (CHR ''a'')"

definition demo_token :: "char \<Rightarrow> string" where
  "demo_token x = new_refresh_token demo_config demo_session (replicate 31 x)"

definition demo_member :: identity where
  "demo_member = \<lparr>id_user = 7, id_class = 1, id_sid = ''s7'', id_name = ''n'', id_role = ''student'',
     id_deputy = False, id_version = 1\<rparr>"

definition demo_login :: session_keys where
  "demo_login = snd (snd (create_session demo_config 0 demo_session (replicate 31 (CHR ''x'')) demo_member no_sessions))"


definition demo_world :: session_world where
  "demo_world = \<lparr>sw_now = 0, sw_keys = demo_login, sw_issued = [demo_token (CHR ''x'')]\<rparr>"

lemma demo_hash: "token_hash demo_config t = t"
  by (simp add: token_hash_def demo_config_def)

lemma demo_history: "session_history demo_config fresh_sessions demo_world"
proof -
  let ?c = "create_session demo_config 0 demo_session (replicate 31 (CHR ''x'')) demo_member no_sessions"
  have "fst ?c = demo_token (CHR ''x'')" by (simp add: create_session_def demo_token_def Let_def)
  then have eq: "?c = (demo_token (CHR ''x''), fst (snd ?c), demo_login)"
    unfolding demo_login_def by (metis prod.collapse)
  have "session_step demo_config fresh_sessions demo_world"
    using session_step.login [of demo_config fresh_sessions, unfolded fresh_sessions_def, simplified, OF eq]
    by (simp add: fresh_sessions_def demo_world_def demo_hash)
  then show ?thesis by (rule session_history.more [OF session_history.start])
qed

lemma demo_token_id: "refresh_session_id (demo_token x) = Some demo_session"
  unfolding demo_token_def
  by (rule new_refresh_token_id) (simp_all add: demo_session_def list_all_iff, simp add: hex_digit_def)




text \<open>
  C21. Revoking the sessions of a member, as a new password does, is complete in every history: a
  refresh token that is accepted afterwards belongs to another member or to the one
  session that was excepted.
\<close>

theorem revoked_member_sessions:
  assumes "session_history c fresh_sessions w"
    and "rotate_session c (sw_now w) raw tok (revoke_user (sw_now w) user except (sw_keys w)) = (Inr (new, s), k)"
  shows "id_user (rf_identity s) \<noteq> user \<or> refresh_session_id tok = Some except"
  using revoke_user_complete [OF session_history_ok [OF assms(1) fresh_sessions_ok] HOL.refl assms(2)] by blast

lemma revoked_member_sessions_witness:
  "map_sum id fst (fst (rotate_session demo_config 0 ''z'' (demo_token (CHR ''x''))
      (revoke_user 0 8 [] demo_login))) = Inr (new_refresh_token demo_config demo_session ''z'')
   \<and> id_user demo_member \<noteq> 8"
proof -
  let ?r = "rotate_session demo_config 0 ''z'' (demo_token (CHR ''x'')) (revoke_user 0 8 [] demo_login)"
  have r: "map_sum id (\<lambda>(t, s). (t, id_user (rf_identity s))) (fst ?r) = Inr (new_refresh_token demo_config demo_session ''z'', 7)"
    by code_simp
  then obtain s where s: "fst ?r = Inr (new_refresh_token demo_config demo_session ''z'', s)" "id_user (rf_identity s) = 7"
    by (cases "fst ?r") auto
  have "id_user (rf_identity s) \<noteq> 8"
    using revoked_member_sessions [OF demo_history, of "''z''" "demo_token (CHR ''x'')" 8 "[]" _ s "snd ?r"] s(1)
    by (simp add: demo_world_def demo_session_def demo_token_id prod_eq_iff)
  then show ?thesis using s by (simp add: demo_member_def)
qed

end
