(* ===== verification/Passwords.thy ===== *)
theory Passwords
  imports Base64 Governance
begin

text \<open>
  Stored passwords (\<open>auth/password.go\<close>): the salted Argon2id digest with its parameters in one
  string, and its verification.  Argon2 and \<open>fmt.Sscanf\<close> are parameters.
\<close>

record password_params =
  pw_memory :: nat
  pw_iterations :: nat
  pw_parallelism :: nat

definition default_password_params :: password_params where
  "default_password_params = \<lparr>pw_memory = 65536, pw_iterations = 3, pw_parallelism = 2\<rparr>"

record password_env =
  pv_argon :: "string \<Rightarrow> string \<Rightarrow> password_params \<Rightarrow> nat \<Rightarrow> string"
    \<comment> \<open>password, salt, parameters and key length to the digest\<close>
  pv_scan_version :: "string \<Rightarrow> int option"              \<comment> \<open>\<open>Sscanf(s, "v=%d")\<close>\<close>
  pv_scan_params :: "string \<Rightarrow> password_params option"   \<comment> \<open>\<open>Sscanf(s, "m=%d,t=%d,p=%d")\<close>\<close>

definition valid_password :: "string \<Rightarrow> bool" where
  "valid_password p \<longleftrightarrow> 8 \<le> length p \<and> length p \<le> 128"

definition argon2_version :: int where "argon2_version = 19"

definition version_text :: "int \<Rightarrow> string" where
  "version_text n = ''v='' @ dec_int n"

definition params_text :: "password_params \<Rightarrow> string" where
  "params_text q = ''m='' @ dec_int (int (pw_memory q)) @ '',t='' @ dec_int (int (pw_iterations q))
     @ '',p='' @ dec_int (int (pw_parallelism q))"

definition hash_password :: "password_env \<Rightarrow> string \<Rightarrow> string \<Rightarrow> string option" where
  \<comment> \<open>\<open>HashPassword\<close> with the 16 random bytes drawn as salt\<close>
  "hash_password v salt p =
    (if \<not> valid_password p then None
     else (let q = default_password_params in
       Some (''$argon2id$'' @ version_text argon2_version @ ''$'' @ params_text q @ ''$''
         @ b64_encode RawStdEncoding salt @ ''$'' @ b64_encode RawStdEncoding (pv_argon v p salt q 32))))"

fun split_at :: "char \<Rightarrow> string \<Rightarrow> string list" where
  \<comment> \<open>\<open>strings.Split\<close>\<close>
  "split_at c [] = [[]]"
| "split_at c (x # xs) = (if x = c then [] # split_at c xs else (case split_at c xs of
     [] \<Rightarrow> [[x]] | p # ps \<Rightarrow> (x # p) # ps))"

definition params_in_limits :: "password_params \<Rightarrow> bool" where
  "params_in_limits q \<longleftrightarrow> 0 < pw_memory q \<and> pw_memory q \<le> 256 * 1024 \<and> 0 < pw_iterations q \<and> pw_iterations q \<le> 10
     \<and> 0 < pw_parallelism q \<and> pw_parallelism q \<le> 8"

definition verify_password :: "password_env \<Rightarrow> string \<Rightarrow> string \<Rightarrow> bool option" where
  \<comment> \<open>\<open>None\<close> is an error\<close>
  "verify_password v p encoded =
    (if 512 < length encoded then None
     else (case split_at (CHR ''$'') encoded of
         [_, kind, version, params, salt, digest] \<Rightarrow>
           if kind \<noteq> ''argon2id'' \<or> pv_scan_version v version \<noteq> Some argon2_version then None
           else (case pv_scan_params v params of
               None \<Rightarrow> None
             | Some q \<Rightarrow>
                 if \<not> params_in_limits q then None
                 else (case (b64_decode RawStdEncoding salt, b64_decode RawStdEncoding digest) of
                     (Some s, Some want) \<Rightarrow>
                       if s = [] \<or> 64 < length s \<or> want = [] \<or> 64 < length want then None
                       else Some (pv_argon v p s q (length want) = want)
                   | _ \<Rightarrow> None))
       | _ \<Rightarrow> None))"

lemma split_at_cons: "c \<notin> set s \<Longrightarrow> split_at c (s @ c # t) = s # split_at c t"
  by (induction s) auto

lemma split_at_end: "c \<notin> set s \<Longrightarrow> split_at c s = [s]"
  by (induction s) auto

lemma written_texts:
  "version_text argon2_version = ''v=19''" "params_text default_password_params = ''m=65536,t=3,p=2''"
proof -
  have "map digit [0, 1, 2, 3, 4, 5, 6, 7, 8, 9] = ''0123456789''" by code_simp
  then have "digit 1 = CHR ''1''" "digit 9 = CHR ''9''" "digit 6 = CHR ''6''" "digit 5 = CHR ''5''"
    "digit 3 = CHR ''3''" "digit 2 = CHR ''2''" by simp_all
  then show "version_text argon2_version = ''v=19''" "params_text default_password_params = ''m=65536,t=3,p=2''"
    by (simp_all add: version_text_def argon2_version_def params_text_def default_password_params_def dec_int_def dec_nat.simps)
qed

lemma split_stored:
  assumes "CHR ''$'' \<notin> set a" and "CHR ''$'' \<notin> set b"
  shows "split_at (CHR ''$'') (''$argon2id$'' @ ''v=19'' @ ''$'' @ ''m=65536,t=3,p=2'' @ ''$'' @ a @ ''$'' @ b)
    = [[], ''argon2id'', ''v=19'', ''m=65536,t=3,p=2'', a, b]"
  using split_at_cons [OF assms(1), of b] split_at_end [OF assms(2)] by simp

lemma hash_verifies:
  assumes v: "pv_scan_version v (version_text argon2_version) = Some argon2_version"
    and q: "pv_scan_params v (params_text default_password_params) = Some default_password_params"
    and salt: "length salt = 16" and len: "length (pv_argon v p salt default_password_params 32) = 32"
    and h: "hash_password v salt p = Some h"
  shows "verify_password v p' h
    = Some (pv_argon v p' salt default_password_params 32 = pv_argon v p salt default_password_params 32)"
proof -
  let ?d = "pv_argon v p salt default_password_params 32"
  have eq: "h = ''$argon2id$'' @ ''v=19'' @ ''$'' @ ''m=65536,t=3,p=2'' @ ''$''
      @ b64_encode RawStdEncoding salt @ ''$'' @ b64_encode RawStdEncoding ?d"
    using h by (simp add: hash_password_def Let_def written_texts split: if_splits)
  have "length h \<le> 512"
    using b64_length(2) [of RawStdEncoding salt] b64_length(2) [of RawStdEncoding ?d] salt len by (simp add: eq)
  moreover have "split_at (CHR ''$'') h
      = [[], ''argon2id'', ''v=19'', ''m=65536,t=3,p=2'', b64_encode RawStdEncoding salt, b64_encode RawStdEncoding ?d]"
    unfolding eq by (rule split_stored) (rule b64_no_dollar)+
  moreover have "params_in_limits default_password_params"
    by (simp add: params_in_limits_def default_password_params_def)
  moreover have "salt \<noteq> []" "?d \<noteq> []" using salt len by (auto simp del: length_greater_0_conv)
  ultimately show ?thesis
    using v q salt len unfolding verify_password_def written_texts by (simp add: b64_round_trip del: split_at.simps)
qed

text \<open>
  A stored password verifies a password precisely when Argon2 gives the same digest for
  it, so always the password it was made from, and whatever has 8 to 128 bytes can be stored.
  \<open>Sscanf\<close> is assumed to read back the two texts that were written, and digests to have the
  length asked for.
\<close>

lemma password_round_trip:
  assumes "pv_scan_version v (version_text argon2_version) = Some argon2_version"
    and "pv_scan_params v (params_text default_password_params) = Some default_password_params"
    and "length salt = 16" and "length (pv_argon v p salt default_password_params 32) = 32" and "valid_password p"
  shows "\<exists>h. hash_password v salt p = Some h \<and> verify_password v p h = Some True
    \<and> (\<forall>p'. verify_password v p' h
          = Some (pv_argon v p' salt default_password_params 32 = pv_argon v p salt default_password_params 32))"
proof -
  obtain h where h: "hash_password v salt p = Some h" using assms(5) by (auto simp: hash_password_def Let_def)
  show ?thesis using h hash_verifies [OF assms(1-4) h] by (intro exI [of _ h]) simp
qed

definition demo_passwords :: password_env where
  "demo_passwords = \<lparr>pv_argon = (\<lambda>p salt q n. take n (p @ salt @ replicate n (CHR ''x''))),
     pv_scan_version = (\<lambda>s. if s = ''v=19'' then Some 19 else None),
     pv_scan_params = (\<lambda>s. if s = ''m=65536,t=3,p=2'' then Some default_password_params else None)\<rparr>"

lemma demo_scans:
  "pv_scan_version demo_passwords (version_text argon2_version) = Some argon2_version"
  "pv_scan_params demo_passwords ''m=65536,t=3,p=2'' = Some default_password_params"
  "length (pv_argon demo_passwords p salt q n) = n"
  by (simp_all add: demo_passwords_def written_texts) (simp_all add: argon2_version_def)

lemma password_round_trip_witness:
  "\<exists>h. hash_password demo_passwords (replicate 16 (CHR ''s'')) ''correct horse'' = Some h
    \<and> verify_password demo_passwords ''correct horse'' h = Some True
    \<and> verify_password demo_passwords ''wrong horse 12'' h = Some False"
proof -
  let ?d = "\<lambda>p. pv_argon demo_passwords p (replicate 16 (CHR ''s'')) default_password_params 32"
  have "\<exists>h. hash_password demo_passwords (replicate 16 (CHR ''s'')) ''correct horse'' = Some h
      \<and> verify_password demo_passwords ''correct horse'' h = Some True
      \<and> (\<forall>p'. verify_password demo_passwords p' h = Some (?d p' = ?d ''correct horse''))"
    by (rule password_round_trip) (simp_all add: written_texts(2) demo_scans valid_password_def)
  then obtain h where h: "hash_password demo_passwords (replicate 16 (CHR ''s'')) ''correct horse'' = Some h"
    "verify_password demo_passwords ''correct horse'' h = Some True"
    "\<forall>p'. verify_password demo_passwords p' h = Some (?d p' = ?d ''correct horse'')"
    by (rule exE) (elim conjE, rule that)
  have "(?d ''wrong horse 12'' = ?d ''correct horse'') = False" by (simp add: demo_passwords_def)
  then have "verify_password demo_passwords ''wrong horse 12'' h = Some False"
    using h(3) [THEN spec, of "''wrong horse 12''"] by (simp only:)
  with h(1,2) show ?thesis by (intro exI conjI)
qed

end
