(* ===== verification/Accounts.thy ===== *)
theory Accounts
  imports Sessions Passwords Members
begin

text \<open>
  Accounts (\<open>auth/service.go\<close> and the account part of \<open>me_handlers.go\<close>): registration in two steps,
  login, refresh and logout, forgotten and changed passwords, the e-mail addresses of a member.
  The tables are those of one class; the keys of Redis expire.  Which of several matching accounts
  \<open>auth_find_user\<close> returns is the first of the table.  A transaction together with the
  commands sent to Redis around it is one step.
\<close>

section \<open>State\<close>

record pending_registration =
  pg_sid :: string
  pg_name :: string
  pg_whitelist :: int
  pg_role :: string

record pending_email =
  pm_user :: int
  pm_class :: int
  pm_version :: int
  pm_email :: string
  pm_code_hash :: string
  pm_attempts :: nat

record email_row =
  em_id :: int
  em_user :: int
  em_email :: string       \<comment> \<open>normalized\<close>
  em_primary :: bool
  em_verified :: bool

record account_state =
  as_db :: db
  as_hash :: "int \<Rightarrow> string"      \<comment> \<open>\<open>password_hash\<close>, where it is not null (\<open>us_registered\<close>)\<close>
  as_emails :: "email_row list"
  as_tickets :: "string \<Rightarrow> pending_registration cell option"
  as_resets :: "string \<Rightarrow> identity cell option"
  as_challenges :: "string \<Rightarrow> (pending_email \<times> int option) option"  \<comment> \<open>\<open>None\<close> never expires\<close>
  as_sessions :: session_keys

record account_env =
  ax_env :: env
  ax_class :: int
  ax_config :: session_config
  ax_passwords :: password_env
  ax_salt :: string
  ax_raw :: string           \<comment> \<open>32 random bytes of a refresh token\<close>
  ax_session :: string       \<comment> \<open>a random session id\<close>
  ax_token :: string         \<comment> \<open>a random ticket, reset token or challenge\<close>
  ax_code :: string          \<comment> \<open>a random verification code\<close>
  ax_lower :: "string \<Rightarrow> string"
  ax_fold :: "string \<Rightarrow> string \<Rightarrow> bool"          \<comment> \<open>\<open>strings.EqualFold\<close>\<close>
  ax_ops_account :: string
  ax_ops_hash :: string
  ax_address :: "string \<Rightarrow> string option"        \<comment> \<open>the address \<open>mail.ParseAddress\<close> finds\<close>
  ax_email_taken :: "string \<Rightarrow> bool"              \<comment> \<open>by a member of another class\<close>
  ax_mailed :: bool          \<comment> \<open>whether the mail could be sent\<close>

datatype auth_error = InvalidCredentials | InvalidChallenge | RegistrationDenied | AlreadyRegistered
  | AccountDisabled | AccountConflict | RefreshInvalid | InputInvalid | PasswordInvalid | AuthInternal

definition now_ms :: "account_env \<Rightarrow> int" where
  "now_ms x = en_now (ax_env x) div 1000000"

definition password_hash :: "account_state \<Rightarrow> app_user \<Rightarrow> string option" where
  "password_hash st u = (if us_registered u then Some (as_hash st (us_id u)) else None)"

definition identity_of :: "account_env \<Rightarrow> app_user \<Rightarrow> identity" where
  "identity_of x u = \<lparr>id_user = us_id u, id_class = ax_class x, id_sid = us_sid u, id_name = us_name u,
     id_role = us_role u, id_deputy = us_deputy u, id_version = us_version u\<rparr>"

definition looked_up :: "account_env \<Rightarrow> app_user \<Rightarrow> identity" where
  \<comment> \<open>\<open>auth_find_user\<close> does not say who is the deputy\<close>
  "looked_up x u = (identity_of x u)\<lparr>id_deputy := False\<rparr>"

definition verify_for :: "account_env \<Rightarrow> string \<Rightarrow> string \<Rightarrow> bool" where
  "verify_for x p h \<longleftrightarrow> verify_password (ax_passwords x) p h = Some True"

definition valid_hex_token :: "string \<Rightarrow> nat \<Rightarrow> bool" where
  "valid_hex_token s n \<longleftrightarrow> length s = n \<and> list_all hex_digit s"

definition find_auth_user :: "account_env \<Rightarrow> account_state \<Rightarrow> string \<Rightarrow> app_user option" where
  \<comment> \<open>\<open>auth_find_user\<close>\<close>
  "find_auth_user x st account = (if db_archived (as_db st) then None
     else find (\<lambda>u. ax_lower x (us_sid u) = ax_lower x account
         \<or> list_ex (\<lambda>m. em_user m = us_id u \<and> em_verified m \<and> em_email m = ax_lower x account) (as_emails st))
       (db_users (as_db st)))"

definition issue_session :: "account_env \<Rightarrow> identity \<Rightarrow> account_state \<Rightarrow> (string \<times> identity) \<times> account_state" where
  "issue_session x who st = (case create_session (ax_config x) (now_ms x) (ax_session x) (ax_raw x) who (as_sessions st) of
     (token, s, k) \<Rightarrow> ((token, who), st\<lparr>as_sessions := k\<rparr>))"

section \<open>Registration\<close>

definition register_check :: "account_env \<Rightarrow> string \<Rightarrow> string \<Rightarrow> account_state
    \<Rightarrow> (auth_error, string) result \<times> account_state" where
  "register_check x sid name st =
    (let sid = trim_space sid; name = trim_space name in
     if sid = [] \<or> name = [] \<or> 100 < length sid \<or> 200 < rune_count name then (Inl InputInvalid, st)
     else (case if db_archived (as_db st) then None
                else find (\<lambda>w. wl_sid w = sid \<and> wl_name w = name) (db_whitelist (as_db st)) of
         None \<Rightarrow> (Inl RegistrationDenied, st)
       | Some w \<Rightarrow>
           if \<not> wl_active w then (Inl RegistrationDenied, st)
           else if wl_registered_at w \<noteq> None then (Inl AlreadyRegistered, st)
           else (Inr (ax_token x), st\<lparr>as_tickets := (as_tickets st)(ax_token x \<mapsto>
             (\<lparr>pg_sid = sid, pg_name = name, pg_whitelist = wl_id w, pg_role = wl_role w\<rparr>, now_ms x + 15 * 60000))\<rparr>)))"

definition activate :: "account_env \<Rightarrow> pending_registration \<Rightarrow> string \<Rightarrow> account_state
    \<Rightarrow> (auth_error, identity \<times> account_state) result" where
  "activate x p h st =
    (let d = as_db st; audited = (\<lambda>u q. q\<lparr>db_audit := db_audit q @ [\<lparr>au_actor = Some (us_id u),
           au_action = ''auth.registered'', au_resource = ''user'', au_id = dec_int (us_id u)\<rparr>],
           db_whitelist := where_set (\<lambda>w. wl_id w = pg_whitelist p)
             (\<lambda>w. w\<lparr>wl_registered_at := Some (db_time (en_now (ax_env x)))\<rparr>) (db_whitelist q)\<rparr>) in
     (case find (\<lambda>w. wl_id w = pg_whitelist p) (db_whitelist d) of
        None \<Rightarrow> Inl RegistrationDenied
      | Some w \<Rightarrow>
          if wl_registered_at w \<noteq> None then Inl AlreadyRegistered
          else if \<not> wl_active w \<or> wl_role w \<noteq> pg_role p then Inl RegistrationDenied
          else (case find (\<lambda>u. us_whitelist u = pg_whitelist p) (db_users d) of
              Some u \<Rightarrow>
                if us_status u \<noteq> ''active'' then Inl AccountDisabled
                else if us_registered u then Inl AlreadyRegistered
                else (let v = u\<lparr>us_registered := True, us_version := us_version u + 1\<rparr> in
                  Inr (identity_of x v, st\<lparr>
                    as_db := audited v (d\<lparr>db_users := where_set (\<lambda>q. us_whitelist q = pg_whitelist p)
                      (\<lambda>q. q\<lparr>us_registered := True, us_version := us_version q + 1\<rparr>) (db_users d)\<rparr>),
                    as_hash := (as_hash st)(us_id v := h)\<rparr>))
            | None \<Rightarrow>
                if list_ex (\<lambda>u. us_sid u = pg_sid p) (db_users d) \<or> en_taken (ax_env x) (pg_sid p)
                then Inl AccountConflict
                else if \<not> valid_business_role (pg_role p) then Inl AuthInternal  \<comment> \<open>the \<open>CHECK\<close> of \<open>role\<close>\<close>
                else (let v = \<lparr>us_id = db_next d, us_sid = pg_sid p, us_name = pg_name p, us_role = pg_role p,
                        us_status = ''active'', us_deputy = False, us_registered = True, us_paused = False,
                        us_whitelist = pg_whitelist p, us_version = 1\<rparr> in
                  Inr (identity_of x v, st\<lparr>
                    as_db := audited v (d\<lparr>db_users := db_users d @ [v], db_next := db_next d + 1\<rparr>),
                    as_hash := (as_hash st)(us_id v := h)\<rparr>)))))"

definition register_complete :: "account_env \<Rightarrow> string \<Rightarrow> string \<Rightarrow> account_state
    \<Rightarrow> (auth_error, string \<times> identity) result \<times> account_state" where
  "register_complete x ticket password st =
    (let ticket = trim_space ticket in
     if \<not> valid_hex_token ticket 48 then (Inl InvalidChallenge, st)
     else if \<not> valid_password password then (Inl PasswordInvalid, st)
     else (case cell_get (now_ms x) (as_tickets st) ticket of
         None \<Rightarrow> (Inl InvalidChallenge, st)
       | Some p \<Rightarrow> (case hash_password (ax_passwords x) (ax_salt x) password of
           None \<Rightarrow> (Inl PasswordInvalid, st)
         | Some h \<Rightarrow> (case activate x p h st of
             Inl err \<Rightarrow> (Inl err, st)
           | Inr (who, st1) \<Rightarrow>
               (case issue_session x who (st1\<lparr>as_tickets := (as_tickets st1)(ticket := None)\<rparr>) of
                  (out, st2) \<Rightarrow> (Inr out, st2))))))"

section \<open>Login, refresh and logout\<close>

definition login :: "account_env \<Rightarrow> string \<Rightarrow> string \<Rightarrow> account_state
    \<Rightarrow> (auth_error, string \<times> identity) result \<times> account_state" where
  "login x account password st =
    (let account = trim_space account;
         granted = (\<lambda>who. case issue_session x who st of (out, st1) \<Rightarrow> (Inr out, st1)) in
     if account = [] \<or> 320 < length account \<or> password = [] \<or> 128 < length password
     then (Inl InvalidCredentials, st)
     else if ax_fold x account (ax_ops_account x)
     then if verify_for x password (ax_ops_hash x)
          then granted \<lparr>id_user = 0, id_class = 0, id_sid = ax_ops_account x, id_name = ''ops'', id_role = ''ops'',
                 id_deputy = False, id_version = 1\<rparr>
          else (Inl InvalidCredentials, st)
     else (case find_auth_user x st account of
         None \<Rightarrow> (Inl InvalidCredentials, st)
       | Some u \<Rightarrow> (case password_hash st u of
           None \<Rightarrow> (Inl InvalidCredentials, st)
         | Some h \<Rightarrow>
             if \<not> verify_for x password h then (Inl InvalidCredentials, st)
             else if us_status u \<noteq> ''active'' then (Inl AccountDisabled, st)
             else granted (identity_of x u))))"

definition identity_is_current :: "identity \<Rightarrow> identity \<Rightarrow> string \<Rightarrow> bool" where
  "identity_is_current cached current status \<longleftrightarrow> status = ''active'' \<and> id_user cached = id_user current
     \<and> id_class cached = id_class current \<and> id_role cached = id_role current \<and> id_version cached = id_version current"

definition refresh_login :: "account_env \<Rightarrow> string \<Rightarrow> account_state
    \<Rightarrow> (auth_error, string \<times> identity) result \<times> account_state" where
  "refresh_login x token st =
    (case rotate_session (ax_config x) (now_ms x) (ax_raw x) token (as_sessions st) of
       (Inl InvalidRefresh, k) \<Rightarrow> (Inl RefreshInvalid, st\<lparr>as_sessions := k\<rparr>)
     | (Inr (rotated, s), k) \<Rightarrow>
         (let st1 = st\<lparr>as_sessions := k\<rparr>;
              refused = (Inl RefreshInvalid, st1\<lparr>as_sessions := revoke_session (ax_config x) (now_ms x) rotated k\<rparr>) in
          if id_role (rf_identity s) = ''ops'' then (Inr (rotated, rf_identity s), st1)
          else (case find_auth_user x st (trim_space (id_sid (rf_identity s))) of
              None \<Rightarrow> refused
            | Some u \<Rightarrow>
                if identity_is_current (rf_identity s) (looked_up x u) (us_status u)
                then (Inr (rotated, looked_up x u), st1) else refused)))"

definition logout :: "account_env \<Rightarrow> string \<Rightarrow> account_state \<Rightarrow> account_state" where
  "logout x token st = st\<lparr>as_sessions := revoke_session (ax_config x) (now_ms x) token (as_sessions st)\<rparr>"

section \<open>Forgotten passwords\<close>

definition forgot_password :: "account_env \<Rightarrow> string \<Rightarrow> account_state \<Rightarrow> account_state" where
  \<comment> \<open>the answer never says whether the account exists\<close>
  "forgot_password x account st =
    (let account = trim_space account in
     if account = [] \<or> 320 < length account then st
     else (case find_auth_user x st account of
         None \<Rightarrow> st
       | Some u \<Rightarrow>
           if us_status u \<noteq> ''active'' \<or> \<not> us_registered u then st
           else if \<not> list_ex (\<lambda>m. em_user m = us_id u \<and> em_primary m \<and> em_verified m) (as_emails st) then st
           else st\<lparr>as_resets := (as_resets st)(token_hash (ax_config x) (ax_token x)
                  \<mapsto> (looked_up x u, now_ms x + 30 * 60000))\<rparr>))"

definition reset_password :: "account_env \<Rightarrow> string \<Rightarrow> string \<Rightarrow> account_state
    \<Rightarrow> (auth_error, unit) result \<times> account_state" where
  \<comment> \<open>\<open>ResetPassword\<close>: the token is gone whatever happens after it was read\<close>
  "reset_password x token password st =
    (let token = trim_space token; key = token_hash (ax_config x) token in
     if \<not> valid_hex_token token 64 then (Inl InvalidChallenge, st)
     else if \<not> valid_password password then (Inl PasswordInvalid, st)
     else (case cell_get (now_ms x) (as_resets st) key of
         None \<Rightarrow> (Inl InvalidChallenge, st)
       | Some who \<Rightarrow>
          (let st1 = st\<lparr>as_resets := (as_resets st)(key := None)\<rparr>; d = as_db st;
               hit = (\<lambda>u. us_id u = id_user who \<and> ax_class x = id_class who \<and> us_version u = id_version who
                          \<and> us_registered u) in
           (case hash_password (ax_passwords x) (ax_salt x) password of
              None \<Rightarrow> (Inl PasswordInvalid, st1)
            | Some h \<Rightarrow>
               if count_where hit (db_users d) \<noteq> 1 then (Inl InvalidChallenge, st1)
               else (Inr (), st1\<lparr>
                 as_db := d\<lparr>db_users := where_set hit (\<lambda>u. u\<lparr>us_version := us_version u + 1\<rparr>) (db_users d),
                   db_audit := db_audit d @ [\<lparr>au_actor = Some (id_user who), au_action = ''auth.password_reset'',
                     au_resource = ''user'', au_id = dec_int (id_user who)\<rparr>]\<rparr>,
                 as_hash := (as_hash st)(id_user who := h),
                 as_sessions := revoke_user (now_ms x) (id_user who) [] (as_sessions st)\<rparr>)))))"

definition change_password :: "account_env \<Rightarrow> actor \<Rightarrow> string \<Rightarrow> string \<Rightarrow> string \<Rightarrow> account_state
    \<Rightarrow> (http_error, unit) result \<times> account_state" where
  "change_password x a session current new st =
    (if \<not> valid_password new then (Inl (HttpError 422 ''password_invalid''), st)
     else (case find_user (as_db st) (ac_user a) of
         None \<Rightarrow> (Inl internal_error, st)
       | Some u \<Rightarrow> (case password_hash st u of
           None \<Rightarrow> (Inl internal_error, st)
         | Some h \<Rightarrow>
             if \<not> verify_for x current h then (Inl (HttpError 401 ''password_mismatch''), st)
             else if verify_for x new h then (Inl (HttpError 422 ''password_unchanged''), st)
             else (case hash_password (ax_passwords x) (ax_salt x) new of
                 None \<Rightarrow> (Inl internal_error, st)
               | Some h1 \<Rightarrow> (Inr (), st\<lparr>as_hash := (as_hash st)(us_id u := h1),
                   as_db := append_audit a ''auth.password_changed'' ''user'' (dec_int (ac_user a)) (as_db st),
                   as_sessions := revoke_user (now_ms x) (ac_user a) session (as_sessions st)\<rparr>)))))"

section \<open>E-mail addresses\<close>

definition normalize_user_email :: "account_env \<Rightarrow> string \<Rightarrow> string option" where
  "normalize_user_email x value = (case ax_address x (trim_space value) of
     None \<Rightarrow> None
   | Some m \<Rightarrow> if CHR 0x40 \<in> set m then Some (ax_lower x m) else None)"

definition email_code_hash :: "account_env \<Rightarrow> string \<Rightarrow> string \<Rightarrow> string" where
  "email_code_hash x challenge code = sf_sha256 (ax_config x) (challenge @ '':'' @ code)"

definition add_email :: "account_env \<Rightarrow> actor \<Rightarrow> string \<Rightarrow> account_state
    \<Rightarrow> (http_error, string) result \<times> account_state" where
  "add_email x a value st =
    (case normalize_user_email x value of
       None \<Rightarrow> (Inl (HttpError 422 ''email_invalid''), st)
     | Some m \<Rightarrow>
        (let mine = filter (\<lambda>r. em_user r = ac_user a) (as_emails st) in
         if list_ex (\<lambda>r. em_email r = m) mine then (Inl (HttpError 409 ''email_exists''), st)
         else if 5 \<le> length mine then (Inl (HttpError 409 ''email_limit''), st)
         else if find_user (as_db st) (ac_user a) = None \<or> \<not> ax_mailed x then (Inl internal_error, st)
         else (Inr (ax_token x), st\<lparr>
            as_challenges := (as_challenges st)(ax_token x \<mapsto>
              (\<lparr>pm_user = ac_user a, pm_class = ax_class x, pm_version = ac_version a, pm_email = m,
                pm_code_hash = email_code_hash x (ax_token x) (ax_code x), pm_attempts = 0\<rparr>,
               Some (now_ms x + 10 * 60000))),
            as_db := append_audit a ''email.verification_sent'' ''user_email'' [] (as_db st)\<rparr>)))"

definition challenge_get :: "int \<Rightarrow> account_state \<Rightarrow> string \<Rightarrow> (pending_email \<times> int option) option" where
  "challenge_get now st key = (case as_challenges st key of
     Some (p, Some t) \<Rightarrow> if now < t then Some (p, Some t) else None
   | r \<Rightarrow> r)"

definition kept_deadline :: "int \<Rightarrow> int option \<Rightarrow> int option" where
  \<comment> \<open>\<open>TTL\<close> answers in seconds, rounded; \<open>SET\<close> with a time to live of zero or less than zero never expires\<close>
  "kept_deadline now t = (case t of None \<Rightarrow> None
     | Some t \<Rightarrow> (let s = (t - now + 500) div 1000 in if s \<le> 0 then None else Some (now + s * 1000)))"

definition code_invalid :: http_error where "code_invalid = HttpError 422 ''code_invalid''"

definition verify_added_email :: "account_env \<Rightarrow> actor \<Rightarrow> string \<Rightarrow> string \<Rightarrow> account_state
    \<Rightarrow> (http_error, int) result \<times> account_state" where
  "verify_added_email x a challenge code st =
    (if trim_space challenge = [] then (Inl (HttpError 400 ''invalid_request''), st)
     else (let key = trim_space challenge in
      case challenge_get (now_ms x) st key of
        None \<Rightarrow> (Inl code_invalid, st)
      | Some (p, t) \<Rightarrow>
         if pm_user p \<noteq> ac_user a \<or> pm_class p \<noteq> ax_class x \<or> pm_version p \<noteq> ac_version a
            \<or> email_code_hash x challenge (trim_space code) \<noteq> pm_code_hash p
         then (Inl code_invalid, st\<lparr>as_challenges := (as_challenges st)(key :=
             (if 5 \<le> pm_attempts p + 1 then None
              else Some (p\<lparr>pm_attempts := pm_attempts p + 1\<rparr>, kept_deadline (now_ms x) t)))\<rparr>)
         else if list_ex (\<lambda>r. em_email r = pm_email p) (as_emails st) \<or> ax_email_taken x (pm_email p)
         then (Inl (HttpError 409 ''email_exists''), st)
         else (let d = as_db st; n = db_next d;
                   first = \<not> list_ex (\<lambda>r. em_user r = ac_user a \<and> em_primary r \<and> em_verified r) (as_emails st) in
           (Inr n, st\<lparr>
              as_emails := as_emails st @ [\<lparr>em_id = n, em_user = ac_user a, em_email = pm_email p,
                 em_primary = first, em_verified = True\<rparr>],
              as_db := append_audit a ''email.added'' ''user_email'' (dec_int n) (d\<lparr>db_next := n + 1\<rparr>),
              as_challenges := (as_challenges st)(key := None)\<rparr>))))"

definition set_primary_email :: "account_env \<Rightarrow> actor \<Rightarrow> int \<Rightarrow> account_state
    \<Rightarrow> (http_error, unit) result \<times> account_state" where
  "set_primary_email x a i st = (case path_id i of Some err \<Rightarrow> (Inl err, st) | None \<Rightarrow>
    (case find (\<lambda>r. em_id r = i \<and> em_user r = ac_user a) (as_emails st) of
       None \<Rightarrow> (Inl not_found, st)
     | Some r \<Rightarrow>
         if \<not> em_verified r then (Inl (HttpError 409 ''email_unverified''), st)
         else (Inr (), st\<lparr>
            as_emails := where_set (\<lambda>r. em_id r = i) (\<lambda>r. r\<lparr>em_primary := True\<rparr>)
              (where_set (\<lambda>r. em_user r = ac_user a \<and> em_primary r) (\<lambda>r. r\<lparr>em_primary := False\<rparr>) (as_emails st)),
            as_db := append_audit a ''email.primary_changed'' ''user_email'' (dec_int i) (as_db st)\<rparr>)))"

definition delete_email :: "account_env \<Rightarrow> actor \<Rightarrow> int \<Rightarrow> account_state
    \<Rightarrow> (http_error, unit) result \<times> account_state" where
  "delete_email x a i st = (case path_id i of Some err \<Rightarrow> (Inl err, st) | None \<Rightarrow>
    (case find (\<lambda>r. em_id r = i \<and> em_user r = ac_user a) (as_emails st) of
       None \<Rightarrow> (Inl not_found, st)
     | Some r \<Rightarrow>
         if em_primary r then (Inl (HttpError 409 ''primary_email''), st)
         else (Inr (), st\<lparr>as_emails := delete_where (\<lambda>r. em_id r = i) (as_emails st),
            as_db := append_audit a ''email.deleted'' ''user_email'' (dec_int i) (as_db st)\<rparr>)))"

end
