(* ===== verification/AccountLife.thy ===== *)
theory AccountLife
  imports Accounts Authority
begin

text \<open>
  What holds of the accounts of a class in every history, requests of the class included: the
  invariants of \<open>ClassLife\<close> and \<open>Members\<close>, unique verified addresses with at most one primary
  address per member; what a forgotten password ends; how often a code may be guessed.
\<close>

section \<open>Frames\<close>

lemma issue_session_frame [simp]:
  "as_db (snd (issue_session x who st)) = as_db st" "as_emails (snd (issue_session x who st)) = as_emails st"
  by (simp_all add: issue_session_def split: prod.split)

lemma register_check_frame:
  "as_db (snd (register_check x sid name st)) = as_db st"
  "as_emails (snd (register_check x sid name st)) = as_emails st"
  by (simp_all add: register_check_def Let_def split: option.split)

lemma login_frame:
  "as_db (snd (login x account password st)) = as_db st" "as_emails (snd (login x account password st)) = as_emails st"
  by (auto simp: login_def Let_def issue_session_def split: option.split prod.split)

lemma refresh_frame:
  "as_db (snd (refresh_login x token st)) = as_db st" "as_emails (snd (refresh_login x token st)) = as_emails st"
  by (auto simp: refresh_login_def Let_def split: option.split prod.split sum.split session_error.split)

lemma forgot_frame:
  "as_db (forgot_password x account st) = as_db st" "as_emails (forgot_password x account st) = as_emails st"
  by (auto simp: forgot_password_def Let_def split: option.split)

lemma change_password_frame:
  "db_users (as_db (snd (change_password x a session cur new st))) = db_users (as_db st)"
  "quiet (as_db st) (as_db (snd (change_password x a session cur new st)))"
  "as_emails (snd (change_password x a session cur new st)) = as_emails st"
  by (auto simp: change_password_def append_audit_def quiet_def split: option.split)

lemma reset_password_cases:
  obtains "as_db (snd (reset_password x token password st)) = as_db st"
      "as_emails (snd (reset_password x token password st)) = as_emails st"
  | who where "cell_get (now_ms x) (as_resets st) (token_hash (ax_config x) (trim_space token)) = Some who"
      "fst (reset_password x token password st) = Inr ()"
      "count_where (\<lambda>u. us_id u = id_user who \<and> ax_class x = id_class who \<and> us_version u = id_version who
         \<and> us_registered u) (db_users (as_db st)) = 1"
      "db_users (as_db (snd (reset_password x token password st)))
        = where_set (\<lambda>u. us_id u = id_user who \<and> ax_class x = id_class who \<and> us_version u = id_version who
         \<and> us_registered u) (\<lambda>u. u\<lparr>us_version := us_version u + 1\<rparr>) (db_users (as_db st))"
      "quiet (as_db st) (as_db (snd (reset_password x token password st)))"
      "as_emails (snd (reset_password x token password st)) = as_emails st"
      "as_resets (snd (reset_password x token password st))
        = (as_resets st)(token_hash (ax_config x) (trim_space token) := None)"
      "as_sessions (snd (reset_password x token password st)) = revoke_user (now_ms x) (id_user who) [] (as_sessions st)"
      "valid_hex_token (trim_space token) 64"
  by (cases "fst (reset_password x token password st) = Inr ()")
    (auto simp: reset_password_def Let_def quiet_def split: option.splits if_splits)

lemma reset_refused_same:
  "fst (reset_password x token password st) \<noteq> Inr () \<Longrightarrow> as_db (snd (reset_password x token password st)) = as_db st"
  by (auto simp: reset_password_def Let_def split: option.split)

lemma activate_D:
  assumes "activate x p h st = Inr (who, st1)"
  shows "as_emails st1 = as_emails st" and "as_tickets st1 = as_tickets st" and "quiet (as_db st) (as_db st1)"
    and "db_users (as_db st1) = where_set (\<lambda>q. us_whitelist q = pg_whitelist p)
        (\<lambda>q. q\<lparr>us_registered := True, us_version := us_version q + 1\<rparr>) (db_users (as_db st))
      \<or> (\<exists>v. db_users (as_db st1) = db_users (as_db st) @ [v] \<and> us_id v = db_next (as_db st)
          \<and> db_next (as_db st) < db_next (as_db st1) \<and> member_ok v \<and> \<not> us_deputy v)"
  using assms
  by (auto simp: activate_def Let_def quiet_def member_ok_def split: option.splits if_splits)

lemma activate_members:
  assumes "activate x p h st = Inr (who, st1)" and ok: "members_ok (as_db st)"
  shows "members_ok (as_db st1)"
proof -
  have next_le: "db_next (as_db st) \<le> db_next (as_db st1)" using activate_D(3) [OF assms(1)] by (simp add: quiet_def)
  from activate_D(4) [OF assms(1)] show ?thesis
  proof
    assume rows: "db_users (as_db st1) = where_set (\<lambda>q. us_whitelist q = pg_whitelist p)
        (\<lambda>q. q\<lparr>us_registered := True, us_version := us_version q + 1\<rparr>) (db_users (as_db st))"
    show ?thesis
      by (rule members_ok_map [OF ok _ next_le, where g = "\<lambda>q. if us_whitelist q = pg_whitelist p
            then q\<lparr>us_registered := True, us_version := us_version q + 1\<rparr> else q"])
        (use rows members_okD(2) [OF ok] in \<open>auto simp: where_set_def member_ok_def\<close>)
  next
    assume "\<exists>v. db_users (as_db st1) = db_users (as_db st) @ [v] \<and> us_id v = db_next (as_db st)
          \<and> db_next (as_db st) < db_next (as_db st1) \<and> member_ok v \<and> \<not> us_deputy v"
    then show ?thesis using members_ok_more [OF ok] by blast
  qed
qed

lemma register_complete_cases:
  obtains "snd (register_complete x ticket password st) = st"
  | p h who st1 where "activate x p h st = Inr (who, st1)"
      "as_db (snd (register_complete x ticket password st)) = as_db st1"
      "as_emails (snd (register_complete x ticket password st)) = as_emails st1"
proof -
  have "snd (register_complete x ticket password st) = st
    \<or> (\<exists>p h who st1. activate x p h st = Inr (who, st1)
        \<and> as_db (snd (register_complete x ticket password st)) = as_db st1
        \<and> as_emails (snd (register_complete x ticket password st)) = as_emails st1)"
    unfolding register_complete_def Let_def issue_session_def
    by (simp split: option.split sum.split prod.split) metis
  then show thesis using that by blast
qed

section \<open>Histories of the accounts of a class\<close>

definition emails_ok :: "account_state \<Rightarrow> bool" where
  "emails_ok st \<longleftrightarrow> distinct (map em_id (as_emails st)) \<and> list_all (\<lambda>r. em_id r < db_next (as_db st)) (as_emails st)
     \<and> distinct (map em_email (as_emails st)) \<and> list_all em_verified (as_emails st)
     \<and> distinct (map em_user (filter em_primary (as_emails st)))"

inductive account_step :: "account_state \<Rightarrow> account_state \<Rightarrow> bool" where
  check: "account_step st (snd (register_check x sid name st))"
| complete: "account_step st (snd (register_complete x ticket password st))"
| logged_in: "account_step st (snd (login x account password st))"
| refreshed: "account_step st (snd (refresh_login x token st))"
| logged_out: "account_step st (logout x token st)"
| forgotten: "account_step st (forgot_password x account st)"
| reset: "account_step st (snd (reset_password x token password st))"
| changed: "account_step st (snd (change_password x a session current new st))"
| email_added: "account_step st (snd (add_email x a value st))"
| email_verified: "account_step st (snd (verify_added_email x a challenge code st))"
| email_primary: "account_step st (snd (set_primary_email x a i st))"
| email_deleted: "account_step st (snd (delete_email x a i st))"
| class_act: "acts (as_db st) d \<Longrightarrow> account_step st (st\<lparr>as_db := d,
    as_emails := filter (\<lambda>r. em_user r \<in> us_id ` set (db_users d)) (as_emails st)\<rparr>)"
    \<comment> \<open>the addresses of a deleted account go with it\<close>

inductive account_history :: "account_state \<Rightarrow> account_state \<Rightarrow> bool" where
  start: "account_history st st"
| more: "account_history st st1 \<Longrightarrow> account_step st1 st2 \<Longrightarrow> account_history st st2"

definition accounts_ok :: "account_state \<Rightarrow> bool" where
  "accounts_ok st \<longleftrightarrow> class_ok (as_db st) \<and> members_ok (as_db st) \<and> emails_ok st"

lemma emails_ok_fewer:
  assumes ok: "emails_ok st" and "as_emails st' = filter k (as_emails st)" and "db_next (as_db st) \<le> db_next (as_db st')"
  shows "emails_ok st'"
proof -
  have f: "filter em_primary (filter k (as_emails st)) = filter k (filter em_primary (as_emails st))"
    by (simp add: conj_commute)
  show ?thesis
    using ok assms(3) distinct_map_filter [of em_id "as_emails st" k] distinct_map_filter [of em_email "as_emails st" k]
      distinct_map_filter [of em_user "filter em_primary (as_emails st)" k]
    unfolding emails_ok_def assms(2) f list_all_iff by fastforce
qed

lemma emails_ok_same:
  assumes ok: "emails_ok st" and "as_emails st' = as_emails st" and "db_next (as_db st) \<le> db_next (as_db st')"
  shows "emails_ok st'"
  by (rule emails_ok_fewer [OF ok _ assms(3), where k = "\<lambda>_. True"]) (simp add: assms(2))

lemma quiet_accounts:
  assumes ok: "accounts_ok st" and "quiet (as_db st) (as_db st')" and "members_ok (as_db st')" and "as_emails st' = as_emails st"
  shows "accounts_ok st'"
proof -
  have "class_ok (as_db st')" using quiet_step [OF _ assms(2)] ok by (simp add: accounts_ok_def)
  moreover have "emails_ok st'" using emails_ok_same [OF _ assms(4)] assms(2) ok by (simp add: accounts_ok_def quiet_def)
  ultimately show ?thesis using assms(3) by (simp add: accounts_ok_def)
qed

lemma same_accounts:
  "accounts_ok st \<Longrightarrow> as_db st' = as_db st \<Longrightarrow> as_emails st' = as_emails st \<Longrightarrow> accounts_ok st'"
  by (rule quiet_accounts) (simp_all add: accounts_ok_def)

lemma reset_accounts:
  assumes ok: "accounts_ok st"
  shows "accounts_ok (snd (reset_password x token password st))"
proof (rule reset_password_cases [of x token password st], goal_cases)
  case 1 then show ?case by (rule same_accounts [OF ok])
next
  case (2 who)
  have m: "members_ok (as_db st)" and n: "db_next (as_db st) \<le> db_next (as_db (snd (reset_password x token password st)))"
    using ok 2(5) by (simp_all add: accounts_ok_def quiet_def)
  have "members_ok (as_db (snd (reset_password x token password st)))"
    by (rule members_ok_map [OF m _ n, where g = "\<lambda>u. if us_id u = id_user who \<and> ax_class x = id_class who
          \<and> us_version u = id_version who \<and> us_registered u then u\<lparr>us_version := us_version u + 1\<rparr> else u"])
      (use 2(4) members_okD(2) [OF m] in \<open>auto simp: where_set_def member_ok_def\<close>)
  then show ?case by (rule quiet_accounts [OF ok 2(5) _ 2(6)])
qed

lemma verified_emails_ok:
  assumes ok: "emails_ok st"
  shows "emails_ok (snd (verify_added_email x a challenge code st))"
proof -
  let ?st = "snd (verify_added_email x a challenge code st)"
  have "as_emails ?st = as_emails st \<and> db_next (as_db ?st) = db_next (as_db st)
    \<or> (\<exists>r. as_emails ?st = as_emails st @ [r] \<and> em_id r = db_next (as_db st) \<and> em_verified r
        \<and> em_email r \<notin> em_email ` set (as_emails st) \<and> db_next (as_db ?st) = db_next (as_db st) + 1
        \<and> (em_primary r \<longrightarrow> (\<forall>q \<in> set (as_emails st). \<not> (em_user q = em_user r \<and> em_primary q \<and> em_verified q))))"
    unfolding verify_added_email_def Let_def append_audit_def
    by (auto simp: list_ex_iff image_iff split: option.split prod.split)
  then show ?thesis
  proof
    assume "as_emails ?st = as_emails st \<and> db_next (as_db ?st) = db_next (as_db st)"
    then show ?thesis using emails_ok_same [OF ok, of ?st] by simp
  next
    assume "\<exists>r. as_emails ?st = as_emails st @ [r] \<and> em_id r = db_next (as_db st) \<and> em_verified r
        \<and> em_email r \<notin> em_email ` set (as_emails st) \<and> db_next (as_db ?st) = db_next (as_db st) + 1
        \<and> (em_primary r \<longrightarrow> (\<forall>q \<in> set (as_emails st). \<not> (em_user q = em_user r \<and> em_primary q \<and> em_verified q)))"
    then obtain r where r: "as_emails ?st = as_emails st @ [r]" "em_id r = db_next (as_db st)" "em_verified r"
      "em_email r \<notin> em_email ` set (as_emails st)" "db_next (as_db ?st) = db_next (as_db st) + 1"
      "em_primary r \<longrightarrow> (\<forall>q \<in> set (as_emails st). \<not> (em_user q = em_user r \<and> em_primary q \<and> em_verified q))"
      by blast
    have "em_id r \<notin> em_id ` set (as_emails st)" using ok r(2) by (auto simp: emails_ok_def list_all_iff)
    moreover have "em_primary r \<Longrightarrow> em_user r \<notin> em_user ` set (filter em_primary (as_emails st))"
      using r(6) ok by (auto simp: emails_ok_def list_all_iff)
    ultimately show ?thesis
      using ok r by (auto simp: emails_ok_def list_all_iff)
  qed
qed

lemma primary_emails_ok:
  assumes ok: "emails_ok st"
  shows "emails_ok (snd (set_primary_email x a i st))"
proof (cases "fst (set_primary_email x a i st)")
  case (Inl err)
  then have "snd (set_primary_email x a i st) = st"
    by (auto simp: set_primary_email_def split: option.splits if_splits)
  then show ?thesis using ok by simp
next
  case (Inr u)
  let ?st = "snd (set_primary_email x a i st)"
  define g :: "email_row \<Rightarrow> email_row" where "g = (\<lambda>r. if em_id r = i then r\<lparr>em_primary := True\<rparr>
    else if em_user r = ac_user a \<and> em_primary r then r\<lparr>em_primary := False\<rparr> else r)"
  obtain r where found: "find (\<lambda>r. em_id r = i \<and> em_user r = ac_user a) (as_emails st) = Some r"
    using Inr by (auto simp: set_primary_email_def split: option.splits if_splits)
  have r: "r \<in> set (as_emails st)" "em_id r = i" "em_user r = ac_user a" using find_Some_D [OF found] by simp_all
  have rows: "as_emails ?st = map g (as_emails st)" and n: "db_next (as_db ?st) = db_next (as_db st)"
    using Inr by (auto simp: set_primary_email_def where_set_def g_def append_audit_def split: option.splits if_splits)
  have g: "em_id (g q) = em_id q" "em_email (g q) = em_email q" "em_verified (g q) = em_verified q" "em_user (g q) = em_user q" for q
    by (simp_all add: g_def)
  have maps: "map em_id (as_emails ?st) = map em_id (as_emails st)" "map em_email (as_emails ?st) = map em_email (as_emails st)"
    by (simp_all add: rows g)
  have ids: "distinct (map em_id (as_emails st))" and prim: "distinct (map em_user (filter em_primary (as_emails st)))"
    using ok by (simp_all add: emails_ok_def)
  have one: "q = r" if "q \<in> set (as_emails st)" "em_id q = i" for q
    using ids that r by (auto simp: distinct_map inj_on_def)
  have same: "p = q" if "p \<in> set (as_emails st)" "q \<in> set (as_emails st)" "em_primary p" "em_primary q" "em_user p = em_user q" for p q
    using prim that by (auto simp: distinct_map inj_on_def)
  have "inj_on em_user (set (filter em_primary (map g (as_emails st))))"
  proof (rule inj_onI)
    fix p q
    assume "p \<in> set (filter em_primary (map g (as_emails st)))" "q \<in> set (filter em_primary (map g (as_emails st)))"
      and eq: "em_user p = em_user q"
    then obtain p1 q1 where p: "p1 \<in> set (as_emails st)" "p = g p1" "em_primary (g p1)"
      and q: "q1 \<in> set (as_emails st)" "q = g q1" "em_primary (g q1)" by auto
    have "p1 = q1"
      using p q eq r one [OF p(1)] one [OF q(1)] same [OF p(1) q(1)]
      by (cases "em_id p1 = i"; cases "em_id q1 = i") (auto simp: g_def split: if_splits)
    then show "p = q" using p q by simp
  qed
  moreover have "distinct (map em_id (map g (as_emails st)))" using ids maps(1) by (simp only: rows)
  then have "distinct (filter em_primary (map g (as_emails st)))" by (blast dest: distinct_map [THEN iffD1] intro: distinct_filter)
  ultimately have "distinct (map em_user (filter em_primary (as_emails ?st)))" by (simp add: rows distinct_map)
  moreover have "list_all (\<lambda>r. em_id r < db_next (as_db st)) (as_emails ?st)" "list_all em_verified (as_emails ?st)"
    using ok by (simp_all add: emails_ok_def list_all_iff rows g)
  ultimately show ?thesis using ok unfolding emails_ok_def maps n by simp
qed

lemma deleted_emails_ok:
  assumes ok: "emails_ok st"
  shows "emails_ok (snd (delete_email x a i st))"
proof -
  have "\<exists>k. as_emails (snd (delete_email x a i st)) = filter k (as_emails st)"
    by (auto simp: delete_email_def delete_where_def split: option.split intro: exI [of _ "\<lambda>_. True"])
  moreover have "db_next (as_db (snd (delete_email x a i st))) = db_next (as_db st)"
    by (auto simp: delete_email_def append_audit_def split: option.split)
  ultimately show ?thesis using emails_ok_fewer [OF ok] by fastforce
qed

lemma emails_quiet:
  "quiet (as_db st) (as_db (snd (add_email x a value st)))" "as_emails (snd (add_email x a value st)) = as_emails st"
  "quiet (as_db st) (as_db (snd (verify_added_email x a challenge code st)))"
  "quiet (as_db st) (as_db (snd (set_primary_email x a i st)))" "quiet (as_db st) (as_db (snd (delete_email x a i st)))"
  "db_users (as_db (snd (add_email x a value st))) = db_users (as_db st)"
  "db_users (as_db (snd (verify_added_email x a challenge code st))) = db_users (as_db st)"
  "db_users (as_db (snd (set_primary_email x a i st))) = db_users (as_db st)"
  "db_users (as_db (snd (delete_email x a i st))) = db_users (as_db st)"
  by (auto simp: add_email_def verify_added_email_def set_primary_email_def delete_email_def append_audit_def
    quiet_def Let_def split: option.split prod.split)

lemma unchanged_members:
  "members_ok d \<Longrightarrow> quiet d d' \<Longrightarrow> db_users d' = db_users d \<Longrightarrow> members_ok d'"
  unfolding quiet_def by (elim conjE) (rule members_ok_frame)

lemma email_accounts:
  assumes ok: "accounts_ok st" and q: "quiet (as_db st) (as_db st')" and "db_users (as_db st') = db_users (as_db st)"
    and "emails_ok st'"
  shows "accounts_ok st'"
  using quiet_step [OF _ q] unchanged_members [OF _ q assms(3)] ok assms(4) by (auto simp: accounts_ok_def)

lemma account_step_ok:
  assumes st: "account_step st st'" and ok: "accounts_ok st"
  shows "accounts_ok st'"
proof -
  have e: "emails_ok st" and m: "members_ok (as_db st)" and c: "class_ok (as_db st)"
    using ok by (simp_all add: accounts_ok_def)
  show ?thesis
    using st
  proof cases
    case (complete x ticket password)
    show ?thesis unfolding complete
    proof (rule register_complete_cases [of x ticket password st], goal_cases)
      case 1 then show ?case using ok by simp
    next
      case (2 p h who st1)
      note a = activate_D [OF 2(1)] and am = activate_members [OF 2(1) m]
      have "accounts_ok st1" by (rule quiet_accounts [OF ok a(3) am a(1)])
      then show ?case by (rule same_accounts) (use 2 in simp_all)
    qed
  next
    case (reset x token password) then show ?thesis using reset_accounts [OF ok] by simp
  next
    case (changed x a session current new)
    show ?thesis unfolding changed
      by (rule quiet_accounts [OF ok change_password_frame(2) _ change_password_frame(3)])
        (rule unchanged_members [OF m change_password_frame(2,1)])
  next
    case (email_added x a v)
    show ?thesis unfolding email_added
      by (rule quiet_accounts [OF ok emails_quiet(1) unchanged_members [OF m emails_quiet(1,6)] emails_quiet(2)])
  next
    case (email_verified x a challenge code)
    show ?thesis unfolding email_verified by (rule email_accounts [OF ok emails_quiet(3,7) verified_emails_ok [OF e]])
  next
    case (email_primary x a i)
    show ?thesis unfolding email_primary by (rule email_accounts [OF ok emails_quiet(4,8) primary_emails_ok [OF e]])
  next
    case (email_deleted x a i)
    show ?thesis unfolding email_deleted by (rule email_accounts [OF ok emails_quiet(5,9) deleted_emails_ok [OF e]])
  next
    case (class_act d)
    have ef: "effect (as_db st) d \<and> class_ok d" by (rule acts_step [OF c class_act(2)])
    moreover have "members_ok d" by (rule acts_members [OF c m class_act(2)])
    moreover have "emails_ok st'"
      by (rule emails_ok_fewer [OF e]) (use class_act(1) effect_next ef in auto)
    ultimately show ?thesis by (simp add: accounts_ok_def class_act(1))
  qed (use same_accounts [OF ok] register_check_frame login_frame refresh_frame forgot_frame in
      \<open>simp_all add: logout_def\<close>)
qed

lemma account_history_ok: "account_history st st' \<Longrightarrow> accounts_ok st \<Longrightarrow> accounts_ok st'"
  by (induction rule: account_history.induct) (auto intro: account_step_ok)

section \<open>A sample\<close>

definition demo_challenge :: string where "demo_challenge = replicate 64 (CHR ''a'')"

definition demo_env :: account_env where
  "demo_env = \<lparr>ax_env = sample_env\<lparr>en_now := 0\<rparr>, ax_class = 1, ax_config = demo_config, ax_passwords = demo_passwords,
     ax_salt = replicate 16 (CHR ''s''), ax_raw = replicate 31 (CHR ''x''), ax_session = demo_session,
     ax_token = demo_challenge, ax_code = ''123456'', ax_lower = (\<lambda>s. s), ax_fold = (=), ax_ops_account = ''ops'',
     ax_ops_hash = [], ax_address = Some, ax_email_taken = (\<lambda>_. False), ax_mailed = True\<rparr>"

definition demo_accounts :: account_state where
  "demo_accounts = \<lparr>as_db = fresh_class, as_hash = (\<lambda>_. []), as_emails = [], as_tickets = Map.empty,
     as_resets = [demo_challenge \<mapsto> (looked_up demo_env (sample_user 2 ''group''), 1000)],
     as_challenges = Map.empty, as_sessions = demo_login\<rparr>"

lemma demo_trims: "trim_space ''a@b'' = ''a@b''" "trim_space demo_challenge = demo_challenge" "trim_space ''123456'' = ''123456''"
  "demo_challenge \<noteq> []"
  by code_simp+

lemma demo_student: "find_user fresh_class 4 = Some (sample_user 4 ''student'')"
  by (simp add: find_user_def fresh_class_def sample_class_def sample_user_def)

lemma demo_added:
  "add_email demo_env sample_student ''a@b'' demo_accounts = (Inr demo_challenge, demo_accounts\<lparr>
     as_challenges := [demo_challenge \<mapsto> (\<lparr>pm_user = 4, pm_class = 1, pm_version = 1, pm_email = ''a@b'',
       pm_code_hash = demo_challenge @ '':123456'', pm_attempts = 0\<rparr>, Some 600000)],
     as_db := append_audit sample_student ''email.verification_sent'' ''user_email'' [] fresh_class\<rparr>)"
  by (simp add: add_email_def normalize_user_email_def demo_trims demo_env_def demo_accounts_def demo_student
    sample_student_def sample_actor_def email_code_hash_def demo_config_def now_ms_def sample_env_def)

lemma demo_verified:
  "map_sum id (\<lambda>_. ()) (fst (verify_added_email demo_env sample_student demo_challenge ''123456''
      (snd (add_email demo_env sample_student ''a@b'' demo_accounts)))) = Inr ()"
  "as_emails (snd (verify_added_email demo_env sample_student demo_challenge ''123456''
      (snd (add_email demo_env sample_student ''a@b'' demo_accounts)))) \<noteq> []"
  unfolding demo_added snd_conv
  by (simp_all add: verify_added_email_def demo_trims challenge_get_def demo_env_def demo_accounts_def
    sample_student_def sample_actor_def email_code_hash_def demo_config_def now_ms_def sample_env_def Let_def)

text \<open>
  C20. Whatever happens to the accounts of a class - registrations, logins, forgotten and changed
  passwords, addresses added, verified and removed, and every request of the class itself in
  between - a member never has two primary addresses, every stored address has been verified and
  belongs to one member only, and the invariants of the class and of its accounts hold.
\<close>

theorem account_history_invariant:
  assumes "class_ok (as_db st)" and "members_ok (as_db st)" and "as_emails st = []" and "account_history st st'"
  shows "distinct (map em_user (filter em_primary (as_emails st'))) \<and> distinct (map em_email (as_emails st'))
    \<and> (\<forall>r \<in> set (as_emails st'). em_verified r) \<and> class_ok (as_db st') \<and> members_ok (as_db st')"
proof -
  have "accounts_ok st" using assms(1-3) by (simp add: accounts_ok_def emails_ok_def)
  then have "accounts_ok st'" by (rule account_history_ok [OF assms(4)])
  then show ?thesis by (simp add: accounts_ok_def emails_ok_def list_all_iff)
qed

lemma account_history_invariant_witness:
  "\<exists>st'. account_history demo_accounts st' \<and> as_emails st' \<noteq> []
    \<and> distinct (map em_user (filter em_primary (as_emails st'))) \<and> members_ok (as_db st')"
proof -
  let ?st = "snd (verify_added_email demo_env sample_student demo_challenge ''123456''
      (snd (add_email demo_env sample_student ''a@b'' demo_accounts)))"
  have h: "account_history demo_accounts ?st"
    by (rule account_history.more [OF account_history.more [OF account_history.start email_added] email_verified])
  have "members_ok (as_db demo_accounts)" "class_ok (as_db demo_accounts)"
    using fresh_new(3) new_class_ok [OF fresh_new(1)] by (simp_all add: demo_accounts_def)
  then have "distinct (map em_user (filter em_primary (as_emails ?st))) \<and> members_ok (as_db ?st)"
    using account_history_invariant [OF _ _ _ h] by (simp add: demo_accounts_def)
  then show ?thesis using h demo_verified(2) by blast
qed

section \<open>A forgotten password\<close>

lemma revoked_sessions:
  assumes "session_history c fresh_sessions w"
    and "rotate_session c (sw_now w) raw tok (revoke_user (sw_now w) user [] (sw_keys w)) = (Inr (new, s), k)"
  shows "id_user (rf_identity s) \<noteq> user"
proof
  assume "id_user (rf_identity s) = user"
  from revoke_user_complete [OF session_history_ok [OF assms(1) fresh_sessions_ok] HOL.refl assms(2) this]
  show False by (auto simp: refresh_session_id_def split: option.splits prod.splits if_splits)
qed

text \<open>
  C13. A forgotten password that is set anew through the mailed link ends every access of the
  member: access tokens of the old version are refused, no refresh token of the member
  is accepted, and the link does not work a second time.
\<close>

theorem reset_ends_access:
  assumes "members_ok (as_db st)" and "session_history (ax_config x) fresh_sessions w"
    and "as_sessions st = sw_keys w" and "now_ms x = sw_now w"
    and "reset_password x token password st = (Inr (), st')"
  shows "\<exists>who. cell_get (now_ms x) (as_resets st) (token_hash (ax_config x) (trim_space token)) = Some who
    \<and> (\<forall>b. ac_user b = id_user who \<longrightarrow> ac_version b \<le> id_version who \<longrightarrow> current_actor (as_db st') b = None)
    \<and> (\<forall>raw old new s k. rotate_session (ax_config x) (now_ms x) raw old (as_sessions st') = (Inr (new, s), k)
          \<longrightarrow> id_user (rf_identity s) \<noteq> id_user who)
    \<and> (\<forall>y p. ax_config y = ax_config x \<longrightarrow> fst (reset_password y token p st') \<noteq> Inr ())"
proof -
  let ?key = "token_hash (ax_config x) (trim_space token)"
  have fs: "fst (reset_password x token password st) = Inr ()" "snd (reset_password x token password st) = st'"
    using assms(5) by simp_all
  obtain who where who: "cell_get (now_ms x) (as_resets st) ?key = Some who"
    and one: "count_where (\<lambda>u. us_id u = id_user who \<and> ax_class x = id_class who \<and> us_version u = id_version who
         \<and> us_registered u) (db_users (as_db st)) = 1"
    and rows: "db_users (as_db st') = where_set (\<lambda>u. us_id u = id_user who \<and> ax_class x = id_class who \<and> us_version u = id_version who
         \<and> us_registered u) (\<lambda>u. u\<lparr>us_version := us_version u + 1\<rparr>) (db_users (as_db st))"
    and resets: "as_resets st' = (as_resets st)(?key := None)"
    and keys: "as_sessions st' = revoke_user (now_ms x) (id_user who) [] (as_sessions st)"
    using assms(5) by (auto simp: reset_password_def Let_def split: option.splits if_splits)
  let ?hit = "\<lambda>u. us_id u = id_user who \<and> ax_class x = id_class who \<and> us_version u = id_version who \<and> us_registered u"
  have "filter ?hit (db_users (as_db st)) \<noteq> []" using one by (auto simp: count_where_def)
  then obtain u where u: "u \<in> set (db_users (as_db st))" "?hit u" by (auto simp: filter_empty_conv)
  have f: "find_user (as_db st) (id_user who) = Some u"
    using find_key [OF members_okD(3) [OF assms(1)] u(1)] u(2) by (simp add: find_user_def)
  have "find_user (as_db st') (id_user who) = Some (u\<lparr>us_version := us_version u + 1\<rparr>)"
    using f u(2) unfolding find_user_def rows by (simp add: find_where_set)
  then have refused: "current_actor (as_db st') b = None" if "ac_user b = id_user who" "ac_version b \<le> id_version who" for b
    using that u(2) by (simp add: current_actor_def)
  have sess: "id_user (rf_identity s) \<noteq> id_user who"
    if "rotate_session (ax_config x) (now_ms x) raw old (as_sessions st') = (Inr (new, s), k)" for raw old new s k
    using revoked_sessions [OF assms(2), of raw old "id_user who" new s k] that by (simp add: keys assms(3,4))
  have again: "fst (reset_password y token p st') \<noteq> Inr ()" if "ax_config y = ax_config x" for y p
    using that by (simp add: reset_password_def Let_def resets cell_get_def)
  show ?thesis using who refused sess again by blast
qed

lemma demo_reset:
  "fst (reset_password demo_env demo_challenge ''correct horse'' demo_accounts) = Inr ()"
proof -
  obtain h where h: "hash_password demo_passwords (replicate 16 (CHR ''s'')) ''correct horse'' = Some h"
    by (simp add: hash_password_def valid_password_def Let_def)
  have "valid_hex_token demo_challenge 64"
    by (simp add: valid_hex_token_def demo_challenge_def list_all_iff) (simp add: hex_digit_def)
  moreover have "count_where (\<lambda>u. us_id u = 2 \<and> us_version u = 1 \<and> us_registered u) (db_users fresh_class) = 1"
    by (simp add: count_where_def fresh_class_def sample_class_def sample_user_def)
  ultimately show ?thesis
    using h by (simp add: reset_password_def Let_def demo_trims demo_hash demo_env_def demo_accounts_def cell_get_def
      now_ms_def sample_env_def valid_password_def looked_up_def identity_of_def sample_user_def)
qed

lemma reset_ends_access_witness:
  "\<exists>st'. reset_password demo_env demo_challenge ''correct horse'' demo_accounts = (Inr (), st')
    \<and> current_actor fresh_class sample_reviewer \<noteq> None \<and> current_actor (as_db st') sample_reviewer = None"
proof -
  let ?r = "reset_password demo_env demo_challenge ''correct horse'' demo_accounts"
  have r: "?r = (Inr (), snd ?r)" using demo_reset by (simp add: prod_eq_iff)
  have who: "cell_get (now_ms demo_env) (as_resets demo_accounts) (token_hash (ax_config demo_env) (trim_space demo_challenge))
      = Some (looked_up demo_env (sample_user 2 ''group''))"
    by (simp add: demo_trims demo_hash demo_env_def demo_accounts_def cell_get_def now_ms_def sample_env_def)
  have "\<exists>who. cell_get (now_ms demo_env) (as_resets demo_accounts) (token_hash (ax_config demo_env) (trim_space demo_challenge)) = Some who
    \<and> (\<forall>b. ac_user b = id_user who \<longrightarrow> ac_version b \<le> id_version who \<longrightarrow> current_actor (as_db (snd ?r)) b = None)
    \<and> (\<forall>raw old new s k. rotate_session (ax_config demo_env) (now_ms demo_env) raw old (as_sessions (snd ?r)) = (Inr (new, s), k)
          \<longrightarrow> id_user (rf_identity s) \<noteq> id_user who)
    \<and> (\<forall>y p. ax_config y = ax_config demo_env \<longrightarrow> fst (reset_password y demo_challenge p (snd ?r)) \<noteq> Inr ())"
    by (rule reset_ends_access [OF _ _ _ _ r, where w = demo_world])
      (use fresh_new(3) demo_history in \<open>simp_all add: demo_env_def demo_accounts_def demo_world_def now_ms_def sample_env_def\<close>)
  then have "current_actor (as_db (snd ?r)) sample_reviewer = None"
    unfolding who by (simp add: looked_up_def identity_of_def sample_user_def sample_reviewer_def sample_actor_def)
  moreover have "current_actor fresh_class sample_reviewer \<noteq> None"
    by (simp add: current_actor_def find_user_def fresh_class_def sample_class_def sample_user_def sample_reviewer_def sample_actor_def)
  ultimately show ?thesis using r by blast
qed

section \<open>Guessing a verification code\<close>

fun wrong_codes :: "string \<Rightarrow> (account_env \<times> actor \<times> string \<times> string) list \<Rightarrow> account_state \<Rightarrow> nat" where
  \<comment> \<open>how many of the requests are answered with a wrong code while the challenge \<open>key\<close> is alive\<close>
  "wrong_codes key [] st = 0"
| "wrong_codes key ((x, a, ch, code) # gs) st =
     (if trim_space ch = key \<and> challenge_get (now_ms x) st key \<noteq> None
         \<and> fst (verify_added_email x a ch code st) = Inl code_invalid then 1 else 0)
     + wrong_codes key gs (snd (verify_added_email x a ch code st))"

lemma other_challenge:
  "trim_space ch \<noteq> key \<Longrightarrow> as_challenges (snd (verify_added_email x a ch code st)) key = as_challenges st key"
  by (simp add: verify_added_email_def Let_def split: option.split prod.split)

lemma no_challenge:
  assumes "as_challenges st key = None"
  shows "as_challenges (snd (verify_added_email x a ch code st)) key = None"
proof (cases "trim_space ch = key")
  case True
  then show ?thesis using assms by (auto simp: verify_added_email_def Let_def challenge_get_def)
next
  case False
  then show ?thesis using assms other_challenge by simp
qed

lemma live_challenge:
  assumes "as_challenges st key = Some (p, t)" and "trim_space ch = key"
    and "as_challenges (snd (verify_added_email x a ch code st)) key = Some (q, t')"
  shows "pm_attempts q = pm_attempts p + (if challenge_get (now_ms x) st key \<noteq> None
      \<and> fst (verify_added_email x a ch code st) = Inl code_invalid then 1 else 0)"
    and "q = p \<or> pm_attempts q \<le> 4"
  using assms
  by (auto simp: verify_added_email_def Let_def challenge_get_def code_invalid_def split: option.splits if_splits)

lemma wrong_codes_bound:
  "(as_challenges st key = None \<longrightarrow> wrong_codes key gs st = 0)
   \<and> (\<forall>p t. as_challenges st key = Some (p, t) \<longrightarrow> pm_attempts p \<le> 4 \<longrightarrow> wrong_codes key gs st + pm_attempts p \<le> 5)"
proof (induction gs arbitrary: st)
  case (Cons g gs)
  obtain x a ch code where g: "g = (x, a, ch, code)" by (cases g)
  let ?st = "snd (verify_added_email x a ch code st)"
  show ?case
  proof (intro conjI allI impI)
    assume n: "as_challenges st key = None"
    then have "challenge_get (now_ms x) st key = None" by (simp add: challenge_get_def)
    then show "wrong_codes key (g # gs) st = 0" using Cons.IH [of ?st] no_challenge [OF n] by (simp add: g)
  next
    fix p t
    assume s: "as_challenges st key = Some (p, t)" and p: "pm_attempts p \<le> 4"
    show "wrong_codes key (g # gs) st + pm_attempts p \<le> 5"
    proof (cases "trim_space ch = key")
      case False
      then show ?thesis using Cons.IH [of ?st] other_challenge [OF False] s p by (simp add: g)
    next
      case True
      show ?thesis
      proof (cases "as_challenges ?st key")
        case None
        then have "wrong_codes key gs ?st = 0" using Cons.IH [of ?st] by blast
        then show ?thesis using p by (simp add: g)
      next
        case (Some r)
        obtain q t' where q: "as_challenges ?st key = Some (q, t')" using Some by (cases r) simp
        note l = live_challenge [OF s True q]
        have "pm_attempts q \<le> 4" using l(2) p by auto
        then have "wrong_codes key gs ?st + pm_attempts q \<le> 5" using Cons.IH [of ?st] q by blast
        then show ?thesis using l(1) True by (simp add: g)
      qed
    qed
  qed
qed simp

text \<open>
  A verification code can be guessed at most five times: however many requests are sent, by
  whomever and at whatever times, at most five are told that the code is wrong before
  the challenge is gone.
\<close>

theorem code_guesses_bounded:
  assumes "add_email x a v st = (Inr key, st')"
  shows "wrong_codes key gs st' \<le> 5"
proof -
  obtain p t where "as_challenges st' key = Some (p, t)" "pm_attempts p = 0"
    using assms by (auto simp: add_email_def Let_def split: option.splits if_splits)
  then show ?thesis using wrong_codes_bound [of st' key gs] by auto
qed

lemma code_guesses_bounded_witness:
  "\<exists>st'. add_email demo_env sample_student ''a@b'' demo_accounts = (Inr demo_challenge, st')
    \<and> wrong_codes demo_challenge (replicate 9 (demo_env, sample_student, demo_challenge, ''000000'')) st' \<le> 5"
  by (intro exI conjI, rule demo_added, rule code_guesses_bounded [OF demo_added])

text \<open>
  A link to reset the password survives a change of the password: the token is bound to the
  version of the account, and \<open>changePassword\<close> leaves the version as it is.
\<close>

lemma reset_survives_change:
  assumes "change_password x a session cur new st = (Inr (), st')"
  shows "fst (reset_password y token p st') = fst (reset_password y token p st)"
proof -
  have "as_resets st' = as_resets st" "db_users (as_db st') = db_users (as_db st)"
    using assms by (auto simp: change_password_def append_audit_def split: option.splits if_splits)
  then show ?thesis by (simp add: reset_password_def Let_def split: option.split)
qed

end
