(* ===== verification/Delivery.thy ===== *)
theory Delivery
  imports Sessions Arbitration
begin

text \<open>
  Delivery of outbox events (\<open>events/stream.go\<close>, \<open>events/delivery.go\<close>): the relay from the outbox
  to the stream, the consumer groups with their leases, deferrals and attempts, the dead letters
  and their replay.  A handler runs between the step that takes the lease and the step that reports
  its outcome, and everything may happen in between; the scripts that report one outcome run
  without anything between them.  Redis answers every command; \<open>XADD\<close> of the relay may fail.  Times
  are milliseconds.
\<close>

section \<open>State\<close>

record stream_message =
  sm_id :: int
  sm_event :: string
  sm_class :: string
  sm_type :: string
  sm_payload :: string
  sm_target :: "string option"

record stream_event =
  ev_id :: string
  ev_class :: int
  ev_type :: string
  ev_payload :: string

record dead_letter =
  dl_id :: int
  dl_group :: string
  dl_stream_id :: int
  dl_event :: string
  dl_class :: string
  dl_type :: string
  dl_payload :: string
  dl_error :: string

record outbox_row =
  xo_id :: string
  xo_class :: int
  xo_type :: string
  xo_payload :: string
  xo_created_at :: int
  xo_available_at :: int
  xo_published :: bool
  xo_attempts :: nat

type_synonym delivery_key = "string \<times> string"   \<comment> \<open>consumer group and event\<close>

record stream_state =
  sx_outbox :: "outbox_row list"
  sx_stream :: "stream_message list"
  sx_cursor :: "string \<Rightarrow> int"                        \<comment> \<open>the last entry a group has been given\<close>
  sx_pending :: "(string \<times> int) list"
  sx_leases :: "delivery_key \<Rightarrow> string cell option"
  sx_attempts :: "delivery_key \<Rightarrow> nat cell option"
  sx_deferred :: "delivery_key \<Rightarrow> int cell option"
  sx_observed :: "delivery_key \<Rightarrow> (int \<times> int) option"   \<comment> \<open>blocked since, and the next attempt\<close>
  sx_dead :: "dead_letter list"
  sx_next :: int

record delivery_env =
  dv_json_valid :: "string \<Rightarrow> bool"       \<comment> \<open>\<open>json.Valid\<close>\<close>
  dv_show :: "int \<Rightarrow> string"               \<comment> \<open>the text of a stream id\<close>

definition delivery_lease_ttl :: int where "delivery_lease_ttl = 120000"
definition defer_key_ttl :: int where "defer_key_ttl = 7 * 24 * 3600 * 1000"
definition max_deliveries :: nat where "max_deliveries = 5"

section \<open>The relay\<close>

definition outbox_before :: "outbox_row \<Rightarrow> outbox_row \<Rightarrow> bool" where
  "outbox_before a b \<longleftrightarrow> (xo_created_at a, xo_id a) < (xo_created_at b, xo_id b)"

definition relay_wait :: "nat \<Rightarrow> int" where
  \<comment> \<open>\<open>LEAST(300, power(2, LEAST(attempts, 8)))\<close> seconds\<close>
  "relay_wait attempts = min 300 (2 ^ min attempts 8) * 1000"

definition next_outbox :: "int \<Rightarrow> stream_state \<Rightarrow> outbox_row option" where
  "next_outbox now st = (case sort_less outbox_before
       (filter (\<lambda>r. \<not> xo_published r \<and> xo_available_at r \<le> now) (sx_outbox st)) of
     [] \<Rightarrow> None | r # _ \<Rightarrow> Some r)"

definition relay_one :: "int \<Rightarrow> bool \<Rightarrow> nat \<Rightarrow> stream_state \<Rightarrow> bool \<times> stream_state" where
  \<comment> \<open>\<open>sent\<close>: whether \<open>XADD\<close> succeeds; \<open>trim\<close>: how many old entries it drops above the limit\<close>
  "relay_one now sent trim st = (case next_outbox now st of
     None \<Rightarrow> (False, st)
   | Some r \<Rightarrow>
      if \<not> sent
      then (False, st\<lparr>sx_outbox := where_set (\<lambda>q. xo_id q = xo_id r)
              (\<lambda>q. q\<lparr>xo_attempts := xo_attempts q + 1, xo_available_at := now + relay_wait (xo_attempts q)\<rparr>) (sx_outbox st)\<rparr>)
      else (let m = \<lparr>sm_id = sx_next st, sm_event = xo_id r, sm_class = dec_int (xo_class r), sm_type = xo_type r,
                  sm_payload = xo_payload r, sm_target = None\<rparr>;
                entries = sx_stream st @ [m] in
        (True, st\<lparr>sx_stream := drop (min trim (length entries - 100000)) entries, sx_next := sx_next st + 1,
           sx_outbox := where_set (\<lambda>q. xo_id q = xo_id r)
             (\<lambda>q. q\<lparr>xo_published := True, xo_attempts := xo_attempts q + 1\<rparr>) (sx_outbox st)\<rparr>)))"

definition wait_stream_retry :: "int \<Rightarrow> int \<times> int" where
  \<comment> \<open>the delay, and what the next one starts from\<close>
  "wait_stream_retry wait = (let delay = min 30000 (if wait \<le> 0 then 1000 else wait) in (delay, min 30000 (delay * 2)))"

section \<open>Messages\<close>

definition parse_int64 :: "string \<Rightarrow> int option" where
  \<comment> \<open>\<open>strconv.ParseInt(s, 10, 64)\<close>\<close>
  "parse_int64 s = (case atoi s of None \<Rightarrow> None | Some n \<Rightarrow> if in_int64 n then Some n else None)"

definition decode_message :: "delivery_env \<Rightarrow> stream_message \<Rightarrow> stream_event \<times> bool" where
  \<comment> \<open>the event, as far as it was read, and whether it is complete\<close>
  "decode_message v m = (case parse_int64 (sm_class m) of
     None \<Rightarrow> (\<lparr>ev_id = [], ev_class = 0, ev_type = [], ev_payload = []\<rparr>, False)
   | Some c \<Rightarrow>
      if c < 0 then (\<lparr>ev_id = [], ev_class = 0, ev_type = [], ev_payload = []\<rparr>, False)
      else (let ev = \<lparr>ev_id = sm_event m, ev_class = c, ev_type = sm_type m, ev_payload = sm_payload m\<rparr> in
        (ev, \<not> (c = 0 \<and> sm_type m \<noteq> ''platform.knowledge_document.created'')
           \<and> sm_event m \<noteq> [] \<and> sm_type m \<noteq> [] \<and> dv_json_valid v (sm_payload m))))"

definition read_message :: "string \<Rightarrow> stream_state \<Rightarrow> stream_state" where
  \<comment> \<open>\<open>XREADGROUP ... >\<close>, an entry at a time\<close>
  "read_message g st = (case find (\<lambda>m. sx_cursor st g < sm_id m) (sx_stream st) of
     None \<Rightarrow> st
   | Some m \<Rightarrow> st\<lparr>sx_cursor := (sx_cursor st)(g := sm_id m), sx_pending := sx_pending st @ [(g, sm_id m)]\<rparr>)"

definition holds_lease :: "int \<Rightarrow> delivery_key \<Rightarrow> string \<Rightarrow> stream_state \<Rightarrow> bool" where
  "holds_lease now k token st \<longleftrightarrow> cell_get now (sx_leases st) k = Some token"

definition acquire_delivery :: "int \<Rightarrow> string \<Rightarrow> string \<Rightarrow> int \<Rightarrow> string \<Rightarrow> stream_state \<Rightarrow> stream_state option" where
  "acquire_delivery now g e i token st =
    (if (g, i) \<notin> set (sx_pending st) then None
     else if cell_get now (sx_leases st) (g, e) \<noteq> None then None
     else Some (st\<lparr>sx_leases := (sx_leases st)((g, e) \<mapsto> (token, now + delivery_lease_ttl))\<rparr>))"

definition renew_delivery :: "int \<Rightarrow> delivery_key \<Rightarrow> string \<Rightarrow> stream_state \<Rightarrow> stream_state" where
  "renew_delivery now k token st = (if holds_lease now k token st
     then st\<lparr>sx_leases := (sx_leases st)(k \<mapsto> (token, now + delivery_lease_ttl))\<rparr> else st)"

definition release_delivery :: "int \<Rightarrow> delivery_key \<Rightarrow> string \<Rightarrow> stream_state \<Rightarrow> stream_state" where
  "release_delivery now k token st = (if holds_lease now k token st
     then st\<lparr>sx_leases := (sx_leases st)(k := None)\<rparr> else st)"

definition acknowledge :: "string \<Rightarrow> int \<Rightarrow> stream_state \<Rightarrow> stream_state" where
  "acknowledge g i st = st\<lparr>sx_pending := removeAll (g, i) (sx_pending st)\<rparr>"

section \<open>A delivery\<close>

record running =
  dr_group :: string
  dr_message :: int
  dr_key :: string            \<comment> \<open>the event's id, or the entry's where there is none\<close>
  dr_event :: stream_event
  dr_complete :: bool
  dr_token :: string

datatype delivery_start = NotForGroup | NotAcquired | Postponed | Started running

definition start_delivery ::
    "delivery_env \<Rightarrow> int \<Rightarrow> string \<Rightarrow> stream_message \<Rightarrow> string \<Rightarrow> stream_state \<Rightarrow> delivery_start \<times> stream_state" where
  \<comment> \<open>\<open>handleMessage\<close> up to the handler\<close>
  "start_delivery v now g m token st =
    (if (case sm_target m of None \<Rightarrow> False | Some t \<Rightarrow> t \<noteq> [] \<and> t \<noteq> g)
     then (NotForGroup, acknowledge g (sm_id m) st)
     else (case decode_message v m of (ev, whole) \<Rightarrow>
       (let e = (if ev_id ev = [] then dv_show v (sm_id m) else ev_id ev) in
        (case acquire_delivery now g e (sm_id m) token st of
           None \<Rightarrow> (NotAcquired, st)
         | Some st1 \<Rightarrow>
             if whole \<and> (case cell_get now (sx_deferred st1) (g, e) of None \<Rightarrow> False | Some until \<Rightarrow> now < until)
             then (Postponed, release_delivery now (g, e) token st1)
             else (Started \<lparr>dr_group = g, dr_message = sm_id m, dr_key = e, dr_event = ev, dr_complete = whole,
                     dr_token = token\<rparr>, st1)))))"

datatype outcome = Handled | Interrupted | Deferred int bool | Failed string

definition finish_script ::
    "int \<Rightarrow> running \<Rightarrow> string option \<Rightarrow> stream_state \<Rightarrow> bool \<times> stream_state" where
  \<comment> \<open>\<open>finishDelivery\<close>, with the error of a dead letter; whether the message was acknowledged\<close>
  "finish_script now r dead st =
    (let k = (dr_group r, dr_key r) in
     if \<not> holds_lease now k (dr_token r) st \<or> (dr_group r, dr_message r) \<notin> set (sx_pending st) then (False, st)
     else (let st1 = (case dead of
               Some err \<Rightarrow> st\<lparr>sx_dead := sx_dead st @ [\<lparr>dl_id = sx_next st, dl_group = dr_group r,
                   dl_stream_id = dr_message r, dl_event = dr_key r, dl_class = dec_int (ev_class (dr_event r)),
                   dl_type = ev_type (dr_event r), dl_payload = ev_payload (dr_event r), dl_error = err\<rparr>],
                 sx_next := sx_next st + 1\<rparr>
             | None \<Rightarrow> st\<lparr>sx_attempts := (sx_attempts st)(k := None)\<rparr>);
               st2 = acknowledge (dr_group r) (dr_message r) st1
           in (True, st2\<lparr>sx_deferred := (sx_deferred st2)(k := None), sx_observed := (sx_observed st2)(k := None)\<rparr>)))"

definition observe_deferred :: "int \<Rightarrow> running \<Rightarrow> int \<Rightarrow> bool \<Rightarrow> stream_state \<Rightarrow> stream_state" where
  \<comment> \<open>a block that was expected to end long ago starts anew\<close>
  "observe_deferred now r after observe st =
    (let k = (dr_group r, dr_key r) in
     if \<not> observe then st\<lparr>sx_observed := (sx_observed st)(k := None)\<rparr>
     else (let since = (case sx_observed st k of
              Some (s, nxt) \<Rightarrow> if nxt + 900000 < now then now else s
            | None \<Rightarrow> now)
           in st\<lparr>sx_observed := (sx_observed st)(k \<mapsto> (since, now + after))\<rparr>))"

definition mark_deferred :: "int \<Rightarrow> running \<Rightarrow> int \<Rightarrow> stream_state \<Rightarrow> stream_state" where
  "mark_deferred now r after st = (let k = (dr_group r, dr_key r) in
     if after \<le> 0 then st\<lparr>sx_deferred := (sx_deferred st)(k := None)\<rparr>
     else st\<lparr>sx_deferred := (sx_deferred st)(k \<mapsto> (now + after, now + min (after + 60000) defer_key_ttl))\<rparr>)"

definition count_attempt :: "int \<Rightarrow> running \<Rightarrow> stream_state \<Rightarrow> nat \<times> stream_state" where
  "count_attempt now r st = (let k = (dr_group r, dr_key r);
       n = (case cell_get now (sx_attempts st) k of None \<Rightarrow> 0 | Some n \<Rightarrow> n) + 1 in
     (n, st\<lparr>sx_attempts := (sx_attempts st)(k \<mapsto> (n, now + defer_key_ttl))\<rparr>))"

datatype delivery_end = Acknowledged | DeadLettered | StillPending

definition end_delivery :: "int \<Rightarrow> running \<Rightarrow> outcome \<Rightarrow> stream_state \<Rightarrow> delivery_end \<times> stream_state" where
  \<comment> \<open>\<open>handleMessage\<close> after the handler\<close>
  "end_delivery now r out st =
    (let held = holds_lease now (dr_group r, dr_key r) (dr_token r) st in
     (case (if dr_complete r then out else Failed ''stream message is incomplete'') of
        Interrupted \<Rightarrow> (StillPending, st)
      | Handled \<Rightarrow> (case finish_script now r None st of (ok, st1) \<Rightarrow> (if ok then Acknowledged else StillPending, st1))
      | Deferred after observe \<Rightarrow>
          (StillPending, if held then (let st1 = observe_deferred now r after observe st in
             if ev_id (dr_event r) = [] then st1 else mark_deferred now r after st1) else st)
      | Failed err \<Rightarrow>
          if \<not> held then (StillPending, st)
          else (case count_attempt now r st of (n, st1) \<Rightarrow>
             if n < max_deliveries then (StillPending, st1)
             else (case finish_script now r (Some err) st1 of
                 (ok, st2) \<Rightarrow> (if ok then DeadLettered else StillPending, st2)))))"

definition finish_delivery :: "int \<Rightarrow> running \<Rightarrow> outcome \<Rightarrow> stream_state \<Rightarrow> delivery_end \<times> stream_state" where
  "finish_delivery now r out st = (case end_delivery now r out st of
     (fate, st1) \<Rightarrow> (fate, release_delivery now (dr_group r, dr_key r) (dr_token r) st1))"

definition handle_message :: "delivery_env \<Rightarrow> int \<Rightarrow> string \<Rightarrow> stream_message \<Rightarrow> string \<Rightarrow> int \<Rightarrow> outcome
    \<Rightarrow> stream_state \<Rightarrow> delivery_end \<times> stream_state" where
  \<comment> \<open>with a handler that begins at \<open>now\<close> and ends at \<open>later\<close>, while nothing else happens\<close>
  "handle_message v now g m token later out st = (case start_delivery v now g m token st of
     (NotForGroup, st1) \<Rightarrow> (Acknowledged, st1)
   | (NotAcquired, st1) \<Rightarrow> (StillPending, st1)
   | (Postponed, st1) \<Rightarrow> (StillPending, st1)
   | (Started r, st1) \<Rightarrow> finish_delivery later r out st1)"

definition delivery_alerts :: "int \<Rightarrow> delivery_key list \<Rightarrow> stream_state \<Rightarrow> delivery_key list" where
  \<comment> \<open>the keys among \<open>ks\<close> that are counted: blocked for two hours\<close>
  "delivery_alerts now ks st = filter (\<lambda>k. case sx_observed st k of None \<Rightarrow> False
     | Some (since, nxt) \<Rightarrow> since \<le> now - 2 * 3600 * 1000) ks"

section \<open>Replay of dead letters\<close>

definition letter_of :: "dead_letter \<Rightarrow> stream_message" where
  "letter_of d = \<lparr>sm_id = dl_id d, sm_event = dl_event d, sm_class = dl_class d, sm_type = dl_type d,
     sm_payload = dl_payload d, sm_target = None\<rparr>"

primrec chosen_once :: "dead_letter list \<Rightarrow> dead_letter list" where
  "chosen_once [] = []"
| "chosen_once (d # ds) = d # filter (\<lambda>q. dl_id q \<noteq> dl_id d) (chosen_once ds)"

definition replayable :: "int \<Rightarrow> stream_state \<Rightarrow> dead_letter \<Rightarrow> dead_letter option" where
  \<comment> \<open>the row as it is stored, when it is still the one that was read and nobody works on its event\<close>
  "replayable now st d = (case find (\<lambda>q. dl_id q = dl_id d) (sx_dead st) of
     None \<Rightarrow> None
   | Some q \<Rightarrow>
      if dl_event q \<noteq> dl_event d \<or> dl_group q \<noteq> dl_group d then None
      else if cell_get now (sx_leases st) (dl_group d, dl_event d) \<noteq> None then None
      else Some q)"

definition redeliver_one :: "dead_letter \<Rightarrow> stream_state \<Rightarrow> stream_state" where
  "redeliver_one d st = (let k = (dl_group d, dl_event d) in
     st\<lparr>sx_stream := sx_stream st @ [\<lparr>sm_id = sx_next st, sm_event = dl_event d, sm_class = dl_class d,
          sm_type = dl_type d, sm_payload = dl_payload d, sm_target = Some (dl_group d)\<rparr>],
        sx_next := sx_next st + 1,
        sx_attempts := (sx_attempts st)(k := None), sx_deferred := (sx_deferred st)(k := None),
        sx_observed := (sx_observed st)(k := None),
        sx_dead := delete_where (\<lambda>q. dl_id q = dl_id d) (sx_dead st)\<rparr>)"

datatype redelivery_error = InvalidLetter | DeadLetterChanged

definition redeliver_dead_letters ::
    "delivery_env \<Rightarrow> int \<Rightarrow> dead_letter list \<Rightarrow> stream_state \<Rightarrow> (redelivery_error, stream_state) result" where
  \<comment> \<open>\<open>chosen\<close> are letters read earlier; a letter chosen twice counts once\<close>
  "redeliver_dead_letters v now chosen st =
    (let ds = chosen_once chosen in
     if \<not> list_all (\<lambda>d. snd (decode_message v (letter_of d)) \<and> dl_group d \<noteq> []) ds then Inl InvalidLetter
     else (case those (map (replayable now st) ds) of
         None \<Rightarrow> Inl DeadLetterChanged
       | Some rows \<Rightarrow> Inr (fold redeliver_one rows st)))"

section \<open>Histories\<close>

text \<open>
  Besides the relay, the readers, the handlers and the operator there are the passage of time, a
  worker that dies with a handler at work (\<open>crash\<close>), and \<open>XAUTOCLAIM\<close>, which drops a pending entry
  that the stream no longer holds (\<open>forget\<close>).
\<close>

datatype delivery_fate = Succeeded | GaveUp | Elsewhere | Trimmed

record delivery_world =
  dw_now :: int
  dw_state :: stream_state
  dw_running :: "running list"                           \<comment> \<open>handlers at work\<close>
  dw_closed :: "((string \<times> int) \<times> delivery_fate) list"    \<comment> \<open>what became of the entries that were given out\<close>
  dw_replayed :: "dead_letter list"

definition closed_by :: "delivery_end \<Rightarrow> running \<Rightarrow> ((string \<times> int) \<times> delivery_fate) list" where
  "closed_by fate r = (case fate of StillPending \<Rightarrow> []
     | Acknowledged \<Rightarrow> [((dr_group r, dr_message r), Succeeded)]
     | DeadLettered \<Rightarrow> [((dr_group r, dr_message r), GaveUp)])"

inductive delivery_step :: "delivery_env \<Rightarrow> delivery_world \<Rightarrow> delivery_world \<Rightarrow> bool" for v where
  tick: "dw_now w \<le> t \<Longrightarrow> delivery_step v w (w\<lparr>dw_now := t\<rparr>)"
| relay: "delivery_step v w (w\<lparr>dw_state := snd (relay_one (dw_now w) sent trim (dw_state w))\<rparr>)"
| read: "delivery_step v w (w\<lparr>dw_state := read_message g (dw_state w)\<rparr>)"
| take_up: "m \<in> set (sx_stream (dw_state w)) \<Longrightarrow> start_delivery v (dw_now w) g m token (dw_state w) = (Started r, st)
    \<Longrightarrow> delivery_step v w (w\<lparr>dw_state := st, dw_running := r # dw_running w\<rparr>)"
| leave: "start_delivery v (dw_now w) g m token (dw_state w) = (s, st) \<Longrightarrow> s = NotAcquired \<or> s = Postponed
    \<Longrightarrow> delivery_step v w (w\<lparr>dw_state := st\<rparr>)"
| skip: "start_delivery v (dw_now w) g m token (dw_state w) = (NotForGroup, st) \<Longrightarrow> (g, sm_id m) \<in> set (sx_pending (dw_state w))
    \<Longrightarrow> delivery_step v w (w\<lparr>dw_state := st, dw_closed := ((g, sm_id m), Elsewhere) # dw_closed w\<rparr>)"
| renew: "r \<in> set (dw_running w) \<Longrightarrow> delivery_step v w
    (w\<lparr>dw_state := renew_delivery (dw_now w) (dr_group r, dr_key r) (dr_token r) (dw_state w)\<rparr>)"
| report: "r \<in> set (dw_running w) \<Longrightarrow> finish_delivery (dw_now w) r out (dw_state w) = (fate, st)
    \<Longrightarrow> delivery_step v w (w\<lparr>dw_state := st, dw_running := remove1 r (dw_running w),
          dw_closed := closed_by fate r @ dw_closed w\<rparr>)"
| crash: "delivery_step v w (w\<lparr>dw_running := remove1 r (dw_running w)\<rparr>)"
| replay: "redeliver_dead_letters v (dw_now w) ds (dw_state w) = Inr st \<Longrightarrow> delivery_step v w (w\<lparr>dw_state := st,
    dw_replayed := filter (\<lambda>d. d \<notin> set (sx_dead st)) (sx_dead (dw_state w)) @ dw_replayed w\<rparr>)"
| forget: "(g, i) \<in> set (sx_pending (dw_state w)) \<Longrightarrow> i \<notin> sm_id ` set (sx_stream (dw_state w)) \<Longrightarrow> delivery_step v w
    (w\<lparr>dw_state := acknowledge g i (dw_state w), dw_closed := ((g, i), Trimmed) # dw_closed w\<rparr>)"

inductive delivery_history :: "delivery_env \<Rightarrow> delivery_world \<Rightarrow> delivery_world \<Rightarrow> bool" for v where
  start: "delivery_history v w w"
| more: "delivery_history v w w1 \<Longrightarrow> delivery_step v w1 w2 \<Longrightarrow> delivery_history v w w2"

subsection \<open>What the operations leave alone\<close>

definition same_streams :: "stream_state \<Rightarrow> stream_state \<Rightarrow> bool" where
  "same_streams st st' \<longleftrightarrow> sx_stream st' = sx_stream st \<and> sx_cursor st' = sx_cursor st
     \<and> sx_pending st' = sx_pending st \<and> sx_dead st' = sx_dead st \<and> sx_next st' = sx_next st"

lemma same_streams_simps [simp]:
  "same_streams st st" "same_streams st (release_delivery now k token st)" "same_streams st (renew_delivery now k token st)"
  "same_streams st (observe_deferred now r after obs st)" "same_streams st (mark_deferred now r after st)"
  "same_streams st (snd (count_attempt now r st))"
  by (simp_all add: same_streams_def release_delivery_def renew_delivery_def observe_deferred_def mark_deferred_def
    count_attempt_def Let_def)

lemma same_streams_trans: "same_streams a b \<Longrightarrow> same_streams b c \<Longrightarrow> same_streams a c"
  by (simp add: same_streams_def)

lemma acquire_delivery_D:
  assumes "acquire_delivery now g e i token st = Some st1"
  shows "same_streams st st1" and "(g, i) \<in> set (sx_pending st)" and "cell_get now (sx_leases st) (g, e) = None"
    and "sx_leases st1 = (sx_leases st)((g, e) \<mapsto> (token, now + delivery_lease_ttl))"
    and "sx_attempts st1 = sx_attempts st" and "sx_deferred st1 = sx_deferred st"
  using assms by (auto simp: acquire_delivery_def same_streams_def split: if_splits)

lemma start_delivery_streams:
  assumes "start_delivery v now g m token st = (s, st')"
  shows "s \<noteq> NotForGroup \<Longrightarrow> same_streams st st'" and "s = NotForGroup \<Longrightarrow> st' = acknowledge g (sm_id m) st"
    and "s = Started r \<Longrightarrow> dr_group r = g \<and> dr_message r = sm_id m"
  using assms
  by (auto simp: start_delivery_def Let_def dest: acquire_delivery_D(1) intro: same_streams_trans
    split: prod.splits option.splits if_splits)

lemma finish_script_D:
  assumes "finish_script now r dead st = (ok, st')"
  shows "\<not> ok \<Longrightarrow> st' = st"
    and "ok \<Longrightarrow> (dr_group r, dr_message r) \<in> set (sx_pending st) \<and> sx_stream st' = sx_stream st \<and> sx_cursor st' = sx_cursor st
      \<and> sx_pending st' = removeAll (dr_group r, dr_message r) (sx_pending st) \<and> sx_next st \<le> sx_next st'
      \<and> (dead = None \<longrightarrow> sx_dead st' = sx_dead st)
      \<and> (\<forall>err. dead = Some err \<longrightarrow> (\<exists>d. sx_dead st' = sx_dead st @ [d] \<and> dl_group d = dr_group r
            \<and> dl_stream_id d = dr_message r \<and> dl_event d = dr_key r \<and> dl_error d = err))"
  using assms by (auto simp: finish_script_def acknowledge_def Let_def split: if_splits option.splits)

lemma finish_delivery_D:
  assumes "finish_delivery now r out st = (fate, st')"
  shows "sx_stream st' = sx_stream st \<and> sx_cursor st' = sx_cursor st \<and> sx_next st \<le> sx_next st'
    \<and> (case fate of
         StillPending \<Rightarrow> sx_pending st' = sx_pending st \<and> sx_dead st' = sx_dead st
       | Acknowledged \<Rightarrow> (dr_group r, dr_message r) \<in> set (sx_pending st)
           \<and> sx_pending st' = removeAll (dr_group r, dr_message r) (sx_pending st) \<and> sx_dead st' = sx_dead st
       | DeadLettered \<Rightarrow> (dr_group r, dr_message r) \<in> set (sx_pending st)
           \<and> sx_pending st' = removeAll (dr_group r, dr_message r) (sx_pending st)
           \<and> (\<exists>d. sx_dead st' = sx_dead st @ [d] \<and> dl_group d = dr_group r \<and> dl_stream_id d = dr_message r))"
proof -
  obtain st1 where rep: "end_delivery now r out st = (fate, st1)" and rel: "same_streams st1 st'"
    using assms by (auto simp: finish_delivery_def split: prod.splits)
  have still: "fate = StillPending \<and> same_streams st st1
    \<or> (\<exists>dead st0 ok. same_streams st st0 \<and> finish_script now r dead st0 = (ok, st1)
         \<and> fate = (if \<not> ok then StillPending else if dead = None then Acknowledged else DeadLettered))"
  proof (cases "if dr_complete r then out else Failed ''stream message is incomplete''")
    case Handled
    obtain ok where "finish_script now r None st = (ok, st1)" "fate = (if ok then Acknowledged else StillPending)"
      using rep Handled by (auto simp: end_delivery_def Let_def split: prod.splits)
    then show ?thesis by (intro disjI2 exI [of _ None] exI [of _ st] exI [of _ ok]) simp
  next
    case Interrupted
    then show ?thesis using rep by (simp add: end_delivery_def Let_def)
  next
    case (Deferred after observe)
    have "same_streams st (mark_deferred now r after (observe_deferred now r after observe st))"
      by (rule same_streams_trans [OF same_streams_simps(4) same_streams_simps(5)])
    then have "fate = StillPending \<and> same_streams st st1" using rep Deferred
      by (auto simp: end_delivery_def Let_def split: if_splits)
    then show ?thesis ..
  next
    case (Failed err)
    obtain n st0 where n: "count_attempt now r st = (n, st0)" by fastforce
    have "same_streams st st0" using same_streams_simps(6) [of st now r] n by simp
    show ?thesis
    proof (cases "\<not> holds_lease now (dr_group r, dr_key r) (dr_token r) st \<or> n < max_deliveries")
      case True
      then show ?thesis using rep Failed n \<open>same_streams st st0\<close>
        by (auto simp: end_delivery_def Let_def split: if_splits)
    next
      case False
      then obtain ok where "finish_script now r (Some err) st0 = (ok, st1)"
        "fate = (if ok then DeadLettered else StillPending)"
        using rep Failed n by (auto simp: end_delivery_def Let_def split: prod.splits)
      then show ?thesis using \<open>same_streams st st0\<close>
        by (intro disjI2 exI [of _ "Some err"] exI [of _ st0] exI [of _ ok]) simp
    qed
  qed
  then show ?thesis
  proof
    assume "fate = StillPending \<and> same_streams st st1"
    then show ?thesis using rel by (simp add: same_streams_def)
  next
    assume "\<exists>dead st0 ok. same_streams st st0 \<and> finish_script now r dead st0 = (ok, st1)
         \<and> fate = (if \<not> ok then StillPending else if dead = None then Acknowledged else DeadLettered)"
    then obtain dead st0 ok where d: "same_streams st st0" "finish_script now r dead st0 = (ok, st1)"
      "fate = (if \<not> ok then StillPending else if dead = None then Acknowledged else DeadLettered)" by blast
    show ?thesis
    proof (cases ok)
      case False
      then show ?thesis using finish_script_D(1) [OF d(2)] d(1,3) rel by (simp add: same_streams_def)
    next
      case True
      then show ?thesis using finish_script_D(2) [OF d(2)] d(1,3) rel
        by (cases dead) (auto simp: same_streams_def)
    qed
  qed
qed

lemma lost_lease_no_effect:
  \<comment> \<open>a handler whose lease has lapsed, or was taken over, changes nothing by ending\<close>
  assumes "\<not> holds_lease now (dr_group r, dr_key r) (dr_token r) st"
  shows "finish_delivery now r out st = (StillPending, st)"
  using assms
  by (auto simp: finish_delivery_def end_delivery_def finish_script_def release_delivery_def Let_def
    split: outcome.splits if_splits)

lemma relay_wait_bounds: "1000 \<le> relay_wait n \<and> relay_wait n \<le> 256000"
proof -
  have "(2 :: int) ^ min n 8 \<le> 2 ^ 8" by (rule power_increasing) simp_all
  moreover have "(1 :: int) \<le> 2 ^ min n 8" by (rule one_le_power) simp
  ultimately show ?thesis by (simp add: relay_wait_def)
qed

lemma wait_stream_retry_bounds:
  "0 < fst (wait_stream_retry w) \<and> fst (wait_stream_retry w) \<le> snd (wait_stream_retry w)
   \<and> snd (wait_stream_retry w) \<le> 30000"
  by (simp add: wait_stream_retry_def Let_def min_def)

lemma alert_needs_two_hours:
  \<comment> \<open>a block seen for the first time at \<open>now\<close>, or after a scheduled wait, raises no alarm for two hours\<close>
  assumes "sx_observed st (dr_group r, dr_key r) = None \<or> \<not> observe" and "later < now + 2 * 3600 * 1000"
  shows "(dr_group r, dr_key r) \<notin> set (delivery_alerts later ks (observe_deferred now r after observe st))"
  using assms by (auto simp: delivery_alerts_def observe_deferred_def Let_def split: option.splits if_splits)

subsection \<open>Every entry is accounted for\<close>

definition entries_ok :: "stream_state \<Rightarrow> ((string \<times> int) \<times> delivery_fate) list \<Rightarrow> bool" where
  "entries_ok st ledger \<longleftrightarrow>
     sorted_wrt (<) (map sm_id (sx_stream st)) \<and> (\<forall>m \<in> set (sx_stream st). sm_id m < sx_next st)
   \<and> (\<forall>g. sx_cursor st g < sx_next st)
   \<and> distinct (map fst ledger) \<and> distinct (sx_pending st) \<and> set (sx_pending st) \<inter> fst ` set ledger = {}
   \<and> (\<forall>g i. (g, i) \<in> set (sx_pending st) \<union> fst ` set ledger \<longrightarrow> i \<le> sx_cursor st g)
   \<and> (\<forall>m \<in> set (sx_stream st). \<forall>g. sm_id m \<le> sx_cursor st g \<longrightarrow> (g, sm_id m) \<in> set (sx_pending st) \<union> fst ` set ledger)"

definition letters_ok :: "stream_state \<Rightarrow> dead_letter list \<Rightarrow> ((string \<times> int) \<times> delivery_fate) list \<Rightarrow> bool" where
  "letters_ok st replayed ledger \<longleftrightarrow>
     (\<forall>k. (k, GaveUp) \<in> set ledger \<longleftrightarrow> k \<in> (\<lambda>d. (dl_group d, dl_stream_id d)) ` (set (sx_dead st) \<union> set replayed))"

definition delivery_ok :: "delivery_world \<Rightarrow> bool" where
  "delivery_ok w \<longleftrightarrow> entries_ok (dw_state w) (dw_closed w) \<and> letters_ok (dw_state w) (dw_replayed w) (dw_closed w)"

lemma entries_ok_same: "same_streams st st' \<Longrightarrow> entries_ok st' ledger = entries_ok st ledger"
  by (simp add: entries_ok_def same_streams_def)

lemma letters_ok_same: "same_streams st st' \<Longrightarrow> letters_ok st' replayed ledger = letters_ok st replayed ledger"
  by (simp add: letters_ok_def same_streams_def)

lemma entries_ok_close:
  assumes ok: "entries_ok st ledger" and k: "(g, i) \<in> set (sx_pending st)"
    and st': "sx_stream st' = sx_stream st" "sx_cursor st' = sx_cursor st" "sx_next st \<le> sx_next st'"
      "sx_pending st' = removeAll (g, i) (sx_pending st)"
  shows "entries_ok st' (((g, i), fate) # ledger)"
proof -
  have "(g, i) \<notin> fst ` set ledger" using ok k by (auto simp: entries_ok_def)
  moreover have "\<And>x. x < sx_next st \<Longrightarrow> x < sx_next st'" using st'(3) by simp
  ultimately show ?thesis using ok k by (auto simp: entries_ok_def st'(1,2,4) distinct_removeAll)
qed

lemma entries_ok_append:
  assumes ok: "entries_ok st ledger" and m: "sm_id m = sx_next st"
    and st': "sx_stream st' = drop n (sx_stream st @ [m])" "sx_cursor st' = sx_cursor st" "sx_next st' = sx_next st + 1"
      "sx_pending st' = sx_pending st"
  shows "entries_ok st' ledger"
proof -
  have srt: "sorted_wrt (<) (map sm_id (sx_stream st @ [m]))"
    using ok by (auto simp: entries_ok_def m sorted_wrt_append)
  have sub: "set (sx_stream st') \<subseteq> insert m (set (sx_stream st))" using set_drop_subset [of n "sx_stream st @ [m]"] by (simp add: st')
  have "sorted_wrt (<) (map sm_id (sx_stream st'))"
    unfolding st'(1) drop_map [symmetric] by (rule sorted_wrt_drop [OF srt])
  moreover have "\<forall>x \<in> set (sx_stream st'). sm_id x < sx_next st'" using sub ok by (fastforce simp: entries_ok_def st'(3) m)
  moreover have "\<forall>g. sx_cursor st' g < sx_next st'" using ok by (simp add: entries_ok_def st' add_strict_increasing2 less_imp_le)
  moreover have "\<forall>x \<in> set (sx_stream st'). \<forall>g. sm_id x \<le> sx_cursor st' g \<longrightarrow> (g, sm_id x) \<in> set (sx_pending st') \<union> fst ` set ledger"
    using sub ok by (auto simp: entries_ok_def st'(2,4) m dest!: subsetD) (metis not_less)+
  ultimately show ?thesis using ok by (simp add: entries_ok_def st'(2,4))
qed

lemma find_split: "find P xs = Some x \<Longrightarrow> \<exists>as bs. xs = as @ x # bs \<and> P x \<and> (\<forall>y \<in> set as. \<not> P y)"
proof (induction xs)
  case (Cons y ys)
  show ?case
  proof (cases "P y")
    case True
    then show ?thesis using Cons.prems by (intro exI [of _ "[]"] exI [of _ ys]) simp
  next
    case False
    then obtain as bs where "ys = as @ x # bs" "P x" "\<forall>z \<in> set as. \<not> P z" using Cons by auto
    then show ?thesis using False by (intro exI [of _ "y # as"] exI [of _ bs]) simp
  qed
qed simp

lemma entries_ok_read:
  assumes ok: "entries_ok st ledger" shows "entries_ok (read_message g st) ledger"
proof (cases "find (\<lambda>m. sx_cursor st g < sm_id m) (sx_stream st)")
  case None
  then show ?thesis using ok by (simp add: read_message_def)
next
  case (Some m)
  obtain as bs where st: "sx_stream st = as @ m # bs" and m: "sx_cursor st g < sm_id m"
    and before: "\<And>x. x \<in> set as \<Longrightarrow> sm_id x \<le> sx_cursor st g"
    using find_split [OF Some] by (auto simp: not_less)
  have after: "\<And>x. x \<in> set bs \<Longrightarrow> sm_id m < sm_id x" using ok by (auto simp: entries_ok_def st sorted_wrt_append)
  let ?st = "read_message g st"
  have st': "sx_stream ?st = sx_stream st" "sx_next ?st = sx_next st" "sx_pending ?st = sx_pending st @ [(g, sm_id m)]"
    "sx_cursor ?st = (sx_cursor st)(g := sm_id m)"
    using Some by (simp_all add: read_message_def)
  have low: "i \<le> sx_cursor st h" if "(h, i) \<in> set (sx_pending st) \<union> fst ` set ledger" for h i
    using ok that unfolding entries_ok_def by blast
  have mem: "m \<in> set (sx_stream st)" by (simp add: st)
  have fresh: "(g, sm_id m) \<notin> set (sx_pending st)" "(g, sm_id m) \<notin> fst ` set ledger"
    using low [of g "sm_id m"] m by (simp_all add: not_le [symmetric]) blast+
  have "i \<le> sx_cursor ?st h" if "(h, i) \<in> set (sx_pending ?st) \<union> fst ` set ledger" for h i
  proof (cases "(h, i) = (g, sm_id m)")
    case False
    then have "(h, i) \<in> set (sx_pending st) \<union> fst ` set ledger" using that by (auto simp: st'(3))
    then show ?thesis using low [of h i] m by (cases "h = g") (simp_all add: st'(4))
  qed (simp add: st'(4))
  moreover have "(h, sm_id x) \<in> set (sx_pending ?st) \<union> fst ` set ledger"
    if x: "x \<in> set (sx_stream st)" "sm_id x \<le> sx_cursor ?st h" for x h
  proof -
    have "x = m \<and> h = g \<or> sm_id x \<le> sx_cursor st h"
      using x before [of x] after [of x] by (auto simp: st st'(4) split: if_splits)
    then show ?thesis using ok x(1) by (auto simp: st'(3) entries_ok_def)
  qed
  moreover have "sx_cursor ?st h < sx_next st" for h using ok mem by (simp add: entries_ok_def st'(4))
  ultimately show ?thesis using ok fresh by (simp add: entries_ok_def st'(1-3))
qed

lemma relay_one_D:
  assumes "relay_one now sent trim st = (sent', st')"
  shows "same_streams st st' \<or> (\<exists>m n. sm_id m = sx_next st \<and> sx_stream st' = drop n (sx_stream st @ [m])
    \<and> sx_cursor st' = sx_cursor st \<and> sx_next st' = sx_next st + 1 \<and> sx_pending st' = sx_pending st \<and> sx_dead st' = sx_dead st)"
proof (cases "next_outbox now st")
  case None
  then show ?thesis using assms by (simp add: relay_one_def)
next
  case (Some r)
  let ?m = "\<lparr>sm_id = sx_next st, sm_event = xo_id r, sm_class = dec_int (xo_class r), sm_type = xo_type r,
      sm_payload = xo_payload r, sm_target = None\<rparr>"
  show ?thesis
  proof (cases sent)
    case True
    have "st' = snd (relay_one now sent trim st)" using assms by simp
    then show ?thesis using Some True
      by (intro disjI2 exI [of _ ?m] exI [of _ "min trim (length (sx_stream st @ [?m]) - 100000)"])
        (simp add: relay_one_def Let_def)
  next
    case False
    then show ?thesis using assms Some by (auto simp: relay_one_def same_streams_def)
  qed
qed

lemma redeliver_one_entries: "entries_ok st ledger \<Longrightarrow> entries_ok (redeliver_one d st) ledger"
  by (rule entries_ok_append [where n = 0]) (simp_all add: redeliver_one_def Let_def)

lemma redeliver_rows_entries: "entries_ok st ledger \<Longrightarrow> entries_ok (fold redeliver_one ds st) ledger"
  by (induction ds arbitrary: st) (simp_all add: redeliver_one_entries)

lemma redeliver_rows_dead: "set (sx_dead (fold redeliver_one ds st)) = {q \<in> set (sx_dead st). dl_id q \<notin> dl_id ` set ds}"
  by (induction ds arbitrary: st) (auto simp: redeliver_one_def Let_def set_delete_where)

lemma redeliver_dead_letters_D:
  assumes "redeliver_dead_letters v now ds st = Inr st'"
  obtains rows where "those (map (replayable now st) (chosen_once ds)) = Some rows" and "st' = fold redeliver_one rows st"
  using assms by (auto simp: redeliver_dead_letters_def Let_def split: if_splits option.splits)

lemma letters_ok_report:
  assumes "letters_ok st replayed ledger"
    and "sx_dead st' = sx_dead st @ (if fate = GaveUp then [d] else [])" and "dl_group d = g" "dl_stream_id d = i"
  shows "letters_ok st' replayed (((g, i), fate) # ledger)"
  using assms by (auto simp: letters_ok_def)

lemma delivery_ok_step:
  assumes step: "delivery_step v w w'" and ok: "delivery_ok w"
  shows "delivery_ok w'"
  using step
proof cases
  case (relay sent trim)
  obtain s' st' where r: "relay_one (dw_now w) sent trim (dw_state w) = (s', st')" by fastforce
  have "entries_ok st' (dw_closed w) \<and> letters_ok st' (dw_replayed w) (dw_closed w)"
    using relay_one_D [OF r]
  proof
    assume "same_streams (dw_state w) st'"
    then show ?thesis using ok by (simp add: delivery_ok_def entries_ok_same letters_ok_same)
  next
    assume "\<exists>m n. sm_id m = sx_next (dw_state w) \<and> sx_stream st' = drop n (sx_stream (dw_state w) @ [m])
      \<and> sx_cursor st' = sx_cursor (dw_state w) \<and> sx_next st' = sx_next (dw_state w) + 1
      \<and> sx_pending st' = sx_pending (dw_state w) \<and> sx_dead st' = sx_dead (dw_state w)"
    then obtain m n where m: "sm_id m = sx_next (dw_state w)" "sx_stream st' = drop n (sx_stream (dw_state w) @ [m])"
      "sx_cursor st' = sx_cursor (dw_state w)" "sx_next st' = sx_next (dw_state w) + 1"
      "sx_pending st' = sx_pending (dw_state w)" "sx_dead st' = sx_dead (dw_state w)" by blast
    have "entries_ok st' (dw_closed w)" by (rule entries_ok_append [OF _ m(1-5)]) (use ok in \<open>simp add: delivery_ok_def\<close>)
    then show ?thesis using ok m(6) by (simp add: delivery_ok_def letters_ok_def)
  qed
  then show ?thesis using r by (simp add: relay delivery_ok_def)
next
  case (read g)
  have "sx_dead (read_message g (dw_state w)) = sx_dead (dw_state w)" by (simp add: read_message_def split: option.splits)
  then show ?thesis using ok entries_ok_read [of "dw_state w" "dw_closed w" g] by (simp add: read delivery_ok_def letters_ok_def)
next
  case (take_up m g token r st)
  then have "same_streams (dw_state w) st" using start_delivery_streams(1) by blast
  then show ?thesis using ok by (simp add: take_up(1) delivery_ok_def entries_ok_same letters_ok_same)
next
  case (leave g m token s st)
  then have "same_streams (dw_state w) st" using start_delivery_streams(1) by blast
  then show ?thesis using ok by (simp add: leave(1) delivery_ok_def entries_ok_same letters_ok_same)
next
  case (skip g m token st)
  then have st: "st = acknowledge g (sm_id m) (dw_state w)" using start_delivery_streams(2) by blast
  have "entries_ok st (((g, sm_id m), Elsewhere) # dw_closed w)"
    using ok skip(3) by (intro entries_ok_close [where st = "dw_state w"]) (simp_all add: st acknowledge_def delivery_ok_def)
  moreover have "letters_ok st (dw_replayed w) (((g, sm_id m), Elsewhere) # dw_closed w)"
    using ok by (auto simp: st acknowledge_def delivery_ok_def letters_ok_def)
  ultimately show ?thesis by (simp add: skip(1) delivery_ok_def)
next
  case (renew r)
  then show ?thesis using ok
    by (simp add: delivery_ok_def entries_ok_same [OF same_streams_simps(3)] letters_ok_same [OF same_streams_simps(3)])
next
  case (report r out fate st)
  note D = finish_delivery_D [OF report(3)]
  show ?thesis
  proof (cases fate)
    case StillPending
    then have "entries_ok st (dw_closed w) \<and> letters_ok st (dw_replayed w) (dw_closed w)"
      using D ok by (auto simp: delivery_ok_def entries_ok_def letters_ok_def intro: less_le_trans)
    then show ?thesis using StillPending by (simp add: report(1) delivery_ok_def closed_by_def)
  next
    case Acknowledged
    then have "entries_ok st (((dr_group r, dr_message r), Succeeded) # dw_closed w)"
      using D ok by (intro entries_ok_close [where st = "dw_state w"]) (simp_all add: delivery_ok_def)
    moreover have "letters_ok st (dw_replayed w) (((dr_group r, dr_message r), Succeeded) # dw_closed w)"
      using D ok Acknowledged by (auto simp: delivery_ok_def letters_ok_def)
    ultimately show ?thesis using Acknowledged by (simp add: report(1) delivery_ok_def closed_by_def)
  next
    case DeadLettered
    then obtain d where d: "sx_dead st = sx_dead (dw_state w) @ [d]" "dl_group d = dr_group r" "dl_stream_id d = dr_message r"
      using D by auto
    have "entries_ok st (((dr_group r, dr_message r), GaveUp) # dw_closed w)"
      using D ok DeadLettered by (intro entries_ok_close [where st = "dw_state w"]) (simp_all add: delivery_ok_def)
    moreover have "letters_ok st (dw_replayed w) (((dr_group r, dr_message r), GaveUp) # dw_closed w)"
      using d ok by (intro letters_ok_report [where st = "dw_state w" and d = d]) (simp_all add: delivery_ok_def)
    ultimately show ?thesis using DeadLettered by (simp add: report(1) delivery_ok_def closed_by_def)
  qed
next
  case (replay ds st)
  obtain rows where rows: "st = fold redeliver_one rows (dw_state w)" using replay(2) by (rule redeliver_dead_letters_D)
  have "entries_ok st (dw_closed w)" using ok by (simp add: rows delivery_ok_def redeliver_rows_entries)
  moreover have "set (sx_dead st) \<subseteq> set (sx_dead (dw_state w))" by (auto simp: rows redeliver_rows_dead)
  then have "set (sx_dead st) \<union> set (filter (\<lambda>d. d \<notin> set (sx_dead st)) (sx_dead (dw_state w)) @ dw_replayed w)
      = set (sx_dead (dw_state w)) \<union> set (dw_replayed w)" by auto
  then have "letters_ok st (filter (\<lambda>d. d \<notin> set (sx_dead st)) (sx_dead (dw_state w)) @ dw_replayed w) (dw_closed w)"
    using ok unfolding letters_ok_def delivery_ok_def by metis
  ultimately show ?thesis by (simp add: replay(1) delivery_ok_def)
next
  case (forget g i)
  have "entries_ok (acknowledge g i (dw_state w)) (((g, i), Trimmed) # dw_closed w)"
    using ok forget(2) by (intro entries_ok_close [where st = "dw_state w"]) (simp_all add: acknowledge_def delivery_ok_def)
  moreover have "letters_ok (acknowledge g i (dw_state w)) (dw_replayed w) (((g, i), Trimmed) # dw_closed w)"
    using ok by (auto simp: acknowledge_def delivery_ok_def letters_ok_def)
  ultimately show ?thesis by (simp add: forget(1) delivery_ok_def)
qed (use ok in \<open>simp_all add: delivery_ok_def\<close>)

lemma delivery_history_ok: "delivery_history v w w' \<Longrightarrow> delivery_ok w \<Longrightarrow> delivery_ok w'"
  by (induction rule: delivery_history.induct) (auto intro: delivery_ok_step)

definition fresh_delivery :: "delivery_world \<Rightarrow> bool" where
  "fresh_delivery w \<longleftrightarrow> sx_stream (dw_state w) = [] \<and> sx_pending (dw_state w) = [] \<and> sx_dead (dw_state w) = []
     \<and> dw_running w = [] \<and> dw_closed w = [] \<and> dw_replayed w = [] \<and> (\<forall>g. sx_cursor (dw_state w) g < sx_next (dw_state w))"

lemma fresh_delivery_ok: "fresh_delivery w \<Longrightarrow> delivery_ok w"
  by (simp add: fresh_delivery_def delivery_ok_def entries_ok_def letters_ok_def)

text \<open>
  C17. Nothing given to a consumer group is lost or settled twice.  In every history of relays, reads,
  handlers that succeed, fail, wait, are interrupted or die, lapsing leases, trimmed streams and
  replays: an entry of the stream at or before the position of a group is either still pending for
  the group or has one recorded end, never both; no entry ends twice for a group; and the entries a group gave up
  are exactly those with a dead letter that is still kept or has been replayed.
\<close>

theorem entries_accounted_for:
  assumes "delivery_history v w0 w" and "fresh_delivery w0"
  shows "distinct (map fst (dw_closed w))
    \<and> (\<forall>m \<in> set (sx_stream (dw_state w)). \<forall>g. sm_id m \<le> sx_cursor (dw_state w) g \<longrightarrow>
        ((g, sm_id m) \<in> set (sx_pending (dw_state w))) \<noteq> ((g, sm_id m) \<in> fst ` set (dw_closed w)))
    \<and> (\<forall>g i. ((g, i), GaveUp) \<in> set (dw_closed w) \<longleftrightarrow>
        (\<exists>d \<in> set (sx_dead (dw_state w)) \<union> set (dw_replayed w). dl_group d = g \<and> dl_stream_id d = i))"
proof -
  have ok: "entries_ok (dw_state w) (dw_closed w)" "letters_ok (dw_state w) (dw_replayed w) (dw_closed w)"
    using delivery_history_ok [OF assms(1) fresh_delivery_ok [OF assms(2)]] by (simp_all add: delivery_ok_def)
  then have "distinct (map fst (dw_closed w))" "set (sx_pending (dw_state w)) \<inter> fst ` set (dw_closed w) = {}"
    "\<And>m g. m \<in> set (sx_stream (dw_state w)) \<Longrightarrow> sm_id m \<le> sx_cursor (dw_state w) g
      \<Longrightarrow> (g, sm_id m) \<in> set (sx_pending (dw_state w)) \<union> fst ` set (dw_closed w)"
    unfolding entries_ok_def by blast+
  moreover have "((g, i), GaveUp) \<in> set (dw_closed w) \<longleftrightarrow>
        (\<exists>d \<in> set (sx_dead (dw_state w)) \<union> set (dw_replayed w). dl_group d = g \<and> dl_stream_id d = i)" for g i
    using ok(2) unfolding letters_ok_def by auto
  ultimately show ?thesis by blast
qed

subsection \<open>A handler that keeps failing\<close>

definition delivery_name :: "delivery_env \<Rightarrow> stream_message \<Rightarrow> string" where
  "delivery_name v m = (let e = ev_id (fst (decode_message v m)) in if e = [] then dv_show v (sm_id m) else e)"

definition idle_for :: "string \<Rightarrow> string \<Rightarrow> stream_message \<Rightarrow> nat \<Rightarrow> int \<Rightarrow> stream_state \<Rightarrow> bool" where
  \<comment> \<open>pending, nobody works on it, not deferred, with \<open>n\<close> attempts counted at \<open>prev\<close>\<close>
  "idle_for g e m n prev st \<longleftrightarrow> (g, sm_id m) \<in> set (sx_pending st) \<and> sx_leases st (g, e) = None
     \<and> sx_deferred st (g, e) = None
     \<and> sx_attempts st (g, e) = (if n = 0 then None else Some (n, prev + defer_key_ttl))"

lemma failed_round:
  assumes idle: "idle_for g e m n prev st" and e: "e = delivery_name v m"
    and target: "sm_target m = None \<or> sm_target m = Some g"
    and t: "t \<le> t'" "t' < t + delivery_lease_ttl" "t' < prev + defer_key_ttl"
    and run: "handle_message v t g m token t' (Failed err) st = (fate, st')"
  shows "Suc n < max_deliveries \<Longrightarrow> fate = StillPending \<and> idle_for g e m (Suc n) t' st' \<and> sx_dead st' = sx_dead st
      \<and> sx_pending st' = sx_pending st"
    and "Suc n \<ge> max_deliveries \<Longrightarrow> fate = DeadLettered \<and> sx_pending st' = removeAll (g, sm_id m) (sx_pending st)
      \<and> (\<exists>d. sx_dead st' = sx_dead st @ [d] \<and> dl_group d = g \<and> dl_event d = e \<and> dl_stream_id d = sm_id m)
      \<and> sx_leases st' (g, e) = None"
proof -
  obtain ev whole where dec: "decode_message v m = (ev, whole)" by fastforce
  define r where "r = \<lparr>dr_group = g, dr_message = sm_id m, dr_key = e, dr_event = ev, dr_complete = whole, dr_token = token\<rparr>"
  define st1 where "st1 = st\<lparr>sx_leases := (sx_leases st)((g, e) \<mapsto> (token, t + delivery_lease_ttl))\<rparr>"
  have e': "(if ev_id ev = [] then dv_show v (sm_id m) else ev_id ev) = e" by (simp add: e delivery_name_def dec Let_def)
  have "start_delivery v t g m token st = (Started r, st1)"
    using idle target dec e' by (auto simp: start_delivery_def acquire_delivery_def idle_for_def cell_get_def Let_def r_def st1_def)
  then have fin: "finish_delivery t' r (Failed err) st1 = (fate, st')" using run by (simp add: handle_message_def)
  have held: "holds_lease t' (g, e) token st1" using t by (simp add: holds_lease_def cell_get_def st1_def)
  obtain err' where err': "(if dr_complete r then Failed err else Failed ''stream message is incomplete'') = Failed err'"
    by (cases "dr_complete r") simp_all
  have count: "count_attempt t' r st1 = (Suc n, st1\<lparr>sx_attempts := (sx_attempts st1)((g, e) \<mapsto> (Suc n, t' + defer_key_ttl))\<rparr>)"
    using idle t(3) by (simp add: count_attempt_def idle_for_def cell_get_def st1_def r_def Let_def)
  show "fate = StillPending \<and> idle_for g e m (Suc n) t' st' \<and> sx_dead st' = sx_dead st
      \<and> sx_pending st' = sx_pending st" if "Suc n < max_deliveries"
    using fin held err' count that idle
    by (auto simp: finish_delivery_def end_delivery_def release_delivery_def Let_def r_def idle_for_def holds_lease_def
      cell_get_def st1_def)
  show "fate = DeadLettered \<and> sx_pending st' = removeAll (g, sm_id m) (sx_pending st)
      \<and> (\<exists>d. sx_dead st' = sx_dead st @ [d] \<and> dl_group d = g \<and> dl_event d = e \<and> dl_stream_id d = sm_id m)
      \<and> sx_leases st' (g, e) = None" if "Suc n \<ge> max_deliveries"
    using fin held err' count that idle
    by (auto simp: finish_delivery_def end_delivery_def release_delivery_def finish_script_def acknowledge_def Let_def
      r_def idle_for_def holds_lease_def cell_get_def st1_def)
qed

text \<open>An attempt: the handler begins and ends, the token of its lease, the error it returns.\<close>

type_synonym attempt = "int \<times> int \<times> string \<times> string"

fun failing_rounds :: "delivery_env \<Rightarrow> string \<Rightarrow> stream_message \<Rightarrow> attempt list \<Rightarrow> stream_state \<Rightarrow> delivery_end list \<times> stream_state" where
  "failing_rounds v g m [] st = ([], st)"
| "failing_rounds v g m ((t, t', token, err) # as) st =
    (case handle_message v t g m token t' (Failed err) st of (fate, st1) \<Rightarrow>
       (case failing_rounds v g m as st1 of (fates, st2) \<Rightarrow> (fate # fates, st2)))"

fun well_timed :: "int \<Rightarrow> attempt list \<Rightarrow> bool" where
  \<comment> \<open>no attempt outlasts its lease, none comes a week after the one before\<close>
  "well_timed prev [] \<longleftrightarrow> True"
| "well_timed prev ((t, t', token, err) # as) \<longleftrightarrow>
     t \<le> t' \<and> t' < t + delivery_lease_ttl \<and> t' < prev + defer_key_ttl \<and> well_timed t' as"

lemma failing_rounds_end:
  assumes "idle_for g (delivery_name v m) m n prev st" and "sm_target m = None \<or> sm_target m = Some g"
    and "well_timed prev as" and "length as + n = max_deliveries" and "as \<noteq> []"
    and "failing_rounds v g m as st = (fates, st')"
  shows "fates = replicate (length as - 1) StillPending @ [DeadLettered]
    \<and> sx_pending st' = removeAll (g, sm_id m) (sx_pending st)
    \<and> (\<exists>d. sx_dead st' = sx_dead st @ [d] \<and> dl_group d = g \<and> dl_event d = delivery_name v m \<and> dl_stream_id d = sm_id m)"
  using assms
proof (induction as arbitrary: n prev st fates)
  case (Cons a as)
  obtain t t' token err where a: "a = (t, t', token, err)" by (metis surj_pair)
  obtain fate st1 where one: "handle_message v t g m token t' (Failed err) st = (fate, st1)" by fastforce
  obtain rest st2 where more: "failing_rounds v g m as st1 = (rest, st2)" by fastforce
  have fates: "fates = fate # rest" "st' = st2" using Cons.prems(6) one more by (simp_all add: a)
  have timed: "t \<le> t'" "t' < t + delivery_lease_ttl" "t' < prev + defer_key_ttl" "well_timed t' as"
    using Cons.prems(3) by (simp_all add: a)
  note round = failed_round [OF Cons.prems(1) refl Cons.prems(2) timed(1-3) one]
  show ?case
  proof (cases "as = []")
    case True
    then have "Suc n \<ge> max_deliveries" using Cons.prems(4) by simp
    then show ?thesis using round(2) True more by (simp add: fates)
  next
    case False
    then have n: "Suc n < max_deliveries" using Cons.prems(4) by (cases as) auto
    have step: "fate = StillPending" "idle_for g (delivery_name v m) m (Suc n) t' st1" "sx_dead st1 = sx_dead st"
      "sx_pending st1 = sx_pending st"
      using round(1) [OF n] by simp_all
    show ?thesis
      using Cons.IH [OF step(2) Cons.prems(2) timed(4) _ False more [folded fates(2)]] Cons.prems(4) False step(1,3,4)
      by (cases as) (auto simp: fates)
  qed
qed simp

text \<open>
  C18. A handler that keeps failing does not block its group for ever: a pending entry that nobody works on,
  that is not deferred and has no attempts counted, is handed out again after each of four failures and leaves the group at the
  fifth, as exactly one dead letter that names the group, the entry and the event, whether the
  handler refused the message or the message was unreadable.
\<close>

theorem failing_message_dead_lettered:
  assumes "(g, sm_id m) \<in> set (sx_pending st)" and "sx_leases st (g, delivery_name v m) = None"
    and "sx_deferred st (g, delivery_name v m) = None" and "sx_attempts st (g, delivery_name v m) = None"
    and "sm_target m = None \<or> sm_target m = Some g"
    and "well_timed now as" and "length as = 5"
  shows "\<exists>d st'. failing_rounds v g m as st
      = ([StillPending, StillPending, StillPending, StillPending, DeadLettered], st')
    \<and> sx_pending st' = removeAll (g, sm_id m) (sx_pending st)
    \<and> sx_dead st' = sx_dead st @ [d] \<and> dl_group d = g \<and> dl_event d = delivery_name v m \<and> dl_stream_id d = sm_id m"
proof -
  obtain fates st' where run: "failing_rounds v g m as st = (fates, st')" by fastforce
  have "idle_for g (delivery_name v m) m 0 now st" using assms(1-4) by (simp add: idle_for_def)
  moreover have "as \<noteq> []" using assms(7) by auto
  moreover have "length as + 0 = max_deliveries" using assms(7) by (simp add: max_deliveries_def)
  ultimately have "fates = replicate (length as - 1) StillPending @ [DeadLettered]
    \<and> sx_pending st' = removeAll (g, sm_id m) (sx_pending st)
    \<and> (\<exists>d. sx_dead st' = sx_dead st @ [d] \<and> dl_group d = g \<and> dl_event d = delivery_name v m \<and> dl_stream_id d = sm_id m)"
    using failing_rounds_end [OF _ assms(5,6) _ _ run] by blast
  then have "fates = replicate 4 StillPending @ [DeadLettered]" "sx_pending st' = removeAll (g, sm_id m) (sx_pending st)"
    "\<exists>d. sx_dead st' = sx_dead st @ [d] \<and> dl_group d = g \<and> dl_event d = delivery_name v m \<and> dl_stream_id d = sm_id m"
    using assms(7) by simp_all
  then show ?thesis using run by (auto simp: numeral_eq_Suc)
qed

subsection \<open>A handler that waits\<close>

lemma decode_whole: "decode_message v m = (ev, True) \<Longrightarrow> ev_id ev \<noteq> []"
  by (auto simp: decode_message_def Let_def split: option.splits if_splits)

lemma start_delivery_Started:
  assumes "start_delivery v now g m token st = (Started r, st1)"
  shows "r = \<lparr>dr_group = g, dr_message = sm_id m, dr_key = delivery_name v m, dr_event = fst (decode_message v m),
      dr_complete = snd (decode_message v m), dr_token = token\<rparr>"
    and "st1 = st\<lparr>sx_leases := (sx_leases st)((g, delivery_name v m) \<mapsto> (token, now + delivery_lease_ttl))\<rparr>"
    and "(g, sm_id m) \<in> set (sx_pending st)"
    and "\<not> (case sm_target m of None \<Rightarrow> False | Some t \<Rightarrow> t \<noteq> [] \<and> t \<noteq> g)"
  using assms
  by (auto simp: start_delivery_def acquire_delivery_def delivery_name_def Let_def
    split: prod.splits if_splits option.splits)

text \<open>
  C23. A handler that asks to wait is left alone exactly that long: the message stays pending, no attempt is counted
  against it, and the handler is started again from the moment the wait is over and not before,
  for waits of up to seven days.
\<close>

theorem deferred_event_waits:
  assumes "start_delivery v t0 g m token st = (Started r, st1)" and "dr_complete r"
    and "t0 \<le> t1" and "t1 < t0 + delivery_lease_ttl" and "0 < after" and "after \<le> defer_key_ttl"
    and "finish_delivery t1 r (Deferred after observe) st1 = (fate, st2)"
  shows "fate = StillPending \<and> sx_pending st2 = sx_pending st \<and> sx_attempts st2 = sx_attempts st
    \<and> (\<forall>t token'. (\<exists>r'. fst (start_delivery v t g m token' st2) = Started r') \<longleftrightarrow> t1 + after \<le> t)"
proof -
  note S = start_delivery_Started [OF assms(1)]
  obtain ev where dec: "decode_message v m = (ev, True)" using assms(2) S(1) by (cases "decode_message v m") simp
  have ev: "ev_id ev \<noteq> []" and name: "delivery_name v m = ev_id ev"
    using decode_whole [OF dec] by (simp_all add: delivery_name_def dec Let_def)
  have held: "holds_lease t1 (g, ev_id ev) token st1"
    using assms(4) by (simp add: holds_lease_def cell_get_def S(2) name)
  have fin: "fate = StillPending" "sx_pending st2 = sx_pending st" "sx_attempts st2 = sx_attempts st"
    "sx_leases st2 (g, ev_id ev) = None"
    "sx_deferred st2 (g, ev_id ev) = Some (t1 + after, t1 + min (after + 60000) defer_key_ttl)"
    using assms(4,5,7) held ev
    by (auto simp: finish_delivery_def end_delivery_def S(1) dec name Let_def release_delivery_def observe_deferred_def
      mark_deferred_def holds_lease_def cell_get_def S(2) split: if_splits)
  have "(\<exists>r'. fst (start_delivery v t g m token' st2) = Started r') \<longleftrightarrow> t1 + after \<le> t" for t token'
    using S(3,4) fin(2,4,5) assms(6) ev
    by (auto simp: start_delivery_def acquire_delivery_def dec cell_get_def Let_def)
  then show ?thesis using fin(1-3) by blast
qed

subsection \<open>Replay\<close>

definition replay_of :: "dead_letter \<Rightarrow> stream_message \<Rightarrow> bool" where
  "replay_of d m \<longleftrightarrow> sm_event m = dl_event d \<and> sm_class m = dl_class d \<and> sm_type m = dl_type d
     \<and> sm_payload m = dl_payload d \<and> sm_target m = Some (dl_group d)"

lemma redeliver_rows_D:
  "\<exists>news. sx_stream (fold redeliver_one rows st) = sx_stream st @ news \<and> list_all2 replay_of rows news"
  "sx_attempts (fold redeliver_one rows st) k = (if k \<in> (\<lambda>d. (dl_group d, dl_event d)) ` set rows then None else sx_attempts st k)"
  "sx_deferred (fold redeliver_one rows st) k = (if k \<in> (\<lambda>d. (dl_group d, dl_event d)) ` set rows then None else sx_deferred st k)"
  "sx_pending (fold redeliver_one rows st) = sx_pending st"
proof (induction rows arbitrary: st)
  case (Cons d ds)
  {
    case 1
    obtain news where "sx_stream (fold redeliver_one ds (redeliver_one d st)) = sx_stream (redeliver_one d st) @ news"
      "list_all2 replay_of ds news" using Cons(1) by blast
    moreover define m where "m = \<lparr>sm_id = sx_next st, sm_event = dl_event d, sm_class = dl_class d, sm_type = dl_type d,
        sm_payload = dl_payload d, sm_target = Some (dl_group d)\<rparr>"
    moreover have "replay_of d m" by (simp add: replay_of_def m_def)
    moreover have "sx_stream (redeliver_one d st) = sx_stream st @ [m]" by (simp add: redeliver_one_def Let_def m_def)
    ultimately show ?case by (intro exI [of _ "m # news"]) simp
  next
    case 2 show ?case using Cons(2) by (auto simp: redeliver_one_def Let_def)
  next
    case 3 show ?case using Cons(3) by (auto simp: redeliver_one_def Let_def)
  next
    case 4 show ?case using Cons(4) by (simp add: redeliver_one_def Let_def)
  }
qed simp_all

lemma those_map_D: "those (map f xs) = Some ys \<Longrightarrow> list_all2 (\<lambda>x y. f x = Some y) xs ys"
  by (induction xs arbitrary: ys) (auto split: option.splits)

lemma replayable_D:
  assumes "replayable now st d = Some q"
  shows "q \<in> set (sx_dead st)" and "dl_id q = dl_id d" and "dl_event q = dl_event d" and "dl_group q = dl_group d"
    and "cell_get now (sx_leases st) (dl_group d, dl_event d) = None"
  using assms find_split [of "\<lambda>q. dl_id q = dl_id d" "sx_dead st"]
  by (auto simp: replayable_def split: option.splits if_splits)

lemma set_chosen_once: "dl_id ` set (chosen_once ds) = dl_id ` set ds"
proof (induction ds)
  case (Cons d ds)
  have "dl_id ` {x \<in> set (chosen_once ds). dl_id x \<noteq> dl_id d} = dl_id ` set (chosen_once ds) - {dl_id d}" by auto
  then show ?case using Cons by simp
qed simp

lemma other_group_skips:
  "sm_target m = Some h \<Longrightarrow> h \<noteq> [] \<Longrightarrow> h \<noteq> g \<Longrightarrow> start_delivery v t g m token st = (NotForGroup, acknowledge g (sm_id m) st)"
  by (simp add: start_delivery_def)

text \<open>
  C22. A replay is all or nothing and reaches only the group that had given up.  When it succeeds,
  every chosen letter was still stored as it was read and nobody was working on its event; each is queued exactly once more,
  in the order chosen, with the same event, class, type and payload and its own group as the target;
  every other group acknowledges the copy without starting a handler; exactly the chosen letters leave
  the dead letters; the group's attempts start from zero and no earlier wait delays it.
\<close>

theorem replay_targets_group:
  assumes "redeliver_dead_letters v now ds st = Inr st'"
  shows "\<exists>rows news. sx_stream st' = sx_stream st @ news \<and> list_all2 replay_of rows news
    \<and> list_all2 (\<lambda>d q. dl_id q = dl_id d \<and> dl_event q = dl_event d \<and> dl_group q = dl_group d) (chosen_once ds) rows
    \<and> set rows \<subseteq> set (sx_dead st)
    \<and> set (sx_dead st') = {q \<in> set (sx_dead st). dl_id q \<notin> dl_id ` set ds}
    \<and> (\<forall>q \<in> set rows. cell_get now (sx_leases st) (dl_group q, dl_event q) = None
         \<and> sx_attempts st' (dl_group q, dl_event q) = None \<and> sx_deferred st' (dl_group q, dl_event q) = None)
    \<and> (\<forall>q m g t token s. (q, m) \<in> set (zip rows news) \<longrightarrow> g \<noteq> dl_group q
         \<longrightarrow> start_delivery v t g m token s = (NotForGroup, acknowledge g (sm_id m) s))"
proof -
  obtain rows where rows: "those (map (replayable now st) (chosen_once ds)) = Some rows" "st' = fold redeliver_one rows st"
    using assms by (rule redeliver_dead_letters_D)
  have named: "\<forall>d \<in> set (chosen_once ds). dl_group d \<noteq> []"
    using assms by (auto simp: redeliver_dead_letters_def Let_def list_all_iff split: if_splits)
  have found: "list_all2 (\<lambda>d q. replayable now st d = Some q) (chosen_once ds) rows" by (rule those_map_D [OF rows(1)])
  have each: "\<exists>d \<in> set (chosen_once ds). replayable now st d = Some q" if "q \<in> set rows" for q
    using found that by (auto simp: list_all2_conv_all_nth in_set_conv_nth) (metis nth_mem)
  have same: "list_all2 (\<lambda>d q. dl_id q = dl_id d \<and> dl_event q = dl_event d \<and> dl_group q = dl_group d) (chosen_once ds) rows"
    using found by (rule list_all2_mono) (blast dest: replayable_D)
  have "map dl_id rows = map dl_id (chosen_once ds)"
    using same by (intro nth_equalityI) (auto simp: list_all2_conv_all_nth)
  then have ids: "dl_id ` set rows = dl_id ` set ds" by (metis list.set_map set_chosen_once)
  obtain news where news: "sx_stream st' = sx_stream st @ news" "list_all2 replay_of rows news"
    using redeliver_rows_D(1) [of rows st] rows(2) by blast
  have group: "dl_group q \<noteq> []" if "q \<in> set rows" for q
    using each [OF that] named replayable_D(4) by metis
  have skips: "start_delivery v t g m token s = (NotForGroup, acknowledge g (sm_id m) s)"
    if "(q, m) \<in> set (zip rows news)" "g \<noteq> dl_group q" for q m g t token s
  proof -
    have "replay_of q m" using news(2) that(1) by (auto simp: list_all2_iff)
    then show ?thesis using other_group_skips [of m "dl_group q" g] group [of q] that set_zip_leftD [OF that(1)]
      by (auto simp: replay_of_def)
  qed
  have "set rows \<subseteq> set (sx_dead st)" using each replayable_D(1) by blast
  moreover have "cell_get now (sx_leases st) (dl_group q, dl_event q) = None
      \<and> sx_attempts st' (dl_group q, dl_event q) = None \<and> sx_deferred st' (dl_group q, dl_event q) = None"
    if "q \<in> set rows" for q
    using each [OF that] that replayable_D(3-5) by (auto simp: rows(2) redeliver_rows_D(2,3))
  moreover have "set (sx_dead st') = {q \<in> set (sx_dead st). dl_id q \<notin> dl_id ` set ds}"
    by (simp add: rows(2) redeliver_rows_dead ids)
  ultimately show ?thesis using news same skips by (intro exI [of _ rows] exI [of _ news] conjI) simp_all
qed

subsection \<open>From the outbox to the handler\<close>

lemma digits_value_append: "digits_value acc (xs @ [c])
    = (case digits_value acc xs of None \<Rightarrow> None | Some n \<Rightarrow> map_option (\<lambda>d. 10 * n + d) (decimal_digit c))"
  by (induction acc xs rule: digits_value.induct) (auto split: option.splits)

lemma decimal_digit_digit: "d < 10 \<Longrightarrow> decimal_digit (digit d) = Some (int d)"
  by (simp add: decimal_digit_def digit_def Let_def)

declare dec_nat.simps [simp del]

lemma digits_value_dec_nat: "digits_value 0 (dec_nat n) = Some (int n)"
proof (induction n rule: dec_nat.induct)
  case (1 n)
  show ?case
  proof (cases "n < 10")
    case True
    then show ?thesis by (simp add: dec_nat.simps [of n] decimal_digit_digit)
  next
    case False
    then have "digits_value 0 (dec_nat (n div 10)) = Some (int (n div 10))" using 1 by simp
    then show ?thesis using False
      by (simp add: dec_nat.simps [of n] digits_value_append decimal_digit_digit zdiv_int zmod_int)
  qed
qed

lemma dec_nat_head: "\<exists>d < 10. \<exists>cs. dec_nat n = digit d # cs"
proof (induction n rule: dec_nat.induct)
  case (1 n)
  show ?case
  proof (cases "n < 10")
    case True
    then show ?thesis by (auto simp: dec_nat.simps [of n])
  next
    case False
    then obtain d cs where "d < 10" "dec_nat (n div 10) = digit d # cs" using 1 by auto
    then show ?thesis using False by (auto simp: dec_nat.simps [of n])
  qed
qed

lemma digit_not_sign: "d < 10 \<Longrightarrow> digit d \<noteq> CHR ''-'' \<and> digit d \<noteq> CHR ''+''"
  using decimal_digit_digit [of d] by (auto simp: decimal_digit_def)

lemma parse_dec_int:
  assumes "0 \<le> n" and "n < 2 ^ 63" shows "parse_int64 (dec_int n) = Some n"
proof -
  obtain d cs where d: "d < 10" "dec_nat (nat n) = digit d # cs" using dec_nat_head by blast
  have "atoi (dec_int n) = Some n"
    using digits_value_dec_nat [of "nat n"] digit_not_sign [OF d(1)] assms(1) by (simp add: atoi_def dec_int_def d(2) Let_def)
  then show ?thesis using assms by (simp add: parse_int64_def in_int64_def)
qed

lemma next_outbox_D:
  assumes "next_outbox now st = Some r"
  shows "r \<in> set (sx_outbox st) \<and> \<not> xo_published r \<and> xo_available_at r \<le> now"
proof -
  let ?due = "filter (\<lambda>r. \<not> xo_published r \<and> xo_available_at r \<le> now) (sx_outbox st)"
  obtain rs where "sort_less outbox_before ?due = r # rs" using assms by (auto simp: next_outbox_def split: list.splits)
  then have "r \<in> set ?due" by (metis list.set_intros(1) set_sort_less)
  then show ?thesis by simp
qed

text \<open>
  What a handler is given is what was written in the outbox: the event that the relay picks, sent
  with success, is appended to the stream as an entry that decodes to the same id, class, type and
  payload, the row is never picked again, and rows that are not due stay.
\<close>

theorem relayed_event_decodes:
  assumes "next_outbox now st = Some r" and "relay_one now True trim st = (sent, st')"
    and "0 \<le> xo_class r" and "xo_class r < 2 ^ 63" and "xo_id r \<noteq> []" and "xo_type r \<noteq> []"
    and "xo_class r = 0 \<longrightarrow> xo_type r = ''platform.knowledge_document.created''" and "dv_json_valid v (xo_payload r)"
  shows "sent \<and> (\<exists>m. m = last (sx_stream st') \<and> sm_target m = None \<and> decode_message v m
      = (\<lparr>ev_id = xo_id r, ev_class = xo_class r, ev_type = xo_type r, ev_payload = xo_payload r\<rparr>, True))
    \<and> (\<forall>later q. next_outbox later st' = Some q \<longrightarrow> xo_id q \<noteq> xo_id r)
    \<and> (\<forall>q \<in> set (sx_outbox st). xo_id q \<noteq> xo_id r \<longrightarrow> q \<in> set (sx_outbox st'))"
proof -
  let ?m = "\<lparr>sm_id = sx_next st, sm_event = xo_id r, sm_class = dec_int (xo_class r), sm_type = xo_type r,
      sm_payload = xo_payload r, sm_target = None\<rparr>"
  let ?k = "min trim (length (sx_stream st @ [?m]) - 100000)"
  have st': "sent" "sx_stream st' = drop ?k (sx_stream st @ [?m])"
    "sx_outbox st' = where_set (\<lambda>q. xo_id q = xo_id r)
       (\<lambda>q. q\<lparr>xo_published := True, xo_attempts := xo_attempts q + 1\<rparr>) (sx_outbox st)"
    using assms(1,2) by (auto simp: relay_one_def Let_def simp del: drop_append)
  have "?k < length (sx_stream st @ [?m])" by simp
  then have "last (sx_stream st') = ?m" unfolding st'(2) by (subst last_drop) simp_all
  moreover have "decode_message v ?m
      = (\<lparr>ev_id = xo_id r, ev_class = xo_class r, ev_type = xo_type r, ev_payload = xo_payload r\<rparr>, True)"
    using assms(3-8) by (simp add: decode_message_def parse_dec_int Let_def)
  moreover have "xo_id q \<noteq> xo_id r" if "next_outbox later st' = Some q" for later q
    using next_outbox_D [OF that] by (auto simp: st'(3) where_set_def split: if_splits)
  moreover have "q \<in> set (sx_outbox st')" if "q \<in> set (sx_outbox st)" "xo_id q \<noteq> xo_id r" for q
    using that by (force simp: st'(3) where_set_def)
  ultimately show ?thesis using st'(1) by simp
qed

subsection \<open>Sample deliveries\<close>

definition mail_env :: delivery_env where
  "mail_env = \<lparr>dv_json_valid = (\<lambda>s. s \<noteq> []), dv_show = dec_int\<rparr>"

definition mail_row :: outbox_row where
  "mail_row = \<lparr>xo_id = ''e'', xo_class = 7, xo_type = ''t'', xo_payload = ''{}'', xo_created_at = 1,
     xo_available_at = 1, xo_published = False, xo_attempts = 0\<rparr>"

definition mail_state :: stream_state where
  "mail_state = \<lparr>sx_outbox = [mail_row], sx_stream = [], sx_cursor = (\<lambda>_. 0), sx_pending = [], sx_leases = (\<lambda>_. None),
     sx_attempts = (\<lambda>_. None), sx_deferred = (\<lambda>_. None), sx_observed = (\<lambda>_. None), sx_dead = [], sx_next = 1\<rparr>"

definition mail_world :: delivery_world where
  "mail_world = \<lparr>dw_now = 5, dw_state = mail_state, dw_running = [], dw_closed = [], dw_replayed = []\<rparr>"

definition mail_message :: stream_message where
  "mail_message = \<lparr>sm_id = 1, sm_event = ''e'', sm_class = dec_int 7, sm_type = ''t'', sm_payload = ''{}'', sm_target = None\<rparr>"

definition mail_read :: stream_state where
  "mail_read = read_message ''g'' (snd (relay_one 5 True 0 mail_state))"

lemma mail_due: "next_outbox 5 mail_state = Some mail_row"
  by code_simp

lemma mail_read_simps:
  "sx_stream mail_read = [mail_message]" "sx_pending mail_read = [(''g'', 1)]" "sx_leases mail_read = (\<lambda>_. None)"
  "sx_deferred mail_read = (\<lambda>_. None)" "sx_attempts mail_read = (\<lambda>_. None)"
  "sx_cursor mail_read ''g'' = 1"
  by (simp_all add: mail_read_def relay_one_def mail_due read_message_def Let_def)
    (simp_all add: mail_state_def mail_row_def mail_message_def)

lemma mail_decoded: "decode_message mail_env mail_message
    = (\<lparr>ev_id = ''e'', ev_class = 7, ev_type = ''t'', ev_payload = ''{}''\<rparr>, True)"
  by (simp add: decode_message_def mail_message_def parse_dec_int mail_env_def Let_def)

lemma mail_named: "delivery_name mail_env mail_message = ''e''"
  by (simp add: delivery_name_def mail_decoded Let_def)

definition mail_run :: running where
  "mail_run = \<lparr>dr_group = ''g'', dr_message = 1, dr_key = ''e'',
     dr_event = \<lparr>ev_id = ''e'', ev_class = 7, ev_type = ''t'', ev_payload = ''{}''\<rparr>, dr_complete = True, dr_token = ''k''\<rparr>"

definition mail_begun :: stream_state where
  "mail_begun = snd (start_delivery mail_env 5 ''g'' mail_message ''k'' mail_read)"

lemma mail_run_fields: "dr_group mail_run = ''g''" "dr_message mail_run = 1"
  by (simp_all add: mail_run_def)

lemma mail_started: "start_delivery mail_env 5 ''g'' mail_message ''k'' mail_read = (Started mail_run, mail_begun)"
  by (rule prod_eqI)
    (simp_all add: mail_begun_def start_delivery_def mail_decoded acquire_delivery_def mail_read_simps cell_get_def
      Let_def mail_run_def, simp_all add: mail_message_def mail_read_simps)

lemma mail_begun_eq: "mail_begun = mail_read\<lparr>sx_leases := [(''g'', ''e'') \<mapsto> (''k'', 120005)]\<rparr>"
  using start_delivery_Started(2) [OF mail_started] by (simp add: mail_named delivery_lease_ttl_def mail_read_simps)

definition mail_done :: stream_state where
  "mail_done = snd (finish_delivery 5 mail_run Handled mail_begun)"

lemma mail_finished: "finish_delivery 5 mail_run Handled mail_begun = (Acknowledged, mail_done)"
  by (rule prod_eqI)
    (simp_all add: mail_done_def finish_delivery_def end_delivery_def finish_script_def holds_lease_def cell_get_def
      mail_begun_eq mail_run_def mail_read_simps Let_def)

definition mail_end :: delivery_world where
  "mail_end = mail_world\<lparr>dw_state := mail_done, dw_closed := [((''g'', 1), Succeeded)]\<rparr>"

lemma mail_history: "delivery_history mail_env mail_world mail_end"
proof -
  let ?w1 = "mail_world\<lparr>dw_state := snd (relay_one 5 True 0 mail_state)\<rparr>"
  let ?w2 = "mail_world\<lparr>dw_state := mail_read\<rparr>"
  let ?w3 = "mail_world\<lparr>dw_state := mail_begun, dw_running := [mail_run]\<rparr>"
  have now: "dw_now mail_world = 5" "dw_state mail_world = mail_state" "dw_running mail_world = []" "dw_closed mail_world = []"
    by (simp_all add: mail_world_def)
  have "delivery_step mail_env mail_world ?w1" using relay [of mail_env mail_world True 0] by (simp add: now)
  moreover have "delivery_step mail_env ?w1 ?w2" using read [of mail_env ?w1 "''g''"] by (simp add: mail_read_def)
  moreover have "mail_message \<in> set (sx_stream mail_read)" by (simp add: mail_read_simps)
  then have "delivery_step mail_env ?w2 ?w3"
    using take_up [of mail_message ?w2 mail_env "''g''" "''k''" mail_run mail_begun] by (simp add: now mail_started)
  moreover have "delivery_step mail_env ?w3 mail_end"
    using report [of mail_run ?w3 Handled Acknowledged mail_done mail_env]
    by (simp add: now mail_finished mail_end_def closed_by_def mail_run_fields) (simp add: mail_world_def)
  ultimately show ?thesis by (meson delivery_history.intros)
qed

lemma mail_done_simps: "sx_stream mail_done = [mail_message]" "sx_cursor mail_done ''g'' = 1"
  using finish_delivery_D [OF mail_finished] by (simp_all add: mail_begun_eq mail_read_simps)

lemma entries_accounted_for_witness:
  "delivery_history mail_env mail_world mail_end \<and> distinct (map fst (dw_closed mail_end))
   \<and> ((''g'', 1) \<in> set (sx_pending mail_done)) \<noteq> ((''g'', 1) \<in> fst ` set (dw_closed mail_end))"
proof -
  have "fresh_delivery mail_world" by (simp add: fresh_delivery_def mail_world_def mail_state_def)
  note E = entries_accounted_for [OF mail_history this]
  have st: "dw_state mail_end = mail_done" by (simp add: mail_end_def)
  have "((''g'', sm_id mail_message) \<in> set (sx_pending mail_done)) \<noteq> ((''g'', sm_id mail_message) \<in> fst ` set (dw_closed mail_end))"
    by (rule E [THEN conjunct2, THEN conjunct1, unfolded st, rule_format])
      (simp_all add: mail_done_simps mail_message_def)
  moreover have "sm_id mail_message = 1" by (simp add: mail_message_def)
  ultimately show ?thesis using E [THEN conjunct1] mail_history by simp
qed

definition five_failures :: "attempt list" where
  "five_failures = map (\<lambda>i. (10 + 1000 * i, 20 + 1000 * i, ''k'', ''refused'')) [0, 1, 2, 3, 4]"

lemma failing_message_dead_lettered_witness:
  "\<exists>d st'. failing_rounds mail_env ''g'' mail_message five_failures mail_read
      = ([StillPending, StillPending, StillPending, StillPending, DeadLettered], st')
    \<and> sx_pending st' = removeAll (''g'', sm_id mail_message) (sx_pending mail_read)
    \<and> sx_dead st' = sx_dead mail_read @ [d] \<and> dl_group d = ''g'' \<and> dl_event d = delivery_name mail_env mail_message
    \<and> dl_stream_id d = sm_id mail_message"
proof (rule failing_message_dead_lettered)
  show "(''g'', sm_id mail_message) \<in> set (sx_pending mail_read)" by (simp add: mail_read_simps mail_message_def)
  show "sx_leases mail_read (''g'', delivery_name mail_env mail_message) = None" by (simp add: mail_read_simps mail_message_def)
  show "sx_deferred mail_read (''g'', delivery_name mail_env mail_message) = None" by (simp add: mail_read_simps mail_message_def)
  show "sx_attempts mail_read (''g'', delivery_name mail_env mail_message) = None" by (simp add: mail_read_simps mail_message_def)
  show "sm_target mail_message = None \<or> sm_target mail_message = Some ''g''" by (simp add: mail_message_def)
  show "well_timed 5 five_failures" by (simp add: five_failures_def delivery_lease_ttl_def defer_key_ttl_def)
  show "length five_failures = 5" by (simp add: five_failures_def)
qed

definition mail_waiting :: stream_state where
  "mail_waiting = snd (finish_delivery 9 mail_run (Deferred 60000 False) mail_begun)"

lemma deferred_event_waits_witness:
  "finish_delivery 9 mail_run (Deferred 60000 False) mail_begun = (StillPending, mail_waiting)
   \<and> (\<exists>r'. fst (start_delivery mail_env 60009 ''g'' mail_message ''l'' mail_waiting) = Started r')"
proof -
  have f: "finish_delivery 9 mail_run (Deferred 60000 False) mail_begun = (StillPending, mail_waiting)"
    by (rule prod_eqI)
      (simp_all add: mail_waiting_def finish_delivery_def end_delivery_def holds_lease_def cell_get_def mail_begun_eq
        mail_run_def mail_read_simps Let_def)
  show ?thesis
    using deferred_event_waits [OF mail_started _ _ _ _ _ f] f
    by (simp add: mail_run_def delivery_lease_ttl_def defer_key_ttl_def)
qed

definition mail_letter :: dead_letter where
  "mail_letter = \<lparr>dl_id = 4, dl_group = ''g'', dl_stream_id = 1, dl_event = ''e'', dl_class = dec_int 7, dl_type = ''t'',
     dl_payload = ''{}'', dl_error = ''refused''\<rparr>"

definition mail_failed :: stream_state where
  "mail_failed = mail_state\<lparr>sx_dead := [mail_letter], sx_next := 5\<rparr>"

lemma replay_targets_group_witness:
  "\<exists>st'. redeliver_dead_letters mail_env 9 [mail_letter, mail_letter] mail_failed = Inr st'
    \<and> set (sx_dead st') = {} \<and> sx_attempts st' (''g'', ''e'') = None"
proof -
  have "snd (decode_message mail_env (letter_of mail_letter))"
    by (simp add: decode_message_def letter_of_def mail_letter_def parse_dec_int mail_env_def Let_def)
  moreover have "replayable 9 mail_failed mail_letter = Some mail_letter"
    by (simp add: replayable_def cell_get_def mail_failed_def mail_state_def)
  moreover have "dl_group mail_letter \<noteq> []" by (simp add: mail_letter_def)
  ultimately obtain st' where r: "redeliver_dead_letters mail_env 9 [mail_letter, mail_letter] mail_failed = Inr st'"
    by (simp add: redeliver_dead_letters_def Let_def)
  show ?thesis using replay_targets_group [OF r]
  proof (elim exE conjE)
    fix rows news
    assume rows: "list_all2 (\<lambda>d q. dl_id q = dl_id d \<and> dl_event q = dl_event d \<and> dl_group q = dl_group d)
        (chosen_once [mail_letter, mail_letter]) rows"
      and dead: "set (sx_dead st') = {q \<in> set (sx_dead mail_failed). dl_id q \<notin> dl_id ` set [mail_letter, mail_letter]}"
      and reset: "\<forall>q \<in> set rows. cell_get 9 (sx_leases mail_failed) (dl_group q, dl_event q) = None
        \<and> sx_attempts st' (dl_group q, dl_event q) = None \<and> sx_deferred st' (dl_group q, dl_event q) = None"
    obtain q where "rows = [q]" "dl_event q = ''e''" "dl_group q = ''g''"
      using rows by (auto simp: list_all2_Cons1 mail_letter_def)
    then have "sx_attempts st' (''g'', ''e'') = None" using reset by simp
    moreover have "set (sx_dead st') = {}" unfolding dead by (simp add: mail_failed_def)
    ultimately show ?thesis using r by (intro exI [of _ st']) simp
  qed
qed

lemma relayed_event_decodes_witness:
  "\<exists>m. m = last (sx_stream (snd (relay_one 5 True 0 mail_state))) \<and> snd (decode_message mail_env m)"
proof -
  obtain sent st' where r: "relay_one 5 True 0 mail_state = (sent, st')" by fastforce
  from relayed_event_decodes [OF mail_due r, of mail_env] show ?thesis using r by (auto simp: mail_row_def mail_env_def)
qed

end
