(* ===== verification/Spec2Isabelle.thy ===== *)
theory Spec2Isabelle
  imports Authority AccountLife Delivery
begin

text \<open>
  A verification development for the backend of a class evaluation system
  (\<open>backend/internal\<close>, Go): students file claims for points under a published scheme, two
  reviewers judge each claim, appeals, objections, reports and corrections change it, a
  settlement ranks the class and locks the scores, and a class may govern itself by a council.

  \<^bold>\<open>The program and the theories\<close>

  The pure packages come first, each with its own specification.

  \<^item> \<open>scheme/\<close>: \<open>Scheme\<close> holds the data model (\<open>types.go\<close>) and the arithmetic of \<open>score.go\<close>
    (\<open>score_claim\<close> is \<open>ScoreClaim\<close>, \<open>compute_category_score\<close> is \<open>ComputeCategoryScore\<close>);
    \<open>SchemeRules\<close> the validation, defaults, templates and evidence types (\<open>validate.go\<close>,
    \<open>fallback.go\<close>, \<open>template.go\<close>, \<open>evidence.go\<close>); \<open>SchemeWellformed\<close> what they guarantee.
  \<^item> \<open>settle/\<close>: \<open>Settle\<close> (\<open>compute\<close>, \<open>evaluate_gate_input\<close>).
  \<^item> \<open>dispatch/dispatch.go\<close>: \<open>Dispatch\<close> (\<open>balance\<close>, \<open>pick_one\<close>).
  \<^item> \<open>governance/policy.go\<close>: \<open>Governance\<close> (electorate, thresholds, panels, opinions).
  \<^item> \<open>review/state.go\<close>: the first part of \<open>Reviews\<close>.

  The handlers of \<open>api/\<close> work on the tables of one class.  \<open>Store\<close> has the record \<open>db\<close>, one list of
  rows per table of \<open>db/migrations\<close>, and the constraints and triggers the handlers rely on
  (\<open>sub_row_check\<close>, \<open>sub_update_check\<close>); a handler maps the tables before its transaction to an
  HTTP error (\<open>Inl\<close>, the transaction is rolled back) or to the tables after it with the answer
  (\<open>Inr\<close>).

  \<^item> \<open>Timeline\<close> (\<open>classtimeline\<close>, \<open>scheme_handlers.go\<close>), \<open>BaseClaims\<close>, \<open>Submissions\<close>
    (\<open>submission_handlers.go\<close>), \<open>Reviews\<close> (\<open>review_handlers.go\<close>,
    \<open>classification_handlers.go\<close>), \<open>Corrections\<close> (\<open>force_rejection_handlers.go\<close>), \<open>Appeals\<close> and
    \<open>Arbitration\<close> (\<open>appeal_handlers.go\<close>), \<open>Settlements\<close> (\<open>settlement_handlers.go\<close>,
    \<open>current_score.go\<close>), \<open>Seals\<close> (\<open>seal_handlers.go\<close>), \<open>Objections\<close>
    (\<open>review_objection_handlers.go\<close>), \<open>Reports\<close> (\<open>report_handlers.go\<close>,
    \<open>report_review_handlers.go\<close>), \<open>Bonus\<close> (\<open>bonus_grant_handlers.go\<close>);
  \<^item> \<open>Council\<close>, \<open>Council_Cases\<close>, \<open>Proposals\<close> (\<open>governance_*.go\<close>): the council opens a case for a
    claim, an objection, a report or an appeal, a panel decides it, and the decision runs the
    ordinary handler with a grant in the actor (\<open>run_case_action\<close>);
  \<^item> \<open>DispatchDesk\<close> (\<open>dispatch_handlers.go\<close>, \<open>recusal.go\<close> and the event worker
    \<open>dispatch/worker.go\<close>) gives, moves and retires the seats of reviewers; \<open>Roster\<close>
    (\<open>roster_handlers.go\<close>, \<open>deputy_handlers.go\<close>, \<open>gpa_handlers.go\<close>, with the triggers on members)
    keeps the accounts and the imported averages;
  \<^item> \<open>Requests\<close> puts them together: \<open>request\<close> is the table of \<open>router.go\<close> (61 requests), \<open>handle\<close>
    runs one, \<open>serve\<close> puts the middleware before it (\<open>middleware.go\<close>, \<open>governance_guard.go\<close>,
    \<open>governance_lockdown.go\<close>), \<open>close_due\<close> is the scheduler (\<open>governance_scheduler.go\<close>).
  \<^item> \<open>Intake\<close> has the other writers of claims and seals: \<open>apply_ai_batch\<close> (\<open>ai_handlers.go\<close>),
    \<open>apply_agent_draft\<close> (\<open>agent_action_handlers.go\<close>), and \<open>window_tasks\<close>, the automatic seals at
    the end of the window (\<open>maintenance.go\<close>).

  Beside the tables, \<open>Sessions\<close> (\<open>auth/session.go\<close>) has the refresh tokens in Redis, with \<open>Base64\<close>,
  and \<open>Passwords\<close> (\<open>auth/password.go\<close>) the stored passwords; \<open>Accounts\<close> (\<open>auth/service.go\<close>,
  \<open>me_handlers.go\<close>) puts registration, login and addresses on top of them and of the tables.
  The rows the handlers write to the outbox leave by \<open>Delivery\<close> (\<open>events/stream.go\<close>,
  \<open>events/delivery.go\<close>): the relay appends them to a stream, every consumer group is given each entry
  and keeps it pending until its handler succeeds, asks to wait, or has failed five times; a
  dead letter can be replayed for its group.

  A class is served one transaction at a time: \<open>governanceGuard\<close> takes a lock on the class for every
  request that is not a read, and dispatch adds one of its own (\<open>ClassLockKey\<close>), so a history
  is a sequence of whole handlers.  \<open>acts\<close> in \<open>ClassHistory\<close> is one of them: a request of
  anybody, a closing by the scheduler, an event handled by the dispatch worker, an AI import, a
  confirmed draft of the agent, the seals at the end of the window, or \<open>editing\<close>, which puts
  arbitrary rows in place of the schemes, the evidence, the audit batches and flags and the archive
  switch and so covers every handler that writes only those.  \<open>serves\<close> is a sequence of such
  steps.  Every statement of the Go code that inserts, updates or deletes a submission, an appeal
  or a seal belongs to one of these steps.

  \<^bold>\<open>The lemmas\<close>

  \<^item> \<open>Prelude\<close>: Go's integers as \<open>int\<close> with the wrap-around of \<open>int64\<close>, maps, sorting, and the
    interfaces shared by the components: \<open>go_order\<close> and \<open>keyed_order\<close> for comparison functions (sorting gives
    one result whatever the order of the input), interpreted on the comparisons of the scheme, the settlement,
    the dispatch and the panels; \<open>unique_loop\<close> (\<open>SchemeWellformed\<close>) for loops that refuse a
    second row with a key; \<open>keyed_table\<close> (\<open>Store\<close>) for statements that keep the key of a row.
    \<open>Binary64\<close>: IEEE doubles, \<open>float64\<close>.
  \<^item> \<open>Frames\<close>, \<open>ClassMachine\<close>, \<open>ClassInvariants\<close>, \<open>ClassSteps\<close>, \<open>CouncilSteps\<close>, \<open>ClassLife\<close> and
    \<open>CouncilLife\<close> classify what every handler does to the claims (\<open>row_step\<close> is the abstract life
    cycle, \<open>moves\<close>, \<open>settles\<close>, \<open>quiet\<close> and \<open>effect\<close> are ways a request changes the tables) and prove that it
    keeps the invariant \<open>class_ok\<close>.  \<open>ClassHistory\<close> carries it over all histories and
    refines the life cycle of \<open>review/state.go\<close>; \<open>Guarantees\<close> has what single requests
    guarantee.
  \<^item> \<open>DeskFrames\<close>, \<open>DeskSteps\<close>, \<open>Seats\<close>, \<open>DeskLife\<close>: the same for the seats of reviewers
    (\<open>seats_ok\<close>); \<open>Members\<close> for the accounts (\<open>members_ok\<close>), tokens and administrators.  Both invariants
    are instances of the locale \<open>class_invariant\<close>.  \<open>Authority\<close> states what follows for
    histories, the middleware and the scheduler.
  \<^item> \<open>Sessions\<close> ends with histories of sessions (\<open>session_history\<close>): replayed and revoked tokens.
    \<open>AccountLife\<close> has the histories of accounts (\<open>account_history\<close>), with every act on the class
    among their steps, forgotten passwords and guessed codes.
  \<^item> \<open>Delivery\<close> ends with histories of deliveries (\<open>delivery_history\<close>, handlers interleaved at their
    leases and reports): nothing is lost or settled twice (\<open>delivery_ok\<close>), failures end, waits are kept.
  \<^item> \<open>Samples\<close> is a small class on which the properties are applied.

  \<^bold>\<open>Bounds and fuel\<close>

  Every definition is total; the only loop with fuel trims a string (\<open>strip_runes\<close>: the fuel is the
  length of the string, and every round removes at least one byte).  Scores are thousandths in
  \<open>int64\<close> with wrap-around written out (\<open>i64add\<close>), and so is the arithmetic of vote thresholds (\<open>threshold\<close>).
  Times are nanoseconds (milliseconds in \<open>Delivery\<close>), cut to microseconds where a row is stored (\<open>db_time\<close>).  Identifiers are
  unbounded integers.

  \<^bold>\<open>Parameters\<close>

  The record \<open>env\<close> has what a handler reads outside the tables: the clock, the rounding of a
  \<open>numeric\<close> column, SHA-256, the digests of cases, candidates and rosters (injective JSON
  encodings are not assumed), random bytes, fresh identifiers, and which student numbers other
  classes hold.  Arguments of the definitions are the orders in which Go visits its maps, the results of
  \<open>strconv.ParseFloat\<close>, \<open>encoding/csv\<close> and the spreadsheet reader, whether rows outside the
  modelled tables refer to a member, and the batch a blind assignment belongs to.

  \<^bold>\<open>Not modelled\<close>

  Reads and listings, JSON decoding (a request is its decoded body) and encoding, numeric column
  ranges, the length constraints and foreign keys of the tables other than those named at the
  definitions; uploads, the object store and evidence files beyond their rows; the scorecard
  audits of \<open>blind_audit_handlers.go\<close> beyond the state of their batches (no code creates new
  assignments); publishing and cloning schemes, exports, backups and their proposals; the signing
  of access tokens (\<open>token.go\<close>), rate limits, maintenance mode, the revocation of agent connections, MCP; the
  texts, digests and policy of mails and notifications (the handlers of \<open>Delivery\<close> are its parameters); knowledge bases,
  language models and their jobs; the operators' console; the pacing of the scheduler.  These are
  I/O, delivery or prompting around the tables and change no claim, score, seal, seat or role of the
  model.
\<close>

end
